(* ===== verification/Prelude.thy ===== *)
theory Prelude
  imports Main "HOL-Library.Multiset" "HOL-Library.AList" "HOL-Library.Word"
    "HOL-Library.List_Lexorder" "HOL-Library.Char_ord"
begin

text \<open>
  What the components share: Go errors and the three ways a Go call can end, programs as
  state-passing functions with their sequencing, Go maps as association lists with an explicit
  iteration order, the formatting verbs of \<open>fmt\<close> and the few string operations the sources use.

  A Go call returns a value, returns a non-nil error, or panics (a nil pointer dereference).
  A nil slice and an empty slice, and a nil map and an empty map, are one value here, except in
  the update options of the cloud client, where the code tests \<open>Labels != nil\<close>.
\<close>

named_theorems run_simps \<open>running sequenced programs\<close>
named_theorems inv_intros \<open>preservation of invariants\<close>

section \<open>Errors and results\<close>

text \<open>
  \<open>Errorf\<close> is an error made by \<open>fmt.Errorf\<close> without \<open>%w\<close>, \<open>Wrapf p e\<close> is
  \<open>fmt.Errorf("p: %w", e)\<close>, \<open>APIError code message text\<close> is an \<open>hcloud.Error\<close> of the
  SDK with what its \<open>Error()\<close> method prints, and \<open>KubeError reason text\<close> is an error of
  the Kubernetes client.
\<close>

datatype goerr =
    Errorf string
  | Wrapf string goerr
  | APIError string string string
  | KubeError string string

primrec err_text :: "goerr \<Rightarrow> string" where
  "err_text (Errorf m) = m"
| "err_text (Wrapf p e) = p @ '': '' @ err_text e"
| "err_text (APIError c m t) = t"
| "err_text (KubeError r t) = t"

datatype 'a res = Ok 'a | Err goerr | Panic string

type_synonym ('s, 'a) prog = "'s \<Rightarrow> 'a res \<times> 's"

definition ret :: "'a \<Rightarrow> ('s, 'a) prog" where
  "ret x = (\<lambda>s. (Ok x, s))"

definition failM :: "goerr \<Rightarrow> ('s, 'a) prog" where
  "failM e = (\<lambda>s. (Err e, s))"

definition panicM :: "string \<Rightarrow> ('s, 'a) prog" where
  "panicM m = (\<lambda>s. (Panic m, s))"

definition bindM :: "('s, 'a) prog \<Rightarrow> ('a \<Rightarrow> ('s, 'b) prog) \<Rightarrow> ('s, 'b) prog" where
  "bindM m f = (\<lambda>s. case m s of
      (Ok x, s') \<Rightarrow> f x s'
    | (Err e, s') \<Rightarrow> (Err e, s')
    | (Panic p, s') \<Rightarrow> (Panic p, s'))"

text \<open>\<open>tryM m h\<close> hands the error of \<open>m\<close> to \<open>h\<close>; a panic passes through.\<close>

definition tryM :: "('s, 'a) prog \<Rightarrow> (goerr \<Rightarrow> ('s, 'b) prog) \<Rightarrow> ('a \<Rightarrow> ('s, 'b) prog) \<Rightarrow> ('s, 'b) prog" where
  "tryM m h f = (\<lambda>s. case m s of
      (Ok x, s') \<Rightarrow> f x s'
    | (Err e, s') \<Rightarrow> h e s'
    | (Panic p, s') \<Rightarrow> (Panic p, s'))"

definition wrapM :: "string \<Rightarrow> ('s, 'a) prog \<Rightarrow> ('s, 'a) prog" where
  "wrapM p m = tryM m (\<lambda>e. failM (Wrapf p e)) ret"

definition getM :: "('s \<Rightarrow> 'a) \<Rightarrow> ('s, 'a) prog" where
  "getM f = (\<lambda>s. (Ok (f s), s))"

definition modM :: "('s \<Rightarrow> 's) \<Rightarrow> ('s, unit) prog" where
  "modM f = (\<lambda>s. (Ok (), f s))"

text \<open>A loop over a slice whose body returns at the first error.\<close>

primrec forM :: "'a list \<Rightarrow> ('a \<Rightarrow> ('s, unit) prog) \<Rightarrow> ('s, unit) prog" where
  "forM [] f = ret ()"
| "forM (x # xs) f = bindM (f x) (\<lambda>_. forM xs f)"

text \<open>The same loop with an accumulator (a local variable the body assigns).\<close>

primrec foldM :: "'a list \<Rightarrow> ('b \<Rightarrow> 'a \<Rightarrow> ('s, 'b) prog) \<Rightarrow> 'b \<Rightarrow> ('s, 'b) prog" where
  "foldM [] f b = ret b"
| "foldM (x # xs) f b = bindM (f b x) (foldM xs f)"

lemma ret_run [simp, run_simps]: "ret x s = (Ok x, s)"
  by (simp add: ret_def)

lemma failM_run [simp, run_simps]: "failM e s = (Err e, s)"
  by (simp add: failM_def)

lemma panicM_run [simp, run_simps]: "panicM e s = (Panic e, s)"
  by (simp add: panicM_def)

lemma getM_run [simp, run_simps]: "getM f s = (Ok (f s), s)"
  by (simp add: getM_def)

lemma modM_run [simp, run_simps]: "modM f s = (Ok (), f s)"
  by (simp add: modM_def)

lemma bindM_run [run_simps]:
  "bindM m f s = (case m s of (Ok x, s') \<Rightarrow> f x s' | (Err e, s') \<Rightarrow> (Err e, s')
    | (Panic p, s') \<Rightarrow> (Panic p, s'))"
  by (simp add: bindM_def)

lemma tryM_run [run_simps]:
  "tryM m h f s = (case m s of (Ok x, s') \<Rightarrow> f x s' | (Err e, s') \<Rightarrow> h e s'
    | (Panic p, s') \<Rightarrow> (Panic p, s'))"
  by (simp add: tryM_def)

lemma wrapM_run [run_simps]:
  "wrapM p m s = (case m s of (Ok x, s') \<Rightarrow> (Ok x, s') | (Err e, s') \<Rightarrow> (Err (Wrapf p e), s')
    | (Panic q, s') \<Rightarrow> (Panic q, s'))"
  by (simp add: wrapM_def tryM_def split: prod.split res.split)

text \<open>Sequencing when the outcome of the first program is known.\<close>

lemma bindM_Ok [simp]: "m s = (Ok x, s') \<Longrightarrow> bindM m f s = f x s'"
  by (simp add: bindM_def)

lemma bindM_Err [simp]: "m s = (Err e, s') \<Longrightarrow> bindM m f s = (Err e, s')"
  by (simp add: bindM_def)

lemma wrapM_Ok [simp]: "m s = (Ok x, s') \<Longrightarrow> wrapM p m s = (Ok x, s')"
  by (simp add: wrapM_run)

lemma wrapM_Err [simp]: "m s = (Err e, s') \<Longrightarrow> wrapM p m s = (Err (Wrapf p e), s')"
  by (simp add: wrapM_run)

lemma bindM_ret_left [simp]: "bindM (ret x) f = f x"
  by (rule ext) (simp add: bindM_def)

lemma bindM_assoc: "bindM (bindM m f) g = bindM m (\<lambda>x. bindM (f x) g)"
  by (rule ext) (simp add: bindM_def split: prod.split res.split)

text \<open>A successful sequence ran each part successfully.\<close>

lemma bindM_OkE:
  assumes "bindM m f s = (Ok y, s'')"
  obtains x s' where "m s = (Ok x, s')" and "f x s' = (Ok y, s'')"
  using assms by (auto simp: bindM_def split: prod.splits res.splits)

lemma forM_append: "forM (xs @ ys) f = bindM (forM xs f) (\<lambda>_. forM ys f)"
  by (induction xs) (auto simp: bindM_def fun_eq_iff split: res.splits prod.splits)

lemma wrapM_OkD: "wrapM p m s = (Ok y, s') \<Longrightarrow> m s = (Ok y, s')"
  by (auto simp: wrapM_run split: prod.splits res.splits)

text \<open>\<open>keeps P m\<close>: however \<open>m\<close> ends, it keeps the predicate \<open>P\<close> of the state.\<close>

definition keeps :: "('s \<Rightarrow> bool) \<Rightarrow> ('s, 'a) prog \<Rightarrow> bool" where
  "keeps P m \<longleftrightarrow> (\<forall>s. P s \<longrightarrow> P (snd (m s)))"

lemma keepsI: "(\<And>s. P s \<Longrightarrow> P (snd (m s))) \<Longrightarrow> keeps P m"
  by (simp add: keeps_def)

lemma keepsD: "keeps P m \<Longrightarrow> P s \<Longrightarrow> P (snd (m s))"
  by (simp add: keeps_def)

lemma keeps_ret [inv_intros]: "keeps P (ret x)"
  by (simp add: keeps_def)

lemma keeps_failM [inv_intros]: "keeps P (failM e)"
  by (simp add: keeps_def)

lemma keeps_panicM [inv_intros]: "keeps P (panicM e)"
  by (simp add: keeps_def)

lemma keeps_getM [inv_intros]: "keeps P (getM f)"
  by (simp add: keeps_def)

lemma keeps_bindM [inv_intros]: "keeps P m \<Longrightarrow> (\<And>x. keeps P (f x)) \<Longrightarrow> keeps P (bindM m f)"
  unfolding keeps_def bindM_def
  by (auto split: prod.splits res.splits)

lemma keeps_tryM [inv_intros]:
  "keeps P m \<Longrightarrow> (\<And>e. keeps P (h e)) \<Longrightarrow> (\<And>x. keeps P (f x)) \<Longrightarrow> keeps P (tryM m h f)"
  unfolding keeps_def tryM_def
  by (auto split: prod.splits res.splits)

lemma keeps_wrapM [inv_intros]: "keeps P m \<Longrightarrow> keeps P (wrapM p m)"
  unfolding wrapM_def by (intro inv_intros)

lemma keeps_forM [inv_intros]: "(\<And>x. keeps P (f x)) \<Longrightarrow> keeps P (forM xs f)"
  by (induction xs) (auto intro!: inv_intros)

lemma keeps_foldM [inv_intros]: "(\<And>b x. keeps P (f b x)) \<Longrightarrow> keeps P (foldM xs f b)"
  by (induction xs arbitrary: b) (auto intro!: inv_intros)

section \<open>Go maps\<close>

text \<open>
  A Go map is an association list with distinct keys. The language leaves the order of
  \<open>range\<close> over a map open: a list of choices stands for the runtime's pick at each
  iteration, so that \<open>shuffle ch\<close> is an arbitrary but fixed permutation.
\<close>

type_synonym ('k, 'v) gomap = "('k \<times> 'v) list"

fun shuffle :: "nat list \<Rightarrow> 'a list \<Rightarrow> 'a list" where
  "shuffle ch [] = []"
| "shuffle [] xs = xs"
| "shuffle (c # ch) (x # xs) =
     (let ys = x # xs; i = c mod length ys
      in ys ! i # shuffle ch (take i ys @ drop (Suc i) ys))"

lemma mset_take_drop: "i < length ys \<Longrightarrow> add_mset (ys ! i) (mset (take i ys @ drop (Suc i) ys)) = mset ys"
  by (metis (no_types, lifting) id_take_nth_drop mset.simps(2) mset_append union_mset_add_mset_right)

lemma mset_shuffle [simp]: "mset (shuffle ch xs) = mset xs"
proof (induction ch xs rule: shuffle.induct)
  case (3 c ch x xs)
  let ?ys = "x # xs"
  let ?i = "c mod length ?ys"
  have "?i < length ?ys" by simp
  then show ?case
    using "3.IH"[OF refl refl] mset_take_drop[of ?i ?ys]
    by (simp only: shuffle.simps Let_def mset.simps)
qed simp_all

lemma set_shuffle [simp]: "set (shuffle ch xs) = set xs"
  by (metis mset_shuffle set_mset_mset)

lemma length_shuffle [simp]: "length (shuffle ch xs) = length xs"
  by (metis mset_shuffle size_mset)

lemma distinct_shuffle [simp]: "distinct (shuffle ch xs) = distinct xs"
  by (metis mset_shuffle mset_eq_imp_distinct_iff)

text \<open>Every order the runtime may pick is some list of choices.\<close>

lemma shuffled_map: "distinct (map fst m) \<Longrightarrow> map_of (shuffle ch m) = map_of m"
proof -
  assume d: "distinct (map fst m)"
  have "mset (map fst (shuffle ch m)) = mset (map fst m)" by simp
  then have "distinct (map fst (shuffle ch m))" using d mset_eq_imp_distinct_iff by blast
  then show "map_of (shuffle ch m) = map_of m" using d by (simp add: map_of_inject_set)
qed

lemma shuffle_surj: "mset ys = mset xs \<Longrightarrow> \<exists>ch. shuffle ch xs = ys"
proof (induction ys arbitrary: xs)
  case Nil
  then show ?case by simp
next
  case (Cons y ys)
  then have "y \<in> set xs" by (metis list.set_intros(1) set_mset_mset)
  then obtain i where i: "i < length xs" "xs ! i = y" by (metis in_set_conv_nth)
  have "mset ys = mset (take i xs @ drop (Suc i) xs)"
    using Cons.prems mset_take_drop[OF i(1)] i(2) by (metis add_mset_add_mset_same_iff mset.simps(2))
  then obtain ch where ch: "shuffle ch (take i xs @ drop (Suc i) xs) = ys"
    using Cons.IH by blast
  obtain x zs where xs: "xs = x # zs" using i(1) by (cases xs) auto
  have "shuffle (i # ch) xs = y # ys"
    using i ch unfolding xs by (simp add: Let_def)
  then show ?case by blast
qed

text \<open>\<open>maps.Equal\<close> of the Go standard library.\<close>

definition maps_Equal :: "('k, 'v) gomap \<Rightarrow> ('k, 'v) gomap \<Rightarrow> bool" where
  "maps_Equal a b \<longleftrightarrow> length a = length b \<and> list_all (\<lambda>(k, v). map_of b k = Some v) a"

lemma maps_Equal_iff:
  assumes "distinct (map fst a)" and "distinct (map fst b)"
  shows "maps_Equal a b \<longleftrightarrow> map_of a = map_of b"
proof
  assume eq: "maps_Equal a b"
  have le: "map_of b k = Some v" if "map_of a k = Some v" for k v
    using map_of_SomeD[OF that] eq by (auto simp: maps_Equal_def list_all_iff)
  have sub: "map_of a \<subseteq>\<^sub>m map_of b"
    unfolding map_le_def by (auto simp: le)
  have "card (dom (map_of m)) = length m" if "distinct (map fst m)" for m :: "('a, 'b) gomap"
    using distinct_card[OF that] by (simp add: dom_map_of_conv_image_fst)
  then have "card (dom (map_of a)) = card (dom (map_of b))"
    using eq assms by (simp add: maps_Equal_def)
  moreover have "dom (map_of a) \<subseteq> dom (map_of b)" using sub by (rule map_le_implies_dom_le)
  ultimately have "dom (map_of a) = dom (map_of b)"
    by (simp add: card_subset_eq finite_dom_map_of)
  with sub show "map_of a = map_of b"
    by (metis map_le_antisym map_le_def domIff)
next
  assume eq: "map_of a = map_of b"
  have "set a = set b"
    using eq assms by (metis map_of_eqI map_of_inject_set)
  moreover have "length a = card (set a)" "length b = card (set b)"
    using assms by (simp_all add: distinct_card distinct_map)
  ultimately show "maps_Equal a b"
    using assms eq by (auto simp: maps_Equal_def list_all_iff map_of_eq_Some_iff)
qed

lemma maps_Equal_refl [simp]: "distinct (map fst a) \<Longrightarrow> maps_Equal a a"
  by (simp add: maps_Equal_iff)

section \<open>Formatting and strings\<close>

text \<open>\<open>%d\<close> of an integer.\<close>

fun digits :: "nat \<Rightarrow> string" where
  "digits n = (if n < 10 then [char_of (48 + n)] else digits (n div 10) @ [char_of (48 + n mod 10)])"

declare digits.simps [simp del]

definition fmt_d :: "int \<Rightarrow> string" where
  "fmt_d i = (if i < 0 then CHR ''-'' # digits (nat (- i)) else digits (nat i))"

text \<open>
  \<open>%q\<close> of a string: double quotes, with the escapes of \<open>strconv.Quote\<close> for ASCII.
  Bytes above 127 are kept (valid printable UTF-8 is printed as it is).
\<close>

definition hex_digit :: "nat \<Rightarrow> char" where
  "hex_digit n = (if n < 10 then char_of (48 + n) else char_of (87 + n))"

definition quote_char :: "char \<Rightarrow> string" where
  "quote_char c = (let n = (of_char c :: nat) in
     if n = 34 \<or> n = 92 then [char_of (92::nat), c]
     else if n = 7 then [char_of (92::nat), CHR ''a'']
     else if n = 8 then [char_of (92::nat), CHR ''b'']
     else if n = 9 then [char_of (92::nat), CHR ''t'']
     else if n = 10 then [char_of (92::nat), CHR ''n'']
     else if n = 11 then [char_of (92::nat), CHR ''v'']
     else if n = 12 then [char_of (92::nat), CHR ''f'']
     else if n = 13 then [char_of (92::nat), CHR ''r'']
     else if n < 32 \<or> n = 127 then [char_of (92::nat), CHR ''x'', hex_digit (n div 16), hex_digit (n mod 16)]
     else [c])"

definition fmt_q :: "string \<Rightarrow> string" where
  "fmt_q s = [char_of (34::nat)] @ concat (map quote_char s) @ [char_of (34::nat)]"

text \<open>\<open>strings.ToLower\<close> on ASCII, \<open>strings.Contains\<close>, \<open>strings.Join\<close>.\<close>

definition lower_char :: "char \<Rightarrow> char" where
  "lower_char c = (let n = (of_char c :: nat) in if 65 \<le> n \<and> n \<le> 90 then char_of (n + 32) else c)"

definition strings_ToLower :: "string \<Rightarrow> string" where
  "strings_ToLower = map lower_char"

fun has_prefix :: "string \<Rightarrow> string \<Rightarrow> bool" where
  "has_prefix [] s = True"
| "has_prefix (p # ps) [] = False"
| "has_prefix (p # ps) (c # cs) = (p = c \<and> has_prefix ps cs)"

fun strings_Contains :: "string \<Rightarrow> string \<Rightarrow> bool" where
  "strings_Contains [] sub = (sub = [])"
| "strings_Contains (c # cs) sub = (has_prefix sub (c # cs) \<or> strings_Contains cs sub)"

fun strings_Join :: "string list \<Rightarrow> string \<Rightarrow> string" where
  "strings_Join [] sep = []"
| "strings_Join [s] sep = s"
| "strings_Join (s # t # ss) sep = s @ sep @ strings_Join (t # ss) sep"

lemma has_prefix_iff: "has_prefix p s \<longleftrightarrow> (\<exists>t. s = p @ t)"
  by (induction p s rule: has_prefix.induct) auto

lemma strings_Contains_iff: "strings_Contains s sub \<longleftrightarrow> (\<exists>u v. s = u @ sub @ v)"
proof (induction s)
  case Nil
  then show ?case by auto
next
  case (Cons c cs)
  show ?case
  proof
    assume "strings_Contains (c # cs) sub"
    then consider "has_prefix sub (c # cs)" | "strings_Contains cs sub" by auto
    then show "\<exists>u v. c # cs = u @ sub @ v"
    proof cases
      case 1
      then show ?thesis by (metis append_Nil has_prefix_iff)
    next
      case 2
      then show ?thesis using Cons.IH by (metis append_Cons)
    qed
  next
    assume "\<exists>u v. c # cs = u @ sub @ v"
    then obtain u v where uv: "c # cs = u @ sub @ v" by blast
    show "strings_Contains (c # cs) sub"
    proof (cases u)
      case Nil
      then have "has_prefix sub (c # cs)" using uv by (auto simp: has_prefix_iff)
      then show ?thesis by simp
    next
      case (Cons a w)
      then show ?thesis using uv Cons.IH by auto
    qed
  qed
qed

section \<open>Decimal printing is injective\<close>

definition undigits :: "string \<Rightarrow> nat" where
  "undigits = foldl (\<lambda>a c. 10 * a + (of_char c - 48)) 0"

lemma undigits_digits: "undigits (digits n) = n"
proof (induction n rule: digits.induct)
  case (1 n)
  have small: "\<And>d. d < 10 \<Longrightarrow> (of_char (char_of (48 + d :: nat)) :: nat) = 48 + d" by simp
  show ?case
  proof (cases "n < 10")
    case True
    then show ?thesis by (simp add: digits.simps[of n] undigits_def)
  next
    case False
    then have "undigits (digits (n div 10)) = n div 10" using "1.IH" by simp
    moreover have "undigits (digits n) = 10 * undigits (digits (n div 10)) + n mod 10"
      using False by (simp add: digits.simps[of n] undigits_def)
    ultimately show ?thesis by simp
  qed
qed

lemma digits_inject [simp]: "digits m = digits n \<longleftrightarrow> m = n"
  by (metis undigits_digits)

lemma digits_chars: "c \<in> set (digits n) \<Longrightarrow> 48 \<le> (of_char c :: nat) \<and> (of_char c :: nat) \<le> 57"
proof (induction n rule: digits.induct)
  case (1 n)
  show ?case
  proof (cases "n < 10")
    case True
    then show ?thesis using "1.prems" by (auto simp: digits.simps[of n])
  next
    case False
    have "n mod 10 < 10" by simp
    then show ?thesis using "1.prems" "1.IH" False
      by (auto simp: digits.simps[of n])
  qed
qed

lemma fmt_d_inject [simp]: "fmt_d i = fmt_d j \<longleftrightarrow> i = j"
proof -
  have nominus: "\<And>n cs. digits n \<noteq> CHR ''-'' # cs"
  proof
    fix n cs
    assume "digits n = CHR ''-'' # cs"
    then have "CHR ''-'' \<in> set (digits n)" by simp
    from digits_chars[OF this] show False by simp
  qed
  show ?thesis
    using nominus nominus[symmetric] by (auto simp: fmt_d_def)
qed

end
