(* ===== verification/CloudTypes.thy ===== *)
theory CloudTypes
  imports Prelude
begin

text \<open>
  The data types of the cloud client package (\<open>internal/hcloud/client.go\<close> and
  \<open>loadbalancer_service.go\<close>) and the \<open>Interface\<close> the controllers call. Identifiers are
  Go \<open>int64\<close> values the program only compares and prints; they are \<open>int\<close> here. A
  \<open>time.Duration\<close> is a 64-bit word of nanoseconds, \<open>time.Time\<close> is an optional instant
  (\<open>None\<close> is the zero time).
\<close>

type_synonym int64 = int
type_synonym labels = "(string, string) gomap"
type_synonym duration = "64 word"
type_synonym instant = "int option"

section \<open>Servers\<close>

record ServerInfo =
  srv_ID :: int64
  srv_Name :: string
  srv_ServerType :: string
  srv_State :: string
  srv_PublicIPv4 :: string
  srv_PublicIPv6 :: string
  srv_NetworkIDs :: "int64 list"
  srv_PlacementGroupID :: int64

record ServerCreateOpts =
  sco_Name :: string
  sco_ServerType :: string
  sco_Image :: string
  sco_Location :: string
  sco_Labels :: labels
  sco_SSHKeys :: "string list"
  sco_UserData :: string
  sco_PlacementGroupID :: int64

section \<open>Volumes\<close>

record VolumeInfo =
  vol_ID :: int64
  vol_Name :: string
  vol_Size :: int
  vol_State :: string
  vol_ServerID :: int64
  vol_LinuxDevice :: string

record VolumeCreateOpts =
  vco_Name :: string
  vco_Size :: int
  vco_ServerID :: int64
  vco_Location :: string
  vco_Format :: string
  vco_Automount :: bool
  vco_Labels :: labels

section \<open>Load balancers\<close>

record LoadBalancerHealthCheckHTTPInfo =
  hch_Domain :: "string option"
  hch_Path :: "string option"
  hch_Response :: "string option"
  hch_StatusCodes :: "string list"
  hch_TLS :: "bool option"

record LoadBalancerHealthCheckInfo =
  hci_Protocol :: string
  hci_Port :: "int option"
  hci_Interval :: "duration option"
  hci_Timeout :: "duration option"
  hci_Retries :: "int option"
  hci_HTTP :: "LoadBalancerHealthCheckHTTPInfo option"

record LoadBalancerServiceInfo =
  svc_Protocol :: string
  svc_ListenPort :: int
  svc_DestinationPort :: int
  svc_Proxyprotocol :: bool
  svc_CertificateIDs :: "int64 list"
  svc_HealthCheck :: "LoadBalancerHealthCheckInfo option"

record LoadBalancerInfo =
  lb_ID :: int64
  lb_Name :: string
  lb_PublicIPv4 :: string
  lb_PublicIPv6 :: string
  lb_Targets :: "int64 list"
  lb_Services :: "LoadBalancerServiceInfo list"

record LoadBalancerCreateOpts =
  lco_Name :: string
  lco_LoadBalancerType :: string
  lco_Location :: string
  lco_NetworkZone :: string
  lco_Algorithm :: string
  lco_Labels :: labels

section \<open>Networks\<close>

record NetworkInfo =
  net_ID :: int64
  net_Name :: string
  net_IPRange :: string
  net_SubnetZones :: "string list"
  net_Labels :: labels
  net_ExposeRoutes :: bool

record NetworkCreateOpts =
  nco_Name :: string
  nco_IPRange :: string
  nco_NetworkZones :: "string list"
  nco_Labels :: labels
  nco_ExposeRoutesToVSwitch :: bool

section \<open>Firewalls\<close>

record FirewallRuleInfo =
  fwr_Direction :: string
  fwr_Protocol :: string
  fwr_Port :: "string option"
  fwr_SourceIPs :: "string list"
  fwr_DestinationIPs :: "string list"
  fwr_Description :: "string option"

record FirewallApplyResource =
  far_Type :: string
  far_ServerID :: int64
  far_Selector :: string

record FirewallInfo =
  fw_ID :: int64
  fw_Name :: string
  fw_Labels :: labels
  fw_Rules :: "FirewallRuleInfo list"
  fw_AppliedTo :: "FirewallApplyResource list"

record FirewallCreateOpts =
  fco_Name :: string
  fco_Labels :: labels
  fco_Rules :: "FirewallRuleInfo list"
  fco_ApplyTo :: "FirewallApplyResource list"

text \<open>\<open>FirewallApplyResource.Key\<close> of \<open>firewall.go\<close>: the identity used for diffing.\<close>

definition Key :: "FirewallApplyResource \<Rightarrow> string" where
  "Key a = (if far_Type a = ''server'' then ''server:'' @ fmt_d (far_ServerID a)
            else if far_Type a = ''label_selector'' then ''label_selector:'' @ far_Selector a
            else ''unknown:'' @ far_Type a)"

section \<open>Placement groups, primary IPs, floating IPs, certificates\<close>

record PlacementGroupInfo =
  pg_ID :: int64
  pg_Name :: string
  pg_Type :: string
  pg_Labels :: labels

record PlacementGroupCreateOpts =
  pco_Name :: string
  pco_Type :: string
  pco_Labels :: labels

record PrimaryIPInfo =
  pip_ID :: int64
  pip_Name :: string
  pip_Type :: string
  pip_IP :: string
  pip_Datacenter :: string
  pip_Labels :: labels
  pip_AssigneeID :: int64
  pip_AssigneeType :: string
  pip_AutoDelete :: bool
  pip_DNSPtr :: "(string, string) gomap"

record PrimaryIPCreateOpts =
  ipc_Name :: string
  ipc_Type :: string
  ipc_Datacenter :: string
  ipc_Labels :: labels
  ipc_AutoDelete :: "bool option"
  ipc_AssigneeID :: int64
  ipc_AssigneeType :: string

record PrimaryIPUpdateOpts =
  ipu_Labels :: "labels option"
  ipu_AutoDelete :: "bool option"

record FloatingIPInfo =
  fip_ID :: int64
  fip_Name :: string
  fip_Type :: string
  fip_IP :: string
  fip_Location :: string
  fip_Description :: string
  fip_Labels :: labels
  fip_ServerID :: int64
  fip_DNSPtr :: "(string, string) gomap"

record FloatingIPCreateOpts =
  fic_Name :: string
  fic_Type :: string
  fic_Location :: string
  fic_Labels :: labels
  fic_Description :: string
  fic_ServerID :: int64

record FloatingIPUpdateOpts =
  fiu_Labels :: "labels option"
  fiu_Description :: string

record CertificateInfo =
  crt_ID :: int64
  crt_Name :: string
  crt_Type :: string
  crt_Labels :: labels
  crt_DomainNames :: "string list"
  crt_Fingerprint :: string
  crt_NotValidBefore :: instant
  crt_NotValidAfter :: instant
  crt_IssuanceStatus :: string

record CertificateCreateOpts =
  cco_Name :: string
  cco_Type :: string
  cco_Labels :: labels
  cco_Certificate :: string
  cco_PrivateKey :: string
  cco_DomainNames :: "string list"

record CertificateUpdateOpts =
  ccu_Labels :: "labels option"

text \<open>\<open>primaryIPAssigneeType\<close> and \<open>CertificateReady\<close> of \<open>client.go\<close>; a nil
  certificate is \<open>None\<close>. The two SDK constants are ``uploaded'' and ``completed''.\<close>

definition primaryIPAssigneeType :: "string \<Rightarrow> string" where
  "primaryIPAssigneeType t = (if t = '''' then ''server'' else t)"

definition certificateReady :: "CertificateInfo option \<Rightarrow> bool" where
  "certificateReady info = (case info of None \<Rightarrow> False
     | Some i \<Rightarrow> if crt_Type i = ''uploaded'' then True
                 else crt_IssuanceStatus i = ''completed'')"

definition CertificateReady :: "CertificateInfo option \<Rightarrow> bool" where
  "CertificateReady info = certificateReady info"

section \<open>The client interface\<close>

text \<open>
  \<open>Interface\<close>: one program over the cloud's state \<open>'c\<close> per method. A lookup that
  returns \<open>nil, nil\<close> is \<open>Ok None\<close>. The state type is a parameter, so the fake client, the
  instrumented client and the client over the SDK are values of this type.
\<close>

record 'c Interface =
  GetServer :: "int64 \<Rightarrow> ('c, ServerInfo option) prog"
  GetServerByName :: "string \<Rightarrow> ('c, ServerInfo option) prog"
  CreateServer :: "ServerCreateOpts \<Rightarrow> ('c, ServerInfo) prog"
  DeleteServer :: "int64 \<Rightarrow> ('c, unit) prog"
  PowerOffServer :: "int64 \<Rightarrow> ('c, unit) prog"
  PowerOnServer :: "int64 \<Rightarrow> ('c, unit) prog"
  ChangeServerType :: "int64 \<Rightarrow> string \<Rightarrow> bool \<Rightarrow> ('c, unit) prog"
  AttachServerToNetwork :: "int64 \<Rightarrow> int64 \<Rightarrow> ('c, unit) prog"
  DetachServerFromNetwork :: "int64 \<Rightarrow> int64 \<Rightarrow> ('c, unit) prog"
  GetVolume :: "int64 \<Rightarrow> ('c, VolumeInfo option) prog"
  GetVolumeByName :: "string \<Rightarrow> ('c, VolumeInfo option) prog"
  CreateVolume :: "VolumeCreateOpts \<Rightarrow> ('c, VolumeInfo) prog"
  DeleteVolume :: "int64 \<Rightarrow> ('c, unit) prog"
  AttachVolume :: "int64 \<Rightarrow> int64 \<Rightarrow> ('c, unit) prog"
  DetachVolume :: "int64 \<Rightarrow> ('c, unit) prog"
  ResizeVolume :: "int64 \<Rightarrow> int \<Rightarrow> ('c, unit) prog"
  GetLoadBalancer :: "int64 \<Rightarrow> ('c, LoadBalancerInfo option) prog"
  GetLoadBalancerByName :: "string \<Rightarrow> ('c, LoadBalancerInfo option) prog"
  CreateLoadBalancer :: "LoadBalancerCreateOpts \<Rightarrow> ('c, LoadBalancerInfo) prog"
  DeleteLoadBalancer :: "int64 \<Rightarrow> ('c, unit) prog"
  AttachServerToLoadBalancer :: "int64 \<Rightarrow> int64 \<Rightarrow> ('c, unit) prog"
  DetachServerFromLoadBalancer :: "int64 \<Rightarrow> int64 \<Rightarrow> ('c, unit) prog"
  SyncLoadBalancerServices :: "int64 \<Rightarrow> LoadBalancerServiceInfo list \<Rightarrow> ('c, unit) prog"
  GetNetwork :: "int64 \<Rightarrow> ('c, NetworkInfo option) prog"
  GetNetworkByName :: "string \<Rightarrow> ('c, NetworkInfo option) prog"
  CreateNetwork :: "NetworkCreateOpts \<Rightarrow> ('c, NetworkInfo) prog"
  DeleteNetwork :: "int64 \<Rightarrow> ('c, unit) prog"
  AddNetworkCloudSubnet :: "int64 \<Rightarrow> string \<Rightarrow> ('c, unit) prog"
  GetFirewall :: "int64 \<Rightarrow> ('c, FirewallInfo option) prog"
  GetFirewallByName :: "string \<Rightarrow> ('c, FirewallInfo option) prog"
  CreateFirewall :: "FirewallCreateOpts \<Rightarrow> ('c, FirewallInfo) prog"
  DeleteFirewall :: "int64 \<Rightarrow> ('c, unit) prog"
  UpdateFirewallLabels :: "int64 \<Rightarrow> labels \<Rightarrow> ('c, unit) prog"
  SetFirewallRules :: "int64 \<Rightarrow> FirewallRuleInfo list \<Rightarrow> ('c, unit) prog"
  ApplyFirewallResources :: "int64 \<Rightarrow> FirewallApplyResource list \<Rightarrow> ('c, unit) prog"
  RemoveFirewallResources :: "int64 \<Rightarrow> FirewallApplyResource list \<Rightarrow> ('c, unit) prog"
  GetPlacementGroup :: "int64 \<Rightarrow> ('c, PlacementGroupInfo option) prog"
  GetPlacementGroupByName :: "string \<Rightarrow> ('c, PlacementGroupInfo option) prog"
  CreatePlacementGroup :: "PlacementGroupCreateOpts \<Rightarrow> ('c, PlacementGroupInfo) prog"
  DeletePlacementGroup :: "int64 \<Rightarrow> ('c, unit) prog"
  GetPrimaryIP :: "int64 \<Rightarrow> ('c, PrimaryIPInfo option) prog"
  GetPrimaryIPByName :: "string \<Rightarrow> ('c, PrimaryIPInfo option) prog"
  CreatePrimaryIP :: "PrimaryIPCreateOpts \<Rightarrow> ('c, PrimaryIPInfo) prog"
  DeletePrimaryIP :: "int64 \<Rightarrow> ('c, unit) prog"
  UpdatePrimaryIP :: "int64 \<Rightarrow> PrimaryIPUpdateOpts \<Rightarrow> ('c, unit) prog"
  AssignPrimaryIP :: "int64 \<Rightarrow> int64 \<Rightarrow> string \<Rightarrow> ('c, unit) prog"
  UnassignPrimaryIP :: "int64 \<Rightarrow> ('c, unit) prog"
  ChangePrimaryIPDNSPtr :: "int64 \<Rightarrow> string \<Rightarrow> string \<Rightarrow> ('c, unit) prog"
  GetFloatingIP :: "int64 \<Rightarrow> ('c, FloatingIPInfo option) prog"
  GetFloatingIPByName :: "string \<Rightarrow> ('c, FloatingIPInfo option) prog"
  CreateFloatingIP :: "FloatingIPCreateOpts \<Rightarrow> ('c, FloatingIPInfo) prog"
  DeleteFloatingIP :: "int64 \<Rightarrow> ('c, unit) prog"
  UpdateFloatingIP :: "int64 \<Rightarrow> FloatingIPUpdateOpts \<Rightarrow> ('c, unit) prog"
  AssignFloatingIP :: "int64 \<Rightarrow> int64 \<Rightarrow> ('c, unit) prog"
  UnassignFloatingIP :: "int64 \<Rightarrow> ('c, unit) prog"
  ChangeFloatingIPDNSPtr :: "int64 \<Rightarrow> string \<Rightarrow> string \<Rightarrow> ('c, unit) prog"
  GetCertificate :: "int64 \<Rightarrow> ('c, CertificateInfo option) prog"
  GetCertificateByName :: "string \<Rightarrow> ('c, CertificateInfo option) prog"
  CreateCertificate :: "CertificateCreateOpts \<Rightarrow> ('c, CertificateInfo) prog"
  DeleteCertificate :: "int64 \<Rightarrow> ('c, unit) prog"
  UpdateCertificate :: "int64 \<Rightarrow> CertificateUpdateOpts \<Rightarrow> ('c, unit) prog"

section \<open>Keys of firewall targets\<close>

lemma Key_server [simp]: "far_Type a = ''server'' \<Longrightarrow> Key a = ''server:'' @ fmt_d (far_ServerID a)"
  by (simp add: Key_def)

lemma Key_selector [simp]:
  "far_Type a = ''label_selector'' \<Longrightarrow> Key a = ''label_selector:'' @ far_Selector a"
  by (simp add: Key_def)

end
