(* ===== verification/ClientLaws.thy ===== *)
theory ClientLaws
  imports CloudTypes
begin

text \<open>
  Two clients that answer alike: a relation between their states that every method of the
  interface maintains while returning the same value. The reconcilers are proved parametric in
  the client once, inside the locale. An invariant of one client is the case of the diagonal
  relation, and a wrapper that only records metrics is the case of the projection.
\<close>

section \<open>Programs that answer alike\<close>

named_theorems sim_intros \<open>related programs\<close>

definition sim :: "('s \<Rightarrow> 't \<Rightarrow> bool) \<Rightarrow> ('s, 'a) prog \<Rightarrow> ('t, 'a) prog \<Rightarrow> bool" where
  "sim R m n \<longleftrightarrow> (\<forall>s t. R s t \<longrightarrow> fst (m s) = fst (n t) \<and> R (snd (m s)) (snd (n t)))"

lemma simI: "(\<And>s t. R s t \<Longrightarrow> fst (m s) = fst (n t) \<and> R (snd (m s)) (snd (n t))) \<Longrightarrow> sim R m n"
  by (simp add: sim_def)

lemma simD: "sim R m n \<Longrightarrow> R s t \<Longrightarrow> fst (m s) = fst (n t) \<and> R (snd (m s)) (snd (n t))"
  by (simp add: sim_def)

lemma sim_ret [sim_intros]: "sim R (ret x) (ret x)"
  by (simp add: sim_def)

lemma sim_failM [sim_intros]: "sim R (failM e) (failM e)"
  by (simp add: sim_def)

lemma sim_panicM [sim_intros]: "sim R (panicM e) (panicM e)"
  by (simp add: sim_def)

lemma sim_bindM [sim_intros]:
  assumes "sim R m n" and "\<And>x. sim R (f x) (g x)"
  shows "sim R (bindM m f) (bindM n g)"
proof (rule simI)
  fix s t assume "R s t"
  then have "fst (m s) = fst (n t)" "R (snd (m s)) (snd (n t))"
    using simD[OF assms(1)] by auto
  then show "fst (bindM m f s) = fst (bindM n g t) \<and> R (snd (bindM m f s)) (snd (bindM n g t))"
    using simD[OF assms(2)] by (cases "m s"; cases "n t") (auto simp: bindM_def split: res.split)
qed

lemma sim_tryM [sim_intros]:
  assumes "sim R m n" and "\<And>e. sim R (h e) (h' e)" and "\<And>x. sim R (f x) (g x)"
  shows "sim R (tryM m h f) (tryM n h' g)"
proof (rule simI)
  fix s t assume "R s t"
  then have "fst (m s) = fst (n t)" "R (snd (m s)) (snd (n t))"
    using simD[OF assms(1)] by auto
  then show "fst (tryM m h f s) = fst (tryM n h' g t) \<and> R (snd (tryM m h f s)) (snd (tryM n h' g t))"
    using simD[OF assms(2)] simD[OF assms(3)]
    by (cases "m s"; cases "n t") (auto simp: tryM_def split: res.split)
qed

lemma sim_wrapM [sim_intros]: "sim R m n \<Longrightarrow> sim R (wrapM p m) (wrapM p n)"
  unfolding wrapM_def by (intro sim_intros)

lemma sim_forM [sim_intros]: "(\<And>x. sim R (f x) (g x)) \<Longrightarrow> sim R (forM xs f) (forM xs g)"
  by (induction xs) (auto intro!: sim_intros)

lemma sim_foldM [sim_intros]: "(\<And>b x. sim R (f b x) (g b x)) \<Longrightarrow> sim R (foldM xs f b) (foldM xs g b)"
  by (induction xs arbitrary: b) (auto intro!: sim_intros)

lemma sim_if [sim_intros]:
  "(c \<Longrightarrow> sim R m n) \<Longrightarrow> (\<not> c \<Longrightarrow> sim R m' n') \<Longrightarrow> sim R (if c then m else m') (if c then n else n')"
  by simp

lemma sim_option [sim_intros]:
  "sim R m n \<Longrightarrow> (\<And>x. sim R (f x) (g x)) \<Longrightarrow>
   sim R (case v of None \<Rightarrow> m | Some x \<Rightarrow> f x) (case v of None \<Rightarrow> n | Some x \<Rightarrow> g x)"
  by (cases v) auto

lemma sim_list [sim_intros]:
  "sim R m n \<Longrightarrow> (\<And>x xs. sim R (f x xs) (g x xs)) \<Longrightarrow>
   sim R (case v of [] \<Rightarrow> m | x # xs \<Rightarrow> f x xs) (case v of [] \<Rightarrow> n | x # xs \<Rightarrow> g x xs)"
  by (cases v) auto

lemma sim_prod [sim_intros]:
  "(\<And>x y. sim R (f x y) (g x y)) \<Longrightarrow>
   sim R (case v of (x, y) \<Rightarrow> f x y) (case v of (x, y) \<Rightarrow> g x y)"
  by (cases v) auto

lemma sim_Let [sim_intros]: "(\<And>x. sim R (f x) (g x)) \<Longrightarrow> sim R (let x = v in f x) (let x = v in g x)"
  by (simp add: Let_def)

text \<open>The diagonal relation of an invariant.\<close>

definition diag :: "('s \<Rightarrow> bool) \<Rightarrow> 's \<Rightarrow> 's \<Rightarrow> bool" where
  "diag P s t \<longleftrightarrow> s = t \<and> P s"

lemma sim_diag_iff: "sim (diag P) m m \<longleftrightarrow> keeps P m"
  by (auto simp: sim_def keeps_def diag_def)

section \<open>The contract of two related clients\<close>

locale client_sim =
  fixes R :: "'c \<Rightarrow> 'd \<Rightarrow> bool"
    and A :: "'c Interface"
    and B :: "'d Interface"
  assumes GetServer_sim: "\<And>x. sim R (GetServer A x) (GetServer B x)"
    and GetServerByName_sim: "\<And>x. sim R (GetServerByName A x) (GetServerByName B x)"
    and CreateServer_sim: "\<And>x. sim R (CreateServer A x) (CreateServer B x)"
    and DeleteServer_sim: "\<And>x. sim R (DeleteServer A x) (DeleteServer B x)"
    and PowerOffServer_sim: "\<And>x. sim R (PowerOffServer A x) (PowerOffServer B x)"
    and PowerOnServer_sim: "\<And>x. sim R (PowerOnServer A x) (PowerOnServer B x)"
    and ChangeServerType_sim: "\<And>x y z. sim R (ChangeServerType A x y z) (ChangeServerType B x y z)"
    and AttachServerToNetwork_sim: "\<And>x y. sim R (AttachServerToNetwork A x y) (AttachServerToNetwork B x y)"
    and DetachServerFromNetwork_sim: "\<And>x y. sim R (DetachServerFromNetwork A x y) (DetachServerFromNetwork B x y)"
    and GetVolume_sim: "\<And>x. sim R (GetVolume A x) (GetVolume B x)"
    and GetVolumeByName_sim: "\<And>x. sim R (GetVolumeByName A x) (GetVolumeByName B x)"
    and CreateVolume_sim: "\<And>x. sim R (CreateVolume A x) (CreateVolume B x)"
    and DeleteVolume_sim: "\<And>x. sim R (DeleteVolume A x) (DeleteVolume B x)"
    and AttachVolume_sim: "\<And>x y. sim R (AttachVolume A x y) (AttachVolume B x y)"
    and DetachVolume_sim: "\<And>x. sim R (DetachVolume A x) (DetachVolume B x)"
    and ResizeVolume_sim: "\<And>x y. sim R (ResizeVolume A x y) (ResizeVolume B x y)"
    and GetLoadBalancer_sim: "\<And>x. sim R (GetLoadBalancer A x) (GetLoadBalancer B x)"
    and GetLoadBalancerByName_sim: "\<And>x. sim R (GetLoadBalancerByName A x) (GetLoadBalancerByName B x)"
    and CreateLoadBalancer_sim: "\<And>x. sim R (CreateLoadBalancer A x) (CreateLoadBalancer B x)"
    and DeleteLoadBalancer_sim: "\<And>x. sim R (DeleteLoadBalancer A x) (DeleteLoadBalancer B x)"
    and AttachServerToLoadBalancer_sim: "\<And>x y. sim R (AttachServerToLoadBalancer A x y) (AttachServerToLoadBalancer B x y)"
    and DetachServerFromLoadBalancer_sim: "\<And>x y. sim R (DetachServerFromLoadBalancer A x y) (DetachServerFromLoadBalancer B x y)"
    and SyncLoadBalancerServices_sim: "\<And>x y. sim R (SyncLoadBalancerServices A x y) (SyncLoadBalancerServices B x y)"
    and GetNetwork_sim: "\<And>x. sim R (GetNetwork A x) (GetNetwork B x)"
    and GetNetworkByName_sim: "\<And>x. sim R (GetNetworkByName A x) (GetNetworkByName B x)"
    and CreateNetwork_sim: "\<And>x. sim R (CreateNetwork A x) (CreateNetwork B x)"
    and DeleteNetwork_sim: "\<And>x. sim R (DeleteNetwork A x) (DeleteNetwork B x)"
    and AddNetworkCloudSubnet_sim: "\<And>x y. sim R (AddNetworkCloudSubnet A x y) (AddNetworkCloudSubnet B x y)"
    and GetFirewall_sim: "\<And>x. sim R (GetFirewall A x) (GetFirewall B x)"
    and GetFirewallByName_sim: "\<And>x. sim R (GetFirewallByName A x) (GetFirewallByName B x)"
    and CreateFirewall_sim: "\<And>x. sim R (CreateFirewall A x) (CreateFirewall B x)"
    and DeleteFirewall_sim: "\<And>x. sim R (DeleteFirewall A x) (DeleteFirewall B x)"
    and UpdateFirewallLabels_sim: "\<And>x y. sim R (UpdateFirewallLabels A x y) (UpdateFirewallLabels B x y)"
    and SetFirewallRules_sim: "\<And>x y. sim R (SetFirewallRules A x y) (SetFirewallRules B x y)"
    and ApplyFirewallResources_sim: "\<And>x y. sim R (ApplyFirewallResources A x y) (ApplyFirewallResources B x y)"
    and RemoveFirewallResources_sim: "\<And>x y. sim R (RemoveFirewallResources A x y) (RemoveFirewallResources B x y)"
    and GetPlacementGroup_sim: "\<And>x. sim R (GetPlacementGroup A x) (GetPlacementGroup B x)"
    and GetPlacementGroupByName_sim: "\<And>x. sim R (GetPlacementGroupByName A x) (GetPlacementGroupByName B x)"
    and CreatePlacementGroup_sim: "\<And>x. sim R (CreatePlacementGroup A x) (CreatePlacementGroup B x)"
    and DeletePlacementGroup_sim: "\<And>x. sim R (DeletePlacementGroup A x) (DeletePlacementGroup B x)"
    and GetPrimaryIP_sim: "\<And>x. sim R (GetPrimaryIP A x) (GetPrimaryIP B x)"
    and GetPrimaryIPByName_sim: "\<And>x. sim R (GetPrimaryIPByName A x) (GetPrimaryIPByName B x)"
    and CreatePrimaryIP_sim: "\<And>x. sim R (CreatePrimaryIP A x) (CreatePrimaryIP B x)"
    and DeletePrimaryIP_sim: "\<And>x. sim R (DeletePrimaryIP A x) (DeletePrimaryIP B x)"
    and UpdatePrimaryIP_sim: "\<And>x y. sim R (UpdatePrimaryIP A x y) (UpdatePrimaryIP B x y)"
    and AssignPrimaryIP_sim: "\<And>x y z. sim R (AssignPrimaryIP A x y z) (AssignPrimaryIP B x y z)"
    and UnassignPrimaryIP_sim: "\<And>x. sim R (UnassignPrimaryIP A x) (UnassignPrimaryIP B x)"
    and ChangePrimaryIPDNSPtr_sim: "\<And>x y z. sim R (ChangePrimaryIPDNSPtr A x y z) (ChangePrimaryIPDNSPtr B x y z)"
    and GetFloatingIP_sim: "\<And>x. sim R (GetFloatingIP A x) (GetFloatingIP B x)"
    and GetFloatingIPByName_sim: "\<And>x. sim R (GetFloatingIPByName A x) (GetFloatingIPByName B x)"
    and CreateFloatingIP_sim: "\<And>x. sim R (CreateFloatingIP A x) (CreateFloatingIP B x)"
    and DeleteFloatingIP_sim: "\<And>x. sim R (DeleteFloatingIP A x) (DeleteFloatingIP B x)"
    and UpdateFloatingIP_sim: "\<And>x y. sim R (UpdateFloatingIP A x y) (UpdateFloatingIP B x y)"
    and AssignFloatingIP_sim: "\<And>x y. sim R (AssignFloatingIP A x y) (AssignFloatingIP B x y)"
    and UnassignFloatingIP_sim: "\<And>x. sim R (UnassignFloatingIP A x) (UnassignFloatingIP B x)"
    and ChangeFloatingIPDNSPtr_sim: "\<And>x y z. sim R (ChangeFloatingIPDNSPtr A x y z) (ChangeFloatingIPDNSPtr B x y z)"
    and GetCertificate_sim: "\<And>x. sim R (GetCertificate A x) (GetCertificate B x)"
    and GetCertificateByName_sim: "\<And>x. sim R (GetCertificateByName A x) (GetCertificateByName B x)"
    and CreateCertificate_sim: "\<And>x. sim R (CreateCertificate A x) (CreateCertificate B x)"
    and DeleteCertificate_sim: "\<And>x. sim R (DeleteCertificate A x) (DeleteCertificate B x)"
    and UpdateCertificate_sim: "\<And>x y. sim R (UpdateCertificate A x y) (UpdateCertificate B x y)"
begin

lemmas client_sims = GetServer_sim GetServerByName_sim CreateServer_sim DeleteServer_sim PowerOffServer_sim
  PowerOnServer_sim ChangeServerType_sim AttachServerToNetwork_sim
  DetachServerFromNetwork_sim GetVolume_sim GetVolumeByName_sim CreateVolume_sim
  DeleteVolume_sim AttachVolume_sim DetachVolume_sim ResizeVolume_sim GetLoadBalancer_sim
  GetLoadBalancerByName_sim CreateLoadBalancer_sim DeleteLoadBalancer_sim
  AttachServerToLoadBalancer_sim DetachServerFromLoadBalancer_sim
  SyncLoadBalancerServices_sim GetNetwork_sim GetNetworkByName_sim CreateNetwork_sim
  DeleteNetwork_sim AddNetworkCloudSubnet_sim GetFirewall_sim GetFirewallByName_sim
  CreateFirewall_sim DeleteFirewall_sim UpdateFirewallLabels_sim SetFirewallRules_sim
  ApplyFirewallResources_sim RemoveFirewallResources_sim GetPlacementGroup_sim
  GetPlacementGroupByName_sim CreatePlacementGroup_sim DeletePlacementGroup_sim
  GetPrimaryIP_sim GetPrimaryIPByName_sim CreatePrimaryIP_sim DeletePrimaryIP_sim
  UpdatePrimaryIP_sim AssignPrimaryIP_sim UnassignPrimaryIP_sim ChangePrimaryIPDNSPtr_sim
  GetFloatingIP_sim GetFloatingIPByName_sim CreateFloatingIP_sim DeleteFloatingIP_sim
  UpdateFloatingIP_sim AssignFloatingIP_sim UnassignFloatingIP_sim
  ChangeFloatingIPDNSPtr_sim GetCertificate_sim GetCertificateByName_sim
  CreateCertificate_sim DeleteCertificate_sim UpdateCertificate_sim

end

end
