(* ===== verification/KubeTypes.thy ===== *)
theory KubeTypes
  imports ClientLaws
begin

text \<open>
  The Kubernetes side: the custom resources of \<open>api/v1alpha1\<close>, the Kubernetes client and the
  library functions the controllers call (all of them parameters), and the state a reconcile
  runs in. Of \<open>metav1.Condition\<close> the type, status, reason and message are kept; transition
  times, generations, logging and contexts are not modelled.
\<close>

section \<open>Objects\<close>

record Condition =
  cond_Type :: string
  cond_Status :: string
  cond_Reason :: string
  cond_Message :: string

abbreviation ConditionTrue :: string where "ConditionTrue \<equiv> ''True''"
abbreviation ConditionFalse :: string where "ConditionFalse \<equiv> ''False''"

text \<open>
  The metadata every object embeds, the spec and the status of its kind. A zero or nil deletion
  timestamp is \<open>None\<close>. Every status record extends \<open>status_base\<close>, the conditions that
  \<open>GetConditions\<close> gives the base reconciler access to.
\<close>

record ('spec, 'st) kobject =
  Name :: string
  Namespace :: string
  ObjectLabels :: labels
  Finalizers :: "string list"
  DeletionTimestamp :: instant
  ResourceVersion :: string
  Spec :: 'spec
  Status :: 'st

record status_base =
  Conditions :: "Condition list"

type_synonym LocalObjectReference = string

record NamespacedName =
  nn_Namespace :: string
  nn_Name :: string

definition GetConditions :: "('spec, 'x status_base_scheme) kobject \<Rightarrow> Condition list" where
  "GetConditions o' = Conditions (Status o')"

record HCloudServerSpec =
  sv_ServerType :: string
  sv_Image :: string
  sv_Location :: string
  sv_Labels :: labels
  sv_SSHKeys :: "string list"
  sv_UserData :: string
  sv_NetworkRef :: "LocalObjectReference option"
  sv_PlacementGroupRef :: "LocalObjectReference option"
  sv_UpgradeDisk :: bool

record HCloudServerStatus = status_base +
  svs_ServerID :: int64
  svs_State :: string
  svs_AppliedServerType :: string
  svs_PublicIPv4 :: string
  svs_PublicIPv6 :: string
  svs_AppliedNetworkID :: int64
  svs_AppliedPlacementGroupID :: int64

type_synonym HCloudServer = "(HCloudServerSpec, HCloudServerStatus) kobject"

record HCloudVolumeSpec =
  vm_Size :: int
  vm_Location :: string
  vm_ServerRef :: "LocalObjectReference option"
  vm_Format :: string
  vm_Labels :: labels

record HCloudVolumeStatus = status_base +
  vms_VolumeID :: int64
  vms_State :: string
  vms_AttachedServerID :: int64
  vms_LinuxDevice :: string
  vms_AppliedSize :: int

type_synonym HCloudVolume = "(HCloudVolumeSpec, HCloudVolumeStatus) kobject"

text \<open>\<open>metav1.LabelSelector\<close>: match labels and match expressions (key, operator, values).\<close>

record LabelSelector =
  MatchLabels :: labels
  MatchExpressions :: "(string \<times> string \<times> string list) list"

record HCloudLoadBalancerHealthCheckHTTPSpec =
  hhs_Domain :: "string option"
  hhs_Path :: "string option"
  hhs_Response :: "string option"
  hhs_StatusCodes :: "string list"
  hhs_TLS :: "bool option"

record HCloudLoadBalancerHealthCheckSpec =
  hcs_Protocol :: string
  hcs_Port :: "32 word option"
  hcs_IntervalSeconds :: "32 word option"
  hcs_TimeoutSeconds :: "32 word option"
  hcs_Retries :: "32 word option"
  hcs_HTTP :: "HCloudLoadBalancerHealthCheckHTTPSpec option"

record HCloudLoadBalancerServiceSpec =
  lss_ListenPort :: "32 word"
  lss_DestinationPort :: "32 word"
  lss_Protocol :: string
  lss_Proxyprotocol :: "bool option"
  lss_HealthCheck :: "HCloudLoadBalancerHealthCheckSpec option"
  lss_CertificateRefs :: "LocalObjectReference list"

record HCloudLoadBalancerSpec =
  lbp_LoadBalancerType :: string
  lbp_Location :: string
  lbp_NetworkZone :: string
  lbp_Algorithm :: string
  lbp_ServerSelector :: "LabelSelector option"
  lbp_Labels :: labels
  lbp_Services :: "HCloudLoadBalancerServiceSpec list"

record HCloudLoadBalancerStatus = status_base +
  lbs_LoadBalancerID :: int64
  lbs_PublicIPv4 :: string
  lbs_PublicIPv6 :: string
  lbs_AttachedServerIDs :: "int64 list"

type_synonym HCloudLoadBalancer = "(HCloudLoadBalancerSpec, HCloudLoadBalancerStatus) kobject"

record HCloudNetworkSpec =
  nw_IPRange :: string
  nw_NetworkZones :: "string list"
  nw_ExposeRoutesToVSwitch :: bool
  nw_Labels :: labels

record HCloudNetworkStatus = status_base +
  nws_NetworkID :: int64
  nws_IPRange :: string
  nws_SubnetZones :: "string list"

type_synonym HCloudNetwork = "(HCloudNetworkSpec, HCloudNetworkStatus) kobject"

record HCloudFirewallRule =
  hfr_Direction :: string
  hfr_Protocol :: string
  hfr_Port :: "string option"
  hfr_SourceIPs :: "string list"
  hfr_DestinationIPs :: "string list"
  hfr_Description :: "string option"

record HCloudFirewallApplyTo =
  fat_ServerRefs :: "LocalObjectReference list"
  fat_LabelSelector :: string

record HCloudFirewallSpec =
  fwp_Labels :: labels
  fwp_Rules :: "HCloudFirewallRule list"
  fwp_ApplyTo :: "HCloudFirewallApplyTo option"

record HCloudFirewallStatus = status_base +
  fws_FirewallID :: int64

type_synonym HCloudFirewall = "(HCloudFirewallSpec, HCloudFirewallStatus) kobject"

record HCloudPlacementGroupSpec =
  pgp_Type :: string
  pgp_Labels :: labels

record HCloudPlacementGroupStatus = status_base +
  pgs_PlacementGroupID :: int64
  pgs_Type :: string

type_synonym HCloudPlacementGroup = "(HCloudPlacementGroupSpec, HCloudPlacementGroupStatus) kobject"

record HCloudPrimaryIPSpec =
  pi_Type :: string
  pi_Datacenter :: string
  pi_ServerRef :: "LocalObjectReference option"
  pi_AutoDelete :: "bool option"
  pi_DNSPtr :: "string option"
  pi_Labels :: labels

record HCloudPrimaryIPStatus = status_base +
  pis_PrimaryIPID :: int64
  pis_IP :: string
  pis_Datacenter :: string
  pis_AppliedAssigneeID :: int64

type_synonym HCloudPrimaryIP = "(HCloudPrimaryIPSpec, HCloudPrimaryIPStatus) kobject"

record HCloudFloatingIPSpec =
  fi_Type :: string
  fi_Location :: string
  fi_ServerRef :: "LocalObjectReference option"
  fi_Description :: string
  fi_DNSPtr :: "string option"
  fi_Labels :: labels

record HCloudFloatingIPStatus = status_base +
  fis_FloatingIPID :: int64
  fis_IP :: string
  fis_Location :: string
  fis_AppliedServerID :: int64

type_synonym HCloudFloatingIP = "(HCloudFloatingIPSpec, HCloudFloatingIPStatus) kobject"

record HCloudCertificateSpec =
  ce_Type :: string
  ce_Certificate :: string
  ce_PrivateKey :: string
  ce_DomainNames :: "string list"
  ce_Labels :: labels

record HCloudCertificateStatus = status_base +
  ces_CertificateID :: int64
  ces_DomainNames :: "string list"
  ces_Fingerprint :: string
  ces_NotValidBefore :: instant
  ces_NotValidAfter :: instant
  ces_IssuanceStatus :: string

type_synonym HCloudCertificate = "(HCloudCertificateSpec, HCloudCertificateStatus) kobject"

section \<open>The Kubernetes client\<close>

text \<open>
  The methods of \<open>client.Client\<close> for one kind, over the state \<open>'k\<close> of the API server and the
  client's cache. \<open>Update\<close> and \<open>Status().Update\<close> return the object the call leaves in its
  argument. A compiled label selector is its \<open>Matches\<close> method.
\<close>

type_synonym Selector = "labels \<Rightarrow> bool"

datatype ListOption = MatchingFields string string | MatchingLabelsSelector Selector

record ('k, 'o) kclient =
  KGet :: "NamespacedName \<Rightarrow> ('k, 'o) prog"
  KUpdate :: "'o \<Rightarrow> ('k, 'o) prog"
  KStatusUpdate :: "'o \<Rightarrow> ('k, 'o) prog"
  KList :: "ListOption list \<Rightarrow> ('k, 'o list) prog"

record 'k kube_api =
  KServers :: "('k, HCloudServer) kclient"
  KVolumes :: "('k, HCloudVolume) kclient"
  KLoadBalancers :: "('k, HCloudLoadBalancer) kclient"
  KNetworks :: "('k, HCloudNetwork) kclient"
  KFirewalls :: "('k, HCloudFirewall) kclient"
  KPlacementGroups :: "('k, HCloudPlacementGroup) kclient"
  KPrimaryIPs :: "('k, HCloudPrimaryIP) kclient"
  KFloatingIPs :: "('k, HCloudFloatingIP) kclient"
  KCertificates :: "('k, HCloudCertificate) kclient"

section \<open>The libraries\<close>

text \<open>
  Library functions of \<open>apimachinery\<close>, \<open>client-go\<close> and \<open>controller-runtime\<close>: \<open>meta\<close>'s
  condition helpers, \<open>controllerutil\<close>'s finalizer helpers, the two error predicates, the
  retry helper and the selector compiler. \<open>'s\<close> is the state of the program retried.
\<close>

record 's lib =
  SetStatusCondition :: "Condition list \<Rightarrow> Condition \<Rightarrow> Condition list"
  FindStatusCondition :: "Condition list \<Rightarrow> string \<Rightarrow> Condition option"
  ContainsFinalizer :: "string list \<Rightarrow> string \<Rightarrow> bool"
  AddFinalizer :: "string list \<Rightarrow> string \<Rightarrow> string list"
  RemoveFinalizer :: "string list \<Rightarrow> string \<Rightarrow> string list"
  IsNotFound :: "goerr \<Rightarrow> bool"
  IsConflict :: "goerr \<Rightarrow> bool"
  RetryOnConflict :: "('s, unit) prog \<Rightarrow> ('s, unit) prog"
  LabelSelectorAsSelector :: "LabelSelector \<Rightarrow> goerr + Selector"

text \<open>
  What their documentation promises. \<open>SetStatusCondition\<close> replaces the condition of that type
  or appends it and leaves the others; the finalizer helpers treat the list as a set.
  \<open>RetryOnConflict\<close> with \<open>DefaultRetry\<close> runs the function, again while it ends in a conflict,
  at most five times in all, and returns its last outcome.
\<close>

fun attempts :: "(goerr \<Rightarrow> bool) \<Rightarrow> nat \<Rightarrow> ('s, unit) prog \<Rightarrow> ('s, unit) prog" where
  "attempts again 0 m = ret ()"
| "attempts again (Suc 0) m = m"
| "attempts again (Suc n) m = tryM m (\<lambda>e. if again e then attempts again n m else failM e) ret"

definition conditions_law :: "'s lib \<Rightarrow> bool" where
  "conditions_law L \<longleftrightarrow> (\<forall>cs c t. FindStatusCondition L (SetStatusCondition L cs c) t =
     (if t = cond_Type c then Some c else FindStatusCondition L cs t))"

definition finalizers_law :: "'s lib \<Rightarrow> bool" where
  "finalizers_law L \<longleftrightarrow> (\<forall>fs f. ContainsFinalizer L fs f = (f \<in> set fs)
     \<and> set (AddFinalizer L fs f) = insert f (set fs)
     \<and> set (RemoveFinalizer L fs f) = set fs - {f})"

definition retry_law :: "'s lib \<Rightarrow> bool" where
  "retry_law L \<longleftrightarrow> (\<forall>m. RetryOnConflict L m = attempts (IsConflict L) 5 m)"

definition lib_ok :: "'s lib \<Rightarrow> bool" where
  "lib_ok L \<longleftrightarrow> conditions_law L \<and> finalizers_law L \<and> retry_law L"

section \<open>The state of a reconcile\<close>

text \<open>
  \<open>cloud\<close> and \<open>kube\<close> are the two services, \<open>obj\<close> the object in memory, which the domain
  logic changes in place, \<open>events\<close> and \<open>metrics\<close> the calls made to the recorder and to
  \<open>metrics.RecordReconcile\<close>.
\<close>

record Event =
  ev_Type :: string
  ev_Reason :: string
  ev_Message :: string

record ('c, 'k, 'o) rst =
  cloud :: 'c
  kube :: 'k
  obj :: 'o
  events :: "Event list"
  metrics :: "(string \<times> string) list"

definition onCloud :: "('c, 'a) prog \<Rightarrow> (('c, 'k, 'o) rst, 'a) prog" where
  "onCloud m = (\<lambda>s. case m (cloud s) of (r, c) \<Rightarrow> (r, s\<lparr>cloud := c\<rparr>))"

definition onKube :: "('k, 'a) prog \<Rightarrow> (('c, 'k, 'o) rst, 'a) prog" where
  "onKube m = (\<lambda>s. case m (kube s) of (r, k) \<Rightarrow> (r, s\<lparr>kube := k\<rparr>))"

definition setObj :: "'o \<Rightarrow> (('c, 'k, 'o) rst, unit) prog" where
  "setObj x = modM (\<lambda>s. s\<lparr>obj := x\<rparr>)"

definition updStatus :: "('st \<Rightarrow> 'st) \<Rightarrow> (('c, 'k, ('spec, 'st) kobject) rst, unit) prog" where
  "updStatus g = modM (\<lambda>s. s\<lparr>obj := (obj s)\<lparr>Status := g (Status (obj s))\<rparr>\<rparr>)"

text \<open>\<open>setCondition\<close>: upserts a condition on the object's status.\<close>

definition setCondition :: "'s lib \<Rightarrow> string \<Rightarrow> string \<Rightarrow> string \<Rightarrow> string
    \<Rightarrow> (('c, 'k, ('spec, 'x status_base_scheme) kobject) rst, unit) prog" where
  "setCondition L t st reason msg = updStatus (\<lambda>u. u\<lparr>Conditions :=
     SetStatusCondition L (Conditions u)
       \<lparr> cond_Type = t, cond_Status = st, cond_Reason = reason, cond_Message = msg \<rparr>\<rparr>)"

record Result =
  Requeue :: bool
  RequeueAfter :: "64 word"

definition emptyResult :: Result where
  "emptyResult = \<lparr> Requeue = False, RequeueAfter = 0 \<rparr>"

definition time_Second :: "64 word" where
  "time_Second = 1000000000"

text \<open>The two requeue intervals and the ready condition, shared by the controllers.\<close>

definition requeueDelay :: "64 word" where
  "requeueDelay = 30 * time_Second"

definition resizeRequeueDelay :: "64 word" where
  "resizeRequeueDelay = 5 * time_Second"

definition after :: "64 word \<Rightarrow> Result" where
  "after d = \<lparr> Requeue = False, RequeueAfter = d \<rparr>"

abbreviation conditionTypeReady :: string where "conditionTypeReady \<equiv> ''Ready''"

end
