(* ===== verification/ReconcileLaws.thy ===== *)
theory ReconcileLaws
  imports KubeTypes
begin

text \<open>
  Running programs over the state of a reconcile, what such a program leaves alone, and the
  lifting of related clients to related reconciles.
\<close>

section \<open>Running\<close>

lemma onCloud_run [run_simps]: "onCloud m s = (case m (cloud s) of (r, c) \<Rightarrow> (r, s\<lparr>cloud := c\<rparr>))"
  by (simp add: onCloud_def)

lemma onKube_run [run_simps]: "onKube m s = (case m (kube s) of (r, k) \<Rightarrow> (r, s\<lparr>kube := k\<rparr>))"
  by (simp add: onKube_def)

lemma onCloud_eq [simp]: "m (cloud s) = (r, c) \<Longrightarrow> onCloud m s = (r, s\<lparr>cloud := c\<rparr>)"
  by (simp add: onCloud_def)

lemma onKube_eq [simp]: "m (kube s) = (r, k) \<Longrightarrow> onKube m s = (r, s\<lparr>kube := k\<rparr>)"
  by (simp add: onKube_def)

lemma setObj_run [simp, run_simps]: "setObj x s = (Ok (), s\<lparr>obj := x\<rparr>)"
  by (simp add: setObj_def)

lemma updStatus_run [simp, run_simps]:
  "updStatus g s = (Ok (), s\<lparr>obj := (obj s)\<lparr>Status := g (Status (obj s))\<rparr>\<rparr>)"
  by (simp add: updStatus_def)

lemma setCondition_run [simp, run_simps]:
  "setCondition L t st reason msg s = (Ok (), s\<lparr>obj := (obj s)\<lparr>Status := (Status (obj s))\<lparr>Conditions :=
     SetStatusCondition L (Conditions (Status (obj s)))
       \<lparr> cond_Type = t, cond_Status = st, cond_Reason = reason, cond_Message = msg \<rparr>\<rparr>\<rparr>\<rparr>)"
  by (simp add: setCondition_def)

lemma bindM_modM_run [simp]: "bindM (modM f) g s = g () (f s)"
  by (simp add: bindM_def)

lemma bindM_getM_run [simp]: "bindM (getM f) g s = g (f s) s"
  by (simp add: bindM_def)

lemma bindM_setObj_run [simp]: "bindM (setObj x) g s = g () (s\<lparr>obj := x\<rparr>)"
  by (simp add: bindM_def)

lemma bindM_updStatus_run [simp]:
  "bindM (updStatus h) g s = g () (s\<lparr>obj := (obj s)\<lparr>Status := h (Status (obj s))\<rparr>\<rparr>)"
  by (simp add: bindM_def)

lemma bindM_setCondition_run [simp]:
  "bindM (setCondition L t st reason msg) g s = g () (snd (setCondition L t st reason msg s))"
  by (simp add: bindM_def)

lemma find_set_same [simp]: "conditions_law L \<Longrightarrow> FindStatusCondition L (SetStatusCondition L cs c) (cond_Type c) = Some c"
  by (simp add: conditions_law_def)

lemma find_set:
  "conditions_law L \<Longrightarrow> FindStatusCondition L (SetStatusCondition L cs c) t =
     (if t = cond_Type c then Some c else FindStatusCondition L cs t)"
  by (simp add: conditions_law_def)

lemma lib_okD:
  "lib_ok L \<Longrightarrow> conditions_law L" "lib_ok L \<Longrightarrow> finalizers_law L" "lib_ok L \<Longrightarrow> retry_law L"
  by (simp_all add: lib_ok_def)

text \<open>Retrying a program that does not end in a conflict runs it once.\<close>

lemma attempts_unfold:
  "attempts again (Suc (Suc n)) m = tryM m (\<lambda>e. if again e then attempts again (Suc n) m else failM e) ret"
  by simp

lemma attempts_once:
  assumes "m s = (r, s')" and "\<And>e. r = Err e \<Longrightarrow> \<not> again e"
  shows "attempts again (Suc n) m s = (r, s')"
  using assms by (cases n; cases r) (auto simp: tryM_run)

lemma attempts_again:
  assumes "m s = (Err e, s')" and "again e"
  shows "attempts again (Suc (Suc n)) m s = attempts again (Suc n) m s'"
  using assms by (simp add: tryM_run)

lemma retry_once:
  assumes "retry_law L" and "m s = (r, s')" and "\<And>e. r = Err e \<Longrightarrow> \<not> IsConflict L e"
  shows "RetryOnConflict L m s = (r, s')"
  using attempts_once[of m s r s' "IsConflict L" 4] assms by (simp add: retry_law_def)

lemma retry_twice:
  assumes "retry_law L" and "m s = (Err e, s1)" and "IsConflict L e"
    and "m s1 = (r, s2)" and "\<And>e. r = Err e \<Longrightarrow> \<not> IsConflict L e"
  shows "RetryOnConflict L m s = (r, s2)"
proof -
  have "attempts (IsConflict L) (Suc (Suc 3)) m s = attempts (IsConflict L) (Suc 3) m s1"
    using assms(2,3) by (rule attempts_again)
  also have "\<dots> = (r, s2)" using assms(4,5) by (rule attempts_once)
  finally show ?thesis using assms(1) by (simp add: retry_law_def numeral_eq_Suc)
qed

section \<open>Preservation\<close>

lemma keeps_if [inv_intros]:
  "(c \<Longrightarrow> keeps P m) \<Longrightarrow> (\<not> c \<Longrightarrow> keeps P n) \<Longrightarrow> keeps P (if c then m else n)"
  by simp

lemma keeps_option [inv_intros]:
  "keeps P m \<Longrightarrow> (\<And>x. keeps P (f x)) \<Longrightarrow> keeps P (case v of None \<Rightarrow> m | Some x \<Rightarrow> f x)"
  by (cases v) auto

lemma keeps_setObj_kube: "keeps (\<lambda>s. P (kube s)) (setObj x)"
  by (simp add: keeps_def)

section \<open>Related reconciles\<close>

definition rst_rel :: "('c \<Rightarrow> 'd \<Rightarrow> bool) \<Rightarrow> ('c, 'k, 'o) rst \<Rightarrow> ('d, 'k, 'o) rst \<Rightarrow> bool" where
  "rst_rel R s t \<longleftrightarrow> R (cloud s) (cloud t) \<and> kube s = kube t \<and> obj s = obj t
     \<and> events s = events t \<and> metrics s = metrics t"

text \<open>
  Two values of the library record for the two state types: the same functions, and a retry
  helper that retries related programs alike.
\<close>

definition lib_rel :: "('c \<Rightarrow> 'd \<Rightarrow> bool) \<Rightarrow> ('c, 'k, 'o) rst lib \<Rightarrow> ('d, 'k, 'o) rst lib \<Rightarrow> bool" where
  "lib_rel R L M \<longleftrightarrow> SetStatusCondition L = SetStatusCondition M
     \<and> FindStatusCondition L = FindStatusCondition M
     \<and> ContainsFinalizer L = ContainsFinalizer M \<and> AddFinalizer L = AddFinalizer M
     \<and> RemoveFinalizer L = RemoveFinalizer M
     \<and> IsNotFound L = IsNotFound M \<and> IsConflict L = IsConflict M
     \<and> LabelSelectorAsSelector L = LabelSelectorAsSelector M
     \<and> (\<forall>m n. sim (rst_rel R) m n \<longrightarrow> sim (rst_rel R) (RetryOnConflict L m) (RetryOnConflict M n))"

lemma lib_rel_sels:
  assumes "lib_rel R L M"
  shows "SetStatusCondition L = SetStatusCondition M" "FindStatusCondition L = FindStatusCondition M"
    "ContainsFinalizer L = ContainsFinalizer M" "AddFinalizer L = AddFinalizer M"
    "RemoveFinalizer L = RemoveFinalizer M" "IsNotFound L = IsNotFound M" "IsConflict L = IsConflict M"
    "LabelSelectorAsSelector L = LabelSelectorAsSelector M"
  using assms by (simp_all add: lib_rel_def)

lemma sim_retry: "lib_rel R L M \<Longrightarrow> sim (rst_rel R) m n
    \<Longrightarrow> sim (rst_rel R) (RetryOnConflict L m) (RetryOnConflict M n)"
  by (simp add: lib_rel_def)

lemma sim_attempts: "sim R m n \<Longrightarrow> sim R (attempts again k m) (attempts again k n)"
proof (induction again k m arbitrary: n rule: attempts.induct)
  case (1 again m)
  show ?case by (simp add: sim_def)
next
  case (2 again m)
  then show ?case by simp
next
  case (3 again k m)
  show ?case unfolding attempts.simps
    by (intro sim_intros 3)
qed

text \<open>The documented retry helper is one such value.\<close>

lemma lib_rel_self: "retry_law L \<Longrightarrow> lib_rel R L L"
  by (auto simp: lib_rel_def retry_law_def intro: sim_attempts)

lemma sim_onCloud [sim_intros]: "sim R m n \<Longrightarrow> sim (rst_rel R) (onCloud m) (onCloud n)"
proof (rule simI)
  fix s t assume s: "sim R m n" "rst_rel R s t"
  then have "fst (m (cloud s)) = fst (n (cloud t)) \<and> R (snd (m (cloud s))) (snd (n (cloud t)))"
    by (intro simD) (auto simp: rst_rel_def)
  then show "fst (onCloud m s) = fst (onCloud n t) \<and> rst_rel R (snd (onCloud m s)) (snd (onCloud n t))"
    using s(2) by (auto simp: onCloud_def rst_rel_def split: prod.split)
qed

lemma sim_onKube [sim_intros]: "sim (rst_rel R) (onKube m) (onKube m)"
  by (rule simI) (auto simp: onKube_def rst_rel_def split: prod.split)

lemma sim_setObj [sim_intros]: "sim (rst_rel R) (setObj x) (setObj x)"
  by (rule simI) (auto simp: rst_rel_def)

lemma sim_getM_obj [sim_intros]: "sim (rst_rel R) (getM obj) (getM obj)"
  by (rule simI) (auto simp: rst_rel_def)

lemma sim_updStatus [sim_intros]: "sim (rst_rel R) (updStatus g) (updStatus g)"
  by (rule simI) (auto simp: rst_rel_def)

lemma sim_setCondition [sim_intros]:
  "SetStatusCondition L = SetStatusCondition M \<Longrightarrow>
   sim (rst_rel R) (setCondition L t st reason msg) (setCondition M t st reason msg)"
  unfolding setCondition_def by (simp add: sim_updStatus)

lemma sim_modM_log [sim_intros]:
  "sim (rst_rel R) (modM (\<lambda>s. s\<lparr>events := events s @ [e]\<rparr>)) (modM (\<lambda>s. s\<lparr>events := events s @ [e]\<rparr>))"
  "sim (rst_rel R) (modM (\<lambda>s. s\<lparr>metrics := metrics s @ [k]\<rparr>)) (modM (\<lambda>s. s\<lparr>metrics := metrics s @ [k]\<rparr>))"
  by (rule simI; auto simp: rst_rel_def)+

end
