(* ===== verification/DomainSim.thy ===== *)
theory DomainSim
  imports ReconcileLaws
begin

text \<open>
  What the domain logic of the controllers is made of: calls of the cloud client, reads and
  writes of the in-memory object, reads of the Kubernetes client and writes of a status. A
  relation on reconcile states that each of these maintains is maintained by the domain logic as
  a whole; every controller proves this once, in the second locale below. Its instances are the
  frame of the domain logic, invariants of the cloud and of the API server, and the transparency
  of the instrumented client.
\<close>

section \<open>Programs over the cloud and the object\<close>

locale cloud_sim =
  fixes RR :: "('c, 'k, ('spec, 'x status_base_scheme) kobject) rst
      \<Rightarrow> ('d, 'k, ('spec, 'x status_base_scheme) kobject) rst \<Rightarrow> bool"
    and A :: "'c Interface"
    and B :: "'d Interface"
  assumes obj_sim [sim_intros]: "sim RR (getM obj) (getM obj)"
    and status_sim [sim_intros]: "\<And>g. sim RR (updStatus g) (updStatus g)"
    and GetServer_sim [sim_intros]: "\<And>x. sim RR (onCloud (GetServer A x)) (onCloud (GetServer B x))"
    and GetServerByName_sim [sim_intros]: "\<And>x. sim RR (onCloud (GetServerByName A x)) (onCloud (GetServerByName B x))"
    and CreateServer_sim [sim_intros]: "\<And>x. sim RR (onCloud (CreateServer A x)) (onCloud (CreateServer B x))"
    and DeleteServer_sim [sim_intros]: "\<And>x. sim RR (onCloud (DeleteServer A x)) (onCloud (DeleteServer B x))"
    and PowerOffServer_sim [sim_intros]: "\<And>x. sim RR (onCloud (PowerOffServer A x)) (onCloud (PowerOffServer B x))"
    and PowerOnServer_sim [sim_intros]: "\<And>x. sim RR (onCloud (PowerOnServer A x)) (onCloud (PowerOnServer B x))"
    and ChangeServerType_sim [sim_intros]: "\<And>x y z. sim RR (onCloud (ChangeServerType A x y z)) (onCloud (ChangeServerType B x y z))"
    and AttachServerToNetwork_sim [sim_intros]: "\<And>x y. sim RR (onCloud (AttachServerToNetwork A x y)) (onCloud (AttachServerToNetwork B x y))"
    and DetachServerFromNetwork_sim [sim_intros]: "\<And>x y. sim RR (onCloud (DetachServerFromNetwork A x y)) (onCloud (DetachServerFromNetwork B x y))"
    and GetVolume_sim [sim_intros]: "\<And>x. sim RR (onCloud (GetVolume A x)) (onCloud (GetVolume B x))"
    and GetVolumeByName_sim [sim_intros]: "\<And>x. sim RR (onCloud (GetVolumeByName A x)) (onCloud (GetVolumeByName B x))"
    and CreateVolume_sim [sim_intros]: "\<And>x. sim RR (onCloud (CreateVolume A x)) (onCloud (CreateVolume B x))"
    and DeleteVolume_sim [sim_intros]: "\<And>x. sim RR (onCloud (DeleteVolume A x)) (onCloud (DeleteVolume B x))"
    and AttachVolume_sim [sim_intros]: "\<And>x y. sim RR (onCloud (AttachVolume A x y)) (onCloud (AttachVolume B x y))"
    and DetachVolume_sim [sim_intros]: "\<And>x. sim RR (onCloud (DetachVolume A x)) (onCloud (DetachVolume B x))"
    and ResizeVolume_sim [sim_intros]: "\<And>x y. sim RR (onCloud (ResizeVolume A x y)) (onCloud (ResizeVolume B x y))"
    and GetLoadBalancer_sim [sim_intros]: "\<And>x. sim RR (onCloud (GetLoadBalancer A x)) (onCloud (GetLoadBalancer B x))"
    and GetLoadBalancerByName_sim [sim_intros]: "\<And>x. sim RR (onCloud (GetLoadBalancerByName A x)) (onCloud (GetLoadBalancerByName B x))"
    and CreateLoadBalancer_sim [sim_intros]: "\<And>x. sim RR (onCloud (CreateLoadBalancer A x)) (onCloud (CreateLoadBalancer B x))"
    and DeleteLoadBalancer_sim [sim_intros]: "\<And>x. sim RR (onCloud (DeleteLoadBalancer A x)) (onCloud (DeleteLoadBalancer B x))"
    and AttachServerToLoadBalancer_sim [sim_intros]: "\<And>x y. sim RR (onCloud (AttachServerToLoadBalancer A x y)) (onCloud (AttachServerToLoadBalancer B x y))"
    and DetachServerFromLoadBalancer_sim [sim_intros]: "\<And>x y. sim RR (onCloud (DetachServerFromLoadBalancer A x y)) (onCloud (DetachServerFromLoadBalancer B x y))"
    and SyncLoadBalancerServices_sim [sim_intros]: "\<And>x y. sim RR (onCloud (SyncLoadBalancerServices A x y)) (onCloud (SyncLoadBalancerServices B x y))"
    and GetNetwork_sim [sim_intros]: "\<And>x. sim RR (onCloud (GetNetwork A x)) (onCloud (GetNetwork B x))"
    and GetNetworkByName_sim [sim_intros]: "\<And>x. sim RR (onCloud (GetNetworkByName A x)) (onCloud (GetNetworkByName B x))"
    and CreateNetwork_sim [sim_intros]: "\<And>x. sim RR (onCloud (CreateNetwork A x)) (onCloud (CreateNetwork B x))"
    and DeleteNetwork_sim [sim_intros]: "\<And>x. sim RR (onCloud (DeleteNetwork A x)) (onCloud (DeleteNetwork B x))"
    and AddNetworkCloudSubnet_sim [sim_intros]: "\<And>x y. sim RR (onCloud (AddNetworkCloudSubnet A x y)) (onCloud (AddNetworkCloudSubnet B x y))"
    and GetFirewall_sim [sim_intros]: "\<And>x. sim RR (onCloud (GetFirewall A x)) (onCloud (GetFirewall B x))"
    and GetFirewallByName_sim [sim_intros]: "\<And>x. sim RR (onCloud (GetFirewallByName A x)) (onCloud (GetFirewallByName B x))"
    and CreateFirewall_sim [sim_intros]: "\<And>x. sim RR (onCloud (CreateFirewall A x)) (onCloud (CreateFirewall B x))"
    and DeleteFirewall_sim [sim_intros]: "\<And>x. sim RR (onCloud (DeleteFirewall A x)) (onCloud (DeleteFirewall B x))"
    and UpdateFirewallLabels_sim [sim_intros]: "\<And>x y. sim RR (onCloud (UpdateFirewallLabels A x y)) (onCloud (UpdateFirewallLabels B x y))"
    and SetFirewallRules_sim [sim_intros]: "\<And>x y. sim RR (onCloud (SetFirewallRules A x y)) (onCloud (SetFirewallRules B x y))"
    and ApplyFirewallResources_sim [sim_intros]: "\<And>x y. sim RR (onCloud (ApplyFirewallResources A x y)) (onCloud (ApplyFirewallResources B x y))"
    and RemoveFirewallResources_sim [sim_intros]: "\<And>x y. sim RR (onCloud (RemoveFirewallResources A x y)) (onCloud (RemoveFirewallResources B x y))"
    and GetPlacementGroup_sim [sim_intros]: "\<And>x. sim RR (onCloud (GetPlacementGroup A x)) (onCloud (GetPlacementGroup B x))"
    and GetPlacementGroupByName_sim [sim_intros]: "\<And>x. sim RR (onCloud (GetPlacementGroupByName A x)) (onCloud (GetPlacementGroupByName B x))"
    and CreatePlacementGroup_sim [sim_intros]: "\<And>x. sim RR (onCloud (CreatePlacementGroup A x)) (onCloud (CreatePlacementGroup B x))"
    and DeletePlacementGroup_sim [sim_intros]: "\<And>x. sim RR (onCloud (DeletePlacementGroup A x)) (onCloud (DeletePlacementGroup B x))"
    and GetPrimaryIP_sim [sim_intros]: "\<And>x. sim RR (onCloud (GetPrimaryIP A x)) (onCloud (GetPrimaryIP B x))"
    and GetPrimaryIPByName_sim [sim_intros]: "\<And>x. sim RR (onCloud (GetPrimaryIPByName A x)) (onCloud (GetPrimaryIPByName B x))"
    and CreatePrimaryIP_sim [sim_intros]: "\<And>x. sim RR (onCloud (CreatePrimaryIP A x)) (onCloud (CreatePrimaryIP B x))"
    and DeletePrimaryIP_sim [sim_intros]: "\<And>x. sim RR (onCloud (DeletePrimaryIP A x)) (onCloud (DeletePrimaryIP B x))"
    and UpdatePrimaryIP_sim [sim_intros]: "\<And>x y. sim RR (onCloud (UpdatePrimaryIP A x y)) (onCloud (UpdatePrimaryIP B x y))"
    and AssignPrimaryIP_sim [sim_intros]: "\<And>x y z. sim RR (onCloud (AssignPrimaryIP A x y z)) (onCloud (AssignPrimaryIP B x y z))"
    and UnassignPrimaryIP_sim [sim_intros]: "\<And>x. sim RR (onCloud (UnassignPrimaryIP A x)) (onCloud (UnassignPrimaryIP B x))"
    and ChangePrimaryIPDNSPtr_sim [sim_intros]: "\<And>x y z. sim RR (onCloud (ChangePrimaryIPDNSPtr A x y z)) (onCloud (ChangePrimaryIPDNSPtr B x y z))"
    and GetFloatingIP_sim [sim_intros]: "\<And>x. sim RR (onCloud (GetFloatingIP A x)) (onCloud (GetFloatingIP B x))"
    and GetFloatingIPByName_sim [sim_intros]: "\<And>x. sim RR (onCloud (GetFloatingIPByName A x)) (onCloud (GetFloatingIPByName B x))"
    and CreateFloatingIP_sim [sim_intros]: "\<And>x. sim RR (onCloud (CreateFloatingIP A x)) (onCloud (CreateFloatingIP B x))"
    and DeleteFloatingIP_sim [sim_intros]: "\<And>x. sim RR (onCloud (DeleteFloatingIP A x)) (onCloud (DeleteFloatingIP B x))"
    and UpdateFloatingIP_sim [sim_intros]: "\<And>x y. sim RR (onCloud (UpdateFloatingIP A x y)) (onCloud (UpdateFloatingIP B x y))"
    and AssignFloatingIP_sim [sim_intros]: "\<And>x y. sim RR (onCloud (AssignFloatingIP A x y)) (onCloud (AssignFloatingIP B x y))"
    and UnassignFloatingIP_sim [sim_intros]: "\<And>x. sim RR (onCloud (UnassignFloatingIP A x)) (onCloud (UnassignFloatingIP B x))"
    and ChangeFloatingIPDNSPtr_sim [sim_intros]: "\<And>x y z. sim RR (onCloud (ChangeFloatingIPDNSPtr A x y z)) (onCloud (ChangeFloatingIPDNSPtr B x y z))"
    and GetCertificate_sim [sim_intros]: "\<And>x. sim RR (onCloud (GetCertificate A x)) (onCloud (GetCertificate B x))"
    and GetCertificateByName_sim [sim_intros]: "\<And>x. sim RR (onCloud (GetCertificateByName A x)) (onCloud (GetCertificateByName B x))"
    and CreateCertificate_sim [sim_intros]: "\<And>x. sim RR (onCloud (CreateCertificate A x)) (onCloud (CreateCertificate B x))"
    and DeleteCertificate_sim [sim_intros]: "\<And>x. sim RR (onCloud (DeleteCertificate A x)) (onCloud (DeleteCertificate B x))"
    and UpdateCertificate_sim [sim_intros]: "\<And>x y. sim RR (onCloud (UpdateCertificate A x y)) (onCloud (UpdateCertificate B x y))"
begin

lemmas cloud_sims = obj_sim status_sim GetServer_sim GetServerByName_sim CreateServer_sim DeleteServer_sim PowerOffServer_sim
  PowerOnServer_sim ChangeServerType_sim AttachServerToNetwork_sim DetachServerFromNetwork_sim
  GetVolume_sim GetVolumeByName_sim CreateVolume_sim DeleteVolume_sim AttachVolume_sim
  DetachVolume_sim ResizeVolume_sim GetLoadBalancer_sim GetLoadBalancerByName_sim CreateLoadBalancer_sim
  DeleteLoadBalancer_sim AttachServerToLoadBalancer_sim DetachServerFromLoadBalancer_sim
  SyncLoadBalancerServices_sim GetNetwork_sim GetNetworkByName_sim CreateNetwork_sim DeleteNetwork_sim
  AddNetworkCloudSubnet_sim GetFirewall_sim GetFirewallByName_sim CreateFirewall_sim DeleteFirewall_sim
  UpdateFirewallLabels_sim SetFirewallRules_sim ApplyFirewallResources_sim RemoveFirewallResources_sim
  GetPlacementGroup_sim GetPlacementGroupByName_sim CreatePlacementGroup_sim DeletePlacementGroup_sim
  GetPrimaryIP_sim GetPrimaryIPByName_sim CreatePrimaryIP_sim DeletePrimaryIP_sim UpdatePrimaryIP_sim
  AssignPrimaryIP_sim UnassignPrimaryIP_sim ChangePrimaryIPDNSPtr_sim GetFloatingIP_sim
  GetFloatingIPByName_sim CreateFloatingIP_sim DeleteFloatingIP_sim UpdateFloatingIP_sim
  AssignFloatingIP_sim UnassignFloatingIP_sim ChangeFloatingIPDNSPtr_sim GetCertificate_sim
  GetCertificateByName_sim CreateCertificate_sim DeleteCertificate_sim UpdateCertificate_sim

end

section \<open>Domain logic\<close>

locale domain_sim = cloud_sim RR A B
  for RR :: "('c, 'k, ('spec, 'x status_base_scheme) kobject) rst
      \<Rightarrow> ('d, 'k, ('spec, 'x status_base_scheme) kobject) rst \<Rightarrow> bool"
    and A :: "'c Interface"
    and B :: "'d Interface" +
  fixes L :: "('c, 'k, ('spec, 'x status_base_scheme) kobject) rst lib"
    and M :: "('d, 'k, ('spec, 'x status_base_scheme) kobject) rst lib"
    and K :: "'k kube_api"
  assumes lib_sels: "SetStatusCondition L = SetStatusCondition M"
      "FindStatusCondition L = FindStatusCondition M"
      "IsNotFound L = IsNotFound M" "LabelSelectorAsSelector L = LabelSelectorAsSelector M"
    and retry_sim [sim_intros]: "\<And>m n. sim RR m n \<Longrightarrow> sim RR (RetryOnConflict L m) (RetryOnConflict M n)"
    and KServers_get_sim [sim_intros]: "\<And>x. sim RR (onKube (KGet (KServers K) x)) (onKube (KGet (KServers K) x))"
    and KVolumes_get_sim [sim_intros]: "\<And>x. sim RR (onKube (KGet (KVolumes K) x)) (onKube (KGet (KVolumes K) x))"
    and KLoadBalancers_get_sim [sim_intros]: "\<And>x. sim RR (onKube (KGet (KLoadBalancers K) x)) (onKube (KGet (KLoadBalancers K) x))"
    and KNetworks_get_sim [sim_intros]: "\<And>x. sim RR (onKube (KGet (KNetworks K) x)) (onKube (KGet (KNetworks K) x))"
    and KFirewalls_get_sim [sim_intros]: "\<And>x. sim RR (onKube (KGet (KFirewalls K) x)) (onKube (KGet (KFirewalls K) x))"
    and KPlacementGroups_get_sim [sim_intros]: "\<And>x. sim RR (onKube (KGet (KPlacementGroups K) x)) (onKube (KGet (KPlacementGroups K) x))"
    and KPrimaryIPs_get_sim [sim_intros]: "\<And>x. sim RR (onKube (KGet (KPrimaryIPs K) x)) (onKube (KGet (KPrimaryIPs K) x))"
    and KFloatingIPs_get_sim [sim_intros]: "\<And>x. sim RR (onKube (KGet (KFloatingIPs K) x)) (onKube (KGet (KFloatingIPs K) x))"
    and KCertificates_get_sim [sim_intros]: "\<And>x. sim RR (onKube (KGet (KCertificates K) x)) (onKube (KGet (KCertificates K) x))"
    and KServers_list_sim [sim_intros]: "\<And>x. sim RR (onKube (KList (KServers K) x)) (onKube (KList (KServers K) x))"
    and KServers_status_sim [sim_intros]:
      "\<And>x. sim RR (onKube (KStatusUpdate (KServers K) x)) (onKube (KStatusUpdate (KServers K) x))"
    and KNetworks_status_sim [sim_intros]:
      "\<And>x. sim RR (onKube (KStatusUpdate (KNetworks K) x)) (onKube (KStatusUpdate (KNetworks K) x))"
begin

lemma condition_sim [sim_intros]:
  "sim RR (setCondition L t st reason msg) (setCondition M t st reason msg)"
  unfolding setCondition_def lib_sels by (rule status_sim)

lemmas domain_sims = retry_sim condition_sim KServers_get_sim KVolumes_get_sim KLoadBalancers_get_sim
  KNetworks_get_sim KFirewalls_get_sim KPlacementGroups_get_sim KPrimaryIPs_get_sim
  KFloatingIPs_get_sim KCertificates_get_sim KServers_list_sim KServers_status_sim
  KNetworks_status_sim cloud_sims

end

section \<open>Instances\<close>

text \<open>Two related clients.\<close>

lemma cloud_sim_clients:
  assumes "client_sim R A B"
  shows "cloud_sim (rst_rel R) A B"
  by (unfold_locales; intro sim_intros client_sim.client_sims[OF assms])

lemma domain_sim_clients:
  assumes "client_sim R A B" and "lib_rel R L M"
  shows "domain_sim (rst_rel R) A B L M K"
  by (intro domain_sim.intro cloud_sim_clients[OF assms(1)] domain_sim_axioms.intro)
    (intro sim_intros sim_retry[OF assms(2)] | simp add: lib_rel_sels[OF assms(2)])+

text \<open>The frame: the log of events and metrics and the object's metadata and spec are left alone.\<close>

definition frame :: "('c, 'k, ('spec, 'x) kobject) rst \<Rightarrow> ('c, 'k, ('spec, 'x) kobject) rst \<Rightarrow> bool" where
  "frame s0 s \<longleftrightarrow> events s = events s0 \<and> metrics s = metrics s0
     \<and> (\<exists>u. obj s = (obj s0)\<lparr>Status := u\<rparr>)"

text \<open>A predicate of the API server's state that the reads and the status updates keep.\<close>

definition kube_kept :: "'k kube_api \<Rightarrow> ('k \<Rightarrow> bool) \<Rightarrow> bool" where
  "kube_kept K P \<longleftrightarrow>
     (\<forall>x. keeps P (KGet (KServers K) x)) \<and>
     (\<forall>x. keeps P (KGet (KVolumes K) x)) \<and>
     (\<forall>x. keeps P (KGet (KLoadBalancers K) x)) \<and>
     (\<forall>x. keeps P (KGet (KNetworks K) x)) \<and>
     (\<forall>x. keeps P (KGet (KFirewalls K) x)) \<and>
     (\<forall>x. keeps P (KGet (KPlacementGroups K) x)) \<and>
     (\<forall>x. keeps P (KGet (KPrimaryIPs K) x)) \<and>
     (\<forall>x. keeps P (KGet (KFloatingIPs K) x)) \<and>
     (\<forall>x. keeps P (KGet (KCertificates K) x)) \<and>
     (\<forall>x. keeps P (KList (KServers K) x)) \<and> (\<forall>x. keeps P (KStatusUpdate (KServers K) x)) \<and>
     (\<forall>x. keeps P (KStatusUpdate (KNetworks K) x))"

lemma keeps_attempts: "keeps P m \<Longrightarrow> keeps P (attempts again n m)"
  using sim_attempts[of "diag P" m m] by (simp add: sim_diag_iff)

lemma sim_retry_diag: "retry_law L \<Longrightarrow> sim R m n \<Longrightarrow> sim R (RetryOnConflict L m) (RetryOnConflict L n)"
  by (simp add: retry_law_def sim_attempts)

lemma keeps_onCloud_frame: "keeps (frame s0) (onCloud m)"
  by (rule keepsI) (auto simp: onCloud_def frame_def split: prod.split)

lemma keeps_onKube_frame: "keeps (frame s0) (onKube m)"
  by (rule keepsI) (auto simp: onKube_def frame_def split: prod.split)

lemma keeps_updStatus_frame: "keeps (frame s0) (updStatus g)"
  by (rule keepsI) (auto simp: frame_def)

lemma keeps_onCloud_kube: "keeps (\<lambda>s. P (kube s)) (onCloud m)"
  by (rule keepsI) (auto simp: onCloud_def split: prod.split)

lemma keeps_onKube_kube:
  "keeps P m \<Longrightarrow> keeps (\<lambda>s. P (kube s)) (onKube m :: (('c, 'k, 'o) rst, 'a) prog)"
proof (rule keepsI)
  fix s :: "('c, 'k, 'o) rst" assume "keeps P m" "P (kube s)"
  then show "P (kube (snd (onKube m s)))"
    using keepsD[of P m "kube s"] by (auto simp: onKube_def split: prod.split)
qed

lemma keeps_updStatus_kube: "keeps (\<lambda>s. P (kube s)) (updStatus g)"
  by (rule keepsI) auto

lemmas frame_keeps = keeps_getM keeps_onCloud_frame keeps_onKube_frame keeps_updStatus_frame
lemmas kube_keeps = keeps_getM keeps_onCloud_kube keeps_onKube_kube keeps_updStatus_kube

lemma cloud_sim_kube: "cloud_sim (diag (\<lambda>s. P (kube s))) A A"
  by (unfold_locales; unfold sim_diag_iff; rule kube_keeps)

lemma cloud_sim_frame: "cloud_sim (diag (frame s0)) A A"
  by (unfold_locales; unfold sim_diag_iff; rule frame_keeps)

lemma domain_sim_frame:
  assumes "retry_law L"
  shows "domain_sim (diag (frame s0)) A A L L K"
  by (intro domain_sim.intro cloud_sim_frame domain_sim_axioms.intro)
    (simp_all only: sim_diag_iff frame_keeps sim_retry_diag[OF assms])

lemma domain_sim_kube:
  assumes "retry_law L" and "kube_kept K P"
  shows "domain_sim (diag (\<lambda>s. P (kube s))) A A L L K"
  by (intro domain_sim.intro cloud_sim_kube domain_sim_axioms.intro)
    (simp_all only: sim_diag_iff sim_retry_diag[OF assms(1)]
       keeps_onKube_kube assms(2)[unfolded kube_kept_def])

end
