(* ===== verification/BaseReconciler.thy ===== *)
theory BaseReconciler
  imports DomainSim
begin

text \<open>
  The generic reconcile loop of \<open>internal/reconcile/base.go\<close>: fetch, deletion and finalizers,
  the domain logic, the Synced condition, events, metrics, and the status write with its retry.
\<close>

section \<open>The loop\<close>

abbreviation ConditionSynced :: string where "ConditionSynced \<equiv> ''Synced''"
abbreviation ConditionReady :: string where "ConditionReady \<equiv> ''Ready''"
abbreviation reasonReconcileError :: string where "reasonReconcileError \<equiv> ''ReconcileError''"
abbreviation reasonReconcileSuccess :: string where "reasonReconcileSuccess \<equiv> ''ReconcileSuccess''"

text \<open>\<open>Resource[T]\<close>, what each controller supplies.\<close>

record ('s, 'o) Resource =
  NewObject :: 'o
  FinalizerName :: string
  Kind :: string
  Reconcile :: "('s, Result) prog"
  Delete :: "('s, unit) prog"

text \<open>\<open>rec\<close>: a recorder is configured.\<close>

definition base_event :: "bool \<Rightarrow> string \<Rightarrow> string \<Rightarrow> string \<Rightarrow> (('c, 'k, 'o) rst, unit) prog" where
  "base_event recorder et reason msg = (if recorder
     then modM (\<lambda>s. s\<lparr>events := events s @ [\<lparr> ev_Type = et, ev_Reason = reason, ev_Message = msg \<rparr>]\<rparr>)
     else ret ())"

definition RecordReconcile :: "string \<Rightarrow> string \<Rightarrow> (('c, 'k, 'o) rst, unit) prog" where
  "RecordReconcile kind result = modM (\<lambda>s. s\<lparr>metrics := metrics s @ [(kind, result)]\<rparr>)"

definition key_of :: "('spec, 'st) kobject \<Rightarrow> NamespacedName" where
  "key_of x = \<lparr> nn_Namespace = Namespace x, nn_Name = Name x \<rparr>"

text \<open>\<open>b.Update(ctx, obj)\<close>: the call leaves the server's answer in the object.\<close>

definition base_update :: "('k, 'o) kclient \<Rightarrow> (('c, 'k, 'o) rst, unit) prog" where
  "base_update K = bindM (getM obj) (\<lambda>x. bindM (onKube (KUpdate K x)) setObj)"

definition status_attempt :: "(('c, 'k, ('spec, 'st) kobject) rst) lib \<Rightarrow> ('k, ('spec, 'st) kobject) kclient
    \<Rightarrow> NamespacedName \<Rightarrow> (('c, 'k, ('spec, 'st) kobject) rst, unit) prog" where
  "status_attempt L K key =
     tryM (bindM (getM obj) (\<lambda>x. bindM (onKube (KStatusUpdate K x)) setObj))
       (\<lambda>err. if IsConflict L err
          then bindM (onKube (KGet K key)) (\<lambda>latest.
                 bindM (getM obj) (\<lambda>x.
                   bindM (setObj (x\<lparr>ResourceVersion := ResourceVersion latest\<rparr>)) (\<lambda>_. failM err)))
          else failM err)
       ret"

definition updateStatusWithRetry :: "(('c, 'k, ('spec, 'st) kobject) rst) lib
    \<Rightarrow> ('k, ('spec, 'st) kobject) kclient \<Rightarrow> (('c, 'k, ('spec, 'st) kobject) rst, unit) prog" where
  "updateStatusWithRetry L K = bindM (getM obj) (\<lambda>x. RetryOnConflict L (status_attempt L K (key_of x)))"

text \<open>The three ways on from a fetched object.\<close>

definition base_delete :: "(('c, 'k, ('spec, 'st) kobject) rst) lib \<Rightarrow> ('k, ('spec, 'st) kobject) kclient
    \<Rightarrow> bool \<Rightarrow> (('c, 'k, ('spec, 'st) kobject) rst, ('spec, 'st) kobject) Resource
    \<Rightarrow> (('c, 'k, ('spec, 'st) kobject) rst, Result) prog" where
  "base_delete L K recorder R = bindM (getM obj) (\<lambda>x.
     if ContainsFinalizer L (Finalizers x) (FinalizerName R) then
       tryM (Delete R)
         (\<lambda>err. bindM (base_event recorder ''Warning'' ''DeleteFailed'' (err_text err))
            (\<lambda>_. failM (Wrapf (''delete '' @ Kind R @ '' external resource'') err)))
         (\<lambda>_. bindM (getM obj) (\<lambda>x.
            bindM (setObj (x\<lparr>Finalizers := RemoveFinalizer L (Finalizers x) (FinalizerName R)\<rparr>)) (\<lambda>_.
            bindM (wrapM (''remove '' @ Kind R @ '' finalizer'') (base_update K)) (\<lambda>_.
            bindM (base_event recorder ''Normal'' ''Deleted'' ''External resource deleted and finalizer removed'')
              (\<lambda>_. ret emptyResult)))))
     else ret emptyResult)"

definition base_add_finalizer :: "(('c, 'k, ('spec, 'st) kobject) rst) lib \<Rightarrow> ('k, ('spec, 'st) kobject) kclient
    \<Rightarrow> (('c, 'k, ('spec, 'st) kobject) rst, ('spec, 'st) kobject) Resource
    \<Rightarrow> (('c, 'k, ('spec, 'st) kobject) rst, Result) prog" where
  "base_add_finalizer L K R = bindM (getM obj) (\<lambda>x.
     bindM (setObj (x\<lparr>Finalizers := AddFinalizer L (Finalizers x) (FinalizerName R)\<rparr>)) (\<lambda>_.
     bindM (wrapM (''add '' @ Kind R @ '' finalizer'') (base_update K)) (\<lambda>_.
     ret \<lparr> Requeue = True, RequeueAfter = 0 \<rparr>)))"

definition base_domain :: "(('c, 'k, ('spec, 'x status_base_scheme) kobject) rst) lib
    \<Rightarrow> ('k, ('spec, 'x status_base_scheme) kobject) kclient \<Rightarrow> bool
    \<Rightarrow> (('c, 'k, ('spec, 'x status_base_scheme) kobject) rst, ('spec, 'x status_base_scheme) kobject) Resource
    \<Rightarrow> (('c, 'k, ('spec, 'x status_base_scheme) kobject) rst, Result) prog" where
  "base_domain L K recorder R =
     tryM (Reconcile R)
       (\<lambda>err. bindM (setCondition L ConditionSynced ConditionFalse reasonReconcileError (err_text err)) (\<lambda>_.
          bindM (setCondition L ConditionReady ConditionFalse reasonReconcileError (err_text err)) (\<lambda>_.
          bindM (base_event recorder ''Warning'' reasonReconcileError (err_text err)) (\<lambda>_.
          bindM (RecordReconcile (Kind R) ''error'') (\<lambda>_.
          tryM (updateStatusWithRetry L K) (\<lambda>_. failM err) (\<lambda>_. failM err))))))
       (\<lambda>result. bindM (setCondition L ConditionSynced ConditionTrue reasonReconcileSuccess
            ''Reconcile loop completed without error'') (\<lambda>_.
          bindM (RecordReconcile (Kind R) ''success'') (\<lambda>_.
          bindM (wrapM (''persist '' @ Kind R @ '' status'') (updateStatusWithRetry L K)) (\<lambda>_.
          ret result))))"

definition base_Reconcile :: "(('c, 'k, ('spec, 'x status_base_scheme) kobject) rst) lib
    \<Rightarrow> ('k, ('spec, 'x status_base_scheme) kobject) kclient \<Rightarrow> bool
    \<Rightarrow> (('c, 'k, ('spec, 'x status_base_scheme) kobject) rst, ('spec, 'x status_base_scheme) kobject) Resource
    \<Rightarrow> NamespacedName \<Rightarrow> (('c, 'k, ('spec, 'x status_base_scheme) kobject) rst, Result) prog" where
  "base_Reconcile L K recorder R req =
     bindM (setObj (NewObject R)) (\<lambda>_.
     tryM (bindM (onKube (KGet K req)) setObj)
       (\<lambda>err. if IsNotFound L err then ret emptyResult
          else failM (Wrapf (''get '' @ Kind R) err))
       (\<lambda>_. bindM (getM obj) (\<lambda>x.
          if DeletionTimestamp x \<noteq> None then base_delete L K recorder R
          else if \<not> ContainsFinalizer L (Finalizers x) (FinalizerName R) then base_add_finalizer L K R
          else base_domain L K recorder R)))"

section \<open>The API server\<close>

text \<open>
  What the API server promises for one kind with a status subresource, \<open>store\<close> being what it
  holds: reads return the stored object; a write carrying a resource version other than the
  stored one is refused as a conflict and changes nothing; an accepted update writes metadata and
  spec and keeps the status, an accepted status update the reverse; both give a new resource
  version; an object marked for deletion goes away with its last finalizer. A missing object is
  reported as not found. Reads are not stale.
\<close>

definition stored_update :: "('spec, 'st) kobject \<Rightarrow> ('spec, 'st) kobject \<Rightarrow> string \<Rightarrow> ('spec, 'st) kobject" where
  "stored_update cur new rv =
     new\<lparr>Status := Status cur, DeletionTimestamp := DeletionTimestamp cur, ResourceVersion := rv\<rparr>"

definition stored_status :: "('spec, 'st) kobject \<Rightarrow> ('spec, 'st) kobject \<Rightarrow> string \<Rightarrow> ('spec, 'st) kobject" where
  "stored_status cur new rv = cur\<lparr>Status := Status new, ResourceVersion := rv\<rparr>"

definition api_law :: "(goerr \<Rightarrow> bool) \<Rightarrow> (goerr \<Rightarrow> bool)
    \<Rightarrow> ('k \<Rightarrow> NamespacedName \<Rightarrow> ('spec, 'st) kobject option) \<Rightarrow> ('k, ('spec, 'st) kobject) kclient \<Rightarrow> bool" where
  "api_law notfound conflict store K \<longleftrightarrow>
     (\<forall>k nn x. store k nn = Some x \<longrightarrow> KGet K nn k = (Ok x, k) \<and> key_of x = nn) \<and>
     (\<forall>k nn. store k nn = None \<longrightarrow>
        (\<exists>e. KGet K nn k = (Err e, k) \<and> notfound e \<and> \<not> conflict e)) \<and>
     (\<forall>k x. store k (key_of x) = None \<longrightarrow>
        (\<exists>e. KUpdate K x k = (Err e, k) \<and> \<not> conflict e) \<and>
        (\<exists>e. KStatusUpdate K x k = (Err e, k) \<and> \<not> conflict e)) \<and>
     (\<forall>k x cur. store k (key_of x) = Some cur \<longrightarrow> ResourceVersion x \<noteq> ResourceVersion cur \<longrightarrow>
        (\<exists>e. KUpdate K x k = (Err e, k) \<and> conflict e) \<and>
        (\<exists>e. KStatusUpdate K x k = (Err e, k) \<and> conflict e)) \<and>
     (\<forall>k x cur. store k (key_of x) = Some cur \<longrightarrow> ResourceVersion x = ResourceVersion cur \<longrightarrow>
        (\<exists>k' rv. rv \<noteq> ResourceVersion cur
           \<and> KUpdate K x k = (Ok (stored_update cur x rv), k')
           \<and> store k' = (store k)(key_of x := if DeletionTimestamp cur \<noteq> None \<and> Finalizers x = []
               then None else Some (stored_update cur x rv))) \<and>
        (\<exists>k' rv. rv \<noteq> ResourceVersion cur
           \<and> KStatusUpdate K x k = (Ok (stored_status cur x rv), k')
           \<and> store k' = (store k)(key_of x \<mapsto> stored_status cur x rv)))"

lemma key_of_simps [simp]:
  "key_of (x\<lparr>Status := u\<rparr>) = key_of x" "key_of (x\<lparr>ResourceVersion := v\<rparr>) = key_of x"
  "key_of (x\<lparr>Finalizers := fs\<rparr>) = key_of x" "key_of (x\<lparr>DeletionTimestamp := d\<rparr>) = key_of x"
  "key_of (stored_update cur x v) = key_of x" "key_of (stored_status cur x v) = key_of cur"
  by (simp_all add: key_of_def stored_update_def stored_status_def)

end
