(* ===== verification/BaseLaws.thy ===== *)
theory BaseLaws
  imports BaseReconciler
begin

text \<open>
  What the base reconciler guarantees for any domain logic that keeps to the contract of
  \<open>Resource[T]\<close>, against an API server with optimistic concurrency.
\<close>

section \<open>Writing the status\<close>

lemma api_get: "api_law nf cf store K \<Longrightarrow> store k nn = Some x \<Longrightarrow> KGet K nn k = (Ok x, k)"
  by (simp add: api_law_def)

lemma api_key: "api_law nf cf store K \<Longrightarrow> store k nn = Some x \<Longrightarrow> key_of x = nn"
  by (simp add: api_law_def)

lemma api_update_Some:
  assumes "api_law nf cf store K" and "store k (key_of x) = Some cur"
    and "ResourceVersion x = ResourceVersion cur"
  obtains k' rv where "rv \<noteq> ResourceVersion cur" and "KUpdate K x k = (Ok (stored_update cur x rv), k')"
    and "store k' = (store k)(key_of x := if DeletionTimestamp cur \<noteq> None \<and> Finalizers x = []
               then None else Some (stored_update cur x rv))"
  using assms unfolding api_law_def by meson

lemma api_status_Some:
  assumes "api_law nf cf store K" and "store k (key_of x) = Some cur"
    and "ResourceVersion x = ResourceVersion cur"
  obtains k' rv where "rv \<noteq> ResourceVersion cur" and "KStatusUpdate K x k = (Ok (stored_status cur x rv), k')"
    and "store k' = (store k)(key_of x \<mapsto> stored_status cur x rv)"
  using assms unfolding api_law_def by meson

lemma api_status_stale:
  assumes "api_law nf cf store K" and "store k (key_of x) = Some cur"
    and "ResourceVersion x \<noteq> ResourceVersion cur"
  obtains e where "KStatusUpdate K x k = (Err e, k)" and "cf e"
  using assms unfolding api_law_def by meson

lemma api_status_missing:
  assumes "api_law nf cf store K" and "store k (key_of x) = None"
  obtains e where "KStatusUpdate K x k = (Err e, k)" and "\<not> cf e"
  using assms unfolding api_law_def by meson

text \<open>One attempt: with the stored resource version it writes the status, with another it
  refreshes the version and reports the conflict.\<close>

lemma attempt_current:
  assumes "api_law nf (IsConflict L) store K" and "store (kube s) (key_of (obj s)) = Some cur"
    and "ResourceVersion (obj s) = ResourceVersion cur"
  obtains k' rv where "status_attempt L K key s =
      (Ok (), s\<lparr>kube := k', obj := stored_status cur (obj s) rv\<rparr>)"
    and "store k' = (store (kube s))(key_of (obj s) \<mapsto> stored_status cur (obj s) rv)"
proof -
  obtain k' rv where k: "KStatusUpdate K (obj s) (kube s) = (Ok (stored_status cur (obj s) rv), k')"
    "store k' = (store (kube s))(key_of (obj s) \<mapsto> stored_status cur (obj s) rv)"
    using api_status_Some[OF assms] by metis
  then show ?thesis
    by (intro that) (simp_all add: status_attempt_def tryM_run)
qed

lemma attempt_stale:
  assumes "api_law nf (IsConflict L) store K" and "store (kube s) (key_of (obj s)) = Some cur"
    and "ResourceVersion (obj s) \<noteq> ResourceVersion cur"
  obtains e where "status_attempt L K (key_of (obj s)) s =
      (Err e, s\<lparr>obj := (obj s)\<lparr>ResourceVersion := ResourceVersion cur\<rparr>\<rparr>)" and "IsConflict L e"
proof -
  obtain e where e: "KStatusUpdate K (obj s) (kube s) = (Err e, kube s)" "IsConflict L e"
    using api_status_stale[OF assms] by metis
  then show ?thesis
    using that[of e] api_get[OF assms(1,2)]
    by (simp add: status_attempt_def tryM_run)
qed

text \<open>The status write succeeds whatever resource version the object in memory carries, writes
  exactly its status and leaves the stored metadata and spec alone.\<close>

lemma status_persists:
  assumes "retry_law L" and "api_law nf (IsConflict L) store K"
    and "store (kube s) (key_of (obj s)) = Some cur"
  obtains k' y rv where "updateStatusWithRetry L K s = (Ok (), s\<lparr>kube := k', obj := y\<rparr>)"
    and "y = stored_status cur (obj s) rv"
    and "store k' = (store (kube s))(key_of (obj s) \<mapsto> y)"
proof (cases "ResourceVersion (obj s) = ResourceVersion cur")
  case True
  obtain k' rv where run: "status_attempt L K (key_of (obj s)) s =
      (Ok (), s\<lparr>kube := k', obj := stored_status cur (obj s) rv\<rparr>)"
    and st: "store k' = (store (kube s))(key_of (obj s) \<mapsto> stored_status cur (obj s) rv)"
    using attempt_current[OF assms(2,3) True] by metis
  from run have "RetryOnConflict L (status_attempt L K (key_of (obj s))) s =
      (Ok (), s\<lparr>kube := k', obj := stored_status cur (obj s) rv\<rparr>)"
    by (intro retry_once[OF assms(1)]) auto
  then show ?thesis using that[OF _ refl] st by (simp add: updateStatusWithRetry_def)
next
  case False
  define s1 where "s1 = s\<lparr>obj := (obj s)\<lparr>ResourceVersion := ResourceVersion cur\<rparr>\<rparr>"
  obtain e where e: "status_attempt L K (key_of (obj s)) s = (Err e, s1)" "IsConflict L e"
    using attempt_stale[OF assms(2,3) False] unfolding s1_def by metis
  have "store (kube s1) (key_of (obj s1)) = Some cur" "ResourceVersion (obj s1) = ResourceVersion cur"
    using assms(3) by (simp_all add: s1_def)
  then obtain k' rv where run: "status_attempt L K (key_of (obj s)) s1 =
      (Ok (), s1\<lparr>kube := k', obj := stored_status cur (obj s1) rv\<rparr>)"
    and st: "store k' = (store (kube s1))(key_of (obj s1) \<mapsto> stored_status cur (obj s1) rv)"
    using attempt_current[OF assms(2)] by metis
  have same: "stored_status cur (obj s1) rv = stored_status cur (obj s) rv"
    by (simp add: s1_def stored_status_def)
  from e run have "RetryOnConflict L (status_attempt L K (key_of (obj s))) s =
      (Ok (), s1\<lparr>kube := k', obj := stored_status cur (obj s1) rv\<rparr>)"
    by (intro retry_twice[OF assms(1)]) auto
  then show ?thesis
    using that[OF _ refl] st same by (simp add: updateStatusWithRetry_def s1_def)
qed

text \<open>The refused write of a missing object changes nothing.\<close>

lemma status_missing:
  assumes "retry_law L" and "api_law nf (IsConflict L) store K"
    and "store (kube s) (key_of (obj s)) = None"
  obtains e where "updateStatusWithRetry L K s = (Err e, s)"
proof -
  obtain e where "KStatusUpdate K (obj s) (kube s) = (Err e, kube s)" "\<not> IsConflict L e"
    using api_status_missing[OF assms(2,3)] by metis
  then have "status_attempt L K (key_of (obj s)) s = (Err e, s)" "\<not> IsConflict L e"
    by (simp_all add: status_attempt_def tryM_run)
  then have "RetryOnConflict L (status_attempt L K (key_of (obj s))) s = (Err e, s)"
    by (intro retry_once[OF assms(1)]) auto
  then show ?thesis using that by (simp add: updateStatusWithRetry_def)
qed

lemma status_keeps:
  assumes "retry_law L" and "\<And>x. keeps P (KStatusUpdate K x)" and "\<And>x. keeps P (KGet K x)"
  shows "keeps (\<lambda>s. P (kube s)) (updateStatusWithRetry L K)"
  unfolding updateStatusWithRetry_def status_attempt_def assms(1)[unfolded retry_law_def, rule_format]
  by (intro inv_intros keeps_attempts keeps_onKube_kube keeps_setObj_kube assms(2,3))

section \<open>The contract of the domain logic\<close>

text \<open>\<open>held store req f\<close>: the stored object carries the finalizer.\<close>

definition held :: "('k \<Rightarrow> NamespacedName \<Rightarrow> ('spec, 'st) kobject option) \<Rightarrow> NamespacedName \<Rightarrow> string
    \<Rightarrow> 'k \<Rightarrow> bool" where
  "held store req f k \<longleftrightarrow> (\<exists>x. store k req = Some x \<and> f \<in> set (Finalizers x))"

lemma held_get: "api_law nf cf store K \<Longrightarrow> keeps (held store req f) (KGet K x)"
proof (rule keepsI)
  fix k assume "api_law nf cf store K" "held store req f k"
  then show "held store req f (snd (KGet K x k))"
    by (cases "store k x") (auto simp: api_law_def, metis snd_conv)
qed

lemma held_status: "api_law nf cf store K \<Longrightarrow> keeps (held store req f) (KStatusUpdate K x)"
proof (rule keepsI)
  fix k assume api: "api_law nf cf store K" and h: "held store req f k"
  consider "store k (key_of x) = None" |
    cur where "store k (key_of x) = Some cur" "ResourceVersion x \<noteq> ResourceVersion cur" |
    cur where "store k (key_of x) = Some cur" "ResourceVersion x = ResourceVersion cur"
    by (cases "store k (key_of x)") auto
  then show "held store req f (snd (KStatusUpdate K x k))"
  proof cases
    case 1
    then show ?thesis using api_status_missing[OF api 1] h by (metis snd_conv)
  next
    case 2
    then show ?thesis using api_status_stale[OF api 2] h by (metis snd_conv)
  next
    case 3
    then obtain k' rv where "KStatusUpdate K x k = (Ok (stored_status cur x rv), k')"
      "store k' = (store k)(key_of x \<mapsto> stored_status cur x rv)"
      using api_status_Some[OF api 3] by metis
    then show ?thesis using h 3 by (auto simp: held_def stored_status_def)
  qed
qed

locale resource_contract =
  fixes L :: "(('c, 'k, ('spec, 'x status_base_scheme) kobject) rst) lib"
    and A :: "'k kube_api"
    and R :: "(('c, 'k, ('spec, 'x status_base_scheme) kobject) rst,
      ('spec, 'x status_base_scheme) kobject) Resource"
  assumes reconcile_frame: "retry_law L \<Longrightarrow> keeps (frame s0) (Reconcile R)"
    and reconcile_kube: "retry_law L \<Longrightarrow> kube_kept A P \<Longrightarrow> keeps (\<lambda>s. P (kube s)) (Reconcile R)"
    and delete_frame: "keeps (frame s0) (Delete R)"
    and delete_kube: "keeps (\<lambda>s. Q (kube s)) (Delete R)"
begin

lemma delete_same_kube: "kube (snd (Delete R s)) = kube s"
  using keepsD[OF delete_kube[of "\<lambda>k. k = kube s"], of s] by simp

lemma frame_refl [simp]: "frame s s"
  by (auto simp: frame_def intro: exI[of _ "Status (obj s)"])

lemma delete_same_obj: "\<exists>u. obj (snd (Delete R s)) = (obj s)\<lparr>Status := u\<rparr>"
  using keepsD[OF delete_frame[of s] frame_refl] by (auto simp: frame_def)

text \<open>What a reconcile of a stored object comes down to.\<close>

lemma base_fetch:
  assumes "api_law nf cf store K" and "store (kube s) req = Some x"
  shows "base_Reconcile L K recorder R req s =
    (if DeletionTimestamp x \<noteq> None then base_delete L K recorder R
     else if \<not> ContainsFinalizer L (Finalizers x) (FinalizerName R) then base_add_finalizer L K R
     else base_domain L K recorder R) (s\<lparr>obj := x\<rparr>)"
  using api_get[OF assms] by (simp add: base_Reconcile_def tryM_run)

text \<open>The finalizer is dropped only by a deletion whose external cleanup succeeded.\<close>

lemma finalizer_safety:
  assumes "retry_law L" and "finalizers_law L" and "api_law (IsNotFound L) (IsConflict L) store K"
    and "kube_kept A (held store req (FinalizerName R))"
    and "held store req (FinalizerName R) (kube s)"
    and "\<not> held store req (FinalizerName R) (kube (snd (base_Reconcile L K recorder R req s)))"
  shows "\<exists>x. store (kube s) req = Some x \<and> DeletionTimestamp x \<noteq> None
    \<and> fst (Delete R (s\<lparr>obj := x\<rparr>)) = Ok ()"
proof -
  let ?f = "FinalizerName R"
  obtain x where x: "store (kube s) req = Some x" "?f \<in> set (Finalizers x)"
    using assms(5) by (auto simp: held_def)
  let ?s = "s\<lparr>obj := x\<rparr>"
  have has: "ContainsFinalizer L (Finalizers x) ?f"
    using x(2) assms(2) by (simp add: finalizers_law_def)
  have held: "held store req ?f (kube ?s)" using assms(5) by simp
  note fetch = base_fetch[OF assms(3) x(1), of recorder]
  show ?thesis
  proof (cases "DeletionTimestamp x")
    case None
    have "keeps (\<lambda>s. held store req ?f (kube s)) (base_domain L K recorder R)"
      unfolding base_domain_def base_event_def RecordReconcile_def setCondition_def updStatus_def
      by (intro inv_intros keeps_tryM keeps_bindM reconcile_kube[OF assms(1,4)]
            status_keeps[OF assms(1)] held_get[OF assms(3)] held_status[OF assms(3)])
         (auto simp: keeps_def)
    then have "held store req ?f (kube (snd (base_domain L K recorder R ?s)))"
      using held by (rule keepsD)
    then show ?thesis using assms(6) fetch None has by simp
  next
    case (Some t)
    have "fst (Delete R ?s) = Ok ()"
    proof (rule ccontr)
      assume no: "fst (Delete R ?s) \<noteq> Ok ()"
      obtain r s2 where d: "Delete R ?s = (r, s2)" by (cases "Delete R ?s")
      then have "kube s2 = kube s" using delete_same_kube[of ?s] by simp
      then have "kube (snd (base_delete L K recorder R ?s)) = kube s"
        using d no has by (cases r) (auto simp: base_delete_def base_event_def tryM_run bindM_run)
      then show False using assms(5,6) fetch Some by simp
    qed
    then show ?thesis using x Some by auto
  qed
qed

text \<open>Domain logic never changes which object is being reconciled.\<close>

lemma reconcile_key:
  assumes "retry_law L" and "Reconcile R s = (r, s2)"
  shows "key_of (obj s2) = key_of (obj s)" "events s2 = events s" "metrics s2 = metrics s"
  using keepsD[OF reconcile_frame[OF assms(1)] frame_refl, of s] assms(2) by (auto simp: frame_def)

lemma base_success:
  assumes "lib_ok L" and "api_law (IsNotFound L) (IsConflict L) store K"
    and "store (kube s) req = Some x" and "DeletionTimestamp x = None"
    and "FinalizerName R \<in> set (Finalizers x)"
    and "Reconcile R (s\<lparr>obj := x\<rparr>) = (Ok res, s2)" and "store (kube s2) req = Some cur"
  shows "\<exists>s' y. base_Reconcile L K recorder R req s = (Ok res, s')
    \<and> cloud s' = cloud s2 \<and> events s' = events s \<and> metrics s' = metrics s @ [(Kind R, ''success'')]
    \<and> store (kube s') = (store (kube s2))(req \<mapsto> y)
    \<and> y = cur\<lparr>Status := (Status (obj s2))\<lparr>Conditions := Conditions (Status y)\<rparr>,
        ResourceVersion := ResourceVersion y\<rparr>
    \<and> FindStatusCondition L (Conditions (Status y)) = (FindStatusCondition L (Conditions (Status (obj s2))))
        (''Synced'' \<mapsto> \<lparr> cond_Type = ''Synced'', cond_Status = ''True'', cond_Reason = ''ReconcileSuccess'',
            cond_Message = ''Reconcile loop completed without error'' \<rparr>)"
proof -
  note laws = lib_okD[OF assms(1)]
  have has: "ContainsFinalizer L (Finalizers x) (FinalizerName R)"
    using laws(2) assms(5) by (simp add: finalizers_law_def)
  have same: "key_of (obj s2) = req" "events s2 = events s" "metrics s2 = metrics s"
    using reconcile_key[OF laws(3) assms(6)] api_key[OF assms(2,3)] by simp_all
  let ?c = "\<lparr> cond_Type = ''Synced'', cond_Status = ''True'', cond_Reason = ''ReconcileSuccess'',
            cond_Message = ''Reconcile loop completed without error'' \<rparr>"
  let ?cs = "SetStatusCondition L (Conditions (Status (obj s2))) ?c"
  define s3 where "s3 = s2\<lparr>obj := (obj s2)\<lparr>Status := (Status (obj s2))\<lparr>Conditions := ?cs\<rparr>\<rparr>,
      metrics := metrics s2 @ [(Kind R, ''success'')]\<rparr>"
  have "store (kube s3) (key_of (obj s3)) = Some cur"
    using assms(7) same(1) by (simp add: s3_def)
  then obtain k' y rv where w: "updateStatusWithRetry L K s3 = (Ok (), s3\<lparr>kube := k', obj := y\<rparr>)"
    "y = stored_status cur (obj s3) rv" "store k' = (store (kube s3))(key_of (obj s3) \<mapsto> y)"
    using status_persists[OF laws(3) assms(2)] by metis
  have st: "Status y = (Status (obj s2))\<lparr>Conditions := ?cs\<rparr>"
    "y = cur\<lparr>Status := (Status (obj s2))\<lparr>Conditions := Conditions (Status y)\<rparr>,
        ResourceVersion := ResourceVersion y\<rparr>"
    using w(2) by (simp_all add: s3_def stored_status_def)
  have "store k' = (store (kube s2))(req \<mapsto> y)"
    using w(3) same(1) by (simp add: s3_def)
  moreover have "FindStatusCondition L ?cs = (FindStatusCondition L (Conditions (Status (obj s2))))(''Synced'' \<mapsto> ?c)"
    by (rule ext) (simp add: find_set[OF laws(1)])
  moreover have "base_Reconcile L K recorder R req s = (Ok res, s3\<lparr>kube := k', obj := y\<rparr>)"
    using assms(4,6) has w(1)
    by (simp add: base_fetch[OF assms(2,3)] base_domain_def tryM_run RecordReconcile_def s3_def)
  ultimately show ?thesis
    using st same by (intro exI[of _ "s3\<lparr>kube := k', obj := y\<rparr>"] exI[of _ y]) (simp add: s3_def)
qed

text \<open>A failing reconcile: the original error is returned, and the stored status carries what the
  domain logic had written before it failed, with Synced and Ready forced to False.\<close>

lemma base_error:
  assumes "lib_ok L" and "api_law (IsNotFound L) (IsConflict L) store K"
    and "store (kube s) req = Some x" and "DeletionTimestamp x = None"
    and "FinalizerName R \<in> set (Finalizers x)"
    and "Reconcile R (s\<lparr>obj := x\<rparr>) = (Err e, s2)" and "store (kube s2) req = Some cur"
  shows "\<exists>s' y. base_Reconcile L K recorder R req s = (Err e, s')
    \<and> cloud s' = cloud s2 \<and> metrics s' = metrics s @ [(Kind R, ''error'')]
    \<and> events s' = events s @ (if recorder then [\<lparr> ev_Type = ''Warning'', ev_Reason = ''ReconcileError'',
        ev_Message = err_text e \<rparr>] else [])
    \<and> store (kube s') = (store (kube s2))(req \<mapsto> y)
    \<and> y = cur\<lparr>Status := (Status (obj s2))\<lparr>Conditions := Conditions (Status y)\<rparr>,
        ResourceVersion := ResourceVersion y\<rparr>
    \<and> FindStatusCondition L (Conditions (Status y)) = (FindStatusCondition L (Conditions (Status (obj s2))))
        (''Synced'' \<mapsto> \<lparr> cond_Type = ''Synced'', cond_Status = ''False'', cond_Reason = ''ReconcileError'',
            cond_Message = err_text e \<rparr>,
         ''Ready'' \<mapsto> \<lparr> cond_Type = ''Ready'', cond_Status = ''False'', cond_Reason = ''ReconcileError'',
            cond_Message = err_text e \<rparr>)"
proof -
  note laws = lib_okD[OF assms(1)]
  have has: "ContainsFinalizer L (Finalizers x) (FinalizerName R)"
    using laws(2) assms(5) by (simp add: finalizers_law_def)
  have same: "key_of (obj s2) = req" "events s2 = events s" "metrics s2 = metrics s"
    using reconcile_key[OF laws(3) assms(6)] api_key[OF assms(2,3)] by simp_all
  let ?c = "\<lambda>t. \<lparr> cond_Type = t, cond_Status = ''False'', cond_Reason = ''ReconcileError'',
            cond_Message = err_text e \<rparr>"
  let ?cs = "SetStatusCondition L (SetStatusCondition L (Conditions (Status (obj s2))) (?c ''Synced'')) (?c ''Ready'')"
  let ?ev = "if recorder then [\<lparr> ev_Type = ''Warning'', ev_Reason = ''ReconcileError'',
        ev_Message = err_text e \<rparr>] else []"
  define s3 where "s3 = s2\<lparr>obj := (obj s2)\<lparr>Status := (Status (obj s2))\<lparr>Conditions := ?cs\<rparr>\<rparr>,
      events := events s2 @ ?ev, metrics := metrics s2 @ [(Kind R, ''error'')]\<rparr>"
  have "store (kube s3) (key_of (obj s3)) = Some cur"
    using assms(7) same(1) by (simp add: s3_def)
  then obtain k' y rv where w: "updateStatusWithRetry L K s3 = (Ok (), s3\<lparr>kube := k', obj := y\<rparr>)"
    "y = stored_status cur (obj s3) rv" "store k' = (store (kube s3))(key_of (obj s3) \<mapsto> y)"
    using status_persists[OF laws(3) assms(2)] by metis
  have st: "Status y = (Status (obj s2))\<lparr>Conditions := ?cs\<rparr>"
    "y = cur\<lparr>Status := (Status (obj s2))\<lparr>Conditions := Conditions (Status y)\<rparr>,
        ResourceVersion := ResourceVersion y\<rparr>"
    using w(2) by (simp_all add: s3_def stored_status_def)
  have "store k' = (store (kube s2))(req \<mapsto> y)"
    using w(3) same(1) by (simp add: s3_def)
  moreover have "FindStatusCondition L ?cs = (FindStatusCondition L (Conditions (Status (obj s2))))
      (''Synced'' \<mapsto> ?c ''Synced'', ''Ready'' \<mapsto> ?c ''Ready'')"
    by (rule ext) (simp add: find_set[OF laws(1)])
  moreover have "base_Reconcile L K recorder R req s = (Err e, s3\<lparr>kube := k', obj := y\<rparr>)"
    using assms(4,6) has w(1)
    by (cases recorder)
       (simp_all add: base_fetch[OF assms(2,3)] base_domain_def tryM_run RecordReconcile_def base_event_def s3_def)
  ultimately show ?thesis
    using st same by (intro exI[of _ "s3\<lparr>kube := k', obj := y\<rparr>"] exI[of _ y]) (simp add: s3_def)
qed

text \<open>A deletion whose cleanup succeeds takes the finalizer off the stored object, and the object
  away when that was its last one.\<close>

lemma base_deleted:
  assumes "finalizers_law L" and "api_law (IsNotFound L) (IsConflict L) store K"
    and "store (kube s) req = Some x" and "DeletionTimestamp x \<noteq> None"
    and "FinalizerName R \<in> set (Finalizers x)"
    and "Delete R (s\<lparr>obj := x\<rparr>) = (Ok (), s2)"
  shows "\<exists>s'. base_Reconcile L K recorder R req s = (Ok emptyResult, s') \<and> cloud s' = cloud s2
    \<and> metrics s' = metrics s
    \<and> (case store (kube s') req of
         None \<Rightarrow> set (Finalizers x) = {FinalizerName R}
       | Some y \<Rightarrow> set (Finalizers y) = set (Finalizers x) - {FinalizerName R} \<and> Finalizers y \<noteq> []
           \<and> Status y = Status x)"
proof -
  let ?f = "FinalizerName R"
  have has: "ContainsFinalizer L (Finalizers x) ?f"
    using assms(1,5) by (simp add: finalizers_law_def)
  have kb: "kube s2 = kube s" using delete_same_kube[of "s\<lparr>obj := x\<rparr>"] assms(6) by simp
  obtain u where u: "obj s2 = x\<lparr>Status := u\<rparr>"
    using delete_same_obj[of "s\<lparr>obj := x\<rparr>"] assms(6) by auto
  have mt: "metrics s2 = metrics s"
    using keepsD[OF delete_frame frame_refl, of "s\<lparr>obj := x\<rparr>"] assms(6) by (simp add: frame_def)
  define z where "z = x\<lparr>Status := u, Finalizers := RemoveFinalizer L (Finalizers x) ?f\<rparr>"
  have z: "obj s2\<lparr>Finalizers := RemoveFinalizer L (Finalizers (obj s2)) ?f\<rparr> = z"
    by (simp add: u z_def)
  have "store (kube s) (key_of z) = Some x" "ResourceVersion z = ResourceVersion x"
    using assms(3) api_key[OF assms(2,3)] by (simp_all add: z_def)
  then obtain k' rv where w: "KUpdate K z (kube s) = (Ok (stored_update x z rv), k')"
    "store k' = (store (kube s))(key_of z := if DeletionTimestamp x \<noteq> None \<and> Finalizers z = []
               then None else Some (stored_update x z rv))"
    using api_update_Some[OF assms(2)] by metis
  have req: "key_of z = req" using api_key[OF assms(2,3)] by (simp add: z_def)
  have fin: "set (Finalizers z) = set (Finalizers x) - {?f}"
    using assms(1) by (simp add: z_def finalizers_law_def)
  have run: "base_Reconcile L K recorder R req s = (Ok emptyResult,
      s2\<lparr>obj := stored_update x z rv, kube := k', events := events s2 @ (if recorder
        then [\<lparr> ev_Type = ''Normal'', ev_Reason = ''Deleted'',
          ev_Message = ''External resource deleted and finalizer removed'' \<rparr>] else [])\<rparr>)"
    using assms(4,6) has w(1) kb
    by (cases recorder) (simp_all add: base_fetch[OF assms(2,3)] base_delete_def tryM_run
        base_update_def base_event_def wrapM_run z)
  show ?thesis
  proof (cases "Finalizers z = []")
    case True
    then have "set (Finalizers x) = {?f}" using fin assms(5) by auto
    then show ?thesis using run w(2) req True assms(4) mt by simp
  next
    case False
    then show ?thesis using run w(2) req fin mt by (auto simp: stored_update_def)
  qed
qed

text \<open>A new object gets its finalizer before anything is done to the cloud.\<close>

lemma base_first_touch:
  assumes "finalizers_law L" and "api_law (IsNotFound L) (IsConflict L) store K"
    and "store (kube s) req = Some x" and "DeletionTimestamp x = None"
    and "FinalizerName R \<notin> set (Finalizers x)"
  shows "\<exists>s' y. base_Reconcile L K recorder R req s = (Ok \<lparr> Requeue = True, RequeueAfter = 0 \<rparr>, s')
    \<and> cloud s' = cloud s \<and> events s' = events s \<and> metrics s' = metrics s
    \<and> store (kube s') = (store (kube s))(req \<mapsto> y)
    \<and> set (Finalizers y) = insert (FinalizerName R) (set (Finalizers x))
    \<and> Spec y = Spec x \<and> Status y = Status x"
proof -
  let ?z = "x\<lparr>Finalizers := AddFinalizer L (Finalizers x) (FinalizerName R)\<rparr>"
  have "store (kube s) (key_of ?z) = Some x" "ResourceVersion ?z = ResourceVersion x"
    using assms(3) api_key[OF assms(2,3)] by simp_all
  then obtain k' rv where w: "KUpdate K ?z (kube s) = (Ok (stored_update x ?z rv), k')"
    "store k' = (store (kube s))(key_of ?z := if DeletionTimestamp x \<noteq> None \<and> Finalizers ?z = []
               then None else Some (stored_update x ?z rv))"
    using api_update_Some[OF assms(2)] by metis
  have "base_Reconcile L K recorder R req s =
      (Ok \<lparr> Requeue = True, RequeueAfter = 0 \<rparr>, s\<lparr>obj := stored_update x ?z rv, kube := k'\<rparr>)"
    using assms(1,4,5) w(1) by (simp add: base_fetch[OF assms(2,3)] base_add_finalizer_def
        base_update_def wrapM_run finalizers_law_def)
  then show ?thesis
    using w(2) api_key[OF assms(2,3)] assms(1,4)
    by (intro exI[of _ "s\<lparr>obj := stored_update x ?z rv, kube := k'\<rparr>"] exI[of _ "stored_update x ?z rv"])
       (auto simp: stored_update_def finalizers_law_def)
qed

end

section \<open>Related reconciles\<close>

text \<open>The loop is parametric in the domain logic.\<close>

locale resource_sim =
  fixes RR :: "('c, 'k, ('spec, 'x status_base_scheme) kobject) rst
      \<Rightarrow> ('d, 'k, ('spec, 'x status_base_scheme) kobject) rst \<Rightarrow> bool"
    and R :: "'c \<Rightarrow> 'd \<Rightarrow> bool"
    and L :: "('c, 'k, ('spec, 'x status_base_scheme) kobject) rst lib"
    and M :: "('d, 'k, ('spec, 'x status_base_scheme) kobject) rst lib"
    and X :: "(('c, 'k, ('spec, 'x status_base_scheme) kobject) rst,
      ('spec, 'x status_base_scheme) kobject) Resource"
    and Y :: "(('d, 'k, ('spec, 'x status_base_scheme) kobject) rst,
      ('spec, 'x status_base_scheme) kobject) Resource"
  assumes rel: "RR = rst_rel R" and libs: "lib_rel R L M"
    and same: "NewObject X = NewObject Y" "FinalizerName X = FinalizerName Y" "Kind X = Kind Y"
    and Reconcile_sim: "sim RR (Reconcile X) (Reconcile Y)"
    and Delete_sim: "sim RR (Delete X) (Delete Y)"
begin

lemma update_sim: "sim RR (base_update K) (base_update K)"
  unfolding base_update_def rel by (intro sim_intros)

lemma event_sim: "sim RR (base_event recorder a b c) (base_event recorder a b c)"
  unfolding base_event_def rel by (intro sim_intros)

lemma status_sim: "sim RR (updateStatusWithRetry L K) (updateStatusWithRetry M K)"
  unfolding updateStatusWithRetry_def status_attempt_def rel lib_rel_sels[OF libs]
  by (intro sim_intros sim_retry[OF libs])

lemma base_delete_sim: "sim RR (base_delete L K recorder X) (base_delete M K recorder Y)"
  unfolding base_delete_def lib_rel_sels[OF libs] same
  by (intro sim_bindM sim_if sim_tryM Delete_sim sim_wrapM update_sim event_sim)
     (simp_all add: rel sim_intros)

lemma base_domain_sim: "sim RR (base_domain L K recorder X) (base_domain M K recorder Y)"
  unfolding base_domain_def RecordReconcile_def same
  by (intro sim_bindM sim_tryM sim_wrapM Reconcile_sim event_sim status_sim)
     (simp_all add: rel sim_intros lib_rel_sels[OF libs])

lemma base_sim: "sim RR (base_Reconcile L K recorder X req) (base_Reconcile M K recorder Y req)"
  unfolding base_Reconcile_def base_add_finalizer_def lib_rel_sels[OF libs] same
  by (intro sim_bindM sim_if sim_tryM sim_wrapM base_delete_sim base_domain_sim update_sim)
     (simp_all add: rel sim_intros)

end

end
