(* ===== verification/CloudStore.thy ===== *)
theory CloudStore
  imports CloudTypes
begin

text \<open>
  What a controller relies on for one resource kind of the cloud: lookups by identifier and by
  name that do not change the cloud, a create that refuses a taken name and otherwise adds one
  resource under a fresh identifier, a delete that succeeds on an absent resource. The lemmas of
  the locale are about the find-or-create step every reconciler starts with.
\<close>

section \<open>Find by identifier, then by name, then create\<close>

text \<open>
  The lookup shared by the reconcilers: by the identifier stored in the status if there is one,
  and by the object's name when that finds nothing.
\<close>

definition find_existing :: "(int64 \<Rightarrow> ('c, 'i option) prog) \<Rightarrow> (string \<Rightarrow> ('c, 'i option) prog)
    \<Rightarrow> string \<Rightarrow> int64 \<Rightarrow> string \<Rightarrow> ('c, 'i option) prog" where
  "find_existing getByID getByName what statusID name =
     bindM (if statusID \<noteq> 0 then wrapM (''fetch '' @ what @ '' by ID'') (getByID statusID) else ret None)
       (\<lambda>existing. case existing of Some i \<Rightarrow> ret (Some i)
          | None \<Rightarrow> wrapM (''fetch '' @ what @ '' by name'') (getByName name))"

definition find_or_create :: "(int64 \<Rightarrow> ('c, 'i option) prog) \<Rightarrow> (string \<Rightarrow> ('c, 'i option) prog)
    \<Rightarrow> ('o \<Rightarrow> ('c, 'i) prog) \<Rightarrow> string \<Rightarrow> string \<Rightarrow> int64 \<Rightarrow> string \<Rightarrow> 'o \<Rightarrow> ('c, 'i) prog" where
  "find_or_create getByID getByName create what createWhat statusID name opts =
     bindM (find_existing getByID getByName what statusID name)
       (\<lambda>existing. case existing of Some i \<Rightarrow> ret i
          | None \<Rightarrow> wrapM createWhat (create opts))"

section \<open>The contract\<close>

locale cloud_store =
  fixes get :: "int64 \<Rightarrow> ('c, 'i option) prog"
    and byname :: "string \<Rightarrow> ('c, 'i option) prog"
    and create :: "'o \<Rightarrow> ('c, 'i) prog"
    and delete :: "int64 \<Rightarrow> ('c, unit) prog"
    and entries :: "'c \<Rightarrow> int64 \<Rightarrow> 'i option"
    and idof :: "'i \<Rightarrow> int64"
    and nm :: "'i \<Rightarrow> string"
    and oname :: "'o \<Rightarrow> string"
    and acceptable :: "'o \<Rightarrow> bool"
    and deletable :: "'c \<Rightarrow> int64 \<Rightarrow> bool"
    and ready :: "'c \<Rightarrow> bool"
  assumes get_ok: "ready c \<Longrightarrow> get i c = (Ok (entries c i), c)"
    and byname_ok: "ready c \<Longrightarrow> \<exists>r. byname n c = (Ok r, c) \<and>
        (case r of None \<Rightarrow> (\<forall>i x. entries c i = Some x \<longrightarrow> nm x \<noteq> n)
         | Some x \<Rightarrow> nm x = n \<and> entries c (idof x) = Some x)"
    and ids_ok: "ready c \<Longrightarrow> entries c i = Some x \<Longrightarrow> idof x = i \<and> i \<noteq> 0"
    and names_unique: "ready c \<Longrightarrow> entries c i = Some x \<Longrightarrow> entries c j = Some y \<Longrightarrow> nm x = nm y \<Longrightarrow> i = j"
    and create_new: "ready c \<Longrightarrow> acceptable opts \<Longrightarrow> (\<And>i x. entries c i = Some x \<Longrightarrow> nm x \<noteq> oname opts) \<Longrightarrow>
        \<exists>x c'. create opts c = (Ok x, c') \<and> ready c' \<and> nm x = oname opts \<and> idof x \<noteq> 0
          \<and> entries c (idof x) = None \<and> entries c' = (entries c)(idof x \<mapsto> x)"
    and create_taken: "ready c \<Longrightarrow> acceptable opts \<Longrightarrow> entries c i = Some x \<Longrightarrow> nm x = oname opts \<Longrightarrow>
        \<exists>e. create opts c = (Err e, c)"
    and delete_ok: "ready c \<Longrightarrow> deletable c i \<Longrightarrow>
        \<exists>c'. delete i c = (Ok (), c') \<and> ready c' \<and> entries c' = (entries c)(i := None)"
begin

lemma find_by_id:
  assumes "ready c" and "sid \<noteq> 0" and "entries c sid = Some x"
  shows "find_existing get byname what sid name c = (Ok (Some x), c)"
  using assms by (simp add: find_existing_def bindM_run wrapM_run get_ok)

lemma find_by_name:
  assumes "ready c" and "sid = 0 \<or> entries c sid = None"
  shows "find_existing get byname what sid name c = byname name c"
  using assms byname_ok[OF assms(1), of name]
  by (auto simp: find_existing_def bindM_run wrapM_run get_ok split: option.splits)

text \<open>Looking up never fails, never changes the cloud, and finds a resource of that name if
  there is one.\<close>

lemma find_existing_ok:
  assumes "ready c"
  obtains r where "find_existing get byname what sid name c = (Ok r, c)"
    and "\<And>x. r = Some x \<Longrightarrow> entries c (idof x) = Some x"
    and "r = None \<Longrightarrow> (\<forall>i x. entries c i = Some x \<longrightarrow> nm x \<noteq> name)"
proof (cases "sid \<noteq> 0 \<and> entries c sid \<noteq> None")
  case True
  then obtain x where x: "entries c sid = Some x" by blast
  then have "idof x = sid" using ids_ok[OF assms] by blast
  then show ?thesis
    using that[of "Some x"] find_by_id[OF assms _ x, of what name] True x by simp
next
  case False
  then have "find_existing get byname what sid name c = byname name c"
    using find_by_name[OF assms] by blast
  then show ?thesis
    using that byname_ok[OF assms, of name] by (auto split: option.splits)
qed

text \<open>
  Find-or-create ends with a resource of the cloud; it adds at most that one, and none when the
  stored identifier or the name is already there.
\<close>

lemma find_or_create_ok:
  assumes "ready c" and "acceptable opts" and "oname opts = name"
  obtains x c' where "find_or_create get byname create what cw sid name opts c = (Ok x, c')"
    and "ready c'" and "entries c' (idof x) = Some x"
    and "entries c' = entries c \<or> (entries c (idof x) = None \<and> nm x = name
          \<and> entries c' = (entries c)(idof x \<mapsto> x)
          \<and> (\<forall>i y. entries c i = Some y \<longrightarrow> nm y \<noteq> name))"
proof -
  obtain r where r: "find_existing get byname what sid name c = (Ok r, c)"
      "\<And>x. r = Some x \<Longrightarrow> entries c (idof x) = Some x"
      "r = None \<Longrightarrow> (\<forall>i x. entries c i = Some x \<longrightarrow> nm x \<noteq> name)"
    using find_existing_ok[OF assms(1), of what sid name] by metis
  show ?thesis
  proof (cases r)
    case None
    then have free: "nm x \<noteq> oname opts" if "entries c i = Some x" for i x
      using r(3) assms(3) that by blast
    obtain x c' where x: "create opts c = (Ok x, c')" "ready c'" "nm x = oname opts"
        "entries c (idof x) = None" "entries c' = (entries c)(idof x \<mapsto> x)"
      using create_new[OF assms(1,2)] free by meson
    then show ?thesis
      using that[of x c'] r(1,3) None assms(3)
      by (simp add: find_or_create_def bindM_run wrapM_run)
  next
    case (Some x)
    then show ?thesis
      using that[of x c] r assms(1) by (simp add: find_or_create_def bindM_run)
  qed
qed

text \<open>
  Crash safety: when a reconcile created the resource but its identifier never reached the
  status, the next one adopts that resource instead of creating another.
\<close>

lemma find_or_create_adopts:
  assumes "ready c" and "entries c i = Some x" and "nm x = name"
  shows "find_or_create get byname create what cw 0 name opts c = (Ok x, c)"
proof -
  obtain r where r: "byname name c = (Ok r, c)"
    "case r of None \<Rightarrow> (\<forall>i x. entries c i = Some x \<longrightarrow> nm x \<noteq> name)
       | Some x \<Rightarrow> nm x = name \<and> entries c (idof x) = Some x"
    using byname_ok[OF assms(1), of name] by blast
  from r(2) assms(2,3) obtain y where y: "r = Some y" "nm y = name" "entries c (idof y) = Some y"
    by (cases r) auto
  have "idof y = i" using names_unique[OF assms(1) y(3) assms(2)] y(2) assms(3) by simp
  with y(3) assms(2) have "y = x" by simp
  then show ?thesis
    using r(1) y(1) find_by_name[OF assms(1), of 0 what name]
    by (simp add: find_or_create_def bindM_run)
qed

text \<open>Deleting is idempotent.\<close>

lemma delete_twice:
  assumes "ready c" and "deletable c i" and "\<And>c'. entries c' i = None \<Longrightarrow> deletable c' i"
  obtains c1 c2 where "delete i c = (Ok (), c1)" and "delete i c1 = (Ok (), c2)"
    and "entries c2 = entries c1"
proof -
  obtain c1 where c1: "delete i c = (Ok (), c1)" "ready c1" "entries c1 = (entries c)(i := None)"
    using delete_ok[OF assms(1,2)] by blast
  moreover obtain c2 where "delete i c1 = (Ok (), c2)" "entries c2 = (entries c1)(i := None)"
    using delete_ok[OF c1(2) assms(3)] c1(3) by auto
  ultimately show ?thesis using that[of c1 c2] by simp
qed

end

end
