(* ===== verification/ControllerLib.thy ===== *)
theory ControllerLib
  imports BaseLaws CloudStore
begin

text \<open>
  What several controllers repeat: references, keys, the status write, the lookup of the cloud
  resource, the requests made by a watch.
\<close>

section \<open>References, status writes and watches\<close>

text \<open>A reference that is set: neither nil nor empty.\<close>

definition ref_set :: "LocalObjectReference option \<Rightarrow> string option" where
  "ref_set r = (case r of None \<Rightarrow> None | Some n \<Rightarrow> if n = '''' then None else Some n)"

text \<open>The key of a cluster-scoped object.\<close>

definition cluster_key :: "string \<Rightarrow> NamespacedName" where
  "cluster_key n = \<lparr> nn_Namespace = '''', nn_Name = n \<rparr>"

text \<open>
  The body of the two per-controller status writes: fetch the stored object, overwrite its status
  with the one in memory, write it, all of it again on a conflict.
\<close>

definition persist_status :: "(('c, 'k, ('spec, 'st) kobject) rst) lib \<Rightarrow> ('k, ('spec, 'st) kobject) kclient
    \<Rightarrow> (('c, 'k, ('spec, 'st) kobject) rst, unit) prog" where
  "persist_status L K = bindM (getM obj) (\<lambda>x. RetryOnConflict L
     (bindM (onKube (KGet K (key_of x))) (\<lambda>current.
      bindM (onKube (KStatusUpdate K (current\<lparr>Status := Status x\<rparr>))) (\<lambda>_. ret ()))))"

text \<open>The requests a watch makes of the listed objects; a listing error enqueues nothing.\<close>

definition requests_of :: "('k, ('spec, 'st) kobject) kclient \<Rightarrow> ListOption list
    \<Rightarrow> (('spec, 'st) kobject \<Rightarrow> NamespacedName list) \<Rightarrow> 'k \<Rightarrow> NamespacedName list" where
  "requests_of K opts f k = (case fst (KList K opts k) of Ok xs \<Rightarrow> concat (map f xs) | _ \<Rightarrow> [])"

section \<open>Maps\<close>

definition mapsEqual :: "labels \<Rightarrow> labels \<Rightarrow> bool" where
  "mapsEqual a b = maps_Equal a b"

definition cloneStringMapController :: "labels \<Rightarrow> labels" where
  "cloneStringMapController m = m"

section \<open>Parametricity\<close>

lemma persist_status_sim:
  assumes "sim RR (getM obj) (getM obj)"
    and "\<And>m n. sim RR m n \<Longrightarrow> sim RR (RetryOnConflict L m) (RetryOnConflict M n)"
    and "\<And>x. sim RR (onKube (KGet K x)) (onKube (KGet K x))"
    and "\<And>x. sim RR (onKube (KStatusUpdate K x)) (onKube (KStatusUpdate K x))"
  shows "sim RR (persist_status L K) (persist_status M K)"
  unfolding persist_status_def by (intro sim_intros assms)

lemma find_existing_sim:
  assumes "\<And>i. sim RR (g i) (g' i)" and "\<And>n. sim RR (b n) (b' n)"
  shows "sim RR (find_existing g b w sid name) (find_existing g' b' w sid name)"
  unfolding find_existing_def by (intro sim_intros assms)

lemma find_or_create_sim:
  assumes "\<And>i. sim RR (g i) (g' i)" and "\<And>n. sim RR (b n) (b' n)" and "\<And>x. sim RR (c x) (c' x)"
  shows "sim RR (find_or_create g b c w cw sid name opts) (find_or_create g' b' c' w cw sid name opts)"
  unfolding find_or_create_def by (intro sim_intros find_existing_sim assms)

text \<open>A lookup made through the reconcile state is the lookup on the cloud.\<close>

lemma onCloud_wrapM: "wrapM w (onCloud m) = onCloud (wrapM w m)"
  by (rule ext) (simp add: wrapM_run onCloud_def split: prod.split res.split)

lemma onCloud_bindM: "bindM (onCloud m) (\<lambda>x. onCloud (f x)) = onCloud (bindM m f)"
  by (rule ext) (simp add: bindM_run onCloud_def split: prod.split res.split)

lemma onCloud_ret: "ret x = onCloud (ret x)"
  by (rule ext) (simp add: onCloud_def)

lemma onCloud_find: "find_existing (\<lambda>i. onCloud (g i)) (\<lambda>n. onCloud (b n)) w sid name =
    onCloud (find_existing g b w sid name)"
  by (rule ext) (simp add: find_existing_def bindM_run wrapM_run onCloud_def split: prod.split res.split option.split)

lemma onCloud_find_or_create:
  "find_or_create (\<lambda>i. onCloud (g i)) (\<lambda>n. onCloud (b n)) (\<lambda>x. onCloud (c x)) w cw sid name opts =
    onCloud (find_or_create g b c w cw sid name opts)"
  unfolding find_or_create_def onCloud_find
  by (rule ext) (simp add: bindM_run wrapM_run onCloud_def split: prod.split res.split option.split)

section \<open>The status write\<close>

text \<open>It reads the version it is about to replace, so it meets no conflict; it stores the status in
  memory and leaves the object in memory alone.\<close>

lemma persist_status_ok:
  assumes "retry_law L" and "api_law nf (IsConflict L) store K"
    and "store (kube s) (key_of (obj s)) = Some cur"
  obtains k' rv where "persist_status L K s = (Ok (), s\<lparr>kube := k'\<rparr>)"
    and "store k' = (store (kube s))(key_of (obj s) \<mapsto> cur\<lparr>Status := Status (obj s), ResourceVersion := rv\<rparr>)"
proof -
  let ?new = "cur\<lparr>Status := Status (obj s)\<rparr>"
  have key: "key_of ?new = key_of (obj s)" using api_key[OF assms(2,3)] by simp
  have st: "store (kube s) (key_of ?new) = Some cur" using assms(3) key by simp
  have rv: "ResourceVersion ?new = ResourceVersion cur" by simp
  obtain k' rv where w: "KStatusUpdate K ?new (kube s) = (Ok (stored_status cur ?new rv), k')"
    "store k' = (store (kube s))(key_of ?new \<mapsto> stored_status cur ?new rv)"
    using api_status_Some[OF assms(2) st rv] by metis
  let ?m = "bindM (onKube (KGet K (key_of (obj s)))) (\<lambda>current.
      bindM (onKube (KStatusUpdate K (current\<lparr>Status := Status (obj s)\<rparr>))) (\<lambda>_. ret ()))"
  have "?m s = (Ok (), s\<lparr>kube := k'\<rparr>)"
    using api_get[OF assms(2,3)] w(1) by simp
  then have "RetryOnConflict L ?m s = (Ok (), s\<lparr>kube := k'\<rparr>)"
    by (intro retry_once[OF assms(1)]) auto
  then show ?thesis
    using that[of k' rv] w(2) key by (simp add: persist_status_def stored_status_def)
qed

end
