(* ===== verification/ServerCtl.thy ===== *)
theory ServerCtl
  imports ControllerLib
begin

text \<open>
  The server controller, \<open>internal/controller/hcloudserver_controller.go\<close>: lookup, creation, the
  resize state machine, the private network and the placement group of a server.
\<close>

section \<open>Status\<close>

type_synonym ('c, 'k, 'a) server_prog = "(('c, 'k, HCloudServer) rst, 'a) prog"
type_synonym ('c, 'k) server_lib = "(('c, 'k, HCloudServer) rst) lib"

definition updateServerStatusWithRetry :: "('c, 'k) server_lib \<Rightarrow> 'k kube_api \<Rightarrow> ('c, 'k, unit) server_prog" where
  "updateServerStatusWithRetry L K = persist_status L (KServers K)"

definition applyServerStatus :: "ServerInfo option \<Rightarrow> ('c, 'k, unit) server_prog" where
  "applyServerStatus s' = (case s' of None \<Rightarrow> panicM ''nil pointer dereference''
     | Some s \<Rightarrow> updStatus (\<lambda>u. u\<lparr>svs_ServerID := srv_ID s, svs_State := srv_State s,
         svs_PublicIPv4 := (if srv_PublicIPv4 s \<noteq> '''' then srv_PublicIPv4 s else svs_PublicIPv4 u),
         svs_PublicIPv6 := (if srv_PublicIPv6 s \<noteq> '''' then srv_PublicIPv6 s else svs_PublicIPv6 u)\<rparr>))"

abbreviation readyReasonNetworkAttached :: string where "readyReasonNetworkAttached \<equiv> ''NetworkAttached''"
abbreviation readyReasonNetworkMigrated :: string where "readyReasonNetworkMigrated \<equiv> ''NetworkMigrated''"
abbreviation readyReasonNetworkDetached :: string where "readyReasonNetworkDetached \<equiv> ''NetworkDetached''"

definition containsInt64 :: "int64 list \<Rightarrow> int64 \<Rightarrow> bool" where
  "containsInt64 items want = list_ex (\<lambda>item. item = want) items"

definition hasNetworkLifecycleReadyReason :: "('c, 'k) server_lib \<Rightarrow> HCloudServer \<Rightarrow> bool" where
  "hasNetworkLifecycleReadyReason L x =
     (case FindStatusCondition L (Conditions (Status x)) conditionTypeReady of
        None \<Rightarrow> False
      | Some c \<Rightarrow> if cond_Status c \<noteq> ConditionTrue then False
          else cond_Reason c \<in> {readyReasonNetworkAttached, readyReasonNetworkMigrated, readyReasonNetworkDetached})"

definition syncStatus :: "('c, 'k) server_lib \<Rightarrow> 'k kube_api \<Rightarrow> ServerInfo \<Rightarrow> ('c, 'k, unit) server_prog" where
  "syncStatus L K s =
     bindM (applyServerStatus (Some s)) (\<lambda>_.
     bindM (getM obj) (\<lambda>x.
     let desired = sv_ServerType (Spec x) in
     if srv_ServerType s = desired \<and> srv_State s = ''running'' then
       bindM (updStatus (\<lambda>u. u\<lparr>svs_AppliedServerType := desired\<rparr>)) (\<lambda>_.
       bindM (getM obj) (\<lambda>x.
       if hasNetworkLifecycleReadyReason L x then updateServerStatusWithRetry L K
       else bindM (setCondition L conditionTypeReady ConditionTrue ''ServerRunning''
              ''Hetzner server is running at desired type'') (\<lambda>_. updateServerStatusWithRetry L K)))
     else if srv_State s = ''running'' \<and> srv_ServerType s \<noteq> '''' \<and> srv_ServerType s \<noteq> desired then
       bindM (setCondition L conditionTypeReady ConditionFalse ''ResizePending''
         ''Server is running but type does not match spec'') (\<lambda>_. updateServerStatusWithRetry L K)
     else
       bindM (setCondition L conditionTypeReady ConditionFalse ''ServerNotReady''
         (''Hetzner server state is '' @ fmt_q (srv_State s))) (\<lambda>_. updateServerStatusWithRetry L K)))"

section \<open>Resizing\<close>

text \<open>What every step of the resize ends with: status, condition, write, short requeue.\<close>

definition resize_step :: "('c, 'k) server_lib \<Rightarrow> 'k kube_api \<Rightarrow> ServerInfo option \<Rightarrow> string \<Rightarrow> string
    \<Rightarrow> ('c, 'k, 64 word) server_prog" where
  "resize_step L K s reason msg =
     bindM (applyServerStatus s) (\<lambda>_.
     bindM (setCondition L conditionTypeReady ConditionFalse reason msg) (\<lambda>_.
     bindM (updateServerStatusWithRetry L K) (\<lambda>_. ret resizeRequeueDelay)))"

definition reconcileServerTypeMismatch :: "('c, 'k) server_lib \<Rightarrow> 'k kube_api \<Rightarrow> 'c Interface
    \<Rightarrow> ServerInfo \<Rightarrow> ('c, 'k, 64 word) server_prog" where
  "reconcileServerTypeMismatch L K H s = bindM (getM obj) (\<lambda>x.
     let desired = sv_ServerType (Spec x) in
     if srv_State s = ''initializing'' then
       resize_step L K (Some s) ''Resizing'' ''Server is initializing; waiting before changing type''
     else if srv_State s = ''running'' then
       bindM (onCloud (PowerOffServer H (srv_ID s))) (\<lambda>_.
       bindM (wrapM ''refresh server after power off'' (onCloud (GetServer H (srv_ID s)))) (\<lambda>s2.
       resize_step L K s2 ''Resizing'' ''Powered off server to change type''))
     else if srv_State s = ''stopping'' \<or> srv_State s = ''migrating'' \<or> srv_State s = ''rebuilding'' then
       resize_step L K (Some s) ''Resizing''
         (''Waiting for server state '' @ fmt_q (srv_State s) @ '' to finish before changing type'')
     else if srv_State s = ''off'' then
       bindM (onCloud (ChangeServerType H (srv_ID s) desired (sv_UpgradeDisk (Spec x)))) (\<lambda>_.
       bindM (wrapM ''refresh server after change type'' (onCloud (GetServer H (srv_ID s)))) (\<lambda>s2.
       resize_step L K s2 ''Resizing'' ''Changed server type; will power on when disk and type have converged''))
     else if srv_State s = ''starting'' then
       resize_step L K (Some s) ''Resizing'' ''Server is starting; waiting before continuing type change''
     else if srv_State s = ''deleting'' then
       failM (Errorf (''server '' @ fmt_d (srv_ID s) @ '' is deleting; cannot change type''))
     else failM (Errorf (''unsupported server state '' @ fmt_q (srv_State s) @ '' for resize'')))"

section \<open>Private network\<close>

text \<open>
  The attachment of the server to the referenced network. The result is whether it changed and
  the server as last read (the code overwrites its argument with it). A refresh that finds
  nothing keeps the old value.
\<close>

definition refresh_server :: "'c Interface \<Rightarrow> string \<Rightarrow> ServerInfo \<Rightarrow> ('c, 'k, ServerInfo) server_prog" where
  "refresh_server H what s = bindM (wrapM what (onCloud (GetServer H (srv_ID s))))
     (\<lambda>updated. ret (case updated of None \<Rightarrow> s | Some u \<Rightarrow> u))"

definition detach_managed :: "'c Interface \<Rightarrow> string \<Rightarrow> ServerInfo \<Rightarrow> ('c, 'k, ServerInfo) server_prog" where
  "detach_managed H what s = bindM (getM obj) (\<lambda>x.
     let applied = svs_AppliedNetworkID (Status x) in
     bindM (wrapM (''detach server '' @ fmt_d (srv_ID s) @ '' from previously managed network '' @ fmt_d applied)
         (onCloud (DetachServerFromNetwork H (srv_ID s) applied))) (\<lambda>_.
     bindM (refresh_server H what s) (\<lambda>s.
     bindM (updStatus (\<lambda>u. u\<lparr>svs_AppliedNetworkID := 0\<rparr>)) (\<lambda>_. ret s))))"

text \<open>The two ways a server with a network reference goes on: attach it, or record that it is attached.\<close>

definition attach_network :: "('c, 'k) server_lib \<Rightarrow> 'c Interface \<Rightarrow> HCloudNetwork \<Rightarrow> bool
    \<Rightarrow> ServerInfo \<Rightarrow> ('c, 'k, bool \<times> ServerInfo) server_prog" where
  "attach_network L H network migrated s =
     bindM (wrapM (''attach server '' @ fmt_d (srv_ID s) @ '' to network '' @ fmt_q (Name network)
         @ '' ('' @ fmt_d (nws_NetworkID (Status network)) @ '')'')
       (onCloud (AttachServerToNetwork H (srv_ID s) (nws_NetworkID (Status network))))) (\<lambda>_.
     bindM (refresh_server H ''refresh server after network attach'' s) (\<lambda>s.
     bindM (if migrated
       then setCondition L conditionTypeReady ConditionTrue readyReasonNetworkMigrated
         (''Migrated server private network attachment to '' @ fmt_q (Name network))
       else setCondition L conditionTypeReady ConditionTrue readyReasonNetworkAttached
         (''Attached server to private network '' @ fmt_q (Name network))) (\<lambda>_.
     bindM (updStatus (\<lambda>u. u\<lparr>svs_AppliedNetworkID := nws_NetworkID (Status network)\<rparr>)) (\<lambda>_. ret (True, s)))))"

definition record_network :: "('c, 'k) server_lib \<Rightarrow> HCloudNetwork \<Rightarrow> bool \<Rightarrow> ('c, 'k, unit) server_prog" where
  "record_network L network migrated =
     bindM (updStatus (\<lambda>u. u\<lparr>svs_AppliedNetworkID := nws_NetworkID (Status network)\<rparr>)) (\<lambda>_.
     bindM (getM obj) (\<lambda>x.
     let cond = FindStatusCondition L (Conditions (Status x)) conditionTypeReady;
         reason = map_option cond_Reason cond in
     if migrated \<and> reason \<noteq> Some readyReasonNetworkMigrated
     then setCondition L conditionTypeReady ConditionTrue readyReasonNetworkMigrated
       (''Migrated server private network attachment to '' @ fmt_q (Name network))
     else if \<not> migrated \<and> reason \<noteq> Some readyReasonNetworkAttached
         \<and> reason \<noteq> Some readyReasonNetworkMigrated
     then setCondition L conditionTypeReady ConditionTrue readyReasonNetworkAttached
       (''Attached server to private network '' @ fmt_q (Name network))
     else ret ()))"

definition ensureServerNetworkAttachment :: "('c, 'k) server_lib \<Rightarrow> 'k kube_api \<Rightarrow> 'c Interface
    \<Rightarrow> ServerInfo \<Rightarrow> ('c, 'k, bool \<times> ServerInfo) server_prog" where
  "ensureServerNetworkAttachment L K H s = bindM (getM obj) (\<lambda>x.
     case ref_set (sv_NetworkRef (Spec x)) of
       None \<Rightarrow>
         if svs_AppliedNetworkID (Status x) \<noteq> 0 then
           bindM (detach_managed H ''refresh server after network detach'' s) (\<lambda>s.
           bindM (setCondition L conditionTypeReady ConditionTrue readyReasonNetworkDetached
             ''Detached server from previously managed private network'') (\<lambda>_. ret (True, s)))
         else ret (False, s)
     | Some ref \<Rightarrow>
         bindM (wrapM (''get referenced HCloudNetwork '' @ fmt_q ref)
           (onKube (KGet (KNetworks K) (cluster_key ref)))) (\<lambda>network.
         let netID = nws_NetworkID (Status network) in
         if netID = 0 then failM (Errorf (''referenced HCloudNetwork '' @ fmt_q (Name network)
             @ '' is not ready (status.networkID is empty)''))
         else
           bindM (if svs_AppliedNetworkID (Status x) \<noteq> 0 \<and> svs_AppliedNetworkID (Status x) \<noteq> netID
             then bindM (detach_managed H ''refresh server after network migration detach'' s)
               (\<lambda>s. ret (True, s))
             else ret (False, s)) (\<lambda>(migrated, s).
           if \<not> containsInt64 (srv_NetworkIDs s) netID then attach_network L H network migrated s
           else bindM (record_network L network migrated) (\<lambda>_. ret (False, s)))))"

section \<open>Placement group\<close>

definition resolvePlacementGroupID :: "'k kube_api \<Rightarrow> ('c, 'k, int64) server_prog" where
  "resolvePlacementGroupID K = bindM (getM obj) (\<lambda>x.
     case ref_set (sv_PlacementGroupRef (Spec x)) of
       None \<Rightarrow> ret 0
     | Some ref \<Rightarrow>
         bindM (wrapM (''get referenced HCloudPlacementGroup '' @ fmt_q ref)
           (onKube (KGet (KPlacementGroups K) (cluster_key ref)))) (\<lambda>pg.
         if pgs_PlacementGroupID (Status pg) = 0 then
           failM (Errorf (''referenced HCloudPlacementGroup '' @ fmt_q (Name pg)
             @ '' is not ready (status.placementGroupID is empty)''))
         else ret (pgs_PlacementGroupID (Status pg))))"

definition syncPlacementGroupStatus :: "('c, 'k) server_lib \<Rightarrow> 'k kube_api \<Rightarrow> ServerInfo
    \<Rightarrow> ('c, 'k, bool) server_prog" where
  "syncPlacementGroupStatus L K s = bindM (getM obj) (\<lambda>x.
     case ref_set (sv_PlacementGroupRef (Spec x)) of
       None \<Rightarrow> bindM (updStatus (\<lambda>u. u\<lparr>svs_AppliedPlacementGroupID := srv_PlacementGroupID s\<rparr>))
         (\<lambda>_. ret False)
     | Some ref \<Rightarrow>
         bindM (resolvePlacementGroupID K) (\<lambda>expectedID.
         bindM (updStatus (\<lambda>u. u\<lparr>svs_AppliedPlacementGroupID := srv_PlacementGroupID s\<rparr>)) (\<lambda>_.
         if srv_PlacementGroupID s \<noteq> expectedID then
           bindM (setCondition L conditionTypeReady ConditionFalse ''PlacementGroupMismatch''
             (''server placement group ID '' @ fmt_d (srv_PlacementGroupID s)
              @ '' does not match referenced HCloudPlacementGroup '' @ fmt_q ref
              @ '' (ID '' @ fmt_d expectedID @ ''); placement groups are set at create time only'')) (\<lambda>_.
           bindM (updateServerStatusWithRetry L K) (\<lambda>_. ret True))
         else ret False)))"

section \<open>The reconciler\<close>

definition reconcileExistingServer :: "('c, 'k) server_lib \<Rightarrow> 'k kube_api \<Rightarrow> 'c Interface
    \<Rightarrow> ServerInfo \<Rightarrow> ('c, 'k, 64 word) server_prog" where
  "reconcileExistingServer L K H s = bindM (getM obj) (\<lambda>x.
     let desired = sv_ServerType (Spec x); applied = svs_AppliedServerType (Status x) in
     if srv_ServerType s \<noteq> '''' \<and> srv_ServerType s \<noteq> desired then reconcileServerTypeMismatch L K H s
     else if applied \<noteq> desired \<and> srv_State s = ''off'' then
       bindM (onCloud (PowerOnServer H (srv_ID s))) (\<lambda>_.
       bindM (wrapM ''refresh server after power on'' (onCloud (GetServer H (srv_ID s)))) (\<lambda>s2.
       resize_step L K s2 ''PoweringOn'' ''Powered on server after type change; waiting for running state''))
     else
       bindM (ensureServerNetworkAttachment L K H s) (\<lambda>(networkChanged, s).
       if networkChanged then
         bindM (applyServerStatus (Some s)) (\<lambda>_.
         bindM (updateServerStatusWithRetry L K) (\<lambda>_. ret resizeRequeueDelay))
       else
         bindM (syncPlacementGroupStatus L K s) (\<lambda>blocked.
         if blocked then ret 0
         else bindM (syncStatus L K s) (\<lambda>_. ret 0))))"

definition server_opts :: "HCloudServer \<Rightarrow> int64 \<Rightarrow> ServerCreateOpts" where
  "server_opts x placementGroupID = \<lparr> sco_Name = Name x, sco_ServerType = sv_ServerType (Spec x),
     sco_Image = sv_Image (Spec x), sco_Location = sv_Location (Spec x), sco_Labels = sv_Labels (Spec x),
     sco_SSHKeys = sv_SSHKeys (Spec x), sco_UserData = sv_UserData (Spec x),
     sco_PlacementGroupID = placementGroupID \<rparr>"

definition createHCloudServer :: "('c, 'k) server_lib \<Rightarrow> 'k kube_api \<Rightarrow> 'c Interface
    \<Rightarrow> ('c, 'k, 64 word) server_prog" where
  "createHCloudServer L K H =
     bindM (resolvePlacementGroupID K) (\<lambda>placementGroupID.
     bindM (getM obj) (\<lambda>x.
     bindM (wrapM ''create Hetzner server'' (onCloud (CreateServer H (server_opts x placementGroupID)))) (\<lambda>created.
     bindM (updStatus (\<lambda>u. u\<lparr>svs_ServerID := srv_ID created, svs_State := srv_State created,
         svs_PublicIPv4 := srv_PublicIPv4 created, svs_PublicIPv6 := srv_PublicIPv6 created,
         svs_AppliedPlacementGroupID := (if srv_PlacementGroupID created \<noteq> 0
           then srv_PlacementGroupID created else svs_AppliedPlacementGroupID u),
         svs_AppliedServerType := (if srv_ServerType created = sv_ServerType (Spec x)
             \<and> srv_State created = ''running''
           then sv_ServerType (Spec x) else svs_AppliedServerType u)\<rparr>)) (\<lambda>_.
     bindM (setCondition L conditionTypeReady ConditionTrue ''ServerCreated''
       ''Hetzner server created successfully'') (\<lambda>_.
     bindM (updateServerStatusWithRetry L K) (\<lambda>_. ret 0))))))"

definition reconcileHCloudServer :: "('c, 'k) server_lib \<Rightarrow> 'k kube_api \<Rightarrow> 'c Interface
    \<Rightarrow> ('c, 'k, 64 word) server_prog" where
  "reconcileHCloudServer L K H = bindM (getM obj) (\<lambda>x.
     bindM (if svs_ServerID (Status x) \<noteq> 0
       then wrapM ''fetch server by ID'' (onCloud (GetServer H (svs_ServerID (Status x))))
       else ret None) (\<lambda>existing. case existing of
       Some s \<Rightarrow> reconcileExistingServer L K H s
     | None \<Rightarrow>
         bindM (wrapM ''fetch server by name'' (onCloud (GetServerByName H (Name x)))) (\<lambda>existing.
         case existing of
           Some s \<Rightarrow> bindM (updStatus (\<lambda>u. u\<lparr>svs_ServerID := srv_ID s\<rparr>))
             (\<lambda>_. reconcileExistingServer L K H s)
         | None \<Rightarrow> createHCloudServer L K H)))"

definition server_Reconcile :: "('c, 'k) server_lib \<Rightarrow> 'k kube_api \<Rightarrow> 'c Interface
    \<Rightarrow> ('c, 'k, Result) server_prog" where
  "server_Reconcile L K H = bindM (reconcileHCloudServer L K H) (\<lambda>requeueAfter.
     ret (after (if 0 < sint requeueAfter then requeueAfter else requeueDelay)))"

definition deleteHCloudServer :: "'c Interface \<Rightarrow> ('c, 'k, unit) server_prog" where
  "deleteHCloudServer H = bindM (getM obj) (\<lambda>x.
     if svs_ServerID (Status x) = 0 then ret ()
     else onCloud (DeleteServer H (svs_ServerID (Status x))))"

definition NewHCloudServer :: HCloudServer where
  "NewHCloudServer = \<lparr> Name = '''', Namespace = '''', ObjectLabels = [], Finalizers = [],
     DeletionTimestamp = None, ResourceVersion = '''',
     Spec = \<lparr> sv_ServerType = '''', sv_Image = '''', sv_Location = '''', sv_Labels = [], sv_SSHKeys = [],
       sv_UserData = '''', sv_NetworkRef = None, sv_PlacementGroupRef = None, sv_UpgradeDisk = False \<rparr>,
     Status = \<lparr> Conditions = [], svs_ServerID = 0, svs_State = '''', svs_AppliedServerType = '''',
       svs_PublicIPv4 = '''', svs_PublicIPv6 = '''', svs_AppliedNetworkID = 0,
       svs_AppliedPlacementGroupID = 0 \<rparr> \<rparr>"

definition HCloudServerReconciler :: "('c, 'k) server_lib \<Rightarrow> 'k kube_api \<Rightarrow> 'c Interface
    \<Rightarrow> (('c, 'k, HCloudServer) rst, HCloudServer) Resource" where
  "HCloudServerReconciler L K H = \<lparr> NewObject = NewHCloudServer,
     FinalizerName = ''infra.hkc.io/finalizer'', Kind = ''HCloudServer'',
     Reconcile = server_Reconcile L K H, Delete = deleteHCloudServer H \<rparr>"

end
