(* ===== verification/ServerLaws.thy ===== *)
theory ServerLaws
  imports ServerCtl
begin

text \<open>
  The server controller is parametric in the cloud client and keeps to the contract of
  \<open>Resource[T]\<close>.
\<close>

section \<open>Parametricity\<close>

lemma server_status_sim:
  assumes "domain_sim RR A B L M K"
  shows "sim RR (updateServerStatusWithRetry L K) (updateServerStatusWithRetry M K)"
  unfolding updateServerStatusWithRetry_def
  by (intro persist_status_sim domain_sim.domain_sims[OF assms])

lemma apply_status_sim:
  assumes "domain_sim RR A B L M K"
  shows "sim RR (applyServerStatus s) (applyServerStatus s)"
  unfolding applyServerStatus_def
  by (intro sim_intros domain_sim.domain_sims[OF assms])

lemma sync_status_sim:
  assumes "domain_sim RR A B L M K"
  shows "sim RR (syncStatus L K s) (syncStatus M K s)"
  unfolding syncStatus_def hasNetworkLifecycleReadyReason_def domain_sim.lib_sels[OF assms]
  by (intro sim_intros domain_sim.domain_sims[OF assms] server_status_sim[OF assms] apply_status_sim[OF assms])

lemma resize_step_sim:
  assumes "domain_sim RR A B L M K"
  shows "sim RR (resize_step L K s reason msg) (resize_step M K s reason msg)"
  unfolding resize_step_def
  by (intro sim_intros domain_sim.domain_sims[OF assms] server_status_sim[OF assms] apply_status_sim[OF assms])

lemma mismatch_sim:
  assumes "domain_sim RR A B L M K"
  shows "sim RR (reconcileServerTypeMismatch L K A s) (reconcileServerTypeMismatch M K B s)"
  unfolding reconcileServerTypeMismatch_def
  by (intro sim_intros domain_sim.domain_sims[OF assms] resize_step_sim[OF assms])

lemma detach_managed_sim:
  assumes "domain_sim RR A B L M K"
  shows "sim RR (detach_managed A w s) (detach_managed B w s)"
    and "sim RR (refresh_server A w s) (refresh_server B w s)"
  unfolding detach_managed_def refresh_server_def
  by (intro sim_intros domain_sim.domain_sims[OF assms])+

lemma attach_network_sim:
  assumes "domain_sim RR A B L M K"
  shows "sim RR (attach_network L A network migrated s) (attach_network M B network migrated s)"
    and "sim RR (record_network L network migrated) (record_network M network migrated)"
  unfolding attach_network_def record_network_def domain_sim.lib_sels[OF assms] Let_def
  by (intro sim_intros domain_sim.domain_sims[OF assms] detach_managed_sim[OF assms])+

lemma network_sim:
  assumes "domain_sim RR A B L M K"
  shows "sim RR (ensureServerNetworkAttachment L K A s) (ensureServerNetworkAttachment M K B s)"
  unfolding ensureServerNetworkAttachment_def domain_sim.lib_sels[OF assms]
  by (intro sim_intros domain_sim.domain_sims[OF assms] detach_managed_sim[OF assms] attach_network_sim[OF assms])

lemma placement_sim:
  assumes "domain_sim RR A B L M K"
  shows "sim RR (syncPlacementGroupStatus L K s) (syncPlacementGroupStatus M K s)"
    and "sim RR (resolvePlacementGroupID K) (resolvePlacementGroupID K)"
  unfolding syncPlacementGroupStatus_def resolvePlacementGroupID_def
  by (intro sim_intros domain_sim.domain_sims[OF assms] server_status_sim[OF assms])+

lemma create_server_sim:
  assumes "domain_sim RR A B L M K"
  shows "sim RR (createHCloudServer L K A) (createHCloudServer M K B)"
  unfolding createHCloudServer_def
  by (intro sim_intros domain_sim.domain_sims[OF assms] placement_sim[OF assms] server_status_sim[OF assms])

lemma existing_server_sim:
  assumes "domain_sim RR A B L M K"
  shows "sim RR (reconcileExistingServer L K A s) (reconcileExistingServer M K B s)"
  unfolding reconcileExistingServer_def
  by (intro sim_intros domain_sim.domain_sims[OF assms] mismatch_sim[OF assms] resize_step_sim[OF assms]
      network_sim[OF assms] placement_sim[OF assms] sync_status_sim[OF assms]
      apply_status_sim[OF assms] server_status_sim[OF assms])

lemma server_reconcile_sim:
  assumes "domain_sim RR A B L M K"
  shows "sim RR (server_Reconcile L K A) (server_Reconcile M K B)"
  unfolding server_Reconcile_def reconcileHCloudServer_def
  by (intro sim_intros domain_sim.domain_sims[OF assms] existing_server_sim[OF assms] create_server_sim[OF assms])

lemma server_delete_sim:
  assumes "cloud_sim RR A B"
  shows "sim RR (deleteHCloudServer A) (deleteHCloudServer B)"
  unfolding deleteHCloudServer_def by (intro sim_intros cloud_sim.cloud_sims[OF assms])

section \<open>The contract\<close>

lemma reconciler_sels [simp]:
  "NewObject (HCloudServerReconciler L K H) = NewHCloudServer"
  "FinalizerName (HCloudServerReconciler L K H) = ''infra.hkc.io/finalizer''"
  "Kind (HCloudServerReconciler L K H) = ''HCloudServer''"
  "Reconcile (HCloudServerReconciler L K H) = server_Reconcile L K H"
  "Delete (HCloudServerReconciler L K H) = deleteHCloudServer H"
  by (simp_all add: HCloudServerReconciler_def)

interpretation server_contract: resource_contract L K "HCloudServerReconciler L K H" for L K H
  by unfold_locales (simp_all, (rule sim_diag_iff[THEN iffD1],
      rule server_reconcile_sim server_delete_sim,
      (rule domain_sim_frame domain_sim_kube cloud_sim_frame cloud_sim_kube; assumption?))+)

end
