(* ===== verification/VolumeCtl.thy ===== *)
theory VolumeCtl
  imports ControllerLib
begin

text \<open>The volume controller, \<open>internal/controller/hcloudvolume_controller.go\<close>.\<close>

section \<open>The reconciler\<close>

type_synonym ('c, 'k, 'a) volume_prog = "(('c, 'k, HCloudVolume) rst, 'a) prog"
type_synonym ('c, 'k) volume_lib = "(('c, 'k, HCloudVolume) rst) lib"

definition detachVolumeIfAttached :: "'c Interface \<Rightarrow> ('c, 'k, unit) volume_prog" where
  "detachVolumeIfAttached H = bindM (getM obj) (\<lambda>x.
     bindM (wrapM ''fetch volume for deletion'' (onCloud (GetVolume H (vms_VolumeID (Status x))))) (\<lambda>existing.
     let attachedServerID = (case existing of None \<Rightarrow> vms_AttachedServerID (Status x)
           | Some v \<Rightarrow> if vol_ServerID v \<noteq> 0 then vol_ServerID v else vms_AttachedServerID (Status x)) in
     if attachedServerID = 0 then ret ()
     else wrapM ''detach volume before delete'' (onCloud (DetachVolume H (vms_VolumeID (Status x))))))"

definition volume_Delete :: "'c Interface \<Rightarrow> ('c, 'k, unit) volume_prog" where
  "volume_Delete H = bindM (getM obj) (\<lambda>x.
     if vms_VolumeID (Status x) = 0 then ret ()
     else bindM (detachVolumeIfAttached H) (\<lambda>_. onCloud (DeleteVolume H (vms_VolumeID (Status x)))))"

definition volume_opts :: "HCloudVolume \<Rightarrow> int64 \<Rightarrow> VolumeCreateOpts" where
  "volume_opts x targetServerID = \<lparr> vco_Name = Name x, vco_Size = vm_Size (Spec x),
     vco_ServerID = targetServerID, vco_Location = vm_Location (Spec x), vco_Format = vm_Format (Spec x),
     vco_Automount = (targetServerID \<noteq> 0), vco_Labels = vm_Labels (Spec x) \<rparr>"

text \<open>Growing the volume to the wanted size; the result is the volume as last read.\<close>

definition volume_resize :: "'c Interface \<Rightarrow> int \<Rightarrow> VolumeInfo \<Rightarrow> ('c, 'k, VolumeInfo) volume_prog" where
  "volume_resize H want existing =
     (if vol_Size existing < want then
        bindM (wrapM ''resize volume'' (onCloud (ResizeVolume H (vol_ID existing) want))) (\<lambda>_.
        bindM (wrapM ''refresh volume after resize'' (onCloud (GetVolume H (vol_ID existing)))) (\<lambda>refreshed.
        case refreshed of
          None \<Rightarrow> failM (Errorf (''volume '' @ fmt_d (vol_ID existing) @ '' disappeared after resize''))
        | Some v \<Rightarrow> ret v))
      else if vol_Size existing > want then
        failM (Errorf (''volume size '' @ fmt_d (vol_Size existing) @ '' GB in Hetzner exceeds spec.size ''
          @ fmt_d want @ '' GB; shrink is not supported''))
      else ret existing)"

text \<open>Moving the volume to the wanted server. The old server's identifier stays in the value in
  memory when the volume is only detached.\<close>

definition volume_attach :: "'c Interface \<Rightarrow> int64 \<Rightarrow> VolumeInfo \<Rightarrow> ('c, 'k, VolumeInfo) volume_prog" where
  "volume_attach H targetServerID existing =
     (if vol_ServerID existing \<noteq> targetServerID then
        bindM (if vol_ServerID existing \<noteq> 0
          then wrapM ''detach volume'' (onCloud (DetachVolume H (vol_ID existing))) else ret ()) (\<lambda>_.
        if targetServerID \<noteq> 0 then
          bindM (wrapM ''attach volume'' (onCloud (AttachVolume H (vol_ID existing) targetServerID)))
            (\<lambda>_. ret (existing\<lparr>vol_ServerID := targetServerID\<rparr>))
        else ret existing)
      else ret existing)"

definition reconcileHCloudVolume :: "('c, 'k) volume_lib \<Rightarrow> 'c Interface \<Rightarrow> int64 \<Rightarrow> ('c, 'k, unit) volume_prog" where
  "reconcileHCloudVolume L H targetServerID = bindM (getM obj) (\<lambda>x.
     bindM (find_or_create (\<lambda>i. onCloud (GetVolume H i)) (\<lambda>n. onCloud (GetVolumeByName H n))
       (\<lambda>opts. onCloud (CreateVolume H opts)) ''volume'' ''create volume''
       (vms_VolumeID (Status x)) (Name x) (volume_opts x targetServerID)) (\<lambda>existing.
     bindM (volume_resize H (vm_Size (Spec x)) existing) (\<lambda>existing.
     bindM (volume_attach H targetServerID existing) (\<lambda>existing.
     bindM (updStatus (\<lambda>u. u\<lparr>vms_VolumeID := vol_ID existing, vms_State := vol_State existing,
         vms_AttachedServerID := vol_ServerID existing, vms_AppliedSize := vol_Size existing,
         vms_LinuxDevice := (if vol_LinuxDevice existing \<noteq> '''' then vol_LinuxDevice existing
           else vms_LinuxDevice u)\<rparr>)) (\<lambda>_.
     setCondition L conditionTypeReady ConditionTrue ''VolumeReady'' ''Volume is provisioned and attached'')))))"

definition volume_Reconcile :: "('c, 'k) volume_lib \<Rightarrow> 'k kube_api \<Rightarrow> 'c Interface
    \<Rightarrow> ('c, 'k, Result) volume_prog" where
  "volume_Reconcile L K H = bindM (getM obj) (\<lambda>x.
     let continue = (\<lambda>targetServerID.
           bindM (reconcileHCloudVolume L H targetServerID) (\<lambda>_. ret (after requeueDelay))) in
     case vm_ServerRef (Spec x) of
       None \<Rightarrow> continue 0
     | Some ref \<Rightarrow>
         tryM (onKube (KGet (KServers K) \<lparr> nn_Namespace = Namespace x, nn_Name = ref \<rparr>))
           (\<lambda>err. if IsNotFound L err
              then bindM (setCondition L conditionTypeReady ConditionFalse ''ServerPending''
                     ''Target server not found'') (\<lambda>_. ret (after requeueDelay))
              else failM (Wrapf ''get target server'' err))
           (\<lambda>serverObj. if svs_ServerID (Status serverObj) = 0
              then bindM (setCondition L conditionTypeReady ConditionFalse ''ServerPending''
                     ''Target server not yet provisioned in Hetzner'') (\<lambda>_. ret (after requeueDelay))
              else continue (svs_ServerID (Status serverObj))))"

definition NewHCloudVolume :: HCloudVolume where
  "NewHCloudVolume = \<lparr> Name = '''', Namespace = '''', ObjectLabels = [], Finalizers = [],
     DeletionTimestamp = None, ResourceVersion = '''',
     Spec = \<lparr> vm_Size = 0, vm_Location = '''', vm_ServerRef = None, vm_Format = '''', vm_Labels = [] \<rparr>,
     Status = \<lparr> Conditions = [], vms_VolumeID = 0, vms_State = '''', vms_AttachedServerID = 0,
       vms_LinuxDevice = '''', vms_AppliedSize = 0 \<rparr> \<rparr>"

definition HCloudVolumeReconciler :: "('c, 'k) volume_lib \<Rightarrow> 'k kube_api \<Rightarrow> 'c Interface
    \<Rightarrow> (('c, 'k, HCloudVolume) rst, HCloudVolume) Resource" where
  "HCloudVolumeReconciler L K H = \<lparr> NewObject = NewHCloudVolume,
     FinalizerName = ''infra.hkc.io/volume-finalizer'', Kind = ''HCloudVolume'',
     Reconcile = volume_Reconcile L K H, Delete = volume_Delete H \<rparr>"

text \<open>The watch on servers: the volumes that name the server.\<close>

definition mapServerToVolumes :: "'k kube_api \<Rightarrow> HCloudServer \<Rightarrow> 'k \<Rightarrow> NamespacedName list" where
  "mapServerToVolumes K server = requests_of (KVolumes K) [MatchingFields ''spec.serverRef.name'' (Name server)]
     (\<lambda>v. [\<lparr> nn_Namespace = Namespace v, nn_Name = Name v \<rparr>])"

definition volume_server_index :: "HCloudVolume \<Rightarrow> string list" where
  "volume_server_index x = (case ref_set (vm_ServerRef (Spec x)) of None \<Rightarrow> [] | Some n \<Rightarrow> [n])"

section \<open>Parametricity and the contract\<close>

lemma volume_delete_sim:
  assumes "cloud_sim RR A B"
  shows "sim RR (volume_Delete A) (volume_Delete B)"
  unfolding volume_Delete_def detachVolumeIfAttached_def by (intro sim_intros cloud_sim.cloud_sims[OF assms])

lemma volume_reconcile_sim:
  assumes "domain_sim RR A B L M K"
  shows "sim RR (volume_Reconcile L K A) (volume_Reconcile M K B)"
  unfolding volume_Reconcile_def reconcileHCloudVolume_def volume_resize_def volume_attach_def
    domain_sim.lib_sels[OF assms] Let_def
  by (intro sim_intros find_or_create_sim domain_sim.domain_sims[OF assms])

lemma volume_reconciler_sels [simp]:
  "NewObject (HCloudVolumeReconciler L K H) = NewHCloudVolume"
  "FinalizerName (HCloudVolumeReconciler L K H) = ''infra.hkc.io/volume-finalizer''"
  "Kind (HCloudVolumeReconciler L K H) = ''HCloudVolume''"
  "Reconcile (HCloudVolumeReconciler L K H) = volume_Reconcile L K H"
  "Delete (HCloudVolumeReconciler L K H) = volume_Delete H"
  by (simp_all add: HCloudVolumeReconciler_def)

interpretation volume_contract: resource_contract L K "HCloudVolumeReconciler L K H" for L K H
  by unfold_locales (simp_all, (rule sim_diag_iff[THEN iffD1],
      rule volume_reconcile_sim volume_delete_sim,
      (rule domain_sim_frame domain_sim_kube cloud_sim_frame cloud_sim_kube; assumption?))+)

end
