(* ===== verification/NetworkCtl.thy ===== *)
theory NetworkCtl
  imports ControllerLib
begin

text \<open>The network controller, \<open>internal/controller/hcloudnetwork_controller.go\<close>.\<close>

section \<open>The reconciler\<close>

type_synonym ('c, 'k, 'a) network_prog = "(('c, 'k, HCloudNetwork) rst, 'a) prog"
type_synonym ('c, 'k) network_lib = "(('c, 'k, HCloudNetwork) rst) lib"

definition updateNetworkStatusWithRetry :: "('c, 'k) network_lib \<Rightarrow> 'k kube_api \<Rightarrow> ('c, 'k, unit) network_prog" where
  "updateNetworkStatusWithRetry L K = persist_status L (KNetworks K)"

definition subnetZonePresent :: "string list \<Rightarrow> string \<Rightarrow> bool" where
  "subnetZonePresent zones want = list_ex (\<lambda>z. z = want) zones"

definition network_opts :: "HCloudNetwork \<Rightarrow> NetworkCreateOpts" where
  "network_opts x = \<lparr> nco_Name = Name x, nco_IPRange = nw_IPRange (Spec x), nco_NetworkZones = [], nco_Labels = nw_Labels (Spec x),
     nco_ExposeRoutesToVSwitch = nw_ExposeRoutesToVSwitch (Spec x) \<rparr>"

text \<open>One step of the loop over the wanted zones; the accumulator is the network as last read.\<close>

definition ensure_zone :: "'c Interface \<Rightarrow> NetworkInfo \<Rightarrow> string \<Rightarrow> ('c, 'k, NetworkInfo) network_prog" where
  "ensure_zone H existing zone =
     (if subnetZonePresent (net_SubnetZones existing) zone then ret existing
      else
        bindM (wrapM (''add subnet in zone '' @ fmt_q zone)
          (onCloud (AddNetworkCloudSubnet H (net_ID existing) zone))) (\<lambda>_.
        bindM (wrapM ''refresh network after add subnet'' (onCloud (GetNetwork H (net_ID existing)))) (\<lambda>refreshed.
        case refreshed of
          None \<Rightarrow> failM (Errorf (''network '' @ fmt_d (net_ID existing) @ '' disappeared after add subnet''))
        | Some n \<Rightarrow> ret n)))"

definition create_network :: "('c, 'k) network_lib \<Rightarrow> 'k kube_api \<Rightarrow> 'c Interface
    \<Rightarrow> ('c, 'k, NetworkInfo) network_prog" where
  "create_network L K H = bindM (getM obj) (\<lambda>x.
     bindM (wrapM ''create Hetzner network'' (onCloud (CreateNetwork H (network_opts x)))) (\<lambda>created.
     bindM (updStatus (\<lambda>u. u\<lparr>nws_NetworkID := net_ID created, nws_IPRange := net_IPRange created,
         nws_SubnetZones := net_SubnetZones created\<rparr>)) (\<lambda>_.
     bindM (setCondition L conditionTypeReady ConditionFalse ''NetworkCreated''
       ''Private network created; adding subnets if requested'') (\<lambda>_.
     bindM (wrapM ''persist network id'' (updateNetworkStatusWithRetry L K)) (\<lambda>_. ret created)))))"

definition reconcileHCloudNetwork :: "('c, 'k) network_lib \<Rightarrow> 'k kube_api \<Rightarrow> 'c Interface
    \<Rightarrow> ('c, 'k, unit) network_prog" where
  "reconcileHCloudNetwork L K H = bindM (getM obj) (\<lambda>x.
     bindM (find_existing (\<lambda>i. onCloud (GetNetwork H i)) (\<lambda>n. onCloud (GetNetworkByName H n)) ''network''
       (nws_NetworkID (Status x)) (Name x)) (\<lambda>existing.
     bindM (case existing of Some n \<Rightarrow> ret n | None \<Rightarrow> create_network L K H) (\<lambda>existing.
     bindM (foldM (nw_NetworkZones (Spec x)) (ensure_zone H) existing) (\<lambda>existing.
     bindM (updStatus (\<lambda>u. u\<lparr>nws_NetworkID := net_ID existing, nws_IPRange := net_IPRange existing,
         nws_SubnetZones := sort (net_SubnetZones existing)\<rparr>)) (\<lambda>_.
     setCondition L conditionTypeReady ConditionTrue ''NetworkReady'' ''Private network is provisioned'')))))"

definition network_Reconcile :: "('c, 'k) network_lib \<Rightarrow> 'k kube_api \<Rightarrow> 'c Interface
    \<Rightarrow> ('c, 'k, Result) network_prog" where
  "network_Reconcile L K H = bindM (reconcileHCloudNetwork L K H) (\<lambda>_. ret (after requeueDelay))"

definition network_Delete :: "'c Interface \<Rightarrow> ('c, 'k, unit) network_prog" where
  "network_Delete H = bindM (getM obj) (\<lambda>x.
     if nws_NetworkID (Status x) = 0 then ret ()
     else onCloud (DeleteNetwork H (nws_NetworkID (Status x))))"

definition NewHCloudNetwork :: HCloudNetwork where
  "NewHCloudNetwork = \<lparr> Name = '''', Namespace = '''', ObjectLabels = [], Finalizers = [],
     DeletionTimestamp = None, ResourceVersion = '''',
     Spec = \<lparr> nw_IPRange = '''', nw_NetworkZones = [], nw_ExposeRoutesToVSwitch = False, nw_Labels = [] \<rparr>,
     Status = \<lparr> Conditions = [], nws_NetworkID = 0, nws_IPRange = '''', nws_SubnetZones = [] \<rparr> \<rparr>"

definition HCloudNetworkReconciler :: "('c, 'k) network_lib \<Rightarrow> 'k kube_api \<Rightarrow> 'c Interface
    \<Rightarrow> (('c, 'k, HCloudNetwork) rst, HCloudNetwork) Resource" where
  "HCloudNetworkReconciler L K H = \<lparr> NewObject = NewHCloudNetwork,
     FinalizerName = ''infra.hkc.io/network-finalizer'', Kind = ''HCloudNetwork'',
     Reconcile = network_Reconcile L K H, Delete = network_Delete H \<rparr>"

section \<open>Parametricity and the contract\<close>

lemma ensure_zone_sim:
  assumes "domain_sim RR A B L M K"
  shows "sim RR (ensure_zone A n z) (ensure_zone B n z)"
  unfolding ensure_zone_def by (intro sim_intros domain_sim.domain_sims[OF assms])

lemma create_network_sim:
  assumes "domain_sim RR A B L M K"
  shows "sim RR (create_network L K A) (create_network M K B)"
  unfolding create_network_def updateNetworkStatusWithRetry_def
  by (intro sim_intros persist_status_sim domain_sim.domain_sims[OF assms])

lemma network_reconcile_sim:
  assumes "domain_sim RR A B L M K"
  shows "sim RR (network_Reconcile L K A) (network_Reconcile M K B)"
  unfolding network_Reconcile_def reconcileHCloudNetwork_def
  by (intro sim_intros find_existing_sim create_network_sim[OF assms] ensure_zone_sim[OF assms]
      domain_sim.domain_sims[OF assms])

lemma network_delete_sim:
  assumes "cloud_sim RR A B"
  shows "sim RR (network_Delete A) (network_Delete B)"
  unfolding network_Delete_def by (intro sim_intros cloud_sim.cloud_sims[OF assms])

lemma network_reconciler_sels [simp]:
  "NewObject (HCloudNetworkReconciler L K H) = NewHCloudNetwork"
  "FinalizerName (HCloudNetworkReconciler L K H) = ''infra.hkc.io/network-finalizer''"
  "Kind (HCloudNetworkReconciler L K H) = ''HCloudNetwork''"
  "Reconcile (HCloudNetworkReconciler L K H) = network_Reconcile L K H"
  "Delete (HCloudNetworkReconciler L K H) = network_Delete H"
  by (simp_all add: HCloudNetworkReconciler_def)

interpretation network_contract: resource_contract L K "HCloudNetworkReconciler L K H" for L K H
  by unfold_locales (simp_all, (rule sim_diag_iff[THEN iffD1],
      rule network_reconcile_sim network_delete_sim,
      (rule domain_sim_frame domain_sim_kube cloud_sim_frame cloud_sim_kube; assumption?))+)

end
