(* ===== verification/FirewallCtl.thy ===== *)
theory FirewallCtl
  imports ControllerLib
begin

text \<open>
  The firewall controller, \<open>internal/controller/hcloudfirewall_controller.go\<close>. The two lists of
  choices \<open>ch\<close> are the orders in which the two maps of \<open>partitionApplyTargets\<close> are walked.
\<close>

section \<open>Rules and labels\<close>

definition copyStrPtr :: "string option \<Rightarrow> string option" where
  "copyStrPtr s = s"

definition normalizeLabelsMap :: "labels \<Rightarrow> labels" where
  "normalizeLabelsMap m = m"

definition labelsMatch :: "labels \<Rightarrow> labels \<Rightarrow> bool" where
  "labelsMatch spec cl = maps_Equal (normalizeLabelsMap spec) (normalizeLabelsMap cl)"

definition firewallRulesFromSpec :: "HCloudFirewallRule list \<Rightarrow> FirewallRuleInfo list" where
  "firewallRulesFromSpec rules = map (\<lambda>r. \<lparr> fwr_Direction = hfr_Direction r, fwr_Protocol = hfr_Protocol r,
     fwr_Port = copyStrPtr (hfr_Port r), fwr_SourceIPs = sort (hfr_SourceIPs r),
     fwr_DestinationIPs = sort (hfr_DestinationIPs r), fwr_Description = copyStrPtr (hfr_Description r) \<rparr>) rules"

definition NUL :: string where
  "NUL = [char_of (0::nat)]"

definition deref_or_empty :: "string option \<Rightarrow> string" where
  "deref_or_empty p = (case p of None \<Rightarrow> '''' | Some v \<Rightarrow> v)"

definition canonicalFirewallRule :: "FirewallRuleInfo \<Rightarrow> string" where
  "canonicalFirewallRule r = strings_Join [fwr_Direction r, fwr_Protocol r,
     deref_or_empty (fwr_Port r), deref_or_empty (fwr_Description r),
     strings_Join (sort (fwr_SourceIPs r)) '','', strings_Join (sort (fwr_DestinationIPs r)) '',''] NUL"

text \<open>\<open>counts[k]++\<close> and \<open>counts[k]--\<close>; a missing key counts as zero.\<close>

definition count_of :: "(string, int) gomap \<Rightarrow> string \<Rightarrow> int" where
  "count_of m k = (case map_of m k of None \<Rightarrow> 0 | Some n \<Rightarrow> n)"

definition count_add :: "int \<Rightarrow> (string, int) gomap \<Rightarrow> string \<Rightarrow> (string, int) gomap" where
  "count_add d m k = AList.update k (count_of m k + d) m"

fun count_observed :: "(string, int) gomap \<Rightarrow> FirewallRuleInfo list \<Rightarrow> (string, int) gomap option" where
  "count_observed m [] = Some m"
| "count_observed m (r # rs) =
     (let k = canonicalFirewallRule r; m' = count_add (- 1) m k
      in if count_of m' k < 0 then None else count_observed m' rs)"

definition firewallRulesMatch :: "FirewallRuleInfo list \<Rightarrow> FirewallRuleInfo list \<Rightarrow> bool" where
  "firewallRulesMatch desired observed =
     (if length desired \<noteq> length observed then False
      else (case count_observed (foldl (\<lambda>m r. count_add 1 m (canonicalFirewallRule r)) [] desired) observed of
          None \<Rightarrow> False
        | Some m \<Rightarrow> list_all (\<lambda>(k, v). v = 0) m))"

section \<open>Targets\<close>

definition by_key :: "FirewallApplyResource list \<Rightarrow> (string, FirewallApplyResource) gomap" where
  "by_key rs = foldl (\<lambda>m r. AList.update (Key r) r m) [] rs"

definition partitionApplyTargets :: "nat list \<times> nat list \<Rightarrow> FirewallApplyResource list \<Rightarrow> FirewallApplyResource list
    \<Rightarrow> FirewallApplyResource list \<times> FirewallApplyResource list" where
  "partitionApplyTargets ch current desired =
     (let cur = by_key current; des = by_key desired in
      (map snd (filter (\<lambda>(k, c). map_of des k = None) (shuffle (fst ch) cur)),
       map snd (filter (\<lambda>(k, d). map_of cur k = None) (shuffle (snd ch) des))))"

type_synonym ('c, 'k, 'a) firewall_prog = "(('c, 'k, HCloudFirewall) rst, 'a) prog"
type_synonym ('c, 'k) firewall_lib = "(('c, 'k, HCloudFirewall) rst) lib"

text \<open>One server reference: skipped when empty, not provisioned yet, or already seen.\<close>

definition add_server_target :: "'k kube_api \<Rightarrow> FirewallApplyResource list \<times> int64 list
    \<Rightarrow> LocalObjectReference \<Rightarrow> ('c, 'k, FirewallApplyResource list \<times> int64 list) firewall_prog" where
  "add_server_target K acc ref = (case acc of (out, seenServers) \<Rightarrow>
     if ref = '''' then ret (out, seenServers)
     else bindM (wrapM (''resolve server ref '' @ fmt_q ref) (onKube (KGet (KServers K) (cluster_key ref)))) (\<lambda>srv.
       let ident = svs_ServerID (Status srv) in
       if ident = 0 then ret (out, seenServers)
       else if ident \<in> set seenServers then ret (out, seenServers)
       else ret (out @ [\<lparr> far_Type = ''server'', far_ServerID = ident, far_Selector = '''' \<rparr>], ident # seenServers)))"

definition desiredApplyResources :: "'k kube_api \<Rightarrow> ('c, 'k, FirewallApplyResource list) firewall_prog" where
  "desiredApplyResources K = bindM (getM obj) (\<lambda>x.
     case fwp_ApplyTo (Spec x) of
       None \<Rightarrow> ret []
     | Some t \<Rightarrow>
         bindM (foldM (fat_ServerRefs t) (add_server_target K)
           (if fat_LabelSelector t \<noteq> '''' then [\<lparr> far_Type = ''label_selector'', far_ServerID = 0,
              far_Selector = fat_LabelSelector t \<rparr>] else [], [])) (\<lambda>(out, seenServers). ret out))"

section \<open>The reconciler\<close>

definition firewall_opts :: "HCloudFirewall \<Rightarrow> FirewallRuleInfo list \<Rightarrow> FirewallApplyResource list \<Rightarrow> FirewallCreateOpts" where
  "firewall_opts x rules applyTo = \<lparr> fco_Name = Name x, fco_Labels = fwp_Labels (Spec x),
     fco_Rules = rules, fco_ApplyTo = applyTo \<rparr>"

text \<open>A refresh that finds nothing keeps the old value.\<close>

definition refresh_firewall :: "'c Interface \<Rightarrow> string \<Rightarrow> FirewallInfo \<Rightarrow> ('c, 'k, FirewallInfo) firewall_prog" where
  "refresh_firewall H what existing = bindM (wrapM what (onCloud (GetFirewall H (fw_ID existing))))
     (\<lambda>refreshed. ret (case refreshed of None \<Rightarrow> existing | Some f \<Rightarrow> f))"

definition sync_labels :: "'c Interface \<Rightarrow> labels \<Rightarrow> FirewallInfo \<Rightarrow> ('c, 'k, FirewallInfo) firewall_prog" where
  "sync_labels H labels existing =
     (if \<not> labelsMatch labels (fw_Labels existing) then
        bindM (wrapM ''update firewall labels''
          (onCloud (UpdateFirewallLabels H (fw_ID existing) (normalizeLabelsMap labels)))) (\<lambda>_.
        refresh_firewall H ''refresh firewall after label update'' existing)
      else ret existing)"

definition sync_rules :: "'c Interface \<Rightarrow> FirewallRuleInfo list \<Rightarrow> FirewallInfo \<Rightarrow> ('c, 'k, FirewallInfo) firewall_prog" where
  "sync_rules H desiredRules existing =
     (if \<not> firewallRulesMatch desiredRules (fw_Rules existing) then
        bindM (wrapM ''set firewall rules'' (onCloud (SetFirewallRules H (fw_ID existing) desiredRules))) (\<lambda>_.
        refresh_firewall H ''refresh firewall after set rules'' existing)
      else ret existing)"

definition sync_targets :: "nat list \<times> nat list \<Rightarrow> 'c Interface \<Rightarrow> FirewallApplyResource list \<Rightarrow> FirewallInfo
    \<Rightarrow> ('c, 'k, unit) firewall_prog" where
  "sync_targets ch H desiredApply existing =
     (let (remove, add) = partitionApplyTargets ch (fw_AppliedTo existing) desiredApply in
      bindM (if 0 < length remove
        then wrapM ''remove firewall resources'' (onCloud (RemoveFirewallResources H (fw_ID existing) remove))
        else ret ()) (\<lambda>_.
      if 0 < length add
        then wrapM ''apply firewall resources'' (onCloud (ApplyFirewallResources H (fw_ID existing) add))
        else ret ()))"

definition reconcileHCloudFirewall :: "nat list \<times> nat list \<Rightarrow> ('c, 'k) firewall_lib \<Rightarrow> 'k kube_api \<Rightarrow> 'c Interface
    \<Rightarrow> ('c, 'k, unit) firewall_prog" where
  "reconcileHCloudFirewall ch L K H = bindM (getM obj) (\<lambda>x.
     let desiredRules = firewallRulesFromSpec (fwp_Rules (Spec x)) in
     bindM (desiredApplyResources K) (\<lambda>desiredApply.
     bindM (find_existing (\<lambda>i. onCloud (GetFirewall H i)) (\<lambda>n. onCloud (GetFirewallByName H n)) ''firewall''
       (fws_FirewallID (Status x)) (Name x)) (\<lambda>existing.
     case existing of
       None \<Rightarrow>
         bindM (wrapM ''create Hetzner firewall''
           (onCloud (CreateFirewall H (firewall_opts x desiredRules desiredApply)))) (\<lambda>created.
         bindM (updStatus (\<lambda>u. u\<lparr>fws_FirewallID := fw_ID created\<rparr>)) (\<lambda>_.
         setCondition L conditionTypeReady ConditionTrue ''FirewallCreated'' ''Firewall created in Hetzner Cloud''))
     | Some existing \<Rightarrow>
         bindM (updStatus (\<lambda>u. u\<lparr>fws_FirewallID := fw_ID existing\<rparr>)) (\<lambda>_.
         bindM (sync_labels H (fwp_Labels (Spec x)) existing) (\<lambda>existing.
         bindM (sync_rules H desiredRules existing) (\<lambda>existing.
         bindM (sync_targets ch H desiredApply existing) (\<lambda>_.
         setCondition L conditionTypeReady ConditionTrue ''FirewallReady''
           ''Firewall rules and attachments are in sync'')))))))"

definition firewall_Reconcile :: "nat list \<times> nat list \<Rightarrow> ('c, 'k) firewall_lib \<Rightarrow> 'k kube_api \<Rightarrow> 'c Interface
    \<Rightarrow> ('c, 'k, Result) firewall_prog" where
  "firewall_Reconcile ch L K H = bindM (reconcileHCloudFirewall ch L K H) (\<lambda>_. ret (after requeueDelay))"

definition firewall_Delete :: "'c Interface \<Rightarrow> ('c, 'k, unit) firewall_prog" where
  "firewall_Delete H = bindM (getM obj) (\<lambda>x.
     if fws_FirewallID (Status x) = 0 then ret ()
     else onCloud (DeleteFirewall H (fws_FirewallID (Status x))))"

definition NewHCloudFirewall :: HCloudFirewall where
  "NewHCloudFirewall = \<lparr> Name = '''', Namespace = '''', ObjectLabels = [], Finalizers = [],
     DeletionTimestamp = None, ResourceVersion = '''',
     Spec = \<lparr> fwp_Labels = [], fwp_Rules = [], fwp_ApplyTo = None \<rparr>,
     Status = \<lparr> Conditions = [], fws_FirewallID = 0 \<rparr> \<rparr>"

definition HCloudFirewallReconciler :: "nat list \<times> nat list \<Rightarrow> ('c, 'k) firewall_lib \<Rightarrow> 'k kube_api \<Rightarrow> 'c Interface
    \<Rightarrow> (('c, 'k, HCloudFirewall) rst, HCloudFirewall) Resource" where
  "HCloudFirewallReconciler ch L K H = \<lparr> NewObject = NewHCloudFirewall,
     FinalizerName = ''infra.hkc.io/firewall-finalizer'', Kind = ''HCloudFirewall'',
     Reconcile = firewall_Reconcile ch L K H, Delete = firewall_Delete H \<rparr>"

section \<open>Parametricity and the contract\<close>

lemma firewall_parts_sim:
  assumes "domain_sim RR A B L M K"
  shows "sim RR (desiredApplyResources K) (desiredApplyResources K)"
    and "sim RR (sync_labels A l f) (sync_labels B l f)"
    and "sim RR (sync_rules A r f) (sync_rules B r f)"
    and "sim RR (sync_targets ch A t f) (sync_targets ch B t f)"
  unfolding desiredApplyResources_def add_server_target_def sync_labels_def sync_rules_def
    sync_targets_def refresh_firewall_def
  by (intro sim_intros domain_sim.domain_sims[OF assms])+

lemma firewall_reconcile_sim:
  assumes "domain_sim RR A B L M K"
  shows "sim RR (firewall_Reconcile ch L K A) (firewall_Reconcile ch M K B)"
  unfolding firewall_Reconcile_def reconcileHCloudFirewall_def
  by (intro sim_intros find_existing_sim firewall_parts_sim[OF assms] domain_sim.domain_sims[OF assms])

lemma firewall_delete_sim:
  assumes "cloud_sim RR A B"
  shows "sim RR (firewall_Delete A) (firewall_Delete B)"
  unfolding firewall_Delete_def by (intro sim_intros cloud_sim.cloud_sims[OF assms])

lemma firewall_reconciler_sels [simp]:
  "NewObject (HCloudFirewallReconciler ch L K H) = NewHCloudFirewall"
  "FinalizerName (HCloudFirewallReconciler ch L K H) = ''infra.hkc.io/firewall-finalizer''"
  "Kind (HCloudFirewallReconciler ch L K H) = ''HCloudFirewall''"
  "Reconcile (HCloudFirewallReconciler ch L K H) = firewall_Reconcile ch L K H"
  "Delete (HCloudFirewallReconciler ch L K H) = firewall_Delete H"
  by (simp_all add: HCloudFirewallReconciler_def)

interpretation firewall_contract: resource_contract L K "HCloudFirewallReconciler ch L K H" for ch L K H
  by unfold_locales (simp_all, (rule sim_diag_iff[THEN iffD1],
      rule firewall_reconcile_sim firewall_delete_sim,
      (rule domain_sim_frame domain_sim_kube cloud_sim_frame cloud_sim_kube; assumption?))+)

end
