(* ===== verification/LoadBalancerCtl.thy ===== *)
theory LoadBalancerCtl
  imports ControllerLib
begin

text \<open>
  The load balancer controller, \<open>internal/controller/hcloudloadbalancer_controller.go\<close>. The
  choices \<open>ch\<close> are the orders in which the two target maps are walked. A value of type \<open>int32\<close>
  becomes an \<open>int\<close> by sign extension and a \<open>time.Duration\<close> by sign extension to 64 bits and
  multiplication.
\<close>

section \<open>Services\<close>

type_synonym ('c, 'k, 'a) lb_prog = "(('c, 'k, HCloudLoadBalancer) rst, 'a) prog"
type_synonym ('c, 'k) lb_lib = "(('c, 'k, HCloudLoadBalancer) rst) lib"

text \<open>One certificate reference: the identifiers found so far and whether one is pending.\<close>

definition resolve_certificate :: "('c, 'k) lb_lib \<Rightarrow> 'k kube_api \<Rightarrow> 'c Interface
    \<Rightarrow> int64 list \<times> bool \<Rightarrow> LocalObjectReference \<Rightarrow> ('c, 'k, int64 list \<times> bool) lb_prog" where
  "resolve_certificate L K H acc ref = (case acc of (ids, pending) \<Rightarrow>
     if ref = '''' then ret (ids, pending)
     else tryM (onKube (KGet (KCertificates K) (cluster_key ref)))
       (\<lambda>err. if IsNotFound L err then ret (ids, True)
          else failM (Wrapf (''get referenced HCloudCertificate '' @ fmt_q ref) err))
       (\<lambda>cert. let ident = ces_CertificateID (Status cert) in
          if ident = 0 then ret (ids, True)
          else bindM (wrapM (''fetch Hetzner certificate '' @ fmt_d ident) (onCloud (GetCertificate H ident))) (\<lambda>info.
            if \<not> CertificateReady info then ret (ids, True) else ret (ids @ [ident], pending))))"

definition resolveCertificateIDs :: "('c, 'k) lb_lib \<Rightarrow> 'k kube_api \<Rightarrow> 'c Interface
    \<Rightarrow> LocalObjectReference list \<Rightarrow> ('c, 'k, int64 list \<times> bool) lb_prog" where
  "resolveCertificateIDs L K H refs = foldM refs (resolve_certificate L K H) ([], False)"

definition seconds :: "32 word \<Rightarrow> 64 word" where
  "seconds n = scast n * time_Second"

definition health_check_from_spec :: "HCloudLoadBalancerHealthCheckSpec \<Rightarrow> LoadBalancerHealthCheckInfo" where
  "health_check_from_spec h = \<lparr> hci_Protocol = hcs_Protocol h, hci_Port = map_option sint (hcs_Port h),
     hci_Interval = map_option seconds (hcs_IntervalSeconds h),
     hci_Timeout = map_option seconds (hcs_TimeoutSeconds h),
     hci_Retries = map_option sint (hcs_Retries h),
     hci_HTTP = map_option (\<lambda>t. \<lparr> hch_Domain = hhs_Domain t, hch_Path = hhs_Path t,
       hch_Response = hhs_Response t, hch_StatusCodes = hhs_StatusCodes t, hch_TLS = hhs_TLS t \<rparr>) (hcs_HTTP h) \<rparr>"

definition service_from_spec :: "HCloudLoadBalancerServiceSpec \<Rightarrow> int64 list \<Rightarrow> LoadBalancerServiceInfo" where
  "service_from_spec spec ids = \<lparr> svc_Protocol = lss_Protocol spec,
     svc_ListenPort = sint (lss_ListenPort spec), svc_DestinationPort = sint (lss_DestinationPort spec),
     svc_Proxyprotocol = (case lss_Proxyprotocol spec of None \<Rightarrow> False | Some b \<Rightarrow> b),
     svc_CertificateIDs = ids, svc_HealthCheck = map_option health_check_from_spec (lss_HealthCheck spec) \<rparr>"

definition add_service :: "('c, 'k) lb_lib \<Rightarrow> 'k kube_api \<Rightarrow> 'c Interface
    \<Rightarrow> LoadBalancerServiceInfo list \<times> bool \<Rightarrow> HCloudLoadBalancerServiceSpec
    \<Rightarrow> ('c, 'k, LoadBalancerServiceInfo list \<times> bool) lb_prog" where
  "add_service L K H acc spec = (case acc of (out, pending) \<Rightarrow>
     bindM (if 0 < length (lss_CertificateRefs spec) then resolveCertificateIDs L K H (lss_CertificateRefs spec)
       else ret ([], False)) (\<lambda>(ids, certPending).
     ret (out @ [service_from_spec spec ids], pending \<or> certPending)))"

definition loadBalancerServicesFromSpec :: "('c, 'k) lb_lib \<Rightarrow> 'k kube_api \<Rightarrow> 'c Interface
    \<Rightarrow> HCloudLoadBalancerServiceSpec list \<Rightarrow> ('c, 'k, LoadBalancerServiceInfo list \<times> bool) lb_prog" where
  "loadBalancerServicesFromSpec L K H specs =
     (if length specs = 0 then ret ([], False) else foldM specs (add_service L K H) ([], False))"

section \<open>Targets\<close>

definition getSelectedServerIDs :: "('c, 'k) lb_lib \<Rightarrow> 'k kube_api \<Rightarrow> LabelSelector option
    \<Rightarrow> ('c, 'k, int64 list) lb_prog" where
  "getSelectedServerIDs L K selector =
     bindM (case selector of None \<Rightarrow> ret None
       | Some sel \<Rightarrow> (case LabelSelectorAsSelector L sel of
           Inl err \<Rightarrow> failM (Wrapf ''invalid serverSelector'' err)
         | Inr compiled \<Rightarrow> ret (Some compiled))) (\<lambda>labelSelector.
     bindM (wrapM ''list HCloudServer resources'' (onKube (KList (KServers K)
       (case labelSelector of None \<Rightarrow> [] | Some p \<Rightarrow> [MatchingLabelsSelector p])))) (\<lambda>items.
     ret (sort (map (\<lambda>x. svs_ServerID (Status x)) (filter (\<lambda>x. svs_ServerID (Status x) \<noteq> 0
       \<and> (case labelSelector of None \<Rightarrow> True | Some p \<Rightarrow> p (ObjectLabels x))) items)))))"

definition sync_lb_targets :: "nat list \<times> nat list \<Rightarrow> 'c Interface \<Rightarrow> LoadBalancerInfo \<Rightarrow> int64 list
    \<Rightarrow> ('c, 'k, unit) lb_prog" where
  "sync_lb_targets ch H existing selectedServerIDs =
     (let currentTargets = remdups (lb_Targets existing); selectedTargets = remdups selectedServerIDs in
      bindM (forM (shuffle (fst ch) selectedTargets) (\<lambda>i.
        if i \<in> set currentTargets then ret ()
        else wrapM (''attach server '' @ fmt_d i @ '' to load balancer '' @ fmt_d (lb_ID existing))
          (onCloud (AttachServerToLoadBalancer H (lb_ID existing) i)))) (\<lambda>_.
      forM (shuffle (snd ch) currentTargets) (\<lambda>i.
        if i \<in> set selectedTargets then ret ()
        else wrapM (''detach server '' @ fmt_d i @ '' from load balancer '' @ fmt_d (lb_ID existing))
          (onCloud (DetachServerFromLoadBalancer H (lb_ID existing) i)))))"

section \<open>The reconciler\<close>

definition lb_opts :: "HCloudLoadBalancer \<Rightarrow> LoadBalancerCreateOpts" where
  "lb_opts x = \<lparr> lco_Name = Name x, lco_LoadBalancerType = lbp_LoadBalancerType (Spec x),
     lco_Location = lbp_Location (Spec x), lco_NetworkZone = lbp_NetworkZone (Spec x),
     lco_Algorithm = lbp_Algorithm (Spec x), lco_Labels = lbp_Labels (Spec x) \<rparr>"

definition reconcileLoadBalancerWithServices :: "nat list \<times> nat list \<Rightarrow> ('c, 'k) lb_lib \<Rightarrow> 'c Interface
    \<Rightarrow> int64 list \<Rightarrow> LoadBalancerServiceInfo list \<Rightarrow> ('c, 'k, unit) lb_prog" where
  "reconcileLoadBalancerWithServices ch L H selectedServerIDs desiredServices = bindM (getM obj) (\<lambda>x.
     bindM (find_or_create (\<lambda>i. onCloud (GetLoadBalancer H i)) (\<lambda>n. onCloud (GetLoadBalancerByName H n))
       (\<lambda>opts. onCloud (CreateLoadBalancer H opts)) ''load balancer'' ''create load balancer''
       (lbs_LoadBalancerID (Status x)) (Name x) (lb_opts x)) (\<lambda>existing.
     bindM (sync_lb_targets ch H existing selectedServerIDs) (\<lambda>_.
     bindM (wrapM ''sync load balancer services''
       (onCloud (SyncLoadBalancerServices H (lb_ID existing) desiredServices))) (\<lambda>_.
     bindM (wrapM ''refresh load balancer'' (onCloud (GetLoadBalancer H (lb_ID existing)))) (\<lambda>refreshed.
     case refreshed of
       None \<Rightarrow> failM (Errorf (''load balancer '' @ fmt_d (lb_ID existing) @ '' disappeared after reconcile''))
     | Some b \<Rightarrow>
         bindM (updStatus (\<lambda>u. u\<lparr>lbs_LoadBalancerID := lb_ID b, lbs_PublicIPv4 := lb_PublicIPv4 b,
           lbs_PublicIPv6 := lb_PublicIPv6 b, lbs_AttachedServerIDs := sort (lb_Targets b)\<rparr>)) (\<lambda>_.
         setCondition L conditionTypeReady ConditionTrue ''LoadBalancerReady''
           ''Load balancer is provisioned and targets are in sync''))))))"

definition reconcileLoadBalancer :: "nat list \<times> nat list \<Rightarrow> ('c, 'k) lb_lib \<Rightarrow> 'k kube_api \<Rightarrow> 'c Interface
    \<Rightarrow> int64 list \<Rightarrow> ('c, 'k, unit) lb_prog" where
  "reconcileLoadBalancer ch L K H selectedServerIDs = bindM (getM obj) (\<lambda>x.
     bindM (loadBalancerServicesFromSpec L K H (lbp_Services (Spec x))) (\<lambda>(desiredServices, pending).
     if pending then setCondition L conditionTypeReady ConditionFalse ''CertificatePending''
       ''Waiting for referenced HCloudCertificate resources''
     else reconcileLoadBalancerWithServices ch L H selectedServerIDs desiredServices))"

definition lb_Reconcile :: "nat list \<times> nat list \<Rightarrow> ('c, 'k) lb_lib \<Rightarrow> 'k kube_api \<Rightarrow> 'c Interface
    \<Rightarrow> ('c, 'k, Result) lb_prog" where
  "lb_Reconcile ch L K H = bindM (getM obj) (\<lambda>x.
     bindM (getSelectedServerIDs L K (lbp_ServerSelector (Spec x))) (\<lambda>selectedServerIDs.
     bindM (reconcileLoadBalancer ch L K H selectedServerIDs) (\<lambda>_. ret (after requeueDelay))))"

definition lb_Delete :: "'c Interface \<Rightarrow> ('c, 'k, unit) lb_prog" where
  "lb_Delete H = bindM (getM obj) (\<lambda>x.
     if lbs_LoadBalancerID (Status x) = 0 then ret ()
     else onCloud (DeleteLoadBalancer H (lbs_LoadBalancerID (Status x))))"

definition NewHCloudLoadBalancer :: HCloudLoadBalancer where
  "NewHCloudLoadBalancer = \<lparr> Name = '''', Namespace = '''', ObjectLabels = [], Finalizers = [],
     DeletionTimestamp = None, ResourceVersion = '''',
     Spec = \<lparr> lbp_LoadBalancerType = '''', lbp_Location = '''', lbp_NetworkZone = '''', lbp_Algorithm = '''',
       lbp_ServerSelector = None, lbp_Labels = [], lbp_Services = [] \<rparr>,
     Status = \<lparr> Conditions = [], lbs_LoadBalancerID = 0, lbs_PublicIPv4 = '''', lbs_PublicIPv6 = '''',
       lbs_AttachedServerIDs = [] \<rparr> \<rparr>"

definition HCloudLoadBalancerReconciler :: "nat list \<times> nat list \<Rightarrow> ('c, 'k) lb_lib \<Rightarrow> 'k kube_api \<Rightarrow> 'c Interface
    \<Rightarrow> (('c, 'k, HCloudLoadBalancer) rst, HCloudLoadBalancer) Resource" where
  "HCloudLoadBalancerReconciler ch L K H = \<lparr> NewObject = NewHCloudLoadBalancer,
     FinalizerName = ''infra.hkc.io/loadbalancer-finalizer'', Kind = ''HCloudLoadBalancer'',
     Reconcile = lb_Reconcile ch L K H, Delete = lb_Delete H \<rparr>"

text \<open>
  The two watches. A certificate change enqueues a load balancer once for every service that
  refers to it (the inner loop stops at the first match, the outer one goes on).
\<close>

definition mapCertificateToLoadBalancers :: "'k kube_api \<Rightarrow> HCloudCertificate \<Rightarrow> 'k \<Rightarrow> NamespacedName list" where
  "mapCertificateToLoadBalancers K cert = requests_of (KLoadBalancers K) []
     (\<lambda>b. concat (map (\<lambda>svc. if list_ex (\<lambda>ref. ref = Name cert) (lss_CertificateRefs svc)
        then [cluster_key (Name b)] else []) (lbp_Services (Spec b))))"

definition enqueueAllLoadBalancersForServerChange :: "'k kube_api \<Rightarrow> 'k \<Rightarrow> NamespacedName list" where
  "enqueueAllLoadBalancersForServerChange K = requests_of (KLoadBalancers K) [] (\<lambda>b. [cluster_key (Name b)])"

section \<open>Parametricity and the contract\<close>

lemma lb_services_sim:
  assumes "domain_sim RR A B L M K"
  shows "sim RR (loadBalancerServicesFromSpec L K A specs) (loadBalancerServicesFromSpec M K B specs)"
  unfolding loadBalancerServicesFromSpec_def add_service_def resolveCertificateIDs_def resolve_certificate_def
    domain_sim.lib_sels[OF assms]
  by (intro sim_intros domain_sim.domain_sims[OF assms])

lemma sim_sum [sim_intros]:
  "(\<And>x. sim RR (f x) (f' x)) \<Longrightarrow> (\<And>y. sim RR (g y) (g' y)) \<Longrightarrow>
   sim RR (case v of Inl x \<Rightarrow> f x | Inr y \<Rightarrow> g y) (case v of Inl x \<Rightarrow> f' x | Inr y \<Rightarrow> g' y)"
  by (cases v) auto

lemma selected_sim:
  assumes "domain_sim RR A B L M K"
  shows "sim RR (getSelectedServerIDs L K sel) (getSelectedServerIDs M K sel)"
  unfolding getSelectedServerIDs_def domain_sim.lib_sels[OF assms]
  by (intro sim_intros domain_sim.domain_sims[OF assms])

lemma lb_targets_sim:
  assumes "domain_sim RR A B L M K"
  shows "sim RR (sync_lb_targets ch A b ids) (sync_lb_targets ch B b ids)"
  unfolding sync_lb_targets_def by (intro sim_intros domain_sim.domain_sims[OF assms])

lemma lb_reconcile_sim:
  assumes "domain_sim RR A B L M K"
  shows "sim RR (lb_Reconcile ch L K A) (lb_Reconcile ch M K B)"
  unfolding lb_Reconcile_def reconcileLoadBalancer_def reconcileLoadBalancerWithServices_def
  by (intro sim_intros find_or_create_sim lb_services_sim[OF assms] selected_sim[OF assms]
      lb_targets_sim[OF assms] domain_sim.domain_sims[OF assms])

lemma lb_delete_sim:
  assumes "cloud_sim RR A B"
  shows "sim RR (lb_Delete A) (lb_Delete B)"
  unfolding lb_Delete_def by (intro sim_intros cloud_sim.cloud_sims[OF assms])

lemma lb_reconciler_sels [simp]:
  "NewObject (HCloudLoadBalancerReconciler ch L K H) = NewHCloudLoadBalancer"
  "FinalizerName (HCloudLoadBalancerReconciler ch L K H) = ''infra.hkc.io/loadbalancer-finalizer''"
  "Kind (HCloudLoadBalancerReconciler ch L K H) = ''HCloudLoadBalancer''"
  "Reconcile (HCloudLoadBalancerReconciler ch L K H) = lb_Reconcile ch L K H"
  "Delete (HCloudLoadBalancerReconciler ch L K H) = lb_Delete H"
  by (simp_all add: HCloudLoadBalancerReconciler_def)

interpretation lb_contract: resource_contract L K "HCloudLoadBalancerReconciler ch L K H" for ch L K H
  by unfold_locales (simp_all, (rule sim_diag_iff[THEN iffD1],
      rule lb_reconcile_sim lb_delete_sim,
      (rule domain_sim_frame domain_sim_kube cloud_sim_frame cloud_sim_kube; assumption?))+)

end
