(* ===== verification/PlacementGroupCtl.thy ===== *)
theory PlacementGroupCtl
  imports ControllerLib
begin

text \<open>The placement group controller, \<open>internal/controller/hcloudplacementgroup_controller.go\<close>.\<close>

section \<open>The reconciler\<close>

type_synonym ('c, 'k, 'a) placement_prog = "(('c, 'k, HCloudPlacementGroup) rst, 'a) prog"
type_synonym ('c, 'k) placement_lib = "(('c, 'k, HCloudPlacementGroup) rst) lib"

definition placement_opts :: "HCloudPlacementGroup \<Rightarrow> PlacementGroupCreateOpts" where
  "placement_opts x = \<lparr> pco_Name = Name x, pco_Type = pgp_Type (Spec x), pco_Labels = pgp_Labels (Spec x) \<rparr>"

definition reconcileHCloudPlacementGroup :: "('c, 'k) placement_lib \<Rightarrow> 'c Interface
    \<Rightarrow> ('c, 'k, unit) placement_prog" where
  "reconcileHCloudPlacementGroup L H = bindM (getM obj) (\<lambda>x.
     bindM (find_existing (\<lambda>i. onCloud (GetPlacementGroup H i)) (\<lambda>n. onCloud (GetPlacementGroupByName H n))
       ''placement group'' (pgs_PlacementGroupID (Status x)) (Name x)) (\<lambda>existing.
     case existing of
       None \<Rightarrow>
         bindM (wrapM ''create Hetzner placement group'' (onCloud (CreatePlacementGroup H (placement_opts x)))) (\<lambda>created.
         bindM (updStatus (\<lambda>u. u\<lparr>pgs_PlacementGroupID := pg_ID created, pgs_Type := pg_Type created\<rparr>)) (\<lambda>_.
         setCondition L conditionTypeReady ConditionTrue ''PlacementGroupCreated''
           ''Placement group created in Hetzner''))
     | Some g \<Rightarrow>
         bindM (updStatus (\<lambda>u. u\<lparr>pgs_PlacementGroupID := pg_ID g, pgs_Type := pg_Type g\<rparr>)) (\<lambda>_.
         setCondition L conditionTypeReady ConditionTrue ''PlacementGroupReady'' ''Placement group is provisioned'')))"

definition placement_Reconcile :: "('c, 'k) placement_lib \<Rightarrow> 'c Interface \<Rightarrow> ('c, 'k, Result) placement_prog" where
  "placement_Reconcile L H = bindM (reconcileHCloudPlacementGroup L H) (\<lambda>_. ret (after requeueDelay))"

definition placement_Delete :: "'c Interface \<Rightarrow> ('c, 'k, unit) placement_prog" where
  "placement_Delete H = bindM (getM obj) (\<lambda>x.
     if pgs_PlacementGroupID (Status x) = 0 then ret ()
     else onCloud (DeletePlacementGroup H (pgs_PlacementGroupID (Status x))))"

definition NewHCloudPlacementGroup :: HCloudPlacementGroup where
  "NewHCloudPlacementGroup = \<lparr> Name = '''', Namespace = '''', ObjectLabels = [], Finalizers = [],
     DeletionTimestamp = None, ResourceVersion = '''',
     Spec = \<lparr> pgp_Type = '''', pgp_Labels = [] \<rparr>,
     Status = \<lparr> Conditions = [], pgs_PlacementGroupID = 0, pgs_Type = '''' \<rparr> \<rparr>"

definition HCloudPlacementGroupReconciler :: "('c, 'k) placement_lib \<Rightarrow> 'k kube_api \<Rightarrow> 'c Interface
    \<Rightarrow> (('c, 'k, HCloudPlacementGroup) rst, HCloudPlacementGroup) Resource" where
  "HCloudPlacementGroupReconciler L K H = \<lparr> NewObject = NewHCloudPlacementGroup,
     FinalizerName = ''infra.hkc.io/placementgroup-finalizer'', Kind = ''HCloudPlacementGroup'',
     Reconcile = placement_Reconcile L H, Delete = placement_Delete H \<rparr>"

section \<open>Parametricity and the contract\<close>

lemma placement_reconcile_sim:
  assumes "domain_sim RR A B L M K"
  shows "sim RR (placement_Reconcile L A) (placement_Reconcile M B)"
  unfolding placement_Reconcile_def reconcileHCloudPlacementGroup_def
  by (intro sim_intros find_existing_sim domain_sim.domain_sims[OF assms])

lemma placement_delete_sim:
  assumes "cloud_sim RR A B"
  shows "sim RR (placement_Delete A) (placement_Delete B)"
  unfolding placement_Delete_def by (intro sim_intros cloud_sim.cloud_sims[OF assms])

lemma placement_reconciler_sels [simp]:
  "NewObject (HCloudPlacementGroupReconciler L K H) = NewHCloudPlacementGroup"
  "FinalizerName (HCloudPlacementGroupReconciler L K H) = ''infra.hkc.io/placementgroup-finalizer''"
  "Kind (HCloudPlacementGroupReconciler L K H) = ''HCloudPlacementGroup''"
  "Reconcile (HCloudPlacementGroupReconciler L K H) = placement_Reconcile L H"
  "Delete (HCloudPlacementGroupReconciler L K H) = placement_Delete H"
  by (simp_all add: HCloudPlacementGroupReconciler_def)

interpretation placement_contract: resource_contract L K "HCloudPlacementGroupReconciler L K H" for L K H
  by unfold_locales (simp_all, (rule sim_diag_iff[THEN iffD1],
      rule placement_reconcile_sim placement_delete_sim,
      (rule domain_sim_frame domain_sim_kube cloud_sim_frame cloud_sim_kube; assumption?))+)

end
