(* ===== verification/PrimaryIPCtl.thy ===== *)
theory PrimaryIPCtl
  imports ControllerLib
begin

text \<open>The primary IP controller, \<open>internal/controller/hcloudprimaryip_controller.go\<close>.\<close>

section \<open>The reconciler\<close>

type_synonym ('c, 'k, 'a) primary_ip_prog = "(('c, 'k, HCloudPrimaryIP) rst, 'a) prog"
type_synonym ('c, 'k) primary_ip_lib = "(('c, 'k, HCloudPrimaryIP) rst) lib"

text \<open>The server the address is for, and whether it is still to come.\<close>

definition primary_ip_target :: "('c, 'k) primary_ip_lib \<Rightarrow> 'k kube_api \<Rightarrow> ('c, 'k, int64 \<times> bool) primary_ip_prog" where
  "primary_ip_target L K = bindM (getM obj) (\<lambda>x.
     case ref_set (pi_ServerRef (Spec x)) of
       None \<Rightarrow> ret (0, False)
     | Some ref \<Rightarrow>
         tryM (onKube (KGet (KServers K) (cluster_key ref)))
           (\<lambda>err. if IsNotFound L err then ret (0, True)
              else failM (Wrapf (''get referenced HCloudServer '' @ fmt_q ref) err))
           (\<lambda>server. if svs_ServerID (Status server) = 0 then ret (0, True)
              else ret (svs_ServerID (Status server), False)))"

definition primary_ip_opts :: "HCloudPrimaryIP \<Rightarrow> PrimaryIPCreateOpts" where
  "primary_ip_opts x = \<lparr> ipc_Name = Name x, ipc_Type = pi_Type (Spec x),
     ipc_Datacenter = pi_Datacenter (Spec x), ipc_Labels = pi_Labels (Spec x),
     ipc_AutoDelete = pi_AutoDelete (Spec x), ipc_AssigneeID = 0, ipc_AssigneeType = '''' \<rparr>"

definition ensurePrimaryIPMetadata :: "'c Interface \<Rightarrow> PrimaryIPInfo \<Rightarrow> ('c, 'k, unit) primary_ip_prog" where
  "ensurePrimaryIPMetadata H existing = bindM (getM obj) (\<lambda>x.
     let labelsChanged = (\<not> mapsEqual (pip_Labels existing) (pi_Labels (Spec x)));
         autoDeleteChanged = (case pi_AutoDelete (Spec x) of None \<Rightarrow> False
           | Some a \<Rightarrow> pip_AutoDelete existing \<noteq> a);
         update = \<lparr> ipu_Labels = (if labelsChanged then Some (cloneStringMapController (pi_Labels (Spec x))) else None),
           ipu_AutoDelete = (if autoDeleteChanged then pi_AutoDelete (Spec x) else None) \<rparr> in
     if labelsChanged \<or> autoDeleteChanged
     then wrapM ''update primary IP metadata'' (onCloud (UpdatePrimaryIP H (pip_ID existing) update))
     else ret ())"

definition ensurePrimaryIPAssignment :: "('c, 'k) primary_ip_lib \<Rightarrow> 'c Interface \<Rightarrow> int64
    \<Rightarrow> PrimaryIPInfo \<Rightarrow> ('c, 'k, unit) primary_ip_prog" where
  "ensurePrimaryIPAssignment L H targetServerID existing = bindM (getM obj) (\<lambda>x.
     if targetServerID = 0 then
       (if pis_AppliedAssigneeID (Status x) \<noteq> 0 \<and> pip_AssigneeID existing = pis_AppliedAssigneeID (Status x) then
          bindM (wrapM (''unassign primary IP '' @ fmt_d (pip_ID existing))
            (onCloud (UnassignPrimaryIP H (pip_ID existing)))) (\<lambda>_.
          bindM (updStatus (\<lambda>u. u\<lparr>pis_AppliedAssigneeID := 0\<rparr>)) (\<lambda>_.
          setCondition L conditionTypeReady ConditionTrue ''PrimaryIPUnassigned''
            ''Primary IP unassigned from server''))
        else ret ())
     else if pip_AssigneeID existing = targetServerID then
       updStatus (\<lambda>u. u\<lparr>pis_AppliedAssigneeID := targetServerID\<rparr>)
     else
       bindM (if pip_AssigneeID existing \<noteq> 0 \<and> pip_AssigneeID existing \<noteq> targetServerID
         then wrapM (''unassign primary IP '' @ fmt_d (pip_ID existing) @ '' before reassignment'')
           (onCloud (UnassignPrimaryIP H (pip_ID existing)))
         else ret ()) (\<lambda>_.
       bindM (wrapM (''assign primary IP '' @ fmt_d (pip_ID existing) @ '' to server '' @ fmt_d targetServerID)
         (onCloud (AssignPrimaryIP H (pip_ID existing) targetServerID ''server''))) (\<lambda>_.
       bindM (updStatus (\<lambda>u. u\<lparr>pis_AppliedAssigneeID := targetServerID\<rparr>)) (\<lambda>_.
       setCondition L conditionTypeReady ConditionTrue ''PrimaryIPAssigned''
         (''Primary IP assigned to server ID '' @ fmt_d targetServerID)))))"

definition ensurePrimaryIPDNSPtr :: "'c Interface \<Rightarrow> PrimaryIPInfo \<Rightarrow> ('c, 'k, unit) primary_ip_prog" where
  "ensurePrimaryIPDNSPtr H existing = bindM (getM obj) (\<lambda>x.
     case pi_DNSPtr (Spec x) of
       None \<Rightarrow> ret ()
     | Some ptr \<Rightarrow>
         if pip_IP existing = '''' then ret ()
         else if (case map_of (pip_DNSPtr existing) (pip_IP existing) of None \<Rightarrow> '''' | Some v \<Rightarrow> v) = ptr
           then ret ()
         else wrapM ''change primary IP DNS PTR''
           (onCloud (ChangePrimaryIPDNSPtr H (pip_ID existing) (pip_IP existing) ptr)))"

definition syncPrimaryIPStatus :: "PrimaryIPInfo \<Rightarrow> ('c, 'k, unit) primary_ip_prog" where
  "syncPrimaryIPStatus existing = updStatus (\<lambda>u. u\<lparr>pis_PrimaryIPID := pip_ID existing,
     pis_IP := pip_IP existing, pis_Datacenter := pip_Datacenter existing,
     pis_AppliedAssigneeID := (if pip_AssigneeID existing \<noteq> 0 then pip_AssigneeID existing
       else pis_AppliedAssigneeID u)\<rparr>)"

text \<open>A refresh between the steps: the address as it is now, an error if it is gone.\<close>

definition refresh_primary_ip :: "'c Interface \<Rightarrow> string \<Rightarrow> string \<Rightarrow> int64 \<Rightarrow> ('c, 'k, PrimaryIPInfo) primary_ip_prog" where
  "refresh_primary_ip H what afterwards ident =
     bindM (wrapM what (onCloud (GetPrimaryIP H ident))) (\<lambda>refreshed. case refreshed of
       None \<Rightarrow> failM (Errorf (''primary IP '' @ fmt_d ident @ '' disappeared after '' @ afterwards))
     | Some p \<Rightarrow> ret p)"

definition reconcileHCloudPrimaryIP :: "('c, 'k) primary_ip_lib \<Rightarrow> 'c Interface \<Rightarrow> int64 \<Rightarrow> ('c, 'k, unit) primary_ip_prog" where
  "reconcileHCloudPrimaryIP L H targetServerID = bindM (getM obj) (\<lambda>x.
     bindM (find_or_create (\<lambda>i. onCloud (GetPrimaryIP H i)) (\<lambda>n. onCloud (GetPrimaryIPByName H n))
       (\<lambda>opts. onCloud (CreatePrimaryIP H opts)) ''primary IP'' ''create Hetzner primary IP''
       (pis_PrimaryIPID (Status x)) (Name x) (primary_ip_opts x)) (\<lambda>existing.
     bindM (ensurePrimaryIPMetadata H existing) (\<lambda>_.
     bindM (refresh_primary_ip H ''refresh primary IP'' ''metadata sync'' (pip_ID existing)) (\<lambda>existing.
     bindM (ensurePrimaryIPAssignment L H targetServerID existing) (\<lambda>_.
     bindM (refresh_primary_ip H ''refresh primary IP after assignment'' ''assignment'' (pip_ID existing)) (\<lambda>existing.
     bindM (ensurePrimaryIPDNSPtr H existing) (\<lambda>_.
     bindM (refresh_primary_ip H ''refresh primary IP after DNS update'' ''DNS update'' (pip_ID existing)) (\<lambda>refreshed.
     bindM (syncPrimaryIPStatus refreshed) (\<lambda>_.
     setCondition L conditionTypeReady ConditionTrue ''PrimaryIPReady'' ''Primary IP is provisioned'')))))))))"

definition primary_ip_Reconcile :: "('c, 'k) primary_ip_lib \<Rightarrow> 'k kube_api \<Rightarrow> 'c Interface
    \<Rightarrow> ('c, 'k, Result) primary_ip_prog" where
  "primary_ip_Reconcile L K H = bindM (primary_ip_target L K) (\<lambda>(targetServerID, pending).
     if pending then
       bindM (setCondition L conditionTypeReady ConditionFalse ''ServerPending''
         ''Waiting for referenced HCloudServer to be provisioned'') (\<lambda>_. ret (after requeueDelay))
     else bindM (reconcileHCloudPrimaryIP L H targetServerID) (\<lambda>_. ret (after requeueDelay)))"

definition primary_ip_Delete :: "'c Interface \<Rightarrow> ('c, 'k, unit) primary_ip_prog" where
  "primary_ip_Delete H = bindM (getM obj) (\<lambda>x.
     if pis_PrimaryIPID (Status x) = 0 then ret ()
     else bindM (wrapM ''unassign primary IP before delete'' (onCloud (UnassignPrimaryIP H (pis_PrimaryIPID (Status x)))))
       (\<lambda>_. onCloud (DeletePrimaryIP H (pis_PrimaryIPID (Status x)))))"

definition NewHCloudPrimaryIP :: HCloudPrimaryIP where
  "NewHCloudPrimaryIP = \<lparr> Name = '''', Namespace = '''', ObjectLabels = [], Finalizers = [],
     DeletionTimestamp = None, ResourceVersion = '''',
     Spec = \<lparr> pi_Type = '''', pi_Datacenter = '''', pi_ServerRef = None, pi_AutoDelete = None,
       pi_DNSPtr = None, pi_Labels = [] \<rparr>,
     Status = \<lparr> Conditions = [], pis_PrimaryIPID = 0, pis_IP = '''', pis_Datacenter = '''',
       pis_AppliedAssigneeID = 0 \<rparr> \<rparr>"

definition HCloudPrimaryIPReconciler :: "('c, 'k) primary_ip_lib \<Rightarrow> 'k kube_api \<Rightarrow> 'c Interface
    \<Rightarrow> (('c, 'k, HCloudPrimaryIP) rst, HCloudPrimaryIP) Resource" where
  "HCloudPrimaryIPReconciler L K H = \<lparr> NewObject = NewHCloudPrimaryIP,
     FinalizerName = ''infra.hkc.io/primaryip-finalizer'', Kind = ''HCloudPrimaryIP'',
     Reconcile = primary_ip_Reconcile L K H, Delete = primary_ip_Delete H \<rparr>"

text \<open>The watch on servers: the addresses that name the server.\<close>

definition mapServerToPrimaryIPs :: "'k kube_api \<Rightarrow> HCloudServer \<Rightarrow> 'k \<Rightarrow> NamespacedName list" where
  "mapServerToPrimaryIPs K server = requests_of (KPrimaryIPs K) [MatchingFields ''spec.serverRef.name'' (Name server)]
     (\<lambda>x. [cluster_key (Name x)])"

definition primary_ip_server_index :: "HCloudPrimaryIP \<Rightarrow> string list" where
  "primary_ip_server_index x = (case ref_set (pi_ServerRef (Spec x)) of None \<Rightarrow> [] | Some n \<Rightarrow> [n])"

section \<open>Parametricity and the contract\<close>

lemma primary_ip_parts_sim:
  assumes "domain_sim RR A B L M K"
  shows "sim RR (ensurePrimaryIPMetadata A p) (ensurePrimaryIPMetadata B p)"
    and "sim RR (ensurePrimaryIPAssignment L A t p) (ensurePrimaryIPAssignment M B t p)"
    and "sim RR (ensurePrimaryIPDNSPtr A p) (ensurePrimaryIPDNSPtr B p)"
    and "sim RR (refresh_primary_ip A w v i) (refresh_primary_ip B w v i)"
    and "sim RR (syncPrimaryIPStatus p) (syncPrimaryIPStatus p)"
    and "sim RR (primary_ip_target L K) (primary_ip_target M K)"
  unfolding ensurePrimaryIPMetadata_def ensurePrimaryIPAssignment_def ensurePrimaryIPDNSPtr_def
    refresh_primary_ip_def syncPrimaryIPStatus_def primary_ip_target_def Let_def domain_sim.lib_sels[OF assms]
  by (intro sim_intros domain_sim.domain_sims[OF assms])+

lemma primary_ip_reconcile_sim:
  assumes "domain_sim RR A B L M K"
  shows "sim RR (primary_ip_Reconcile L K A) (primary_ip_Reconcile M K B)"
  unfolding primary_ip_Reconcile_def reconcileHCloudPrimaryIP_def
  by (intro sim_intros find_or_create_sim primary_ip_parts_sim[OF assms] domain_sim.domain_sims[OF assms])

lemma primary_ip_delete_sim:
  assumes "cloud_sim RR A B"
  shows "sim RR (primary_ip_Delete A) (primary_ip_Delete B)"
  unfolding primary_ip_Delete_def by (intro sim_intros cloud_sim.cloud_sims[OF assms])

lemma primary_ip_reconciler_sels [simp]:
  "NewObject (HCloudPrimaryIPReconciler L K H) = NewHCloudPrimaryIP"
  "FinalizerName (HCloudPrimaryIPReconciler L K H) = ''infra.hkc.io/primaryip-finalizer''"
  "Kind (HCloudPrimaryIPReconciler L K H) = ''HCloudPrimaryIP''"
  "Reconcile (HCloudPrimaryIPReconciler L K H) = primary_ip_Reconcile L K H"
  "Delete (HCloudPrimaryIPReconciler L K H) = primary_ip_Delete H"
  by (simp_all add: HCloudPrimaryIPReconciler_def)

interpretation primary_ip_contract: resource_contract L K "HCloudPrimaryIPReconciler L K H" for L K H
  by unfold_locales (simp_all, (rule sim_diag_iff[THEN iffD1],
      rule primary_ip_reconcile_sim primary_ip_delete_sim,
      (rule domain_sim_frame domain_sim_kube cloud_sim_frame cloud_sim_kube; assumption?))+)

end
