(* ===== verification/FloatingIPCtl.thy ===== *)
theory FloatingIPCtl
  imports ControllerLib
begin

text \<open>The floating IP controller, \<open>internal/controller/hcloudfloatingip_controller.go\<close>.\<close>

section \<open>The reconciler\<close>

type_synonym ('c, 'k, 'a) floating_ip_prog = "(('c, 'k, HCloudFloatingIP) rst, 'a) prog"
type_synonym ('c, 'k) floating_ip_lib = "(('c, 'k, HCloudFloatingIP) rst) lib"

text \<open>The server the address is for, and whether it is still to come.\<close>

definition floating_ip_target :: "('c, 'k) floating_ip_lib \<Rightarrow> 'k kube_api \<Rightarrow> ('c, 'k, int64 \<times> bool) floating_ip_prog" where
  "floating_ip_target L K = bindM (getM obj) (\<lambda>x.
     case ref_set (fi_ServerRef (Spec x)) of
       None \<Rightarrow> ret (0, False)
     | Some ref \<Rightarrow>
         tryM (onKube (KGet (KServers K) (cluster_key ref)))
           (\<lambda>err. if IsNotFound L err then ret (0, True)
              else failM (Wrapf (''get referenced HCloudServer '' @ fmt_q ref) err))
           (\<lambda>server. if svs_ServerID (Status server) = 0 then ret (0, True)
              else ret (svs_ServerID (Status server), False)))"

definition floating_ip_opts :: "HCloudFloatingIP \<Rightarrow> int64 \<Rightarrow> FloatingIPCreateOpts" where
  "floating_ip_opts x targetServerID = \<lparr> fic_Name = Name x, fic_Type = fi_Type (Spec x),
     fic_Location = fi_Location (Spec x), fic_Labels = fi_Labels (Spec x),
     fic_Description = fi_Description (Spec x), fic_ServerID = targetServerID \<rparr>"

text \<open>The update that sends labels only leaves the description at its zero value.\<close>

definition ensureFloatingIPMetadata :: "'c Interface \<Rightarrow> FloatingIPInfo \<Rightarrow> ('c, 'k, unit) floating_ip_prog" where
  "ensureFloatingIPMetadata H existing = bindM (getM obj) (\<lambda>x.
     let labelsChanged = (\<not> mapsEqual (fip_Labels existing) (fi_Labels (Spec x)));
         descriptionChanged = (fip_Description existing \<noteq> fi_Description (Spec x));
         update = \<lparr> fiu_Labels = (if labelsChanged then Some (cloneStringMapController (fi_Labels (Spec x))) else None),
           fiu_Description = (if descriptionChanged then fi_Description (Spec x) else '''') \<rparr> in
     if labelsChanged \<or> descriptionChanged
     then wrapM ''update floating IP metadata'' (onCloud (UpdateFloatingIP H (fip_ID existing) update))
     else ret ())"

definition ensureFloatingIPAssignment :: "('c, 'k) floating_ip_lib \<Rightarrow> 'c Interface \<Rightarrow> int64
    \<Rightarrow> FloatingIPInfo \<Rightarrow> ('c, 'k, unit) floating_ip_prog" where
  "ensureFloatingIPAssignment L H targetServerID existing = bindM (getM obj) (\<lambda>x.
     if targetServerID = 0 then
       (if fis_AppliedServerID (Status x) \<noteq> 0 \<and> fip_ServerID existing = fis_AppliedServerID (Status x) then
          bindM (wrapM (''unassign floating IP '' @ fmt_d (fip_ID existing))
            (onCloud (UnassignFloatingIP H (fip_ID existing)))) (\<lambda>_.
          bindM (updStatus (\<lambda>u. u\<lparr>fis_AppliedServerID := 0\<rparr>)) (\<lambda>_.
          setCondition L conditionTypeReady ConditionTrue ''FloatingIPUnassigned''
            ''Floating IP unassigned from server''))
        else ret ())
     else if fip_ServerID existing = targetServerID then
       updStatus (\<lambda>u. u\<lparr>fis_AppliedServerID := targetServerID\<rparr>)
     else
       bindM (if fip_ServerID existing \<noteq> 0 \<and> fip_ServerID existing \<noteq> targetServerID
         then wrapM (''unassign floating IP '' @ fmt_d (fip_ID existing) @ '' before reassignment'')
           (onCloud (UnassignFloatingIP H (fip_ID existing)))
         else ret ()) (\<lambda>_.
       bindM (wrapM (''assign floating IP '' @ fmt_d (fip_ID existing) @ '' to server '' @ fmt_d targetServerID)
         (onCloud (AssignFloatingIP H (fip_ID existing) targetServerID))) (\<lambda>_.
       bindM (updStatus (\<lambda>u. u\<lparr>fis_AppliedServerID := targetServerID\<rparr>)) (\<lambda>_.
       setCondition L conditionTypeReady ConditionTrue ''FloatingIPAssigned''
         (''Floating IP assigned to server ID '' @ fmt_d targetServerID)))))"

definition ensureFloatingIPDNSPtr :: "'c Interface \<Rightarrow> FloatingIPInfo \<Rightarrow> ('c, 'k, unit) floating_ip_prog" where
  "ensureFloatingIPDNSPtr H existing = bindM (getM obj) (\<lambda>x.
     case fi_DNSPtr (Spec x) of
       None \<Rightarrow> ret ()
     | Some ptr \<Rightarrow>
         if fip_IP existing = '''' then ret ()
         else if (case map_of (fip_DNSPtr existing) (fip_IP existing) of None \<Rightarrow> '''' | Some v \<Rightarrow> v) = ptr
           then ret ()
         else wrapM ''change floating IP DNS PTR''
           (onCloud (ChangeFloatingIPDNSPtr H (fip_ID existing) (fip_IP existing) ptr)))"

definition syncFloatingIPStatus :: "FloatingIPInfo \<Rightarrow> ('c, 'k, unit) floating_ip_prog" where
  "syncFloatingIPStatus existing = updStatus (\<lambda>u. u\<lparr>fis_FloatingIPID := fip_ID existing,
     fis_IP := fip_IP existing, fis_Location := fip_Location existing,
     fis_AppliedServerID := (if fip_ServerID existing \<noteq> 0 then fip_ServerID existing
       else fis_AppliedServerID u)\<rparr>)"

text \<open>A refresh between the steps: the address as it is now, an error if it is gone.\<close>

definition refresh_floating_ip :: "'c Interface \<Rightarrow> string \<Rightarrow> string \<Rightarrow> int64 \<Rightarrow> ('c, 'k, FloatingIPInfo) floating_ip_prog" where
  "refresh_floating_ip H what afterwards ident =
     bindM (wrapM what (onCloud (GetFloatingIP H ident))) (\<lambda>refreshed. case refreshed of
       None \<Rightarrow> failM (Errorf (''floating IP '' @ fmt_d ident @ '' disappeared after '' @ afterwards))
     | Some p \<Rightarrow> ret p)"

definition reconcileHCloudFloatingIP :: "('c, 'k) floating_ip_lib \<Rightarrow> 'c Interface \<Rightarrow> int64 \<Rightarrow> ('c, 'k, unit) floating_ip_prog" where
  "reconcileHCloudFloatingIP L H targetServerID = bindM (getM obj) (\<lambda>x.
     bindM (find_or_create (\<lambda>i. onCloud (GetFloatingIP H i)) (\<lambda>n. onCloud (GetFloatingIPByName H n))
       (\<lambda>opts. onCloud (CreateFloatingIP H opts)) ''floating IP'' ''create Hetzner floating IP''
       (fis_FloatingIPID (Status x)) (Name x) (floating_ip_opts x targetServerID)) (\<lambda>existing.
     bindM (ensureFloatingIPMetadata H existing) (\<lambda>_.
     bindM (refresh_floating_ip H ''refresh floating IP'' ''metadata sync'' (fip_ID existing)) (\<lambda>existing.
     bindM (ensureFloatingIPAssignment L H targetServerID existing) (\<lambda>_.
     bindM (refresh_floating_ip H ''refresh floating IP after assignment'' ''assignment'' (fip_ID existing)) (\<lambda>existing.
     bindM (ensureFloatingIPDNSPtr H existing) (\<lambda>_.
     bindM (refresh_floating_ip H ''refresh floating IP after DNS update'' ''DNS update'' (fip_ID existing)) (\<lambda>refreshed.
     bindM (syncFloatingIPStatus refreshed) (\<lambda>_.
     setCondition L conditionTypeReady ConditionTrue ''FloatingIPReady'' ''Floating IP is provisioned'')))))))))"

definition floating_ip_Reconcile :: "('c, 'k) floating_ip_lib \<Rightarrow> 'k kube_api \<Rightarrow> 'c Interface
    \<Rightarrow> ('c, 'k, Result) floating_ip_prog" where
  "floating_ip_Reconcile L K H = bindM (floating_ip_target L K) (\<lambda>(targetServerID, pending).
     if pending then
       bindM (setCondition L conditionTypeReady ConditionFalse ''ServerPending''
         ''Waiting for referenced HCloudServer to be provisioned'') (\<lambda>_. ret (after requeueDelay))
     else bindM (reconcileHCloudFloatingIP L H targetServerID) (\<lambda>_. ret (after requeueDelay)))"

definition floating_ip_Delete :: "'c Interface \<Rightarrow> ('c, 'k, unit) floating_ip_prog" where
  "floating_ip_Delete H = bindM (getM obj) (\<lambda>x.
     if fis_FloatingIPID (Status x) = 0 then ret ()
     else bindM (wrapM ''unassign floating IP before delete'' (onCloud (UnassignFloatingIP H (fis_FloatingIPID (Status x)))))
       (\<lambda>_. onCloud (DeleteFloatingIP H (fis_FloatingIPID (Status x)))))"

definition NewHCloudFloatingIP :: HCloudFloatingIP where
  "NewHCloudFloatingIP = \<lparr> Name = '''', Namespace = '''', ObjectLabels = [], Finalizers = [],
     DeletionTimestamp = None, ResourceVersion = '''',
     Spec = \<lparr> fi_Type = '''', fi_Location = '''', fi_ServerRef = None, fi_Description = '''',
       fi_DNSPtr = None, fi_Labels = [] \<rparr>,
     Status = \<lparr> Conditions = [], fis_FloatingIPID = 0, fis_IP = '''', fis_Location = '''',
       fis_AppliedServerID = 0 \<rparr> \<rparr>"

definition HCloudFloatingIPReconciler :: "('c, 'k) floating_ip_lib \<Rightarrow> 'k kube_api \<Rightarrow> 'c Interface
    \<Rightarrow> (('c, 'k, HCloudFloatingIP) rst, HCloudFloatingIP) Resource" where
  "HCloudFloatingIPReconciler L K H = \<lparr> NewObject = NewHCloudFloatingIP,
     FinalizerName = ''infra.hkc.io/floatingip-finalizer'', Kind = ''HCloudFloatingIP'',
     Reconcile = floating_ip_Reconcile L K H, Delete = floating_ip_Delete H \<rparr>"

text \<open>The watch on servers: the addresses that name the server.\<close>

definition mapServerToFloatingIPs :: "'k kube_api \<Rightarrow> HCloudServer \<Rightarrow> 'k \<Rightarrow> NamespacedName list" where
  "mapServerToFloatingIPs K server = requests_of (KFloatingIPs K) [MatchingFields ''spec.serverRef.name'' (Name server)]
     (\<lambda>x. [cluster_key (Name x)])"

definition floating_ip_server_index :: "HCloudFloatingIP \<Rightarrow> string list" where
  "floating_ip_server_index x = (case ref_set (fi_ServerRef (Spec x)) of None \<Rightarrow> [] | Some n \<Rightarrow> [n])"

section \<open>Parametricity and the contract\<close>

lemma floating_ip_parts_sim:
  assumes "domain_sim RR A B L M K"
  shows "sim RR (ensureFloatingIPMetadata A p) (ensureFloatingIPMetadata B p)"
    and "sim RR (ensureFloatingIPAssignment L A t p) (ensureFloatingIPAssignment M B t p)"
    and "sim RR (ensureFloatingIPDNSPtr A p) (ensureFloatingIPDNSPtr B p)"
    and "sim RR (refresh_floating_ip A w v i) (refresh_floating_ip B w v i)"
    and "sim RR (syncFloatingIPStatus p) (syncFloatingIPStatus p)"
    and "sim RR (floating_ip_target L K) (floating_ip_target M K)"
  unfolding ensureFloatingIPMetadata_def ensureFloatingIPAssignment_def ensureFloatingIPDNSPtr_def
    refresh_floating_ip_def syncFloatingIPStatus_def floating_ip_target_def Let_def domain_sim.lib_sels[OF assms]
  by (intro sim_intros domain_sim.domain_sims[OF assms])+

lemma floating_ip_reconcile_sim:
  assumes "domain_sim RR A B L M K"
  shows "sim RR (floating_ip_Reconcile L K A) (floating_ip_Reconcile M K B)"
  unfolding floating_ip_Reconcile_def reconcileHCloudFloatingIP_def
  by (intro sim_intros find_or_create_sim floating_ip_parts_sim[OF assms] domain_sim.domain_sims[OF assms])

lemma floating_ip_delete_sim:
  assumes "cloud_sim RR A B"
  shows "sim RR (floating_ip_Delete A) (floating_ip_Delete B)"
  unfolding floating_ip_Delete_def by (intro sim_intros cloud_sim.cloud_sims[OF assms])

lemma floating_ip_reconciler_sels [simp]:
  "NewObject (HCloudFloatingIPReconciler L K H) = NewHCloudFloatingIP"
  "FinalizerName (HCloudFloatingIPReconciler L K H) = ''infra.hkc.io/floatingip-finalizer''"
  "Kind (HCloudFloatingIPReconciler L K H) = ''HCloudFloatingIP''"
  "Reconcile (HCloudFloatingIPReconciler L K H) = floating_ip_Reconcile L K H"
  "Delete (HCloudFloatingIPReconciler L K H) = floating_ip_Delete H"
  by (simp_all add: HCloudFloatingIPReconciler_def)

interpretation floating_ip_contract: resource_contract L K "HCloudFloatingIPReconciler L K H" for L K H
  by unfold_locales (simp_all, (rule sim_diag_iff[THEN iffD1],
      rule floating_ip_reconcile_sim floating_ip_delete_sim,
      (rule domain_sim_frame domain_sim_kube cloud_sim_frame cloud_sim_kube; assumption?))+)

end
