(* ===== verification/CertificateCtl.thy ===== *)
theory CertificateCtl
  imports ControllerLib
begin

text \<open>The certificate controller, \<open>internal/controller/hcloudcertificate_controller.go\<close>.\<close>

section \<open>The reconciler\<close>

type_synonym ('c, 'k, 'a) cert_prog = "(('c, 'k, HCloudCertificate) rst, 'a) prog"
type_synonym ('c, 'k) cert_lib = "(('c, 'k, HCloudCertificate) rst) lib"

definition cert_opts :: "HCloudCertificate \<Rightarrow> CertificateCreateOpts" where
  "cert_opts x = \<lparr> cco_Name = Name x, cco_Type = ce_Type (Spec x), cco_Labels = ce_Labels (Spec x),
     cco_Certificate = ce_Certificate (Spec x), cco_PrivateKey = ce_PrivateKey (Spec x),
     cco_DomainNames = ce_DomainNames (Spec x) \<rparr>"

definition ensureCertificateMetadata :: "'c Interface \<Rightarrow> CertificateInfo \<Rightarrow> ('c, 'k, unit) cert_prog" where
  "ensureCertificateMetadata H existing = bindM (getM obj) (\<lambda>x.
     if mapsEqual (crt_Labels existing) (ce_Labels (Spec x)) then ret ()
     else wrapM ''update certificate metadata'' (onCloud (UpdateCertificate H (crt_ID existing)
       \<lparr> ccu_Labels = Some (cloneStringMapController (ce_Labels (Spec x))) \<rparr>)))"

definition syncCertificateStatus :: "CertificateInfo \<Rightarrow> ('c, 'k, unit) cert_prog" where
  "syncCertificateStatus existing = updStatus (\<lambda>u. u\<lparr>ces_CertificateID := crt_ID existing,
     ces_DomainNames := crt_DomainNames existing, ces_Fingerprint := crt_Fingerprint existing,
     ces_IssuanceStatus := crt_IssuanceStatus existing,
     ces_NotValidBefore := (if crt_NotValidBefore existing \<noteq> None then crt_NotValidBefore existing
       else ces_NotValidBefore u),
     ces_NotValidAfter := (if crt_NotValidAfter existing \<noteq> None then crt_NotValidAfter existing
       else ces_NotValidAfter u)\<rparr>)"

definition reconcileHCloudCertificate :: "('c, 'k) cert_lib \<Rightarrow> 'c Interface \<Rightarrow> ('c, 'k, bool) cert_prog" where
  "reconcileHCloudCertificate L H = bindM (getM obj) (\<lambda>x.
     bindM (find_or_create (\<lambda>i. onCloud (GetCertificate H i)) (\<lambda>n. onCloud (GetCertificateByName H n))
       (\<lambda>opts. onCloud (CreateCertificate H opts)) ''certificate'' ''create Hetzner certificate''
       (ces_CertificateID (Status x)) (Name x) (cert_opts x)) (\<lambda>existing.
     bindM (ensureCertificateMetadata H existing) (\<lambda>_.
     bindM (wrapM ''refresh certificate'' (onCloud (GetCertificate H (crt_ID existing)))) (\<lambda>refreshed.
     case refreshed of
       None \<Rightarrow> failM (Errorf (''certificate '' @ fmt_d (crt_ID existing) @ '' disappeared after metadata sync''))
     | Some c \<Rightarrow>
         bindM (syncCertificateStatus c) (\<lambda>_.
         if \<not> CertificateReady (Some c) then ret True
         else bindM (setCondition L conditionTypeReady ConditionTrue ''CertificateReady''
           ''Certificate is provisioned'') (\<lambda>_. ret False))))))"

definition cert_Reconcile :: "('c, 'k) cert_lib \<Rightarrow> 'c Interface \<Rightarrow> ('c, 'k, Result) cert_prog" where
  "cert_Reconcile L H = bindM (reconcileHCloudCertificate L H) (\<lambda>pending.
     if pending then bindM (setCondition L conditionTypeReady ConditionFalse ''CertificatePending''
       ''Waiting for managed certificate issuance'') (\<lambda>_. ret (after requeueDelay))
     else ret (after requeueDelay))"

definition cert_Delete :: "'c Interface \<Rightarrow> ('c, 'k, unit) cert_prog" where
  "cert_Delete H = bindM (getM obj) (\<lambda>x.
     if ces_CertificateID (Status x) = 0 then ret ()
     else onCloud (DeleteCertificate H (ces_CertificateID (Status x))))"

definition NewHCloudCertificate :: HCloudCertificate where
  "NewHCloudCertificate = \<lparr> Name = '''', Namespace = '''', ObjectLabels = [], Finalizers = [],
     DeletionTimestamp = None, ResourceVersion = '''',
     Spec = \<lparr> ce_Type = '''', ce_Certificate = '''', ce_PrivateKey = '''', ce_DomainNames = [], ce_Labels = [] \<rparr>,
     Status = \<lparr> Conditions = [], ces_CertificateID = 0, ces_DomainNames = [], ces_Fingerprint = '''',
       ces_NotValidBefore = None, ces_NotValidAfter = None, ces_IssuanceStatus = '''' \<rparr> \<rparr>"

definition HCloudCertificateReconciler :: "('c, 'k) cert_lib \<Rightarrow> 'k kube_api \<Rightarrow> 'c Interface
    \<Rightarrow> (('c, 'k, HCloudCertificate) rst, HCloudCertificate) Resource" where
  "HCloudCertificateReconciler L K H = \<lparr> NewObject = NewHCloudCertificate,
     FinalizerName = ''infra.hkc.io/certificate-finalizer'', Kind = ''HCloudCertificate'',
     Reconcile = cert_Reconcile L H, Delete = cert_Delete H \<rparr>"

section \<open>Parametricity and the contract\<close>

lemma cert_reconcile_sim:
  assumes "domain_sim RR A B L M K"
  shows "sim RR (cert_Reconcile L A) (cert_Reconcile M B)"
  unfolding cert_Reconcile_def reconcileHCloudCertificate_def ensureCertificateMetadata_def syncCertificateStatus_def
  by (intro sim_intros find_or_create_sim domain_sim.domain_sims[OF assms])

lemma cert_delete_sim:
  assumes "cloud_sim RR A B"
  shows "sim RR (cert_Delete A) (cert_Delete B)"
  unfolding cert_Delete_def by (intro sim_intros cloud_sim.cloud_sims[OF assms])

lemma cert_reconciler_sels [simp]:
  "NewObject (HCloudCertificateReconciler L K H) = NewHCloudCertificate"
  "FinalizerName (HCloudCertificateReconciler L K H) = ''infra.hkc.io/certificate-finalizer''"
  "Kind (HCloudCertificateReconciler L K H) = ''HCloudCertificate''"
  "Reconcile (HCloudCertificateReconciler L K H) = cert_Reconcile L H"
  "Delete (HCloudCertificateReconciler L K H) = cert_Delete H"
  by (simp_all add: HCloudCertificateReconciler_def)

interpretation cert_contract: resource_contract L K "HCloudCertificateReconciler L K H" for L K H
  by unfold_locales (simp_all, (rule sim_diag_iff[THEN iffD1],
      rule cert_reconcile_sim cert_delete_sim,
      (rule domain_sim_frame domain_sim_kube cloud_sim_frame cloud_sim_kube; assumption?))+)

end
