(* ===== verification/SampleApi.thy ===== *)
theory SampleApi
  imports BaseLaws
begin

text \<open>
  An in-memory API server and the documented library functions: concrete values of the
  parameters, on which the hypotheses about them hold. They are used in witnesses and to run the
  controllers on concrete inputs; no other theorem rests on them.
\<close>

section \<open>Libraries\<close>

definition sample_set :: "Condition list \<Rightarrow> Condition \<Rightarrow> Condition list" where
  "sample_set cs c = (if list_ex (\<lambda>d. cond_Type d = cond_Type c) cs
     then map (\<lambda>d. if cond_Type d = cond_Type c then c else d) cs else cs @ [c])"

definition sample_conflict :: "goerr \<Rightarrow> bool" where
  "sample_conflict e = (case e of KubeError r t \<Rightarrow> r = ''Conflict'' | _ \<Rightarrow> False)"

definition sample_notfound :: "goerr \<Rightarrow> bool" where
  "sample_notfound e = (case e of KubeError r t \<Rightarrow> r = ''NotFound'' | _ \<Rightarrow> False)"

definition sample_lib :: "'s lib" where
  "sample_lib = \<lparr>
     SetStatusCondition = sample_set,
     FindStatusCondition = (\<lambda>cs t. find (\<lambda>d. cond_Type d = t) cs),
     ContainsFinalizer = (\<lambda>fs f. f \<in> set fs),
     AddFinalizer = (\<lambda>fs f. if f \<in> set fs then fs else fs @ [f]),
     RemoveFinalizer = (\<lambda>fs f. filter (\<lambda>g. g \<noteq> f) fs),
     IsNotFound = sample_notfound, IsConflict = sample_conflict,
     RetryOnConflict = attempts sample_conflict 5,
     LabelSelectorAsSelector = (\<lambda>sel. Inr (\<lambda>l. list_all (\<lambda>(k, v). map_of l k = Some v) (MatchLabels sel))) \<rparr>"

lemma sample_lib_sel [simp]:
  "SetStatusCondition sample_lib = sample_set"
  "FindStatusCondition sample_lib cs t = find (\<lambda>d. cond_Type d = t) cs"
  "ContainsFinalizer sample_lib fs f = (f \<in> set fs)"
  "AddFinalizer sample_lib fs f = (if f \<in> set fs then fs else fs @ [f])"
  "RemoveFinalizer sample_lib fs f = filter (\<lambda>g. g \<noteq> f) fs"
  "IsNotFound sample_lib = sample_notfound" "IsConflict sample_lib = sample_conflict"
  "RetryOnConflict sample_lib = attempts sample_conflict 5"
  "LabelSelectorAsSelector sample_lib sel = Inr (\<lambda>l. list_all (\<lambda>(k, v). map_of l k = Some v) (MatchLabels sel))"
  by (simp_all add: sample_lib_def)

lemma find_map_same:
  "list_ex (\<lambda>d. cond_Type d = t) cs \<Longrightarrow> cond_Type c = t \<Longrightarrow>
   find (\<lambda>d. cond_Type d = t) (map (\<lambda>d. if cond_Type d = t then c else d) cs) = Some c"
  by (induction cs) auto

lemma find_map_other:
  "t \<noteq> t' \<Longrightarrow> cond_Type c = t \<Longrightarrow>
   find (\<lambda>d. cond_Type d = t') (map (\<lambda>d. if cond_Type d = t then c else d) cs) =
   find (\<lambda>d. cond_Type d = t') cs"
  by (induction cs) auto

lemma find_append: "find P (xs @ ys) = (case find P xs of Some x \<Rightarrow> Some x | None \<Rightarrow> find P ys)"
  by (induction xs) auto

lemma sample_lib_ok [simp]: "lib_ok sample_lib" "retry_law sample_lib" "finalizers_law sample_lib"
  "conditions_law sample_lib"
proof -
  have none: "find (\<lambda>d. cond_Type d = t) cs = None" if "\<not> list_ex (\<lambda>d. cond_Type d = t) cs"
    for t and cs :: "Condition list"
    using that by (induction cs) auto
  show c: "conditions_law sample_lib"
    unfolding conditions_law_def sample_lib_sel sample_set_def
    by (auto simp: find_map_same find_map_other find_append none split: option.split)
  show f: "finalizers_law sample_lib"
    by (auto simp: finalizers_law_def)
  show r: "retry_law sample_lib"
    by (simp add: retry_law_def)
  show "lib_ok sample_lib" using c f r by (simp add: lib_ok_def)
qed

section \<open>An in-memory API server\<close>

definition mem_find :: "('spec, 'st) kobject list \<Rightarrow> NamespacedName \<Rightarrow> ('spec, 'st) kobject option" where
  "mem_find xs nn = find (\<lambda>x. key_of x = nn) xs"

definition mem_del :: "NamespacedName \<Rightarrow> ('spec, 'st) kobject list \<Rightarrow> ('spec, 'st) kobject list" where
  "mem_del nn xs = filter (\<lambda>y. key_of y \<noteq> nn) xs"

definition mem_put :: "('spec, 'st) kobject \<Rightarrow> ('spec, 'st) kobject list \<Rightarrow> ('spec, 'st) kobject list" where
  "mem_put x xs = x # mem_del (key_of x) xs"

definition next_version :: "string \<Rightarrow> string" where
  "next_version v = CHR ''1'' # v"

definition mem_client :: "('k \<Rightarrow> ('spec, 'st) kobject list)
    \<Rightarrow> ((('spec, 'st) kobject list \<Rightarrow> ('spec, 'st) kobject list) \<Rightarrow> 'k \<Rightarrow> 'k)
    \<Rightarrow> (('spec, 'st) kobject \<Rightarrow> string list) \<Rightarrow> ('k, ('spec, 'st) kobject) kclient" where
  "mem_client tbl upd index = \<lparr>
     KGet = (\<lambda>nn k. case mem_find (tbl k) nn of Some x \<Rightarrow> (Ok x, k)
       | None \<Rightarrow> (Err (KubeError ''NotFound'' (nn_Name nn @ '' not found'')), k)),
     KUpdate = (\<lambda>x k. case mem_find (tbl k) (key_of x) of
         None \<Rightarrow> (Err (KubeError ''NotFound'' (Name x @ '' not found'')), k)
       | Some cur \<Rightarrow> if ResourceVersion x \<noteq> ResourceVersion cur
           then (Err (KubeError ''Conflict'' (Name x @ '' has been modified'')), k)
           else let y = stored_update cur x (next_version (ResourceVersion cur))
             in (Ok y, upd (if DeletionTimestamp cur \<noteq> None \<and> Finalizers x = []
                 then mem_del (key_of x) else mem_put y) k)),
     KStatusUpdate = (\<lambda>x k. case mem_find (tbl k) (key_of x) of
         None \<Rightarrow> (Err (KubeError ''NotFound'' (Name x @ '' not found'')), k)
       | Some cur \<Rightarrow> if ResourceVersion x \<noteq> ResourceVersion cur
           then (Err (KubeError ''Conflict'' (Name x @ '' has been modified'')), k)
           else let y = stored_status cur x (next_version (ResourceVersion cur))
             in (Ok y, upd (mem_put y) k)),
     KList = (\<lambda>opts k. (Ok (filter (\<lambda>x. list_all (\<lambda>opt. case opt of
           MatchingFields f v \<Rightarrow> v \<in> set (index x)
         | MatchingLabelsSelector p \<Rightarrow> p (ObjectLabels x)) opts) (tbl k)), k)) \<rparr>"

lemma mem_find_put: "mem_find (mem_put x xs) = (mem_find xs)(key_of x \<mapsto> x)"
proof (rule ext)
  fix nn
  have "find (\<lambda>y. key_of y = nn) (filter (\<lambda>y. key_of y \<noteq> key_of x) xs) = find (\<lambda>y. key_of y = nn) xs"
    if "nn \<noteq> key_of x"
    using that by (induction xs) auto
  then show "mem_find (mem_put x xs) nn = ((mem_find xs)(key_of x \<mapsto> x)) nn"
    by (auto simp: mem_find_def mem_put_def mem_del_def)
qed

lemma mem_find_del: "mem_find (mem_del nn' xs) = (mem_find xs)(nn' := None)"
proof (rule ext)
  fix nn
  have "find (\<lambda>y. key_of y = nn) (filter (\<lambda>y. key_of y \<noteq> nn') xs) =
      (if nn = nn' then None else find (\<lambda>y. key_of y = nn) xs)"
    by (induction xs) auto
  then show "mem_find (mem_del nn' xs) nn = ((mem_find xs)(nn' := None)) nn"
    by (simp add: mem_find_def mem_del_def)
qed

lemma mem_find_key: "mem_find xs nn = Some x \<Longrightarrow> key_of x = nn"
  by (auto simp: mem_find_def find_Some_iff)

lemma next_version_neq [simp]: "next_version v \<noteq> v"
proof
  assume "next_version v = v"
  then have "length (next_version v) = length v" by simp
  then show False by (simp add: next_version_def)
qed

lemma mem_client_law:
  assumes "\<And>g k. tbl (upd g k) = g (tbl k)"
  shows "api_law sample_notfound sample_conflict (\<lambda>k. mem_find (tbl k)) (mem_client tbl upd index)"
  unfolding api_law_def
  by (auto simp: mem_client_def Let_def assms mem_find_put mem_find_del sample_notfound_def
      sample_conflict_def stored_update_def stored_status_def mem_find_key
      intro!: exI[of _ "next_version _"] split: option.splits if_splits)

section \<open>The nine kinds\<close>

record apistate =
  st_Servers :: "HCloudServer list"
  st_Volumes :: "HCloudVolume list"
  st_LoadBalancers :: "HCloudLoadBalancer list"
  st_Networks :: "HCloudNetwork list"
  st_Firewalls :: "HCloudFirewall list"
  st_PlacementGroups :: "HCloudPlacementGroup list"
  st_PrimaryIPs :: "HCloudPrimaryIP list"
  st_FloatingIPs :: "HCloudFloatingIP list"
  st_Certificates :: "HCloudCertificate list"

definition no_objects :: apistate where
  "no_objects = \<lparr> st_Servers = [], st_Volumes = [], st_LoadBalancers = [], st_Networks = [], st_Firewalls = [], st_PlacementGroups = [], st_PrimaryIPs = [], st_FloatingIPs = [], st_Certificates = [] \<rparr>"

definition ref_index :: "LocalObjectReference option \<Rightarrow> string list" where
  "ref_index r = (case r of None \<Rightarrow> [] | Some n \<Rightarrow> if n = '''' then [] else [n])"

definition sample_api :: "apistate kube_api" where
  "sample_api = \<lparr>
     KServers = mem_client st_Servers st_Servers_update (\<lambda>_. []),
     KVolumes = mem_client st_Volumes st_Volumes_update (\<lambda>x. ref_index (vm_ServerRef (Spec x))),
     KLoadBalancers = mem_client st_LoadBalancers st_LoadBalancers_update (\<lambda>_. []),
     KNetworks = mem_client st_Networks st_Networks_update (\<lambda>_. []),
     KFirewalls = mem_client st_Firewalls st_Firewalls_update (\<lambda>_. []),
     KPlacementGroups = mem_client st_PlacementGroups st_PlacementGroups_update (\<lambda>_. []),
     KPrimaryIPs = mem_client st_PrimaryIPs st_PrimaryIPs_update (\<lambda>x. ref_index (pi_ServerRef (Spec x))),
     KFloatingIPs = mem_client st_FloatingIPs st_FloatingIPs_update (\<lambda>x. ref_index (fi_ServerRef (Spec x))),
     KCertificates = mem_client st_Certificates st_Certificates_update (\<lambda>_. []) \<rparr>"

lemma sample_api_sel [simp]:
  "KServers sample_api = mem_client st_Servers st_Servers_update (\<lambda>_. [])"
  "KVolumes sample_api = mem_client st_Volumes st_Volumes_update (\<lambda>x. ref_index (vm_ServerRef (Spec x)))"
  "KLoadBalancers sample_api = mem_client st_LoadBalancers st_LoadBalancers_update (\<lambda>_. [])"
  "KNetworks sample_api = mem_client st_Networks st_Networks_update (\<lambda>_. [])"
  "KFirewalls sample_api = mem_client st_Firewalls st_Firewalls_update (\<lambda>_. [])"
  "KPlacementGroups sample_api = mem_client st_PlacementGroups st_PlacementGroups_update (\<lambda>_. [])"
  "KPrimaryIPs sample_api = mem_client st_PrimaryIPs st_PrimaryIPs_update (\<lambda>x. ref_index (pi_ServerRef (Spec x)))"
  "KFloatingIPs sample_api = mem_client st_FloatingIPs st_FloatingIPs_update (\<lambda>x. ref_index (fi_ServerRef (Spec x)))"
  "KCertificates sample_api = mem_client st_Certificates st_Certificates_update (\<lambda>_. [])"
  by (simp_all add: sample_api_def)

lemma sample_laws:
  "api_law sample_notfound sample_conflict (\<lambda>k. mem_find (st_Servers k)) (KServers sample_api)"
  "api_law sample_notfound sample_conflict (\<lambda>k. mem_find (st_Volumes k)) (KVolumes sample_api)"
  "api_law sample_notfound sample_conflict (\<lambda>k. mem_find (st_LoadBalancers k)) (KLoadBalancers sample_api)"
  "api_law sample_notfound sample_conflict (\<lambda>k. mem_find (st_Networks k)) (KNetworks sample_api)"
  "api_law sample_notfound sample_conflict (\<lambda>k. mem_find (st_Firewalls k)) (KFirewalls sample_api)"
  "api_law sample_notfound sample_conflict (\<lambda>k. mem_find (st_PlacementGroups k)) (KPlacementGroups sample_api)"
  "api_law sample_notfound sample_conflict (\<lambda>k. mem_find (st_PrimaryIPs k)) (KPrimaryIPs sample_api)"
  "api_law sample_notfound sample_conflict (\<lambda>k. mem_find (st_FloatingIPs k)) (KFloatingIPs sample_api)"
  "api_law sample_notfound sample_conflict (\<lambda>k. mem_find (st_Certificates k)) (KCertificates sample_api)"
  unfolding sample_api_sel by (rule mem_client_law; simp)+

lemma sample_laws_lib:
  "api_law (IsNotFound (sample_lib :: 's lib)) (IsConflict (sample_lib :: 's lib)) (\<lambda>k. mem_find (st_Servers k)) (KServers sample_api)"
  "api_law (IsNotFound (sample_lib :: 's lib)) (IsConflict (sample_lib :: 's lib)) (\<lambda>k. mem_find (st_Volumes k)) (KVolumes sample_api)"
  "api_law (IsNotFound (sample_lib :: 's lib)) (IsConflict (sample_lib :: 's lib)) (\<lambda>k. mem_find (st_LoadBalancers k)) (KLoadBalancers sample_api)"
  "api_law (IsNotFound (sample_lib :: 's lib)) (IsConflict (sample_lib :: 's lib)) (\<lambda>k. mem_find (st_Networks k)) (KNetworks sample_api)"
  "api_law (IsNotFound (sample_lib :: 's lib)) (IsConflict (sample_lib :: 's lib)) (\<lambda>k. mem_find (st_Firewalls k)) (KFirewalls sample_api)"
  "api_law (IsNotFound (sample_lib :: 's lib)) (IsConflict (sample_lib :: 's lib)) (\<lambda>k. mem_find (st_PlacementGroups k)) (KPlacementGroups sample_api)"
  "api_law (IsNotFound (sample_lib :: 's lib)) (IsConflict (sample_lib :: 's lib)) (\<lambda>k. mem_find (st_PrimaryIPs k)) (KPrimaryIPs sample_api)"
  "api_law (IsNotFound (sample_lib :: 's lib)) (IsConflict (sample_lib :: 's lib)) (\<lambda>k. mem_find (st_FloatingIPs k)) (KFloatingIPs sample_api)"
  "api_law (IsNotFound (sample_lib :: 's lib)) (IsConflict (sample_lib :: 's lib)) (\<lambda>k. mem_find (st_Certificates k)) (KCertificates sample_api)"
  by (simp_all only: sample_lib_sel sample_laws)

text \<open>Reads change nothing; a status update of servers or networks keeps every finalizer.\<close>

lemma mem_get_same: "keeps P (KGet (mem_client tbl upd index) x)"
  by (rule keepsI) (simp add: mem_client_def split: option.split)

lemma mem_list_same: "keeps P (KList (mem_client tbl upd index) x)"
  by (rule keepsI) (simp add: mem_client_def)

lemma mem_status_other:
  assumes "\<And>g k. P (upd g k) = P k"
  shows "keeps P (KStatusUpdate (mem_client tbl upd index) x)"
  by (rule keepsI) (simp add: mem_client_def Let_def assms split: option.split)

lemma sample_kept:
  assumes "\<And>x. keeps P (KStatusUpdate (KServers sample_api) x)"
    and "\<And>x. keeps P (KStatusUpdate (KNetworks sample_api) x)"
  shows "kube_kept sample_api P"
  using assms by (simp add: kube_kept_def mem_get_same mem_list_same)

lemma sample_held:
  "kube_kept sample_api (held (\<lambda>k. mem_find (st_Servers k)) req f)"
  "kube_kept sample_api (held (\<lambda>k. mem_find (st_Volumes k)) req f)"
  "kube_kept sample_api (held (\<lambda>k. mem_find (st_LoadBalancers k)) req f)"
  "kube_kept sample_api (held (\<lambda>k. mem_find (st_Networks k)) req f)"
  "kube_kept sample_api (held (\<lambda>k. mem_find (st_Firewalls k)) req f)"
  "kube_kept sample_api (held (\<lambda>k. mem_find (st_PlacementGroups k)) req f)"
  "kube_kept sample_api (held (\<lambda>k. mem_find (st_PrimaryIPs k)) req f)"
  "kube_kept sample_api (held (\<lambda>k. mem_find (st_FloatingIPs k)) req f)"
  "kube_kept sample_api (held (\<lambda>k. mem_find (st_Certificates k)) req f)"
  by (rule sample_kept; (rule held_status[OF sample_laws(1)] | rule held_status[OF sample_laws(4)]
      | (unfold sample_api_sel, rule mem_status_other, simp add: held_def)))+

end
