(* ===== verification/GoNet.thy ===== *)
theory GoNet
  imports Prelude
begin

text \<open>
  \<open>net.ParseCIDR\<close> of the Go standard library, as far as the sources use it: which strings it
  accepts, the address bytes (4 for IPv4, 16 for IPv6) and the prefix length. The structure is
  that of \<open>netip.ParseAddr\<close>: the first of \<open>.\<close>, \<open>:\<close> and \<open>%\<close> decides the family.
  An address with a zone is refused by \<open>ParseCIDR\<close>, so any \<open>%\<close> is.
\<close>

definition is_digit :: "char \<Rightarrow> bool" where
  "is_digit c \<longleftrightarrow> 48 \<le> (of_char c :: nat) \<and> (of_char c :: nat) \<le> 57"

definition hex_val :: "char \<Rightarrow> nat option" where
  "hex_val c = (let n = (of_char c :: nat) in
     if 48 \<le> n \<and> n \<le> 57 then Some (n - 48)
     else if 97 \<le> n \<and> n \<le> 102 then Some (n - 87)
     else if 65 \<le> n \<and> n \<le> 70 then Some (n - 55) else None)"

text \<open>\<open>parseIPv4Fields s fields val digLen\<close>: the octets read so far, the value and the
  number of digits of the current one.\<close>

fun parseIPv4Fields :: "string \<Rightarrow> nat list \<Rightarrow> nat \<Rightarrow> nat \<Rightarrow> nat list option" where
  "parseIPv4Fields [] fs v dl = (if length fs < 3 then None else Some (fs @ [v]))"
| "parseIPv4Fields (c # cs) fs v dl =
     (if is_digit c then
        if dl = 1 \<and> v = 0 then None
        else let w = v * 10 + (of_char c - 48) in
             if w > 255 then None else parseIPv4Fields cs fs w (Suc dl)
      else if c = CHR ''.'' then
        if dl = 0 \<or> cs = [] \<or> length fs = 3 then None
        else parseIPv4Fields cs (fs @ [v]) 0 0
      else None)"

definition parseIPv4 :: "string \<Rightarrow> nat list option" where
  "parseIPv4 s = parseIPv4Fields s [] 0 0"

text \<open>
  The loop of \<open>parseIPv6\<close>: at most eight groups, the bytes so far and the position of the
  ellipsis; the result is the unread rest, the bytes and the ellipsis.
\<close>

fun parseIPv6_loop :: "nat \<Rightarrow> string \<Rightarrow> nat list \<Rightarrow> nat option
    \<Rightarrow> (string \<times> nat list \<times> nat option) option" where
  "parseIPv6_loop 0 s ip ell = Some (s, ip, ell)"
| "parseIPv6_loop (Suc n) s ip ell =
     (let h = takeWhile (\<lambda>c. hex_val c \<noteq> None) s;
          rest = drop (length h) s;
          acc = foldl (\<lambda>a c. 16 * a + the (hex_val c)) 0 h;
          ip' = ip @ [acc div 256, acc mod 256]
      in if h = [] \<or> length h > 4 then None
         else (case rest of
             [] \<Rightarrow> Some ([], ip', ell)
           | c # r \<Rightarrow>
               if c = CHR ''.'' then
                 if ell = None \<and> length ip \<noteq> 12 then None
                 else if length ip + 4 > 16 then None
                 else map_option (\<lambda>fs. ([], ip @ fs, ell)) (parseIPv4 s)
               else if c \<noteq> CHR '':'' \<or> r = [] then None
               else if hd r = CHR '':'' then
                 if ell \<noteq> None then None
                 else if tl r = [] then Some ([], ip', Some (length ip'))
                 else parseIPv6_loop n (tl r) ip' (Some (length ip'))
               else parseIPv6_loop n r ip' ell))"

definition parseIPv6_finish :: "string \<times> nat list \<times> nat option \<Rightarrow> nat list option" where
  "parseIPv6_finish = (\<lambda>(s, ip, ell).
     if s \<noteq> [] then None
     else if length ip < 16 then
       (case ell of None \<Rightarrow> None
        | Some e \<Rightarrow> Some (take e ip @ replicate (16 - length ip) 0 @ drop e ip))
     else if ell \<noteq> None then None else Some ip)"

definition parseIPv6 :: "string \<Rightarrow> nat list option" where
  "parseIPv6 s =
     (if has_prefix ''::'' s then
        if drop 2 s = [] then Some (replicate 16 0)
        else Option.bind (parseIPv6_loop 8 (drop 2 s) [] (Some 0)) parseIPv6_finish
      else Option.bind (parseIPv6_loop 8 s [] None) parseIPv6_finish)"

fun parseAddr :: "string \<Rightarrow> string \<Rightarrow> nat list option" where
  "parseAddr s [] = None"
| "parseAddr s (c # cs) =
     (if c = CHR ''.'' then parseIPv4 s
      else if c = CHR '':'' then if CHR ''%'' \<in> set s then None else parseIPv6 s
      else if c = CHR ''%'' then None
      else parseAddr s cs)"

definition ParseCIDR :: "string \<Rightarrow> (nat list \<times> nat) option" where
  "ParseCIDR s =
     (let addr = takeWhile (\<lambda>c. c \<noteq> CHR ''/'') s; mask = drop (Suc (length addr)) s
      in if CHR ''/'' \<notin> set s then None
         else (case parseAddr addr addr of None \<Rightarrow> None
            | Some ip \<Rightarrow>
                let n = foldl (\<lambda>a c. 10 * a + (of_char c - 48)) 0 mask in
                if mask = [] \<or> \<not> list_all is_digit mask \<or> n > 8 * length ip then None
                else Some (ip, n)))"

text \<open>What \<open>Error()\<close> of the returned \<open>*net.ParseError\<close> prints.\<close>

definition cidr_error :: "string \<Rightarrow> goerr" where
  "cidr_error s = Errorf (''invalid CIDR address: '' @ s)"

lemma parseIPv4Fields_bounds:
  assumes "parseIPv4Fields s fs v dl = Some r" and "length fs \<le> 3" and "v \<le> 255"
    and "\<forall>x \<in> set fs. x \<le> 255"
  shows "length r = 4 \<and> (\<forall>x \<in> set r. x \<le> 255)"
  using assms
proof (induction s arbitrary: fs v dl)
  case Nil
  then show ?case by (auto split: if_splits)
next
  case (Cons c cs)
  show ?case
  proof (cases "is_digit c")
    case True
    then have "parseIPv4Fields cs fs (v * 10 + (of_char c - 48)) (Suc dl) = Some r"
      and "v * 10 + (of_char c - 48) \<le> (255::nat)"
      using Cons.prems(1) by (simp_all add: Let_def split: if_splits)
    with Cons.prems show ?thesis by (intro Cons.IH) simp_all
  next
    case False
    then have "parseIPv4Fields cs (fs @ [v]) 0 0 = Some r" and "length fs \<noteq> 3"
      using Cons.prems(1) by (simp_all split: if_splits)
    with Cons.prems show ?thesis by (intro Cons.IH[of "fs @ [v]" 0 0]) auto
  qed
qed

lemma parseIPv4_bytes:
  "parseIPv4 s = Some r \<Longrightarrow> length r = 4 \<and> (\<forall>x \<in> set r. x \<le> 255)"
  unfolding parseIPv4_def by (drule parseIPv4Fields_bounds) auto

end
