(* ===== verification/FakeClient.thy ===== *)
theory FakeClient
  imports CloudTypes GoNet
begin

text \<open>
  The in-memory client of \<open>internal/hcloud/fake_client.go\<close>: its state, every operation, and
  \<open>fake_client\<close>, its value of the client interface. Each operation holds the mutex for its
  whole body, so it is one atomic step. \<open>ch\<close> is the order in which \<open>range\<close> walks a map.

  The nine resource kinds repeat the same lookup and create bodies over different maps; the
  bodies are written once here (\<open>fake_get\<close>, \<open>fake_get_by_name\<close>, \<open>fake_create\<close>,
  \<open>fake_delete\<close>), parameterised by the map.
\<close>

section \<open>State\<close>

record FakeClient =
  servers :: "(int64, ServerInfo) gomap"
  volumes :: "(int64, VolumeInfo) gomap"
  loadBalancers :: "(int64, LoadBalancerInfo) gomap"
  networks :: "(int64, NetworkInfo) gomap"
  firewalls :: "(int64, FirewallInfo) gomap"
  placementGroups :: "(int64, PlacementGroupInfo) gomap"
  primaryIPs :: "(int64, PrimaryIPInfo) gomap"
  floatingIPs :: "(int64, FloatingIPInfo) gomap"
  certificates :: "(int64, CertificateInfo) gomap"
  nextID :: int64
  CreateErr :: "goerr option"
  GetErr :: "goerr option"
  DeleteErr :: "goerr option"
  LastChangeServerTypeUpgradeDisk :: "(int64, bool) gomap"

definition NewFakeClient :: FakeClient where
  "NewFakeClient = \<lparr> servers = [], volumes = [], loadBalancers = [], networks = [],
     firewalls = [], placementGroups = [], primaryIPs = [], floatingIPs = [], certificates = [],
     nextID = 1, CreateErr = None, GetErr = None, DeleteErr = None,
     LastChangeServerTypeUpgradeDisk = [] \<rparr>"

definition fake_Reset :: "FakeClient \<Rightarrow> FakeClient" where
  "fake_Reset f = f\<lparr> servers := [], volumes := [], loadBalancers := [], networks := [],
     firewalls := [], placementGroups := [], primaryIPs := [], floatingIPs := [], certificates := [],
     nextID := 1, CreateErr := None, GetErr := None, DeleteErr := None,
     LastChangeServerTypeUpgradeDisk := [] \<rparr>"

section \<open>Copies handed to callers\<close>

text \<open>
  Values are immutable here, so a deep copy is the value itself; what is left of the copy
  functions is the one that changes it: copying a firewall rule sorts its address lists.
\<close>

definition copyServerInfo :: "ServerInfo \<Rightarrow> ServerInfo" where
  "copyServerInfo s = s"

definition copyNetworkInfo :: "NetworkInfo \<Rightarrow> NetworkInfo" where
  "copyNetworkInfo n = n"

definition copyPlacementGroupInfo :: "PlacementGroupInfo \<Rightarrow> PlacementGroupInfo" where
  "copyPlacementGroupInfo p = p"

definition copyPrimaryIPInfo :: "PrimaryIPInfo \<Rightarrow> PrimaryIPInfo" where
  "copyPrimaryIPInfo p = p"

definition copyFloatingIPInfo :: "FloatingIPInfo \<Rightarrow> FloatingIPInfo" where
  "copyFloatingIPInfo p = p"

definition copyCertificateInfo :: "CertificateInfo \<Rightarrow> CertificateInfo" where
  "copyCertificateInfo c = c"

definition cloneStringMap :: "(string, string) gomap \<Rightarrow> (string, string) gomap" where
  "cloneStringMap m = m"

definition cloneLoadBalancerServices :: "LoadBalancerServiceInfo list \<Rightarrow> LoadBalancerServiceInfo list" where
  "cloneLoadBalancerServices svcs = (if length svcs = 0 then [] else svcs)"

definition firewallRuleDeepCopy :: "FirewallRuleInfo \<Rightarrow> FirewallRuleInfo" where
  "firewallRuleDeepCopy r =
     r\<lparr>fwr_SourceIPs := sort (fwr_SourceIPs r), fwr_DestinationIPs := sort (fwr_DestinationIPs r)\<rparr>"

definition cloneFirewallRules :: "FirewallRuleInfo list \<Rightarrow> FirewallRuleInfo list" where
  "cloneFirewallRules rs = map firewallRuleDeepCopy rs"

definition cloneFirewallApply :: "FirewallApplyResource list \<Rightarrow> FirewallApplyResource list" where
  "cloneFirewallApply a = a"

definition cloneFirewallInfo :: "FirewallInfo \<Rightarrow> FirewallInfo" where
  "cloneFirewallInfo fw = fw\<lparr>fw_Labels := cloneStringMap (fw_Labels fw),
     fw_Rules := cloneFirewallRules (fw_Rules fw), fw_AppliedTo := cloneFirewallApply (fw_AppliedTo fw)\<rparr>"

section \<open>The bodies shared by the resource kinds\<close>

definition fake_err :: "string \<Rightarrow> goerr" where
  "fake_err m = Errorf (''fake: '' @ m)"

definition fake_not_found :: "string \<Rightarrow> int64 \<Rightarrow> goerr" where
  "fake_not_found kind ident = fake_err (kind @ '' '' @ fmt_d ident @ '' not found'')"

definition fake_exists :: "string \<Rightarrow> string \<Rightarrow> goerr" where
  "fake_exists kind name = fake_err (kind @ '' with name '' @ fmt_q name @ '' already exists'')"

definition fake_get :: "(FakeClient \<Rightarrow> (int64, 'i) gomap) \<Rightarrow> ('i \<Rightarrow> 'i) \<Rightarrow> int64
    \<Rightarrow> (FakeClient, 'i option) prog" where
  "fake_get tbl copy ident = (\<lambda>f. case GetErr f of Some e \<Rightarrow> (Err e, f)
     | None \<Rightarrow> (Ok (map_option copy (map_of (tbl f) ident)), f))"

definition fake_get_by_name :: "nat list \<Rightarrow> (FakeClient \<Rightarrow> (int64, 'i) gomap) \<Rightarrow> ('i \<Rightarrow> string)
    \<Rightarrow> ('i \<Rightarrow> 'i) \<Rightarrow> string \<Rightarrow> (FakeClient, 'i option) prog" where
  "fake_get_by_name ch tbl nm copy name = (\<lambda>f. case GetErr f of Some e \<Rightarrow> (Err e, f)
     | None \<Rightarrow> (Ok (map_option copy
         (find (\<lambda>i. nm i = name) (map snd (shuffle ch (tbl f))))), f))"

text \<open>
  Create: the injected error, the operation's own check of its options, the uniqueness of the
  name, the fresh identifier, the insertion.
\<close>

definition fake_create :: "(FakeClient \<Rightarrow> (int64, 'i) gomap)
    \<Rightarrow> (((int64, 'i) gomap \<Rightarrow> (int64, 'i) gomap) \<Rightarrow> FakeClient \<Rightarrow> FakeClient)
    \<Rightarrow> ('i \<Rightarrow> string) \<Rightarrow> ('i \<Rightarrow> 'i) \<Rightarrow> string \<Rightarrow> goerr option \<Rightarrow> string \<Rightarrow> (int64 \<Rightarrow> 'i)
    \<Rightarrow> (FakeClient, 'i) prog" where
  "fake_create tbl upd nm copy kind check name mk = (\<lambda>f.
     case CreateErr f of Some e \<Rightarrow> (Err e, f)
     | None \<Rightarrow> (case check of Some e \<Rightarrow> (Err e, f)
       | None \<Rightarrow>
         if list_ex (\<lambda>(k, i). nm i = name) (tbl f) then (Err (fake_exists kind name), f)
         else let ident = nextID f; info = mk ident
              in (Ok (copy info), upd (AList.update ident info) (f\<lparr>nextID := ident + 1\<rparr>))))"

definition fake_delete :: "(((int64, 'i) gomap \<Rightarrow> (int64, 'i) gomap) \<Rightarrow> FakeClient \<Rightarrow> FakeClient)
    \<Rightarrow> int64 \<Rightarrow> (FakeClient, unit) prog" where
  "fake_delete upd ident = (\<lambda>f. case DeleteErr f of Some e \<Rightarrow> (Err e, f)
     | None \<Rightarrow> (Ok (), upd (AList.delete ident) f))"

text \<open>An operation on one stored resource: not found, or the body's verdict on it.\<close>

definition fake_on :: "(FakeClient \<Rightarrow> (int64, 'i) gomap)
    \<Rightarrow> (((int64, 'i) gomap \<Rightarrow> (int64, 'i) gomap) \<Rightarrow> FakeClient \<Rightarrow> FakeClient)
    \<Rightarrow> string \<Rightarrow> int64 \<Rightarrow> (FakeClient \<Rightarrow> 'i \<Rightarrow> goerr + 'i) \<Rightarrow> (FakeClient, unit) prog" where
  "fake_on tbl upd kind ident body = (\<lambda>f. case map_of (tbl f) ident of
       None \<Rightarrow> (Err (fake_not_found kind ident), f)
     | Some i \<Rightarrow> (case body f i of Inl e \<Rightarrow> (Err e, f)
         | Inr i' \<Rightarrow> (Ok (), upd (AList.update ident i') f)))"

section \<open>Servers\<close>

definition fake_GetServer :: "int64 \<Rightarrow> (FakeClient, ServerInfo option) prog" where
  "fake_GetServer = fake_get servers copyServerInfo"

definition fake_GetServerByName :: "nat list \<Rightarrow> string \<Rightarrow> (FakeClient, ServerInfo option) prog" where
  "fake_GetServerByName ch = fake_get_by_name ch servers srv_Name copyServerInfo"

definition new_server :: "ServerCreateOpts \<Rightarrow> int64 \<Rightarrow> ServerInfo" where
  "new_server opts ident = \<lparr> srv_ID = ident, srv_Name = sco_Name opts, srv_ServerType = sco_ServerType opts,
    srv_State = ''running'', srv_PublicIPv4 = ''1.2.3.'' @ fmt_d ident,
    srv_PublicIPv6 = ''2001:db8::'' @ fmt_d ident @ ''/64'',
    srv_NetworkIDs = [], srv_PlacementGroupID = sco_PlacementGroupID opts \<rparr>"

definition fake_CreateServer :: "ServerCreateOpts \<Rightarrow> (FakeClient, ServerInfo) prog" where
  "fake_CreateServer opts =
     fake_create servers servers_update srv_Name copyServerInfo ''server'' None (sco_Name opts)
       (new_server opts)"

definition fake_DeleteServer :: "int64 \<Rightarrow> (FakeClient, unit) prog" where
  "fake_DeleteServer = fake_delete servers_update"

definition fake_PowerOffServer :: "int64 \<Rightarrow> (FakeClient, unit) prog" where
  "fake_PowerOffServer ident = fake_on servers servers_update ''server'' ident (\<lambda>f s.
     Inr (if srv_State s = ''off'' \<or> srv_State s = ''stopping'' then s else s\<lparr>srv_State := ''off''\<rparr>))"

definition fake_PowerOnServer :: "int64 \<Rightarrow> (FakeClient, unit) prog" where
  "fake_PowerOnServer ident = fake_on servers servers_update ''server'' ident (\<lambda>f s.
     Inr (if srv_State s = ''running'' \<or> srv_State s = ''starting'' then s
          else s\<lparr>srv_State := ''running''\<rparr>))"

definition fake_ChangeServerType :: "int64 \<Rightarrow> string \<Rightarrow> bool \<Rightarrow> (FakeClient, unit) prog" where
  "fake_ChangeServerType ident serverType upgradeDisk = (\<lambda>f. case map_of (servers f) ident of
       None \<Rightarrow> (Err (fake_not_found ''server'' ident), f)
     | Some s \<Rightarrow>
         if srv_ServerType s = serverType then (Ok (), f)
         else if srv_State s \<noteq> ''off'' then
           (Err (fake_err (''server '' @ fmt_d ident @ '' must be off to change type (state=''
              @ srv_State s @ '')'')), f)
         else (Ok (), f\<lparr>servers := AList.update ident (s\<lparr>srv_ServerType := serverType\<rparr>) (servers f),
            LastChangeServerTypeUpgradeDisk :=
              AList.update ident upgradeDisk (LastChangeServerTypeUpgradeDisk f)\<rparr>))"

definition fake_AttachServerToNetwork :: "int64 \<Rightarrow> int64 \<Rightarrow> (FakeClient, unit) prog" where
  "fake_AttachServerToNetwork serverID networkID =
     fake_on servers servers_update ''server'' serverID (\<lambda>f s.
       if map_of (networks f) networkID = None then Inl (fake_not_found ''network'' networkID)
       else if networkID \<in> set (srv_NetworkIDs s) then Inr s
       else Inr (s\<lparr>srv_NetworkIDs := sort (srv_NetworkIDs s @ [networkID])\<rparr>))"

definition fake_DetachServerFromNetwork :: "int64 \<Rightarrow> int64 \<Rightarrow> (FakeClient, unit) prog" where
  "fake_DetachServerFromNetwork serverID networkID =
     fake_on servers servers_update ''server'' serverID (\<lambda>f s.
       Inr (s\<lparr>srv_NetworkIDs := filter (\<lambda>i. i \<noteq> networkID) (srv_NetworkIDs s)\<rparr>))"

definition fake_Len :: "FakeClient \<Rightarrow> nat" where
  "fake_Len f = length (servers f)"

definition fake_LenVolumes :: "FakeClient \<Rightarrow> nat" where
  "fake_LenVolumes f = length (volumes f)"

definition fake_LenLoadBalancers :: "FakeClient \<Rightarrow> nat" where
  "fake_LenLoadBalancers f = length (loadBalancers f)"

section \<open>Volumes\<close>

definition fake_GetVolume :: "int64 \<Rightarrow> (FakeClient, VolumeInfo option) prog" where
  "fake_GetVolume = fake_get volumes id"

definition fake_GetVolumeByName :: "nat list \<Rightarrow> string \<Rightarrow> (FakeClient, VolumeInfo option) prog" where
  "fake_GetVolumeByName ch = fake_get_by_name ch volumes vol_Name id"

definition new_volume :: "VolumeCreateOpts \<Rightarrow> int64 \<Rightarrow> VolumeInfo" where
  "new_volume opts i = \<lparr> vol_ID = i, vol_Name = vco_Name opts, vol_Size = vco_Size opts,
    vol_State = ''available'',
    vol_ServerID = (if vco_ServerID opts > 0 then vco_ServerID opts else 0),
    vol_LinuxDevice = ''/dev/disk/by-id/scsi-0HC_Volume_'' @ fmt_d i \<rparr>"

definition fake_CreateVolume :: "VolumeCreateOpts \<Rightarrow> (FakeClient, VolumeInfo) prog" where
  "fake_CreateVolume opts =
     fake_create volumes volumes_update vol_Name id ''volume'' None (vco_Name opts)
       (new_volume opts)"

definition fake_DeleteVolume :: "int64 \<Rightarrow> (FakeClient, unit) prog" where
  "fake_DeleteVolume ident = (\<lambda>f. case DeleteErr f of Some e \<Rightarrow> (Err e, f)
     | None \<Rightarrow> (case map_of (volumes f) ident of None \<Rightarrow> (Ok (), f)
       | Some v \<Rightarrow>
           if vol_ServerID v > 0 then
             (Err (fake_err (''volume '' @ fmt_d ident @ '' is attached to server ''
                @ fmt_d (vol_ServerID v))), f)
           else (Ok (), f\<lparr>volumes := AList.delete ident (volumes f)\<rparr>)))"

definition fake_AttachVolume :: "int64 \<Rightarrow> int64 \<Rightarrow> (FakeClient, unit) prog" where
  "fake_AttachVolume volumeID serverID = fake_on volumes volumes_update ''volume'' volumeID (\<lambda>f v.
     if vol_ServerID v > 0 then Inl (fake_err (''volume '' @ fmt_d volumeID @ '' already attached''))
     else Inr (v\<lparr>vol_ServerID := serverID\<rparr>))"

definition fake_DetachVolume :: "int64 \<Rightarrow> (FakeClient, unit) prog" where
  "fake_DetachVolume volumeID = fake_on volumes volumes_update ''volume'' volumeID (\<lambda>f v.
     Inr (v\<lparr>vol_ServerID := 0\<rparr>))"

definition fake_ResizeVolume :: "int64 \<Rightarrow> int \<Rightarrow> (FakeClient, unit) prog" where
  "fake_ResizeVolume volumeID sizeGB = fake_on volumes volumes_update ''volume'' volumeID (\<lambda>f v.
     if sizeGB < vol_Size v then
       Inl (fake_err (''volume '' @ fmt_d volumeID @ '' size cannot shrink from ''
          @ fmt_d (vol_Size v) @ '' to '' @ fmt_d sizeGB @ '' GB''))
     else Inr (v\<lparr>vol_Size := sizeGB\<rparr>))"

section \<open>Load balancers\<close>

definition copy_lb :: "LoadBalancerInfo \<Rightarrow> LoadBalancerInfo" where
  "copy_lb b = b\<lparr>lb_Services := cloneLoadBalancerServices (lb_Services b)\<rparr>"

definition fake_GetLoadBalancer :: "int64 \<Rightarrow> (FakeClient, LoadBalancerInfo option) prog" where
  "fake_GetLoadBalancer = fake_get loadBalancers copy_lb"

definition fake_GetLoadBalancerByName :: "nat list \<Rightarrow> string \<Rightarrow> (FakeClient, LoadBalancerInfo option) prog" where
  "fake_GetLoadBalancerByName ch = fake_get_by_name ch loadBalancers lb_Name copy_lb"

definition new_load_balancer :: "LoadBalancerCreateOpts \<Rightarrow> int64 \<Rightarrow> LoadBalancerInfo" where
  "new_load_balancer opts i = \<lparr> lb_ID = i, lb_Name = lco_Name opts, lb_PublicIPv4 = ''5.6.7.'' @ fmt_d i,
    lb_PublicIPv6 = ''2001:db8:1::'' @ fmt_d i, lb_Targets = [], lb_Services = [] \<rparr>"

definition fake_CreateLoadBalancer :: "LoadBalancerCreateOpts \<Rightarrow> (FakeClient, LoadBalancerInfo) prog" where
  "fake_CreateLoadBalancer opts =
     fake_create loadBalancers loadBalancers_update lb_Name id ''load balancer'' None (lco_Name opts)
       (new_load_balancer opts)"

definition fake_DeleteLoadBalancer :: "int64 \<Rightarrow> (FakeClient, unit) prog" where
  "fake_DeleteLoadBalancer = fake_delete loadBalancers_update"

definition fake_AttachServerToLoadBalancer :: "int64 \<Rightarrow> int64 \<Rightarrow> (FakeClient, unit) prog" where
  "fake_AttachServerToLoadBalancer lbID serverID =
     fake_on loadBalancers loadBalancers_update ''load balancer'' lbID (\<lambda>f b.
       if map_of (servers f) serverID = None then Inl (fake_not_found ''server'' serverID)
       else if serverID \<in> set (lb_Targets b) then Inr b
       else Inr (b\<lparr>lb_Targets := lb_Targets b @ [serverID]\<rparr>))"

definition fake_DetachServerFromLoadBalancer :: "int64 \<Rightarrow> int64 \<Rightarrow> (FakeClient, unit) prog" where
  "fake_DetachServerFromLoadBalancer lbID serverID =
     fake_on loadBalancers loadBalancers_update ''load balancer'' lbID (\<lambda>f b.
       Inr (b\<lparr>lb_Targets := filter (\<lambda>i. i \<noteq> serverID) (lb_Targets b)\<rparr>))"

definition fake_SyncLoadBalancerServices :: "int64 \<Rightarrow> LoadBalancerServiceInfo list \<Rightarrow> (FakeClient, unit) prog" where
  "fake_SyncLoadBalancerServices lbID desired =
     fake_on loadBalancers loadBalancers_update ''load balancer'' lbID (\<lambda>f b.
       Inr (b\<lparr>lb_Services := cloneLoadBalancerServices desired\<rparr>))"

section \<open>Networks\<close>

definition fake_GetNetwork :: "int64 \<Rightarrow> (FakeClient, NetworkInfo option) prog" where
  "fake_GetNetwork = fake_get networks copyNetworkInfo"

definition fake_GetNetworkByName :: "nat list \<Rightarrow> string \<Rightarrow> (FakeClient, NetworkInfo option) prog" where
  "fake_GetNetworkByName ch = fake_get_by_name ch networks net_Name copyNetworkInfo"

definition network_check :: "NetworkCreateOpts \<Rightarrow> goerr option" where
  "network_check opts =
     (case ParseCIDR (nco_IPRange opts) of Some _ \<Rightarrow> None
        | None \<Rightarrow> Some (Wrapf (''fake: invalid ipRange '' @ fmt_q (nco_IPRange opts))
                        (cidr_error (nco_IPRange opts))))"

definition new_network :: "NetworkCreateOpts \<Rightarrow> int64 \<Rightarrow> NetworkInfo" where
  "new_network opts i = \<lparr> net_ID = i, net_Name = nco_Name opts, net_IPRange = nco_IPRange opts,
    net_SubnetZones = [], net_Labels = cloneStringMap (nco_Labels opts),
    net_ExposeRoutes = nco_ExposeRoutesToVSwitch opts \<rparr>"

definition fake_CreateNetwork :: "NetworkCreateOpts \<Rightarrow> (FakeClient, NetworkInfo) prog" where
  "fake_CreateNetwork opts =
     fake_create networks networks_update net_Name copyNetworkInfo ''network''
       (network_check opts)
       (nco_Name opts)
       (new_network opts)"

definition fake_DeleteNetwork :: "int64 \<Rightarrow> (FakeClient, unit) prog" where
  "fake_DeleteNetwork = fake_delete networks_update"

definition fake_AddNetworkCloudSubnet :: "int64 \<Rightarrow> string \<Rightarrow> (FakeClient, unit) prog" where
  "fake_AddNetworkCloudSubnet networkID zone =
     fake_on networks networks_update ''network'' networkID (\<lambda>f n.
       if zone \<in> set (net_SubnetZones n) then Inr n
       else Inr (n\<lparr>net_SubnetZones := sort (net_SubnetZones n @ [zone])\<rparr>))"

section \<open>Firewalls\<close>

definition fake_GetFirewall :: "int64 \<Rightarrow> (FakeClient, FirewallInfo option) prog" where
  "fake_GetFirewall = fake_get firewalls cloneFirewallInfo"

definition fake_GetFirewallByName :: "nat list \<Rightarrow> string \<Rightarrow> (FakeClient, FirewallInfo option) prog" where
  "fake_GetFirewallByName ch = fake_get_by_name ch firewalls fw_Name cloneFirewallInfo"

definition new_firewall :: "FirewallCreateOpts \<Rightarrow> int64 \<Rightarrow> FirewallInfo" where
  "new_firewall opts i = \<lparr> fw_ID = i, fw_Name = fco_Name opts, fw_Labels = cloneStringMap (fco_Labels opts),
    fw_Rules = cloneFirewallRules (fco_Rules opts),
    fw_AppliedTo = cloneFirewallApply (fco_ApplyTo opts) \<rparr>"

definition fake_CreateFirewall :: "FirewallCreateOpts \<Rightarrow> (FakeClient, FirewallInfo) prog" where
  "fake_CreateFirewall opts =
     fake_create firewalls firewalls_update fw_Name cloneFirewallInfo ''firewall'' None (fco_Name opts)
       (new_firewall opts)"

definition fake_DeleteFirewall :: "int64 \<Rightarrow> (FakeClient, unit) prog" where
  "fake_DeleteFirewall = fake_delete firewalls_update"

definition fake_UpdateFirewallLabels :: "int64 \<Rightarrow> labels \<Rightarrow> (FakeClient, unit) prog" where
  "fake_UpdateFirewallLabels ident labels = fake_on firewalls firewalls_update ''firewall'' ident (\<lambda>f w.
     Inr (w\<lparr>fw_Labels := cloneStringMap labels\<rparr>))"

definition fake_SetFirewallRules :: "int64 \<Rightarrow> FirewallRuleInfo list \<Rightarrow> (FakeClient, unit) prog" where
  "fake_SetFirewallRules ident rules = fake_on firewalls firewalls_update ''firewall'' ident (\<lambda>f w.
     Inr (w\<lparr>fw_Rules := cloneFirewallRules rules\<rparr>))"

text \<open>The loop of \<open>ApplyFirewallResources\<close>: \<open>keys\<close> is the set of keys seen so far.\<close>

fun apply_resources :: "string list \<Rightarrow> FirewallApplyResource list \<Rightarrow> FirewallApplyResource list
    \<Rightarrow> FirewallApplyResource list" where
  "apply_resources keys acc [] = acc"
| "apply_resources keys acc (r # rs) =
     (if Key r \<in> set keys then apply_resources keys acc rs
      else apply_resources (Key r # keys) (acc @ [r]) rs)"

definition fake_ApplyFirewallResources :: "int64 \<Rightarrow> FirewallApplyResource list \<Rightarrow> (FakeClient, unit) prog" where
  "fake_ApplyFirewallResources ident resources = fake_on firewalls firewalls_update ''firewall'' ident (\<lambda>f w.
     Inr (w\<lparr>fw_AppliedTo := apply_resources (map Key (fw_AppliedTo w)) (fw_AppliedTo w) resources\<rparr>))"

definition fake_RemoveFirewallResources :: "int64 \<Rightarrow> FirewallApplyResource list \<Rightarrow> (FakeClient, unit) prog" where
  "fake_RemoveFirewallResources ident resources = fake_on firewalls firewalls_update ''firewall'' ident (\<lambda>f w.
     Inr (w\<lparr>fw_AppliedTo := filter (\<lambda>a. Key a \<notin> set (map Key resources)) (fw_AppliedTo w)\<rparr>))"

section \<open>Placement groups\<close>

definition fake_GetPlacementGroup :: "int64 \<Rightarrow> (FakeClient, PlacementGroupInfo option) prog" where
  "fake_GetPlacementGroup = fake_get placementGroups copyPlacementGroupInfo"

definition fake_GetPlacementGroupByName :: "nat list \<Rightarrow> string \<Rightarrow> (FakeClient, PlacementGroupInfo option) prog" where
  "fake_GetPlacementGroupByName ch = fake_get_by_name ch placementGroups pg_Name copyPlacementGroupInfo"

definition new_placement_group :: "PlacementGroupCreateOpts \<Rightarrow> int64 \<Rightarrow> PlacementGroupInfo" where
  "new_placement_group opts i = \<lparr> pg_ID = i, pg_Name = pco_Name opts, pg_Type = pco_Type opts,
    pg_Labels = cloneStringMap (pco_Labels opts) \<rparr>"

definition fake_CreatePlacementGroup :: "PlacementGroupCreateOpts \<Rightarrow> (FakeClient, PlacementGroupInfo) prog" where
  "fake_CreatePlacementGroup opts =
     fake_create placementGroups placementGroups_update pg_Name copyPlacementGroupInfo
       ''placement group'' None (pco_Name opts)
       (new_placement_group opts)"

definition fake_DeletePlacementGroup :: "int64 \<Rightarrow> (FakeClient, unit) prog" where
  "fake_DeletePlacementGroup = fake_delete placementGroups_update"

section \<open>Primary IPs\<close>

definition fake_GetPrimaryIP :: "int64 \<Rightarrow> (FakeClient, PrimaryIPInfo option) prog" where
  "fake_GetPrimaryIP = fake_get primaryIPs copyPrimaryIPInfo"

definition fake_GetPrimaryIPByName :: "nat list \<Rightarrow> string \<Rightarrow> (FakeClient, PrimaryIPInfo option) prog" where
  "fake_GetPrimaryIPByName ch = fake_get_by_name ch primaryIPs pip_Name copyPrimaryIPInfo"

definition primary_ip_check :: "PrimaryIPCreateOpts \<Rightarrow> goerr option" where
  "primary_ip_check opts =
     (if ipc_Datacenter opts \<noteq> '''' \<and> ipc_AssigneeID opts \<noteq> 0
        then Some (fake_err ''cannot set datacenter and assignee_id on primary IP create'') else None)"

definition new_primary_ip :: "PrimaryIPCreateOpts \<Rightarrow> int64 \<Rightarrow> PrimaryIPInfo" where
  "new_primary_ip opts i = \<lparr> pip_ID = i, pip_Name = ipc_Name opts, pip_Type = ipc_Type opts,
    pip_IP = (if ipc_Type opts = ''ipv6'' then ''2001:db8:primary::'' @ fmt_d i
              else ''1.2.3.'' @ fmt_d i),
    pip_Datacenter = ipc_Datacenter opts, pip_Labels = cloneStringMap (ipc_Labels opts),
    pip_AssigneeID = (if ipc_AssigneeID opts \<noteq> 0 then ipc_AssigneeID opts else 0),
    pip_AssigneeType = primaryIPAssigneeType (ipc_AssigneeType opts),
    pip_AutoDelete = (ipc_AutoDelete opts = Some True), pip_DNSPtr = [] \<rparr>"

definition fake_CreatePrimaryIP :: "PrimaryIPCreateOpts \<Rightarrow> (FakeClient, PrimaryIPInfo) prog" where
  "fake_CreatePrimaryIP opts =
     fake_create primaryIPs primaryIPs_update pip_Name copyPrimaryIPInfo ''primary IP''
       (primary_ip_check opts)
       (ipc_Name opts)
       (new_primary_ip opts)"

definition fake_DeletePrimaryIP :: "int64 \<Rightarrow> (FakeClient, unit) prog" where
  "fake_DeletePrimaryIP = fake_delete primaryIPs_update"

definition fake_UpdatePrimaryIP :: "int64 \<Rightarrow> PrimaryIPUpdateOpts \<Rightarrow> (FakeClient, unit) prog" where
  "fake_UpdatePrimaryIP ident opts = fake_on primaryIPs primaryIPs_update ''primary IP'' ident (\<lambda>f p.
     Inr (let p = (case ipu_Labels opts of None \<Rightarrow> p | Some l \<Rightarrow> p\<lparr>pip_Labels := cloneStringMap l\<rparr>)
          in (case ipu_AutoDelete opts of None \<Rightarrow> p | Some a \<Rightarrow> p\<lparr>pip_AutoDelete := a\<rparr>)))"

definition fake_AssignPrimaryIP :: "int64 \<Rightarrow> int64 \<Rightarrow> string \<Rightarrow> (FakeClient, unit) prog" where
  "fake_AssignPrimaryIP ident assigneeID assigneeType =
     fake_on primaryIPs primaryIPs_update ''primary IP'' ident (\<lambda>f p.
       Inr (p\<lparr>pip_AssigneeID := assigneeID, pip_AssigneeType := primaryIPAssigneeType assigneeType\<rparr>))"

definition fake_UnassignPrimaryIP :: "int64 \<Rightarrow> (FakeClient, unit) prog" where
  "fake_UnassignPrimaryIP ident = fake_on primaryIPs primaryIPs_update ''primary IP'' ident (\<lambda>f p.
     Inr (if pip_AssigneeID p = 0 then p else p\<lparr>pip_AssigneeID := 0\<rparr>))"

definition fake_ChangePrimaryIPDNSPtr :: "int64 \<Rightarrow> string \<Rightarrow> string \<Rightarrow> (FakeClient, unit) prog" where
  "fake_ChangePrimaryIPDNSPtr ident ip dnsPtr =
     fake_on primaryIPs primaryIPs_update ''primary IP'' ident (\<lambda>f p.
       Inr (p\<lparr>pip_DNSPtr := AList.update ip dnsPtr (pip_DNSPtr p)\<rparr>))"

section \<open>Floating IPs\<close>

definition fake_GetFloatingIP :: "int64 \<Rightarrow> (FakeClient, FloatingIPInfo option) prog" where
  "fake_GetFloatingIP = fake_get floatingIPs copyFloatingIPInfo"

definition fake_GetFloatingIPByName :: "nat list \<Rightarrow> string \<Rightarrow> (FakeClient, FloatingIPInfo option) prog" where
  "fake_GetFloatingIPByName ch = fake_get_by_name ch floatingIPs fip_Name copyFloatingIPInfo"

definition new_floating_ip :: "FloatingIPCreateOpts \<Rightarrow> int64 \<Rightarrow> FloatingIPInfo" where
  "new_floating_ip opts i = \<lparr> fip_ID = i, fip_Name = fic_Name opts, fip_Type = fic_Type opts,
    fip_IP = (if fic_Type opts = ''ipv6'' then ''2001:db8:floating::'' @ fmt_d i
              else ''203.0.113.'' @ fmt_d i),
    fip_Location = fic_Location opts, fip_Description = fic_Description opts,
    fip_Labels = cloneStringMap (fic_Labels opts),
    fip_ServerID = (if fic_ServerID opts \<noteq> 0 then fic_ServerID opts else 0),
    fip_DNSPtr = [] \<rparr>"

definition fake_CreateFloatingIP :: "FloatingIPCreateOpts \<Rightarrow> (FakeClient, FloatingIPInfo) prog" where
  "fake_CreateFloatingIP opts =
     fake_create floatingIPs floatingIPs_update fip_Name copyFloatingIPInfo ''floating IP'' None
       (fic_Name opts)
       (new_floating_ip opts)"

definition fake_DeleteFloatingIP :: "int64 \<Rightarrow> (FakeClient, unit) prog" where
  "fake_DeleteFloatingIP = fake_delete floatingIPs_update"

definition fake_UpdateFloatingIP :: "int64 \<Rightarrow> FloatingIPUpdateOpts \<Rightarrow> (FakeClient, unit) prog" where
  "fake_UpdateFloatingIP ident opts = fake_on floatingIPs floatingIPs_update ''floating IP'' ident (\<lambda>f p.
     Inr ((case fiu_Labels opts of None \<Rightarrow> p | Some l \<Rightarrow> p\<lparr>fip_Labels := cloneStringMap l\<rparr>)
            \<lparr>fip_Description := fiu_Description opts\<rparr>))"

definition fake_AssignFloatingIP :: "int64 \<Rightarrow> int64 \<Rightarrow> (FakeClient, unit) prog" where
  "fake_AssignFloatingIP ident serverID =
     fake_on floatingIPs floatingIPs_update ''floating IP'' ident (\<lambda>f p. Inr (p\<lparr>fip_ServerID := serverID\<rparr>))"

definition fake_UnassignFloatingIP :: "int64 \<Rightarrow> (FakeClient, unit) prog" where
  "fake_UnassignFloatingIP ident = fake_on floatingIPs floatingIPs_update ''floating IP'' ident (\<lambda>f p.
     Inr (if fip_ServerID p = 0 then p else p\<lparr>fip_ServerID := 0\<rparr>))"

definition fake_ChangeFloatingIPDNSPtr :: "int64 \<Rightarrow> string \<Rightarrow> string \<Rightarrow> (FakeClient, unit) prog" where
  "fake_ChangeFloatingIPDNSPtr ident ip dnsPtr =
     fake_on floatingIPs floatingIPs_update ''floating IP'' ident (\<lambda>f p.
       Inr (p\<lparr>fip_DNSPtr := AList.update ip dnsPtr (fip_DNSPtr p)\<rparr>))"

section \<open>Certificates\<close>

definition fake_GetCertificate :: "int64 \<Rightarrow> (FakeClient, CertificateInfo option) prog" where
  "fake_GetCertificate = fake_get certificates copyCertificateInfo"

definition fake_GetCertificateByName :: "nat list \<Rightarrow> string \<Rightarrow> (FakeClient, CertificateInfo option) prog" where
  "fake_GetCertificateByName ch = fake_get_by_name ch certificates crt_Name copyCertificateInfo"

definition new_certificate :: "CertificateCreateOpts \<Rightarrow> int64 \<Rightarrow> CertificateInfo" where
  "new_certificate opts i = \<lparr> crt_ID = i, crt_Name = cco_Name opts, crt_Type = cco_Type opts,
    crt_Labels = cloneStringMap (cco_Labels opts), crt_DomainNames = cco_DomainNames opts,
    crt_Fingerprint = ''fake-fingerprint-'' @ fmt_d i,
    crt_NotValidBefore = None, crt_NotValidAfter = None,
    crt_IssuanceStatus = (if cco_Type opts = ''managed'' then ''completed'' else ''completed'') \<rparr>"

definition fake_CreateCertificate :: "CertificateCreateOpts \<Rightarrow> (FakeClient, CertificateInfo) prog" where
  "fake_CreateCertificate opts =
     fake_create certificates certificates_update crt_Name copyCertificateInfo ''certificate'' None
       (cco_Name opts)
       (new_certificate opts)"

definition fake_DeleteCertificate :: "int64 \<Rightarrow> (FakeClient, unit) prog" where
  "fake_DeleteCertificate = fake_delete certificates_update"

definition fake_UpdateCertificate :: "int64 \<Rightarrow> CertificateUpdateOpts \<Rightarrow> (FakeClient, unit) prog" where
  "fake_UpdateCertificate ident opts = fake_on certificates certificates_update ''certificate'' ident (\<lambda>f c.
     Inr (case ccu_Labels opts of None \<Rightarrow> c | Some l \<Rightarrow> c\<lparr>crt_Labels := cloneStringMap l\<rparr>))"

section \<open>The interface value\<close>

definition fake_client :: "nat list \<Rightarrow> FakeClient Interface" where
  "fake_client ch = \<lparr>
     GetServer = fake_GetServer, GetServerByName = fake_GetServerByName ch,
     CreateServer = fake_CreateServer, DeleteServer = fake_DeleteServer,
     PowerOffServer = fake_PowerOffServer, PowerOnServer = fake_PowerOnServer,
     ChangeServerType = fake_ChangeServerType,
     AttachServerToNetwork = fake_AttachServerToNetwork,
     DetachServerFromNetwork = fake_DetachServerFromNetwork,
     GetVolume = fake_GetVolume, GetVolumeByName = fake_GetVolumeByName ch,
     CreateVolume = fake_CreateVolume, DeleteVolume = fake_DeleteVolume,
     AttachVolume = fake_AttachVolume, DetachVolume = fake_DetachVolume,
     ResizeVolume = fake_ResizeVolume,
     GetLoadBalancer = fake_GetLoadBalancer, GetLoadBalancerByName = fake_GetLoadBalancerByName ch,
     CreateLoadBalancer = fake_CreateLoadBalancer, DeleteLoadBalancer = fake_DeleteLoadBalancer,
     AttachServerToLoadBalancer = fake_AttachServerToLoadBalancer,
     DetachServerFromLoadBalancer = fake_DetachServerFromLoadBalancer,
     SyncLoadBalancerServices = fake_SyncLoadBalancerServices,
     GetNetwork = fake_GetNetwork, GetNetworkByName = fake_GetNetworkByName ch,
     CreateNetwork = fake_CreateNetwork, DeleteNetwork = fake_DeleteNetwork,
     AddNetworkCloudSubnet = fake_AddNetworkCloudSubnet,
     GetFirewall = fake_GetFirewall, GetFirewallByName = fake_GetFirewallByName ch,
     CreateFirewall = fake_CreateFirewall, DeleteFirewall = fake_DeleteFirewall,
     UpdateFirewallLabels = fake_UpdateFirewallLabels, SetFirewallRules = fake_SetFirewallRules,
     ApplyFirewallResources = fake_ApplyFirewallResources,
     RemoveFirewallResources = fake_RemoveFirewallResources,
     GetPlacementGroup = fake_GetPlacementGroup,
     GetPlacementGroupByName = fake_GetPlacementGroupByName ch,
     CreatePlacementGroup = fake_CreatePlacementGroup,
     DeletePlacementGroup = fake_DeletePlacementGroup,
     GetPrimaryIP = fake_GetPrimaryIP, GetPrimaryIPByName = fake_GetPrimaryIPByName ch,
     CreatePrimaryIP = fake_CreatePrimaryIP, DeletePrimaryIP = fake_DeletePrimaryIP,
     UpdatePrimaryIP = fake_UpdatePrimaryIP, AssignPrimaryIP = fake_AssignPrimaryIP,
     UnassignPrimaryIP = fake_UnassignPrimaryIP,
     ChangePrimaryIPDNSPtr = fake_ChangePrimaryIPDNSPtr,
     GetFloatingIP = fake_GetFloatingIP, GetFloatingIPByName = fake_GetFloatingIPByName ch,
     CreateFloatingIP = fake_CreateFloatingIP, DeleteFloatingIP = fake_DeleteFloatingIP,
     UpdateFloatingIP = fake_UpdateFloatingIP, AssignFloatingIP = fake_AssignFloatingIP,
     UnassignFloatingIP = fake_UnassignFloatingIP,
     ChangeFloatingIPDNSPtr = fake_ChangeFloatingIPDNSPtr,
     GetCertificate = fake_GetCertificate, GetCertificateByName = fake_GetCertificateByName ch,
     CreateCertificate = fake_CreateCertificate, DeleteCertificate = fake_DeleteCertificate,
     UpdateCertificate = fake_UpdateCertificate \<rparr>"

lemma fake_client_sel [simp]:
  "GetServer (fake_client ch) = fake_GetServer"
  "GetServerByName (fake_client ch) = fake_GetServerByName ch"
  "CreateServer (fake_client ch) = fake_CreateServer"
  "DeleteServer (fake_client ch) = fake_DeleteServer"
  "PowerOffServer (fake_client ch) = fake_PowerOffServer"
  "PowerOnServer (fake_client ch) = fake_PowerOnServer"
  "ChangeServerType (fake_client ch) = fake_ChangeServerType"
  "AttachServerToNetwork (fake_client ch) = fake_AttachServerToNetwork"
  "DetachServerFromNetwork (fake_client ch) = fake_DetachServerFromNetwork"
  "GetVolume (fake_client ch) = fake_GetVolume"
  "GetVolumeByName (fake_client ch) = fake_GetVolumeByName ch"
  "CreateVolume (fake_client ch) = fake_CreateVolume"
  "DeleteVolume (fake_client ch) = fake_DeleteVolume"
  "AttachVolume (fake_client ch) = fake_AttachVolume"
  "DetachVolume (fake_client ch) = fake_DetachVolume"
  "ResizeVolume (fake_client ch) = fake_ResizeVolume"
  "GetLoadBalancer (fake_client ch) = fake_GetLoadBalancer"
  "GetLoadBalancerByName (fake_client ch) = fake_GetLoadBalancerByName ch"
  "CreateLoadBalancer (fake_client ch) = fake_CreateLoadBalancer"
  "DeleteLoadBalancer (fake_client ch) = fake_DeleteLoadBalancer"
  "AttachServerToLoadBalancer (fake_client ch) = fake_AttachServerToLoadBalancer"
  "DetachServerFromLoadBalancer (fake_client ch) = fake_DetachServerFromLoadBalancer"
  "SyncLoadBalancerServices (fake_client ch) = fake_SyncLoadBalancerServices"
  "GetNetwork (fake_client ch) = fake_GetNetwork"
  "GetNetworkByName (fake_client ch) = fake_GetNetworkByName ch"
  "CreateNetwork (fake_client ch) = fake_CreateNetwork"
  "DeleteNetwork (fake_client ch) = fake_DeleteNetwork"
  "AddNetworkCloudSubnet (fake_client ch) = fake_AddNetworkCloudSubnet"
  "GetFirewall (fake_client ch) = fake_GetFirewall"
  "GetFirewallByName (fake_client ch) = fake_GetFirewallByName ch"
  "CreateFirewall (fake_client ch) = fake_CreateFirewall"
  "DeleteFirewall (fake_client ch) = fake_DeleteFirewall"
  "UpdateFirewallLabels (fake_client ch) = fake_UpdateFirewallLabels"
  "SetFirewallRules (fake_client ch) = fake_SetFirewallRules"
  "ApplyFirewallResources (fake_client ch) = fake_ApplyFirewallResources"
  "RemoveFirewallResources (fake_client ch) = fake_RemoveFirewallResources"
  "GetPlacementGroup (fake_client ch) = fake_GetPlacementGroup"
  "GetPlacementGroupByName (fake_client ch) = fake_GetPlacementGroupByName ch"
  "CreatePlacementGroup (fake_client ch) = fake_CreatePlacementGroup"
  "DeletePlacementGroup (fake_client ch) = fake_DeletePlacementGroup"
  "GetPrimaryIP (fake_client ch) = fake_GetPrimaryIP"
  "GetPrimaryIPByName (fake_client ch) = fake_GetPrimaryIPByName ch"
  "CreatePrimaryIP (fake_client ch) = fake_CreatePrimaryIP"
  "DeletePrimaryIP (fake_client ch) = fake_DeletePrimaryIP"
  "UpdatePrimaryIP (fake_client ch) = fake_UpdatePrimaryIP"
  "AssignPrimaryIP (fake_client ch) = fake_AssignPrimaryIP"
  "UnassignPrimaryIP (fake_client ch) = fake_UnassignPrimaryIP"
  "ChangePrimaryIPDNSPtr (fake_client ch) = fake_ChangePrimaryIPDNSPtr"
  "GetFloatingIP (fake_client ch) = fake_GetFloatingIP"
  "GetFloatingIPByName (fake_client ch) = fake_GetFloatingIPByName ch"
  "CreateFloatingIP (fake_client ch) = fake_CreateFloatingIP"
  "DeleteFloatingIP (fake_client ch) = fake_DeleteFloatingIP"
  "UpdateFloatingIP (fake_client ch) = fake_UpdateFloatingIP"
  "AssignFloatingIP (fake_client ch) = fake_AssignFloatingIP"
  "UnassignFloatingIP (fake_client ch) = fake_UnassignFloatingIP"
  "ChangeFloatingIPDNSPtr (fake_client ch) = fake_ChangeFloatingIPDNSPtr"
  "GetCertificate (fake_client ch) = fake_GetCertificate"
  "GetCertificateByName (fake_client ch) = fake_GetCertificateByName ch"
  "CreateCertificate (fake_client ch) = fake_CreateCertificate"
  "DeleteCertificate (fake_client ch) = fake_DeleteCertificate"
  "UpdateCertificate (fake_client ch) = fake_UpdateCertificate"
  by (simp_all add: fake_client_def)

end
