(* ===== verification/FakeStore.thy ===== *)
theory FakeStore
  imports FakeClient CloudStore
begin

text \<open>
  The invariant of the fake client, its preservation by every operation, and the interpretation
  of the store contract on each of its nine resource kinds.
\<close>

section \<open>The invariant\<close>

text \<open>
  Each map has distinct keys, stores every resource under its own identifier, a positive number
  below \<open>nextID\<close>, and has no two resources of one name.
\<close>

definition table_ok :: "('i \<Rightarrow> int64) \<Rightarrow> ('i \<Rightarrow> string) \<Rightarrow> (int64, 'i) gomap \<Rightarrow> int64 \<Rightarrow> bool" where
  "table_ok idf nm m n \<longleftrightarrow> distinct (map fst m) \<and> distinct (map (\<lambda>(k, i). nm i) m)
     \<and> list_all (\<lambda>(k, i). idf i = k \<and> 0 < k \<and> k < n) m"

definition fake_wf :: "FakeClient \<Rightarrow> bool" where
  "fake_wf f \<longleftrightarrow> 1 \<le> nextID f
     \<and> table_ok srv_ID srv_Name (servers f) (nextID f)
     \<and> table_ok vol_ID vol_Name (volumes f) (nextID f)
     \<and> table_ok lb_ID lb_Name (loadBalancers f) (nextID f)
     \<and> table_ok net_ID net_Name (networks f) (nextID f)
     \<and> table_ok fw_ID fw_Name (firewalls f) (nextID f)
     \<and> table_ok pg_ID pg_Name (placementGroups f) (nextID f)
     \<and> table_ok pip_ID pip_Name (primaryIPs f) (nextID f)
     \<and> table_ok fip_ID fip_Name (floatingIPs f) (nextID f)
     \<and> table_ok crt_ID crt_Name (certificates f) (nextID f)"

text \<open>No error is injected.\<close>

definition fake_ready :: "FakeClient \<Rightarrow> bool" where
  "fake_ready f \<longleftrightarrow> fake_wf f \<and> GetErr f = None \<and> CreateErr f = None \<and> DeleteErr f = None"

lemma fake_ready_wf: "fake_ready f \<Longrightarrow> fake_wf f"
  by (simp add: fake_ready_def)

section \<open>Tables\<close>

lemma table_ok_Nil [simp]: "table_ok idf nm [] n"
  by (simp add: table_ok_def)

lemma table_ok_mono: "table_ok idf nm m n \<Longrightarrow> n \<le> n' \<Longrightarrow> table_ok idf nm m n'"
  unfolding table_ok_def by (auto simp: list_all_iff)

lemma table_ok_lookup:
  "table_ok idf nm m n \<Longrightarrow> map_of m k = Some i \<Longrightarrow> idf i = k \<and> 0 < k \<and> k < n"
  unfolding table_ok_def by (auto simp: list_all_iff dest!: map_of_SomeD)

lemma table_ok_names:
  assumes "table_ok idf nm m n" and "map_of m j = Some x" and "map_of m k = Some y" and "nm x = nm y"
  shows "j = k"
proof -
  have "inj_on (\<lambda>(k, i). nm i) (set m)" using assms(1) by (simp add: table_ok_def distinct_map)
  moreover have "(j, x) \<in> set m" "(k, y) \<in> set m" using assms(2,3) by (auto dest: map_of_SomeD)
  ultimately have "(j, x) = (k, y)" using assms(4) by (fastforce simp: inj_on_def)
  then show ?thesis by simp
qed

lemma table_ok_fresh: "table_ok idf nm m n \<Longrightarrow> map_of m n = None"
  by (metis less_irrefl not_None_eq table_ok_lookup)

lemma update_fresh: "map_of m k = None \<Longrightarrow> AList.update k v m = m @ [(k, v)]"
  by (induction m) (auto split: if_splits)

lemma table_ok_insert:
  assumes "table_ok idf nm m n" and "1 \<le> n" and "idf i = n"
    and "\<And>k x. (k, x) \<in> set m \<Longrightarrow> nm x \<noteq> nm i"
  shows "table_ok idf nm (AList.update n i m) (n + 1)"
proof -
  have "map_of m n = None" using assms(1) by (rule table_ok_fresh)
  then have "AList.update n i m = m @ [(n, i)]" and "n \<notin> fst ` set m"
    by (auto simp: update_fresh map_of_eq_None_iff)
  moreover have "nm i \<notin> (\<lambda>(k, i). nm i) ` set m" using assms(4) by fastforce
  ultimately show ?thesis using assms(1-3) by (auto simp: table_ok_def list_all_iff)
qed

lemma update_keys:
  assumes "map_of m k = Some i" and "nm j = nm i"
  shows "map (\<lambda>(k, i). nm i) (AList.update k j m) = map (\<lambda>(k, i). nm i) m"
  using assms by (induction m) (auto split: if_splits)

lemma table_ok_update:
  assumes "table_ok idf nm m n" and "map_of m k = Some i" and "idf j = idf i" and "nm j = nm i"
  shows "table_ok idf nm (AList.update k j m) n"
proof -
  have k: "idf i = k" "0 < k" "k < n" using table_ok_lookup[OF assms(1,2)] by auto
  have "set (AList.update k j m) \<subseteq> insert (k, j) (set m)" by (induction m) auto
  then show ?thesis
    using assms k by (auto simp: table_ok_def update_keys distinct_update list_all_iff)
qed

lemma delete_sub: "distinct (map f m) \<Longrightarrow> distinct (map f (AList.delete k m))"
  unfolding AList.delete_eq by (rule distinct_map_filter)

lemma table_ok_delete: "table_ok idf nm m n \<Longrightarrow> table_ok idf nm (AList.delete k m) n"
  unfolding table_ok_def
  by (simp add: delete_sub list_all_iff) (simp add: AList.delete_eq)

section \<open>A table of the fake client is a store\<close>

text \<open>
  The laws of one map of the fake client: its update function changes that map and nothing the
  invariant says of the others. The store contract follows for the shared bodies.
\<close>

locale fake_table =
  fixes tbl :: "FakeClient \<Rightarrow> (int64, 'i) gomap"
    and upd :: "((int64, 'i) gomap \<Rightarrow> (int64, 'i) gomap) \<Rightarrow> FakeClient \<Rightarrow> FakeClient"
    and idf :: "'i \<Rightarrow> int64"
    and nm :: "'i \<Rightarrow> string"
    and copy :: "'i \<Rightarrow> 'i"
    and kind :: string
    and check :: "'o \<Rightarrow> goerr option"
    and oname :: "'o \<Rightarrow> string"
    and mk :: "'o \<Rightarrow> int64 \<Rightarrow> 'i"
    and del :: "int64 \<Rightarrow> (FakeClient, unit) prog"
    and deletable :: "FakeClient \<Rightarrow> int64 \<Rightarrow> bool"
  assumes tbl_wf: "fake_wf f \<Longrightarrow> table_ok idf nm (tbl f) (nextID f)"
    and upd_wf: "fake_wf f \<Longrightarrow> table_ok idf nm (g (tbl f)) (nextID f) \<Longrightarrow> fake_wf (upd g f)"
    and tbl_upd: "tbl (upd g f) = g (tbl f)"
    and tbl_nextID: "tbl (f\<lparr>nextID := n\<rparr>) = tbl f"
    and upd_frame: "nextID (upd g f) = nextID f \<and> GetErr (upd g f) = GetErr f
        \<and> CreateErr (upd g f) = CreateErr f \<and> DeleteErr (upd g f) = DeleteErr f"
    and copy_frame: "idf (copy i) = idf i \<and> nm (copy i) = nm i"
    and mk_ok: "idf (mk opts k) = k \<and> nm (mk opts k) = oname opts"
    and del_ok: "DeleteErr f = None \<Longrightarrow> deletable f k \<Longrightarrow> del k f = (Ok (), upd (AList.delete k) f)"
    and del_keeps: "keeps fake_wf (del k)"
begin

lemma wf_bump: "fake_wf f \<Longrightarrow> fake_wf (f\<lparr>nextID := nextID f + 1\<rparr>)"
  by (auto simp: fake_wf_def intro: table_ok_mono)

lemma wf_insert:
  assumes "fake_wf f" and "\<And>k x. (k, x) \<in> set (tbl f) \<Longrightarrow> nm x \<noteq> oname opts"
  shows "fake_wf (upd (AList.update (nextID f) (mk opts (nextID f))) (f\<lparr>nextID := nextID f + 1\<rparr>))"
proof (rule upd_wf)
  show "fake_wf (f\<lparr>nextID := nextID f + 1\<rparr>)" using assms(1) by (rule wf_bump)
  have "1 \<le> nextID f" using assms(1) by (simp add: fake_wf_def)
  then show "table_ok idf nm (AList.update (nextID f) (mk opts (nextID f)) (tbl (f\<lparr>nextID := nextID f + 1\<rparr>)))
      (nextID (f\<lparr>nextID := nextID f + 1\<rparr>))"
    using table_ok_insert[OF tbl_wf[OF assms(1)], of "mk opts (nextID f)"] assms(2)
    by (simp add: tbl_nextID mk_ok)
qed

lemma wf_delete: "fake_wf f \<Longrightarrow> fake_wf (upd (AList.delete k) f)"
  by (intro upd_wf table_ok_delete tbl_wf)

lemma create_keeps [inv_intros]:
  "keeps fake_wf (fake_create tbl upd nm copy kind (check opts) (oname opts) (mk opts))"
proof (rule keepsI)
  fix f assume wf: "fake_wf f"
  show "fake_wf (snd (fake_create tbl upd nm copy kind (check opts) (oname opts) (mk opts) f))"
    using wf wf_insert[OF wf, of opts]
    by (auto simp: fake_create_def Let_def list_ex_iff split: option.split)
qed

lemma delete_keeps [inv_intros]: "keeps fake_wf (fake_delete upd k)"
  by (rule keepsI) (simp add: fake_delete_def wf_delete split: option.split)

lemma get_keeps [inv_intros]: "keeps P (fake_get tbl copy k)"
  by (rule keepsI) (simp add: fake_get_def split: option.split)

lemma by_name_keeps [inv_intros]: "keeps P (fake_get_by_name ch tbl nm copy n)"
  by (rule keepsI) (simp add: fake_get_by_name_def split: option.split)

lemma on_keeps:
  assumes "\<And>f i i'. body f i = Inr i' \<Longrightarrow> idf i' = idf i \<and> nm i' = nm i"
  shows "keeps fake_wf (fake_on tbl upd kd k body)"
proof (rule keepsI)
  fix f assume wf: "fake_wf f"
  have "fake_wf (upd (AList.update k i') f)" if "map_of (tbl f) k = Some i" "body f i = Inr i'" for i i'
    using that assms[OF that(2)] by (intro upd_wf[OF wf] table_ok_update[OF tbl_wf[OF wf]]) auto
  then show "fake_wf (snd (fake_on tbl upd kd k body f))"
    using wf by (simp add: fake_on_def split: option.split sum.split)
qed

lemma by_name_finds:
  assumes "fake_ready f"
  shows "\<exists>r. fake_get_by_name ch tbl nm copy n f = (Ok r, f) \<and>
      (case r of None \<Rightarrow> (\<forall>i x. map_option copy (map_of (tbl f) i) = Some x \<longrightarrow> nm x \<noteq> n)
       | Some x \<Rightarrow> nm x = n \<and> map_option copy (map_of (tbl f) (idf x)) = Some x)"
proof -
  let ?r = "find (\<lambda>i. nm i = n) (map snd (shuffle ch (tbl f)))"
  have tok: "table_ok idf nm (tbl f) (nextID f)" using assms tbl_wf by (simp add: fake_ready_def)
  have mem: "map_of (tbl f) (idf x) = Some x" if "x \<in> snd ` set (tbl f)" for x
  proof -
    from that obtain k where k: "(k, x) \<in> set (tbl f)" by auto
    then have "map_of (tbl f) k = Some x" using tok by (simp add: table_ok_def)
    then show ?thesis using table_ok_lookup[OF tok] by fastforce
  qed
  have run: "fake_get_by_name ch tbl nm copy n f = (Ok (map_option copy ?r), f)"
    using assms by (simp add: fake_get_by_name_def fake_ready_def)
  show ?thesis
  proof (cases ?r)
    case None
    then have "nm x \<noteq> n" if "x \<in> snd ` set (tbl f)" for x
      using that by (auto simp: find_None_iff)
    then have "\<forall>i x. map_of (tbl f) i = Some x \<longrightarrow> nm x \<noteq> n"
      by (metis map_of_SomeD image_eqI snd_conv)
    then show ?thesis using run None copy_frame by fastforce
  next
    case (Some x)
    then have x: "nm x = n" "x \<in> snd ` set (tbl f)" by (auto simp: find_Some_iff in_set_conv_nth image_iff)
      (metis length_shuffle nth_mem set_shuffle)
    show ?thesis using run Some x(1) mem[OF x(2)] by (simp add: copy_frame)
  qed
qed

sublocale cloud_store "fake_get tbl copy" "fake_get_by_name ch tbl nm copy"
  "\<lambda>opts. fake_create tbl upd nm copy kind (check opts) (oname opts) (mk opts)"
  del "\<lambda>f k. map_option copy (map_of (tbl f) k)" idf nm oname "\<lambda>opts. check opts = None"
  deletable fake_ready for ch
proof (unfold_locales, goal_cases)
  case (1 c i)
  then show ?case by (simp add: fake_get_def fake_ready_def)
next
  case (2 c n)
  then show ?case by (rule by_name_finds)
next
  case (3 c i x)
  then show ?case
    using table_ok_lookup[OF tbl_wf[OF fake_ready_wf]] by (fastforce simp: copy_frame)
next
  case (4 c i x j y)
  then show ?case
    using table_ok_names[OF tbl_wf[OF fake_ready_wf], of c i _ j]
    by (auto simp: copy_frame)
next
  case (5 c opts)
  let ?i = "mk opts (nextID c)"
  let ?c' = "upd (AList.update (nextID c) ?i) (c\<lparr>nextID := nextID c + 1\<rparr>)"
  have wf: "fake_wf c" and errs: "GetErr c = None" "CreateErr c = None" "DeleteErr c = None"
    using 5(1) by (auto simp: fake_ready_def)
  have tok: "table_ok idf nm (tbl c) (nextID c)" using wf by (rule tbl_wf)
  have free: "nm x \<noteq> oname opts" if "(k, x) \<in> set (tbl c)" for k x
  proof -
    have "map_of (tbl c) k = Some x" using that tok by (simp add: table_ok_def)
    then show ?thesis using 5(3)[of k "copy x"] by (simp add: copy_frame)
  qed
  have run: "fake_create tbl upd nm copy kind (check opts) (oname opts) (mk opts) c = (Ok (copy ?i), ?c')"
    using errs 5(2) free by (auto simp: fake_create_def Let_def list_ex_iff)
  have "fake_ready ?c'"
    using wf_insert[OF wf free] errs by (simp add: fake_ready_def upd_frame)
  moreover have "nextID c \<noteq> 0" using wf by (simp add: fake_wf_def)
  ultimately show ?case
    using run table_ok_fresh[OF tok]
    by (intro exI[of _ "copy ?i"] exI[of _ ?c'])
      (auto simp: copy_frame mk_ok tbl_upd tbl_nextID update_conv')
next
  case (6 c opts i x)
  then obtain y where "map_of (tbl c) i = Some y" "nm y = oname opts"
    by (auto simp: copy_frame)
  then have "list_ex (\<lambda>(k, i). nm i = oname opts) (tbl c)"
    by (force simp: list_ex_iff dest: map_of_SomeD)
  then show ?case using 6 by (simp add: fake_create_def fake_ready_def)
next
  case (7 c i)
  then have "fake_ready (upd (AList.delete i) c)"
    by (simp add: fake_ready_def upd_frame wf_delete)
  then show ?case
    using del_ok[of c i] 7 by (auto simp: fake_ready_def tbl_upd delete_conv' fun_eq_iff)
qed

end

section \<open>The nine tables\<close>

text \<open>Deletion refuses an attached volume; every other kind can always be deleted.\<close>

definition volume_detached :: "FakeClient \<Rightarrow> int64 \<Rightarrow> bool" where
  "volume_detached f ident \<longleftrightarrow> (case map_of (volumes f) ident of None \<Rightarrow> True | Some v \<Rightarrow> vol_ServerID v \<le> 0)"

lemma delete_absent: "map_of m k = None \<Longrightarrow> AList.delete k m = m"
  by (induction m) (auto split: if_splits)

lemmas copy_defs = copyServerInfo_def copyNetworkInfo_def copyPlacementGroupInfo_def
  copyPrimaryIPInfo_def copyFloatingIPInfo_def copyCertificateInfo_def cloneFirewallInfo_def
  copy_lb_def cloneLoadBalancerServices_def

lemma copy_lb_id: "copy_lb = id"
  by (rule ext) (simp add: copy_lb_def cloneLoadBalancerServices_def)

lemmas new_defs = new_server_def new_volume_def new_load_balancer_def new_network_def
  new_firewall_def new_placement_group_def new_primary_ip_def new_floating_ip_def new_certificate_def

interpretation server_store: fake_table servers servers_update srv_ID srv_Name copyServerInfo "''server''"
  "\<lambda>_. None" sco_Name new_server fake_DeleteServer "\<lambda>_ _. True"
  by unfold_locales (auto simp: fake_wf_def copy_defs new_defs fake_DeleteServer_def fake_delete_def table_ok_delete
      intro!: keepsI split: option.split)

interpretation volume_store: fake_table volumes volumes_update vol_ID vol_Name id "''volume''"
  "\<lambda>_. None" vco_Name new_volume fake_DeleteVolume volume_detached
proof (unfold_locales, goal_cases)
  case (8 f k)
  then show ?case
    by (cases "map_of (volumes f) k") (auto simp: fake_DeleteVolume_def volume_detached_def delete_absent)
next
  case (9 k)
  show ?case
    by (rule keepsI) (auto simp: fake_DeleteVolume_def fake_wf_def table_ok_delete split: option.split)
qed (auto simp: fake_wf_def copy_defs new_defs)

interpretation load_balancer_store: fake_table loadBalancers loadBalancers_update lb_ID lb_Name id "''load balancer''"
  "\<lambda>_. None" lco_Name new_load_balancer fake_DeleteLoadBalancer "\<lambda>_ _. True"
  by unfold_locales (auto simp: fake_wf_def copy_defs new_defs fake_DeleteLoadBalancer_def fake_delete_def table_ok_delete
      intro!: keepsI split: option.split)

interpretation network_store: fake_table networks networks_update net_ID net_Name copyNetworkInfo "''network''"
  network_check nco_Name new_network fake_DeleteNetwork "\<lambda>_ _. True"
  by unfold_locales (auto simp: fake_wf_def copy_defs new_defs fake_DeleteNetwork_def fake_delete_def table_ok_delete
      intro!: keepsI split: option.split)

interpretation firewall_store: fake_table firewalls firewalls_update fw_ID fw_Name cloneFirewallInfo "''firewall''"
  "\<lambda>_. None" fco_Name new_firewall fake_DeleteFirewall "\<lambda>_ _. True"
  by unfold_locales (auto simp: fake_wf_def copy_defs new_defs fake_DeleteFirewall_def fake_delete_def table_ok_delete
      intro!: keepsI split: option.split)

interpretation placement_group_store: fake_table placementGroups placementGroups_update pg_ID pg_Name copyPlacementGroupInfo "''placement group''"
  "\<lambda>_. None" pco_Name new_placement_group fake_DeletePlacementGroup "\<lambda>_ _. True"
  by unfold_locales (auto simp: fake_wf_def copy_defs new_defs fake_DeletePlacementGroup_def fake_delete_def table_ok_delete
      intro!: keepsI split: option.split)

interpretation primary_ip_store: fake_table primaryIPs primaryIPs_update pip_ID pip_Name copyPrimaryIPInfo "''primary IP''"
  primary_ip_check ipc_Name new_primary_ip fake_DeletePrimaryIP "\<lambda>_ _. True"
  by unfold_locales (auto simp: fake_wf_def copy_defs new_defs fake_DeletePrimaryIP_def fake_delete_def table_ok_delete
      intro!: keepsI split: option.split)

interpretation floating_ip_store: fake_table floatingIPs floatingIPs_update fip_ID fip_Name copyFloatingIPInfo "''floating IP''"
  "\<lambda>_. None" fic_Name new_floating_ip fake_DeleteFloatingIP "\<lambda>_ _. True"
  by unfold_locales (auto simp: fake_wf_def copy_defs new_defs fake_DeleteFloatingIP_def fake_delete_def table_ok_delete
      intro!: keepsI split: option.split)

interpretation certificate_store: fake_table certificates certificates_update crt_ID crt_Name copyCertificateInfo "''certificate''"
  "\<lambda>_. None" cco_Name new_certificate fake_DeleteCertificate "\<lambda>_ _. True"
  by unfold_locales (auto simp: fake_wf_def copy_defs new_defs fake_DeleteCertificate_def fake_delete_def table_ok_delete
      intro!: keepsI split: option.split)

end
