(* ===== verification/FakeLaws.thy ===== *)
theory FakeLaws
  imports FakeStore ClientLaws
begin

text \<open>
  Every operation of the fake client preserves its invariant, whatever its arguments and however
  it ends, so the fake client is related to itself along the invariant's diagonal.
\<close>

section \<open>Lookups, creates and deletes\<close>

lemma fake_wf_New: "fake_wf NewFakeClient"
  by (simp add: fake_wf_def NewFakeClient_def)

lemma fake_wf_Reset: "fake_wf (fake_Reset f)"
  by (simp add: fake_wf_def fake_Reset_def)

lemma server_keeps [inv_intros]:
  "keeps fake_wf (fake_GetServer x)" "keeps fake_wf (fake_GetServerByName ch n)"
  "keeps fake_wf (fake_CreateServer opts)" "keeps fake_wf (fake_DeleteServer x)"
  unfolding fake_GetServer_def fake_GetServerByName_def fake_CreateServer_def copy_lb_id
  by (rule server_store.get_keeps server_store.by_name_keeps server_store.create_keeps server_store.del_keeps)+

lemma volume_keeps [inv_intros]:
  "keeps fake_wf (fake_GetVolume x)" "keeps fake_wf (fake_GetVolumeByName ch n)"
  "keeps fake_wf (fake_CreateVolume opts)" "keeps fake_wf (fake_DeleteVolume x)"
  unfolding fake_GetVolume_def fake_GetVolumeByName_def fake_CreateVolume_def copy_lb_id
  by (rule volume_store.get_keeps volume_store.by_name_keeps volume_store.create_keeps volume_store.del_keeps)+

lemma load_balancer_keeps [inv_intros]:
  "keeps fake_wf (fake_GetLoadBalancer x)" "keeps fake_wf (fake_GetLoadBalancerByName ch n)"
  "keeps fake_wf (fake_CreateLoadBalancer opts)" "keeps fake_wf (fake_DeleteLoadBalancer x)"
  unfolding fake_GetLoadBalancer_def fake_GetLoadBalancerByName_def fake_CreateLoadBalancer_def copy_lb_id
  by (rule load_balancer_store.get_keeps load_balancer_store.by_name_keeps load_balancer_store.create_keeps load_balancer_store.del_keeps)+

lemma network_keeps [inv_intros]:
  "keeps fake_wf (fake_GetNetwork x)" "keeps fake_wf (fake_GetNetworkByName ch n)"
  "keeps fake_wf (fake_CreateNetwork opts)" "keeps fake_wf (fake_DeleteNetwork x)"
  unfolding fake_GetNetwork_def fake_GetNetworkByName_def fake_CreateNetwork_def copy_lb_id
  by (rule network_store.get_keeps network_store.by_name_keeps network_store.create_keeps network_store.del_keeps)+

lemma firewall_keeps [inv_intros]:
  "keeps fake_wf (fake_GetFirewall x)" "keeps fake_wf (fake_GetFirewallByName ch n)"
  "keeps fake_wf (fake_CreateFirewall opts)" "keeps fake_wf (fake_DeleteFirewall x)"
  unfolding fake_GetFirewall_def fake_GetFirewallByName_def fake_CreateFirewall_def copy_lb_id
  by (rule firewall_store.get_keeps firewall_store.by_name_keeps firewall_store.create_keeps firewall_store.del_keeps)+

lemma placement_group_keeps [inv_intros]:
  "keeps fake_wf (fake_GetPlacementGroup x)" "keeps fake_wf (fake_GetPlacementGroupByName ch n)"
  "keeps fake_wf (fake_CreatePlacementGroup opts)" "keeps fake_wf (fake_DeletePlacementGroup x)"
  unfolding fake_GetPlacementGroup_def fake_GetPlacementGroupByName_def fake_CreatePlacementGroup_def copy_lb_id
  by (rule placement_group_store.get_keeps placement_group_store.by_name_keeps placement_group_store.create_keeps placement_group_store.del_keeps)+

lemma primary_ip_keeps [inv_intros]:
  "keeps fake_wf (fake_GetPrimaryIP x)" "keeps fake_wf (fake_GetPrimaryIPByName ch n)"
  "keeps fake_wf (fake_CreatePrimaryIP opts)" "keeps fake_wf (fake_DeletePrimaryIP x)"
  unfolding fake_GetPrimaryIP_def fake_GetPrimaryIPByName_def fake_CreatePrimaryIP_def copy_lb_id
  by (rule primary_ip_store.get_keeps primary_ip_store.by_name_keeps primary_ip_store.create_keeps primary_ip_store.del_keeps)+

lemma floating_ip_keeps [inv_intros]:
  "keeps fake_wf (fake_GetFloatingIP x)" "keeps fake_wf (fake_GetFloatingIPByName ch n)"
  "keeps fake_wf (fake_CreateFloatingIP opts)" "keeps fake_wf (fake_DeleteFloatingIP x)"
  unfolding fake_GetFloatingIP_def fake_GetFloatingIPByName_def fake_CreateFloatingIP_def copy_lb_id
  by (rule floating_ip_store.get_keeps floating_ip_store.by_name_keeps floating_ip_store.create_keeps floating_ip_store.del_keeps)+

lemma certificate_keeps [inv_intros]:
  "keeps fake_wf (fake_GetCertificate x)" "keeps fake_wf (fake_GetCertificateByName ch n)"
  "keeps fake_wf (fake_CreateCertificate opts)" "keeps fake_wf (fake_DeleteCertificate x)"
  unfolding fake_GetCertificate_def fake_GetCertificateByName_def fake_CreateCertificate_def copy_lb_id
  by (rule certificate_store.get_keeps certificate_store.by_name_keeps certificate_store.create_keeps certificate_store.del_keeps)+

section \<open>Updates of one resource\<close>

lemmas on_keeps = server_store.on_keeps volume_store.on_keeps load_balancer_store.on_keeps network_store.on_keeps firewall_store.on_keeps
  placement_group_store.on_keeps primary_ip_store.on_keeps floating_ip_store.on_keeps certificate_store.on_keeps

lemma PowerOffServer_keeps [inv_intros]: "keeps fake_wf (fake_PowerOffServer x)"
  unfolding fake_PowerOffServer_def by (rule on_keeps) (auto simp: Let_def split: if_splits option.splits)

lemma PowerOnServer_keeps [inv_intros]: "keeps fake_wf (fake_PowerOnServer x)"
  unfolding fake_PowerOnServer_def by (rule on_keeps) (auto simp: Let_def split: if_splits option.splits)

lemma AttachServerToNetwork_keeps [inv_intros]: "keeps fake_wf (fake_AttachServerToNetwork x y)"
  unfolding fake_AttachServerToNetwork_def by (rule on_keeps) (auto simp: Let_def split: if_splits option.splits)

lemma DetachServerFromNetwork_keeps [inv_intros]: "keeps fake_wf (fake_DetachServerFromNetwork x y)"
  unfolding fake_DetachServerFromNetwork_def by (rule on_keeps) (auto simp: Let_def split: if_splits option.splits)

lemma AttachVolume_keeps [inv_intros]: "keeps fake_wf (fake_AttachVolume x y)"
  unfolding fake_AttachVolume_def by (rule on_keeps) (auto simp: Let_def split: if_splits option.splits)

lemma DetachVolume_keeps [inv_intros]: "keeps fake_wf (fake_DetachVolume x)"
  unfolding fake_DetachVolume_def by (rule on_keeps) (auto simp: Let_def split: if_splits option.splits)

lemma ResizeVolume_keeps [inv_intros]: "keeps fake_wf (fake_ResizeVolume x y)"
  unfolding fake_ResizeVolume_def by (rule on_keeps) (auto simp: Let_def split: if_splits option.splits)

lemma AttachServerToLoadBalancer_keeps [inv_intros]: "keeps fake_wf (fake_AttachServerToLoadBalancer x y)"
  unfolding fake_AttachServerToLoadBalancer_def by (rule on_keeps) (auto simp: Let_def split: if_splits option.splits)

lemma DetachServerFromLoadBalancer_keeps [inv_intros]: "keeps fake_wf (fake_DetachServerFromLoadBalancer x y)"
  unfolding fake_DetachServerFromLoadBalancer_def by (rule on_keeps) (auto simp: Let_def split: if_splits option.splits)

lemma SyncLoadBalancerServices_keeps [inv_intros]: "keeps fake_wf (fake_SyncLoadBalancerServices x y)"
  unfolding fake_SyncLoadBalancerServices_def by (rule on_keeps) (auto simp: Let_def split: if_splits option.splits)

lemma AddNetworkCloudSubnet_keeps [inv_intros]: "keeps fake_wf (fake_AddNetworkCloudSubnet x y)"
  unfolding fake_AddNetworkCloudSubnet_def by (rule on_keeps) (auto simp: Let_def split: if_splits option.splits)

lemma UpdateFirewallLabels_keeps [inv_intros]: "keeps fake_wf (fake_UpdateFirewallLabels x y)"
  unfolding fake_UpdateFirewallLabels_def by (rule on_keeps) (auto simp: Let_def split: if_splits option.splits)

lemma SetFirewallRules_keeps [inv_intros]: "keeps fake_wf (fake_SetFirewallRules x y)"
  unfolding fake_SetFirewallRules_def by (rule on_keeps) (auto simp: Let_def split: if_splits option.splits)

lemma ApplyFirewallResources_keeps [inv_intros]: "keeps fake_wf (fake_ApplyFirewallResources x y)"
  unfolding fake_ApplyFirewallResources_def by (rule on_keeps) (auto simp: Let_def split: if_splits option.splits)

lemma RemoveFirewallResources_keeps [inv_intros]: "keeps fake_wf (fake_RemoveFirewallResources x y)"
  unfolding fake_RemoveFirewallResources_def by (rule on_keeps) (auto simp: Let_def split: if_splits option.splits)

lemma UpdatePrimaryIP_keeps [inv_intros]: "keeps fake_wf (fake_UpdatePrimaryIP x y)"
  unfolding fake_UpdatePrimaryIP_def by (rule on_keeps) (auto simp: Let_def split: if_splits option.splits)

lemma AssignPrimaryIP_keeps [inv_intros]: "keeps fake_wf (fake_AssignPrimaryIP x y z)"
  unfolding fake_AssignPrimaryIP_def by (rule on_keeps) (auto simp: Let_def split: if_splits option.splits)

lemma UnassignPrimaryIP_keeps [inv_intros]: "keeps fake_wf (fake_UnassignPrimaryIP x)"
  unfolding fake_UnassignPrimaryIP_def by (rule on_keeps) (auto simp: Let_def split: if_splits option.splits)

lemma ChangePrimaryIPDNSPtr_keeps [inv_intros]: "keeps fake_wf (fake_ChangePrimaryIPDNSPtr x y z)"
  unfolding fake_ChangePrimaryIPDNSPtr_def by (rule on_keeps) (auto simp: Let_def split: if_splits option.splits)

lemma UpdateFloatingIP_keeps [inv_intros]: "keeps fake_wf (fake_UpdateFloatingIP x y)"
  unfolding fake_UpdateFloatingIP_def by (rule on_keeps) (auto simp: Let_def split: if_splits option.splits)

lemma AssignFloatingIP_keeps [inv_intros]: "keeps fake_wf (fake_AssignFloatingIP x y)"
  unfolding fake_AssignFloatingIP_def by (rule on_keeps) (auto simp: Let_def split: if_splits option.splits)

lemma UnassignFloatingIP_keeps [inv_intros]: "keeps fake_wf (fake_UnassignFloatingIP x)"
  unfolding fake_UnassignFloatingIP_def by (rule on_keeps) (auto simp: Let_def split: if_splits option.splits)

lemma ChangeFloatingIPDNSPtr_keeps [inv_intros]: "keeps fake_wf (fake_ChangeFloatingIPDNSPtr x y z)"
  unfolding fake_ChangeFloatingIPDNSPtr_def by (rule on_keeps) (auto simp: Let_def split: if_splits option.splits)

lemma UpdateCertificate_keeps [inv_intros]: "keeps fake_wf (fake_UpdateCertificate x y)"
  unfolding fake_UpdateCertificate_def by (rule on_keeps) (auto simp: Let_def split: if_splits option.splits)

lemma ChangeServerType_keeps [inv_intros]: "keeps fake_wf (fake_ChangeServerType x y z)"
proof (rule keepsI)
  fix f assume wf: "fake_wf f"
  have "fake_wf (f\<lparr>servers := AList.update x (s\<lparr>srv_ServerType := y\<rparr>) (servers f),
      LastChangeServerTypeUpgradeDisk := d\<rparr>)" if "map_of (servers f) x = Some s" for s d
    using wf table_ok_update[OF _ that, of srv_ID srv_Name "nextID f" "s\<lparr>srv_ServerType := y\<rparr>"]
    by (simp add: fake_wf_def)
  then show "fake_wf (snd (fake_ChangeServerType x y z f))"
    using wf by (simp add: fake_ChangeServerType_def split: option.split)
qed

section \<open>The fake client along its invariant\<close>

interpretation fake_inv: client_sim "diag fake_wf" "fake_client ch" "fake_client ch" for ch
  by unfold_locales (simp_all only: fake_client_sel sim_diag_iff, (rule inv_intros)+)

end
