(* ===== verification/BaseProps.thy ===== *)
theory BaseProps
  imports ServerLaws VolumeCtl NetworkCtl FirewallCtl LoadBalancerCtl PlacementGroupCtl
    PrimaryIPCtl FloatingIPCtl CertificateCtl SampleApi FakeLaws
begin

text \<open>
  The properties of the base reconciler, for any domain logic that keeps to the contract, and
  the contract of the nine reconcilers. The witnesses run the server controller on the in-memory
  API server and the fake client.
\<close>

section \<open>A concrete run\<close>

definition sample_req :: NamespacedName where
  "sample_req = cluster_key ''web''"

definition sample_server :: HCloudServer where
  "sample_server = NewHCloudServer\<lparr>Name := ''web'', ResourceVersion := ''7'',
     Finalizers := [''infra.hkc.io/finalizer''],
     Spec := \<lparr> sv_ServerType = ''cx22'', sv_Image = ''debian-12'', sv_Location = ''fsn1'', sv_Labels = [],
       sv_SSHKeys = [], sv_UserData = '''', sv_NetworkRef = None, sv_PlacementGroupRef = None,
       sv_UpgradeDisk = False \<rparr>\<rparr>"

type_synonym sample_state = "(FakeClient, apistate, HCloudServer) rst"

definition sample_world :: "HCloudServer \<Rightarrow> FakeClient \<Rightarrow> sample_state" where
  "sample_world x f = \<lparr> cloud = f, kube = no_objects\<lparr>st_Servers := [x]\<rparr>, obj = NewHCloudServer,
     events = [], metrics = [] \<rparr>"

abbreviation sample_lib_server :: "sample_state lib" where
  "sample_lib_server \<equiv> sample_lib"

abbreviation sample_resource :: "(sample_state, HCloudServer) Resource" where
  "sample_resource \<equiv> HCloudServerReconciler sample_lib sample_api (fake_client [])"

lemmas sample_defs = sample_req_def sample_server_def sample_world_def NewHCloudServer_def no_objects_def
  mem_find_def key_of_def cluster_key_def held_def

section \<open>Properties\<close>

text \<open>C1: the finalizer of an object disappears from the API server in a run of the base reconciler
  only if the object was marked for deletion and the external cleanup of its controller ended
  without an error.\<close>

theorem finalizer_only_after_cleanup:
  assumes "resource_contract L A R"
    and "retry_law L" and "finalizers_law L" and "api_law (IsNotFound L) (IsConflict L) store K"
    and "kube_kept A (held store req (FinalizerName R))"
    and "held store req (FinalizerName R) (kube s)"
    and "\<not> held store req (FinalizerName R) (kube (snd (base_Reconcile L K recorder R req s)))"
  shows "\<exists>x. store (kube s) req = Some x \<and> DeletionTimestamp x \<noteq> None
    \<and> fst (Delete R (s\<lparr>obj := x\<rparr>)) = Ok ()"
  using resource_contract.finalizer_safety[OF assms] .

definition doomed_server :: HCloudServer where
  "doomed_server = sample_server\<lparr>DeletionTimestamp := Some 5\<rparr>"

theorem finalizer_only_after_cleanup_witness:
  "\<exists>x. mem_find (st_Servers (kube (sample_world doomed_server NewFakeClient))) sample_req = Some x
     \<and> DeletionTimestamp x \<noteq> None
     \<and> fst (Delete sample_resource ((sample_world doomed_server NewFakeClient)\<lparr>obj := x\<rparr>)) = Ok ()"
proof -
  let ?s = "sample_world doomed_server NewFakeClient"
  have held: "held (\<lambda>k. mem_find (st_Servers k)) sample_req (FinalizerName sample_resource) (kube ?s)"
    by (simp add: sample_defs doomed_server_def)
  have gone: "\<not> held (\<lambda>k. mem_find (st_Servers k)) sample_req (FinalizerName sample_resource)
      (kube (snd (base_Reconcile sample_lib (KServers sample_api) True sample_resource sample_req ?s)))"
    by (simp add: sample_defs doomed_server_def base_Reconcile_def base_delete_def mem_client_def tryM_run
        bindM_run deleteHCloudServer_def base_update_def wrapM_run stored_update_def mem_del_def base_event_def)
  show ?thesis
    by (rule finalizer_only_after_cleanup[OF server_contract.resource_contract_axioms
          sample_lib_ok(2,3) sample_laws_lib(1) sample_held(1) held gone])
qed

text \<open>C2: the domain logic of each of the nine controllers keeps to the contract the base reconciler
  relies on: it leaves the metadata, the spec, the event log and the metrics alone, its
  deletion does not write to the API server, and its reconcile writes there only statuses.\<close>

theorem controllers_keep_contract:
  "resource_contract L1 K (HCloudServerReconciler L1 K H)
   \<and> resource_contract L2 K (HCloudVolumeReconciler L2 K H)
   \<and> resource_contract L3 K (HCloudLoadBalancerReconciler ch L3 K H)
   \<and> resource_contract L4 K (HCloudNetworkReconciler L4 K H)
   \<and> resource_contract L5 K (HCloudFirewallReconciler ch L5 K H)
   \<and> resource_contract L6 K (HCloudPlacementGroupReconciler L6 K H)
   \<and> resource_contract L7 K (HCloudPrimaryIPReconciler L7 K H)
   \<and> resource_contract L8 K (HCloudFloatingIPReconciler L8 K H)
   \<and> resource_contract L9 K (HCloudCertificateReconciler L9 K H)"
  by (intro conjI server_contract.resource_contract_axioms volume_contract.resource_contract_axioms
      lb_contract.resource_contract_axioms network_contract.resource_contract_axioms
      firewall_contract.resource_contract_axioms placement_contract.resource_contract_axioms
      primary_ip_contract.resource_contract_axioms floating_ip_contract.resource_contract_axioms
      cert_contract.resource_contract_axioms)

text \<open>C7: a successful reconcile is persisted, whatever resource version the object in memory was
  left with: the API server then holds the status the domain logic computed, with Synced set to
  True and every other condition as the domain logic left it; the stored spec and finalizers are
  those the server held before the write; the domain result is returned; one success is counted.\<close>

theorem success_is_persisted:
  assumes "resource_contract L A R" and "lib_ok L" and "api_law (IsNotFound L) (IsConflict L) store K"
    and "store (kube s) req = Some x" and "DeletionTimestamp x = None"
    and "FinalizerName R \<in> set (Finalizers x)"
    and "Reconcile R (s\<lparr>obj := x\<rparr>) = (Ok res, s2)" and "store (kube s2) req = Some cur"
  shows "\<exists>s' y. base_Reconcile L K recorder R req s = (Ok res, s')
    \<and> cloud s' = cloud s2 \<and> events s' = events s \<and> metrics s' = metrics s @ [(Kind R, ''success'')]
    \<and> store (kube s') = (store (kube s2))(req \<mapsto> y)
    \<and> y = cur\<lparr>Status := (Status (obj s2))\<lparr>Conditions := Conditions (Status y)\<rparr>,
        ResourceVersion := ResourceVersion y\<rparr>
    \<and> FindStatusCondition L (Conditions (Status y)) = (FindStatusCondition L (Conditions (Status (obj s2))))
        (''Synced'' \<mapsto> \<lparr> cond_Type = ''Synced'', cond_Status = ''True'', cond_Reason = ''ReconcileSuccess'',
            cond_Message = ''Reconcile loop completed without error'' \<rparr>)"
  using resource_contract.base_success[OF assms] .

lemma sample_reconcile_creates:
  "server_Reconcile sample_lib sample_api (fake_client []) ((sample_world sample_server NewFakeClient)\<lparr>obj := sample_server\<rparr>)
     = (Ok (after requeueDelay), snd (server_Reconcile sample_lib sample_api (fake_client [])
         ((sample_world sample_server NewFakeClient)\<lparr>obj := sample_server\<rparr>)))"
  "\<exists>cur. mem_find (st_Servers (kube (snd (server_Reconcile sample_lib sample_api (fake_client [])
         ((sample_world sample_server NewFakeClient)\<lparr>obj := sample_server\<rparr>))))) sample_req = Some cur"
  by (simp_all add: sample_defs server_Reconcile_def reconcileHCloudServer_def createHCloudServer_def
      resolvePlacementGroupID_def ref_set_def fake_GetServerByName_def fake_get_by_name_def NewFakeClient_def
      fake_CreateServer_def fake_create_def new_server_def server_opts_def copyServerInfo_def
      updateServerStatusWithRetry_def persist_status_def mem_client_def stored_status_def mem_put_def mem_del_def
      tryM_run bindM_run wrapM_run numeral_eq_Suc after_def requeueDelay_def Let_def)

lemma sample_stored [simp]:
  "mem_find (st_Servers (kube (sample_world x f))) sample_req = (if key_of x = sample_req then Some x else None)"
  by (simp add: sample_world_def no_objects_def mem_find_def)

lemma sample_world_sel [simp]:
  "cloud (sample_world x f) = f" "events (sample_world x f) = []" "metrics (sample_world x f) = []"
  by (simp_all add: sample_world_def)

lemma sample_key [simp]: "key_of sample_server = sample_req"
  "DeletionTimestamp sample_server = None" "Finalizers sample_server = [''infra.hkc.io/finalizer'']"
  by (simp_all add: sample_server_def key_of_def sample_req_def cluster_key_def NewHCloudServer_def)

theorem success_is_persisted_witness:
  "\<exists>s' y. base_Reconcile sample_lib (KServers sample_api) True sample_resource sample_req
       (sample_world sample_server NewFakeClient) = (Ok (after requeueDelay), s')
     \<and> metrics s' = [(''HCloudServer'', ''success'')]
     \<and> mem_find (st_Servers (kube s')) sample_req = Some y"
proof -
  let ?w = "sample_world sample_server NewFakeClient"
  obtain cur where cur: "mem_find (st_Servers (kube (snd (server_Reconcile sample_lib sample_api (fake_client [])
         (?w\<lparr>obj := sample_server\<rparr>))))) sample_req = Some cur"
    using sample_reconcile_creates(2) by blast
  have run: "Reconcile sample_resource (?w\<lparr>obj := sample_server\<rparr>) =
      (Ok (after requeueDelay), snd (server_Reconcile sample_lib sample_api (fake_client [])
         (?w\<lparr>obj := sample_server\<rparr>)))"
    using sample_reconcile_creates(1) by simp
  have stored: "mem_find (st_Servers (kube ?w)) sample_req = Some sample_server" by simp
  have fin: "FinalizerName sample_resource \<in> set (Finalizers sample_server)" by simp
  show ?thesis
    using success_is_persisted[OF server_contract.resource_contract_axioms sample_lib_ok(1)
        sample_laws_lib(1) stored sample_key(2) fin run cur, of True]
    by fastforce
qed

text \<open>C8: a failing reconcile is reported and persisted: the caller gets the original error, the API
  server holds what the domain logic had written to the status before it failed, with Synced
  and Ready both False and carrying the error text; one warning event is emitted when a recorder
  is configured, and one error is counted.\<close>

theorem failure_is_persisted:
  assumes "resource_contract L A R" and "lib_ok L" and "api_law (IsNotFound L) (IsConflict L) store K"
    and "store (kube s) req = Some x" and "DeletionTimestamp x = None"
    and "FinalizerName R \<in> set (Finalizers x)"
    and "Reconcile R (s\<lparr>obj := x\<rparr>) = (Err e, s2)" and "store (kube s2) req = Some cur"
  shows "\<exists>s' y. base_Reconcile L K recorder R req s = (Err e, s')
    \<and> cloud s' = cloud s2 \<and> metrics s' = metrics s @ [(Kind R, ''error'')]
    \<and> events s' = events s @ (if recorder then [\<lparr> ev_Type = ''Warning'', ev_Reason = ''ReconcileError'',
        ev_Message = err_text e \<rparr>] else [])
    \<and> store (kube s') = (store (kube s2))(req \<mapsto> y)
    \<and> y = cur\<lparr>Status := (Status (obj s2))\<lparr>Conditions := Conditions (Status y)\<rparr>,
        ResourceVersion := ResourceVersion y\<rparr>
    \<and> FindStatusCondition L (Conditions (Status y)) = (FindStatusCondition L (Conditions (Status (obj s2))))
        (''Synced'' \<mapsto> \<lparr> cond_Type = ''Synced'', cond_Status = ''False'', cond_Reason = ''ReconcileError'',
            cond_Message = err_text e \<rparr>,
         ''Ready'' \<mapsto> \<lparr> cond_Type = ''Ready'', cond_Status = ''False'', cond_Reason = ''ReconcileError'',
            cond_Message = err_text e \<rparr>)"
  using resource_contract.base_error[OF assms] .

definition broken_cloud :: FakeClient where
  "broken_cloud = NewFakeClient\<lparr>GetErr := Some (Errorf ''timeout'')\<rparr>"

lemma sample_reconcile_fails:
  "server_Reconcile sample_lib sample_api (fake_client []) ((sample_world sample_server broken_cloud)\<lparr>obj := sample_server\<rparr>)
     = (Err (Wrapf ''fetch server by name'' (Errorf ''timeout'')), (sample_world sample_server broken_cloud)\<lparr>obj := sample_server\<rparr>)"
  by (simp add: sample_server_def sample_world_def NewHCloudServer_def server_Reconcile_def reconcileHCloudServer_def
      fake_GetServerByName_def fake_get_by_name_def broken_cloud_def tryM_run bindM_run wrapM_run)

theorem failure_is_persisted_witness:
  "\<exists>s' y. base_Reconcile sample_lib (KServers sample_api) True sample_resource sample_req
       (sample_world sample_server broken_cloud) = (Err (Wrapf ''fetch server by name'' (Errorf ''timeout'')), s')
     \<and> metrics s' = [(''HCloudServer'', ''error'')]
     \<and> mem_find (st_Servers (kube s')) sample_req = Some y"
proof -
  let ?w = "sample_world sample_server broken_cloud"
  have stored: "mem_find (st_Servers (kube ?w)) sample_req = Some sample_server"
    "mem_find (st_Servers (kube (?w\<lparr>obj := sample_server\<rparr>))) sample_req = Some sample_server" by simp_all
  have run: "Reconcile sample_resource (?w\<lparr>obj := sample_server\<rparr>) =
      (Err (Wrapf ''fetch server by name'' (Errorf ''timeout'')), ?w\<lparr>obj := sample_server\<rparr>)"
    using sample_reconcile_fails by simp
  have fin: "FinalizerName sample_resource \<in> set (Finalizers sample_server)" by simp
  show ?thesis
    using failure_is_persisted[OF server_contract.resource_contract_axioms sample_lib_ok(1)
        sample_laws_lib(1) stored(1) sample_key(2) fin run stored(2), of True]
    by fastforce
qed

text \<open>C11: when the external cleanup of an object marked for deletion succeeds, the run ends without a
  requeue and the API server no longer holds the finalizer: the object is gone when that was its
  last finalizer, and otherwise keeps exactly its other finalizers and its status.\<close>

theorem deletion_completes:
  assumes "resource_contract L A R"
    and "finalizers_law L" and "api_law (IsNotFound L) (IsConflict L) store K"
    and "store (kube s) req = Some x" and "DeletionTimestamp x \<noteq> None"
    and "FinalizerName R \<in> set (Finalizers x)"
    and "Delete R (s\<lparr>obj := x\<rparr>) = (Ok (), s2)"
  shows "\<exists>s'. base_Reconcile L K recorder R req s = (Ok emptyResult, s') \<and> cloud s' = cloud s2
    \<and> metrics s' = metrics s
    \<and> (case store (kube s') req of
         None \<Rightarrow> set (Finalizers x) = {FinalizerName R}
       | Some y \<Rightarrow> set (Finalizers y) = set (Finalizers x) - {FinalizerName R} \<and> Finalizers y \<noteq> []
           \<and> Status y = Status x)"
  using resource_contract.base_deleted[OF assms] .

theorem deletion_completes_witness:
  "\<exists>s'. base_Reconcile sample_lib (KServers sample_api) True sample_resource sample_req
       (sample_world doomed_server NewFakeClient) = (Ok emptyResult, s')
     \<and> cloud s' = NewFakeClient"
proof -
  let ?w = "sample_world doomed_server NewFakeClient"
  have stored: "mem_find (st_Servers (kube ?w)) sample_req = Some doomed_server"
    by (simp add: doomed_server_def)
  have dt: "DeletionTimestamp doomed_server \<noteq> None" by (simp add: doomed_server_def)
  have fin: "FinalizerName sample_resource \<in> set (Finalizers doomed_server)" by (simp add: doomed_server_def)
  have run: "Delete sample_resource (?w\<lparr>obj := doomed_server\<rparr>) = (Ok (), ?w\<lparr>obj := doomed_server\<rparr>)"
    by (simp add: deleteHCloudServer_def doomed_server_def sample_server_def NewHCloudServer_def)
  show ?thesis
    using deletion_completes[OF server_contract.resource_contract_axioms sample_lib_ok(3)
        sample_laws_lib(1) stored dt fin run, of True]
    by fastforce
qed

text \<open>C12: an object seen for the first time gets the finalizer, and a requeue, before anything is
  done to the cloud: in that run the domain logic is not called and the stored spec and status
  stay as they are.\<close>

theorem finalizer_before_cloud:
  assumes "resource_contract L A R"
    and "finalizers_law L" and "api_law (IsNotFound L) (IsConflict L) store K"
    and "store (kube s) req = Some x" and "DeletionTimestamp x = None"
    and "FinalizerName R \<notin> set (Finalizers x)"
  shows "\<exists>s' y. base_Reconcile L K recorder R req s = (Ok \<lparr> Requeue = True, RequeueAfter = 0 \<rparr>, s')
    \<and> cloud s' = cloud s \<and> events s' = events s \<and> metrics s' = metrics s
    \<and> store (kube s') = (store (kube s))(req \<mapsto> y)
    \<and> set (Finalizers y) = insert (FinalizerName R) (set (Finalizers x))
    \<and> Spec y = Spec x \<and> Status y = Status x"
  using resource_contract.base_first_touch[OF assms] .

theorem finalizer_before_cloud_witness:
  "\<exists>s'. base_Reconcile sample_lib (KServers sample_api) True sample_resource sample_req
       (sample_world (sample_server\<lparr>Finalizers := []\<rparr>) NewFakeClient)
         = (Ok \<lparr> Requeue = True, RequeueAfter = 0 \<rparr>, s')
     \<and> cloud s' = NewFakeClient \<and> held (\<lambda>k. mem_find (st_Servers k)) sample_req ''infra.hkc.io/finalizer'' (kube s')"
proof -
  let ?x = "sample_server\<lparr>Finalizers := []\<rparr>"
  let ?w = "sample_world ?x NewFakeClient"
  have stored: "mem_find (st_Servers (kube ?w)) sample_req = Some ?x" by simp
  have dt: "DeletionTimestamp ?x = None" by simp
  have fin: "FinalizerName sample_resource \<notin> set (Finalizers ?x)" by simp
  show ?thesis
    using finalizer_before_cloud[OF server_contract.resource_contract_axioms sample_lib_ok(3)
        sample_laws_lib(1) stored dt fin, of True]
    by (fastforce simp: held_def)
qed

end
