(* ===== verification/Instrumented.thy ===== *)
theory Instrumented
  imports ClientLaws
begin

text \<open>
  The metrics wrapper of \<open>internal/hcloud/instrumented.go\<close>. Its state is the wrapped client's
  with the calls of \<open>metrics.RecordAPI\<close> made so far, an operation and a result each; the
  durations are not modelled. A call that panics unwinds past the recording.
\<close>

section \<open>Recording\<close>

type_synonym api_log = "(string \<times> string) list"

definition recordAPI :: "string \<Rightarrow> 'a res \<Rightarrow> api_log \<Rightarrow> api_log" where
  "recordAPI opn r log = (case r of Ok x \<Rightarrow> log @ [(opn, ''success'')] | Err e \<Rightarrow> log @ [(opn, ''error'')]
     | Panic p \<Rightarrow> log)"

definition record_call :: "string \<Rightarrow> ('c, 'a) prog \<Rightarrow> ('c \<times> api_log, 'a) prog" where
  "record_call opn m = (\<lambda>(c, log). case m c of (r, c') \<Rightarrow> (r, (c', recordAPI opn r log)))"

section \<open>The wrapper\<close>

text \<open>Each method calls the wrapped client and records the outcome under its own name.\<close>

definition instrumented_GetServer :: "'c Interface \<Rightarrow> int64 \<Rightarrow> ('c \<times> api_log, ServerInfo option) prog" where
  "instrumented_GetServer inner x = record_call ''GetServer'' (GetServer inner x)"

definition instrumented_GetServerByName :: "'c Interface \<Rightarrow> string \<Rightarrow> ('c \<times> api_log, ServerInfo option) prog" where
  "instrumented_GetServerByName inner x = record_call ''GetServerByName'' (GetServerByName inner x)"

definition instrumented_CreateServer :: "'c Interface \<Rightarrow> ServerCreateOpts \<Rightarrow> ('c \<times> api_log, ServerInfo) prog" where
  "instrumented_CreateServer inner x = record_call ''CreateServer'' (CreateServer inner x)"

definition instrumented_DeleteServer :: "'c Interface \<Rightarrow> int64 \<Rightarrow> ('c \<times> api_log, unit) prog" where
  "instrumented_DeleteServer inner x = record_call ''DeleteServer'' (DeleteServer inner x)"

definition instrumented_PowerOffServer :: "'c Interface \<Rightarrow> int64 \<Rightarrow> ('c \<times> api_log, unit) prog" where
  "instrumented_PowerOffServer inner x = record_call ''PowerOffServer'' (PowerOffServer inner x)"

definition instrumented_PowerOnServer :: "'c Interface \<Rightarrow> int64 \<Rightarrow> ('c \<times> api_log, unit) prog" where
  "instrumented_PowerOnServer inner x = record_call ''PowerOnServer'' (PowerOnServer inner x)"

definition instrumented_ChangeServerType :: "'c Interface \<Rightarrow> int64 \<Rightarrow> string \<Rightarrow> bool \<Rightarrow> ('c \<times> api_log, unit) prog" where
  "instrumented_ChangeServerType inner x y z = record_call ''ChangeServerType'' (ChangeServerType inner x y z)"

definition instrumented_AttachServerToNetwork :: "'c Interface \<Rightarrow> int64 \<Rightarrow> int64 \<Rightarrow> ('c \<times> api_log, unit) prog" where
  "instrumented_AttachServerToNetwork inner x y = record_call ''AttachServerToNetwork'' (AttachServerToNetwork inner x y)"

definition instrumented_DetachServerFromNetwork :: "'c Interface \<Rightarrow> int64 \<Rightarrow> int64 \<Rightarrow> ('c \<times> api_log, unit) prog" where
  "instrumented_DetachServerFromNetwork inner x y = record_call ''DetachServerFromNetwork'' (DetachServerFromNetwork inner x y)"

definition instrumented_GetVolume :: "'c Interface \<Rightarrow> int64 \<Rightarrow> ('c \<times> api_log, VolumeInfo option) prog" where
  "instrumented_GetVolume inner x = record_call ''GetVolume'' (GetVolume inner x)"

definition instrumented_GetVolumeByName :: "'c Interface \<Rightarrow> string \<Rightarrow> ('c \<times> api_log, VolumeInfo option) prog" where
  "instrumented_GetVolumeByName inner x = record_call ''GetVolumeByName'' (GetVolumeByName inner x)"

definition instrumented_CreateVolume :: "'c Interface \<Rightarrow> VolumeCreateOpts \<Rightarrow> ('c \<times> api_log, VolumeInfo) prog" where
  "instrumented_CreateVolume inner x = record_call ''CreateVolume'' (CreateVolume inner x)"

definition instrumented_DeleteVolume :: "'c Interface \<Rightarrow> int64 \<Rightarrow> ('c \<times> api_log, unit) prog" where
  "instrumented_DeleteVolume inner x = record_call ''DeleteVolume'' (DeleteVolume inner x)"

definition instrumented_AttachVolume :: "'c Interface \<Rightarrow> int64 \<Rightarrow> int64 \<Rightarrow> ('c \<times> api_log, unit) prog" where
  "instrumented_AttachVolume inner x y = record_call ''AttachVolume'' (AttachVolume inner x y)"

definition instrumented_DetachVolume :: "'c Interface \<Rightarrow> int64 \<Rightarrow> ('c \<times> api_log, unit) prog" where
  "instrumented_DetachVolume inner x = record_call ''DetachVolume'' (DetachVolume inner x)"

definition instrumented_ResizeVolume :: "'c Interface \<Rightarrow> int64 \<Rightarrow> int \<Rightarrow> ('c \<times> api_log, unit) prog" where
  "instrumented_ResizeVolume inner x y = record_call ''ResizeVolume'' (ResizeVolume inner x y)"

definition instrumented_GetLoadBalancer :: "'c Interface \<Rightarrow> int64 \<Rightarrow> ('c \<times> api_log, LoadBalancerInfo option) prog" where
  "instrumented_GetLoadBalancer inner x = record_call ''GetLoadBalancer'' (GetLoadBalancer inner x)"

definition instrumented_GetLoadBalancerByName :: "'c Interface \<Rightarrow> string \<Rightarrow> ('c \<times> api_log, LoadBalancerInfo option) prog" where
  "instrumented_GetLoadBalancerByName inner x = record_call ''GetLoadBalancerByName'' (GetLoadBalancerByName inner x)"

definition instrumented_CreateLoadBalancer :: "'c Interface \<Rightarrow> LoadBalancerCreateOpts \<Rightarrow> ('c \<times> api_log, LoadBalancerInfo) prog" where
  "instrumented_CreateLoadBalancer inner x = record_call ''CreateLoadBalancer'' (CreateLoadBalancer inner x)"

definition instrumented_DeleteLoadBalancer :: "'c Interface \<Rightarrow> int64 \<Rightarrow> ('c \<times> api_log, unit) prog" where
  "instrumented_DeleteLoadBalancer inner x = record_call ''DeleteLoadBalancer'' (DeleteLoadBalancer inner x)"

definition instrumented_AttachServerToLoadBalancer :: "'c Interface \<Rightarrow> int64 \<Rightarrow> int64 \<Rightarrow> ('c \<times> api_log, unit) prog" where
  "instrumented_AttachServerToLoadBalancer inner x y = record_call ''AttachServerToLoadBalancer'' (AttachServerToLoadBalancer inner x y)"

definition instrumented_DetachServerFromLoadBalancer :: "'c Interface \<Rightarrow> int64 \<Rightarrow> int64 \<Rightarrow> ('c \<times> api_log, unit) prog" where
  "instrumented_DetachServerFromLoadBalancer inner x y = record_call ''DetachServerFromLoadBalancer'' (DetachServerFromLoadBalancer inner x y)"

definition instrumented_SyncLoadBalancerServices :: "'c Interface \<Rightarrow> int64 \<Rightarrow> LoadBalancerServiceInfo list \<Rightarrow> ('c \<times> api_log, unit) prog" where
  "instrumented_SyncLoadBalancerServices inner x y = record_call ''SyncLoadBalancerServices'' (SyncLoadBalancerServices inner x y)"

definition instrumented_GetNetwork :: "'c Interface \<Rightarrow> int64 \<Rightarrow> ('c \<times> api_log, NetworkInfo option) prog" where
  "instrumented_GetNetwork inner x = record_call ''GetNetwork'' (GetNetwork inner x)"

definition instrumented_GetNetworkByName :: "'c Interface \<Rightarrow> string \<Rightarrow> ('c \<times> api_log, NetworkInfo option) prog" where
  "instrumented_GetNetworkByName inner x = record_call ''GetNetworkByName'' (GetNetworkByName inner x)"

definition instrumented_CreateNetwork :: "'c Interface \<Rightarrow> NetworkCreateOpts \<Rightarrow> ('c \<times> api_log, NetworkInfo) prog" where
  "instrumented_CreateNetwork inner x = record_call ''CreateNetwork'' (CreateNetwork inner x)"

definition instrumented_DeleteNetwork :: "'c Interface \<Rightarrow> int64 \<Rightarrow> ('c \<times> api_log, unit) prog" where
  "instrumented_DeleteNetwork inner x = record_call ''DeleteNetwork'' (DeleteNetwork inner x)"

definition instrumented_AddNetworkCloudSubnet :: "'c Interface \<Rightarrow> int64 \<Rightarrow> string \<Rightarrow> ('c \<times> api_log, unit) prog" where
  "instrumented_AddNetworkCloudSubnet inner x y = record_call ''AddNetworkCloudSubnet'' (AddNetworkCloudSubnet inner x y)"

definition instrumented_GetFirewall :: "'c Interface \<Rightarrow> int64 \<Rightarrow> ('c \<times> api_log, FirewallInfo option) prog" where
  "instrumented_GetFirewall inner x = record_call ''GetFirewall'' (GetFirewall inner x)"

definition instrumented_GetFirewallByName :: "'c Interface \<Rightarrow> string \<Rightarrow> ('c \<times> api_log, FirewallInfo option) prog" where
  "instrumented_GetFirewallByName inner x = record_call ''GetFirewallByName'' (GetFirewallByName inner x)"

definition instrumented_CreateFirewall :: "'c Interface \<Rightarrow> FirewallCreateOpts \<Rightarrow> ('c \<times> api_log, FirewallInfo) prog" where
  "instrumented_CreateFirewall inner x = record_call ''CreateFirewall'' (CreateFirewall inner x)"

definition instrumented_DeleteFirewall :: "'c Interface \<Rightarrow> int64 \<Rightarrow> ('c \<times> api_log, unit) prog" where
  "instrumented_DeleteFirewall inner x = record_call ''DeleteFirewall'' (DeleteFirewall inner x)"

definition instrumented_UpdateFirewallLabels :: "'c Interface \<Rightarrow> int64 \<Rightarrow> labels \<Rightarrow> ('c \<times> api_log, unit) prog" where
  "instrumented_UpdateFirewallLabels inner x y = record_call ''UpdateFirewallLabels'' (UpdateFirewallLabels inner x y)"

definition instrumented_SetFirewallRules :: "'c Interface \<Rightarrow> int64 \<Rightarrow> FirewallRuleInfo list \<Rightarrow> ('c \<times> api_log, unit) prog" where
  "instrumented_SetFirewallRules inner x y = record_call ''SetFirewallRules'' (SetFirewallRules inner x y)"

definition instrumented_ApplyFirewallResources :: "'c Interface \<Rightarrow> int64 \<Rightarrow> FirewallApplyResource list \<Rightarrow> ('c \<times> api_log, unit) prog" where
  "instrumented_ApplyFirewallResources inner x y = record_call ''ApplyFirewallResources'' (ApplyFirewallResources inner x y)"

definition instrumented_RemoveFirewallResources :: "'c Interface \<Rightarrow> int64 \<Rightarrow> FirewallApplyResource list \<Rightarrow> ('c \<times> api_log, unit) prog" where
  "instrumented_RemoveFirewallResources inner x y = record_call ''RemoveFirewallResources'' (RemoveFirewallResources inner x y)"

definition instrumented_GetPlacementGroup :: "'c Interface \<Rightarrow> int64 \<Rightarrow> ('c \<times> api_log, PlacementGroupInfo option) prog" where
  "instrumented_GetPlacementGroup inner x = record_call ''GetPlacementGroup'' (GetPlacementGroup inner x)"

definition instrumented_GetPlacementGroupByName :: "'c Interface \<Rightarrow> string \<Rightarrow> ('c \<times> api_log, PlacementGroupInfo option) prog" where
  "instrumented_GetPlacementGroupByName inner x = record_call ''GetPlacementGroupByName'' (GetPlacementGroupByName inner x)"

definition instrumented_CreatePlacementGroup :: "'c Interface \<Rightarrow> PlacementGroupCreateOpts \<Rightarrow> ('c \<times> api_log, PlacementGroupInfo) prog" where
  "instrumented_CreatePlacementGroup inner x = record_call ''CreatePlacementGroup'' (CreatePlacementGroup inner x)"

definition instrumented_DeletePlacementGroup :: "'c Interface \<Rightarrow> int64 \<Rightarrow> ('c \<times> api_log, unit) prog" where
  "instrumented_DeletePlacementGroup inner x = record_call ''DeletePlacementGroup'' (DeletePlacementGroup inner x)"

definition instrumented_GetPrimaryIP :: "'c Interface \<Rightarrow> int64 \<Rightarrow> ('c \<times> api_log, PrimaryIPInfo option) prog" where
  "instrumented_GetPrimaryIP inner x = record_call ''GetPrimaryIP'' (GetPrimaryIP inner x)"

definition instrumented_GetPrimaryIPByName :: "'c Interface \<Rightarrow> string \<Rightarrow> ('c \<times> api_log, PrimaryIPInfo option) prog" where
  "instrumented_GetPrimaryIPByName inner x = record_call ''GetPrimaryIPByName'' (GetPrimaryIPByName inner x)"

definition instrumented_CreatePrimaryIP :: "'c Interface \<Rightarrow> PrimaryIPCreateOpts \<Rightarrow> ('c \<times> api_log, PrimaryIPInfo) prog" where
  "instrumented_CreatePrimaryIP inner x = record_call ''CreatePrimaryIP'' (CreatePrimaryIP inner x)"

definition instrumented_DeletePrimaryIP :: "'c Interface \<Rightarrow> int64 \<Rightarrow> ('c \<times> api_log, unit) prog" where
  "instrumented_DeletePrimaryIP inner x = record_call ''DeletePrimaryIP'' (DeletePrimaryIP inner x)"

definition instrumented_UpdatePrimaryIP :: "'c Interface \<Rightarrow> int64 \<Rightarrow> PrimaryIPUpdateOpts \<Rightarrow> ('c \<times> api_log, unit) prog" where
  "instrumented_UpdatePrimaryIP inner x y = record_call ''UpdatePrimaryIP'' (UpdatePrimaryIP inner x y)"

definition instrumented_AssignPrimaryIP :: "'c Interface \<Rightarrow> int64 \<Rightarrow> int64 \<Rightarrow> string \<Rightarrow> ('c \<times> api_log, unit) prog" where
  "instrumented_AssignPrimaryIP inner x y z = record_call ''AssignPrimaryIP'' (AssignPrimaryIP inner x y z)"

definition instrumented_UnassignPrimaryIP :: "'c Interface \<Rightarrow> int64 \<Rightarrow> ('c \<times> api_log, unit) prog" where
  "instrumented_UnassignPrimaryIP inner x = record_call ''UnassignPrimaryIP'' (UnassignPrimaryIP inner x)"

definition instrumented_ChangePrimaryIPDNSPtr :: "'c Interface \<Rightarrow> int64 \<Rightarrow> string \<Rightarrow> string \<Rightarrow> ('c \<times> api_log, unit) prog" where
  "instrumented_ChangePrimaryIPDNSPtr inner x y z = record_call ''ChangePrimaryIPDNSPtr'' (ChangePrimaryIPDNSPtr inner x y z)"

definition instrumented_GetFloatingIP :: "'c Interface \<Rightarrow> int64 \<Rightarrow> ('c \<times> api_log, FloatingIPInfo option) prog" where
  "instrumented_GetFloatingIP inner x = record_call ''GetFloatingIP'' (GetFloatingIP inner x)"

definition instrumented_GetFloatingIPByName :: "'c Interface \<Rightarrow> string \<Rightarrow> ('c \<times> api_log, FloatingIPInfo option) prog" where
  "instrumented_GetFloatingIPByName inner x = record_call ''GetFloatingIPByName'' (GetFloatingIPByName inner x)"

definition instrumented_CreateFloatingIP :: "'c Interface \<Rightarrow> FloatingIPCreateOpts \<Rightarrow> ('c \<times> api_log, FloatingIPInfo) prog" where
  "instrumented_CreateFloatingIP inner x = record_call ''CreateFloatingIP'' (CreateFloatingIP inner x)"

definition instrumented_DeleteFloatingIP :: "'c Interface \<Rightarrow> int64 \<Rightarrow> ('c \<times> api_log, unit) prog" where
  "instrumented_DeleteFloatingIP inner x = record_call ''DeleteFloatingIP'' (DeleteFloatingIP inner x)"

definition instrumented_UpdateFloatingIP :: "'c Interface \<Rightarrow> int64 \<Rightarrow> FloatingIPUpdateOpts \<Rightarrow> ('c \<times> api_log, unit) prog" where
  "instrumented_UpdateFloatingIP inner x y = record_call ''UpdateFloatingIP'' (UpdateFloatingIP inner x y)"

definition instrumented_AssignFloatingIP :: "'c Interface \<Rightarrow> int64 \<Rightarrow> int64 \<Rightarrow> ('c \<times> api_log, unit) prog" where
  "instrumented_AssignFloatingIP inner x y = record_call ''AssignFloatingIP'' (AssignFloatingIP inner x y)"

definition instrumented_UnassignFloatingIP :: "'c Interface \<Rightarrow> int64 \<Rightarrow> ('c \<times> api_log, unit) prog" where
  "instrumented_UnassignFloatingIP inner x = record_call ''UnassignFloatingIP'' (UnassignFloatingIP inner x)"

definition instrumented_ChangeFloatingIPDNSPtr :: "'c Interface \<Rightarrow> int64 \<Rightarrow> string \<Rightarrow> string \<Rightarrow> ('c \<times> api_log, unit) prog" where
  "instrumented_ChangeFloatingIPDNSPtr inner x y z = record_call ''ChangeFloatingIPDNSPtr'' (ChangeFloatingIPDNSPtr inner x y z)"

definition instrumented_GetCertificate :: "'c Interface \<Rightarrow> int64 \<Rightarrow> ('c \<times> api_log, CertificateInfo option) prog" where
  "instrumented_GetCertificate inner x = record_call ''GetCertificate'' (GetCertificate inner x)"

definition instrumented_GetCertificateByName :: "'c Interface \<Rightarrow> string \<Rightarrow> ('c \<times> api_log, CertificateInfo option) prog" where
  "instrumented_GetCertificateByName inner x = record_call ''GetCertificateByName'' (GetCertificateByName inner x)"

definition instrumented_CreateCertificate :: "'c Interface \<Rightarrow> CertificateCreateOpts \<Rightarrow> ('c \<times> api_log, CertificateInfo) prog" where
  "instrumented_CreateCertificate inner x = record_call ''CreateCertificate'' (CreateCertificate inner x)"

definition instrumented_DeleteCertificate :: "'c Interface \<Rightarrow> int64 \<Rightarrow> ('c \<times> api_log, unit) prog" where
  "instrumented_DeleteCertificate inner x = record_call ''DeleteCertificate'' (DeleteCertificate inner x)"

definition instrumented_UpdateCertificate :: "'c Interface \<Rightarrow> int64 \<Rightarrow> CertificateUpdateOpts \<Rightarrow> ('c \<times> api_log, unit) prog" where
  "instrumented_UpdateCertificate inner x y = record_call ''UpdateCertificate'' (UpdateCertificate inner x y)"

definition instrumentedClient :: "'c Interface \<Rightarrow> ('c \<times> api_log) Interface" where
  "instrumentedClient inner = \<lparr>
     GetServer = instrumented_GetServer inner,
     GetServerByName = instrumented_GetServerByName inner,
     CreateServer = instrumented_CreateServer inner,
     DeleteServer = instrumented_DeleteServer inner,
     PowerOffServer = instrumented_PowerOffServer inner,
     PowerOnServer = instrumented_PowerOnServer inner,
     ChangeServerType = instrumented_ChangeServerType inner,
     AttachServerToNetwork = instrumented_AttachServerToNetwork inner,
     DetachServerFromNetwork = instrumented_DetachServerFromNetwork inner,
     GetVolume = instrumented_GetVolume inner,
     GetVolumeByName = instrumented_GetVolumeByName inner,
     CreateVolume = instrumented_CreateVolume inner,
     DeleteVolume = instrumented_DeleteVolume inner,
     AttachVolume = instrumented_AttachVolume inner,
     DetachVolume = instrumented_DetachVolume inner,
     ResizeVolume = instrumented_ResizeVolume inner,
     GetLoadBalancer = instrumented_GetLoadBalancer inner,
     GetLoadBalancerByName = instrumented_GetLoadBalancerByName inner,
     CreateLoadBalancer = instrumented_CreateLoadBalancer inner,
     DeleteLoadBalancer = instrumented_DeleteLoadBalancer inner,
     AttachServerToLoadBalancer = instrumented_AttachServerToLoadBalancer inner,
     DetachServerFromLoadBalancer = instrumented_DetachServerFromLoadBalancer inner,
     SyncLoadBalancerServices = instrumented_SyncLoadBalancerServices inner,
     GetNetwork = instrumented_GetNetwork inner,
     GetNetworkByName = instrumented_GetNetworkByName inner,
     CreateNetwork = instrumented_CreateNetwork inner,
     DeleteNetwork = instrumented_DeleteNetwork inner,
     AddNetworkCloudSubnet = instrumented_AddNetworkCloudSubnet inner,
     GetFirewall = instrumented_GetFirewall inner,
     GetFirewallByName = instrumented_GetFirewallByName inner,
     CreateFirewall = instrumented_CreateFirewall inner,
     DeleteFirewall = instrumented_DeleteFirewall inner,
     UpdateFirewallLabels = instrumented_UpdateFirewallLabels inner,
     SetFirewallRules = instrumented_SetFirewallRules inner,
     ApplyFirewallResources = instrumented_ApplyFirewallResources inner,
     RemoveFirewallResources = instrumented_RemoveFirewallResources inner,
     GetPlacementGroup = instrumented_GetPlacementGroup inner,
     GetPlacementGroupByName = instrumented_GetPlacementGroupByName inner,
     CreatePlacementGroup = instrumented_CreatePlacementGroup inner,
     DeletePlacementGroup = instrumented_DeletePlacementGroup inner,
     GetPrimaryIP = instrumented_GetPrimaryIP inner,
     GetPrimaryIPByName = instrumented_GetPrimaryIPByName inner,
     CreatePrimaryIP = instrumented_CreatePrimaryIP inner,
     DeletePrimaryIP = instrumented_DeletePrimaryIP inner,
     UpdatePrimaryIP = instrumented_UpdatePrimaryIP inner,
     AssignPrimaryIP = instrumented_AssignPrimaryIP inner,
     UnassignPrimaryIP = instrumented_UnassignPrimaryIP inner,
     ChangePrimaryIPDNSPtr = instrumented_ChangePrimaryIPDNSPtr inner,
     GetFloatingIP = instrumented_GetFloatingIP inner,
     GetFloatingIPByName = instrumented_GetFloatingIPByName inner,
     CreateFloatingIP = instrumented_CreateFloatingIP inner,
     DeleteFloatingIP = instrumented_DeleteFloatingIP inner,
     UpdateFloatingIP = instrumented_UpdateFloatingIP inner,
     AssignFloatingIP = instrumented_AssignFloatingIP inner,
     UnassignFloatingIP = instrumented_UnassignFloatingIP inner,
     ChangeFloatingIPDNSPtr = instrumented_ChangeFloatingIPDNSPtr inner,
     GetCertificate = instrumented_GetCertificate inner,
     GetCertificateByName = instrumented_GetCertificateByName inner,
     CreateCertificate = instrumented_CreateCertificate inner,
     DeleteCertificate = instrumented_DeleteCertificate inner,
     UpdateCertificate = instrumented_UpdateCertificate inner \<rparr>"

lemmas instrumented_defs = instrumented_GetServer_def instrumented_GetServerByName_def instrumented_CreateServer_def
  instrumented_DeleteServer_def instrumented_PowerOffServer_def instrumented_PowerOnServer_def
  instrumented_ChangeServerType_def instrumented_AttachServerToNetwork_def instrumented_DetachServerFromNetwork_def
  instrumented_GetVolume_def instrumented_GetVolumeByName_def instrumented_CreateVolume_def
  instrumented_DeleteVolume_def instrumented_AttachVolume_def instrumented_DetachVolume_def
  instrumented_ResizeVolume_def instrumented_GetLoadBalancer_def instrumented_GetLoadBalancerByName_def
  instrumented_CreateLoadBalancer_def instrumented_DeleteLoadBalancer_def instrumented_AttachServerToLoadBalancer_def
  instrumented_DetachServerFromLoadBalancer_def instrumented_SyncLoadBalancerServices_def instrumented_GetNetwork_def
  instrumented_GetNetworkByName_def instrumented_CreateNetwork_def instrumented_DeleteNetwork_def
  instrumented_AddNetworkCloudSubnet_def instrumented_GetFirewall_def instrumented_GetFirewallByName_def
  instrumented_CreateFirewall_def instrumented_DeleteFirewall_def instrumented_UpdateFirewallLabels_def
  instrumented_SetFirewallRules_def instrumented_ApplyFirewallResources_def instrumented_RemoveFirewallResources_def
  instrumented_GetPlacementGroup_def instrumented_GetPlacementGroupByName_def instrumented_CreatePlacementGroup_def
  instrumented_DeletePlacementGroup_def instrumented_GetPrimaryIP_def instrumented_GetPrimaryIPByName_def
  instrumented_CreatePrimaryIP_def instrumented_DeletePrimaryIP_def instrumented_UpdatePrimaryIP_def
  instrumented_AssignPrimaryIP_def instrumented_UnassignPrimaryIP_def instrumented_ChangePrimaryIPDNSPtr_def
  instrumented_GetFloatingIP_def instrumented_GetFloatingIPByName_def instrumented_CreateFloatingIP_def
  instrumented_DeleteFloatingIP_def instrumented_UpdateFloatingIP_def instrumented_AssignFloatingIP_def
  instrumented_UnassignFloatingIP_def instrumented_ChangeFloatingIPDNSPtr_def instrumented_GetCertificate_def
  instrumented_GetCertificateByName_def instrumented_CreateCertificate_def instrumented_DeleteCertificate_def
  instrumented_UpdateCertificate_def

text \<open>
  \<open>Instrument\<close>: a client is wrapped once; a nil client stays nil (\<open>None\<close>). \<open>Direct\<close> is a
  client of any other type than the wrapper.
\<close>

datatype 'c api = Direct "'c Interface" | Wrapped "'c Interface"

definition Instrument :: "'c api option \<Rightarrow> 'c api option" where
  "Instrument c = (case c of None \<Rightarrow> None
     | Some (Wrapped inner) \<Rightarrow> Some (Wrapped inner)
     | Some (Direct inner) \<Rightarrow> Some (Wrapped inner))"

section \<open>Transparency\<close>

text \<open>The relation that forgets the log.\<close>

definition forget_log :: "'c \<Rightarrow> 'c \<times> api_log \<Rightarrow> bool" where
  "forget_log c t \<longleftrightarrow> fst t = c"

lemma record_call_sim: "sim forget_log m (record_call opn m)"
  by (rule simI) (auto simp: forget_log_def record_call_def split: prod.split)

lemma instrumented_sel [simp]:
  "GetServer (instrumentedClient inner) = instrumented_GetServer inner"
  "GetServerByName (instrumentedClient inner) = instrumented_GetServerByName inner"
  "CreateServer (instrumentedClient inner) = instrumented_CreateServer inner"
  "DeleteServer (instrumentedClient inner) = instrumented_DeleteServer inner"
  "PowerOffServer (instrumentedClient inner) = instrumented_PowerOffServer inner"
  "PowerOnServer (instrumentedClient inner) = instrumented_PowerOnServer inner"
  "ChangeServerType (instrumentedClient inner) = instrumented_ChangeServerType inner"
  "AttachServerToNetwork (instrumentedClient inner) = instrumented_AttachServerToNetwork inner"
  "DetachServerFromNetwork (instrumentedClient inner) = instrumented_DetachServerFromNetwork inner"
  "GetVolume (instrumentedClient inner) = instrumented_GetVolume inner"
  "GetVolumeByName (instrumentedClient inner) = instrumented_GetVolumeByName inner"
  "CreateVolume (instrumentedClient inner) = instrumented_CreateVolume inner"
  "DeleteVolume (instrumentedClient inner) = instrumented_DeleteVolume inner"
  "AttachVolume (instrumentedClient inner) = instrumented_AttachVolume inner"
  "DetachVolume (instrumentedClient inner) = instrumented_DetachVolume inner"
  "ResizeVolume (instrumentedClient inner) = instrumented_ResizeVolume inner"
  "GetLoadBalancer (instrumentedClient inner) = instrumented_GetLoadBalancer inner"
  "GetLoadBalancerByName (instrumentedClient inner) = instrumented_GetLoadBalancerByName inner"
  "CreateLoadBalancer (instrumentedClient inner) = instrumented_CreateLoadBalancer inner"
  "DeleteLoadBalancer (instrumentedClient inner) = instrumented_DeleteLoadBalancer inner"
  "AttachServerToLoadBalancer (instrumentedClient inner) = instrumented_AttachServerToLoadBalancer inner"
  "DetachServerFromLoadBalancer (instrumentedClient inner) = instrumented_DetachServerFromLoadBalancer inner"
  "SyncLoadBalancerServices (instrumentedClient inner) = instrumented_SyncLoadBalancerServices inner"
  "GetNetwork (instrumentedClient inner) = instrumented_GetNetwork inner"
  "GetNetworkByName (instrumentedClient inner) = instrumented_GetNetworkByName inner"
  "CreateNetwork (instrumentedClient inner) = instrumented_CreateNetwork inner"
  "DeleteNetwork (instrumentedClient inner) = instrumented_DeleteNetwork inner"
  "AddNetworkCloudSubnet (instrumentedClient inner) = instrumented_AddNetworkCloudSubnet inner"
  "GetFirewall (instrumentedClient inner) = instrumented_GetFirewall inner"
  "GetFirewallByName (instrumentedClient inner) = instrumented_GetFirewallByName inner"
  "CreateFirewall (instrumentedClient inner) = instrumented_CreateFirewall inner"
  "DeleteFirewall (instrumentedClient inner) = instrumented_DeleteFirewall inner"
  "UpdateFirewallLabels (instrumentedClient inner) = instrumented_UpdateFirewallLabels inner"
  "SetFirewallRules (instrumentedClient inner) = instrumented_SetFirewallRules inner"
  "ApplyFirewallResources (instrumentedClient inner) = instrumented_ApplyFirewallResources inner"
  "RemoveFirewallResources (instrumentedClient inner) = instrumented_RemoveFirewallResources inner"
  "GetPlacementGroup (instrumentedClient inner) = instrumented_GetPlacementGroup inner"
  "GetPlacementGroupByName (instrumentedClient inner) = instrumented_GetPlacementGroupByName inner"
  "CreatePlacementGroup (instrumentedClient inner) = instrumented_CreatePlacementGroup inner"
  "DeletePlacementGroup (instrumentedClient inner) = instrumented_DeletePlacementGroup inner"
  "GetPrimaryIP (instrumentedClient inner) = instrumented_GetPrimaryIP inner"
  "GetPrimaryIPByName (instrumentedClient inner) = instrumented_GetPrimaryIPByName inner"
  "CreatePrimaryIP (instrumentedClient inner) = instrumented_CreatePrimaryIP inner"
  "DeletePrimaryIP (instrumentedClient inner) = instrumented_DeletePrimaryIP inner"
  "UpdatePrimaryIP (instrumentedClient inner) = instrumented_UpdatePrimaryIP inner"
  "AssignPrimaryIP (instrumentedClient inner) = instrumented_AssignPrimaryIP inner"
  "UnassignPrimaryIP (instrumentedClient inner) = instrumented_UnassignPrimaryIP inner"
  "ChangePrimaryIPDNSPtr (instrumentedClient inner) = instrumented_ChangePrimaryIPDNSPtr inner"
  "GetFloatingIP (instrumentedClient inner) = instrumented_GetFloatingIP inner"
  "GetFloatingIPByName (instrumentedClient inner) = instrumented_GetFloatingIPByName inner"
  "CreateFloatingIP (instrumentedClient inner) = instrumented_CreateFloatingIP inner"
  "DeleteFloatingIP (instrumentedClient inner) = instrumented_DeleteFloatingIP inner"
  "UpdateFloatingIP (instrumentedClient inner) = instrumented_UpdateFloatingIP inner"
  "AssignFloatingIP (instrumentedClient inner) = instrumented_AssignFloatingIP inner"
  "UnassignFloatingIP (instrumentedClient inner) = instrumented_UnassignFloatingIP inner"
  "ChangeFloatingIPDNSPtr (instrumentedClient inner) = instrumented_ChangeFloatingIPDNSPtr inner"
  "GetCertificate (instrumentedClient inner) = instrumented_GetCertificate inner"
  "GetCertificateByName (instrumentedClient inner) = instrumented_GetCertificateByName inner"
  "CreateCertificate (instrumentedClient inner) = instrumented_CreateCertificate inner"
  "DeleteCertificate (instrumentedClient inner) = instrumented_DeleteCertificate inner"
  "UpdateCertificate (instrumentedClient inner) = instrumented_UpdateCertificate inner"
  by (simp_all add: instrumentedClient_def)

interpretation instrumented: client_sim forget_log inner "instrumentedClient inner" for inner
  by unfold_locales (simp_all only: instrumented_sel instrumented_defs record_call_sim)

text \<open>One record per call that returns, with the operation's name and the label of its outcome.\<close>

lemma record_call_log:
  "fst (record_call opn m (c, log)) = fst (m c)"
  "snd (snd (record_call opn m (c, log))) = (case fst (m c) of
     Ok x \<Rightarrow> log @ [(opn, ''success'')] | Err e \<Rightarrow> log @ [(opn, ''error'')] | Panic p \<Rightarrow> log)"
  by (simp_all add: record_call_def recordAPI_def split: prod.split)

end
