(* ===== verification/Parametric.thy ===== *)
theory Parametric
  imports BaseProps Instrumented
begin

text \<open>
  The nine reconcilers, run by the base reconciler, are parametric in the cloud client. Two
  instances: they keep the invariant of the fake client, and wrapping the client in the metrics
  recorder changes nothing but the log.
\<close>

section \<open>The whole loop\<close>

lemma base_server_sim:
  assumes "client_sim R A B" and "lib_rel R L M"
  shows "sim (rst_rel R) (base_Reconcile L (KServers K) recorder (HCloudServerReconciler L K A) req)
    (base_Reconcile M (KServers K) recorder (HCloudServerReconciler M K B) req)"
  by (rule resource_sim.base_sim[where R = R], unfold_locales)
     (simp_all add: assms server_reconcile_sim[OF domain_sim_clients[OF assms]]
        server_delete_sim[OF cloud_sim_clients[OF assms(1)]])

lemma base_volume_sim:
  assumes "client_sim R A B" and "lib_rel R L M"
  shows "sim (rst_rel R) (base_Reconcile L (KVolumes K) recorder (HCloudVolumeReconciler L K A) req)
    (base_Reconcile M (KVolumes K) recorder (HCloudVolumeReconciler M K B) req)"
  by (rule resource_sim.base_sim[where R = R], unfold_locales)
     (simp_all add: assms volume_reconcile_sim[OF domain_sim_clients[OF assms]]
        volume_delete_sim[OF cloud_sim_clients[OF assms(1)]])

lemma base_lb_sim:
  assumes "client_sim R A B" and "lib_rel R L M"
  shows "sim (rst_rel R) (base_Reconcile L (KLoadBalancers K) recorder (HCloudLoadBalancerReconciler ch L K A) req)
    (base_Reconcile M (KLoadBalancers K) recorder (HCloudLoadBalancerReconciler ch M K B) req)"
  by (rule resource_sim.base_sim[where R = R], unfold_locales)
     (simp_all add: assms lb_reconcile_sim[OF domain_sim_clients[OF assms]]
        lb_delete_sim[OF cloud_sim_clients[OF assms(1)]])

lemma base_network_sim:
  assumes "client_sim R A B" and "lib_rel R L M"
  shows "sim (rst_rel R) (base_Reconcile L (KNetworks K) recorder (HCloudNetworkReconciler L K A) req)
    (base_Reconcile M (KNetworks K) recorder (HCloudNetworkReconciler M K B) req)"
  by (rule resource_sim.base_sim[where R = R], unfold_locales)
     (simp_all add: assms network_reconcile_sim[OF domain_sim_clients[OF assms]]
        network_delete_sim[OF cloud_sim_clients[OF assms(1)]])

lemma base_firewall_sim:
  assumes "client_sim R A B" and "lib_rel R L M"
  shows "sim (rst_rel R) (base_Reconcile L (KFirewalls K) recorder (HCloudFirewallReconciler ch L K A) req)
    (base_Reconcile M (KFirewalls K) recorder (HCloudFirewallReconciler ch M K B) req)"
  by (rule resource_sim.base_sim[where R = R], unfold_locales)
     (simp_all add: assms firewall_reconcile_sim[OF domain_sim_clients[OF assms]]
        firewall_delete_sim[OF cloud_sim_clients[OF assms(1)]])

lemma base_placement_sim:
  assumes "client_sim R A B" and "lib_rel R L M"
  shows "sim (rst_rel R) (base_Reconcile L (KPlacementGroups K) recorder (HCloudPlacementGroupReconciler L K A) req)
    (base_Reconcile M (KPlacementGroups K) recorder (HCloudPlacementGroupReconciler M K B) req)"
  by (rule resource_sim.base_sim[where R = R], unfold_locales)
     (simp_all add: assms placement_reconcile_sim[OF domain_sim_clients[OF assms]]
        placement_delete_sim[OF cloud_sim_clients[OF assms(1)]])

lemma base_primary_ip_sim:
  assumes "client_sim R A B" and "lib_rel R L M"
  shows "sim (rst_rel R) (base_Reconcile L (KPrimaryIPs K) recorder (HCloudPrimaryIPReconciler L K A) req)
    (base_Reconcile M (KPrimaryIPs K) recorder (HCloudPrimaryIPReconciler M K B) req)"
  by (rule resource_sim.base_sim[where R = R], unfold_locales)
     (simp_all add: assms primary_ip_reconcile_sim[OF domain_sim_clients[OF assms]]
        primary_ip_delete_sim[OF cloud_sim_clients[OF assms(1)]])

lemma base_floating_ip_sim:
  assumes "client_sim R A B" and "lib_rel R L M"
  shows "sim (rst_rel R) (base_Reconcile L (KFloatingIPs K) recorder (HCloudFloatingIPReconciler L K A) req)
    (base_Reconcile M (KFloatingIPs K) recorder (HCloudFloatingIPReconciler M K B) req)"
  by (rule resource_sim.base_sim[where R = R], unfold_locales)
     (simp_all add: assms floating_ip_reconcile_sim[OF domain_sim_clients[OF assms]]
        floating_ip_delete_sim[OF cloud_sim_clients[OF assms(1)]])

lemma base_cert_sim:
  assumes "client_sim R A B" and "lib_rel R L M"
  shows "sim (rst_rel R) (base_Reconcile L (KCertificates K) recorder (HCloudCertificateReconciler L K A) req)
    (base_Reconcile M (KCertificates K) recorder (HCloudCertificateReconciler M K B) req)"
  by (rule resource_sim.base_sim[where R = R], unfold_locales)
     (simp_all add: assms cert_reconcile_sim[OF domain_sim_clients[OF assms]]
        cert_delete_sim[OF cloud_sim_clients[OF assms(1)]])

section \<open>Along the invariant of the fake client\<close>

lemma rst_rel_diag:
  "sim (rst_rel (diag P)) m m \<longleftrightarrow> keeps (\<lambda>s. P (cloud s)) (m :: (('c, 'k, 'o) rst, 'a) prog)"
proof -
  have "rst_rel (diag P) = (diag (\<lambda>s :: ('c, 'k, 'o) rst. P (cloud s)) :: ('c, 'k, 'o) rst \<Rightarrow> ('c, 'k, 'o) rst \<Rightarrow> bool)"
    by (intro ext) (auto simp: rst_rel_def diag_def)
  then show ?thesis by (simp add: sim_diag_iff)
qed

text \<open>The two contracts on the fake client and the documented libraries.\<close>

interpretation fake_cloud: cloud_sim "rst_rel (diag fake_wf)" "fake_client ch" "fake_client ch" for ch
  by (rule cloud_sim_clients[OF fake_inv.client_sim_axioms])

interpretation fake_domain: domain_sim "rst_rel (diag fake_wf)" "fake_client ch" "fake_client ch"
  sample_lib sample_lib K for ch K
  by (rule domain_sim_clients[OF fake_inv.client_sim_axioms lib_rel_self]) simp

interpretation server_fake: resource_sim "rst_rel (diag fake_wf)" "diag fake_wf" sample_lib sample_lib
  "HCloudServerReconciler sample_lib K (fake_client ord)" "HCloudServerReconciler sample_lib K (fake_client ord)" for ord K
  by unfold_locales (simp_all add: lib_rel_self server_reconcile_sim[OF fake_domain.domain_sim_axioms]
      server_delete_sim[OF fake_cloud.cloud_sim_axioms])

interpretation volume_fake: resource_sim "rst_rel (diag fake_wf)" "diag fake_wf" sample_lib sample_lib
  "HCloudVolumeReconciler sample_lib K (fake_client ord)" "HCloudVolumeReconciler sample_lib K (fake_client ord)" for ord K
  by unfold_locales (simp_all add: lib_rel_self volume_reconcile_sim[OF fake_domain.domain_sim_axioms]
      volume_delete_sim[OF fake_cloud.cloud_sim_axioms])

interpretation lb_fake: resource_sim "rst_rel (diag fake_wf)" "diag fake_wf" sample_lib sample_lib
  "HCloudLoadBalancerReconciler ch sample_lib K (fake_client ord)" "HCloudLoadBalancerReconciler ch sample_lib K (fake_client ord)" for ch ord K
  by unfold_locales (simp_all add: lib_rel_self lb_reconcile_sim[OF fake_domain.domain_sim_axioms]
      lb_delete_sim[OF fake_cloud.cloud_sim_axioms])

interpretation network_fake: resource_sim "rst_rel (diag fake_wf)" "diag fake_wf" sample_lib sample_lib
  "HCloudNetworkReconciler sample_lib K (fake_client ord)" "HCloudNetworkReconciler sample_lib K (fake_client ord)" for ord K
  by unfold_locales (simp_all add: lib_rel_self network_reconcile_sim[OF fake_domain.domain_sim_axioms]
      network_delete_sim[OF fake_cloud.cloud_sim_axioms])

interpretation firewall_fake: resource_sim "rst_rel (diag fake_wf)" "diag fake_wf" sample_lib sample_lib
  "HCloudFirewallReconciler ch sample_lib K (fake_client ord)" "HCloudFirewallReconciler ch sample_lib K (fake_client ord)" for ch ord K
  by unfold_locales (simp_all add: lib_rel_self firewall_reconcile_sim[OF fake_domain.domain_sim_axioms]
      firewall_delete_sim[OF fake_cloud.cloud_sim_axioms])

interpretation placement_fake: resource_sim "rst_rel (diag fake_wf)" "diag fake_wf" sample_lib sample_lib
  "HCloudPlacementGroupReconciler sample_lib K (fake_client ord)" "HCloudPlacementGroupReconciler sample_lib K (fake_client ord)" for ord K
  by unfold_locales (simp_all add: lib_rel_self placement_reconcile_sim[OF fake_domain.domain_sim_axioms]
      placement_delete_sim[OF fake_cloud.cloud_sim_axioms])

interpretation primary_ip_fake: resource_sim "rst_rel (diag fake_wf)" "diag fake_wf" sample_lib sample_lib
  "HCloudPrimaryIPReconciler sample_lib K (fake_client ord)" "HCloudPrimaryIPReconciler sample_lib K (fake_client ord)" for ord K
  by unfold_locales (simp_all add: lib_rel_self primary_ip_reconcile_sim[OF fake_domain.domain_sim_axioms]
      primary_ip_delete_sim[OF fake_cloud.cloud_sim_axioms])

interpretation floating_ip_fake: resource_sim "rst_rel (diag fake_wf)" "diag fake_wf" sample_lib sample_lib
  "HCloudFloatingIPReconciler sample_lib K (fake_client ord)" "HCloudFloatingIPReconciler sample_lib K (fake_client ord)" for ord K
  by unfold_locales (simp_all add: lib_rel_self floating_ip_reconcile_sim[OF fake_domain.domain_sim_axioms]
      floating_ip_delete_sim[OF fake_cloud.cloud_sim_axioms])

interpretation cert_fake: resource_sim "rst_rel (diag fake_wf)" "diag fake_wf" sample_lib sample_lib
  "HCloudCertificateReconciler sample_lib K (fake_client ord)" "HCloudCertificateReconciler sample_lib K (fake_client ord)" for ord K
  by unfold_locales (simp_all add: lib_rel_self cert_reconcile_sim[OF fake_domain.domain_sim_axioms]
      cert_delete_sim[OF fake_cloud.cloud_sim_axioms])

section \<open>Properties\<close>

text \<open>whatever happens in it, a run of the base reconciler with any of the nine controllers
  keeps the invariant of the fake client: every resource is stored under its own positive
  identifier below the next one, and no two resources of a kind share a name.\<close>

theorem reconcile_keeps_fake_invariant:
  assumes "retry_law L1" and "retry_law L2" and "retry_law L3" and "retry_law L4" and "retry_law L5" and "retry_law L6" and "retry_law L7" and "retry_law L8" and "retry_law L9"
  shows "keeps (\<lambda>s. fake_wf (cloud s)) (base_Reconcile L1 (KServers K) recorder (HCloudServerReconciler L1 K (fake_client ord)) req)
   \<and> keeps (\<lambda>s. fake_wf (cloud s)) (base_Reconcile L2 (KVolumes K) recorder (HCloudVolumeReconciler L2 K (fake_client ord)) req)
   \<and> keeps (\<lambda>s. fake_wf (cloud s)) (base_Reconcile L3 (KLoadBalancers K) recorder (HCloudLoadBalancerReconciler ch L3 K (fake_client ord)) req)
   \<and> keeps (\<lambda>s. fake_wf (cloud s)) (base_Reconcile L4 (KNetworks K) recorder (HCloudNetworkReconciler L4 K (fake_client ord)) req)
   \<and> keeps (\<lambda>s. fake_wf (cloud s)) (base_Reconcile L5 (KFirewalls K) recorder (HCloudFirewallReconciler ch L5 K (fake_client ord)) req)
   \<and> keeps (\<lambda>s. fake_wf (cloud s)) (base_Reconcile L6 (KPlacementGroups K) recorder (HCloudPlacementGroupReconciler L6 K (fake_client ord)) req)
   \<and> keeps (\<lambda>s. fake_wf (cloud s)) (base_Reconcile L7 (KPrimaryIPs K) recorder (HCloudPrimaryIPReconciler L7 K (fake_client ord)) req)
   \<and> keeps (\<lambda>s. fake_wf (cloud s)) (base_Reconcile L8 (KFloatingIPs K) recorder (HCloudFloatingIPReconciler L8 K (fake_client ord)) req)
   \<and> keeps (\<lambda>s. fake_wf (cloud s)) (base_Reconcile L9 (KCertificates K) recorder (HCloudCertificateReconciler L9 K (fake_client ord)) req)"
  unfolding rst_rel_diag[symmetric]
  by (intro conjI assms lib_rel_self base_server_sim[OF fake_inv.client_sim_axioms]
      base_volume_sim[OF fake_inv.client_sim_axioms]
      base_lb_sim[OF fake_inv.client_sim_axioms]
      base_network_sim[OF fake_inv.client_sim_axioms]
      base_firewall_sim[OF fake_inv.client_sim_axioms]
      base_placement_sim[OF fake_inv.client_sim_axioms]
      base_primary_ip_sim[OF fake_inv.client_sim_axioms]
      base_floating_ip_sim[OF fake_inv.client_sim_axioms]
      base_cert_sim[OF fake_inv.client_sim_axioms])

theorem reconcile_keeps_fake_invariant_witness:
  "fake_wf (cloud (snd (base_Reconcile sample_lib (KServers sample_api) True sample_resource sample_req
     (sample_world sample_server NewFakeClient))))"
  by (rule keepsD[OF reconcile_keeps_fake_invariant[OF sample_lib_ok(2) sample_lib_ok(2) sample_lib_ok(2) sample_lib_ok(2)
      sample_lib_ok(2) sample_lib_ok(2) sample_lib_ok(2) sample_lib_ok(2) sample_lib_ok(2), THEN conjunct1]]) (simp add: fake_wf_New)

text \<open>C16: wrapping the cloud client in the metrics recorder is transparent for all nine controllers:
  the run returns the same result and leaves the same cloud, API server, object, events and
  reconcile metrics; only the log of API calls is added.\<close>

theorem instrumentation_is_transparent:
  assumes "lib_rel forget_log L1 M1" and "lib_rel forget_log L2 M2" and "lib_rel forget_log L3 M3" and "lib_rel forget_log L4 M4" and "lib_rel forget_log L5 M5" and "lib_rel forget_log L6 M6" and "lib_rel forget_log L7 M7" and "lib_rel forget_log L8 M8" and "lib_rel forget_log L9 M9"
  shows "sim (rst_rel forget_log) (base_Reconcile L1 (KServers K) recorder (HCloudServerReconciler L1 K A) req)
      (base_Reconcile M1 (KServers K) recorder (HCloudServerReconciler M1 K (instrumentedClient A)) req)
   \<and> sim (rst_rel forget_log) (base_Reconcile L2 (KVolumes K) recorder (HCloudVolumeReconciler L2 K A) req)
      (base_Reconcile M2 (KVolumes K) recorder (HCloudVolumeReconciler M2 K (instrumentedClient A)) req)
   \<and> sim (rst_rel forget_log) (base_Reconcile L3 (KLoadBalancers K) recorder (HCloudLoadBalancerReconciler ch L3 K A) req)
      (base_Reconcile M3 (KLoadBalancers K) recorder (HCloudLoadBalancerReconciler ch M3 K (instrumentedClient A)) req)
   \<and> sim (rst_rel forget_log) (base_Reconcile L4 (KNetworks K) recorder (HCloudNetworkReconciler L4 K A) req)
      (base_Reconcile M4 (KNetworks K) recorder (HCloudNetworkReconciler M4 K (instrumentedClient A)) req)
   \<and> sim (rst_rel forget_log) (base_Reconcile L5 (KFirewalls K) recorder (HCloudFirewallReconciler ch L5 K A) req)
      (base_Reconcile M5 (KFirewalls K) recorder (HCloudFirewallReconciler ch M5 K (instrumentedClient A)) req)
   \<and> sim (rst_rel forget_log) (base_Reconcile L6 (KPlacementGroups K) recorder (HCloudPlacementGroupReconciler L6 K A) req)
      (base_Reconcile M6 (KPlacementGroups K) recorder (HCloudPlacementGroupReconciler M6 K (instrumentedClient A)) req)
   \<and> sim (rst_rel forget_log) (base_Reconcile L7 (KPrimaryIPs K) recorder (HCloudPrimaryIPReconciler L7 K A) req)
      (base_Reconcile M7 (KPrimaryIPs K) recorder (HCloudPrimaryIPReconciler M7 K (instrumentedClient A)) req)
   \<and> sim (rst_rel forget_log) (base_Reconcile L8 (KFloatingIPs K) recorder (HCloudFloatingIPReconciler L8 K A) req)
      (base_Reconcile M8 (KFloatingIPs K) recorder (HCloudFloatingIPReconciler M8 K (instrumentedClient A)) req)
   \<and> sim (rst_rel forget_log) (base_Reconcile L9 (KCertificates K) recorder (HCloudCertificateReconciler L9 K A) req)
      (base_Reconcile M9 (KCertificates K) recorder (HCloudCertificateReconciler M9 K (instrumentedClient A)) req)"
  by (intro conjI assms base_server_sim[OF instrumented.client_sim_axioms]
      base_volume_sim[OF instrumented.client_sim_axioms]
      base_lb_sim[OF instrumented.client_sim_axioms]
      base_network_sim[OF instrumented.client_sim_axioms]
      base_firewall_sim[OF instrumented.client_sim_axioms]
      base_placement_sim[OF instrumented.client_sim_axioms]
      base_primary_ip_sim[OF instrumented.client_sim_axioms]
      base_floating_ip_sim[OF instrumented.client_sim_axioms]
      base_cert_sim[OF instrumented.client_sim_axioms])

lemma lib_rel_sample: "lib_rel R sample_lib sample_lib"
  by (simp add: lib_rel_def sample_lib_def sim_attempts)

theorem instrumentation_is_transparent_witness:
  "fst (base_Reconcile sample_lib (KServers sample_api) True sample_resource sample_req
      (sample_world sample_server NewFakeClient))
   = fst (base_Reconcile sample_lib (KServers sample_api) True
      (HCloudServerReconciler sample_lib sample_api (instrumentedClient (fake_client []))) sample_req
      \<lparr> cloud = (NewFakeClient, []), kube = no_objects\<lparr>st_Servers := [sample_server]\<rparr>,
        obj = NewHCloudServer, events = [], metrics = [] \<rparr>)"
  by (rule simD[OF instrumentation_is_transparent[OF lib_rel_sample lib_rel_sample lib_rel_sample
      lib_rel_sample lib_rel_sample lib_rel_sample lib_rel_sample lib_rel_sample lib_rel_sample, THEN conjunct1], THEN conjunct1])
     (simp add: rst_rel_def forget_log_def sample_world_def)

end
