(* ===== verification/Outcomes.thy ===== *)
theory Outcomes
  imports Parametric SampleApi
begin

text \<open>
  Three ways to follow an invariant through a program: what holds when it fails, what its result is
  besides, and one attempt of the status write as two cases.
\<close>

section \<open>Programs that do not fail after they have written\<close>

text \<open>When the program fails, the property of the state still holds.\<close>

definition fails_with :: "('s \<Rightarrow> bool) \<Rightarrow> ('s, 'a) prog \<Rightarrow> bool" where
  "fails_with P m \<longleftrightarrow> (\<forall>s r s'. P s \<longrightarrow> m s = (r, s') \<longrightarrow> (\<forall>x. r \<noteq> Ok x) \<longrightarrow> P s')"

lemma fails_withI: "(\<And>s r s'. P s \<Longrightarrow> m s = (r, s') \<Longrightarrow> (\<forall>x. r \<noteq> Ok x) \<Longrightarrow> P s') \<Longrightarrow> fails_with P m"
  by (simp add: fails_with_def)

lemma fails_withD: "fails_with P m \<Longrightarrow> P s \<Longrightarrow> m s = (r, s') \<Longrightarrow> (\<forall>x. r \<noteq> Ok x) \<Longrightarrow> P s'"
  by (simp add: fails_with_def)

definition returns :: "('s, 'a) prog \<Rightarrow> bool" where
  "returns m \<longleftrightarrow> (\<forall>s. \<exists>x s'. m s = (Ok x, s'))"

lemma returnsD: "returns m \<Longrightarrow> \<exists>x s'. m s = (Ok x, s')"
  by (simp add: returns_def)

named_theorems fails_intros

lemma fails_keeps [fails_intros]: "keeps P m \<Longrightarrow> fails_with P m"
  by (rule fails_withI) (metis keepsD snd_conv)

lemma fails_returns [fails_intros]: "returns m \<Longrightarrow> fails_with P m"
  by (rule fails_withI) (metis returnsD prod.inject)

lemma fails_bindM [fails_intros]:
  assumes "keeps P m" "\<And>x. fails_with P (f x)"
  shows "fails_with P (bindM m f)"
proof (rule fails_withI)
  fix s r s' assume s: "P s" and run: "bindM m f s = (r, s')" and bad: "\<forall>x. r \<noteq> Ok x"
  obtain q s1 where m: "m s = (q, s1)" by force
  have "P s1" using keepsD[OF assms(1) s] m by simp
  show "P s'"
  proof (cases q)
    case (Ok x)
    then have "f x s1 = (r, s')" using run m by (simp add: bindM_run)
    then show ?thesis using fails_withD[OF assms(2) \<open>P s1\<close> _ bad] by blast
  qed (use run m \<open>P s1\<close> in \<open>simp_all add: bindM_run\<close>)
qed

lemma fails_then [fails_intros]:
  assumes "fails_with P m" "\<And>x. returns (f x)"
  shows "fails_with P (bindM m f)"
proof (rule fails_withI)
  fix s r s' assume s: "P s" and run: "bindM m f s = (r, s')" and bad: "\<forall>x. r \<noteq> Ok x"
  obtain q s1 where m: "m s = (q, s1)" by force
  show "P s'"
  proof (cases q)
    case (Ok x)
    then show ?thesis using returnsD[OF assms(2), of x s1] run m bad by (auto simp: bindM_run)
  qed (use fails_withD[OF assms(1) s m] run m in \<open>simp_all add: bindM_run\<close>)
qed

lemma fails_tryM [fails_intros]:
  assumes "keeps P m" "\<And>e. fails_with P (f e)" "\<And>x. fails_with P (g x)"
  shows "fails_with P (tryM m f g)"
proof (rule fails_withI)
  fix s r s' assume s: "P s" and run: "tryM m f g s = (r, s')" and bad: "\<forall>x. r \<noteq> Ok x"
  obtain q s1 where m: "m s = (q, s1)" by force
  have "P s1" using keepsD[OF assms(1) s] m by simp
  show "P s'"
  proof (cases q)
    case (Ok x)
    then have "g x s1 = (r, s')" using run m by (simp add: tryM_run)
    then show ?thesis using fails_withD[OF assms(3) \<open>P s1\<close> _ bad] by blast
  next
    case (Err e)
    then have "f e s1 = (r, s')" using run m by (simp add: tryM_run)
    then show ?thesis using fails_withD[OF assms(2) \<open>P s1\<close> _ bad] by blast
  qed (use run m \<open>P s1\<close> in \<open>simp add: tryM_run\<close>)
qed

lemma fails_wrapM: "fails_with P m \<Longrightarrow> fails_with P (wrapM p m)"
proof (rule fails_withI)
  fix s r s' assume m: "fails_with P m" "P s" and run: "wrapM p m s = (r, s')" and bad: "\<forall>x. r \<noteq> Ok x"
  obtain q s1 where q: "m s = (q, s1)" by force
  then show "P s'" using fails_withD[OF m q] run bad by (cases q) (auto simp: wrapM_run)
qed

lemma fails_attempts: "fails_with P m \<Longrightarrow> fails_with P (attempts again n m)"
proof (induction again n m rule: attempts.induct)
  case (3 again n m)
  show ?case
  proof (rule fails_withI)
    fix s r s' assume s: "P s" and run: "attempts again (Suc (Suc n)) m s = (r, s')" and bad: "\<forall>x. r \<noteq> Ok x"
    obtain q s1 where m: "m s = (q, s1)" by force
    show "P s'"
    proof (cases q)
      case (Ok x)
      then show ?thesis using run m bad by (auto simp: tryM_run)
    next
      case (Err e)
      then have "P s1" using fails_withD[OF 3(2) s m] by simp
      then show ?thesis using run m Err fails_withD[OF 3(1)[OF _ 3(2)] _ _ bad, of e] by (auto simp: tryM_run split: if_splits)
    next
      case (Panic p)
      then show ?thesis using fails_withD[OF 3(2) s m] run m by (auto simp: tryM_run)
    qed
  qed
qed (auto simp: fails_with_def)

lemma fails_cases [fails_intros]:
  "fails_with P m \<Longrightarrow> fails_with P n \<Longrightarrow> fails_with P (if b then m else n)"
  "fails_with P m \<Longrightarrow> (\<And>x. fails_with P (f x)) \<Longrightarrow> fails_with P (case opt of None \<Rightarrow> m | Some x \<Rightarrow> f x)"
  "(\<And>x y. fails_with P (h x y)) \<Longrightarrow> fails_with P (case pr of (x, y) \<Rightarrow> h x y)"
  by (auto split: option.split prod.split)

lemma returns_basic [simp]: "returns (ret x)" "returns (updStatus g)" "returns (setCondition L t st reason msg)"
  by (auto simp: returns_def)

lemma returns_bindM [simp]: 
  assumes "returns m" "\<And>x. returns (f x)"
  shows "returns (bindM m f)"
  unfolding returns_def
proof
  fix s
  obtain x s1 where "m s = (Ok x, s1)" using assms(1) unfolding returns_def by metis
  then show "\<exists>y s'. bindM m f s = (Ok y, s')" using assms(2)[of x] by (auto simp: returns_def)
qed

lemma returns_if [simp]: "returns m \<Longrightarrow> returns n \<Longrightarrow> returns (if b then m else n)"
  by simp

section \<open>An invariant and what is returned\<close>

text \<open>The program keeps \<open>P\<close> however it ends, and a value it returns from such a state satisfies \<open>Q\<close>.\<close>

definition gives :: "('s \<Rightarrow> bool) \<Rightarrow> ('s, 'a) prog \<Rightarrow> ('a \<Rightarrow> bool) \<Rightarrow> bool" where
  "gives P m Q \<longleftrightarrow> (\<forall>s r s'. P s \<longrightarrow> m s = (r, s') \<longrightarrow> P s' \<and> (\<forall>x. r = Ok x \<longrightarrow> Q x))"

lemma givesI: "(\<And>s r s'. P s \<Longrightarrow> m s = (r, s') \<Longrightarrow> P s' \<and> (\<forall>x. r = Ok x \<longrightarrow> Q x)) \<Longrightarrow> gives P m Q"
  by (simp add: gives_def)

lemma givesD: "gives P m Q \<Longrightarrow> P s \<Longrightarrow> m s = (r, s') \<Longrightarrow> P s' \<and> (\<forall>x. r = Ok x \<longrightarrow> Q x)"
  by (simp add: gives_def)

lemma gives_keeps: "gives P m Q \<Longrightarrow> keeps P m"
  by (metis givesD keepsI surjective_pairing)

lemma keeps_gives: "keeps P m \<Longrightarrow> gives P m (\<lambda>_. True)"
  by (rule givesI) (metis keepsD snd_conv)

lemma gives_ret: "Q x \<Longrightarrow> gives P (ret x) Q"
  by (simp add: gives_def)

lemma gives_failM: "gives P (failM e) Q"
  by (simp add: gives_def)

lemma gives_bindM:
  assumes "gives P m Q" "\<And>x. Q x \<Longrightarrow> gives P (f x) R"
  shows "gives P (bindM m f) R"
proof (rule givesI)
  fix s r s' assume s: "P s" and run: "bindM m f s = (r, s')"
  obtain q s1 where m: "m s = (q, s1)" by force
  note 1 = givesD[OF assms(1) s m]
  show "P s' \<and> (\<forall>x. r = Ok x \<longrightarrow> R x)"
  proof (cases q)
    case (Ok x)
    then have "f x s1 = (r, s')" using run m by (simp add: bindM_run)
    then show ?thesis using givesD[OF assms(2)] 1 Ok by blast
  qed (use run m 1 in \<open>auto simp: bindM_run\<close>)
qed

lemma gives_wrapM: "gives P m Q \<Longrightarrow> gives P (wrapM p m) Q"
proof (rule givesI)
  fix s r s' assume m: "gives P m Q" "P s" and run: "wrapM p m s = (r, s')"
  obtain q s1 where q: "m s = (q, s1)" by force
  show "P s' \<and> (\<forall>x. r = Ok x \<longrightarrow> Q x)"
    using givesD[OF m q] run q by (cases q) (auto simp: wrapM_run)
qed

lemma keeps_from:
  assumes "gives P m Q" "\<And>x. Q x \<Longrightarrow> keeps P (f x)"
  shows "keeps P (bindM m f)"
  by (rule gives_keeps[OF gives_bindM[OF assms(1) keeps_gives[OF assms(2)]]])

section \<open>Case distinctions\<close>

lemma keeps_pair: "(\<And>x y. keeps P (h x y)) \<Longrightarrow> keeps P (case pr of (x, y) \<Rightarrow> h x y)"
  by (cases pr) simp

lemma keeps_sum: "(\<And>x. keeps P (f x)) \<Longrightarrow> (\<And>y. keeps P (g y)) \<Longrightarrow> keeps P (case v of Inl x \<Rightarrow> f x | Inr y \<Rightarrow> g y)"
  by (cases v) auto

section \<open>The status write\<close>

lemma get_only_reads:
  assumes "api_law nf cf store K"
  obtains x where "KGet K key k = (Ok x, k)" | e where "KGet K key k = (Err e, k)"
proof (cases "store k key")
  case None
  then show thesis using assms that(2) unfolding api_law_def by metis
next
  case (Some x)
  then show thesis using api_get[OF assms] that(1) by metis
qed

text \<open>One attempt: refused, with the object as it was but for its version, or written.\<close>

lemma attempt_cases:
  assumes "api_law nf (IsConflict L) store K"
  obtains (refused) e v where "status_attempt L K key s = (Err e, s\<lparr>obj := (obj s)\<lparr>ResourceVersion := v\<rparr>\<rparr>)"
  | (written) k' cur rv where "status_attempt L K key s = (Ok (), s\<lparr>kube := k', obj := stored_status cur (obj s) rv\<rparr>)"
      "store k' = (store (kube s))(key_of (obj s) \<mapsto> stored_status cur (obj s) rv)"
proof (cases "store (kube s) (key_of (obj s))")
  case None
  then obtain e where "KStatusUpdate K (obj s) (kube s) = (Err e, kube s)" "\<not> IsConflict L e"
    using api_status_missing[OF assms] by metis
  then have "status_attempt L K key s = (Err e, s\<lparr>obj := (obj s)\<lparr>ResourceVersion := ResourceVersion (obj s)\<rparr>\<rparr>)"
    by (simp add: status_attempt_def tryM_run)
  then show thesis by (rule refused)
next
  case (Some cur)
  show thesis
  proof (cases "ResourceVersion (obj s) = ResourceVersion cur")
    case True
    then show thesis using attempt_current[OF assms Some] written by metis
  next
    case False
    then obtain e where e: "KStatusUpdate K (obj s) (kube s) = (Err e, kube s)" "IsConflict L e"
      using api_status_stale[OF assms Some] by metis
    show thesis
    proof (rule get_only_reads[OF assms, of key "kube s"])
      fix x assume "KGet K key (kube s) = (Ok x, kube s)"
      then show thesis using e by (intro refused[of e "ResourceVersion x"]) (simp add: status_attempt_def tryM_run)
    next
      fix e' assume "KGet K key (kube s) = (Err e', kube s)"
      then show thesis using e by (intro refused[of e' "ResourceVersion (obj s)"]) (simp add: status_attempt_def tryM_run)
    qed
  qed
qed

end
