(* ===== verification/Isolation.thy ===== *)
theory Isolation
  imports Parametric
begin

text \<open>
  What the controllers may call: each is the same program over a client that has only the methods
  of its own resource kind, all others failing. Over the in-memory client it then changes only the
  table of its own kind.
\<close>

section \<open>Clients with the methods of one kind\<close>

abbreviation not_allowed :: "('c, 'a) prog" where
  "not_allowed \<equiv> failM (Errorf ''not allowed'')"

definition closed_client :: "'c Interface" where
  "closed_client = \<lparr>
     GetServer = (\<lambda>_. not_allowed), GetServerByName = (\<lambda>_. not_allowed),
     CreateServer = (\<lambda>_. not_allowed), DeleteServer = (\<lambda>_. not_allowed),
     PowerOffServer = (\<lambda>_. not_allowed), PowerOnServer = (\<lambda>_. not_allowed),
     ChangeServerType = (\<lambda>_ _ _. not_allowed),
     AttachServerToNetwork = (\<lambda>_ _. not_allowed),
     DetachServerFromNetwork = (\<lambda>_ _. not_allowed), GetVolume = (\<lambda>_. not_allowed),
     GetVolumeByName = (\<lambda>_. not_allowed), CreateVolume = (\<lambda>_. not_allowed),
     DeleteVolume = (\<lambda>_. not_allowed), AttachVolume = (\<lambda>_ _. not_allowed),
     DetachVolume = (\<lambda>_. not_allowed), ResizeVolume = (\<lambda>_ _. not_allowed),
     GetLoadBalancer = (\<lambda>_. not_allowed),
     GetLoadBalancerByName = (\<lambda>_. not_allowed),
     CreateLoadBalancer = (\<lambda>_. not_allowed),
     DeleteLoadBalancer = (\<lambda>_. not_allowed),
     AttachServerToLoadBalancer = (\<lambda>_ _. not_allowed),
     DetachServerFromLoadBalancer = (\<lambda>_ _. not_allowed),
     SyncLoadBalancerServices = (\<lambda>_ _. not_allowed),
     GetNetwork = (\<lambda>_. not_allowed), GetNetworkByName = (\<lambda>_. not_allowed),
     CreateNetwork = (\<lambda>_. not_allowed), DeleteNetwork = (\<lambda>_. not_allowed),
     AddNetworkCloudSubnet = (\<lambda>_ _. not_allowed), GetFirewall = (\<lambda>_. not_allowed),
     GetFirewallByName = (\<lambda>_. not_allowed), CreateFirewall = (\<lambda>_. not_allowed),
     DeleteFirewall = (\<lambda>_. not_allowed),
     UpdateFirewallLabels = (\<lambda>_ _. not_allowed),
     SetFirewallRules = (\<lambda>_ _. not_allowed),
     ApplyFirewallResources = (\<lambda>_ _. not_allowed),
     RemoveFirewallResources = (\<lambda>_ _. not_allowed),
     GetPlacementGroup = (\<lambda>_. not_allowed),
     GetPlacementGroupByName = (\<lambda>_. not_allowed),
     CreatePlacementGroup = (\<lambda>_. not_allowed),
     DeletePlacementGroup = (\<lambda>_. not_allowed), GetPrimaryIP = (\<lambda>_. not_allowed),
     GetPrimaryIPByName = (\<lambda>_. not_allowed), CreatePrimaryIP = (\<lambda>_. not_allowed),
     DeletePrimaryIP = (\<lambda>_. not_allowed), UpdatePrimaryIP = (\<lambda>_ _. not_allowed),
     AssignPrimaryIP = (\<lambda>_ _ _. not_allowed),
     UnassignPrimaryIP = (\<lambda>_. not_allowed),
     ChangePrimaryIPDNSPtr = (\<lambda>_ _ _. not_allowed),
     GetFloatingIP = (\<lambda>_. not_allowed), GetFloatingIPByName = (\<lambda>_. not_allowed),
     CreateFloatingIP = (\<lambda>_. not_allowed), DeleteFloatingIP = (\<lambda>_. not_allowed),
     UpdateFloatingIP = (\<lambda>_ _. not_allowed),
     AssignFloatingIP = (\<lambda>_ _. not_allowed),
     UnassignFloatingIP = (\<lambda>_. not_allowed),
     ChangeFloatingIPDNSPtr = (\<lambda>_ _ _. not_allowed),
     GetCertificate = (\<lambda>_. not_allowed), GetCertificateByName = (\<lambda>_. not_allowed),
     CreateCertificate = (\<lambda>_. not_allowed), DeleteCertificate = (\<lambda>_. not_allowed),
     UpdateCertificate = (\<lambda>_ _. not_allowed) \<rparr>"

definition only_server :: "'c Interface \<Rightarrow> 'c Interface" where
  "only_server H = closed_client\<lparr>
     GetServer := GetServer H, GetServerByName := GetServerByName H,
     CreateServer := CreateServer H, DeleteServer := DeleteServer H,
     PowerOffServer := PowerOffServer H, PowerOnServer := PowerOnServer H,
     ChangeServerType := ChangeServerType H, AttachServerToNetwork := AttachServerToNetwork H,
     DetachServerFromNetwork := DetachServerFromNetwork H\<rparr>"

definition only_volume :: "'c Interface \<Rightarrow> 'c Interface" where
  "only_volume H = closed_client\<lparr>
     GetVolume := GetVolume H, GetVolumeByName := GetVolumeByName H,
     CreateVolume := CreateVolume H, DeleteVolume := DeleteVolume H,
     AttachVolume := AttachVolume H, DetachVolume := DetachVolume H, ResizeVolume := ResizeVolume H\<rparr>"

definition only_load_balancer :: "'c Interface \<Rightarrow> 'c Interface" where
  "only_load_balancer H = closed_client\<lparr>
     GetLoadBalancer := GetLoadBalancer H, GetLoadBalancerByName := GetLoadBalancerByName H,
     CreateLoadBalancer := CreateLoadBalancer H, DeleteLoadBalancer := DeleteLoadBalancer H,
     AttachServerToLoadBalancer := AttachServerToLoadBalancer H,
     DetachServerFromLoadBalancer := DetachServerFromLoadBalancer H,
     SyncLoadBalancerServices := SyncLoadBalancerServices H, GetCertificate := GetCertificate H\<rparr>"

definition only_network :: "'c Interface \<Rightarrow> 'c Interface" where
  "only_network H = closed_client\<lparr>
     GetNetwork := GetNetwork H, GetNetworkByName := GetNetworkByName H,
     CreateNetwork := CreateNetwork H, DeleteNetwork := DeleteNetwork H,
     AddNetworkCloudSubnet := AddNetworkCloudSubnet H\<rparr>"

definition only_firewall :: "'c Interface \<Rightarrow> 'c Interface" where
  "only_firewall H = closed_client\<lparr>
     GetFirewall := GetFirewall H, GetFirewallByName := GetFirewallByName H,
     CreateFirewall := CreateFirewall H, DeleteFirewall := DeleteFirewall H,
     UpdateFirewallLabels := UpdateFirewallLabels H, SetFirewallRules := SetFirewallRules H,
     ApplyFirewallResources := ApplyFirewallResources H,
     RemoveFirewallResources := RemoveFirewallResources H\<rparr>"

definition only_placement_group :: "'c Interface \<Rightarrow> 'c Interface" where
  "only_placement_group H = closed_client\<lparr>
     GetPlacementGroup := GetPlacementGroup H,
     GetPlacementGroupByName := GetPlacementGroupByName H,
     CreatePlacementGroup := CreatePlacementGroup H, DeletePlacementGroup := DeletePlacementGroup H\<rparr>"

definition only_primary_ip :: "'c Interface \<Rightarrow> 'c Interface" where
  "only_primary_ip H = closed_client\<lparr>
     GetPrimaryIP := GetPrimaryIP H, GetPrimaryIPByName := GetPrimaryIPByName H,
     CreatePrimaryIP := CreatePrimaryIP H, DeletePrimaryIP := DeletePrimaryIP H,
     UpdatePrimaryIP := UpdatePrimaryIP H, AssignPrimaryIP := AssignPrimaryIP H,
     UnassignPrimaryIP := UnassignPrimaryIP H, ChangePrimaryIPDNSPtr := ChangePrimaryIPDNSPtr H\<rparr>"

definition only_floating_ip :: "'c Interface \<Rightarrow> 'c Interface" where
  "only_floating_ip H = closed_client\<lparr>
     GetFloatingIP := GetFloatingIP H, GetFloatingIPByName := GetFloatingIPByName H,
     CreateFloatingIP := CreateFloatingIP H, DeleteFloatingIP := DeleteFloatingIP H,
     UpdateFloatingIP := UpdateFloatingIP H, AssignFloatingIP := AssignFloatingIP H,
     UnassignFloatingIP := UnassignFloatingIP H, ChangeFloatingIPDNSPtr := ChangeFloatingIPDNSPtr H\<rparr>"

definition only_certificate :: "'c Interface \<Rightarrow> 'c Interface" where
  "only_certificate H = closed_client\<lparr>
     GetCertificate := GetCertificate H, GetCertificateByName := GetCertificateByName H,
     CreateCertificate := CreateCertificate H, DeleteCertificate := DeleteCertificate H,
     UpdateCertificate := UpdateCertificate H\<rparr>"

section \<open>The controllers need no other method\<close>

lemma only_sels:
  "GetServer (only_server H) = GetServer H" "GetServerByName (only_server H) = GetServerByName H"
  "CreateServer (only_server H) = CreateServer H" "DeleteServer (only_server H) = DeleteServer H"
  "PowerOffServer (only_server H) = PowerOffServer H"
  "PowerOnServer (only_server H) = PowerOnServer H"
  "ChangeServerType (only_server H) = ChangeServerType H"
  "AttachServerToNetwork (only_server H) = AttachServerToNetwork H"
  "DetachServerFromNetwork (only_server H) = DetachServerFromNetwork H"
  "GetVolume (only_volume H) = GetVolume H" "GetVolumeByName (only_volume H) = GetVolumeByName H"
  "CreateVolume (only_volume H) = CreateVolume H" "DeleteVolume (only_volume H) = DeleteVolume H"
  "AttachVolume (only_volume H) = AttachVolume H" "DetachVolume (only_volume H) = DetachVolume H"
  "ResizeVolume (only_volume H) = ResizeVolume H"
  "GetLoadBalancer (only_load_balancer H) = GetLoadBalancer H"
  "GetLoadBalancerByName (only_load_balancer H) = GetLoadBalancerByName H"
  "CreateLoadBalancer (only_load_balancer H) = CreateLoadBalancer H"
  "DeleteLoadBalancer (only_load_balancer H) = DeleteLoadBalancer H"
  "AttachServerToLoadBalancer (only_load_balancer H) = AttachServerToLoadBalancer H"
  "DetachServerFromLoadBalancer (only_load_balancer H) = DetachServerFromLoadBalancer H"
  "SyncLoadBalancerServices (only_load_balancer H) = SyncLoadBalancerServices H"
  "GetCertificate (only_load_balancer H) = GetCertificate H"
  "GetNetwork (only_network H) = GetNetwork H"
  "GetNetworkByName (only_network H) = GetNetworkByName H"
  "CreateNetwork (only_network H) = CreateNetwork H"
  "DeleteNetwork (only_network H) = DeleteNetwork H"
  "AddNetworkCloudSubnet (only_network H) = AddNetworkCloudSubnet H"
  "GetFirewall (only_firewall H) = GetFirewall H"
  "GetFirewallByName (only_firewall H) = GetFirewallByName H"
  "CreateFirewall (only_firewall H) = CreateFirewall H"
  "DeleteFirewall (only_firewall H) = DeleteFirewall H"
  "UpdateFirewallLabels (only_firewall H) = UpdateFirewallLabels H"
  "SetFirewallRules (only_firewall H) = SetFirewallRules H"
  "ApplyFirewallResources (only_firewall H) = ApplyFirewallResources H"
  "RemoveFirewallResources (only_firewall H) = RemoveFirewallResources H"
  "GetPlacementGroup (only_placement_group H) = GetPlacementGroup H"
  "GetPlacementGroupByName (only_placement_group H) = GetPlacementGroupByName H"
  "CreatePlacementGroup (only_placement_group H) = CreatePlacementGroup H"
  "DeletePlacementGroup (only_placement_group H) = DeletePlacementGroup H"
  "GetPrimaryIP (only_primary_ip H) = GetPrimaryIP H"
  "GetPrimaryIPByName (only_primary_ip H) = GetPrimaryIPByName H"
  "CreatePrimaryIP (only_primary_ip H) = CreatePrimaryIP H"
  "DeletePrimaryIP (only_primary_ip H) = DeletePrimaryIP H"
  "UpdatePrimaryIP (only_primary_ip H) = UpdatePrimaryIP H"
  "AssignPrimaryIP (only_primary_ip H) = AssignPrimaryIP H"
  "UnassignPrimaryIP (only_primary_ip H) = UnassignPrimaryIP H"
  "ChangePrimaryIPDNSPtr (only_primary_ip H) = ChangePrimaryIPDNSPtr H"
  "GetFloatingIP (only_floating_ip H) = GetFloatingIP H"
  "GetFloatingIPByName (only_floating_ip H) = GetFloatingIPByName H"
  "CreateFloatingIP (only_floating_ip H) = CreateFloatingIP H"
  "DeleteFloatingIP (only_floating_ip H) = DeleteFloatingIP H"
  "UpdateFloatingIP (only_floating_ip H) = UpdateFloatingIP H"
  "AssignFloatingIP (only_floating_ip H) = AssignFloatingIP H"
  "UnassignFloatingIP (only_floating_ip H) = UnassignFloatingIP H"
  "ChangeFloatingIPDNSPtr (only_floating_ip H) = ChangeFloatingIPDNSPtr H"
  "GetCertificate (only_certificate H) = GetCertificate H"
  "GetCertificateByName (only_certificate H) = GetCertificateByName H"
  "CreateCertificate (only_certificate H) = CreateCertificate H"
  "DeleteCertificate (only_certificate H) = DeleteCertificate H"
  "UpdateCertificate (only_certificate H) = UpdateCertificate H"
  by (simp_all add: only_server_def only_volume_def only_load_balancer_def only_network_def only_firewall_def only_placement_group_def only_primary_ip_def only_floating_ip_def only_certificate_def)

lemma certificates_confined:
  "resolve_certificate L K (only_load_balancer H) = resolve_certificate L K H"
  "add_service L K (only_load_balancer H) = add_service L K H"
proof -
  show r: "resolve_certificate L K (only_load_balancer H) = resolve_certificate L K H"
    by (intro ext) (simp only: resolve_certificate_def only_sels)
  show "add_service L K (only_load_balancer H) = add_service L K H"
    by (intro ext) (simp only: add_service_def resolveCertificateIDs_def r)
qed

lemma zone_confined: "ensure_zone (only_network H) = ensure_zone H"
  by (intro ext) (simp only: ensure_zone_def only_sels)

lemma server_confined: "HCloudServerReconciler L K (only_server H) = HCloudServerReconciler L K H"
  unfolding
    server_Reconcile_def reconcileHCloudServer_def reconcileExistingServer_def
    reconcileServerTypeMismatch_def createHCloudServer_def ensureServerNetworkAttachment_def
    attach_network_def detach_managed_def refresh_server_def deleteHCloudServer_def
    HCloudServerReconciler_def
    only_sels by (rule refl)

lemma volume_confined: "HCloudVolumeReconciler L K (only_volume H) = HCloudVolumeReconciler L K H"
  unfolding
    volume_Reconcile_def reconcileHCloudVolume_def volume_resize_def volume_attach_def
    volume_Delete_def detachVolumeIfAttached_def HCloudVolumeReconciler_def
    only_sels by (rule refl)

lemma load_balancer_confined: "HCloudLoadBalancerReconciler ch L K (only_load_balancer H) = HCloudLoadBalancerReconciler ch L K H"
  unfolding
    lb_Reconcile_def reconcileLoadBalancer_def reconcileLoadBalancerWithServices_def
    loadBalancerServicesFromSpec_def sync_lb_targets_def lb_Delete_def
    HCloudLoadBalancerReconciler_def certificates_confined
    only_sels by (rule refl)

lemma network_confined: "HCloudNetworkReconciler L K (only_network H) = HCloudNetworkReconciler L K H"
  unfolding
    network_Reconcile_def reconcileHCloudNetwork_def create_network_def network_Delete_def
    HCloudNetworkReconciler_def zone_confined
    only_sels by (rule refl)

lemma firewall_confined: "HCloudFirewallReconciler ch L K (only_firewall H) = HCloudFirewallReconciler ch L K H"
  unfolding
    firewall_Reconcile_def reconcileHCloudFirewall_def sync_labels_def sync_rules_def
    sync_targets_def refresh_firewall_def firewall_Delete_def HCloudFirewallReconciler_def
    only_sels by (rule refl)

lemma placement_group_confined: "HCloudPlacementGroupReconciler L K (only_placement_group H) = HCloudPlacementGroupReconciler L K H"
  unfolding
    placement_Reconcile_def reconcileHCloudPlacementGroup_def placement_Delete_def
    HCloudPlacementGroupReconciler_def
    only_sels by (rule refl)

lemma primary_ip_confined: "HCloudPrimaryIPReconciler L K (only_primary_ip H) = HCloudPrimaryIPReconciler L K H"
  unfolding
    primary_ip_Reconcile_def reconcileHCloudPrimaryIP_def ensurePrimaryIPMetadata_def
    ensurePrimaryIPAssignment_def ensurePrimaryIPDNSPtr_def refresh_primary_ip_def
    primary_ip_Delete_def HCloudPrimaryIPReconciler_def
    only_sels by (rule refl)

lemma floating_ip_confined: "HCloudFloatingIPReconciler L K (only_floating_ip H) = HCloudFloatingIPReconciler L K H"
  unfolding
    floating_ip_Reconcile_def reconcileHCloudFloatingIP_def ensureFloatingIPMetadata_def
    ensureFloatingIPAssignment_def ensureFloatingIPDNSPtr_def refresh_floating_ip_def
    floating_ip_Delete_def HCloudFloatingIPReconciler_def
    only_sels by (rule refl)

lemma certificate_confined: "HCloudCertificateReconciler L K (only_certificate H) = HCloudCertificateReconciler L K H"
  unfolding
    cert_Reconcile_def reconcileHCloudCertificate_def ensureCertificateMetadata_def cert_Delete_def
    HCloudCertificateReconciler_def
    only_sels by (rule refl)


section \<open>The tables of the in-memory client\<close>

text \<open>The table of one kind and the next identifier may differ.\<close>

definition same_but_server :: "FakeClient \<Rightarrow> FakeClient \<Rightarrow> bool" where
  "same_but_server f g \<longleftrightarrow> g\<lparr>servers := servers f, nextID := nextID f, LastChangeServerTypeUpgradeDisk := LastChangeServerTypeUpgradeDisk f\<rparr> = f"

definition same_but_volume :: "FakeClient \<Rightarrow> FakeClient \<Rightarrow> bool" where
  "same_but_volume f g \<longleftrightarrow> g\<lparr>volumes := volumes f, nextID := nextID f\<rparr> = f"

definition same_but_load_balancer :: "FakeClient \<Rightarrow> FakeClient \<Rightarrow> bool" where
  "same_but_load_balancer f g \<longleftrightarrow> g\<lparr>loadBalancers := loadBalancers f, nextID := nextID f\<rparr> = f"

definition same_but_network :: "FakeClient \<Rightarrow> FakeClient \<Rightarrow> bool" where
  "same_but_network f g \<longleftrightarrow> g\<lparr>networks := networks f, nextID := nextID f\<rparr> = f"

definition same_but_firewall :: "FakeClient \<Rightarrow> FakeClient \<Rightarrow> bool" where
  "same_but_firewall f g \<longleftrightarrow> g\<lparr>firewalls := firewalls f, nextID := nextID f\<rparr> = f"

definition same_but_placement_group :: "FakeClient \<Rightarrow> FakeClient \<Rightarrow> bool" where
  "same_but_placement_group f g \<longleftrightarrow> g\<lparr>placementGroups := placementGroups f, nextID := nextID f\<rparr> = f"

definition same_but_primary_ip :: "FakeClient \<Rightarrow> FakeClient \<Rightarrow> bool" where
  "same_but_primary_ip f g \<longleftrightarrow> g\<lparr>primaryIPs := primaryIPs f, nextID := nextID f\<rparr> = f"

definition same_but_floating_ip :: "FakeClient \<Rightarrow> FakeClient \<Rightarrow> bool" where
  "same_but_floating_ip f g \<longleftrightarrow> g\<lparr>floatingIPs := floatingIPs f, nextID := nextID f\<rparr> = f"

definition same_but_certificate :: "FakeClient \<Rightarrow> FakeClient \<Rightarrow> bool" where
  "same_but_certificate f g \<longleftrightarrow> g\<lparr>certificates := certificates f, nextID := nextID f\<rparr> = f"

lemma tables_free [simp]:
  "same_but_server f0 (servers_update u1 f) = same_but_server f0 f"
  "same_but_server f0 (nextID_update v f) = same_but_server f0 f"
  "same_but_volume f0 (volumes_update u2 f) = same_but_volume f0 f"
  "same_but_volume f0 (nextID_update v f) = same_but_volume f0 f"
  "same_but_load_balancer f0 (loadBalancers_update u3 f) = same_but_load_balancer f0 f"
  "same_but_load_balancer f0 (nextID_update v f) = same_but_load_balancer f0 f"
  "same_but_network f0 (networks_update u4 f) = same_but_network f0 f"
  "same_but_network f0 (nextID_update v f) = same_but_network f0 f"
  "same_but_firewall f0 (firewalls_update u5 f) = same_but_firewall f0 f"
  "same_but_firewall f0 (nextID_update v f) = same_but_firewall f0 f"
  "same_but_placement_group f0 (placementGroups_update u6 f) = same_but_placement_group f0 f"
  "same_but_placement_group f0 (nextID_update v f) = same_but_placement_group f0 f"
  "same_but_primary_ip f0 (primaryIPs_update u7 f) = same_but_primary_ip f0 f"
  "same_but_primary_ip f0 (nextID_update v f) = same_but_primary_ip f0 f"
  "same_but_floating_ip f0 (floatingIPs_update u8 f) = same_but_floating_ip f0 f"
  "same_but_floating_ip f0 (nextID_update v f) = same_but_floating_ip f0 f"
  "same_but_certificate f0 (certificates_update u9 f) = same_but_certificate f0 f"
  "same_but_certificate f0 (nextID_update v f) = same_but_certificate f0 f"
  "same_but_server f0 (LastChangeServerTypeUpgradeDisk_update w f) = same_but_server f0 f"
  by (simp_all add: same_but_server_def same_but_volume_def same_but_load_balancer_def same_but_network_def
      same_but_firewall_def same_but_placement_group_def same_but_primary_ip_def
      same_but_floating_ip_def same_but_certificate_def)

lemma own_keeps:
  "keeps P (fake_get tbl copy i)" "keeps P (fake_get_by_name ch tbl nm copy n)"
  "(\<And>u f. P (upd u f) = P f) \<Longrightarrow> (\<And>v f. P (nextID_update v f) = P f) \<Longrightarrow> keeps P (fake_create tbl upd nm copy kind chk n mk)"
  "(\<And>u f. P (upd u f) = P f) \<Longrightarrow> keeps P (fake_delete upd i)"
  "(\<And>u f. P (upd u f) = P f) \<Longrightarrow> keeps P (fake_on tbl upd kind i body)"
  by (auto simp: keeps_def fake_get_def fake_get_by_name_def fake_create_def fake_delete_def fake_on_def Let_def
      split: option.split sum.split)

lemma change_type_keeps: "keeps (same_but_server f0) (fake_ChangeServerType i t u)"
  by (rule keepsI) (auto simp: fake_ChangeServerType_def same_but_server_def split: option.split)

lemma delete_volume_keeps: "keeps (same_but_volume f0) (fake_DeleteVolume i)"
  by (rule keepsI) (auto simp: fake_DeleteVolume_def same_but_volume_def split: option.split)

lemmas fake_method_defs = 
  fake_GetServer_def fake_GetServerByName_def fake_CreateServer_def fake_DeleteServer_def
  fake_PowerOffServer_def fake_PowerOnServer_def fake_AttachServerToNetwork_def
  fake_DetachServerFromNetwork_def fake_GetVolume_def fake_GetVolumeByName_def
  fake_CreateVolume_def fake_AttachVolume_def fake_DetachVolume_def fake_ResizeVolume_def
  fake_GetLoadBalancer_def fake_GetLoadBalancerByName_def fake_CreateLoadBalancer_def
  fake_DeleteLoadBalancer_def fake_AttachServerToLoadBalancer_def
  fake_DetachServerFromLoadBalancer_def fake_SyncLoadBalancerServices_def fake_GetNetwork_def
  fake_GetNetworkByName_def fake_CreateNetwork_def fake_DeleteNetwork_def
  fake_AddNetworkCloudSubnet_def fake_GetFirewall_def fake_GetFirewallByName_def
  fake_CreateFirewall_def fake_DeleteFirewall_def fake_UpdateFirewallLabels_def
  fake_SetFirewallRules_def fake_ApplyFirewallResources_def fake_RemoveFirewallResources_def
  fake_GetPlacementGroup_def fake_GetPlacementGroupByName_def fake_CreatePlacementGroup_def
  fake_DeletePlacementGroup_def fake_GetPrimaryIP_def fake_GetPrimaryIPByName_def
  fake_CreatePrimaryIP_def fake_DeletePrimaryIP_def fake_UpdatePrimaryIP_def
  fake_AssignPrimaryIP_def fake_UnassignPrimaryIP_def fake_ChangePrimaryIPDNSPtr_def
  fake_GetFloatingIP_def fake_GetFloatingIPByName_def fake_CreateFloatingIP_def
  fake_DeleteFloatingIP_def fake_UpdateFloatingIP_def fake_AssignFloatingIP_def
  fake_UnassignFloatingIP_def fake_ChangeFloatingIPDNSPtr_def fake_GetCertificate_def
  fake_GetCertificateByName_def fake_CreateCertificate_def fake_DeleteCertificate_def
  fake_UpdateCertificate_def

interpretation server_alone: client_sim "diag (same_but_server f0)" "only_server (fake_client ord)" "only_server (fake_client ord)" for f0 ord
  by unfold_locales (unfold sim_diag_iff, simp_all add: only_server_def closed_client_def keeps_failM fake_method_defs own_keeps change_type_keeps)

interpretation volume_alone: client_sim "diag (same_but_volume f0)" "only_volume (fake_client ord)" "only_volume (fake_client ord)" for f0 ord
  by unfold_locales (unfold sim_diag_iff, simp_all add: only_volume_def closed_client_def keeps_failM fake_method_defs own_keeps delete_volume_keeps)

interpretation load_balancer_alone: client_sim "diag (same_but_load_balancer f0)" "only_load_balancer (fake_client ord)" "only_load_balancer (fake_client ord)" for f0 ord
  by unfold_locales (unfold sim_diag_iff, simp_all add: only_load_balancer_def closed_client_def keeps_failM fake_method_defs own_keeps)

interpretation network_alone: client_sim "diag (same_but_network f0)" "only_network (fake_client ord)" "only_network (fake_client ord)" for f0 ord
  by unfold_locales (unfold sim_diag_iff, simp_all add: only_network_def closed_client_def keeps_failM fake_method_defs own_keeps)

interpretation firewall_alone: client_sim "diag (same_but_firewall f0)" "only_firewall (fake_client ord)" "only_firewall (fake_client ord)" for f0 ord
  by unfold_locales (unfold sim_diag_iff, simp_all add: only_firewall_def closed_client_def keeps_failM fake_method_defs own_keeps)

interpretation placement_group_alone: client_sim "diag (same_but_placement_group f0)" "only_placement_group (fake_client ord)" "only_placement_group (fake_client ord)" for f0 ord
  by unfold_locales (unfold sim_diag_iff, simp_all add: only_placement_group_def closed_client_def keeps_failM fake_method_defs own_keeps)

interpretation primary_ip_alone: client_sim "diag (same_but_primary_ip f0)" "only_primary_ip (fake_client ord)" "only_primary_ip (fake_client ord)" for f0 ord
  by unfold_locales (unfold sim_diag_iff, simp_all add: only_primary_ip_def closed_client_def keeps_failM fake_method_defs own_keeps)

interpretation floating_ip_alone: client_sim "diag (same_but_floating_ip f0)" "only_floating_ip (fake_client ord)" "only_floating_ip (fake_client ord)" for f0 ord
  by unfold_locales (unfold sim_diag_iff, simp_all add: only_floating_ip_def closed_client_def keeps_failM fake_method_defs own_keeps)

interpretation certificate_alone: client_sim "diag (same_but_certificate f0)" "only_certificate (fake_client ord)" "only_certificate (fake_client ord)" for f0 ord
  by unfold_locales (unfold sim_diag_iff, simp_all add: only_certificate_def closed_client_def keeps_failM fake_method_defs own_keeps)

section \<open>Isolation\<close>

text \<open>C5: over the in-memory client a run of any controller, however it ends, changes only the table of
  its own kind: every resource of the other eight kinds is what it was.\<close>

theorem controllers_change_own_table:
  assumes "retry_law L1" and "retry_law L2" and "retry_law L3" and "retry_law L4" and "retry_law L5" and "retry_law L6" and "retry_law L7" and "retry_law L8" and "retry_law L9"
  shows "keeps (\<lambda>s. same_but_server f (cloud s)) (base_Reconcile L1 (KServers K) recorder (HCloudServerReconciler L1 K (fake_client ord)) req)
   \<and> keeps (\<lambda>s. same_but_volume f (cloud s)) (base_Reconcile L2 (KVolumes K) recorder (HCloudVolumeReconciler L2 K (fake_client ord)) req)
   \<and> keeps (\<lambda>s. same_but_load_balancer f (cloud s)) (base_Reconcile L3 (KLoadBalancers K) recorder (HCloudLoadBalancerReconciler ch L3 K (fake_client ord)) req)
   \<and> keeps (\<lambda>s. same_but_network f (cloud s)) (base_Reconcile L4 (KNetworks K) recorder (HCloudNetworkReconciler L4 K (fake_client ord)) req)
   \<and> keeps (\<lambda>s. same_but_firewall f (cloud s)) (base_Reconcile L5 (KFirewalls K) recorder (HCloudFirewallReconciler ch L5 K (fake_client ord)) req)
   \<and> keeps (\<lambda>s. same_but_placement_group f (cloud s)) (base_Reconcile L6 (KPlacementGroups K) recorder (HCloudPlacementGroupReconciler L6 K (fake_client ord)) req)
   \<and> keeps (\<lambda>s. same_but_primary_ip f (cloud s)) (base_Reconcile L7 (KPrimaryIPs K) recorder (HCloudPrimaryIPReconciler L7 K (fake_client ord)) req)
   \<and> keeps (\<lambda>s. same_but_floating_ip f (cloud s)) (base_Reconcile L8 (KFloatingIPs K) recorder (HCloudFloatingIPReconciler L8 K (fake_client ord)) req)
   \<and> keeps (\<lambda>s. same_but_certificate f (cloud s)) (base_Reconcile L9 (KCertificates K) recorder (HCloudCertificateReconciler L9 K (fake_client ord)) req)"
  unfolding rst_rel_diag[symmetric]
  by (intro conjI base_server_sim[OF server_alone.client_sim_axioms, unfolded server_confined]
      base_volume_sim[OF volume_alone.client_sim_axioms, unfolded volume_confined]
      base_lb_sim[OF load_balancer_alone.client_sim_axioms, unfolded load_balancer_confined]
      base_network_sim[OF network_alone.client_sim_axioms, unfolded network_confined]
      base_firewall_sim[OF firewall_alone.client_sim_axioms, unfolded firewall_confined]
      base_placement_sim[OF placement_group_alone.client_sim_axioms, unfolded placement_group_confined]
      base_primary_ip_sim[OF primary_ip_alone.client_sim_axioms, unfolded primary_ip_confined]
      base_floating_ip_sim[OF floating_ip_alone.client_sim_axioms, unfolded floating_ip_confined]
      base_cert_sim[OF certificate_alone.client_sim_axioms, unfolded certificate_confined]
      assms lib_rel_self)

lemma same_but_self: "same_but_server f f" "same_but_volume f f" "same_but_network f f"
  by (simp_all add: same_but_server_def same_but_volume_def same_but_network_def)

theorem controllers_change_own_table_witness:
  "volumes (cloud (snd (base_Reconcile sample_lib (KServers sample_api) True sample_resource sample_req
     (sample_world sample_server (NewFakeClient\<lparr>volumes := [(7, new_volume (volume_opts NewHCloudVolume 0) 7)]\<rparr>)))))
   = [(7, new_volume (volume_opts NewHCloudVolume 0) 7)]"
proof -
  let ?f = "NewFakeClient\<lparr>volumes := [(7, new_volume (volume_opts NewHCloudVolume 0) 7)]\<rparr>"
  have "same_but_server ?f (cloud (snd (base_Reconcile sample_lib (KServers sample_api) True sample_resource sample_req
      (sample_world sample_server ?f))))"
    by (rule keepsD[OF controllers_change_own_table[OF sample_lib_ok(2) sample_lib_ok(2) sample_lib_ok(2) sample_lib_ok(2)
        sample_lib_ok(2) sample_lib_ok(2) sample_lib_ok(2) sample_lib_ok(2) sample_lib_ok(2), THEN conjunct1]])
      (simp add: same_but_self)
  then show ?thesis by (auto simp: same_but_server_def dest: arg_cong[of _ _ volumes])
qed

end
