(* ===== verification/Tracking.thy ===== *)
theory Tracking
  imports Outcomes Isolation
begin

text \<open>
  Which resources of the in-memory cloud are accounted for: a resource is when the object of its name
  is stored with its finalizer and with the identifier of the resource in its status. A run of the base
  reconciler keeps every resource of its kind accounted for, for the kinds whose reconciler records the
  identifier of a new resource before anything else can fail.
\<close>

section \<open>Resources by name\<close>

definition bears :: "(FakeClient \<Rightarrow> (int64, 'i) gomap) \<Rightarrow> ('i \<Rightarrow> string) \<Rightarrow> FakeClient \<Rightarrow> string \<Rightarrow> int64 \<Rightarrow> bool" where
  "bears tbl nm f n i \<longleftrightarrow> (\<exists>v. map_of (tbl f) i = Some v \<and> nm v = n)"

text \<open>A call that keeps the invariant of the client and adds no resource.\<close>

definition shrinks :: "(FakeClient \<Rightarrow> (int64, 'i) gomap) \<Rightarrow> ('i \<Rightarrow> string) \<Rightarrow> (FakeClient, 'a) prog \<Rightarrow> bool" where
  "shrinks tbl nm m \<longleftrightarrow> (\<forall>f. fake_wf f \<longrightarrow> fake_wf (snd (m f)) \<and> (\<forall>n i. bears tbl nm (snd (m f)) n i \<longrightarrow> bears tbl nm f n i))"

lemma shrinksI:
  "keeps fake_wf m \<Longrightarrow> (\<And>f n i. fake_wf f \<Longrightarrow> bears tbl nm (snd (m f)) n i \<Longrightarrow> bears tbl nm f n i) \<Longrightarrow> shrinks tbl nm m"
  by (simp add: shrinks_def keeps_def)

lemma shrinksD:
  "shrinks tbl nm m \<Longrightarrow> fake_wf f \<Longrightarrow> fake_wf (snd (m f))"
  "shrinks tbl nm m \<Longrightarrow> fake_wf f \<Longrightarrow> bears tbl nm (snd (m f)) n i \<Longrightarrow> bears tbl nm f n i"
  unfolding shrinks_def by blast+

text \<open>A call that returns or fails.\<close>

definition calm :: "('s, 'a) prog \<Rightarrow> bool" where
  "calm m \<longleftrightarrow> (\<forall>s p. fst (m s) \<noteq> Panic p)"

lemma calmD: "calm m \<Longrightarrow> m s = (Panic p, s') \<Longrightarrow> False"
  unfolding calm_def by (metis fst_conv)

named_theorems calm_intros

lemma calm_basic [calm_intros]:
  "calm (ret x)" "calm (failM e)" "calm (getM f)" "calm (updStatus g)" "calm (setCondition L t st reason msg)"
  by (simp_all add: calm_def updStatus_def setCondition_def)

lemma calm_bindM [calm_intros]: "calm m \<Longrightarrow> (\<And>x. calm (f x)) \<Longrightarrow> calm (bindM m f)"
  by (auto simp: calm_def bindM_run split: prod.split res.split) (metis fst_conv)+

lemma calm_wrapM [calm_intros]: "calm m \<Longrightarrow> calm (wrapM p m)"
  by (auto simp: calm_def wrapM_run split: prod.split res.split) (metis fst_conv)+

lemma calm_tryM [calm_intros]: "calm m \<Longrightarrow> (\<And>e. calm (h e)) \<Longrightarrow> (\<And>x. calm (f x)) \<Longrightarrow> calm (tryM m h f)"
  by (auto simp: calm_def tryM_run split: prod.split res.split) (metis fst_conv)+

lemma calm_foldM [calm_intros]: "(\<And>b x. calm (f b x)) \<Longrightarrow> calm (foldM xs f b)"
  by (induction xs arbitrary: b) (auto intro!: calm_intros)

lemma calm_cases [calm_intros]:
  "calm m \<Longrightarrow> calm n \<Longrightarrow> calm (if b then m else n)"
  "calm m \<Longrightarrow> (\<And>x. calm (f x)) \<Longrightarrow> calm (case opt of None \<Rightarrow> m | Some x \<Rightarrow> f x)"
  "(\<And>x y. calm (h x y)) \<Longrightarrow> calm (case pr of (x, y) \<Rightarrow> h x y)"
  by (auto split: option.split prod.split)

lemma calm_onCloud [calm_intros]: "calm m \<Longrightarrow> calm (onCloud m)"
  by (auto simp: calm_def onCloud_def split: prod.split) (metis fst_conv)+

lemma calm_onKube [calm_intros]: "calm m \<Longrightarrow> calm (onKube m)"
  by (auto simp: calm_def onKube_def split: prod.split) (metis fst_conv)+

lemma calm_fake [calm_intros]:
  "calm (fake_get tbl copy i)" "calm (fake_get_by_name ch tbl nm copy n)"
  "calm (fake_create tbl upd nm copy kind check name mk)" "calm (fake_delete upd i)" "calm (fake_on tbl upd kind i body)"
  by (auto simp: calm_def fake_get_def fake_get_by_name_def fake_create_def fake_delete_def fake_on_def Let_def
      split: option.split sum.split)

context fake_table
begin

lemma named_nonzero: "fake_wf f \<Longrightarrow> \<not> bears tbl nm f n 0"
  using table_ok_lookup[OF tbl_wf] by (fastforce simp: bears_def)

lemma get_shrinks: "shrinks tbl nm (fake_get tbl copy k)"
  by (rule shrinksI[OF get_keeps]) (auto simp: fake_get_def split: option.splits)

lemma by_name_shrinks: "shrinks tbl nm (fake_get_by_name ch tbl nm copy n)"
  by (rule shrinksI[OF by_name_keeps]) (auto simp: fake_get_by_name_def split: option.splits)

lemma on_shrinks:
  assumes "\<And>f i i'. body f i = Inr i' \<Longrightarrow> idf i' = idf i \<and> nm i' = nm i"
  shows "shrinks tbl nm (fake_on tbl upd kd k body)"
proof (rule shrinksI[OF on_keeps])
  show "\<And>f i i'. body f i = Inr i' \<Longrightarrow> idf i' = idf i \<and> nm i' = nm i" by (rule assms)
  fix f n i assume "bears tbl nm (snd (fake_on tbl upd kd k body f)) n i"
  then show "bears tbl nm f n i"
    using assms by (auto simp: bears_def fake_on_def tbl_upd update_conv' split: option.splits sum.splits if_splits)
qed

lemma delete_shrinks: "shrinks tbl nm (fake_delete upd k)"
  by (rule shrinksI[OF delete_keeps])
     (auto simp: bears_def fake_delete_def tbl_upd delete_conv' split: option.splits if_splits)

lemma deleted_gone: "fake_delete upd k f = (Ok (), f') \<Longrightarrow> \<not> bears tbl nm f' n k"
  by (auto simp: bears_def fake_delete_def tbl_upd delete_conv' split: option.splits)

text \<open>The lookup of a reconcile, when no resource of the name has an identifier other than the recorded.\<close>

lemma find_tracked:
  assumes wf: "fake_wf f" and own: "\<And>j. bears tbl nm f n j \<Longrightarrow> j = i"
    and run: "find_existing (fake_get tbl copy) (fake_get_by_name ch tbl nm copy) w i n f = (r, f')"
  shows "f' = f" and "r = Ok (Some e) \<Longrightarrow> idf e = i" and "r = Ok None \<Longrightarrow> \<not> bears tbl nm f n j"
proof -
  have 0: "\<not> bears tbl nm f n 0" by (rule named_nonzero[OF wf])
  let ?m = "find (\<lambda>v. nm v = n) (map snd (shuffle ch (tbl f)))"
  have d: "distinct (map fst (tbl f))" using tbl_wf[OF wf] by (simp add: table_ok_def)
  have hit: "bears tbl nm f n (idf v)" if "?m = Some v" for v
  proof -
    have "v \<in> snd ` set (tbl f)" "nm v = n"
      using that by (auto simp: find_Some_iff) (metis length_map length_shuffle nth_mem set_map set_shuffle nth_map image_eqI)
    then obtain k where k: "map_of (tbl f) k = Some v" using d by force
    then have "idf v = k" using table_ok_lookup[OF tbl_wf[OF wf] k] by simp
    then show ?thesis using k \<open>nm v = n\<close> by (auto simp: bears_def)
  qed
  have miss: "\<not> bears tbl nm f n j" if "?m = None" for j
    using that by (auto simp: find_None_iff bears_def dest!: map_of_SomeD)
  show "f' = f"
    using run by (auto simp: find_existing_def fake_get_def fake_get_by_name_def bindM_run wrapM_run split: option.splits if_splits)
  show "idf e = i" if found: "r = Ok (Some e)"
  proof (cases "i \<noteq> 0 \<and> map_of (tbl f) i \<noteq> None")
    case True
    then obtain v where v: "map_of (tbl f) i = Some v" by blast
    then have "e = copy v" using True run found
      by (auto simp: find_existing_def fake_get_def bindM_run wrapM_run split: option.splits if_splits)
    then show ?thesis using table_ok_lookup[OF tbl_wf[OF wf] v] copy_frame by simp
  next
    case False
    then obtain v where "?m = Some v" "e = copy v" using run found
      by (auto simp: find_existing_def fake_get_def fake_get_by_name_def bindM_run wrapM_run split: option.splits if_splits)
    then show ?thesis using own hit copy_frame by simp
  qed
  show "\<not> bears tbl nm f n j" if "r = Ok None"
  proof -
    have "?m = None" using run that
      by (auto simp: find_existing_def fake_get_def fake_get_by_name_def bindM_run wrapM_run split: option.splits if_splits)
    then show ?thesis by (rule miss)
  qed
qed

lemma create_tracked:
  assumes wf: "fake_wf f" and run: "fake_create tbl upd nm copy kind (check opts) (oname opts) (mk opts) f = (r, f')"
  shows "fake_wf f'" and "(\<forall>x. r \<noteq> Ok x) \<Longrightarrow> f' = f"
    and "r = Ok x \<Longrightarrow> bears tbl nm f' m j \<Longrightarrow> bears tbl nm f m j \<or> m = oname opts \<and> j = idf x"
proof -
  show "fake_wf f'" using keepsD[OF create_keeps wf] run by (metis snd_conv)
  show "f' = f" if "\<forall>x. r \<noteq> Ok x"
    using run that by (auto simp: fake_create_def Let_def split: option.splits if_splits)
  show "bears tbl nm f m j \<or> m = oname opts \<and> j = idf x" if "r = Ok x" "bears tbl nm f' m j"
    using run that mk_ok copy_frame
    by (auto simp: fake_create_def Let_def bears_def tbl_upd tbl_nextID update_conv' split: option.splits if_splits)
qed

end


section \<open>Accounted for\<close>

text \<open>The object of the name carries the finalizer and the identifier.\<close>

definition belongs :: "('st \<Rightarrow> int64) \<Rightarrow> string \<Rightarrow> (NamespacedName \<Rightarrow> ('spec, 'st) kobject option) \<Rightarrow> string \<Rightarrow> int64 \<Rightarrow> bool" where
  "belongs ident fin sto n j \<longleftrightarrow> (\<exists>y. sto (cluster_key n) = Some y \<and> fin \<in> set (Finalizers y) \<and> ident (Status y) = j)"

text \<open>Every resource belongs to the stored object of its name, which carries the finalizer and the
  identifier of the resource.\<close>

definition accounted :: "(FakeClient \<Rightarrow> (int64, 'i) gomap) \<Rightarrow> ('i \<Rightarrow> string) \<Rightarrow> ('st \<Rightarrow> int64)
    \<Rightarrow> ('k \<Rightarrow> NamespacedName \<Rightarrow> ('spec, 'st) kobject option) \<Rightarrow> string \<Rightarrow> FakeClient \<Rightarrow> 'k \<Rightarrow> bool" where
  "accounted tbl nm ident store fin f k \<longleftrightarrow> (\<forall>i v. map_of (tbl f) i = Some v \<longrightarrow>
     belongs ident fin (store k) (nm v) i)"

definition cluster_scoped :: "('k \<Rightarrow> NamespacedName \<Rightarrow> 'o option) \<Rightarrow> 'k \<Rightarrow> bool" where
  "cluster_scoped store k \<longleftrightarrow> (\<forall>r y. store k r = Some y \<longrightarrow> nn_Namespace r = '''')"

definition in_order :: "(FakeClient \<Rightarrow> (int64, 'i) gomap) \<Rightarrow> ('i \<Rightarrow> string) \<Rightarrow> ('st \<Rightarrow> int64)
    \<Rightarrow> ('k \<Rightarrow> NamespacedName \<Rightarrow> ('spec, 'st) kobject option) \<Rightarrow> string \<Rightarrow> FakeClient \<Rightarrow> 'k \<Rightarrow> bool" where
  "in_order tbl nm ident store fin f k \<longleftrightarrow> fake_wf f \<and> cluster_scoped store k \<and> accounted tbl nm ident store fin f k"

lemma accounted_named:
  "accounted tbl nm ident store fin f k \<longleftrightarrow> (\<forall>n i. bears tbl nm f n i \<longrightarrow> belongs ident fin (store k) n i)"
  by (auto simp: accounted_def bears_def)

lemma scoped_key: "cluster_scoped store k \<Longrightarrow> store k r = Some y \<Longrightarrow> cluster_key (nn_Name r) = r"
  by (cases r) (auto simp: cluster_scoped_def cluster_key_def)

lemma key_name [simp]: "nn_Name (cluster_key n) = n" "cluster_key m = cluster_key n \<longleftrightarrow> m = n"
  by (auto simp: cluster_key_def)

text \<open>The resource named \<open>n\<close>, if there is one, has the identifier \<open>i\<close>, and the others are in \<open>N\<close>.\<close>

definition names_in :: "(FakeClient \<Rightarrow> (int64, 'i) gomap) \<Rightarrow> ('i \<Rightarrow> string) \<Rightarrow> string \<Rightarrow> int64
    \<Rightarrow> (string \<Rightarrow> int64 \<Rightarrow> bool) \<Rightarrow> FakeClient \<Rightarrow> bool" where
  "names_in tbl nm n i N f \<longleftrightarrow> (\<forall>m j. bears tbl nm f m j \<longrightarrow> (if m = n then j = i else N m j))"

definition elsewhere :: "('r \<Rightarrow> 'o) \<Rightarrow> 'r \<Rightarrow> ('r \<Rightarrow> 'o) \<Rightarrow> bool" where
  "elsewhere sto req st \<longleftrightarrow> (\<forall>r. r \<noteq> req \<longrightarrow> st r = sto r)"

lemma elsewhere_simps [simp]: "elsewhere st req st" "elsewhere sto req (st(req := y)) = elsewhere sto req st"
  by (auto simp: elsewhere_def)

lemma names_shrink:
  "names_in tbl nm n i N f \<Longrightarrow> (\<And>m j. bears tbl nm f' m j \<Longrightarrow> bears tbl nm f m j) \<Longrightarrow> names_in tbl nm n i N f'"
  unfolding names_in_def by blast

lemma names_inD: "names_in tbl nm n i N f \<Longrightarrow> bears tbl nm f n j \<Longrightarrow> j = i"
  unfolding names_in_def by (metis (full_types))

text \<open>In the middle of a run on the request \<open>req\<close>: the resource of its name, if there is one, has the
  identifier \<open>i\<close> that the object in memory carries, and everything else is as it was.\<close>

definition holding :: "(FakeClient \<Rightarrow> (int64, 'i) gomap) \<Rightarrow> ('i \<Rightarrow> string) \<Rightarrow> ('st \<Rightarrow> int64)
    \<Rightarrow> ('k \<Rightarrow> NamespacedName \<Rightarrow> ('spec, 'st) kobject option) \<Rightarrow> string \<Rightarrow> NamespacedName \<Rightarrow> int64
    \<Rightarrow> (string \<Rightarrow> int64 \<Rightarrow> bool) \<Rightarrow> (NamespacedName \<Rightarrow> ('spec, 'st) kobject option)
    \<Rightarrow> (FakeClient, 'k, ('spec, 'st) kobject) rst \<Rightarrow> bool" where
  "holding tbl nm ident store fin req i N sto s \<longleftrightarrow> fake_wf (cloud s) \<and> names_in tbl nm (nn_Name req) i N (cloud s)
     \<and> key_of (obj s) = req \<and> ident (Status (obj s)) = i
     \<and> (\<exists>y. store (kube s) req = Some y \<and> fin \<in> set (Finalizers y)) \<and> elsewhere sto req (store (kube s))"

text \<open>The stored object carries the identifier.\<close>

definition recorded :: "('st \<Rightarrow> int64) \<Rightarrow> ('k \<Rightarrow> NamespacedName \<Rightarrow> ('spec, 'st) kobject option)
    \<Rightarrow> NamespacedName \<Rightarrow> int64 \<Rightarrow> 'k \<Rightarrow> bool" where
  "recorded ident store req i k \<longleftrightarrow> (\<exists>y. store k req = Some y \<and> ident (Status y) = i)"

definition holds_recorded :: "(FakeClient \<Rightarrow> (int64, 'i) gomap) \<Rightarrow> ('i \<Rightarrow> string) \<Rightarrow> ('st \<Rightarrow> int64)
    \<Rightarrow> ('k \<Rightarrow> NamespacedName \<Rightarrow> ('spec, 'st) kobject option) \<Rightarrow> string \<Rightarrow> NamespacedName \<Rightarrow> int64
    \<Rightarrow> (string \<Rightarrow> int64 \<Rightarrow> bool) \<Rightarrow> (NamespacedName \<Rightarrow> ('spec, 'st) kobject option)
    \<Rightarrow> (FakeClient, 'k, ('spec, 'st) kobject) rst \<Rightarrow> bool" where
  "holds_recorded tbl nm ident store fin req i N sto s \<longleftrightarrow> holding tbl nm ident store fin req i N sto s
     \<and> recorded ident store req i (kube s)"

lemma onCloud_snd: "snd (onCloud m s) = s\<lparr>cloud := snd (m (cloud s))\<rparr>"
  by (simp add: onCloud_def split: prod.split)

lemma holding_cloud [inv_intros]:
  assumes "shrinks tbl nm m"
  shows "keeps (holding tbl nm ident store fin req i N sto) (onCloud m)"
    "keeps (holds_recorded tbl nm ident store fin req i N sto) (onCloud m)"
proof -
  have move: "holding tbl nm ident store fin req i N sto (s\<lparr>cloud := snd (m (cloud s))\<rparr>)"
    if s: "holding tbl nm ident store fin req i N sto s" for s
  proof -
    have wf: "fake_wf (cloud s)" and ns: "names_in tbl nm (nn_Name req) i N (cloud s)"
      using s by (simp_all add: holding_def)
    show ?thesis using s shrinksD(1)[OF assms wf] names_shrink[OF ns shrinksD(2)[OF assms wf]] by (simp add: holding_def)
  qed
  show "keeps (holding tbl nm ident store fin req i N sto) (onCloud m)"
    by (rule keepsI) (simp only: onCloud_snd move)
  show "keeps (holds_recorded tbl nm ident store fin req i N sto) (onCloud m)"
    by (rule keepsI) (simp add: onCloud_snd holds_recorded_def move)
qed

lemma holding_status:
  assumes "\<And>u. ident (g u) = ident u"
  shows "keeps (holding tbl nm ident store fin req i N sto) (updStatus g)"
    "keeps (holds_recorded tbl nm ident store fin req i N sto) (updStatus g)"
  using assms by (simp_all add: keeps_def holds_recorded_def holding_def updStatus_def)

lemma holding_ident:
  assumes "holding tbl nm ident store fin req i N sto s" "\<And>u. ident (g u) = i"
  shows "holding tbl nm ident store fin req i N sto (snd (updStatus g s))"
  using assms by (simp add: holding_def updStatus_def)

lemma holding_condition:
  assumes "\<And>u cs. ident (u\<lparr>Conditions := cs\<rparr>) = ident u"
  shows "keeps (holding tbl nm ident store fin req i N sto) (setCondition L t st reason msg)"
    "keeps (holds_recorded tbl nm ident store fin req i N sto) (setCondition L t st reason msg)"
  unfolding setCondition_def by (rule holding_status; simp add: assms)+

text \<open>What a client only reads with.\<close>

definition gets_only :: "('k, 'o) kclient \<Rightarrow> bool" where
  "gets_only K \<longleftrightarrow> (\<forall>nn k. (\<exists>x. KGet K nn k = (Ok x, k)) \<or> (\<exists>e. KGet K nn k = (Err e, k)))"

definition reads_only :: "'k kube_api \<Rightarrow> bool" where
  "reads_only A \<longleftrightarrow> gets_only (KServers A) \<and> gets_only (KNetworks A) \<and> gets_only (KPlacementGroups A)"

lemma api_gets_only: "api_law nf cf store K \<Longrightarrow> gets_only K"
  unfolding gets_only_def by (metis get_only_reads)

lemma gets_calm [calm_intros]: "gets_only K \<Longrightarrow> calm (onKube (KGet K nn))"
  unfolding calm_def gets_only_def onKube_def by (metis (no_types, lifting) fst_conv old.prod.case res.distinct(5) res.distinct(3))

lemma gets_keep: "gets_only K \<Longrightarrow> keeps P (onKube (KGet K nn))"
  unfolding keeps_def gets_only_def onKube_def
  by (metis (mono_tags, lifting) old.prod.case snd_conv rst.surjective rst.update_convs(2))

text \<open>The status write of the controllers: it succeeds, and the identifier is recorded from then on.\<close>

lemma persist_holding:
  assumes "retry_law L" "api_law nf (IsConflict L) store K" "holding tbl nm ident store fin req i N sto s"
  obtains k' where "persist_status L K s = (Ok (), s\<lparr>kube := k'\<rparr>)" "holds_recorded tbl nm ident store fin req i N sto (s\<lparr>kube := k'\<rparr>)"
proof -
  obtain cur where cur: "store (kube s) (key_of (obj s)) = Some cur" using assms(3) by (auto simp: holding_def)
  obtain k' rv where "persist_status L K s = (Ok (), s\<lparr>kube := k'\<rparr>)"
      "store k' = (store (kube s))(key_of (obj s) \<mapsto> cur\<lparr>Status := Status (obj s), ResourceVersion := rv\<rparr>)"
    using persist_status_ok[OF assms(1,2) cur] by metis
  then show thesis using assms(3) cur that by (auto simp: holding_def holds_recorded_def recorded_def)
qed

lemma persist_keeps:
  assumes "retry_law L" "api_law nf (IsConflict L) store K"
  shows "keeps (holds_recorded tbl nm ident store fin req i N sto) (persist_status L K)"
    "keeps (holding tbl nm ident store fin req i N sto) (persist_status L K)"
  by (rule keepsI, metis assms holds_recorded_def persist_holding snd_conv)+


section \<open>A run of the base reconciler\<close>

locale tracked_kind = resource_contract L A R
  for L :: "((FakeClient, 'k, ('spec, 'x status_base_scheme) kobject) rst) lib" and A :: "'k kube_api"
    and R :: "((FakeClient, 'k, ('spec, 'x status_base_scheme) kobject) rst, ('spec, 'x status_base_scheme) kobject) Resource" +
  fixes Kc :: "'k kube_api \<Rightarrow> ('k, ('spec, 'x status_base_scheme) kobject) kclient"
    and tbl :: "FakeClient \<Rightarrow> (int64, 'i) gomap" and nm :: "'i \<Rightarrow> string"
    and ident :: "'x status_base_scheme \<Rightarrow> int64"
  assumes conditions_apart: "ident (u\<lparr>Conditions := cs\<rparr>) = ident u"
    and tracks: "lib_ok L \<Longrightarrow> api_law (IsNotFound L) (IsConflict L) store (Kc A) \<Longrightarrow> reads_only A
      \<Longrightarrow> holds_recorded tbl nm ident store (FinalizerName R) req i N sto s \<Longrightarrow> Reconcile R s = (r, s')
      \<Longrightarrow> \<exists>i'. holding tbl nm ident store (FinalizerName R) req i' N sto s' \<and> ((\<exists>p. r = Panic p) \<longrightarrow> recorded ident store req i' (kube s'))"
    and delete_tracks: "fake_wf (cloud s) \<Longrightarrow> names_in tbl nm (Name (obj s)) (ident (Status (obj s))) N (cloud s)
      \<Longrightarrow> Delete R s = (q, s') \<Longrightarrow> fake_wf (cloud s') \<and> names_in tbl nm (Name (obj s)) (ident (Status (obj s))) N (cloud s')
        \<and> (q = Ok () \<longrightarrow> (\<forall>j. \<not> bears tbl nm (cloud s') (Name (obj s)) j))"

begin

abbreviation order :: "('k \<Rightarrow> NamespacedName \<Rightarrow> ('spec, 'x status_base_scheme) kobject option) \<Rightarrow> FakeClient \<Rightarrow> 'k \<Rightarrow> bool" where
  "order store f k \<equiv> in_order tbl nm ident store (FinalizerName R) f k"

text \<open>What a run leaves: the object of the request is as it must be, or its resource is gone.\<close>

lemma order_left:
  assumes "fake_wf f" "names_in tbl nm (nn_Name req) i (belongs ident (FinalizerName R) (sto)) f"
    and "cluster_key (nn_Name req) = req" "\<forall>r y. sto r = Some y \<longrightarrow> nn_Namespace r = ''''" "elsewhere sto req (store k)"
    and "(\<forall>j. \<not> bears tbl nm f (nn_Name req) j) \<or> (\<exists>y. store k req = Some y \<and> FinalizerName R \<in> set (Finalizers y) \<and> ident (Status y) = i)"
  shows "order store f k"
  unfolding in_order_def accounted_named
proof (intro conjI allI impI)
  have req: "nn_Namespace req = ''''" by (metis assms(3) cluster_key_def NamespacedName.select_convs(1))
  show "cluster_scoped store k"
    unfolding cluster_scoped_def using assms(4,5) req by (metis elsewhere_def)
  fix n j assume n: "bears tbl nm f n j"
  show "belongs ident (FinalizerName R) (store k) n j"
  proof (cases "n = nn_Name req")
    case True
    then show ?thesis using n assms(3,6) names_inD[OF assms(2)] unfolding belongs_def by metis
  next
    case False
    then have "cluster_key n \<noteq> req" using assms(3) key_name by metis
    then show ?thesis using n False assms(2,5) unfolding names_in_def elsewhere_def belongs_def by metis
  qed
qed (rule assms(1))

lemma order_names:
  assumes "order store f k" "store k req = Some x"
  shows "names_in tbl nm (nn_Name req) (ident (Status x))
     (belongs ident (FinalizerName R) (store k)) f"
    and "cluster_key (nn_Name req) = req" "\<forall>r y. store k r = Some y \<longrightarrow> nn_Namespace r = ''''"
proof -
  show key: "cluster_key (nn_Name req) = req" using assms scoped_key by (metis in_order_def)
  show "\<forall>r y. store k r = Some y \<longrightarrow> nn_Namespace r = ''''" using assms(1) by (simp add: in_order_def cluster_scoped_def)
  show "names_in tbl nm (nn_Name req) (ident (Status x))
     (belongs ident (FinalizerName R) (store k)) f"
    using assms key unfolding names_in_def in_order_def accounted_named belongs_def by (metis option.inject)
qed

lemma domain_order:
  assumes laws: "lib_ok L" "api_law (IsNotFound L) (IsConflict L) store (Kc A)" "reads_only A"
    and ord: "order store (cloud s) (kube s)" and x: "store (kube s) req = Some x" "DeletionTimestamp x = None"
      "FinalizerName R \<in> set (Finalizers x)"
    and run: "base_Reconcile L (Kc A) recorder R req s = (r, s')"
  shows "order store (cloud s') (kube s')"
proof -
  let ?N = "belongs ident (FinalizerName R) (store (kube s))"
  note ns = order_names[OF ord x(1)]
  have key: "key_of x = req" by (rule api_key[OF laws(2) x(1)])
  have wf: "fake_wf (cloud s)" using ord by (simp add: in_order_def)
  have start: "holds_recorded tbl nm ident store (FinalizerName R) req (ident (Status x)) ?N (store (kube s)) (s\<lparr>obj := x\<rparr>)"
    using ns(1) key wf x by (simp add: holds_recorded_def holding_def recorded_def)
  obtain q s2 where q: "Reconcile R (s\<lparr>obj := x\<rparr>) = (q, s2)" by force
  obtain i where h: "holding tbl nm ident store (FinalizerName R) req i ?N (store (kube s)) s2"
    and rec: "(\<exists>p. q = Panic p) \<longrightarrow> recorded ident store req i (kube s2)" using tracks[OF laws start q] by blast
  obtain cur where cur: "store (kube s2) req = Some cur" "FinalizerName R \<in> set (Finalizers cur)"
    and h2: "fake_wf (cloud s2)" "names_in tbl nm (nn_Name req) i ?N (cloud s2)" "elsewhere (store (kube s)) req (store (kube s2))"
      "ident (Status (obj s2)) = i"
    using h by (auto simp: holding_def)
  have fin: "order store (cloud s') (kube s')"
    if c: "cloud s' = cloud s2" and k: "elsewhere (store (kube s)) req (store (kube s'))"
      and y: "\<exists>y. store (kube s') req = Some y \<and> FinalizerName R \<in> set (Finalizers y) \<and> ident (Status y) = i" for s' :: "(FakeClient, 'k, ('spec, 'x status_base_scheme) kobject) rst"
    unfolding c using order_left[where store = store and k = "kube s'", OF h2(1,2) ns(2,3) k] y by blast
  have idy: "ident (Status y) = i" if "y = cur\<lparr>Status := (Status (obj s2))\<lparr>Conditions := cs\<rparr>, ResourceVersion := v\<rparr>" for y cs v
    using that h2(4) by (simp add: conditions_apart)
  show ?thesis
  proof (cases q)
    case (Ok res)
    obtain s1 y where b: "base_Reconcile L (Kc A) recorder R req s = (Ok res, s1)" "cloud s1 = cloud s2"
        "store (kube s1) = (store (kube s2))(req \<mapsto> y)"
        "y = cur\<lparr>Status := (Status (obj s2))\<lparr>Conditions := Conditions (Status y)\<rparr>, ResourceVersion := ResourceVersion y\<rparr>"
      using base_success[OF laws(1,2) x q[unfolded Ok] cur(1), of recorder] by blast
    have "Finalizers y = Finalizers cur" by (subst b(4)) simp
    then show ?thesis using fin[of s1] b(1-3) run cur(2) h2(3) idy[OF b(4)] by simp
  next
    case (Err e)
    obtain s1 y where b: "base_Reconcile L (Kc A) recorder R req s = (Err e, s1)" "cloud s1 = cloud s2"
        "store (kube s1) = (store (kube s2))(req \<mapsto> y)"
        "y = cur\<lparr>Status := (Status (obj s2))\<lparr>Conditions := Conditions (Status y)\<rparr>, ResourceVersion := ResourceVersion y\<rparr>"
      using base_error[OF laws(1,2) x q[unfolded Err] cur(1), of recorder] by blast
    have "Finalizers y = Finalizers cur" by (subst b(4)) simp
    then show ?thesis using fin[of s1] b(1-3) run cur(2) h2(3) idy[OF b(4)] by simp
  next
    case (Panic p)
    then have "recorded ident store req i (kube s2)" using rec by blast
    moreover have "s' = s2"
      using run x laws(1) q Panic by (simp add: base_fetch[OF laws(2) x(1)] base_domain_def tryM_run lib_ok_def finalizers_law_def)
    ultimately show ?thesis using fin[of s2] cur h2(3) by (simp add: recorded_def)
  qed
qed

lemma delete_order:
  assumes laws: "lib_ok L" "api_law (IsNotFound L) (IsConflict L) store (Kc A)"
    and ord: "order store (cloud s) (kube s)" and x: "store (kube s) req = Some x" "DeletionTimestamp x \<noteq> None"
      "FinalizerName R \<in> set (Finalizers x)"
    and run: "base_Reconcile L (Kc A) recorder R req s = (r, s')"
  shows "order store (cloud s') (kube s')"
proof -
  let ?N = "belongs ident (FinalizerName R) (store (kube s))"
  note ns = order_names[OF ord x(1)]
  have key: "key_of x = req" by (rule api_key[OF laws(2) x(1)])
  then have name: "Name x = nn_Name req" by (auto simp: key_of_def)
  have wf: "fake_wf (cloud s)" using ord by (simp add: in_order_def)
  have has: "ContainsFinalizer L (Finalizers x) (FinalizerName R)" using laws(1) x(3) by (simp add: lib_ok_def finalizers_law_def)
  obtain q s2 where q: "Delete R (s\<lparr>obj := x\<rparr>) = (q, s2)" by force
  have s2: "fake_wf (cloud s2)" "names_in tbl nm (nn_Name req) (ident (Status x)) ?N (cloud s2)"
      "q = Ok () \<Longrightarrow> \<forall>j. \<not> bears tbl nm (cloud s2) (nn_Name req) j"
    using delete_tracks[of "s\<lparr>obj := x\<rparr>" ?N q s2] ns(1) wf q by (simp_all add: name)
  have kb: "kube s2 = kube s" using delete_same_kube[of "s\<lparr>obj := x\<rparr>"] q by simp
  have left: "order store (cloud s') (kube s')"
    if "cloud s' = cloud s2" "elsewhere (store (kube s)) req (store (kube s'))" "kube s' = kube s \<or> q = Ok ()"
    for s' :: "(FakeClient, 'k, ('spec, 'x status_base_scheme) kobject) rst"
    unfolding that(1) using order_left[where store = store and k = "kube s'", OF s2(1,2) ns(2,3) that(2)] that(3) s2(3) x by auto
  show ?thesis
  proof (cases q)
    case (Ok u)
    obtain v where v: "obj s2 = x\<lparr>Status := v\<rparr>" using delete_same_obj[of "s\<lparr>obj := x\<rparr>"] q by auto
    define z where "z = x\<lparr>Status := v, Finalizers := RemoveFinalizer L (Finalizers x) (FinalizerName R)\<rparr>"
    have z: "obj s2\<lparr>Finalizers := RemoveFinalizer L (Finalizers (obj s2)) (FinalizerName R)\<rparr> = z" by (simp add: v z_def)
    have "store (kube s) (key_of z) = Some x" "ResourceVersion z = ResourceVersion x" using x(1) key by (simp_all add: z_def)
    then obtain k' rv where w: "KUpdate (Kc A) z (kube s) = (Ok (stored_update x z rv), k')"
      "store k' = (store (kube s))(key_of z := if DeletionTimestamp x \<noteq> None \<and> Finalizers z = [] then None else Some (stored_update x z rv))"
      using api_update_Some[OF laws(2)] by metis
    have "cloud s' = cloud s2 \<and> kube s' = k'"
      using run x q Ok has w(1) kb
      by (cases recorder) (auto simp: base_fetch[OF laws(2) x(1)] base_delete_def tryM_run base_update_def base_event_def wrapM_run z)
    moreover have "elsewhere (store (kube s)) req (store k')" using w(2) key by (simp add: z_def)
    ultimately show ?thesis using Ok by (intro left) simp_all
  next
    case (Err e)
    have "cloud s' = cloud s2 \<and> kube s' = kube s"
      using run x q Err has kb
      by (cases recorder) (auto simp: base_fetch[OF laws(2) x(1)] base_delete_def tryM_run base_event_def)
    then show ?thesis by (intro left) simp_all
  next
    case (Panic p)
    have "cloud s' = cloud s2 \<and> kube s' = kube s"
      using run x q Panic has kb by (simp_all add: base_fetch[OF laws(2) x(1)] base_delete_def tryM_run)
    then show ?thesis by (intro left) simp_all
  qed
qed

lemma base_order:
  assumes laws: "lib_ok L" "api_law (IsNotFound L) (IsConflict L) store (Kc A)" "reads_only A"
    and ord: "order store (cloud s) (kube s)" and run: "base_Reconcile L (Kc A) recorder R req s = (r, s')"
  shows "order store (cloud s') (kube s')"
proof (cases "store (kube s) req")
  case None
  then obtain e where "KGet (Kc A) req (kube s) = (Err e, kube s)" "IsNotFound L e"
    using laws(2) unfolding api_law_def by metis
  then have "s' = s\<lparr>obj := NewObject R\<rparr>" using run by (auto simp: base_Reconcile_def tryM_run)
  then show ?thesis using ord by simp
next
  case (Some x)
  have fl: "finalizers_law L" using laws(1) by (simp add: lib_ok_def)
  show ?thesis
  proof (cases "FinalizerName R \<in> set (Finalizers x)")
    case True
    then show ?thesis using domain_order[OF laws ord Some _ True run] delete_order[OF laws(1,2) ord Some _ True run] by blast
  next
    case False
    show ?thesis
    proof (cases "DeletionTimestamp x")
      case None
      obtain s1 y where b: "base_Reconcile L (Kc A) recorder R req s = (Ok \<lparr> Requeue = True, RequeueAfter = 0 \<rparr>, s1)"
          "cloud s1 = cloud s" "store (kube s1) = (store (kube s))(req \<mapsto> y)" "set (Finalizers y) = insert (FinalizerName R) (set (Finalizers x))" "Status y = Status x"
        using base_first_touch[OF fl laws(2) Some None False, of recorder] by blast
      note ns = order_names[OF ord Some]
      have "order store (cloud s) (kube s1)"
        by (rule order_left[where store = store and k = "kube s1", OF _ ns]) (use ord b in \<open>auto simp: in_order_def\<close>)
      then show ?thesis using b run by simp
    next
      case (Some d)
      have "s' = s\<lparr>obj := x\<rparr>"
        using run Some False fl by (auto simp: base_fetch[OF laws(2) \<open>store (kube s) req = Some x\<close>] base_delete_def finalizers_law_def)
      then show ?thesis using ord by simp
    qed
  qed
qed

end

end
