(* ===== verification/TrackedKinds.thy ===== *)
theory TrackedKinds
  imports Tracking
begin

text \<open>
  The four kinds whose reconcilers record the identifier of a new resource at once: servers,
  networks, firewalls and placement groups. Only the server controller can panic, and only when the
  identifier is stored already.
\<close>

section \<open>How a run ends\<close>

definition tracked_end :: "(FakeClient \<Rightarrow> (int64, 'i) gomap) \<Rightarrow> ('i \<Rightarrow> string) \<Rightarrow> ('st \<Rightarrow> int64)
    \<Rightarrow> ('k \<Rightarrow> NamespacedName \<Rightarrow> ('spec, 'st) kobject option) \<Rightarrow> string \<Rightarrow> NamespacedName
    \<Rightarrow> (string \<Rightarrow> int64 \<Rightarrow> bool) \<Rightarrow> (NamespacedName \<Rightarrow> ('spec, 'st) kobject option)
    \<Rightarrow> 'a res \<times> (FakeClient, 'k, ('spec, 'st) kobject) rst \<Rightarrow> bool" where
  "tracked_end tbl nm ident store fin req N sto out \<longleftrightarrow> (\<exists>i. holding tbl nm ident store fin req i N sto (snd out)
     \<and> ((\<exists>p. fst out = Panic p) \<longrightarrow> recorded ident store req i (kube (snd out))))"

lemma end_calm:
  assumes "keeps (holding tbl nm ident store fin req i N sto) m" "calm m" "holding tbl nm ident store fin req i N sto s"
  shows "tracked_end tbl nm ident store fin req N sto (m s)"
  using keepsD[OF assms(1,3)] assms(2) unfolding tracked_end_def calm_def by metis

lemma end_recorded:
  assumes "keeps (holds_recorded tbl nm ident store fin req i N sto) m" "holds_recorded tbl nm ident store fin req i N sto s"
  shows "tracked_end tbl nm ident store fin req N sto (m s)"
  using keepsD[OF assms] unfolding tracked_end_def holds_recorded_def by metis

lemma end_bindM:
  assumes "\<And>x. calm (f x)" "\<And>x. keeps (\<lambda>s. tracked_end tbl nm ident store fin req N sto (Ok (), s)) (f x)"
    and "tracked_end tbl nm ident store fin req N sto (m s)"
  shows "tracked_end tbl nm ident store fin req N sto (bindM m f s)"
proof (cases "m s")
  case (Pair r s1)
  show ?thesis
  proof (cases r)
    case (Ok x)
    then have "tracked_end tbl nm ident store fin req N sto (Ok (), s1)" using assms(3) Pair by (simp add: tracked_end_def)
    then have "tracked_end tbl nm ident store fin req N sto (Ok (), snd (f x s1))" by (rule keepsD[OF assms(2)])
    moreover have "\<nexists>p. fst (f x s1) = Panic p" using assms(1) unfolding calm_def by blast
    ultimately show ?thesis using Pair Ok by (simp add: tracked_end_def)
  qed (use assms(3) Pair in \<open>simp_all add: tracked_end_def bindM_run\<close>)
qed

lemma end_ret: "tracked_end tbl nm ident store fin req N sto (m s) \<Longrightarrow> tracked_end tbl nm ident store fin req N sto (bindM m (\<lambda>_. ret y) s)"
  by (rule end_bindM) (auto intro: calm_intros keeps_ret)

lemma holding_set:
  assumes "\<And>u. ident (g u) = i"
  shows "keeps (holding tbl nm ident store fin req i N sto) (updStatus g)"
    "keeps (holds_recorded tbl nm ident store fin req i N sto) (updStatus g)"
  using assms by (simp_all add: keeps_def holds_recorded_def holding_def updStatus_def)

lemma getM_bind: "bindM (getM g) f s = f (g s) s"
  by simp

context fake_table
begin

lemma find_holding:
  assumes h: "holding tbl nm ident store fin req i N sto s"
    and run: "find_existing (\<lambda>j. onCloud (fake_get tbl copy j)) (\<lambda>n. onCloud (fake_get_by_name ch tbl nm copy n)) w i (nn_Name req) s = (r, s')"
  shows "s' = s" "r = Ok (Some e) \<Longrightarrow> idf e = i" "r = Ok None \<Longrightarrow> \<not> bears tbl nm (cloud s) (nn_Name req) j"
proof -
  obtain f' where f: "find_existing (fake_get tbl copy) (fake_get_by_name ch tbl nm copy) w i (nn_Name req) (cloud s) = (r, f')"
      "s' = s\<lparr>cloud := f'\<rparr>"
    using run unfolding onCloud_find by (auto simp: onCloud_def split: prod.splits)
  have wf: "fake_wf (cloud s)" and ns: "names_in tbl nm (nn_Name req) i N (cloud s)" using h by (simp_all add: holding_def)
  note fs = find_tracked[OF wf names_inD[OF ns] f(1)]
  show "s' = s" "r = Ok (Some e) \<Longrightarrow> idf e = i" "r = Ok None \<Longrightarrow> \<not> bears tbl nm (cloud s) (nn_Name req) j"
    using fs f(2) by simp_all
qed

text \<open>A creation whose identifier goes into the status next, and steps that keep it there.\<close>

lemma create_holding:
  assumes h: "holding tbl nm ident store fin req i N sto s" and free: "\<And>j. \<not> bears tbl nm (cloud s) (nn_Name req) j"
    and nm: "oname opts = nn_Name req" and g: "\<And>x u. ident (g x u) = idf x"
    and m: "\<And>x. calm (m x)" "\<And>x. keeps (holding tbl nm ident store fin req (idf x) N sto) (m x)"
  shows "tracked_end tbl nm ident store fin req N sto
    (bindM (wrapM w (onCloud (fake_create tbl upd nm copy kind (check opts) (oname opts) (mk opts)))) (\<lambda>x. bindM (updStatus (g x)) (\<lambda>_. m x)) s)"
proof -
  obtain r f where c: "fake_create tbl upd nm copy kind (check opts) (oname opts) (mk opts) (cloud s) = (r, f)" by force
  have wf: "fake_wf (cloud s)" and ns: "names_in tbl nm (nn_Name req) i N (cloud s)" using h by (simp_all add: holding_def)
  note ct = create_tracked[OF wf c]
  show ?thesis
  proof (cases r)
    case (Ok x)
    have "names_in tbl nm (nn_Name req) (idf x) N f"
      unfolding names_in_def using ct(3)[OF Ok] free nm ns unfolding names_in_def by metis
    then have "holding tbl nm ident store fin req (idf x) N sto (snd (updStatus (g x) (s\<lparr>cloud := f\<rparr>)))"
      using h ct(1) g by (simp add: holding_def updStatus_def)
    from end_calm[OF m(2) m(1) this] show ?thesis
      using c Ok by (simp add: bindM_run wrapM_run onCloud_def updStatus_def)
  next
    case (Err e)
    then have "f = cloud s" using ct(2) by simp
    then show ?thesis using c Err h by (auto simp: bindM_run wrapM_run onCloud_def tracked_end_def)
  next
    case (Panic p)
    then show ?thesis using calm_fake(3) c unfolding calm_def by (metis fst_conv)
  qed
qed

lemma get_gives:
  "gives (holding tbl nm ident store fin req i N sto) (onCloud (fake_get tbl copy j)) (\<lambda>r. case r of None \<Rightarrow> True | Some v \<Rightarrow> idf v = j)"
  "gives (holds_recorded tbl nm ident store fin req i N sto) (onCloud (fake_get tbl copy j)) (\<lambda>r. case r of None \<Rightarrow> True | Some v \<Rightarrow> idf v = j)"
  using table_ok_lookup[OF tbl_wf] copy_frame
  by (auto simp: gives_def onCloud_def fake_get_def holding_def holds_recorded_def split: option.splits prod.splits)

lemma by_name_none:
  assumes "fake_wf f" "\<And>j. \<not> bears tbl nm f n j"
  shows "(\<exists>e. fake_get_by_name ch tbl nm copy n f = (Err e, f)) \<or> fake_get_by_name ch tbl nm copy n f = (Ok None, f)"
proof -
  have "find (\<lambda>v. nm v = n) (map snd (shuffle ch (tbl f))) = None"
  proof (rule ccontr)
    assume "find (\<lambda>v. nm v = n) (map snd (shuffle ch (tbl f))) \<noteq> None"
    then obtain v where v: "v \<in> snd ` set (tbl f)" "nm v = n" by (auto simp: find_None_iff)
    have "distinct (map fst (tbl f))" using tbl_wf[OF assms(1)] by (simp add: table_ok_def)
    then show False using v assms(2) by (force simp: bears_def)
  qed
  then show ?thesis by (auto simp: fake_get_by_name_def split: option.split)
qed

text \<open>A lookup and what follows it in the two cases.\<close>

lemma found_end:
  assumes h: "holding tbl nm ident store fin req i N sto s"
    and c: "(\<And>j. \<not> bears tbl nm (cloud s) (nn_Name req) j) \<Longrightarrow> tracked_end tbl nm ident store fin req N sto (C s)"
    and e: "\<And>g. idf g = i \<Longrightarrow> tracked_end tbl nm ident store fin req N sto (E g s)"
  shows "tracked_end tbl nm ident store fin req N sto (bindM (find_existing (\<lambda>j. onCloud (fake_get tbl copy j))
      (\<lambda>n. onCloud (fake_get_by_name ch tbl nm copy n)) w i (nn_Name req)) (\<lambda>x. case x of None \<Rightarrow> C | Some g \<Rightarrow> E g) s)"
proof -
  let ?f = "find_existing (\<lambda>j. onCloud (fake_get tbl copy j)) (\<lambda>n. onCloud (fake_get_by_name ch tbl nm copy n)) w i (nn_Name req)"
  obtain r s1 where f: "?f s = (r, s1)" by force
  note fh = find_holding[OF h f]
  show ?thesis
  proof (cases r)
    case (Ok x)
    then show ?thesis using f fh c e by (cases x) simp_all
  next
    case (Err er)
    then show ?thesis using f fh(1) h by (auto simp: tracked_end_def)
  next
    case (Panic p)
    have "calm ?f" unfolding find_existing_def by (intro calm_intros)
    then show ?thesis using f Panic calmD by metis
  qed
qed

end

text \<open>Status writes never panic.\<close>

lemma calm_attempts: "calm m \<Longrightarrow> calm (attempts again n m)"
proof (induction again n m rule: attempts.induct)
  case (3 again n m)
  have "calm (if again e then attempts again (Suc n) m else failM e)" for e
    using 3 by (simp add: calm_basic)
  then show ?case using 3(2) by (simp add: calm_tryM calm_basic)
qed (auto intro: calm_intros)

lemma persist_calm:
  assumes "retry_law L" "api_law nf cf store K"
  shows "calm (persist_status L K)"
proof -
  have g: "calm (onKube (KGet K key))" for key by (rule gets_calm[OF api_gets_only[OF assms(2)]])
  have "\<exists>r. (\<forall>p. fst r \<noteq> Panic p) \<and> KStatusUpdate K x k = r" for x k
  proof (cases "store k (key_of x)")
    case None
    then show ?thesis using api_status_missing[OF assms(2) None] by (metis fst_conv res.distinct(5))
  next
    case (Some cur)
    then show ?thesis using api_status_Some[OF assms(2) Some] api_status_stale[OF assms(2) Some]
      by (metis fst_conv res.distinct(3,5))
  qed
  then have "calm (KStatusUpdate K x)" for x by (metis calm_def)
  then show ?thesis unfolding persist_status_def assms(1)[unfolded retry_law_def, rule_format]
    by (intro calm_intros calm_attempts g)
qed

section \<open>Placement groups\<close>

text \<open>The name of the object is that of the request.\<close>

lemma holding_obj:
  "holding tbl nm ident store fin req i N sto s \<Longrightarrow> Name (obj s) = nn_Name req"
  "holding tbl nm ident store fin req i N sto s \<Longrightarrow> ident (Status (obj s)) = i"
  by (auto simp: holding_def key_of_def)

lemma recorded_holding:
  "holds_recorded tbl nm ident store fin req i N sto s \<Longrightarrow> holding tbl nm ident store fin req i N sto s"
  by (simp add: holds_recorded_def)

lemma placement_tracks:
  assumes "holds_recorded placementGroups pg_Name pgs_PlacementGroupID store fin req i N sto s"
  shows "tracked_end placementGroups pg_Name pgs_PlacementGroupID store fin req N sto (placement_Reconcile L (fake_client ord) s)"
proof -
  note h = recorded_holding[OF assms]
  have cond: "keeps (holding placementGroups pg_Name pgs_PlacementGroupID store fin req j N sto) (setCondition L t st rs msg)"
    for j t st rs msg by (rule holding_condition) simp
  have "tracked_end placementGroups pg_Name pgs_PlacementGroupID store fin req N sto (reconcileHCloudPlacementGroup L (fake_client ord) s)"
    unfolding reconcileHCloudPlacementGroup_def getM_bind holding_obj[OF h] fake_client_sel fake_GetPlacementGroup_def
      fake_GetPlacementGroupByName_def fake_CreatePlacementGroup_def
    by (intro placement_group_store.found_end[OF h] placement_group_store.create_holding[OF h] end_calm[OF _ _ h]
        keeps_bindM holding_set cond calm_intros)
       (simp_all add: placement_opts_def holding_obj[OF h])
  then show ?thesis unfolding placement_Reconcile_def by (rule end_ret)
qed

section \<open>Firewalls\<close>

lemma end_first:
  assumes "keeps (holding tbl nm ident store fin req i N sto) m" "calm m" "holding tbl nm ident store fin req i N sto s"
    and "\<And>x s1. holding tbl nm ident store fin req i N sto s1 \<Longrightarrow> tracked_end tbl nm ident store fin req N sto (f x s1)"
  shows "tracked_end tbl nm ident store fin req N sto (bindM m f s)"
proof (cases "m s")
  case (Pair r s1)
  have s1: "holding tbl nm ident store fin req i N sto s1" using keepsD[OF assms(1,3)] Pair by simp
  show ?thesis
  proof (cases r)
    case (Ok x)
    then show ?thesis using assms(4)[OF s1] Pair by simp
  next
    case (Err e)
    then show ?thesis using s1 Pair by (auto simp: tracked_end_def)
  next
    case (Panic p)
    then show ?thesis using assms(2) Pair calmD by metis
  qed
qed

named_theorems shrink_intros

lemma firewall_shrinks [shrink_intros]:
  "shrinks firewalls fw_Name (fake_GetFirewall x)" "shrinks firewalls fw_Name (fake_UpdateFirewallLabels x l)"
  "shrinks firewalls fw_Name (fake_SetFirewallRules x rs)" "shrinks firewalls fw_Name (fake_ApplyFirewallResources x a)"
  "shrinks firewalls fw_Name (fake_RemoveFirewallResources x a)"
  unfolding fake_GetFirewall_def fake_UpdateFirewallLabels_def fake_SetFirewallRules_def fake_ApplyFirewallResources_def
    fake_RemoveFirewallResources_def
  by (rule firewall_store.get_shrinks firewall_store.on_shrinks; auto simp: Let_def split: if_splits option.splits)+

lemma firewall_calm [calm_intros]:
  "calm (fake_GetFirewall x)" "calm (fake_UpdateFirewallLabels x l)" "calm (fake_SetFirewallRules x rs)"
  "calm (fake_ApplyFirewallResources x a)" "calm (fake_RemoveFirewallResources x a)"
  unfolding fake_GetFirewall_def fake_UpdateFirewallLabels_def fake_SetFirewallRules_def fake_ApplyFirewallResources_def
    fake_RemoveFirewallResources_def
  by (rule calm_fake)+

lemma desired_reads:
  assumes "gets_only (KServers A)"
  shows "keeps P (desiredApplyResources A)" "calm (desiredApplyResources A)"
  unfolding desiredApplyResources_def add_server_target_def Let_def
  by (intro keeps_bindM keeps_getM keeps_foldM keeps_wrapM keeps_if keeps_option keeps_ret gets_keep[OF assms] keeps_pair,
      intro calm_intros gets_calm[OF assms])

lemma firewall_sync_keeps:
  "keeps (holding firewalls fw_Name ident store fin req i N sto) (sync_labels (fake_client ord) l f)"
  "keeps (holding firewalls fw_Name ident store fin req i N sto) (sync_rules (fake_client ord) rs f)"
  "keeps (holding firewalls fw_Name ident store fin req i N sto) (sync_targets ch (fake_client ord) a f)"
  "calm (sync_labels (fake_client ord) l f)" "calm (sync_rules (fake_client ord) rs f)" "calm (sync_targets ch (fake_client ord) a f)"
  unfolding sync_labels_def sync_rules_def sync_targets_def refresh_firewall_def fake_client_sel Let_def
  by (intro keeps_if keeps_bindM keeps_wrapM keeps_ret holding_cloud shrink_intros keeps_pair | intro calm_intros)+

lemma firewall_tracks:
  assumes "reads_only A" "holds_recorded firewalls fw_Name fws_FirewallID store fin req i N sto s"
  shows "tracked_end firewalls fw_Name fws_FirewallID store fin req N sto (firewall_Reconcile ch L A (fake_client ord) s)"
proof -
  note h = recorded_holding[OF assms(2)]
  have g: "gets_only (KServers A)" using assms(1) by (simp add: reads_only_def)
  have cond: "keeps (holding firewalls fw_Name fws_FirewallID store fin req j N sto) (setCondition L t st rs msg)"
    for j t st rs msg by (rule holding_condition) simp
  have "tracked_end firewalls fw_Name fws_FirewallID store fin req N sto (reconcileHCloudFirewall ch L A (fake_client ord) s)"
    unfolding reconcileHCloudFirewall_def Let_def getM_bind holding_obj[OF h]
  proof (rule end_first[OF desired_reads[OF g] h])
    fix d s1 assume h1: "holding firewalls fw_Name fws_FirewallID store fin req i N sto s1"
    show "tracked_end firewalls fw_Name fws_FirewallID store fin req N sto (bindM (find_existing (\<lambda>i. onCloud (GetFirewall (fake_client ord) i)) (\<lambda>n. onCloud (GetFirewallByName (fake_client ord) n)) ''firewall'' i (nn_Name req))
       (\<lambda>existing. case existing of None \<Rightarrow>
         bindM (wrapM ''create Hetzner firewall'' (onCloud (CreateFirewall (fake_client ord) (firewall_opts (obj s) (firewallRulesFromSpec (fwp_Rules (Spec (obj s)))) d)))) (\<lambda>created.
         bindM (updStatus (\<lambda>u. u\<lparr>fws_FirewallID := fw_ID created\<rparr>)) (\<lambda>_.
         setCondition L conditionTypeReady ConditionTrue ''FirewallCreated'' ''Firewall created in Hetzner Cloud''))
     | Some existing \<Rightarrow>
         bindM (updStatus (\<lambda>u. u\<lparr>fws_FirewallID := fw_ID existing\<rparr>)) (\<lambda>_.
         bindM (sync_labels (fake_client ord) (fwp_Labels (Spec (obj s))) existing) (\<lambda>existing.
         bindM (sync_rules (fake_client ord) (firewallRulesFromSpec (fwp_Rules (Spec (obj s)))) existing) (\<lambda>existing.
         bindM (sync_targets ch (fake_client ord) d existing) (\<lambda>_.
         setCondition L conditionTypeReady ConditionTrue ''FirewallReady'' ''Firewall rules and attachments are in sync''))))) s1)"
      unfolding fake_client_sel fake_GetFirewall_def fake_GetFirewallByName_def fake_CreateFirewall_def
      by (intro firewall_store.found_end[OF h1] firewall_store.create_holding[OF h1] end_calm[OF _ _ h1]
          keeps_bindM holding_set cond calm_intros firewall_sync_keeps)
         (simp_all add: firewall_opts_def holding_obj[OF h])
  qed
  then show ?thesis unfolding firewall_Reconcile_def by (rule end_ret)
qed

section \<open>Networks\<close>

lemma gives_foldM:
  "(\<And>b x. Q b \<Longrightarrow> gives P (f b x) Q) \<Longrightarrow> Q b \<Longrightarrow> gives P (foldM xs f b) Q"
proof (induction xs arbitrary: b)
  case (Cons x xs)
  then show ?case using gives_bindM[of P "f b x" Q "foldM xs f" Q] by simp
qed (simp add: gives_ret)

lemma gives_mono: "gives P m Q \<Longrightarrow> (\<And>x. Q x \<Longrightarrow> Q' x) \<Longrightarrow> gives P m Q'"
  unfolding gives_def by blast

lemma gives_if: "gives P m Q \<Longrightarrow> gives P n Q \<Longrightarrow> gives P (if b then m else n) Q"
  by simp

lemma gives_first: "keeps P m \<Longrightarrow> (\<And>x. gives P (f x) Q) \<Longrightarrow> gives P (bindM m f) Q"
  by (rule gives_bindM[OF keeps_gives])

lemma bindM_option: "bindM (case x of None \<Rightarrow> m | Some y \<Rightarrow> ret y) f = (case x of None \<Rightarrow> bindM m f | Some y \<Rightarrow> f y)"
  by (cases x) simp_all

lemma network_shrinks [shrink_intros]:
  "shrinks networks net_Name (fake_GetNetwork x)" "shrinks networks net_Name (fake_AddNetworkCloudSubnet x z)"
  unfolding fake_GetNetwork_def fake_AddNetworkCloudSubnet_def
  by (rule network_store.get_shrinks network_store.on_shrinks; auto split: if_splits)+

lemma network_calm [calm_intros]: "calm (fake_GetNetwork x)" "calm (fake_AddNetworkCloudSubnet x z)"
  unfolding fake_GetNetwork_def fake_AddNetworkCloudSubnet_def by (rule calm_fake)+

lemma zone_steps:
  "net_ID n = i \<Longrightarrow> gives (holding networks net_Name ident store fin req i N sto) (ensure_zone (fake_client ord) n z) (\<lambda>n. net_ID n = i)"
  "calm (ensure_zone (fake_client ord) n z)"
proof -
  assume n: "net_ID n = i"
  have "gives (holding networks net_Name ident store fin req i N sto) (wrapM w (onCloud (fake_GetNetwork (net_ID n))))
      (\<lambda>r. case r of None \<Rightarrow> True | Some v \<Rightarrow> net_ID v = i)" for w
    unfolding n fake_GetNetwork_def by (rule gives_wrapM[OF network_store.get_gives(1)])
  from gives_bindM[OF this, of _ "\<lambda>n. net_ID n = i"]
  have *: "(\<And>r. (case r of None \<Rightarrow> True | Some v \<Rightarrow> net_ID v = i) \<Longrightarrow> gives (holding networks net_Name ident store fin req i N sto) (f r) (\<lambda>n. net_ID n = i))
    \<Longrightarrow> gives (holding networks net_Name ident store fin req i N sto) (bindM (wrapM w (onCloud (fake_GetNetwork (net_ID n)))) f) (\<lambda>n. net_ID n = i)" for f w
    by blast
  show "gives (holding networks net_Name ident store fin req i N sto) (ensure_zone (fake_client ord) n z) (\<lambda>n. net_ID n = i)"
    unfolding ensure_zone_def fake_client_sel
    by (rule gives_if[OF gives_ret gives_first[OF keeps_wrapM[OF holding_cloud(1)[OF network_shrinks(2)]] *]])
       (auto simp: n intro: gives_ret gives_failM split: option.splits)
next
  show "calm (ensure_zone (fake_client ord) n z)"
    unfolding ensure_zone_def fake_client_sel by (intro calm_intros)
qed

lemma network_tracks:
  assumes "retry_law L" "api_law nf (IsConflict L) store (KNetworks A)"
    and "holds_recorded networks net_Name nws_NetworkID store fin req i N sto s"
  shows "tracked_end networks net_Name nws_NetworkID store fin req N sto (network_Reconcile L A (fake_client ord) s)"
proof -
  note h = recorded_holding[OF assms(3)]
  have cond: "keeps (holding networks net_Name nws_NetworkID store fin req j N sto) (setCondition L t st rs msg)"
    for j t st rs msg by (rule holding_condition) simp
  let ?rest = "\<lambda>n. bindM (foldM (nw_NetworkZones (Spec (obj s))) (ensure_zone (fake_client ord)) n) (\<lambda>existing.
     bindM (updStatus (\<lambda>u. u\<lparr>nws_NetworkID := net_ID existing, nws_IPRange := net_IPRange existing,
         nws_SubnetZones := sort (net_SubnetZones existing)\<rparr>)) (\<lambda>_.
     setCondition L conditionTypeReady ConditionTrue ''NetworkReady'' ''Private network is provisioned''))"
  have rest: "keeps (holding networks net_Name nws_NetworkID store fin req j N sto) (?rest n)" if "net_ID n = j" for j n
    by (rule keeps_from[OF gives_foldM[OF zone_steps(1)]], assumption, rule that, intro keeps_bindM holding_set cond) simp
  have calm: "calm (?rest n)" for n by (intro calm_intros zone_steps(2))
  have "tracked_end networks net_Name nws_NetworkID store fin req N sto (reconcileHCloudNetwork L A (fake_client ord) s)"
    unfolding reconcileHCloudNetwork_def getM_bind holding_obj[OF h]
    unfolding bindM_option create_network_def bindM_assoc bindM_ret_left fake_client_sel fake_CreateNetwork_def updateNetworkStatusWithRetry_def fake_GetNetwork_def fake_GetNetworkByName_def
  proof (rule network_store.found_end[OF h], unfold getM_bind)
    show "tracked_end networks net_Name nws_NetworkID store fin req N sto (?rest g s)" if "net_ID g = i" for g
      using end_calm[OF rest[OF that] calm h] .
  qed (rule network_store.create_holding[OF h]; (intro calm_intros keeps_bindM keeps_wrapM cond persist_keeps[OF assms(1,2)] persist_calm[OF assms(1,2)] rest calm)?;
      simp add: network_opts_def holding_obj[OF h])
  then show ?thesis unfolding network_Reconcile_def by (rule end_ret)
qed

section \<open>Servers\<close>

lemma server_shrinks [shrink_intros]:
  "shrinks servers srv_Name (fake_GetServer x)" "shrinks servers srv_Name (fake_PowerOffServer x)"
  "shrinks servers srv_Name (fake_PowerOnServer x)" "shrinks servers srv_Name (fake_AttachServerToNetwork x y)"
  "shrinks servers srv_Name (fake_DetachServerFromNetwork x y)"
  unfolding fake_GetServer_def fake_PowerOffServer_def fake_PowerOnServer_def fake_AttachServerToNetwork_def
    fake_DetachServerFromNetwork_def
  by (rule server_store.get_shrinks server_store.on_shrinks; auto split: if_splits)+

lemma change_type_shrinks [shrink_intros]: "shrinks servers srv_Name (fake_ChangeServerType x y z)"
  by (rule shrinksI[OF ChangeServerType_keeps])
     (auto simp: fake_ChangeServerType_def bears_def update_conv' split: option.splits if_splits)

lemma get_server_gives:
  "gives (holds_recorded servers srv_Name ident store fin req i N sto) (wrapM w (onCloud (fake_GetServer i))) (\<lambda>r. case r of None \<Rightarrow> True | Some v \<Rightarrow> srv_ID v = i)"
  unfolding fake_GetServer_def by (rule gives_wrapM[OF server_store.get_gives(2)])

lemma server_condition:
  "keeps (holds_recorded tbl nm svs_ServerID store fin req i N sto) (setCondition L t st rs msg)"
  by (rule holding_condition) simp

lemma apply_keeps:
  "(case v of None \<Rightarrow> True | Some s \<Rightarrow> srv_ID s = i) \<Longrightarrow>
   keeps (holds_recorded tbl nm svs_ServerID store fin req i N sto) (applyServerStatus v)"
  by (auto simp: applyServerStatus_def keeps_panicM intro!: holding_set(2) split: option.split)

lemma resize_keeps:
  assumes "retry_law L" "api_law nf (IsConflict L) store (KServers A)" "case v of None \<Rightarrow> True | Some s \<Rightarrow> srv_ID s = i"
  shows "keeps (holds_recorded tbl nm svs_ServerID store fin req i N sto) (resize_step L A v rs msg)"
  unfolding resize_step_def updateServerStatusWithRetry_def
  by (intro keeps_bindM keeps_ret server_condition persist_keeps[OF assms(1,2)] apply_keeps assms(3))

lemma sync_keeps:
  assumes "retry_law L" "api_law nf (IsConflict L) store (KServers A)" "srv_ID s = i"
  shows "keeps (holds_recorded tbl nm svs_ServerID store fin req i N sto) (syncStatus L A s)"
  unfolding syncStatus_def updateServerStatusWithRetry_def Let_def
  by (intro keeps_bindM keeps_if keeps_getM keeps_ret server_condition persist_keeps[OF assms(1,2)] apply_keeps holding_status)
     (simp_all add: assms(3))

lemma resolve_reads:
  assumes "gets_only (KPlacementGroups A)"
  shows "keeps P (resolvePlacementGroupID A)" "calm (resolvePlacementGroupID A)"
  unfolding resolvePlacementGroupID_def
  by (intro keeps_bindM keeps_getM keeps_wrapM keeps_if keeps_option keeps_ret keeps_failM gets_keep[OF assms],
      intro calm_intros gets_calm[OF assms])

lemma group_keeps:
  assumes "retry_law L" "api_law nf (IsConflict L) store (KServers A)" "gets_only (KPlacementGroups A)"
  shows "keeps (holds_recorded tbl nm svs_ServerID store fin req i N sto) (syncPlacementGroupStatus L A s)"
  unfolding syncPlacementGroupStatus_def updateServerStatusWithRetry_def
  by (intro keeps_bindM keeps_if keeps_option keeps_getM keeps_ret server_condition persist_keeps[OF assms(1,2)] holding_status
      resolve_reads[OF assms(3)]) simp_all

lemma mismatch_keeps:
  assumes "retry_law L" "api_law nf (IsConflict L) store (KServers A)" "srv_ID s = i"
  shows "keeps (holds_recorded servers srv_Name svs_ServerID store fin req i N sto) (reconcileServerTypeMismatch L A (fake_client ord) s)"
proof -
  have re: "keeps (holds_recorded servers srv_Name svs_ServerID store fin req i N sto)
      (bindM (wrapM w (onCloud (fake_GetServer i))) (\<lambda>s2. resize_step L A s2 rs msg))" for w rs msg
    by (rule keeps_from[OF get_server_gives resize_keeps[OF assms(1,2)]])
  have rs: "keeps (holds_recorded servers srv_Name svs_ServerID store fin req i N sto) (resize_step L A (Some s) rs msg)" for rs msg
    by (rule resize_keeps[OF assms(1,2)]) (simp add: assms(3))
  show ?thesis
    unfolding reconcileServerTypeMismatch_def Let_def fake_client_sel assms(3)
    by (rule re rs keeps_getM keeps_if keeps_failM holding_cloud(2) shrink_intros keeps_bindM)+
qed

text \<open>The network steps hand on the server, refreshed under the same identifier.\<close>

lemma refresh_gives:
  assumes "srv_ID s = i"
  shows "gives (holds_recorded servers srv_Name svs_ServerID store fin req i N sto) (refresh_server (fake_client ord) w s) (\<lambda>s. srv_ID s = i)"
  unfolding refresh_server_def fake_client_sel assms
  by (rule gives_bindM[OF get_server_gives], rule gives_ret) (simp add: assms split: option.splits)

lemma detach_gives:
  assumes "srv_ID s = i"
  shows "gives (holds_recorded servers srv_Name svs_ServerID store fin req i N sto) (detach_managed (fake_client ord) w s) (\<lambda>s. srv_ID s = i)"
  unfolding detach_managed_def Let_def
  by (intro gives_first[OF keeps_getM] gives_first[OF keeps_wrapM] gives_bindM[OF refresh_gives[OF assms]] gives_first[OF holding_status(2)] gives_ret)
     (simp_all add: holding_cloud shrink_intros)

lemma attach_gives:
  assumes "srv_ID s = i"
  shows "gives (holds_recorded servers srv_Name svs_ServerID store fin req i N sto) (attach_network L (fake_client ord) n b s) (\<lambda>(c, s). srv_ID s = i)"
  unfolding attach_network_def
  by (intro gives_first[OF keeps_wrapM] gives_bindM[OF refresh_gives[OF assms]] gives_first[OF keeps_if]
      gives_first[OF holding_status(2)] gives_ret server_condition)
     (simp_all add: holding_cloud shrink_intros)

lemma record_keeps: "keeps (holds_recorded tbl nm svs_ServerID store fin req i N sto) (record_network L n b)"
  unfolding record_network_def Let_def
  by (intro keeps_bindM keeps_getM keeps_if keeps_ret server_condition holding_status) simp

lemma gives_option: "gives P m Q \<Longrightarrow> (\<And>x. gives P (f x) Q) \<Longrightarrow> gives P (case opt of None \<Rightarrow> m | Some x \<Rightarrow> f x) Q"
  by (cases opt) auto

lemma ensure_gives:
  assumes "srv_ID s = i" "gets_only (KNetworks A)"
  shows "gives (holds_recorded servers srv_Name svs_ServerID store fin req i N sto) (ensureServerNetworkAttachment L A (fake_client ord) s) (\<lambda>(c, s). srv_ID s = i)"
proof -
  let ?P = "holds_recorded servers srv_Name svs_ServerID store fin req i N sto"
  let ?Q = "\<lambda>(c :: bool, s). srv_ID s = i"
  have d: "gives ?P (bindM (detach_managed (fake_client ord) w s) (\<lambda>s. ret (c, s))) ?Q" for w c
    by (rule gives_bindM[OF detach_gives[OF assms(1)]], rule gives_ret) simp
  have d': "gives ?P (bindM (detach_managed (fake_client ord) w s) (\<lambda>s. bindM (setCondition L t st rs msg) (\<lambda>_. ret (True, s)))) ?Q" for w t st rs msg
    by (rule gives_bindM[OF detach_gives[OF assms(1)]], rule gives_first[OF server_condition], rule gives_ret) simp
  have s: "gives ?P (ret (c, s)) ?Q" for c by (rule gives_ret) (simp add: assms(1))
  have a: "gives ?P (if \<not> containsInt64 (srv_NetworkIDs s) j then attach_network L (fake_client ord) n b s
      else bindM (record_network L n b) (\<lambda>_. ret (False, s))) ?Q" if "srv_ID s = i" for j n b s
    by (rule gives_if[OF attach_gives[OF that] gives_first[OF record_keeps gives_ret]]) (simp add: that)
  have b: "gives ?P (case p of (m, s) \<Rightarrow> if \<not> containsInt64 (srv_NetworkIDs s) j then attach_network L (fake_client ord) n m s
      else bindM (record_network L n m) (\<lambda>_. ret (False, s))) ?Q" if "?Q p" for j n p
    using that by (cases p) (simp only: prod.case a)
  show ?thesis
    unfolding ensureServerNetworkAttachment_def Let_def
    by (rule gives_first[OF keeps_getM], rule gives_option, rule gives_if[OF d' s],
        rule gives_first[OF keeps_wrapM[OF gets_keep[OF assms(2)]]], rule gives_if[OF gives_failM],
        rule gives_bindM[OF gives_if[OF d s]], rule b)
qed

lemma existing_keeps:
  assumes "retry_law L" "api_law nf (IsConflict L) store (KServers A)" "reads_only A" "srv_ID s = i"
  shows "keeps (holds_recorded servers srv_Name svs_ServerID store fin req i N sto) (reconcileExistingServer L A (fake_client ord) s)"
proof -
  let ?P = "holds_recorded servers srv_Name svs_ServerID store fin req i N sto"
  have g: "gets_only (KNetworks A)" "gets_only (KPlacementGroups A)" using assms(3) by (simp_all add: reads_only_def)
  have re: "keeps ?P (bindM (wrapM w (onCloud (fake_GetServer i))) (\<lambda>s2. resize_step L A s2 rs msg))" for w rs msg
    by (rule keeps_from[OF get_server_gives resize_keeps[OF assms(1,2)]])
  have on: "keeps ?P (bindM (onCloud (fake_PowerOnServer i)) (\<lambda>_. bindM (wrapM w (onCloud (fake_GetServer i))) (\<lambda>s2. resize_step L A s2 rs msg)))" for w rs msg
    by (rule keeps_bindM[OF holding_cloud(2)[OF server_shrinks(3)] re])
  have go_on: "keeps ?P (if c then bindM (applyServerStatus (Some s)) (\<lambda>_. bindM (updateServerStatusWithRetry L A) (\<lambda>_. ret resizeRequeueDelay))
      else bindM (syncPlacementGroupStatus L A s) (\<lambda>blocked. if blocked then ret 0 else bindM (syncStatus L A s) (\<lambda>_. ret 0)))"
    if "srv_ID s = i" for c s
    unfolding updateServerStatusWithRetry_def
    by (intro keeps_if keeps_bindM keeps_ret apply_keeps persist_keeps[OF assms(1,2)] group_keeps[OF assms(1,2) g(2)] sync_keeps[OF assms(1,2)])
       (simp_all add: that)
  have pr: "keeps ?P (case p of (c, s) \<Rightarrow> if c then bindM (applyServerStatus (Some s)) (\<lambda>_. bindM (updateServerStatusWithRetry L A) (\<lambda>_. ret resizeRequeueDelay))
      else bindM (syncPlacementGroupStatus L A s) (\<lambda>blocked. if blocked then ret 0 else bindM (syncStatus L A s) (\<lambda>_. ret 0)))"
    if "case p of (c :: bool, s) \<Rightarrow> srv_ID s = i" for p
    using that by (cases p) (simp only: prod.case go_on)
  show ?thesis
    unfolding reconcileExistingServer_def Let_def fake_client_sel assms(4)
    by (rule keeps_bindM[OF keeps_getM keeps_if[OF mismatch_keeps[OF assms(1,2,4)] keeps_if[OF on keeps_from[OF ensure_gives[OF assms(4) g(1)]]]]])
       (rule pr)
qed

lemma end_read:
  assumes "\<And>P. keeps P m" "calm m" "holding tbl nm ident store fin req i N sto s"
    and "\<And>x. tracked_end tbl nm ident store fin req N sto (f x s)"
  shows "tracked_end tbl nm ident store fin req N sto (bindM m f s)"
proof -
  have "snd (m s) = s" using assms(1)[of "\<lambda>t. t = s"] by (simp add: keeps_def)
  then obtain r where r: "m s = (r, s)" by (metis surjective_pairing)
  show ?thesis
    using r assms(2-4) by (cases r) (auto simp: bindM_run tracked_end_def dest: calmD)
qed

lemma create_tracks:
  assumes "retry_law L" "api_law nf (IsConflict L) store (KServers A)" "reads_only A"
    and h: "holding servers srv_Name svs_ServerID store fin req i N sto s" and free: "\<And>j. \<not> bears servers srv_Name (cloud s) (nn_Name req) j"
  shows "tracked_end servers srv_Name svs_ServerID store fin req N sto (createHCloudServer L A (fake_client ord) s)"
proof -
  have g: "gets_only (KPlacementGroups A)" using assms(3) by (simp add: reads_only_def)
  have cond: "keeps (holding servers srv_Name svs_ServerID store fin req j N sto) (setCondition L t st rs msg)"
    for j t st rs msg by (rule holding_condition) simp
  show ?thesis
    unfolding createHCloudServer_def fake_client_sel fake_CreateServer_def updateServerStatusWithRetry_def
    by (rule end_read[OF resolve_reads[OF g] h], unfold getM_bind, rule server_store.create_holding[OF h free])
       (simp_all add: server_opts_def holding_obj[OF h] calm_intros persist_calm[OF assms(1,2)] keeps_bindM keeps_ret cond
         persist_keeps[OF assms(1,2)])
qed

lemma end_err: "holding tbl nm ident store fin req i N sto s \<Longrightarrow> tracked_end tbl nm ident store fin req N sto (Err e, s)"
  by (auto simp: tracked_end_def)

lemma server_tracks:
  assumes "retry_law L" "api_law nf (IsConflict L) store (KServers A)" "reads_only A"
    and "holds_recorded servers srv_Name svs_ServerID store fin req i N sto s"
  shows "tracked_end servers srv_Name svs_ServerID store fin req N sto (server_Reconcile L A (fake_client ord) s)"
proof -
  note h = recorded_holding[OF assms(4)]
  have wf: "fake_wf (cloud s)" and ns: "names_in servers srv_Name (nn_Name req) i N (cloud s)" using h by (simp_all add: holding_def)
  have "tracked_end servers srv_Name svs_ServerID store fin req N sto (reconcileHCloudServer L A (fake_client ord) s)"
  proof (cases "GetErr (cloud s)")
    case (Some e)
    then show ?thesis
      by (simp add: end_err[OF h] reconcileHCloudServer_def holding_obj[OF h] fake_GetServer_def fake_GetServerByName_def fake_get_def
          fake_get_by_name_def onCloud_def wrapM_run bindM_run)
  next
    case None
    show ?thesis
    proof (cases "i \<noteq> 0 \<and> map_of (servers (cloud s)) i \<noteq> None")
      case True
      then obtain v where v: "map_of (servers (cloud s)) i = Some v" by blast
      have "srv_ID v = i" using table_ok_lookup[OF server_store.tbl_wf[OF wf] v] by simp
      then have "tracked_end servers srv_Name svs_ServerID store fin req N sto (reconcileExistingServer L A (fake_client ord) v s)"
        by (intro end_recorded[OF existing_keeps[OF assms(1-3)] assms(4)])
      then show ?thesis using True v None
        by (simp add: reconcileHCloudServer_def holding_obj[OF h] fake_GetServer_def fake_get_def onCloud_def wrapM_run bindM_run copyServerInfo_def)
    next
      case False
      have free: "\<not> bears servers srv_Name (cloud s) (nn_Name req) j" for j
      proof
        assume n: "bears servers srv_Name (cloud s) (nn_Name req) j"
        then have "j = i" by (rule names_inD[OF ns])
        then show False using n False server_store.named_nonzero[OF wf] by (auto simp: bears_def)
      qed
      have "tracked_end servers srv_Name svs_ServerID store fin req N sto (createHCloudServer L A (fake_client ord) s)"
        by (rule create_tracks[OF assms(1-3) h free])
      then show ?thesis using False None server_store.by_name_none[OF wf free, of ord] end_err[OF h]
        by (auto simp: reconcileHCloudServer_def holding_obj[OF h] fake_GetServer_def fake_GetServerByName_def fake_get_def
            onCloud_def wrapM_run bindM_run)
    qed
  qed
  then show ?thesis unfolding server_Reconcile_def
    by (intro end_bindM) (simp_all add: calm_intros keeps_ret)
qed

section \<open>Deletion\<close>

context fake_table
begin

lemma delete_ends:
  assumes "fake_wf (cloud s)" "names_in tbl nm n i N (cloud s)"
    and run: "(if i = 0 then ret () else onCloud (fake_delete upd i)) s = (q, s')"
  shows "fake_wf (cloud s') \<and> names_in tbl nm n i N (cloud s') \<and> (q = Ok () \<longrightarrow> (\<forall>j. \<not> bears tbl nm (cloud s') n j))"
proof (cases "i = 0")
  case True
  then show ?thesis using assms names_inD[OF assms(2)] named_nonzero[OF assms(1)] by auto
next
  case False
  obtain f where f: "fake_delete upd i (cloud s) = (q, f)" "s' = s\<lparr>cloud := f\<rparr>"
    using run False by (auto simp: onCloud_def split: prod.splits)
  have "fake_wf f" "\<And>m j. bears tbl nm f m j \<Longrightarrow> bears tbl nm (cloud s) m j"
    using shrinksD[OF delete_shrinks assms(1), of i] f(1) by auto
  moreover have "q = Ok () \<Longrightarrow> \<not> bears tbl nm f n i" using deleted_gone f(1) by blast
  ultimately show ?thesis using names_shrink[OF assms(2)] names_inD[OF assms(2)] f(2)
    by (metis rst.select_convs(1) rst.surjective rst.update_convs(1))
qed

end

section \<open>The four kinds\<close>

lemma tracked_pair: "m s = (r, s') \<Longrightarrow> tracked_end tbl nm ident store fin req N sto (m s) \<Longrightarrow>
  \<exists>i. holding tbl nm ident store fin req i N sto s' \<and> ((\<exists>p. r = Panic p) \<longrightarrow> recorded ident store req i (kube s'))"
  by (simp add: tracked_end_def)

interpretation servers_tracked: tracked_kind L A "HCloudServerReconciler L A (fake_client ord)" KServers servers srv_Name svs_ServerID for L A ord
proof (unfold_locales, goal_cases)
  case (2 store req i N sto s r s')
  have "tracked_end servers srv_Name svs_ServerID store ''infra.hkc.io/finalizer'' req N sto (server_Reconcile L A (fake_client ord) s)"
    by (rule server_tracks[of L "IsNotFound L" store A]) (use 2 in \<open>auto simp: lib_ok_def\<close>)
  then show ?case using tracked_pair[of "server_Reconcile L A (fake_client ord)" s r s'] 2 by simp
next
  case (3 s N q s')
  then show ?case using server_store.delete_ends[of s "Name (obj s)" "svs_ServerID (Status (obj s))" N q s']
    by (simp add: deleteHCloudServer_def fake_client_sel fake_DeleteServer_def cong: if_cong)
qed simp

interpretation networks_tracked: tracked_kind L A "HCloudNetworkReconciler L A (fake_client ord)" KNetworks networks net_Name nws_NetworkID for L A ord
proof (unfold_locales, goal_cases)
  case (2 store req i N sto s r s')
  have "tracked_end networks net_Name nws_NetworkID store ''infra.hkc.io/network-finalizer'' req N sto (network_Reconcile L A (fake_client ord) s)"
    by (rule network_tracks[of L "IsNotFound L" store A]) (use 2 in \<open>auto simp: lib_ok_def\<close>)
  then show ?case using tracked_pair[of "network_Reconcile L A (fake_client ord)" s r s'] 2 by simp
next
  case (3 s N q s')
  then show ?case using network_store.delete_ends[of s "Name (obj s)" "nws_NetworkID (Status (obj s))" N q s']
    by (simp add: network_Delete_def fake_client_sel fake_DeleteNetwork_def cong: if_cong)
qed simp

interpretation firewalls_tracked: tracked_kind L A "HCloudFirewallReconciler ch L A (fake_client ord)" KFirewalls firewalls fw_Name fws_FirewallID for ch L A ord
proof (unfold_locales, goal_cases)
  case (2 store req i N sto s r s')
  have "tracked_end firewalls fw_Name fws_FirewallID store ''infra.hkc.io/firewall-finalizer'' req N sto (firewall_Reconcile ch L A (fake_client ord) s)"
    by (rule firewall_tracks) (use 2 in \<open>auto simp: lib_ok_def\<close>)
  then show ?case using tracked_pair[of "firewall_Reconcile ch L A (fake_client ord)" s r s'] 2 by simp
next
  case (3 s N q s')
  then show ?case using firewall_store.delete_ends[of s "Name (obj s)" "fws_FirewallID (Status (obj s))" N q s']
    by (simp add: firewall_Delete_def fake_client_sel fake_DeleteFirewall_def cong: if_cong)
qed simp

interpretation groups_tracked: tracked_kind L A "HCloudPlacementGroupReconciler L A (fake_client ord)" KPlacementGroups placementGroups pg_Name pgs_PlacementGroupID for L A ord
proof (unfold_locales, goal_cases)
  case (2 store req i N sto s r s')
  have "tracked_end placementGroups pg_Name pgs_PlacementGroupID store ''infra.hkc.io/placementgroup-finalizer'' req N sto (placement_Reconcile L (fake_client ord) s)"
    by (rule placement_tracks) (use 2 in \<open>auto simp: lib_ok_def\<close>)
  then show ?case using tracked_pair[of "placement_Reconcile L (fake_client ord)" s r s'] 2 by simp
next
  case (3 s N q s')
  then show ?case using placement_group_store.delete_ends[of s "Name (obj s)" "pgs_PlacementGroupID (Status (obj s))" N q s']
    by (simp add: placement_Delete_def fake_client_sel fake_DeletePlacementGroup_def cong: if_cong)
qed simp

end
