(* ===== verification/Sdk.thy ===== *)
theory Sdk
  imports CloudTypes GoNet
begin

text \<open>
  The Hetzner Cloud SDK (\<open>hcloud-go\<close>) as a parameter of the model: its structs with the
  fields that \<open>internal/hcloud\<close> reads or writes, and one program over the state \<open>'w\<close> of the
  service per method it calls. Nothing is said here of what the methods do. A pointer is an
  option; \<open>net.IP\<close> is its bytes and \<open>net.IPNet\<close> its masked bytes and prefix length. A
  struct the code only passes on (an image, an SSH key, a load balancer type) keeps its
  identifier and name. The response object every method returns is never read and left out; a
  create that returns no error returns the new resource.
\<close>

section \<open>Resources\<close>

type_synonym IP = "nat list"
type_synonym IPNet = "nat list \<times> nat"

record SdkNamed =
  sdn_ID :: int64
  sdn_Name :: string

record SdkPlacementGroup =
  sdpg_ID :: int64
  sdpg_Name :: string
  sdpg_Type :: string
  sdpg_Labels :: labels

record SdkNetworkSubnet =
  sdsn_Type :: string
  sdsn_NetworkZone :: string

record SdkNetwork =
  sdnw_ID :: int64
  sdnw_Name :: string
  sdnw_IPRange :: "IPNet option"
  sdnw_Subnets :: "SdkNetworkSubnet list"
  sdnw_Labels :: labels
  sdnw_ExposeRoutesToVSwitch :: bool

record SdkServer =
  sds_ID :: int64
  sds_Name :: string
  sds_Status :: string
  sds_ServerType :: "SdkNamed option"
  sds_IPv4 :: "IP option"
  sds_IPv6 :: "IPNet option"
  sds_PrivateNet :: "SdkNetwork option list"
  sds_PlacementGroup :: "SdkPlacementGroup option"

record SdkVolume =
  sdv_ID :: int64
  sdv_Name :: string
  sdv_Size :: int
  sdv_Status :: string
  sdv_LinuxDevice :: string
  sdv_Server :: "SdkServer option"

record SdkCertificate =
  sdc_ID :: int64
  sdc_Name :: string
  sdc_Type :: string
  sdc_Labels :: labels
  sdc_DomainNames :: "string list"
  sdc_Fingerprint :: string
  sdc_NotValidBefore :: instant
  sdc_NotValidAfter :: instant
  sdc_Issuance :: "string option"

record SdkHealthCheckHTTP =
  sdhh_Domain :: string
  sdhh_Path :: string
  sdhh_Response :: string
  sdhh_StatusCodes :: "string list"
  sdhh_TLS :: bool

record SdkHealthCheck =
  sdhc_Protocol :: string
  sdhc_Port :: int
  sdhc_Interval :: duration
  sdhc_Timeout :: duration
  sdhc_Retries :: int
  sdhc_HTTP :: "SdkHealthCheckHTTP option"

record SdkService =
  sdsv_Protocol :: string
  sdsv_ListenPort :: int
  sdsv_DestinationPort :: int
  sdsv_Proxyprotocol :: bool
  sdsv_Certificates :: "SdkCertificate option list"
  sdsv_HealthCheck :: SdkHealthCheck

record SdkLoadBalancerTarget =
  sdlt_Type :: string
  sdlt_Server :: "SdkServer option option"

record SdkLoadBalancer =
  sdlb_ID :: int64
  sdlb_Name :: string
  sdlb_IPv4 :: "IP option"
  sdlb_IPv6 :: "IP option"
  sdlb_Targets :: "SdkLoadBalancerTarget list"
  sdlb_Services :: "SdkService list"

record SdkPrimaryIP =
  sdpi_ID :: int64
  sdpi_Name :: string
  sdpi_Type :: string
  sdpi_IP :: "IP option"
  sdpi_Network :: "IPNet option"
  sdpi_Datacenter :: "SdkNamed option"
  sdpi_Labels :: labels
  sdpi_AssigneeID :: int64
  sdpi_AssigneeType :: string
  sdpi_AutoDelete :: bool
  sdpi_DNSPtr :: "(string, string) gomap"

record SdkFloatingIP =
  sdfi_ID :: int64
  sdfi_Name :: string
  sdfi_Type :: string
  sdfi_Description :: string
  sdfi_IP :: "IP option"
  sdfi_Network :: "IPNet option"
  sdfi_HomeLocation :: "SdkNamed option"
  sdfi_Server :: "SdkServer option"
  sdfi_Labels :: labels
  sdfi_DNSPtr :: "(string, string) gomap"

record SdkFirewallRule =
  sdfr_Direction :: string
  sdfr_Protocol :: string
  sdfr_Port :: "string option"
  sdfr_SourceIPs :: "IPNet list"
  sdfr_DestinationIPs :: "IPNet list"
  sdfr_Description :: "string option"

text \<open>A resource of a firewall: the identifier of the server, the text of the selector.\<close>

record SdkFirewallResource =
  sdfa_Type :: string
  sdfa_Server :: "int64 option"
  sdfa_LabelSelector :: "string option"

record SdkFirewall =
  sdfw_ID :: int64
  sdfw_Name :: string
  sdfw_Labels :: labels
  sdfw_Rules :: "SdkFirewallRule list"
  sdfw_AppliedTo :: "SdkFirewallResource list"

section \<open>Options of the calls that create and update\<close>

record SdkServerCreateOpts =
  sdsc_Name :: string
  sdsc_ServerType :: SdkNamed
  sdsc_Image :: SdkNamed
  sdsc_Location :: SdkNamed
  sdsc_Labels :: labels
  sdsc_SSHKeys :: "SdkNamed list"
  sdsc_UserData :: string
  sdsc_PlacementGroup :: "SdkPlacementGroup option"

record SdkVolumeCreateOpts =
  sdvc_Name :: string
  sdvc_Size :: int
  sdvc_Server :: "SdkServer option"
  sdvc_Location :: "SdkNamed option"
  sdvc_Format :: "string option"
  sdvc_Automount :: "bool option"
  sdvc_Labels :: labels

record SdkLoadBalancerCreateOpts =
  sdlc_Name :: string
  sdlc_LoadBalancerType :: SdkNamed
  sdlc_Algorithm :: "string option"
  sdlc_Location :: "SdkNamed option"
  sdlc_NetworkZone :: string
  sdlc_Labels :: labels

record SdkNetworkCreateOpts =
  sdnc_Name :: string
  sdnc_IPRange :: IPNet
  sdnc_Labels :: labels
  sdnc_ExposeRoutesToVSwitch :: bool

record SdkPlacementGroupCreateOpts =
  sdpc_Name :: string
  sdpc_Type :: string
  sdpc_Labels :: labels

record SdkPrimaryIPCreateOpts =
  sdic_Name :: string
  sdic_Type :: string
  sdic_Datacenter :: string
  sdic_Labels :: labels
  sdic_AutoDelete :: "bool option"
  sdic_AssigneeType :: string
  sdic_AssigneeID :: "int64 option"

record SdkPrimaryIPUpdateOpts =
  sdiu_Name :: string
  sdiu_AutoDelete :: "bool option"
  sdiu_Labels :: "labels option"

record SdkFloatingIPCreateOpts =
  sdgc_Type :: string
  sdgc_HomeLocation :: SdkNamed
  sdgc_Labels :: labels
  sdgc_Name :: string
  sdgc_Description :: "string option"
  sdgc_Server :: "SdkServer option"

record SdkFloatingIPUpdateOpts =
  sdgu_Description :: string
  sdgu_Labels :: "labels option"

record SdkCertificateCreateOpts =
  sdcc_Name :: string
  sdcc_Type :: string
  sdcc_Labels :: labels
  sdcc_Certificate :: string
  sdcc_PrivateKey :: string
  sdcc_DomainNames :: "string list"

record SdkFirewallCreateOpts =
  sdfc_Name :: string
  sdfc_Labels :: labels
  sdfc_Rules :: "SdkFirewallRule list"
  sdfc_ApplyTo :: "SdkFirewallResource list"

text \<open>Options of a service. The health check options of adding and of updating have the same fields.\<close>

record SdkHealthCheckHTTPOpts =
  sdhho_Domain :: "string option"
  sdhho_Path :: "string option"
  sdhho_Response :: "string option"
  sdhho_StatusCodes :: "string list"
  sdhho_TLS :: "bool option"

record SdkHealthCheckOpts =
  sdhco_Protocol :: string
  sdhco_Port :: "int option"
  sdhco_Interval :: "duration option"
  sdhco_Timeout :: "duration option"
  sdhco_Retries :: "int option"
  sdhco_HTTP :: "SdkHealthCheckHTTPOpts option"

record SdkAddServiceOpts =
  sdas_Protocol :: string
  sdas_ListenPort :: "int option"
  sdas_DestinationPort :: "int option"
  sdas_Proxyprotocol :: "bool option"
  sdas_HTTP :: "SdkCertificate list option"
  sdas_HealthCheck :: "SdkHealthCheckOpts option"

record SdkUpdateServiceOpts =
  sdus_Protocol :: string
  sdus_DestinationPort :: "int option"
  sdus_Proxyprotocol :: "bool option"
  sdus_HTTP :: "SdkCertificate list option"
  sdus_HealthCheck :: "SdkHealthCheckOpts option"

section \<open>The methods\<close>

record 'w Sdk =
  Server_GetByID :: "int64 \<Rightarrow> ('w, SdkServer option) prog"
  Server_GetByName :: "string \<Rightarrow> ('w, SdkServer option) prog"
  Server_Create :: "SdkServerCreateOpts \<Rightarrow> ('w, SdkServer) prog"
  Server_DeleteWithResult :: "SdkServer \<Rightarrow> ('w, unit) prog"
  Server_Poweroff :: "SdkServer \<Rightarrow> ('w, unit) prog"
  Server_Poweron :: "SdkServer \<Rightarrow> ('w, unit) prog"
  Server_ChangeType :: "SdkServer \<Rightarrow> SdkNamed \<Rightarrow> bool \<Rightarrow> ('w, unit) prog"
  Server_AttachToNetwork :: "SdkServer \<Rightarrow> SdkNetwork \<Rightarrow> ('w, unit) prog"
  Server_DetachFromNetwork :: "SdkServer \<Rightarrow> SdkNetwork \<Rightarrow> ('w, unit) prog"
  ServerType_GetByName :: "string \<Rightarrow> ('w, SdkNamed option) prog"
  Image_GetByName :: "string \<Rightarrow> ('w, SdkNamed option) prog"
  Location_GetByName :: "string \<Rightarrow> ('w, SdkNamed option) prog"
  SSHKey_GetByName :: "string \<Rightarrow> ('w, SdkNamed option) prog"
  Volume_GetByID :: "int64 \<Rightarrow> ('w, SdkVolume option) prog"
  Volume_GetByName :: "string \<Rightarrow> ('w, SdkVolume option) prog"
  Volume_Create :: "SdkVolumeCreateOpts \<Rightarrow> ('w, SdkVolume) prog"
  Volume_Delete :: "SdkVolume \<Rightarrow> ('w, unit) prog"
  Volume_Attach :: "SdkVolume \<Rightarrow> SdkServer \<Rightarrow> ('w, unit) prog"
  Volume_Detach :: "SdkVolume \<Rightarrow> ('w, unit) prog"
  Volume_Resize :: "SdkVolume \<Rightarrow> int \<Rightarrow> ('w, unit) prog"
  LoadBalancerType_GetByName :: "string \<Rightarrow> ('w, SdkNamed option) prog"
  LoadBalancer_GetByID :: "int64 \<Rightarrow> ('w, SdkLoadBalancer option) prog"
  LoadBalancer_GetByName :: "string \<Rightarrow> ('w, SdkLoadBalancer option) prog"
  LoadBalancer_Create :: "SdkLoadBalancerCreateOpts \<Rightarrow> ('w, SdkLoadBalancer) prog"
  LoadBalancer_Delete :: "SdkLoadBalancer \<Rightarrow> ('w, unit) prog"
  LoadBalancer_AddServerTarget :: "SdkLoadBalancer \<Rightarrow> SdkServer \<Rightarrow> ('w, unit) prog"
  LoadBalancer_RemoveServerTarget :: "SdkLoadBalancer \<Rightarrow> SdkServer \<Rightarrow> ('w, unit) prog"
  LoadBalancer_AddService :: "SdkLoadBalancer \<Rightarrow> SdkAddServiceOpts \<Rightarrow> ('w, unit) prog"
  LoadBalancer_UpdateService :: "SdkLoadBalancer \<Rightarrow> int \<Rightarrow> SdkUpdateServiceOpts \<Rightarrow> ('w, unit) prog"
  LoadBalancer_DeleteService :: "SdkLoadBalancer \<Rightarrow> int \<Rightarrow> ('w, unit) prog"
  Network_GetByID :: "int64 \<Rightarrow> ('w, SdkNetwork option) prog"
  Network_GetByName :: "string \<Rightarrow> ('w, SdkNetwork option) prog"
  Network_Create :: "SdkNetworkCreateOpts \<Rightarrow> ('w, SdkNetwork) prog"
  Network_Delete :: "SdkNetwork \<Rightarrow> ('w, unit) prog"
  Network_AddSubnet :: "SdkNetwork \<Rightarrow> SdkNetworkSubnet \<Rightarrow> ('w, unit) prog"
  Firewall_GetByID :: "int64 \<Rightarrow> ('w, SdkFirewall option) prog"
  Firewall_GetByName :: "string \<Rightarrow> ('w, SdkFirewall option) prog"
  Firewall_Create :: "SdkFirewallCreateOpts \<Rightarrow> ('w, SdkFirewall) prog"
  Firewall_Delete :: "SdkFirewall \<Rightarrow> ('w, unit) prog"
  Firewall_Update :: "SdkFirewall \<Rightarrow> labels \<Rightarrow> ('w, unit) prog"
  Firewall_SetRules :: "SdkFirewall \<Rightarrow> SdkFirewallRule list \<Rightarrow> ('w, unit) prog"
  Firewall_ApplyResources :: "SdkFirewall \<Rightarrow> SdkFirewallResource list \<Rightarrow> ('w, unit) prog"
  Firewall_RemoveResources :: "SdkFirewall \<Rightarrow> SdkFirewallResource list \<Rightarrow> ('w, unit) prog"
  PlacementGroup_GetByID :: "int64 \<Rightarrow> ('w, SdkPlacementGroup option) prog"
  PlacementGroup_GetByName :: "string \<Rightarrow> ('w, SdkPlacementGroup option) prog"
  PlacementGroup_Create :: "SdkPlacementGroupCreateOpts \<Rightarrow> ('w, SdkPlacementGroup) prog"
  PlacementGroup_Delete :: "SdkPlacementGroup \<Rightarrow> ('w, unit) prog"
  PrimaryIP_GetByID :: "int64 \<Rightarrow> ('w, SdkPrimaryIP option) prog"
  PrimaryIP_GetByName :: "string \<Rightarrow> ('w, SdkPrimaryIP option) prog"
  PrimaryIP_Create :: "SdkPrimaryIPCreateOpts \<Rightarrow> ('w, SdkPrimaryIP) prog"
  PrimaryIP_Delete :: "SdkPrimaryIP \<Rightarrow> ('w, unit) prog"
  PrimaryIP_Update :: "SdkPrimaryIP \<Rightarrow> SdkPrimaryIPUpdateOpts \<Rightarrow> ('w, unit) prog"
  PrimaryIP_Assign :: "int64 \<Rightarrow> int64 \<Rightarrow> string \<Rightarrow> ('w, unit) prog"
  PrimaryIP_Unassign :: "int64 \<Rightarrow> ('w, unit) prog"
  PrimaryIP_ChangeDNSPtr :: "int64 \<Rightarrow> string \<Rightarrow> string \<Rightarrow> ('w, unit) prog"
  FloatingIP_GetByID :: "int64 \<Rightarrow> ('w, SdkFloatingIP option) prog"
  FloatingIP_GetByName :: "string \<Rightarrow> ('w, SdkFloatingIP option) prog"
  FloatingIP_Create :: "SdkFloatingIPCreateOpts \<Rightarrow> ('w, SdkFloatingIP) prog"
  FloatingIP_Delete :: "SdkFloatingIP \<Rightarrow> ('w, unit) prog"
  FloatingIP_Update :: "SdkFloatingIP \<Rightarrow> SdkFloatingIPUpdateOpts \<Rightarrow> ('w, unit) prog"
  FloatingIP_Assign :: "SdkFloatingIP \<Rightarrow> SdkServer \<Rightarrow> ('w, unit) prog"
  FloatingIP_Unassign :: "SdkFloatingIP \<Rightarrow> ('w, unit) prog"
  FloatingIP_ChangeDNSPtr :: "SdkFloatingIP \<Rightarrow> string \<Rightarrow> string option \<Rightarrow> ('w, unit) prog"
  Certificate_GetByID :: "int64 \<Rightarrow> ('w, SdkCertificate option) prog"
  Certificate_GetByName :: "string \<Rightarrow> ('w, SdkCertificate option) prog"
  Certificate_CreateCertificate :: "SdkCertificateCreateOpts \<Rightarrow> ('w, SdkCertificate) prog"
  Certificate_Delete :: "SdkCertificate \<Rightarrow> ('w, unit) prog"
  Certificate_Update :: "SdkCertificate \<Rightarrow> labels option \<Rightarrow> ('w, unit) prog"

end
