(* ===== verification/NetText.thy ===== *)
theory NetText
  imports GoNet
begin

text \<open>
  What \<open>net.ParseCIDR\<close> returns as network and how \<open>IP.String\<close> and \<open>IPNet.String\<close> of the Go
  standard library print: dotted decimal for IPv4 and IPv4-mapped addresses, RFC 5952 (lower case,
  longest run of zero groups elided) for IPv6. The printed form of a parsed IPv4 network parses
  back to it.
\<close>

section \<open>Masks\<close>

fun mask_bytes :: "nat \<Rightarrow> nat list \<Rightarrow> nat list" where
  "mask_bytes n [] = []"
| "mask_bytes n (b # bs) =
     (if 8 \<le> n then b # mask_bytes (n - 8) bs else (b - b mod 2 ^ (8 - n)) # mask_bytes 0 bs)"

text \<open>The second result of \<open>ParseCIDR\<close>: the address with the host bits cleared, and the length.\<close>

definition ParseNet :: "string \<Rightarrow> (nat list \<times> nat) option" where
  "ParseNet s = map_option (\<lambda>(ip, n). (mask_bytes n ip, n)) (ParseCIDR s)"

section \<open>Printing\<close>

definition To4 :: "nat list \<Rightarrow> nat list option" where
  "To4 ip = (if length ip = 4 then Some ip
     else if length ip = 16 \<and> take 12 ip = replicate 10 0 @ [255, 255] then Some (drop 12 ip) else None)"

definition dotted :: "nat list \<Rightarrow> string" where
  "dotted bs = strings_Join (map digits bs) ''.''"

fun hex_digits :: "nat \<Rightarrow> string" where
  "hex_digits n = (if n < 16 then [hex_digit n] else hex_digits (n div 16) @ [hex_digit (n mod 16)])"

declare hex_digits.simps [simp del]

fun groups16 :: "nat list \<Rightarrow> nat list" where
  "groups16 (a # b # bs) = (256 * a + b) # groups16 bs"
| "groups16 bs = []"

text \<open>The first longest run of at least two zero groups, as \<open>(start, end)\<close>; \<open>(255, 255)\<close> is none.\<close>

definition zero_run :: "nat list \<Rightarrow> nat \<times> nat" where
  "zero_run gs = foldl (\<lambda>(s, e) i. let l = length (takeWhile (\<lambda>g. g = 0) (drop i gs))
     in if 2 \<le> l \<and> e - s < l then (i, i + l) else (s, e)) (255, 255) [0..<8]"

definition ipv6_text :: "nat list \<Rightarrow> string" where
  "ipv6_text bs = (let gs = groups16 bs; (s, e) = zero_run gs; print = (\<lambda>l. strings_Join (map hex_digits l) '':'')
     in if s = 255 then print gs else print (take s gs) @ ''::'' @ print (drop e gs))"

definition IP_String :: "nat list \<Rightarrow> string" where
  "IP_String ip = (if ip = [] then ''<nil>'' else case To4 ip of Some p \<Rightarrow> dotted p
     | None \<Rightarrow> if length ip = 16 then ipv6_text ip
         else CHR ''?'' # concat (map (\<lambda>b. [hex_digit (b div 16), hex_digit (b mod 16)]) ip))"

definition IPNet_String :: "nat list \<times> nat \<Rightarrow> string" where
  "IPNet_String = (\<lambda>(ip, n). case To4 ip of
       Some p \<Rightarrow> dotted p @ ''/'' @ digits (if length ip = 16 then n - 96 else n)
     | None \<Rightarrow> if length ip = 16 then IP_String ip @ ''/'' @ digits n else ''<nil>'')"

section \<open>The round trip for IPv4\<close>

lemma char_digit [simp]: "d < 10 \<Longrightarrow> (of_char (char_of (48 + d :: nat)) :: nat) = 48 + d"
  by simp

lemma is_digit_of [simp]: "d < 10 \<Longrightarrow> is_digit (char_of (48 + d :: nat))"
  by (simp add: is_digit_def)

lemma fields_digits:
  assumes "x \<le> 255"
  shows "parseIPv4Fields (digits x @ cs) fs 0 0 = parseIPv4Fields cs fs x (length (digits x))"
proof -
  consider "x < 10" | "10 \<le> x" "x < 100" | "100 \<le> x" by linarith
  then show ?thesis
  proof cases
    case 1
    then show ?thesis by (simp add: digits.simps[of x] Let_def)
  next
    case 2
    moreover from 2 have "x div 10 < 10" by linarith
    ultimately have "digits x = [char_of (48 + x div 10), char_of (48 + x mod 10)]"
      by (simp add: digits.simps[of x] digits.simps[of "x div 10"])
    moreover have "x div 10 < 10" "x div 10 \<noteq> 0" "x div 10 * 10 + x mod 10 = x" using 2 by auto
    ultimately show ?thesis using assms by (simp add: Let_def)
  next
    case 3
    moreover from 3 assms have "\<not> x div 10 < 10" "x div 10 div 10 < 10" by linarith+
    ultimately have "digits x = [char_of (48 + x div 100), char_of (48 + x div 10 mod 10), char_of (48 + x mod 10)]"
      using assms by (simp add: digits.simps[of x] digits.simps[of "x div 10"] digits.simps[of "x div 10 div 10"] div_mult2_eq[of x 10 10, simplified])
    moreover have "x div 100 * 10 + x div 10 mod 10 = x div 10"
      using div_mult_mod_eq[of "x div 10" 10] by (simp add: div_mult2_eq[of x 10 10, simplified])
    moreover have "x div 100 < 10" "x div 100 \<noteq> 0" "x div 10 * 10 + x mod 10 = x"
      "x div 10 \<le> 255" "x div 10 \<noteq> 0" using 3 assms by auto
    ultimately show ?thesis using assms by (simp add: Let_def)
  qed
qed

lemma digits_nonempty [simp]: "digits x \<noteq> []"
  by (simp add: digits.simps[of x])

lemma dot_not_digit [simp]: "\<not> is_digit (CHR ''.'')" "\<not> is_digit (CHR ''/'')" "\<not> is_digit (CHR '':'')" "\<not> is_digit (CHR ''%'')"
  by (simp_all add: is_digit_def)

lemma digits_are: "c \<in> set (digits x) \<Longrightarrow> is_digit c"
  using digits_chars by (simp add: is_digit_def)

lemma parse_dotted:
  assumes "list_all (\<lambda>b. b \<le> 255) [a, b, c, d]"
  shows "parseIPv4 (dotted [a, b, c, d]) = Some [a, b, c, d]"
  using assms by (simp add: parseIPv4_def dotted_def fields_digits fields_digits[where cs = "[]", simplified])

lemma is_digitD: "is_digit c \<Longrightarrow> c \<noteq> CHR ''.'' \<and> c \<noteq> CHR '':'' \<and> c \<noteq> CHR ''%'' \<and> c \<noteq> CHR ''/''"
  by (metis dot_not_digit)

lemma takeWhile_sep: "c \<notin> set t \<Longrightarrow> takeWhile (\<lambda>x. x \<noteq> c) (t @ c # r) = t"
  by (induction t) auto

lemma parseAddr_dotted:
  assumes "\<And>c. c \<in> set p \<Longrightarrow> is_digit c"
  shows "parseAddr s (p @ CHR ''.'' # q) = parseIPv4 s"
  using assms by (induction p) (simp_all add: is_digitD)

lemma undigits_fold: "foldl (\<lambda>a c. 10 * a + (of_char c - 48)) 0 (digits n) = n"
  using undigits_digits by (simp add: undigits_def)

text \<open>Printing and parsing an IPv4 network: nothing is lost.\<close>

lemma ipv4_roundtrip:
  assumes "length ip = 4" and "list_all (\<lambda>b. b \<le> 255) ip" and "n \<le> 32"
  shows "ParseCIDR (IPNet_String (ip, n)) = Some (ip, n)"
proof -
  obtain a b c d where ip: "ip = [a, b, c, d]" using assms(1) by (auto simp: length_Suc_conv numeral_eq_Suc)
  let ?t = "dotted [a, b, c, d]"
  have nos: "CHR ''/'' \<notin> set ?t" by (auto simp: dotted_def dest: digits_are)
  then have split: "takeWhile (\<lambda>c. c \<noteq> CHR ''/'') (?t @ ''/'' @ digits n) = ?t"
    by (simp add: takeWhile_sep)
  have t: "?t = digits a @ CHR ''.'' # strings_Join (map digits [b, c, d]) ''.''" by (simp add: dotted_def)
  have "parseAddr ?t ?t = parseIPv4 ?t"
    using parseAddr_dotted[of "digits a" ?t] digits_are by (metis t)
  then have "parseAddr ?t ?t = Some [a, b, c, d]" using parse_dotted assms(2) ip by simp
  moreover have "list_all is_digit (digits n)" using digits_are by (auto simp: list_all_iff)
  ultimately show ?thesis
    using split nos assms(3) undigits_fold[of n]
    by (simp add: ip IPNet_String_def To4_def ParseCIDR_def Let_def)
qed

lemma mask_bytes_bounds: "list_all (\<lambda>b. b \<le> 255) bs \<Longrightarrow> list_all (\<lambda>b. b \<le> 255) (mask_bytes n bs)"
  by (induction n bs rule: mask_bytes.induct) auto

lemma mask_bytes_length [simp]: "length (mask_bytes n bs) = length bs"
  by (induction n bs rule: mask_bytes.induct) auto

lemma mask_bytes_idem [simp]: "mask_bytes n (mask_bytes n bs) = mask_bytes n bs"
  by (induction n bs rule: mask_bytes.induct) (auto simp: minus_mod_eq_mult_div)

end
