(* ===== verification/SdkConvert.thy ===== *)
theory SdkConvert
  imports Sdk NetText
begin

text \<open>
  From the structs of the SDK to the package's own types and back: \<open>toServerInfo\<close> and its kin of
  \<open>client.go\<close>, the rule and target conversions of \<open>firewall.go\<close>. A loop that copies a map is the
  map; a nil list and an empty one are one value. A nil argument is not reached by any caller.
\<close>

section \<open>Resources of client.go\<close>

definition ip_text :: "IP option \<Rightarrow> string" where
  "ip_text ip = (case ip of None \<Rightarrow> '''' | Some b \<Rightarrow> IP_String b)"

definition ipnet_text :: "IPNet option \<Rightarrow> string" where
  "ipnet_text n = (case n of None \<Rightarrow> '''' | Some m \<Rightarrow> IPNet_String m)"

definition toServerInfo :: "SdkServer \<Rightarrow> ServerInfo" where
  "toServerInfo s = \<lparr> srv_ID = sds_ID s, srv_Name = sds_Name s,
     srv_ServerType = (case sds_ServerType s of None \<Rightarrow> '''' | Some t \<Rightarrow> sdn_Name t),
     srv_State = sds_Status s, srv_PublicIPv4 = ip_text (sds_IPv4 s), srv_PublicIPv6 = ipnet_text (sds_IPv6 s),
     srv_NetworkIDs = List.map_filter (map_option sdnw_ID) (sds_PrivateNet s),
     srv_PlacementGroupID = (case sds_PlacementGroup s of None \<Rightarrow> 0 | Some g \<Rightarrow> sdpg_ID g) \<rparr>"

definition toVolumeInfo :: "SdkVolume \<Rightarrow> VolumeInfo" where
  "toVolumeInfo v = \<lparr> vol_ID = sdv_ID v, vol_Name = sdv_Name v, vol_Size = sdv_Size v, vol_State = sdv_Status v,
     vol_ServerID = (case sdv_Server v of None \<Rightarrow> 0 | Some s \<Rightarrow> sds_ID s), vol_LinuxDevice = sdv_LinuxDevice v \<rparr>"

definition toNetworkInfo :: "SdkNetwork \<Rightarrow> NetworkInfo" where
  "toNetworkInfo n = \<lparr> net_ID = sdnw_ID n, net_Name = sdnw_Name n, net_IPRange = ipnet_text (sdnw_IPRange n),
     net_SubnetZones = map sdsn_NetworkZone (filter (\<lambda>sn. sdsn_Type sn = ''cloud'') (sdnw_Subnets n)),
     net_Labels = sdnw_Labels n, net_ExposeRoutes = sdnw_ExposeRoutesToVSwitch n \<rparr>"

definition toPlacementGroupInfo :: "SdkPlacementGroup \<Rightarrow> PlacementGroupInfo" where
  "toPlacementGroupInfo g = \<lparr> pg_ID = sdpg_ID g, pg_Name = sdpg_Name g, pg_Type = sdpg_Type g, pg_Labels = sdpg_Labels g \<rparr>"

definition toPrimaryIPInfo :: "SdkPrimaryIP \<Rightarrow> PrimaryIPInfo" where
  "toPrimaryIPInfo p = \<lparr> pip_ID = sdpi_ID p, pip_Name = sdpi_Name p, pip_Type = sdpi_Type p,
     pip_IP = (if sdpi_IP p \<noteq> None then ip_text (sdpi_IP p) else ipnet_text (sdpi_Network p)),
     pip_Datacenter = (case sdpi_Datacenter p of None \<Rightarrow> '''' | Some d \<Rightarrow> sdn_Name d),
     pip_Labels = sdpi_Labels p, pip_AssigneeID = sdpi_AssigneeID p, pip_AssigneeType = sdpi_AssigneeType p,
     pip_AutoDelete = sdpi_AutoDelete p, pip_DNSPtr = sdpi_DNSPtr p \<rparr>"

definition toFloatingIPInfo :: "SdkFloatingIP \<Rightarrow> FloatingIPInfo" where
  "toFloatingIPInfo f = \<lparr> fip_ID = sdfi_ID f, fip_Name = sdfi_Name f, fip_Type = sdfi_Type f,
     fip_IP = (if sdfi_IP f \<noteq> None then ip_text (sdfi_IP f) else ipnet_text (sdfi_Network f)),
     fip_Location = (case sdfi_HomeLocation f of None \<Rightarrow> '''' | Some l \<Rightarrow> sdn_Name l),
     fip_Description = sdfi_Description f, fip_Labels = sdfi_Labels f,
     fip_ServerID = (case sdfi_Server f of None \<Rightarrow> 0 | Some s \<Rightarrow> sds_ID s), fip_DNSPtr = sdfi_DNSPtr f \<rparr>"

definition toCertificateInfo :: "SdkCertificate \<Rightarrow> CertificateInfo" where
  "toCertificateInfo c = \<lparr> crt_ID = sdc_ID c, crt_Name = sdc_Name c, crt_Type = sdc_Type c, crt_Labels = sdc_Labels c,
     crt_DomainNames = sdc_DomainNames c, crt_Fingerprint = sdc_Fingerprint c,
     crt_NotValidBefore = sdc_NotValidBefore c, crt_NotValidAfter = sdc_NotValidAfter c,
     crt_IssuanceStatus = (case sdc_Issuance c of None \<Rightarrow> '''' | Some i \<Rightarrow> i) \<rparr>"

section \<open>Firewalls\<close>

definition firewallRuleFromSDK :: "SdkFirewallRule \<Rightarrow> FirewallRuleInfo" where
  "firewallRuleFromSDK r = \<lparr> fwr_Direction = sdfr_Direction r, fwr_Protocol = sdfr_Protocol r, fwr_Port = sdfr_Port r,
     fwr_SourceIPs = sort (map IPNet_String (sdfr_SourceIPs r)),
     fwr_DestinationIPs = sort (map IPNet_String (sdfr_DestinationIPs r)),
     fwr_Description = sdfr_Description r \<rparr>"

definition applied_from_sdk :: "SdkFirewallResource \<Rightarrow> FirewallApplyResource option" where
  "applied_from_sdk a =
     (if sdfa_Type a = ''server'' then
        map_option (\<lambda>i. \<lparr> far_Type = ''server'', far_ServerID = i, far_Selector = '''' \<rparr>) (sdfa_Server a)
      else if sdfa_Type a = ''label_selector'' then
        map_option (\<lambda>l. \<lparr> far_Type = ''label_selector'', far_ServerID = 0, far_Selector = l \<rparr>) (sdfa_LabelSelector a)
      else None)"

definition firewallInfoFromSDK :: "SdkFirewall \<Rightarrow> FirewallInfo" where
  "firewallInfoFromSDK f = \<lparr> fw_ID = sdfw_ID f, fw_Name = sdfw_Name f, fw_Labels = sdfw_Labels f,
     fw_Rules = map firewallRuleFromSDK (sdfw_Rules f),
     fw_AppliedTo = List.map_filter applied_from_sdk (sdfw_AppliedTo f) \<rparr>"

text \<open>The two loops over the addresses of rule \<open>i\<close>; \<open>which\<close> is ``source'' or ``destination''.\<close>

fun cidrs_to_sdk :: "nat \<Rightarrow> string \<Rightarrow> string list \<Rightarrow> goerr + IPNet list" where
  "cidrs_to_sdk i which [] = Inr []"
| "cidrs_to_sdk i which (s # ss) = (case ParseNet s of
       None \<Rightarrow> Inl (Wrapf (''hcloud: rule['' @ fmt_d (int i) @ ''] invalid '' @ which @ '' IP '' @ fmt_q s) (cidr_error s))
     | Some n \<Rightarrow> (case cidrs_to_sdk i which ss of Inl e \<Rightarrow> Inl e | Inr ns \<Rightarrow> Inr (n # ns)))"

definition rule_to_sdk :: "nat \<Rightarrow> FirewallRuleInfo \<Rightarrow> goerr + SdkFirewallRule" where
  "rule_to_sdk i r = (case cidrs_to_sdk i ''source'' (fwr_SourceIPs r) of Inl e \<Rightarrow> Inl e | Inr src \<Rightarrow>
     (case cidrs_to_sdk i ''destination'' (fwr_DestinationIPs r) of Inl e \<Rightarrow> Inl e | Inr dst \<Rightarrow>
        Inr \<lparr> sdfr_Direction = fwr_Direction r, sdfr_Protocol = fwr_Protocol r, sdfr_Port = fwr_Port r,
          sdfr_SourceIPs = src, sdfr_DestinationIPs = dst, sdfr_Description = fwr_Description r \<rparr>))"

text \<open>A loop over a slice with its index that stops at the first error.\<close>

fun indexed :: "(nat \<Rightarrow> 'a \<Rightarrow> goerr + 'b) \<Rightarrow> nat \<Rightarrow> 'a list \<Rightarrow> goerr + 'b list" where
  "indexed f i [] = Inr []"
| "indexed f i (x # xs) = (case f i x of Inl e \<Rightarrow> Inl e | Inr y \<Rightarrow>
     (case indexed f (Suc i) xs of Inl e \<Rightarrow> Inl e | Inr ys \<Rightarrow> Inr (y # ys)))"

definition firewallRuleInfosToSDK :: "FirewallRuleInfo list \<Rightarrow> goerr + SdkFirewallRule list" where
  "firewallRuleInfosToSDK = indexed rule_to_sdk 0"

definition apply_to_sdk :: "nat \<Rightarrow> FirewallApplyResource \<Rightarrow> goerr + SdkFirewallResource" where
  "apply_to_sdk i res =
     (if far_Type res = ''server'' then
        if far_ServerID res = 0 then Inl (Errorf (''hcloud: apply['' @ fmt_d (int i) @ ''] server id is required''))
        else Inr \<lparr> sdfa_Type = ''server'', sdfa_Server = Some (far_ServerID res), sdfa_LabelSelector = None \<rparr>
      else if far_Type res = ''label_selector'' then
        if far_Selector res = '''' then Inl (Errorf (''hcloud: apply['' @ fmt_d (int i) @ ''] label selector is empty''))
        else Inr \<lparr> sdfa_Type = ''label_selector'', sdfa_Server = None, sdfa_LabelSelector = Some (far_Selector res) \<rparr>
      else Inl (Errorf (''hcloud: apply['' @ fmt_d (int i) @ ''] unknown type '' @ fmt_q (far_Type res))))"

definition firewallApplyResourcesToSDK :: "FirewallApplyResource list \<Rightarrow> goerr + SdkFirewallResource list" where
  "firewallApplyResourcesToSDK = indexed apply_to_sdk 0"

end
