(* ===== verification/LBService.thy ===== *)
theory LBService
  imports Sdk
begin

text \<open>
  Load balancer services, \<open>internal/hcloud/loadbalancer_service.go\<close>: conversion from and to the
  structs of the SDK, the comparison, and the synchronisation by listen port. The order in which
  a Go map is walked is the choice list \<open>ch\<close> of the prelude.
\<close>

section \<open>From the SDK\<close>

definition positive :: "int \<Rightarrow> int option" where
  "positive n = (if 0 < n then Some n else None)"

definition positive_duration :: "duration \<Rightarrow> duration option" where
  "positive_duration d = (if 0 < sint d then Some d else None)"

definition nonempty :: "string \<Rightarrow> string option" where
  "nonempty s = (if s \<noteq> '''' then Some s else None)"

definition http_info_from_sdk :: "SdkHealthCheckHTTP \<Rightarrow> LoadBalancerHealthCheckHTTPInfo" where
  "http_info_from_sdk h = \<lparr> hch_Domain = nonempty (sdhh_Domain h), hch_Path = nonempty (sdhh_Path h),
     hch_Response = nonempty (sdhh_Response h), hch_StatusCodes = sdhh_StatusCodes h,
     hch_TLS = (if sdhh_TLS h then Some True else None) \<rparr>"

definition healthCheckInfoFromSDK :: "SdkHealthCheck \<Rightarrow> LoadBalancerHealthCheckInfo" where
  "healthCheckInfoFromSDK hc = \<lparr> hci_Protocol = sdhc_Protocol hc, hci_Port = positive (sdhc_Port hc),
     hci_Interval = positive_duration (sdhc_Interval hc), hci_Timeout = positive_duration (sdhc_Timeout hc),
     hci_Retries = positive (sdhc_Retries hc), hci_HTTP = map_option http_info_from_sdk (sdhc_HTTP hc) \<rparr>"

definition serviceInfoFromSDK :: "SdkService \<Rightarrow> LoadBalancerServiceInfo" where
  "serviceInfoFromSDK svc = \<lparr> svc_Protocol = sdsv_Protocol svc, svc_ListenPort = sdsv_ListenPort svc,
     svc_DestinationPort = sdsv_DestinationPort svc, svc_Proxyprotocol = sdsv_Proxyprotocol svc,
     svc_CertificateIDs = map (\<lambda>c. case c of None \<Rightarrow> 0 | Some c \<Rightarrow> sdc_ID c) (sdsv_Certificates svc),
     svc_HealthCheck = (if sdhc_Protocol (sdsv_HealthCheck svc) \<noteq> ''''
       then Some (healthCheckInfoFromSDK (sdsv_HealthCheck svc)) else None) \<rparr>"

section \<open>To the SDK\<close>

definition certificatesFromIDs :: "int64 list \<Rightarrow> SdkCertificate list" where
  "certificatesFromIDs ids = map (\<lambda>i. \<lparr> sdc_ID = i, sdc_Name = '''', sdc_Type = '''', sdc_Labels = [],
     sdc_DomainNames = [], sdc_Fingerprint = '''', sdc_NotValidBefore = None, sdc_NotValidAfter = None,
     sdc_Issuance = None \<rparr>) ids"

definition serviceHTTPOptsFromInfo :: "LoadBalancerServiceInfo \<Rightarrow> SdkCertificate list option" where
  "serviceHTTPOptsFromInfo svc = (if svc_CertificateIDs svc = [] then None
     else Some (certificatesFromIDs (svc_CertificateIDs svc)))"

definition serviceUpdateHTTPOptsFromInfo :: "LoadBalancerServiceInfo \<Rightarrow> SdkCertificate list option" where
  "serviceUpdateHTTPOptsFromInfo svc = (if svc_CertificateIDs svc = [] then None
     else Some (certificatesFromIDs (svc_CertificateIDs svc)))"

definition addHealthCheckHTTPOptsFromInfo :: "LoadBalancerHealthCheckHTTPInfo \<Rightarrow> SdkHealthCheckHTTPOpts" where
  "addHealthCheckHTTPOptsFromInfo h = \<lparr> sdhho_Domain = hch_Domain h, sdhho_Path = hch_Path h,
     sdhho_Response = hch_Response h, sdhho_StatusCodes = hch_StatusCodes h, sdhho_TLS = hch_TLS h \<rparr>"

definition updateHealthCheckHTTPOptsFromInfo :: "LoadBalancerHealthCheckHTTPInfo \<Rightarrow> SdkHealthCheckHTTPOpts" where
  "updateHealthCheckHTTPOptsFromInfo h = \<lparr> sdhho_Domain = hch_Domain h, sdhho_Path = hch_Path h,
     sdhho_Response = hch_Response h, sdhho_StatusCodes = hch_StatusCodes h, sdhho_TLS = hch_TLS h \<rparr>"

definition addHealthCheckOptsFromInfo :: "LoadBalancerHealthCheckInfo \<Rightarrow> SdkHealthCheckOpts" where
  "addHealthCheckOptsFromInfo hc = \<lparr> sdhco_Protocol = hci_Protocol hc, sdhco_Port = hci_Port hc,
     sdhco_Interval = hci_Interval hc, sdhco_Timeout = hci_Timeout hc, sdhco_Retries = hci_Retries hc,
     sdhco_HTTP = map_option addHealthCheckHTTPOptsFromInfo (hci_HTTP hc) \<rparr>"

definition updateHealthCheckOptsFromInfo :: "LoadBalancerHealthCheckInfo \<Rightarrow> SdkHealthCheckOpts" where
  "updateHealthCheckOptsFromInfo hc = \<lparr> sdhco_Protocol = hci_Protocol hc, sdhco_Port = hci_Port hc,
     sdhco_Interval = hci_Interval hc, sdhco_Timeout = hci_Timeout hc, sdhco_Retries = hci_Retries hc,
     sdhco_HTTP = map_option updateHealthCheckHTTPOptsFromInfo (hci_HTTP hc) \<rparr>"

definition addServiceOptsFromInfo :: "LoadBalancerServiceInfo \<Rightarrow> SdkAddServiceOpts" where
  "addServiceOptsFromInfo svc = \<lparr> sdas_Protocol = svc_Protocol svc, sdas_ListenPort = Some (svc_ListenPort svc),
     sdas_DestinationPort = Some (svc_DestinationPort svc),
     sdas_Proxyprotocol = (if svc_Proxyprotocol svc then Some True else None),
     sdas_HTTP = serviceHTTPOptsFromInfo svc,
     sdas_HealthCheck = map_option addHealthCheckOptsFromInfo (svc_HealthCheck svc) \<rparr>"

definition updateServiceOptsFromInfo :: "LoadBalancerServiceInfo \<Rightarrow> SdkUpdateServiceOpts" where
  "updateServiceOptsFromInfo svc = \<lparr> sdus_Protocol = svc_Protocol svc,
     sdus_DestinationPort = Some (svc_DestinationPort svc),
     sdus_Proxyprotocol = (if svc_Proxyprotocol svc then Some True else Some False),
     sdus_HTTP = serviceUpdateHTTPOptsFromInfo svc,
     sdus_HealthCheck = map_option updateHealthCheckOptsFromInfo (svc_HealthCheck svc) \<rparr>"

section \<open>Comparison\<close>

fun int64SlicesEqual :: "int64 list \<Rightarrow> int64 list \<Rightarrow> bool" where
  "int64SlicesEqual [] [] = True"
| "int64SlicesEqual (x # xs) (y # ys) = (x = y \<and> int64SlicesEqual xs ys)"
| "int64SlicesEqual xs ys = False"

definition intPtrEqual :: "int option \<Rightarrow> int option \<Rightarrow> bool" where
  "intPtrEqual a b = (case (a, b) of (None, None) \<Rightarrow> True | (Some x, Some y) \<Rightarrow> x = y | _ \<Rightarrow> False)"

definition durationPtrEqual :: "duration option \<Rightarrow> duration option \<Rightarrow> bool" where
  "durationPtrEqual a b = (case (a, b) of (None, None) \<Rightarrow> True | (Some x, Some y) \<Rightarrow> x = y | _ \<Rightarrow> False)"

definition stringPtrEqual :: "string option \<Rightarrow> string option \<Rightarrow> bool" where
  "stringPtrEqual a b = (case (a, b) of (None, None) \<Rightarrow> True | (Some x, Some y) \<Rightarrow> x = y | _ \<Rightarrow> False)"

definition boolPtrEqual :: "bool option \<Rightarrow> bool option \<Rightarrow> bool" where
  "boolPtrEqual a b = (case (a, b) of (None, None) \<Rightarrow> True | (Some x, Some y) \<Rightarrow> x = y | _ \<Rightarrow> False)"

definition healthCheckHTTPEqual :: "LoadBalancerHealthCheckHTTPInfo option \<Rightarrow> LoadBalancerHealthCheckHTTPInfo option \<Rightarrow> bool" where
  "healthCheckHTTPEqual a b = (case (a, b) of (None, None) \<Rightarrow> True
     | (Some x, Some y) \<Rightarrow>
         if \<not> stringPtrEqual (hch_Domain x) (hch_Domain y) \<or> \<not> stringPtrEqual (hch_Path x) (hch_Path y)
           \<or> \<not> stringPtrEqual (hch_Response x) (hch_Response y) \<or> \<not> boolPtrEqual (hch_TLS x) (hch_TLS y) then False
         else if length (hch_StatusCodes x) \<noteq> length (hch_StatusCodes y) then False
         else list_all2 (\<lambda>c d. c = d) (hch_StatusCodes x) (hch_StatusCodes y)
     | _ \<Rightarrow> False)"

definition healthChecksEqual :: "LoadBalancerHealthCheckInfo option \<Rightarrow> LoadBalancerHealthCheckInfo option \<Rightarrow> bool" where
  "healthChecksEqual a b = (case (a, b) of (None, None) \<Rightarrow> True
     | (Some x, Some y) \<Rightarrow>
         if hci_Protocol x \<noteq> hci_Protocol y \<or> \<not> intPtrEqual (hci_Port x) (hci_Port y)
           \<or> \<not> durationPtrEqual (hci_Interval x) (hci_Interval y) \<or> \<not> durationPtrEqual (hci_Timeout x) (hci_Timeout y)
           \<or> \<not> intPtrEqual (hci_Retries x) (hci_Retries y) then False
         else healthCheckHTTPEqual (hci_HTTP x) (hci_HTTP y)
     | _ \<Rightarrow> False)"

definition servicesEqual :: "LoadBalancerServiceInfo \<Rightarrow> LoadBalancerServiceInfo \<Rightarrow> bool" where
  "servicesEqual a b =
     (if svc_Protocol a \<noteq> svc_Protocol b \<or> svc_ListenPort a \<noteq> svc_ListenPort b
        \<or> svc_DestinationPort a \<noteq> svc_DestinationPort b \<or> svc_Proxyprotocol a \<noteq> svc_Proxyprotocol b
        \<or> \<not> int64SlicesEqual (svc_CertificateIDs a) (svc_CertificateIDs b) then False
      else if svc_HealthCheck b = None then True
      else healthChecksEqual (svc_HealthCheck a) (svc_HealthCheck b))"

section \<open>Synchronisation\<close>

definition by_port :: "LoadBalancerServiceInfo list \<Rightarrow> (int, LoadBalancerServiceInfo) gomap" where
  "by_port svcs = foldl (\<lambda>m svc. AList.update (svc_ListenPort svc) svc m) [] svcs"

definition drop_service :: "'w Sdk \<Rightarrow> int64 \<Rightarrow> SdkLoadBalancer \<Rightarrow> (int, LoadBalancerServiceInfo) gomap
    \<Rightarrow> int \<Rightarrow> ('w, unit) prog" where
  "drop_service S lbID lb desiredByPort listenPort =
     (if map_of desiredByPort listenPort \<noteq> None then ret ()
      else wrapM (''hcloud: DeleteService('' @ fmt_d lbID @ '', '' @ fmt_d listenPort @ '')'')
        (LoadBalancer_DeleteService S lb listenPort))"

definition ensure_service :: "'w Sdk \<Rightarrow> int64 \<Rightarrow> SdkLoadBalancer \<Rightarrow> (int, LoadBalancerServiceInfo) gomap
    \<Rightarrow> int \<times> LoadBalancerServiceInfo \<Rightarrow> ('w, unit) prog" where
  "ensure_service S lbID lb currentByPort = (\<lambda>(listenPort, want).
     case map_of currentByPort listenPort of
       None \<Rightarrow> wrapM (''hcloud: AddService('' @ fmt_d lbID @ '', '' @ fmt_d listenPort @ '')'')
         (LoadBalancer_AddService S lb (addServiceOptsFromInfo want))
     | Some have \<Rightarrow>
         if servicesEqual have want then ret ()
         else wrapM (''hcloud: UpdateService('' @ fmt_d lbID @ '', '' @ fmt_d listenPort @ '')'')
           (LoadBalancer_UpdateService S lb listenPort (updateServiceOptsFromInfo want)))"

definition sync_services :: "nat list \<times> nat list \<Rightarrow> 'w Sdk \<Rightarrow> int64 \<Rightarrow> SdkLoadBalancer
    \<Rightarrow> LoadBalancerServiceInfo list \<Rightarrow> ('w, unit) prog" where
  "sync_services ch S lbID lb desired =
     (let desiredByPort = by_port desired; currentByPort = by_port (map serviceInfoFromSDK (sdlb_Services lb))
      in bindM (forM (shuffle (fst ch) (map fst currentByPort)) (drop_service S lbID lb desiredByPort)) (\<lambda>_.
           forM (shuffle (snd ch) desiredByPort) (ensure_service S lbID lb currentByPort)))"

definition client_SyncLoadBalancerServices :: "nat list \<times> nat list \<Rightarrow> 'w Sdk \<Rightarrow> int64
    \<Rightarrow> LoadBalancerServiceInfo list \<Rightarrow> ('w, unit) prog" where
  "client_SyncLoadBalancerServices ch S lbID desired =
     bindM (wrapM (''hcloud: GetLoadBalancer('' @ fmt_d lbID @ '')'') (LoadBalancer_GetByID S lbID)) (\<lambda>lb.
     case lb of None \<Rightarrow> failM (Errorf (''hcloud: load balancer '' @ fmt_d lbID @ '' not found''))
     | Some lb \<Rightarrow> sync_services ch S lbID lb desired)"

end
