(* ===== verification/ApiErrors.thy ===== *)
theory ApiErrors
  imports Prelude
begin

text \<open>
  Classification of errors of the cloud API, \<open>internal/hcloud/apierrors.go\<close>. \<open>errors.As\<close>
  walks the chain of wrapped errors. The error codes of the SDK are their strings.
\<close>

primrec AsAPIError :: "goerr \<Rightarrow> (string \<times> string) option" where
  "AsAPIError (Errorf m) = None"
| "AsAPIError (Wrapf p e) = AsAPIError e"
| "AsAPIError (APIError code message text) = Some (code, message)"
| "AsAPIError (KubeError r t) = None"

definition IsResourceInUse :: "goerr \<Rightarrow> bool" where
  "IsResourceInUse e = (case AsAPIError e of Some (code, message) \<Rightarrow> code = ''resource_in_use'' | None \<Rightarrow> False)"

definition IsFirewallAlreadyRemoved :: "goerr \<Rightarrow> bool" where
  "IsFirewallAlreadyRemoved e =
     (case AsAPIError e of Some (code, message) \<Rightarrow> code = ''firewall_already_removed'' | None \<Rightarrow> False)"

definition mentions_not_assigned :: "string \<Rightarrow> bool" where
  "mentions_not_assigned s = strings_Contains (strings_ToLower s) ''not assigned''"

definition IsFloatingIPNotAssigned :: "goerr \<Rightarrow> bool" where
  "IsFloatingIPNotAssigned e = (case AsAPIError e of
       Some (code, message) \<Rightarrow> if code = ''invalid_input'' then mentions_not_assigned message
         else mentions_not_assigned (err_text e)
     | None \<Rightarrow> mentions_not_assigned (err_text e))"

definition IsPrimaryIPNotAssigned :: "goerr \<Rightarrow> bool" where
  "IsPrimaryIPNotAssigned e = (case AsAPIError e of
       Some (code, message) \<Rightarrow> if code = ''invalid_input'' then mentions_not_assigned message
         else mentions_not_assigned (err_text e)
     | None \<Rightarrow> mentions_not_assigned (err_text e))"

text \<open>Wrapping with context does not change what an API error is.\<close>

lemma wrapped_api_error [simp]:
  "AsAPIError (Wrapf p e) = AsAPIError e" "IsResourceInUse (Wrapf p e) = IsResourceInUse e"
  "IsFirewallAlreadyRemoved (Wrapf p e) = IsFirewallAlreadyRemoved e"
  by (simp_all add: IsResourceInUse_def IsFirewallAlreadyRemoved_def)

end
