(* ===== verification/RealClient.thy ===== *)
theory RealClient
  imports SdkConvert LBService ApiErrors
begin

text \<open>
  The production client, \<open>Client\<close> of \<open>internal/hcloud/client.go\<close>: servers, volumes, load balancers
  and networks. Each method is the calls it makes to the SDK, in order, with the context it adds
  to their errors. A lookup by identifier that finds nothing is \<open>None\<close> without an error.
\<close>

section \<open>Lookups and missing resources\<close>

text \<open>What the methods do with the result of a lookup: fail if it is nil, or do nothing.\<close>

definition or_missing :: "string \<Rightarrow> 'a option \<Rightarrow> ('a \<Rightarrow> ('s, 'b) prog) \<Rightarrow> ('s, 'b) prog" where
  "or_missing msg r f = (case r of None \<Rightarrow> failM (Errorf msg) | Some x \<Rightarrow> f x)"

definition if_there :: "'a option \<Rightarrow> ('a \<Rightarrow> ('s, unit) prog) \<Rightarrow> ('s, unit) prog" where
  "if_there r f = (case r of None \<Rightarrow> ret () | Some x \<Rightarrow> f x)"

definition call1 :: "string \<Rightarrow> int64 \<Rightarrow> string" where
  "call1 op i = ''hcloud: '' @ op @ ''('' @ fmt_d i @ '')''"

definition call2 :: "string \<Rightarrow> int64 \<Rightarrow> int64 \<Rightarrow> string" where
  "call2 op i j = ''hcloud: '' @ op @ ''('' @ fmt_d i @ '', '' @ fmt_d j @ '')''"

definition named :: "string \<Rightarrow> string \<Rightarrow> string" where
  "named what s = ''hcloud: '' @ what @ '' '' @ fmt_q s"

definition named_call :: "string \<Rightarrow> string \<Rightarrow> string" where
  "named_call op s = ''hcloud: '' @ op @ ''('' @ fmt_q s @ '')''"

definition numbered :: "string \<Rightarrow> int64 \<Rightarrow> string" where
  "numbered what i = ''hcloud: '' @ what @ '' '' @ fmt_d i"

text \<open>\<open>resolve what m s\<close> is the block that looks \<open>s\<close> up by name and fails if it is unknown.\<close>

definition resolve :: "string \<Rightarrow> (string \<Rightarrow> ('s, 'a option) prog) \<Rightarrow> string \<Rightarrow> ('a \<Rightarrow> ('s, 'b) prog) \<Rightarrow> ('s, 'b) prog" where
  "resolve what get s f = bindM (wrapM (named (''resolve '' @ what) s) (get s))
     (\<lambda>r. or_missing (named what s @ '' not found'') r f)"

section \<open>Servers\<close>

definition client_GetServer :: "'w Sdk \<Rightarrow> int64 \<Rightarrow> ('w, ServerInfo option) prog" where
  "client_GetServer S i = bindM (wrapM (call1 ''GetServer'' i) (Server_GetByID S i)) (\<lambda>s. ret (map_option toServerInfo s))"

definition client_GetServerByName :: "'w Sdk \<Rightarrow> string \<Rightarrow> ('w, ServerInfo option) prog" where
  "client_GetServerByName S nm = bindM (wrapM (named_call ''GetServerByName'' nm) (Server_GetByName S nm))
     (\<lambda>s. ret (map_option toServerInfo s))"

text \<open>The keys of a server: an unknown name is skipped.\<close>

definition ssh_keys :: "'w Sdk \<Rightarrow> string list \<Rightarrow> ('w, SdkNamed list) prog" where
  "ssh_keys S keys = foldM keys (\<lambda>acc key.
     bindM (wrapM (named ''resolve ssh key'' key) (SSHKey_GetByName S key))
       (\<lambda>k. ret (case k of None \<Rightarrow> acc | Some k \<Rightarrow> acc @ [k]))) []"

definition placement_group_of :: "'w Sdk \<Rightarrow> int64 \<Rightarrow> ('w, SdkPlacementGroup option) prog" where
  "placement_group_of S i = (if i = 0 then ret None
     else bindM (wrapM (numbered ''resolve placement group'' i) (PlacementGroup_GetByID S i))
       (\<lambda>pg. or_missing (numbered ''placement group'' i @ '' not found'') pg (\<lambda>pg. ret (Some pg))))"

definition client_CreateServer :: "'w Sdk \<Rightarrow> ServerCreateOpts \<Rightarrow> ('w, ServerInfo) prog" where
  "client_CreateServer S opts =
     resolve ''server type'' (ServerType_GetByName S) (sco_ServerType opts) (\<lambda>serverType.
     resolve ''image'' (Image_GetByName S) (sco_Image opts) (\<lambda>image.
     resolve ''location'' (Location_GetByName S) (sco_Location opts) (\<lambda>location.
     bindM (ssh_keys S (sco_SSHKeys opts)) (\<lambda>sshKeys.
     bindM (placement_group_of S (sco_PlacementGroupID opts)) (\<lambda>placementGroup.
     bindM (wrapM (named ''CreateServer'' (sco_Name opts)) (Server_Create S
       \<lparr> sdsc_Name = sco_Name opts, sdsc_ServerType = serverType, sdsc_Image = image, sdsc_Location = location,
         sdsc_Labels = sco_Labels opts, sdsc_SSHKeys = sshKeys, sdsc_UserData = sco_UserData opts,
         sdsc_PlacementGroup = placementGroup \<rparr>)) (\<lambda>server. ret (toServerInfo server)))))))"

definition client_DeleteServer :: "'w Sdk \<Rightarrow> int64 \<Rightarrow> ('w, unit) prog" where
  "client_DeleteServer S i = bindM (wrapM (call1 ''GetServer'' i) (Server_GetByID S i)) (\<lambda>s.
     if_there s (\<lambda>s. wrapM (call1 ''DeleteServer'' i) (Server_DeleteWithResult S s)))"

definition client_PowerOffServer :: "'w Sdk \<Rightarrow> int64 \<Rightarrow> ('w, unit) prog" where
  "client_PowerOffServer S i = bindM (wrapM (call1 ''GetServer'' i) (Server_GetByID S i)) (\<lambda>s.
     or_missing (numbered ''server'' i @ '' not found'') s (\<lambda>s.
     if sds_Status s = ''off'' \<or> sds_Status s = ''stopping'' then ret ()
     else wrapM (call1 ''PowerOffServer'' i) (Server_Poweroff S s)))"

definition client_PowerOnServer :: "'w Sdk \<Rightarrow> int64 \<Rightarrow> ('w, unit) prog" where
  "client_PowerOnServer S i = bindM (wrapM (call1 ''GetServer'' i) (Server_GetByID S i)) (\<lambda>s.
     or_missing (numbered ''server'' i @ '' not found'') s (\<lambda>s.
     if sds_Status s = ''running'' \<or> sds_Status s = ''starting'' then ret ()
     else wrapM (call1 ''PowerOnServer'' i) (Server_Poweron S s)))"

definition client_ChangeServerType :: "'w Sdk \<Rightarrow> int64 \<Rightarrow> string \<Rightarrow> bool \<Rightarrow> ('w, unit) prog" where
  "client_ChangeServerType S i ty upgradeDisk = bindM (wrapM (call1 ''GetServer'' i) (Server_GetByID S i)) (\<lambda>s.
     or_missing (numbered ''server'' i @ '' not found'') s (\<lambda>s.
     if map_option sdn_Name (sds_ServerType s) = Some ty then ret ()
     else resolve ''server type'' (ServerType_GetByName S) ty (\<lambda>serverType.
       wrapM (''hcloud: ChangeServerType('' @ fmt_d i @ '', '' @ fmt_q ty @ '')'')
         (Server_ChangeType S s serverType upgradeDisk))))"

definition attached_to :: "SdkServer \<Rightarrow> int64 \<Rightarrow> bool" where
  "attached_to s networkID = list_ex (\<lambda>pn. case pn of None \<Rightarrow> False | Some n \<Rightarrow> sdnw_ID n = networkID) (sds_PrivateNet s)"

definition client_AttachServerToNetwork :: "'w Sdk \<Rightarrow> int64 \<Rightarrow> int64 \<Rightarrow> ('w, unit) prog" where
  "client_AttachServerToNetwork S serverID networkID =
     bindM (wrapM (numbered ''fetch server'' serverID) (Server_GetByID S serverID)) (\<lambda>server.
     or_missing (numbered ''server'' serverID @ '' not found'') server (\<lambda>server.
     if attached_to server networkID then ret ()
     else bindM (wrapM (numbered ''fetch network'' networkID) (Network_GetByID S networkID)) (\<lambda>network.
       or_missing (numbered ''network'' networkID @ '' not found'') network (\<lambda>network.
       wrapM (call2 ''AttachServerToNetwork'' serverID networkID) (Server_AttachToNetwork S server network)))))"

definition client_DetachServerFromNetwork :: "'w Sdk \<Rightarrow> int64 \<Rightarrow> int64 \<Rightarrow> ('w, unit) prog" where
  "client_DetachServerFromNetwork S serverID networkID =
     bindM (wrapM (numbered ''fetch server'' serverID) (Server_GetByID S serverID)) (\<lambda>server.
     or_missing (numbered ''server'' serverID @ '' not found'') server (\<lambda>server.
     if \<not> attached_to server networkID then ret ()
     else bindM (wrapM (numbered ''fetch network'' networkID) (Network_GetByID S networkID)) (\<lambda>network.
       if_there network (\<lambda>network.
       wrapM (call2 ''DetachServerFromNetwork'' serverID networkID) (Server_DetachFromNetwork S server network)))))"

section \<open>Volumes\<close>

definition client_GetVolume :: "'w Sdk \<Rightarrow> int64 \<Rightarrow> ('w, VolumeInfo option) prog" where
  "client_GetVolume S i = bindM (wrapM (call1 ''GetVolume'' i) (Volume_GetByID S i)) (\<lambda>v. ret (map_option toVolumeInfo v))"

definition client_GetVolumeByName :: "'w Sdk \<Rightarrow> string \<Rightarrow> ('w, VolumeInfo option) prog" where
  "client_GetVolumeByName S nm = bindM (wrapM (named_call ''GetVolumeByName'' nm) (Volume_GetByName S nm))
     (\<lambda>v. ret (map_option toVolumeInfo v))"

definition volume_place :: "'w Sdk \<Rightarrow> VolumeCreateOpts \<Rightarrow> SdkVolumeCreateOpts \<Rightarrow> ('w, SdkVolumeCreateOpts) prog" where
  "volume_place S opts createOpts =
     (if 0 < vco_ServerID opts then
        bindM (wrapM (numbered ''resolve server for volume attachment'' (vco_ServerID opts))
          (Server_GetByID S (vco_ServerID opts))) (\<lambda>server.
        or_missing (numbered ''server'' (vco_ServerID opts) @ '' not found for attachment'') server
          (\<lambda>server. ret (createOpts\<lparr>sdvc_Server := Some server\<rparr>)))
      else if vco_Location opts \<noteq> '''' then
        resolve ''location'' (Location_GetByName S) (vco_Location opts)
          (\<lambda>location. ret (createOpts\<lparr>sdvc_Location := Some location\<rparr>))
      else failM (Errorf ''hcloud: either ServerID or Location must be provided''))"

definition client_CreateVolume :: "'w Sdk \<Rightarrow> VolumeCreateOpts \<Rightarrow> ('w, VolumeInfo) prog" where
  "client_CreateVolume S opts =
     bindM (volume_place S opts \<lparr> sdvc_Name = vco_Name opts, sdvc_Size = vco_Size opts, sdvc_Server = None,
       sdvc_Location = None, sdvc_Format = (if vco_Format opts \<noteq> '''' then Some (vco_Format opts) else None),
       sdvc_Automount = Some (vco_Automount opts), sdvc_Labels = vco_Labels opts \<rparr>) (\<lambda>createOpts.
     bindM (wrapM (named ''CreateVolume'' (vco_Name opts)) (Volume_Create S createOpts)) (\<lambda>v. ret (toVolumeInfo v)))"

definition client_DeleteVolume :: "'w Sdk \<Rightarrow> int64 \<Rightarrow> ('w, unit) prog" where
  "client_DeleteVolume S i = bindM (wrapM (call1 ''GetVolume'' i) (Volume_GetByID S i)) (\<lambda>v.
     if_there v (\<lambda>v. wrapM (call1 ''DeleteVolume'' i) (Volume_Delete S v)))"

definition client_AttachVolume :: "'w Sdk \<Rightarrow> int64 \<Rightarrow> int64 \<Rightarrow> ('w, unit) prog" where
  "client_AttachVolume S volumeID serverID =
     bindM (wrapM (numbered ''fetch volume'' volumeID) (Volume_GetByID S volumeID)) (\<lambda>v.
     or_missing (numbered ''volume'' volumeID @ '' not found'') v (\<lambda>v.
     bindM (wrapM (numbered ''fetch server'' serverID) (Server_GetByID S serverID)) (\<lambda>s.
     or_missing (numbered ''server'' serverID @ '' not found'') s (\<lambda>s.
     wrapM (call2 ''AttachVolume'' volumeID serverID) (Volume_Attach S v s)))))"

definition client_DetachVolume :: "'w Sdk \<Rightarrow> int64 \<Rightarrow> ('w, unit) prog" where
  "client_DetachVolume S volumeID =
     bindM (wrapM (numbered ''fetch volume'' volumeID) (Volume_GetByID S volumeID)) (\<lambda>v.
     or_missing (numbered ''volume'' volumeID @ '' not found'') v (\<lambda>v.
     wrapM (call1 ''DetachVolume'' volumeID) (Volume_Detach S v)))"

definition client_ResizeVolume :: "'w Sdk \<Rightarrow> int64 \<Rightarrow> int \<Rightarrow> ('w, unit) prog" where
  "client_ResizeVolume S volumeID sizeGB =
     bindM (wrapM (call1 ''GetVolume'' volumeID) (Volume_GetByID S volumeID)) (\<lambda>v.
     or_missing (numbered ''volume'' volumeID @ '' not found'') v (\<lambda>v.
     if sizeGB \<le> sdv_Size v then ret ()
     else wrapM (call2 ''ResizeVolume'' volumeID sizeGB) (Volume_Resize S v sizeGB)))"

section \<open>Load balancers\<close>

definition toLoadBalancerInfo :: "SdkLoadBalancer \<Rightarrow> LoadBalancerInfo" where
  "toLoadBalancerInfo lb = \<lparr> lb_ID = sdlb_ID lb, lb_Name = sdlb_Name lb,
     lb_PublicIPv4 = ip_text (sdlb_IPv4 lb), lb_PublicIPv6 = ip_text (sdlb_IPv6 lb),
     lb_Targets = List.map_filter (\<lambda>t. if sdlt_Type t = ''server'' then
         (case sdlt_Server t of Some (Some s) \<Rightarrow> Some (sds_ID s) | _ \<Rightarrow> None) else None) (sdlb_Targets lb),
     lb_Services = map serviceInfoFromSDK (sdlb_Services lb) \<rparr>"

definition client_GetLoadBalancer :: "'w Sdk \<Rightarrow> int64 \<Rightarrow> ('w, LoadBalancerInfo option) prog" where
  "client_GetLoadBalancer S i = bindM (wrapM (call1 ''GetLoadBalancer'' i) (LoadBalancer_GetByID S i))
     (\<lambda>lb. ret (map_option toLoadBalancerInfo lb))"

definition client_GetLoadBalancerByName :: "'w Sdk \<Rightarrow> string \<Rightarrow> ('w, LoadBalancerInfo option) prog" where
  "client_GetLoadBalancerByName S nm = bindM (wrapM (named_call ''GetLoadBalancerByName'' nm) (LoadBalancer_GetByName S nm))
     (\<lambda>lb. ret (map_option toLoadBalancerInfo lb))"

definition client_CreateLoadBalancer :: "'w Sdk \<Rightarrow> LoadBalancerCreateOpts \<Rightarrow> ('w, LoadBalancerInfo) prog" where
  "client_CreateLoadBalancer S opts =
     resolve ''load balancer type'' (LoadBalancerType_GetByName S) (lco_LoadBalancerType opts) (\<lambda>lbType.
     let createOpts = \<lparr> sdlc_Name = lco_Name opts, sdlc_LoadBalancerType = lbType,
       sdlc_Algorithm = (if lco_Algorithm opts \<noteq> '''' then Some (lco_Algorithm opts) else None),
       sdlc_Location = None, sdlc_NetworkZone = lco_NetworkZone opts, sdlc_Labels = lco_Labels opts \<rparr> in
     bindM (if lco_Location opts \<noteq> '''' then resolve ''location'' (Location_GetByName S) (lco_Location opts)
         (\<lambda>location. ret (createOpts\<lparr>sdlc_Location := Some location\<rparr>)) else ret createOpts) (\<lambda>createOpts.
     bindM (wrapM (named ''CreateLoadBalancer'' (lco_Name opts)) (LoadBalancer_Create S createOpts))
       (\<lambda>lb. ret (toLoadBalancerInfo lb))))"

definition client_DeleteLoadBalancer :: "'w Sdk \<Rightarrow> int64 \<Rightarrow> ('w, unit) prog" where
  "client_DeleteLoadBalancer S i = bindM (wrapM (call1 ''GetLoadBalancer'' i) (LoadBalancer_GetByID S i)) (\<lambda>lb.
     if_there lb (\<lambda>lb. wrapM (call1 ''DeleteLoadBalancer'' i) (LoadBalancer_Delete S lb)))"

definition client_AttachServerToLoadBalancer :: "'w Sdk \<Rightarrow> int64 \<Rightarrow> int64 \<Rightarrow> ('w, unit) prog" where
  "client_AttachServerToLoadBalancer S lbID serverID =
     bindM (wrapM (numbered ''fetch load balancer'' lbID) (LoadBalancer_GetByID S lbID)) (\<lambda>lb.
     or_missing (numbered ''load balancer'' lbID @ '' not found'') lb (\<lambda>lb.
     bindM (wrapM (numbered ''fetch server'' serverID) (Server_GetByID S serverID)) (\<lambda>server.
     or_missing (numbered ''server'' serverID @ '' not found'') server (\<lambda>server.
     wrapM (call2 ''AttachServerToLoadBalancer'' lbID serverID) (LoadBalancer_AddServerTarget S lb server)))))"

definition client_DetachServerFromLoadBalancer :: "'w Sdk \<Rightarrow> int64 \<Rightarrow> int64 \<Rightarrow> ('w, unit) prog" where
  "client_DetachServerFromLoadBalancer S lbID serverID =
     bindM (wrapM (numbered ''fetch load balancer'' lbID) (LoadBalancer_GetByID S lbID)) (\<lambda>lb.
     or_missing (numbered ''load balancer'' lbID @ '' not found'') lb (\<lambda>lb.
     bindM (wrapM (numbered ''fetch server'' serverID) (Server_GetByID S serverID)) (\<lambda>server.
     if_there server (\<lambda>server.
     wrapM (call2 ''DetachServerFromLoadBalancer'' lbID serverID) (LoadBalancer_RemoveServerTarget S lb server)))))"

section \<open>Networks\<close>

definition client_GetNetwork :: "'w Sdk \<Rightarrow> int64 \<Rightarrow> ('w, NetworkInfo option) prog" where
  "client_GetNetwork S i = bindM (wrapM (call1 ''GetNetwork'' i) (Network_GetByID S i)) (\<lambda>n. ret (map_option toNetworkInfo n))"

definition client_GetNetworkByName :: "'w Sdk \<Rightarrow> string \<Rightarrow> ('w, NetworkInfo option) prog" where
  "client_GetNetworkByName S nm = bindM (wrapM (named_call ''GetNetworkByName'' nm) (Network_GetByName S nm))
     (\<lambda>n. ret (map_option toNetworkInfo n))"

definition client_CreateNetwork :: "'w Sdk \<Rightarrow> NetworkCreateOpts \<Rightarrow> ('w, NetworkInfo) prog" where
  "client_CreateNetwork S opts = (case ParseNet (nco_IPRange opts) of
       None \<Rightarrow> failM (Wrapf (named ''parse ipRange'' (nco_IPRange opts)) (cidr_error (nco_IPRange opts)))
     | Some ipNet \<Rightarrow> bindM (wrapM (named ''CreateNetwork'' (nco_Name opts)) (Network_Create S
         \<lparr> sdnc_Name = nco_Name opts, sdnc_IPRange = ipNet, sdnc_Labels = nco_Labels opts,
           sdnc_ExposeRoutesToVSwitch = nco_ExposeRoutesToVSwitch opts \<rparr>)) (\<lambda>n. ret (toNetworkInfo n)))"

definition client_DeleteNetwork :: "'w Sdk \<Rightarrow> int64 \<Rightarrow> ('w, unit) prog" where
  "client_DeleteNetwork S i = bindM (wrapM (call1 ''GetNetwork'' i) (Network_GetByID S i)) (\<lambda>n.
     if_there n (\<lambda>n. wrapM (call1 ''DeleteNetwork'' i) (Network_Delete S n)))"

definition client_AddNetworkCloudSubnet :: "'w Sdk \<Rightarrow> int64 \<Rightarrow> string \<Rightarrow> ('w, unit) prog" where
  "client_AddNetworkCloudSubnet S i zone = bindM (wrapM (call1 ''GetNetwork'' i) (Network_GetByID S i)) (\<lambda>n.
     or_missing (numbered ''network'' i @ '' not found'') n (\<lambda>n.
     if list_ex (\<lambda>sn. sdsn_Type sn = ''cloud'' \<and> sdsn_NetworkZone sn = zone) (sdnw_Subnets n) then ret ()
     else wrapM (''hcloud: AddNetworkCloudSubnet('' @ fmt_d i @ '', '' @ fmt_q zone @ '')'')
       (Network_AddSubnet S n \<lparr> sdsn_Type = ''cloud'', sdsn_NetworkZone = zone \<rparr>)))"

end
