(* ===== verification/RealClient2.thy ===== *)
theory RealClient2
  imports RealClient
begin

text \<open>
  The production client, continued: firewalls (\<open>internal/hcloud/firewall.go\<close>), placement groups,
  primary and floating IPs and certificates (\<open>client.go\<close>), and the client as a value of the
  interface the controllers call.
\<close>

section \<open>Firewalls\<close>

definition client_GetFirewall :: "'w Sdk \<Rightarrow> int64 \<Rightarrow> ('w, FirewallInfo option) prog" where
  "client_GetFirewall S i = bindM (wrapM (call1 ''GetFirewall'' i) (Firewall_GetByID S i))
     (\<lambda>f. ret (map_option firewallInfoFromSDK f))"

definition client_GetFirewallByName :: "'w Sdk \<Rightarrow> string \<Rightarrow> ('w, FirewallInfo option) prog" where
  "client_GetFirewallByName S nm = bindM (wrapM (named_call ''GetFirewallByName'' nm) (Firewall_GetByName S nm))
     (\<lambda>f. ret (map_option firewallInfoFromSDK f))"

definition converted :: "goerr + 'a \<Rightarrow> ('a \<Rightarrow> ('s, 'b) prog) \<Rightarrow> ('s, 'b) prog" where
  "converted r f = (case r of Inl e \<Rightarrow> failM e | Inr x \<Rightarrow> f x)"

definition client_CreateFirewall :: "'w Sdk \<Rightarrow> FirewallCreateOpts \<Rightarrow> ('w, FirewallInfo) prog" where
  "client_CreateFirewall S opts =
     converted (firewallRuleInfosToSDK (fco_Rules opts)) (\<lambda>rules.
     converted (firewallApplyResourcesToSDK (fco_ApplyTo opts)) (\<lambda>applyTo.
     bindM (wrapM (named ''CreateFirewall'' (fco_Name opts)) (Firewall_Create S
       \<lparr> sdfc_Name = fco_Name opts, sdfc_Labels = fco_Labels opts, sdfc_Rules = rules, sdfc_ApplyTo = applyTo \<rparr>))
     (\<lambda>f. ret (firewallInfoFromSDK f))))"

definition client_UpdateFirewallLabels :: "'w Sdk \<Rightarrow> int64 \<Rightarrow> labels \<Rightarrow> ('w, unit) prog" where
  "client_UpdateFirewallLabels S i labels = bindM (wrapM (call1 ''GetFirewall'' i) (Firewall_GetByID S i)) (\<lambda>f.
     or_missing (numbered ''firewall'' i @ '' not found'') f (\<lambda>f.
     wrapM (call1 ''UpdateFirewallLabels'' i) (Firewall_Update S f labels)))"

definition client_SetFirewallRules :: "'w Sdk \<Rightarrow> int64 \<Rightarrow> FirewallRuleInfo list \<Rightarrow> ('w, unit) prog" where
  "client_SetFirewallRules S i rules = bindM (wrapM (call1 ''GetFirewall'' i) (Firewall_GetByID S i)) (\<lambda>f.
     or_missing (numbered ''firewall'' i @ '' not found'') f (\<lambda>f.
     converted (firewallRuleInfosToSDK rules) (\<lambda>sdkRules.
     wrapM (call1 ''SetFirewallRules'' i) (Firewall_SetRules S f sdkRules))))"

definition client_ApplyFirewallResources :: "'w Sdk \<Rightarrow> int64 \<Rightarrow> FirewallApplyResource list \<Rightarrow> ('w, unit) prog" where
  "client_ApplyFirewallResources S i resources = (if resources = [] then ret () else
     bindM (wrapM (call1 ''GetFirewall'' i) (Firewall_GetByID S i)) (\<lambda>f.
     or_missing (numbered ''firewall'' i @ '' not found'') f (\<lambda>f.
     converted (firewallApplyResourcesToSDK resources) (\<lambda>sdk.
     wrapM (call1 ''ApplyFirewallResources'' i) (Firewall_ApplyResources S f sdk)))))"

definition client_RemoveFirewallResources :: "'w Sdk \<Rightarrow> int64 \<Rightarrow> FirewallApplyResource list \<Rightarrow> ('w, unit) prog" where
  "client_RemoveFirewallResources S i resources = (if resources = [] then ret () else
     bindM (wrapM (call1 ''GetFirewall'' i) (Firewall_GetByID S i)) (\<lambda>f.
     or_missing (numbered ''firewall'' i @ '' not found'') f (\<lambda>f.
     converted (firewallApplyResourcesToSDK resources) (\<lambda>sdk.
     wrapM (call1 ''RemoveFirewallResources'' i) (Firewall_RemoveResources S f sdk)))))"

text \<open>Deleting detaches the targets first; that they are gone already is no error.\<close>

definition client_DeleteFirewall :: "'w Sdk \<Rightarrow> int64 \<Rightarrow> ('w, unit) prog" where
  "client_DeleteFirewall S i = bindM (wrapM (call1 ''GetFirewall'' i) (Firewall_GetByID S i)) (\<lambda>f.
     if_there f (\<lambda>f.
     let info = firewallInfoFromSDK f in
     bindM (if fw_AppliedTo info = [] then ret ()
       else tryM (client_RemoveFirewallResources S i (fw_AppliedTo info))
         (\<lambda>e. if IsFirewallAlreadyRemoved e then ret ()
           else failM (Wrapf (numbered ''detach firewall'' i @ '' before delete'') e)) ret) (\<lambda>_.
     wrapM (call1 ''DeleteFirewall'' i) (Firewall_Delete S f))))"

section \<open>Placement groups\<close>

definition client_GetPlacementGroup :: "'w Sdk \<Rightarrow> int64 \<Rightarrow> ('w, PlacementGroupInfo option) prog" where
  "client_GetPlacementGroup S i = bindM (wrapM (call1 ''GetPlacementGroup'' i) (PlacementGroup_GetByID S i))
     (\<lambda>g. ret (map_option toPlacementGroupInfo g))"

definition client_GetPlacementGroupByName :: "'w Sdk \<Rightarrow> string \<Rightarrow> ('w, PlacementGroupInfo option) prog" where
  "client_GetPlacementGroupByName S nm = bindM (wrapM (named_call ''GetPlacementGroupByName'' nm) (PlacementGroup_GetByName S nm))
     (\<lambda>g. ret (map_option toPlacementGroupInfo g))"

definition client_CreatePlacementGroup :: "'w Sdk \<Rightarrow> PlacementGroupCreateOpts \<Rightarrow> ('w, PlacementGroupInfo) prog" where
  "client_CreatePlacementGroup S opts = bindM (wrapM (named ''CreatePlacementGroup'' (pco_Name opts)) (PlacementGroup_Create S
       \<lparr> sdpc_Name = pco_Name opts, sdpc_Type = pco_Type opts, sdpc_Labels = pco_Labels opts \<rparr>))
     (\<lambda>g. ret (toPlacementGroupInfo g))"

definition client_DeletePlacementGroup :: "'w Sdk \<Rightarrow> int64 \<Rightarrow> ('w, unit) prog" where
  "client_DeletePlacementGroup S i = bindM (wrapM (call1 ''GetPlacementGroup'' i) (PlacementGroup_GetByID S i)) (\<lambda>g.
     if_there g (\<lambda>g. wrapM (call1 ''DeletePlacementGroup'' i) (PlacementGroup_Delete S g)))"

section \<open>Primary IPs\<close>

definition client_GetPrimaryIP :: "'w Sdk \<Rightarrow> int64 \<Rightarrow> ('w, PrimaryIPInfo option) prog" where
  "client_GetPrimaryIP S i = bindM (wrapM (call1 ''GetPrimaryIP'' i) (PrimaryIP_GetByID S i))
     (\<lambda>p. ret (map_option toPrimaryIPInfo p))"

definition client_GetPrimaryIPByName :: "'w Sdk \<Rightarrow> string \<Rightarrow> ('w, PrimaryIPInfo option) prog" where
  "client_GetPrimaryIPByName S nm = bindM (wrapM (named_call ''GetPrimaryIPByName'' nm) (PrimaryIP_GetByName S nm))
     (\<lambda>p. ret (map_option toPrimaryIPInfo p))"

definition primary_ip_create_opts :: "PrimaryIPCreateOpts \<Rightarrow> SdkPrimaryIPCreateOpts" where
  "primary_ip_create_opts opts = \<lparr> sdic_Name = ipc_Name opts, sdic_Type = ipc_Type opts,
     sdic_Datacenter = ipc_Datacenter opts, sdic_Labels = ipc_Labels opts, sdic_AutoDelete = ipc_AutoDelete opts,
     sdic_AssigneeType = primaryIPAssigneeType (ipc_AssigneeType opts),
     sdic_AssigneeID = (if ipc_AssigneeID opts \<noteq> 0 \<and> ipc_Datacenter opts = '''' then Some (ipc_AssigneeID opts) else None) \<rparr>"

definition client_CreatePrimaryIP :: "'w Sdk \<Rightarrow> PrimaryIPCreateOpts \<Rightarrow> ('w, PrimaryIPInfo) prog" where
  "client_CreatePrimaryIP S opts =
     bindM (wrapM (named ''CreatePrimaryIP'' (ipc_Name opts)) (PrimaryIP_Create S (primary_ip_create_opts opts)))
       (\<lambda>p. ret (toPrimaryIPInfo p))"

definition client_DeletePrimaryIP :: "'w Sdk \<Rightarrow> int64 \<Rightarrow> ('w, unit) prog" where
  "client_DeletePrimaryIP S i = bindM (wrapM (call1 ''GetPrimaryIP'' i) (PrimaryIP_GetByID S i)) (\<lambda>p.
     if_there p (\<lambda>p. wrapM (call1 ''DeletePrimaryIP'' i) (PrimaryIP_Delete S p)))"

definition client_UpdatePrimaryIP :: "'w Sdk \<Rightarrow> int64 \<Rightarrow> PrimaryIPUpdateOpts \<Rightarrow> ('w, unit) prog" where
  "client_UpdatePrimaryIP S i opts = bindM (wrapM (call1 ''GetPrimaryIP'' i) (PrimaryIP_GetByID S i)) (\<lambda>p.
     or_missing (numbered ''primary IP'' i @ '' not found'') p (\<lambda>p.
     wrapM (call1 ''UpdatePrimaryIP'' i) (PrimaryIP_Update S p
       \<lparr> sdiu_Name = sdpi_Name p, sdiu_AutoDelete = ipu_AutoDelete opts, sdiu_Labels = ipu_Labels opts \<rparr>)))"

definition client_AssignPrimaryIP :: "'w Sdk \<Rightarrow> int64 \<Rightarrow> int64 \<Rightarrow> string \<Rightarrow> ('w, unit) prog" where
  "client_AssignPrimaryIP S i assigneeID assigneeType =
     wrapM (call2 ''AssignPrimaryIP'' i assigneeID) (PrimaryIP_Assign S i assigneeID (primaryIPAssigneeType assigneeType))"

definition client_UnassignPrimaryIP :: "'w Sdk \<Rightarrow> int64 \<Rightarrow> ('w, unit) prog" where
  "client_UnassignPrimaryIP S i = bindM (wrapM (call1 ''GetPrimaryIP'' i) (PrimaryIP_GetByID S i)) (\<lambda>p.
     or_missing (numbered ''primary IP'' i @ '' not found'') p (\<lambda>p.
     if sdpi_AssigneeID p = 0 then ret ()
     else tryM (PrimaryIP_Unassign S i)
       (\<lambda>e. if IsPrimaryIPNotAssigned e then ret () else failM (Wrapf (call1 ''UnassignPrimaryIP'' i) e)) ret))"

definition client_ChangePrimaryIPDNSPtr :: "'w Sdk \<Rightarrow> int64 \<Rightarrow> string \<Rightarrow> string \<Rightarrow> ('w, unit) prog" where
  "client_ChangePrimaryIPDNSPtr S i ip dnsPtr = wrapM (call1 ''ChangePrimaryIPDNSPtr'' i) (PrimaryIP_ChangeDNSPtr S i ip dnsPtr)"

section \<open>Floating IPs\<close>

definition client_GetFloatingIP :: "'w Sdk \<Rightarrow> int64 \<Rightarrow> ('w, FloatingIPInfo option) prog" where
  "client_GetFloatingIP S i = bindM (wrapM (call1 ''GetFloatingIP'' i) (FloatingIP_GetByID S i))
     (\<lambda>f. ret (map_option toFloatingIPInfo f))"

definition client_GetFloatingIPByName :: "'w Sdk \<Rightarrow> string \<Rightarrow> ('w, FloatingIPInfo option) prog" where
  "client_GetFloatingIPByName S nm = bindM (wrapM (named_call ''GetFloatingIPByName'' nm) (FloatingIP_GetByName S nm))
     (\<lambda>f. ret (map_option toFloatingIPInfo f))"

definition client_CreateFloatingIP :: "'w Sdk \<Rightarrow> FloatingIPCreateOpts \<Rightarrow> ('w, FloatingIPInfo) prog" where
  "client_CreateFloatingIP S opts =
     resolve ''location'' (Location_GetByName S) (fic_Location opts) (\<lambda>location.
     bindM (if fic_ServerID opts = 0 then ret None
       else bindM (wrapM (numbered ''resolve server'' (fic_ServerID opts)) (Server_GetByID S (fic_ServerID opts)))
         (\<lambda>server. or_missing (numbered ''server'' (fic_ServerID opts) @ '' not found'') server (\<lambda>server. ret (Some server))))
       (\<lambda>server.
     bindM (wrapM (named ''CreateFloatingIP'' (fic_Name opts)) (FloatingIP_Create S
       \<lparr> sdgc_Type = fic_Type opts, sdgc_HomeLocation = location, sdgc_Labels = fic_Labels opts, sdgc_Name = fic_Name opts,
         sdgc_Description = (if fic_Description opts \<noteq> '''' then Some (fic_Description opts) else None),
         sdgc_Server = server \<rparr>)) (\<lambda>f. ret (toFloatingIPInfo f))))"

definition client_DeleteFloatingIP :: "'w Sdk \<Rightarrow> int64 \<Rightarrow> ('w, unit) prog" where
  "client_DeleteFloatingIP S i = bindM (wrapM (call1 ''GetFloatingIP'' i) (FloatingIP_GetByID S i)) (\<lambda>f.
     if_there f (\<lambda>f. wrapM (call1 ''DeleteFloatingIP'' i) (FloatingIP_Delete S f)))"

definition client_UpdateFloatingIP :: "'w Sdk \<Rightarrow> int64 \<Rightarrow> FloatingIPUpdateOpts \<Rightarrow> ('w, unit) prog" where
  "client_UpdateFloatingIP S i opts = bindM (wrapM (call1 ''GetFloatingIP'' i) (FloatingIP_GetByID S i)) (\<lambda>f.
     or_missing (numbered ''floating IP'' i @ '' not found'') f (\<lambda>f.
     wrapM (call1 ''UpdateFloatingIP'' i) (FloatingIP_Update S f
       \<lparr> sdgu_Description = fiu_Description opts, sdgu_Labels = fiu_Labels opts \<rparr>)))"

definition client_AssignFloatingIP :: "'w Sdk \<Rightarrow> int64 \<Rightarrow> int64 \<Rightarrow> ('w, unit) prog" where
  "client_AssignFloatingIP S i serverID = bindM (wrapM (call1 ''GetFloatingIP'' i) (FloatingIP_GetByID S i)) (\<lambda>f.
     or_missing (numbered ''floating IP'' i @ '' not found'') f (\<lambda>f.
     bindM (wrapM (numbered ''resolve server'' serverID) (Server_GetByID S serverID)) (\<lambda>server.
     or_missing (numbered ''server'' serverID @ '' not found'') server (\<lambda>server.
     wrapM (call2 ''AssignFloatingIP'' i serverID) (FloatingIP_Assign S f server)))))"

definition client_UnassignFloatingIP :: "'w Sdk \<Rightarrow> int64 \<Rightarrow> ('w, unit) prog" where
  "client_UnassignFloatingIP S i = bindM (wrapM (call1 ''GetFloatingIP'' i) (FloatingIP_GetByID S i)) (\<lambda>f.
     or_missing (numbered ''floating IP'' i @ '' not found'') f (\<lambda>f.
     if sdfi_Server f = None then ret ()
     else tryM (FloatingIP_Unassign S f)
       (\<lambda>e. if IsFloatingIPNotAssigned e then ret () else failM (Wrapf (call1 ''UnassignFloatingIP'' i) e)) ret))"

definition client_ChangeFloatingIPDNSPtr :: "'w Sdk \<Rightarrow> int64 \<Rightarrow> string \<Rightarrow> string \<Rightarrow> ('w, unit) prog" where
  "client_ChangeFloatingIPDNSPtr S i ip dnsPtr = bindM (wrapM (call1 ''GetFloatingIP'' i) (FloatingIP_GetByID S i)) (\<lambda>f.
     or_missing (numbered ''floating IP'' i @ '' not found'') f (\<lambda>f.
     wrapM (call1 ''ChangeFloatingIPDNSPtr'' i) (FloatingIP_ChangeDNSPtr S f ip (Some dnsPtr))))"

section \<open>Certificates\<close>

definition client_GetCertificate :: "'w Sdk \<Rightarrow> int64 \<Rightarrow> ('w, CertificateInfo option) prog" where
  "client_GetCertificate S i = bindM (wrapM (call1 ''GetCertificate'' i) (Certificate_GetByID S i))
     (\<lambda>c. ret (map_option toCertificateInfo c))"

definition client_GetCertificateByName :: "'w Sdk \<Rightarrow> string \<Rightarrow> ('w, CertificateInfo option) prog" where
  "client_GetCertificateByName S nm = bindM (wrapM (named_call ''GetCertificateByName'' nm) (Certificate_GetByName S nm))
     (\<lambda>c. ret (map_option toCertificateInfo c))"

definition client_CreateCertificate :: "'w Sdk \<Rightarrow> CertificateCreateOpts \<Rightarrow> ('w, CertificateInfo) prog" where
  "client_CreateCertificate S opts = bindM (wrapM (named ''CreateCertificate'' (cco_Name opts)) (Certificate_CreateCertificate S
       \<lparr> sdcc_Name = cco_Name opts, sdcc_Type = cco_Type opts, sdcc_Labels = cco_Labels opts,
         sdcc_Certificate = cco_Certificate opts, sdcc_PrivateKey = cco_PrivateKey opts,
         sdcc_DomainNames = cco_DomainNames opts \<rparr>)) (\<lambda>c. ret (toCertificateInfo c))"

definition client_DeleteCertificate :: "'w Sdk \<Rightarrow> int64 \<Rightarrow> ('w, unit) prog" where
  "client_DeleteCertificate S i = bindM (wrapM (call1 ''GetCertificate'' i) (Certificate_GetByID S i)) (\<lambda>c.
     if_there c (\<lambda>c. wrapM (call1 ''DeleteCertificate'' i) (Certificate_Delete S c)))"

definition client_UpdateCertificate :: "'w Sdk \<Rightarrow> int64 \<Rightarrow> CertificateUpdateOpts \<Rightarrow> ('w, unit) prog" where
  "client_UpdateCertificate S i opts = bindM (wrapM (call1 ''GetCertificate'' i) (Certificate_GetByID S i)) (\<lambda>c.
     or_missing (numbered ''certificate'' i @ '' not found'') c (\<lambda>c.
     wrapM (call1 ''UpdateCertificate'' i) (Certificate_Update S c (ccu_Labels opts))))"

section \<open>The client as an interface\<close>

definition real_client :: "nat list \<times> nat list \<Rightarrow> 'w Sdk \<Rightarrow> 'w Interface" where
  "real_client ch S = \<lparr>
     GetServer = client_GetServer S, GetServerByName = client_GetServerByName S, CreateServer = client_CreateServer S,
     DeleteServer = client_DeleteServer S, PowerOffServer = client_PowerOffServer S, PowerOnServer = client_PowerOnServer S,
     ChangeServerType = client_ChangeServerType S, AttachServerToNetwork = client_AttachServerToNetwork S,
     DetachServerFromNetwork = client_DetachServerFromNetwork S,
     GetVolume = client_GetVolume S, GetVolumeByName = client_GetVolumeByName S, CreateVolume = client_CreateVolume S,
     DeleteVolume = client_DeleteVolume S, AttachVolume = client_AttachVolume S, DetachVolume = client_DetachVolume S,
     ResizeVolume = client_ResizeVolume S,
     GetLoadBalancer = client_GetLoadBalancer S, GetLoadBalancerByName = client_GetLoadBalancerByName S,
     CreateLoadBalancer = client_CreateLoadBalancer S, DeleteLoadBalancer = client_DeleteLoadBalancer S,
     AttachServerToLoadBalancer = client_AttachServerToLoadBalancer S,
     DetachServerFromLoadBalancer = client_DetachServerFromLoadBalancer S,
     SyncLoadBalancerServices = client_SyncLoadBalancerServices ch S,
     GetNetwork = client_GetNetwork S, GetNetworkByName = client_GetNetworkByName S, CreateNetwork = client_CreateNetwork S,
     DeleteNetwork = client_DeleteNetwork S, AddNetworkCloudSubnet = client_AddNetworkCloudSubnet S,
     GetFirewall = client_GetFirewall S, GetFirewallByName = client_GetFirewallByName S, CreateFirewall = client_CreateFirewall S,
     DeleteFirewall = client_DeleteFirewall S, UpdateFirewallLabels = client_UpdateFirewallLabels S,
     SetFirewallRules = client_SetFirewallRules S, ApplyFirewallResources = client_ApplyFirewallResources S,
     RemoveFirewallResources = client_RemoveFirewallResources S,
     GetPlacementGroup = client_GetPlacementGroup S, GetPlacementGroupByName = client_GetPlacementGroupByName S,
     CreatePlacementGroup = client_CreatePlacementGroup S, DeletePlacementGroup = client_DeletePlacementGroup S,
     GetPrimaryIP = client_GetPrimaryIP S, GetPrimaryIPByName = client_GetPrimaryIPByName S,
     CreatePrimaryIP = client_CreatePrimaryIP S, DeletePrimaryIP = client_DeletePrimaryIP S,
     UpdatePrimaryIP = client_UpdatePrimaryIP S, AssignPrimaryIP = client_AssignPrimaryIP S,
     UnassignPrimaryIP = client_UnassignPrimaryIP S, ChangePrimaryIPDNSPtr = client_ChangePrimaryIPDNSPtr S,
     GetFloatingIP = client_GetFloatingIP S, GetFloatingIPByName = client_GetFloatingIPByName S,
     CreateFloatingIP = client_CreateFloatingIP S, DeleteFloatingIP = client_DeleteFloatingIP S,
     UpdateFloatingIP = client_UpdateFloatingIP S, AssignFloatingIP = client_AssignFloatingIP S,
     UnassignFloatingIP = client_UnassignFloatingIP S, ChangeFloatingIPDNSPtr = client_ChangeFloatingIPDNSPtr S,
     GetCertificate = client_GetCertificate S, GetCertificateByName = client_GetCertificateByName S,
     CreateCertificate = client_CreateCertificate S, DeleteCertificate = client_DeleteCertificate S,
     UpdateCertificate = client_UpdateCertificate S \<rparr>"

end
