(* ===== verification/SampleSdk.thy ===== *)
theory SampleSdk
  imports RealClient2
begin

text \<open>
  An SDK for the witnesses: a service that cannot be reached, so that every call fails and leaves
  it alone. The witnesses replace the methods they need.
\<close>

definition unreachable :: goerr where
  "unreachable = Errorf ''dial tcp: connection refused''"

definition failing_sdk :: "'w Sdk" where
  "failing_sdk = \<lparr>
    Server_GetByID = \<lambda>_. failM unreachable, Server_GetByName = \<lambda>_. failM unreachable,
    Server_Create = \<lambda>_. failM unreachable, Server_DeleteWithResult = \<lambda>_. failM unreachable,
    Server_Poweroff = \<lambda>_. failM unreachable, Server_Poweron = \<lambda>_. failM unreachable,
    Server_ChangeType = \<lambda>_ _ _. failM unreachable, Server_AttachToNetwork = \<lambda>_ _. failM unreachable,
    Server_DetachFromNetwork = \<lambda>_ _. failM unreachable, ServerType_GetByName = \<lambda>_. failM unreachable,
    Image_GetByName = \<lambda>_. failM unreachable, Location_GetByName = \<lambda>_. failM unreachable,
    SSHKey_GetByName = \<lambda>_. failM unreachable, Volume_GetByID = \<lambda>_. failM unreachable,
    Volume_GetByName = \<lambda>_. failM unreachable, Volume_Create = \<lambda>_. failM unreachable,
    Volume_Delete = \<lambda>_. failM unreachable, Volume_Attach = \<lambda>_ _. failM unreachable,
    Volume_Detach = \<lambda>_. failM unreachable, Volume_Resize = \<lambda>_ _. failM unreachable,
    LoadBalancerType_GetByName = \<lambda>_. failM unreachable, LoadBalancer_GetByID = \<lambda>_. failM unreachable,
    LoadBalancer_GetByName = \<lambda>_. failM unreachable, LoadBalancer_Create = \<lambda>_. failM unreachable,
    LoadBalancer_Delete = \<lambda>_. failM unreachable,
    LoadBalancer_AddServerTarget = \<lambda>_ _. failM unreachable,
    LoadBalancer_RemoveServerTarget = \<lambda>_ _. failM unreachable,
    LoadBalancer_AddService = \<lambda>_ _. failM unreachable,
    LoadBalancer_UpdateService = \<lambda>_ _ _. failM unreachable,
    LoadBalancer_DeleteService = \<lambda>_ _. failM unreachable, Network_GetByID = \<lambda>_. failM unreachable,
    Network_GetByName = \<lambda>_. failM unreachable, Network_Create = \<lambda>_. failM unreachable,
    Network_Delete = \<lambda>_. failM unreachable, Network_AddSubnet = \<lambda>_ _. failM unreachable,
    Firewall_GetByID = \<lambda>_. failM unreachable, Firewall_GetByName = \<lambda>_. failM unreachable,
    Firewall_Create = \<lambda>_. failM unreachable, Firewall_Delete = \<lambda>_. failM unreachable,
    Firewall_Update = \<lambda>_ _. failM unreachable, Firewall_SetRules = \<lambda>_ _. failM unreachable,
    Firewall_ApplyResources = \<lambda>_ _. failM unreachable,
    Firewall_RemoveResources = \<lambda>_ _. failM unreachable, PlacementGroup_GetByID = \<lambda>_. failM unreachable,
    PlacementGroup_GetByName = \<lambda>_. failM unreachable, PlacementGroup_Create = \<lambda>_. failM unreachable,
    PlacementGroup_Delete = \<lambda>_. failM unreachable, PrimaryIP_GetByID = \<lambda>_. failM unreachable,
    PrimaryIP_GetByName = \<lambda>_. failM unreachable, PrimaryIP_Create = \<lambda>_. failM unreachable,
    PrimaryIP_Delete = \<lambda>_. failM unreachable, PrimaryIP_Update = \<lambda>_ _. failM unreachable,
    PrimaryIP_Assign = \<lambda>_ _ _. failM unreachable, PrimaryIP_Unassign = \<lambda>_. failM unreachable,
    PrimaryIP_ChangeDNSPtr = \<lambda>_ _ _. failM unreachable, FloatingIP_GetByID = \<lambda>_. failM unreachable,
    FloatingIP_GetByName = \<lambda>_. failM unreachable, FloatingIP_Create = \<lambda>_. failM unreachable,
    FloatingIP_Delete = \<lambda>_. failM unreachable, FloatingIP_Update = \<lambda>_ _. failM unreachable,
    FloatingIP_Assign = \<lambda>_ _. failM unreachable, FloatingIP_Unassign = \<lambda>_. failM unreachable,
    FloatingIP_ChangeDNSPtr = \<lambda>_ _ _. failM unreachable, Certificate_GetByID = \<lambda>_. failM unreachable,
    Certificate_GetByName = \<lambda>_. failM unreachable,
    Certificate_CreateCertificate = \<lambda>_. failM unreachable, Certificate_Delete = \<lambda>_. failM unreachable,
    Certificate_Update = \<lambda>_ _. failM unreachable \<rparr>"

end
