(* ===== verification/Wiring.thy ===== *)
theory Wiring
  imports Parametric RealClient2 SampleSdk
begin

text \<open>
  How the program is put together: the registration of the types with the scheme
  (\<open>api/v1alpha1\<close>), the registration of the metrics (\<open>internal/metrics/metrics.go\<close>), the
  \<open>SetupWithManager\<close> of the nine controllers and \<open>main\<close> (\<open>cmd/main.go\<close>). The manager of
  controller-runtime and the Prometheus registry are parameters.
\<close>

section \<open>Kinds and objects\<close>

text \<open>The root types of the API group, and a \<open>client.Object\<close> by its dynamic type.\<close>

datatype RootKind = HCloudServer | HCloudVolume | HCloudLoadBalancer | HCloudNetwork | HCloudFirewall | HCloudPlacementGroup | HCloudPrimaryIP | HCloudFloatingIP | HCloudCertificate

datatype Object = ServerObject HCloudServer
  | VolumeObject HCloudVolume
  | LoadBalancerObject HCloudLoadBalancer
  | NetworkObject HCloudNetwork
  | FirewallObject HCloudFirewall
  | PlacementGroupObject HCloudPlacementGroup
  | PrimaryIPObject HCloudPrimaryIP
  | FloatingIPObject HCloudFloatingIP
  | CertificateObject HCloudCertificate

text \<open>\<open>SchemeBuilder.Register\<close> in the \<open>init\<close> of each file of types, and what
  \<open>AddToScheme\<close> adds; Go runs the \<open>init\<close> functions in the order of the file names.\<close>

definition register_HCloudServer :: "string list" where
  "register_HCloudServer = [''HCloudServer'', ''HCloudServerList'']"

definition register_HCloudVolume :: "string list" where
  "register_HCloudVolume = [''HCloudVolume'', ''HCloudVolumeList'']"

definition register_HCloudLoadBalancer :: "string list" where
  "register_HCloudLoadBalancer = [''HCloudLoadBalancer'', ''HCloudLoadBalancerList'']"

definition register_HCloudNetwork :: "string list" where
  "register_HCloudNetwork = [''HCloudNetwork'', ''HCloudNetworkList'']"

definition register_HCloudFirewall :: "string list" where
  "register_HCloudFirewall = [''HCloudFirewall'', ''HCloudFirewallList'']"

definition register_HCloudPlacementGroup :: "string list" where
  "register_HCloudPlacementGroup = [''HCloudPlacementGroup'', ''HCloudPlacementGroupList'']"

definition register_HCloudPrimaryIP :: "string list" where
  "register_HCloudPrimaryIP = [''HCloudPrimaryIP'', ''HCloudPrimaryIPList'']"

definition register_HCloudFloatingIP :: "string list" where
  "register_HCloudFloatingIP = [''HCloudFloatingIP'', ''HCloudFloatingIPList'']"

definition register_HCloudCertificate :: "string list" where
  "register_HCloudCertificate = [''HCloudCertificate'', ''HCloudCertificateList'']"

definition AddToScheme :: "string list" where
  "AddToScheme = register_HCloudCertificate @ register_HCloudFirewall @ register_HCloudFloatingIP @ register_HCloudLoadBalancer @ register_HCloudNetwork @ register_HCloudPlacementGroup @ register_HCloudPrimaryIP @ register_HCloudServer @ register_HCloudVolume"

primrec kind_name :: "RootKind \<Rightarrow> string" where
  "kind_name HCloudServer = ''HCloudServer''"
| "kind_name HCloudVolume = ''HCloudVolume''"
| "kind_name HCloudLoadBalancer = ''HCloudLoadBalancer''"
| "kind_name HCloudNetwork = ''HCloudNetwork''"
| "kind_name HCloudFirewall = ''HCloudFirewall''"
| "kind_name HCloudPlacementGroup = ''HCloudPlacementGroup''"
| "kind_name HCloudPrimaryIP = ''HCloudPrimaryIP''"
| "kind_name HCloudFloatingIP = ''HCloudFloatingIP''"
| "kind_name HCloudCertificate = ''HCloudCertificate''"

section \<open>The manager\<close>

text \<open>
  A reconcile starts from the two services and the logs and keeps no object; \<open>visit\<close> runs a program
  of the base reconciler there.
\<close>

type_synonym ('c, 'k) world = "('c, 'k, unit) rst"

definition with_object :: "'o \<Rightarrow> ('c, 'k) world \<Rightarrow> ('c, 'k, 'o) rst" where
  "with_object x w = \<lparr> cloud = cloud w, kube = kube w, obj = x, events = events w, metrics = metrics w \<rparr>"

definition without_object :: "('c, 'k, 'o) rst \<Rightarrow> ('c, 'k) world" where
  "without_object s = \<lparr> cloud = cloud s, kube = kube s, obj = (), events = events s, metrics = metrics s \<rparr>"

definition visit :: "'o \<Rightarrow> (('c, 'k, 'o) rst, 'a) prog \<Rightarrow> (('c, 'k) world, 'a) prog" where
  "visit x m = (\<lambda>w. case m (with_object x w) of (r, s) \<Rightarrow> (r, without_object s))"

text \<open>
  What \<open>NewControllerManagedBy(mgr).For(...).Watches(...).Complete(base)\<close> hands to the manager: the
  kind reconciled, the kinds watched with the requests each change makes, the name of the event
  recorder and the reconciler.
\<close>

record ('c, 'k) Controller =
  For :: RootKind
  Watches :: "(RootKind \<times> (Object \<Rightarrow> 'k \<Rightarrow> NamespacedName list)) list"
  Recorder :: string
  Reconciler :: "NamespacedName \<Rightarrow> (('c, 'k) world, Result) prog"

record ManagerOptions =
  mo_Scheme :: "string list"
  mo_MetricsBindAddress :: string
  mo_HealthProbeBindAddress :: string
  mo_LeaderElection :: bool
  mo_LeaderElectionID :: string

text \<open>The environment of \<open>main\<close>: the variables, the registry, the manager over the state \<open>'m\<close>.\<close>

record ('c, 'k, 'm) Runtime =
  Getenv :: "string \<Rightarrow> string"
  ClientGoScheme :: "string list"
  MustRegister :: "string list \<Rightarrow> ('m, unit) prog"
  NewManager :: "ManagerOptions \<Rightarrow> ('m, unit) prog"
  GetClient :: "'k kube_api"
  IndexField :: "RootKind \<Rightarrow> string \<Rightarrow> (Object \<Rightarrow> string list) \<Rightarrow> ('m, unit) prog"
  Complete :: "('c, 'k) Controller \<Rightarrow> ('m, unit) prog"
  AddHealthzCheck :: "string \<Rightarrow> ('m, unit) prog"
  AddReadyzCheck :: "string \<Rightarrow> ('m, unit) prog"
  Start :: "('m, unit) prog"

text \<open>The libraries and the map orders of the controllers, one value for each.\<close>

record ('c, 'k) Libs =
  LServers :: "(('c, 'k, HCloudServer) rst) lib"
  LVolumes :: "(('c, 'k, HCloudVolume) rst) lib"
  LLoadBalancers :: "(('c, 'k, HCloudLoadBalancer) rst) lib"
  LNetworks :: "(('c, 'k, HCloudNetwork) rst) lib"
  LFirewalls :: "(('c, 'k, HCloudFirewall) rst) lib"
  LPlacementGroups :: "(('c, 'k, HCloudPlacementGroup) rst) lib"
  LPrimaryIPs :: "(('c, 'k, HCloudPrimaryIP) rst) lib"
  LFloatingIPs :: "(('c, 'k, HCloudFloatingIP) rst) lib"
  LCertificates :: "(('c, 'k, HCloudCertificate) rst) lib"

record Orders =
  LB_order :: "nat list \<times> nat list"
  FW_order :: "nat list \<times> nat list"

section \<open>The controllers\<close>

text \<open>The base reconciler over each kind, and the functions given to the manager. The index functions
  and the watch functions test the dynamic type of their argument.\<close>

definition server_base :: "('c, 'k) Libs \<Rightarrow> 'k kube_api \<Rightarrow> 'c Interface \<Rightarrow> Orders
    \<Rightarrow> NamespacedName \<Rightarrow> (('c, 'k) world, Result) prog" where
  "server_base Ls K H ord req = visit NewHCloudServer
     (base_Reconcile (LServers Ls) (KServers K) True (HCloudServerReconciler (LServers Ls) K H) req)"

definition volume_base :: "('c, 'k) Libs \<Rightarrow> 'k kube_api \<Rightarrow> 'c Interface \<Rightarrow> Orders
    \<Rightarrow> NamespacedName \<Rightarrow> (('c, 'k) world, Result) prog" where
  "volume_base Ls K H ord req = visit NewHCloudVolume
     (base_Reconcile (LVolumes Ls) (KVolumes K) True (HCloudVolumeReconciler (LVolumes Ls) K H) req)"

definition lb_base :: "('c, 'k) Libs \<Rightarrow> 'k kube_api \<Rightarrow> 'c Interface \<Rightarrow> Orders
    \<Rightarrow> NamespacedName \<Rightarrow> (('c, 'k) world, Result) prog" where
  "lb_base Ls K H ord req = visit NewHCloudLoadBalancer
     (base_Reconcile (LLoadBalancers Ls) (KLoadBalancers K) True (HCloudLoadBalancerReconciler (LB_order ord) (LLoadBalancers Ls) K H) req)"

definition network_base :: "('c, 'k) Libs \<Rightarrow> 'k kube_api \<Rightarrow> 'c Interface \<Rightarrow> Orders
    \<Rightarrow> NamespacedName \<Rightarrow> (('c, 'k) world, Result) prog" where
  "network_base Ls K H ord req = visit NewHCloudNetwork
     (base_Reconcile (LNetworks Ls) (KNetworks K) True (HCloudNetworkReconciler (LNetworks Ls) K H) req)"

definition firewall_base :: "('c, 'k) Libs \<Rightarrow> 'k kube_api \<Rightarrow> 'c Interface \<Rightarrow> Orders
    \<Rightarrow> NamespacedName \<Rightarrow> (('c, 'k) world, Result) prog" where
  "firewall_base Ls K H ord req = visit NewHCloudFirewall
     (base_Reconcile (LFirewalls Ls) (KFirewalls K) True (HCloudFirewallReconciler (FW_order ord) (LFirewalls Ls) K H) req)"

definition placement_base :: "('c, 'k) Libs \<Rightarrow> 'k kube_api \<Rightarrow> 'c Interface \<Rightarrow> Orders
    \<Rightarrow> NamespacedName \<Rightarrow> (('c, 'k) world, Result) prog" where
  "placement_base Ls K H ord req = visit NewHCloudPlacementGroup
     (base_Reconcile (LPlacementGroups Ls) (KPlacementGroups K) True (HCloudPlacementGroupReconciler (LPlacementGroups Ls) K H) req)"

definition primary_ip_base :: "('c, 'k) Libs \<Rightarrow> 'k kube_api \<Rightarrow> 'c Interface \<Rightarrow> Orders
    \<Rightarrow> NamespacedName \<Rightarrow> (('c, 'k) world, Result) prog" where
  "primary_ip_base Ls K H ord req = visit NewHCloudPrimaryIP
     (base_Reconcile (LPrimaryIPs Ls) (KPrimaryIPs K) True (HCloudPrimaryIPReconciler (LPrimaryIPs Ls) K H) req)"

definition floating_ip_base :: "('c, 'k) Libs \<Rightarrow> 'k kube_api \<Rightarrow> 'c Interface \<Rightarrow> Orders
    \<Rightarrow> NamespacedName \<Rightarrow> (('c, 'k) world, Result) prog" where
  "floating_ip_base Ls K H ord req = visit NewHCloudFloatingIP
     (base_Reconcile (LFloatingIPs Ls) (KFloatingIPs K) True (HCloudFloatingIPReconciler (LFloatingIPs Ls) K H) req)"

definition cert_base :: "('c, 'k) Libs \<Rightarrow> 'k kube_api \<Rightarrow> 'c Interface \<Rightarrow> Orders
    \<Rightarrow> NamespacedName \<Rightarrow> (('c, 'k) world, Result) prog" where
  "cert_base Ls K H ord req = visit NewHCloudCertificate
     (base_Reconcile (LCertificates Ls) (KCertificates K) True (HCloudCertificateReconciler (LCertificates Ls) K H) req)"

definition volume_index :: "Object \<Rightarrow> string list" where
  "volume_index rawObj = (case rawObj of VolumeObject x \<Rightarrow> volume_server_index x | _ \<Rightarrow> [])"

definition watch_volume_servers :: "'k kube_api \<Rightarrow> Object \<Rightarrow> 'k \<Rightarrow> NamespacedName list" where
  "watch_volume_servers K rawObj k = (case rawObj of ServerObject s \<Rightarrow> mapServerToVolumes K s k | _ \<Rightarrow> [])"

definition primary_ip_index :: "Object \<Rightarrow> string list" where
  "primary_ip_index rawObj = (case rawObj of PrimaryIPObject x \<Rightarrow> primary_ip_server_index x | _ \<Rightarrow> [])"

definition watch_primary_ip_servers :: "'k kube_api \<Rightarrow> Object \<Rightarrow> 'k \<Rightarrow> NamespacedName list" where
  "watch_primary_ip_servers K rawObj k = (case rawObj of ServerObject s \<Rightarrow> mapServerToPrimaryIPs K s k | _ \<Rightarrow> [])"

definition floating_ip_index :: "Object \<Rightarrow> string list" where
  "floating_ip_index rawObj = (case rawObj of FloatingIPObject x \<Rightarrow> floating_ip_server_index x | _ \<Rightarrow> [])"

definition watch_floating_ip_servers :: "'k kube_api \<Rightarrow> Object \<Rightarrow> 'k \<Rightarrow> NamespacedName list" where
  "watch_floating_ip_servers K rawObj k = (case rawObj of ServerObject s \<Rightarrow> mapServerToFloatingIPs K s k | _ \<Rightarrow> [])"

definition watch_lb_servers :: "'k kube_api \<Rightarrow> Object \<Rightarrow> 'k \<Rightarrow> NamespacedName list" where
  "watch_lb_servers K rawObj k = enqueueAllLoadBalancersForServerChange K k"

definition watch_lb_certificates :: "'k kube_api \<Rightarrow> Object \<Rightarrow> 'k \<Rightarrow> NamespacedName list" where
  "watch_lb_certificates K rawObj k = (case rawObj of CertificateObject c \<Rightarrow> mapCertificateToLoadBalancers K c k
     | _ \<Rightarrow> [])"

definition server_controller :: "('c, 'k) Libs \<Rightarrow> 'k kube_api \<Rightarrow> 'c Interface \<Rightarrow> Orders \<Rightarrow> ('c, 'k) Controller" where
  "server_controller Ls K H ord = \<lparr> For = HCloudServer, Watches = [],
     Recorder = ''hcloud-server'', Reconciler = server_base Ls K H ord \<rparr>"

definition volume_controller :: "('c, 'k) Libs \<Rightarrow> 'k kube_api \<Rightarrow> 'c Interface \<Rightarrow> Orders \<Rightarrow> ('c, 'k) Controller" where
  "volume_controller Ls K H ord = \<lparr> For = HCloudVolume, Watches = [(HCloudServer, watch_volume_servers K)],
     Recorder = ''hcloud-volume'', Reconciler = volume_base Ls K H ord \<rparr>"

definition lb_controller :: "('c, 'k) Libs \<Rightarrow> 'k kube_api \<Rightarrow> 'c Interface \<Rightarrow> Orders \<Rightarrow> ('c, 'k) Controller" where
  "lb_controller Ls K H ord = \<lparr> For = HCloudLoadBalancer, Watches = [(HCloudServer, watch_lb_servers K),
       (HCloudCertificate, watch_lb_certificates K)],
     Recorder = ''hcloud-loadbalancer'', Reconciler = lb_base Ls K H ord \<rparr>"

definition network_controller :: "('c, 'k) Libs \<Rightarrow> 'k kube_api \<Rightarrow> 'c Interface \<Rightarrow> Orders \<Rightarrow> ('c, 'k) Controller" where
  "network_controller Ls K H ord = \<lparr> For = HCloudNetwork, Watches = [],
     Recorder = ''hcloud-network'', Reconciler = network_base Ls K H ord \<rparr>"

definition firewall_controller :: "('c, 'k) Libs \<Rightarrow> 'k kube_api \<Rightarrow> 'c Interface \<Rightarrow> Orders \<Rightarrow> ('c, 'k) Controller" where
  "firewall_controller Ls K H ord = \<lparr> For = HCloudFirewall, Watches = [],
     Recorder = ''hcloud-firewall'', Reconciler = firewall_base Ls K H ord \<rparr>"

definition placement_controller :: "('c, 'k) Libs \<Rightarrow> 'k kube_api \<Rightarrow> 'c Interface \<Rightarrow> Orders \<Rightarrow> ('c, 'k) Controller" where
  "placement_controller Ls K H ord = \<lparr> For = HCloudPlacementGroup, Watches = [],
     Recorder = ''hcloud-placementgroup'', Reconciler = placement_base Ls K H ord \<rparr>"

definition primary_ip_controller :: "('c, 'k) Libs \<Rightarrow> 'k kube_api \<Rightarrow> 'c Interface \<Rightarrow> Orders \<Rightarrow> ('c, 'k) Controller" where
  "primary_ip_controller Ls K H ord = \<lparr> For = HCloudPrimaryIP, Watches = [(HCloudServer, watch_primary_ip_servers K)],
     Recorder = ''hcloud-primaryip'', Reconciler = primary_ip_base Ls K H ord \<rparr>"

definition floating_ip_controller :: "('c, 'k) Libs \<Rightarrow> 'k kube_api \<Rightarrow> 'c Interface \<Rightarrow> Orders \<Rightarrow> ('c, 'k) Controller" where
  "floating_ip_controller Ls K H ord = \<lparr> For = HCloudFloatingIP, Watches = [(HCloudServer, watch_floating_ip_servers K)],
     Recorder = ''hcloud-floatingip'', Reconciler = floating_ip_base Ls K H ord \<rparr>"

definition cert_controller :: "('c, 'k) Libs \<Rightarrow> 'k kube_api \<Rightarrow> 'c Interface \<Rightarrow> Orders \<Rightarrow> ('c, 'k) Controller" where
  "cert_controller Ls K H ord = \<lparr> For = HCloudCertificate, Watches = [],
     Recorder = ''hcloud-certificate'', Reconciler = cert_base Ls K H ord \<rparr>"

section \<open>Registration\<close>

text \<open>\<open>SetupWithManager\<close>: the index the watch needs, then the controller.\<close>

definition server_SetupWithManager :: "('c, 'k, 'm) Runtime \<Rightarrow> ('c, 'k) Libs \<Rightarrow> Orders \<Rightarrow> 'k kube_api \<Rightarrow> 'c Interface
    \<Rightarrow> ('m, unit) prog" where
  "server_SetupWithManager M Ls ord K H = Complete M (server_controller Ls K H ord)"

definition volume_SetupWithManager :: "('c, 'k, 'm) Runtime \<Rightarrow> ('c, 'k) Libs \<Rightarrow> Orders \<Rightarrow> 'k kube_api \<Rightarrow> 'c Interface
    \<Rightarrow> ('m, unit) prog" where
  "volume_SetupWithManager M Ls ord K H =
     bindM (wrapM ''index HCloudVolume by serverRef name'' (IndexField M HCloudVolume ''spec.serverRef.name'' volume_index)) (\<lambda>_.
     Complete M (volume_controller Ls K H ord))"

definition lb_SetupWithManager :: "('c, 'k, 'm) Runtime \<Rightarrow> ('c, 'k) Libs \<Rightarrow> Orders \<Rightarrow> 'k kube_api \<Rightarrow> 'c Interface
    \<Rightarrow> ('m, unit) prog" where
  "lb_SetupWithManager M Ls ord K H = Complete M (lb_controller Ls K H ord)"

definition network_SetupWithManager :: "('c, 'k, 'm) Runtime \<Rightarrow> ('c, 'k) Libs \<Rightarrow> Orders \<Rightarrow> 'k kube_api \<Rightarrow> 'c Interface
    \<Rightarrow> ('m, unit) prog" where
  "network_SetupWithManager M Ls ord K H = Complete M (network_controller Ls K H ord)"

definition firewall_SetupWithManager :: "('c, 'k, 'm) Runtime \<Rightarrow> ('c, 'k) Libs \<Rightarrow> Orders \<Rightarrow> 'k kube_api \<Rightarrow> 'c Interface
    \<Rightarrow> ('m, unit) prog" where
  "firewall_SetupWithManager M Ls ord K H = Complete M (firewall_controller Ls K H ord)"

definition placement_SetupWithManager :: "('c, 'k, 'm) Runtime \<Rightarrow> ('c, 'k) Libs \<Rightarrow> Orders \<Rightarrow> 'k kube_api \<Rightarrow> 'c Interface
    \<Rightarrow> ('m, unit) prog" where
  "placement_SetupWithManager M Ls ord K H = Complete M (placement_controller Ls K H ord)"

definition primary_ip_SetupWithManager :: "('c, 'k, 'm) Runtime \<Rightarrow> ('c, 'k) Libs \<Rightarrow> Orders \<Rightarrow> 'k kube_api \<Rightarrow> 'c Interface
    \<Rightarrow> ('m, unit) prog" where
  "primary_ip_SetupWithManager M Ls ord K H =
     bindM (wrapM ''index HCloudPrimaryIP by serverRef name'' (IndexField M HCloudPrimaryIP ''spec.serverRef.name'' primary_ip_index)) (\<lambda>_.
     Complete M (primary_ip_controller Ls K H ord))"

definition floating_ip_SetupWithManager :: "('c, 'k, 'm) Runtime \<Rightarrow> ('c, 'k) Libs \<Rightarrow> Orders \<Rightarrow> 'k kube_api \<Rightarrow> 'c Interface
    \<Rightarrow> ('m, unit) prog" where
  "floating_ip_SetupWithManager M Ls ord K H =
     bindM (wrapM ''index HCloudFloatingIP by serverRef name'' (IndexField M HCloudFloatingIP ''spec.serverRef.name'' floating_ip_index)) (\<lambda>_.
     Complete M (floating_ip_controller Ls K H ord))"

definition cert_SetupWithManager :: "('c, 'k, 'm) Runtime \<Rightarrow> ('c, 'k) Libs \<Rightarrow> Orders \<Rightarrow> 'k kube_api \<Rightarrow> 'c Interface
    \<Rightarrow> ('m, unit) prog" where
  "cert_SetupWithManager M Ls ord K H = Complete M (cert_controller Ls K H ord)"

section \<open>The program\<close>

text \<open>\<open>metrics.Register\<close>: the collectors, once; the flag is \<open>registerOnce\<close>.\<close>

definition metrics_Register :: "('c, 'k, 'm) Runtime \<Rightarrow> bool \<Rightarrow> ('m, bool) prog" where
  "metrics_Register M once = (if once then ret True
     else bindM (MustRegister M [''hcloud_reconcile_total'', ''hcloud_reconcile_duration_seconds'',
       ''hcloud_api_requests_total'', ''hcloud_api_request_duration_seconds'']) (\<lambda>_. ret True))"

record Flags =
  metricsAddr :: string
  probeAddr :: string
  enableLeaderElection :: bool

definition flag_value :: "(string \<Rightarrow> 'a option) \<Rightarrow> string \<Rightarrow> 'a \<Rightarrow> 'a" where
  "flag_value given name dflt = (case given name of None \<Rightarrow> dflt | Some v \<Rightarrow> v)"

definition parse_flags :: "(string \<Rightarrow> string option) \<Rightarrow> (string \<Rightarrow> bool option) \<Rightarrow> Flags" where
  "parse_flags strings bools = \<lparr> metricsAddr = flag_value strings ''metrics-bind-address'' '':8082'',
     probeAddr = flag_value strings ''health-probe-bind-address'' '':8081'',
     enableLeaderElection = flag_value bools ''leader-elect'' True \<rparr>"

text \<open>\<open>init\<close> of \<open>main.go\<close>: the types of client-go, then those of the API group.\<close>

definition init_scheme :: "('c, 'k, 'm) Runtime \<Rightarrow> string list" where
  "init_scheme M = ClientGoScheme M @ AddToScheme"

definition manager_options :: "string list \<Rightarrow> Flags \<Rightarrow> ManagerOptions" where
  "manager_options sch fl = \<lparr> mo_Scheme = sch, mo_MetricsBindAddress = metricsAddr fl,
     mo_HealthProbeBindAddress = probeAddr fl, mo_LeaderElection = enableLeaderElection fl,
     mo_LeaderElectionID = ''hcloud-operator.infra.hkc.io'' \<rparr>"

definition NewClient :: "(string \<Rightarrow> 'w Sdk) \<Rightarrow> nat list \<times> nat list \<Rightarrow> string \<Rightarrow> 'w Interface" where
  "NewClient S ch token = real_client ch (S token)"

text \<open>The registrations of \<open>main\<close>, in its order. A failure is logged and ends the process.\<close>

definition setup_controllers :: "('c, 'k, 'm) Runtime \<Rightarrow> ('c, 'k) Libs \<Rightarrow> Orders \<Rightarrow> 'c Interface \<Rightarrow> ('m, unit) prog" where
  "setup_controllers M Ls ord H =
     bindM (wrapM ''unable to create controller HCloudServer'' (server_SetupWithManager M Ls ord (GetClient M) H)) (\<lambda>_.
     bindM (wrapM ''unable to create controller HCloudVolume'' (volume_SetupWithManager M Ls ord (GetClient M) H)) (\<lambda>_.
     bindM (wrapM ''unable to create controller HCloudLoadBalancer'' (lb_SetupWithManager M Ls ord (GetClient M) H)) (\<lambda>_.
     bindM (wrapM ''unable to create controller HCloudNetwork'' (network_SetupWithManager M Ls ord (GetClient M) H)) (\<lambda>_.
     bindM (wrapM ''unable to create controller HCloudFirewall'' (firewall_SetupWithManager M Ls ord (GetClient M) H)) (\<lambda>_.
     bindM (wrapM ''unable to create controller HCloudPlacementGroup'' (placement_SetupWithManager M Ls ord (GetClient M) H)) (\<lambda>_.
     bindM (wrapM ''unable to create controller HCloudPrimaryIP'' (primary_ip_SetupWithManager M Ls ord (GetClient M) H)) (\<lambda>_.
     bindM (wrapM ''unable to create controller HCloudFloatingIP'' (floating_ip_SetupWithManager M Ls ord (GetClient M) H)) (\<lambda>_.
     wrapM ''unable to create controller HCloudCertificate'' (cert_SetupWithManager M Ls ord (GetClient M) H)))))))))"

text \<open>\<open>main\<close>: an error is logged and the process exits with code 1; without one it ends when the manager
  is stopped.\<close>

definition main_program :: "('w \<times> api_log, 'k, 'm) Runtime \<Rightarrow> (string \<Rightarrow> 'w Sdk) \<Rightarrow> nat list \<times> nat list
    \<Rightarrow> ('w \<times> api_log, 'k) Libs \<Rightarrow> Orders \<Rightarrow> (string \<Rightarrow> string option) \<Rightarrow> (string \<Rightarrow> bool option) \<Rightarrow> ('m, unit) prog" where
  "main_program M S ch Ls ord strings bools =
     (let fl = parse_flags strings bools in
      bindM (metrics_Register M False) (\<lambda>_.
      let hcloudToken = Getenv M ''HCLOUD_TOKEN'' in
      if hcloudToken = '''' then failM (Errorf ''HCLOUD_TOKEN environment variable is required'')
      else
        bindM (wrapM ''unable to start manager'' (NewManager M (manager_options (init_scheme M) fl))) (\<lambda>_.
        case Instrument (Some (Direct (NewClient S ch hcloudToken))) of
          Some (Wrapped inner) \<Rightarrow>
            bindM (setup_controllers M Ls ord (instrumentedClient inner)) (\<lambda>_.
            bindM (wrapM ''unable to set up health check'' (AddHealthzCheck M ''healthz'')) (\<lambda>_.
            bindM (wrapM ''unable to set up ready check'' (AddReadyzCheck M ''readyz'')) (\<lambda>_.
            wrapM ''problem running manager'' (Start M))))
        | _ \<Rightarrow> panicM ''nil pointer dereference'')))"

end
