(* ===== verification/WiringProps.thy ===== *)
theory WiringProps
  imports Wiring
begin

text \<open>
  What \<open>main\<close> does to the manager, in order, and what wakes the controllers: every object that
  names a changed server or certificate is enqueued, and no other.
\<close>

section \<open>The calls on the manager\<close>

datatype ('c, 'k) call = Collectors "string list" | ManagerCreated ManagerOptions
  | Index RootKind string "Object \<Rightarrow> string list" | Added "('c, 'k) Controller"
  | Healthz string | Readyz string | Started

text \<open>A runtime that writes down every call before it makes it.\<close>

definition noted :: "'e \<Rightarrow> ('m, unit) prog \<Rightarrow> ('m \<times> 'e list, unit) prog" where
  "noted e m = (\<lambda>(s, log). case m s of (r, s') \<Rightarrow> (r, (s', log @ [e])))"

definition traced :: "('c, 'k, 'm) Runtime \<Rightarrow> ('c, 'k, 'm \<times> ('c, 'k) call list) Runtime" where
  "traced M = \<lparr> Getenv = Getenv M, ClientGoScheme = ClientGoScheme M,
     MustRegister = (\<lambda>xs. noted (Collectors xs) (MustRegister M xs)),
     NewManager = (\<lambda>opts. noted (ManagerCreated opts) (NewManager M opts)), GetClient = GetClient M,
     IndexField = (\<lambda>kd f g. noted (Index kd f g) (IndexField M kd f g)),
     Complete = (\<lambda>c. noted (Added c) (Complete M c)),
     AddHealthzCheck = (\<lambda>n. noted (Healthz n) (AddHealthzCheck M n)),
     AddReadyzCheck = (\<lambda>n. noted (Readyz n) (AddReadyzCheck M n)),
     Start = noted Started (Start M) \<rparr>"

lemma traced_sels [simp]:
  "Getenv (traced M) = Getenv M" "ClientGoScheme (traced M) = ClientGoScheme M" "MustRegister (traced M) xs = noted (Collectors xs) (MustRegister M xs)"
  "NewManager (traced M) opts = noted (ManagerCreated opts) (NewManager M opts)" "GetClient (traced M) = GetClient M"
  "IndexField (traced M) kd f g = noted (Index kd f g) (IndexField M kd f g)"
  "Complete (traced M) c = noted (Added c) (Complete M c)"
  "AddHealthzCheck (traced M) n = noted (Healthz n) (AddHealthzCheck M n)"
  "AddReadyzCheck (traced M) n = noted (Readyz n) (AddReadyzCheck M n)"
  "Start (traced M) = noted Started (Start M)"
  by (simp_all add: traced_def)

lemma traced_scheme [simp]: "init_scheme (traced M) = init_scheme M"
  by (simp add: init_scheme_def)

text \<open>A program that makes the calls of a list in order and stops at the first that fails.\<close>

definition went :: "'e list \<Rightarrow> 'e list \<Rightarrow> 'a res \<Rightarrow> 'e list \<Rightarrow> bool" where
  "went es log r log' \<longleftrightarrow> (\<exists>bs cs. es = bs @ cs \<and> log' = log @ bs \<and> ((\<exists>x. r = Ok x) \<longrightarrow> cs = []) \<and> ((\<nexists>x. r = Ok x) \<longrightarrow> bs \<noteq> []))"

definition performs :: "('m \<times> 'e list, 'a) prog \<Rightarrow> 'e list \<Rightarrow> bool" where
  "performs m es \<longleftrightarrow> (\<forall>s log. went es log (fst (m (s, log))) (snd (snd (m (s, log)))))"

lemma performsD: "performs m es \<Longrightarrow> m (s, log) = (r, (s', log')) \<Longrightarrow> went es log r log'"
  unfolding performs_def by (metis fst_conv snd_conv)

lemma performsI: "(\<And>s log r s' log'. m (s, log) = (r, (s', log')) \<Longrightarrow> went es log r log') \<Longrightarrow> performs m es"
  unfolding performs_def by (metis prod.collapse)

lemma went_ok: "went es log (Ok x) log' \<longleftrightarrow> log' = log @ es"
  by (auto simp: went_def)

lemma went_failed: "(\<nexists>x. r = Ok x) \<Longrightarrow> went es log r log' \<longleftrightarrow> (\<exists>bs cs. es = bs @ cs \<and> log' = log @ bs \<and> bs \<noteq> [])"
  by (auto simp: went_def)

lemma performs_noted [intro]: "performs (noted e m) [e]"
proof (rule performsI)
  fix s log r s' log' assume "noted e m (s, log) = (r, (s', log'))"
  then have "log' = log @ [e]" by (auto simp: noted_def split: prod.splits)
  then show "went [e] log r log'" unfolding went_def by (intro exI[of _ "[e]"] exI[of _ "[]"]) simp
qed

lemma performs_wrapM: "performs m es \<Longrightarrow> performs (wrapM p m) es"
proof (rule performsI)
  fix s log r s' log' assume m: "performs m es" and run: "wrapM p m (s, log) = (r, (s', log'))"
  obtain r1 s1 log1 where 1: "m (s, log) = (r1, (s1, log1))" by (metis prod.exhaust)
  from performsD[OF m 1] run 1 show "went es log r log'"
    by (cases r1) (auto simp: wrapM_run went_ok went_failed)
qed

lemma performs_bindM:
  assumes m: "performs m es" and n: "\<And>x. performs (f x) fs"
  shows "performs (bindM m f) (es @ fs)"
proof (rule performsI)
  fix s log r s' log' assume run: "bindM m f (s, log) = (r, (s', log'))"
  obtain r1 s1 log1 where 1: "m (s, log) = (r1, (s1, log1))" by (metis prod.exhaust)
  note w = performsD[OF m 1]
  show "went (es @ fs) log r log'"
  proof (cases r1)
    case (Ok x)
    then have "log1 = log @ es" using w by (simp add: went_ok)
    moreover have "went fs log1 r log'" using performsD[OF n[of x]] run 1 Ok by (simp add: bindM_run)
    ultimately show ?thesis unfolding went_def by fastforce
  next
    case (Err e)
    then have "r = Err e" "log' = log1" using run 1 by (simp_all add: bindM_run)
    then show ?thesis using w Err by (fastforce simp: went_failed)
  next
    case (Panic p)
    then have "r = Panic p" "log' = log1" using run 1 by (simp_all add: bindM_run)
    then show ?thesis using w Panic by (fastforce simp: went_failed)
  qed
qed

section \<open>The start of the program\<close>

definition collectors :: "string list" where
  "collectors = [''hcloud_reconcile_total'', ''hcloud_reconcile_duration_seconds'',
     ''hcloud_api_requests_total'', ''hcloud_api_request_duration_seconds'']"

text \<open>The registrations: each controller with its index before it.\<close>

definition registrations :: "('c, 'k) Libs \<Rightarrow> 'k kube_api \<Rightarrow> 'c Interface \<Rightarrow> Orders \<Rightarrow> ('c, 'k) call list" where
  "registrations Ls K H ord = [Added (server_controller Ls K H ord),
     Index HCloudVolume ''spec.serverRef.name'' volume_index, Added (volume_controller Ls K H ord),
     Added (lb_controller Ls K H ord), Added (network_controller Ls K H ord), Added (firewall_controller Ls K H ord),
     Added (placement_controller Ls K H ord),
     Index HCloudPrimaryIP ''spec.serverRef.name'' primary_ip_index, Added (primary_ip_controller Ls K H ord),
     Index HCloudFloatingIP ''spec.serverRef.name'' floating_ip_index, Added (floating_ip_controller Ls K H ord),
     Added (cert_controller Ls K H ord)]"

lemma performs_plain: "performs (wrapM w (noted e m)) [e]"
  by (intro performs_wrapM performs_noted)

lemma performs_indexed: "performs (wrapM w (bindM (wrapM v (noted e m)) (\<lambda>_. noted e' n))) [e, e']"
  using performs_bindM[OF performs_plain performs_noted] by (intro performs_wrapM) fastforce

lemma setup_performs:
  "performs (setup_controllers (traced M) Ls ord H) (registrations Ls (GetClient M) H ord)"
proof -
  let ?K = "GetClient M"
  have "performs (setup_controllers (traced M) Ls ord H) ([Added (server_controller Ls ?K H ord)]
    @ [Index HCloudVolume ''spec.serverRef.name'' volume_index, Added (volume_controller Ls ?K H ord)]
    @ [Added (lb_controller Ls ?K H ord)] @ [Added (network_controller Ls ?K H ord)]
    @ [Added (firewall_controller Ls ?K H ord)] @ [Added (placement_controller Ls ?K H ord)]
    @ [Index HCloudPrimaryIP ''spec.serverRef.name'' primary_ip_index, Added (primary_ip_controller Ls ?K H ord)]
    @ [Index HCloudFloatingIP ''spec.serverRef.name'' floating_ip_index, Added (floating_ip_controller Ls ?K H ord)]
    @ [Added (cert_controller Ls ?K H ord)])"
    unfolding setup_controllers_def server_SetupWithManager_def volume_SetupWithManager_def
      lb_SetupWithManager_def network_SetupWithManager_def firewall_SetupWithManager_def placement_SetupWithManager_def
      primary_ip_SetupWithManager_def floating_ip_SetupWithManager_def cert_SetupWithManager_def traced_sels
    by (intro performs_bindM performs_plain performs_indexed)
  then show ?thesis by (simp add: registrations_def)
qed

definition startup :: "('w \<times> api_log, 'k, 'm) Runtime \<Rightarrow> (string \<Rightarrow> 'w Sdk) \<Rightarrow> nat list \<times> nat list
    \<Rightarrow> ('w \<times> api_log, 'k) Libs \<Rightarrow> Orders \<Rightarrow> (string \<Rightarrow> string option) \<Rightarrow> (string \<Rightarrow> bool option)
    \<Rightarrow> ('w \<times> api_log, 'k) call list" where
  "startup M S ch Ls ord strings bools =
     [Collectors collectors, ManagerCreated (manager_options (init_scheme M) (parse_flags strings bools))]
     @ registrations Ls (GetClient M) (instrumentedClient (real_client ch (S (Getenv M ''HCLOUD_TOKEN'')))) ord
     @ [Healthz ''healthz'', Readyz ''readyz'', Started]"

lemma went_cases:
  "went es [] r log \<Longrightarrow> (case r of Ok x \<Rightarrow> log = es | _ \<Rightarrow> \<exists>n. 0 < n \<and> n \<le> length es \<and> log = take n es)"
  by (cases r) (auto simp: went_ok went_failed intro!: exI[of _ "length log"])

lemma performs_registered: "performs (bindM (noted e n) (\<lambda>_. ret x)) [e]"
proof -
  have "performs (ret x) []" by (rule performsI) (simp add: went_ok)
  from performs_bindM[OF performs_noted this] show ?thesis by simp
qed

lemma main_performs:
  assumes "Getenv M ''HCLOUD_TOKEN'' \<noteq> ''''"
  shows "performs (main_program (traced M) S ch Ls ord strings bools) (startup M S ch Ls ord strings bools)"
proof -
  let ?H = "instrumentedClient (real_client ch (S (Getenv M ''HCLOUD_TOKEN'')))"
  have "performs (main_program (traced M) S ch Ls ord strings bools)
      ([Collectors collectors] @ [ManagerCreated (manager_options (init_scheme M) (parse_flags strings bools))]
       @ registrations Ls (GetClient M) ?H ord @ [Healthz ''healthz''] @ [Readyz ''readyz''] @ [Started])"
    unfolding main_program_def metrics_Register_def Let_def traced_sels traced_scheme Instrument_def option.case api.case NewClient_def
      collectors_def[symmetric] if_not_P[OF assms] if_False
    by (intro performs_bindM performs_plain performs_registered setup_performs)
  then show ?thesis by (simp add: startup_def)
qed

text \<open>C14: \<open>main\<close> without a token creates no manager and registers nothing. With one it calls the
  manager in a fixed order and stops at the first call that fails: the collectors, the manager
  with the scheme of all kinds, the nine controllers over the instrumented client of that token,
  each after the index its watch reads, the probes, and only then the start.\<close>

theorem main_starts_last:
  "case main_program (traced M) S ch Ls ord strings bools (m, []) of (r, (m', log)) \<Rightarrow>
     if Getenv M ''HCLOUD_TOKEN'' = '''' then log = [Collectors collectors] \<and> r \<noteq> Ok ()
     else case r of Ok x \<Rightarrow> log = startup M S ch Ls ord strings bools
       | _ \<Rightarrow> \<exists>n. 0 < n \<and> n \<le> length (startup M S ch Ls ord strings bools)
           \<and> log = take n (startup M S ch Ls ord strings bools)"
proof (cases "Getenv M ''HCLOUD_TOKEN'' = ''''")
  case True
  then show ?thesis
    by (auto simp: main_program_def metrics_Register_def noted_def bindM_run collectors_def[symmetric] Let_def
        split: prod.split res.split)
next
  case False
  obtain r m' log where run: "main_program (traced M) S ch Ls ord strings bools (m, []) = (r, (m', log))"
    by (metis prod.exhaust)
  show ?thesis
    unfolding run prod.case if_not_P[OF False] by (rule went_cases[OF performsD[OF main_performs[OF False] run]])
qed

section \<open>What wakes a controller\<close>

text \<open>
  A list call of the client returns the stored objects that match every option, fields being
  matched through the registered index (documented for \<open>client.Reader\<close> over the cache).
\<close>

definition list_law :: "(string \<Rightarrow> ('spec, 'st) kobject \<Rightarrow> string list) \<Rightarrow> ('k \<Rightarrow> ('spec, 'st) kobject set)
    \<Rightarrow> ('k, ('spec, 'st) kobject) kclient \<Rightarrow> bool" where
  "list_law index objs K \<longleftrightarrow> (\<forall>opts k. \<exists>xs. KList K opts k = (Ok xs, k)
     \<and> set xs = {x \<in> objs k. \<forall>opt \<in> set opts. case opt of MatchingFields f v \<Rightarrow> v \<in> set (index f x)
         | MatchingLabelsSelector p \<Rightarrow> p (ObjectLabels x)})"

text \<open>The index a registration adds.\<close>

definition by_field :: "string \<Rightarrow> ('o \<Rightarrow> string list) \<Rightarrow> string \<Rightarrow> 'o \<Rightarrow> string list" where
  "by_field field g f x = (if f = field then g x else [])"

lemma requests_law:
  assumes "list_law index objs K"
  shows "set (requests_of K opts f k) = (\<Union>x \<in> {x \<in> objs k. \<forall>opt \<in> set opts. case opt of
      MatchingFields fl v \<Rightarrow> v \<in> set (index fl x) | MatchingLabelsSelector p \<Rightarrow> p (ObjectLabels x)}. set (f x))"
proof -
  obtain xs where "KList K opts k = (Ok xs, k)"
    "set xs = {x \<in> objs k. \<forall>opt \<in> set opts. case opt of MatchingFields fl v \<Rightarrow> v \<in> set (index fl x)
       | MatchingLabelsSelector p \<Rightarrow> p (ObjectLabels x)}"
    using assms unfolding list_law_def by meson
  then show ?thesis by (simp add: requests_of_def)
qed


definition listing :: "(string \<Rightarrow> ('spec, 'st) kobject \<Rightarrow> string list) \<Rightarrow> ('k \<Rightarrow> ('spec, 'st) kobject list)
    \<Rightarrow> ListOption list \<Rightarrow> ('k, ('spec, 'st) kobject list) prog" where
  "listing index tbl opts k = (Ok (filter (\<lambda>x. list_all (\<lambda>opt. case opt of
     MatchingFields f v \<Rightarrow> v \<in> set (index f x) | MatchingLabelsSelector p \<Rightarrow> p (ObjectLabels x)) opts) (tbl k)), k)"

lemma listing_law: "list_law index (\<lambda>k. set (tbl k)) (C\<lparr>KList := listing index tbl\<rparr>)"
  by (simp add: list_law_def listing_def list_all_iff)

definition indexed_api :: "apistate kube_api" where
  "indexed_api = sample_api\<lparr>
     KVolumes := (KVolumes sample_api)\<lparr>KList := listing
       (by_field ''spec.serverRef.name'' (\<lambda>x. volume_index (VolumeObject x))) st_Volumes\<rparr>,
     KPrimaryIPs := (KPrimaryIPs sample_api)\<lparr>KList := listing
       (by_field ''spec.serverRef.name'' (\<lambda>x. primary_ip_index (PrimaryIPObject x))) st_PrimaryIPs\<rparr>,
     KFloatingIPs := (KFloatingIPs sample_api)\<lparr>KList := listing
       (by_field ''spec.serverRef.name'' (\<lambda>x. floating_ip_index (FloatingIPObject x))) st_FloatingIPs\<rparr>,
     KLoadBalancers := (KLoadBalancers sample_api)\<lparr>KList := listing (\<lambda>_ _. []) st_LoadBalancers\<rparr>\<rparr>"

lemma indexed_laws:
  "list_law (by_field ''spec.serverRef.name'' (\<lambda>x. volume_index (VolumeObject x))) (\<lambda>k. set (st_Volumes k)) (KVolumes indexed_api)"
  "list_law (by_field ''spec.serverRef.name'' (\<lambda>x. primary_ip_index (PrimaryIPObject x))) (\<lambda>k. set (st_PrimaryIPs k)) (KPrimaryIPs indexed_api)"
  "list_law (by_field ''spec.serverRef.name'' (\<lambda>x. floating_ip_index (FloatingIPObject x))) (\<lambda>k. set (st_FloatingIPs k)) (KFloatingIPs indexed_api)"
  "list_law (\<lambda>_ _. []) (\<lambda>k. set (st_LoadBalancers k)) (KLoadBalancers indexed_api)"
  by (simp_all add: indexed_api_def listing_law)

definition data_volume :: "string \<Rightarrow> string \<Rightarrow> HCloudVolume" where
  "data_volume n server = NewHCloudVolume\<lparr>Name := n, Spec := (Spec NewHCloudVolume)\<lparr>vm_ServerRef := Some server\<rparr>\<rparr>"


end
