(* ===== verification/Operator.thy ===== *)
theory Operator
  imports TrackedKinds WiringProps
begin

text \<open>
  The operator as a whole over the in-memory cloud: the nine controllers of \<open>main\<close>, run one at a
  time in any order on any requests, users who edit the objects, and resources that change or vanish
  behind its back. Whatever happens, no server, network, firewall or placement group is left that its
  object does not account for.
\<close>

section \<open>Who writes what\<close>

text \<open>Reads and writes of one kind's client that leave what \<open>st\<close> shows of the API server as it is.\<close>

definition reads_leave :: "('k \<Rightarrow> 'a) \<Rightarrow> ('k, 'o) kclient \<Rightarrow> bool" where
  "reads_leave st C \<longleftrightarrow> (\<forall>v x. keeps (\<lambda>k. st k = v) (KGet C x)) \<and> (\<forall>v x. keeps (\<lambda>k. st k = v) (KList C x))"

definition writes_leave :: "('k \<Rightarrow> 'a) \<Rightarrow> ('k, 'o) kclient \<Rightarrow> bool" where
  "writes_leave st C \<longleftrightarrow> (\<forall>v x. keeps (\<lambda>k. st k = v) (KUpdate C x)) \<and> (\<forall>v x. keeps (\<lambda>k. st k = v) (KStatusUpdate C x))"

text \<open>Only the writes of one kind change what \<open>st\<close> shows.\<close>

definition only_written_by :: "RootKind \<Rightarrow> ('k \<Rightarrow> 'a) \<Rightarrow> 'k kube_api \<Rightarrow> bool" where
  "only_written_by own st K \<longleftrightarrow>
     reads_leave st (KServers K) \<and> (own \<noteq> HCloudServer \<longrightarrow> writes_leave st (KServers K))
   \<and> reads_leave st (KVolumes K) \<and> (own \<noteq> HCloudVolume \<longrightarrow> writes_leave st (KVolumes K))
   \<and> reads_leave st (KLoadBalancers K) \<and> (own \<noteq> HCloudLoadBalancer \<longrightarrow> writes_leave st (KLoadBalancers K))
   \<and> reads_leave st (KNetworks K) \<and> (own \<noteq> HCloudNetwork \<longrightarrow> writes_leave st (KNetworks K))
   \<and> reads_leave st (KFirewalls K) \<and> (own \<noteq> HCloudFirewall \<longrightarrow> writes_leave st (KFirewalls K))
   \<and> reads_leave st (KPlacementGroups K) \<and> (own \<noteq> HCloudPlacementGroup \<longrightarrow> writes_leave st (KPlacementGroups K))
   \<and> reads_leave st (KPrimaryIPs K) \<and> (own \<noteq> HCloudPrimaryIP \<longrightarrow> writes_leave st (KPrimaryIPs K))
   \<and> reads_leave st (KFloatingIPs K) \<and> (own \<noteq> HCloudFloatingIP \<longrightarrow> writes_leave st (KFloatingIPs K))
   \<and> reads_leave st (KCertificates K) \<and> (own \<noteq> HCloudCertificate \<longrightarrow> writes_leave st (KCertificates K))"

text \<open>An API server on which the status of servers, or of networks, cannot be written.\<close>

definition refuse :: "('k, 'o) kclient \<Rightarrow> ('k, 'o) kclient" where
  "refuse C = C\<lparr>KStatusUpdate := \<lambda>x. failM (Errorf ''refused'')\<rparr>"

definition mute_servers :: "'k kube_api \<Rightarrow> 'k kube_api" where
  "mute_servers K = K\<lparr>KServers := refuse (KServers K)\<rparr>"

definition mute_networks :: "'k kube_api \<Rightarrow> 'k kube_api" where
  "mute_networks K = K\<lparr>KNetworks := refuse (KNetworks K)\<rparr>"

lemma mute_sels:
  "KServers (mute_networks K) = KServers K" "KNetworks (mute_servers K) = KNetworks K"
  "KVolumes (mute_servers K) = KVolumes K" "KVolumes (mute_networks K) = KVolumes K"
  "KLoadBalancers (mute_servers K) = KLoadBalancers K" "KLoadBalancers (mute_networks K) = KLoadBalancers K"
  "KFirewalls (mute_servers K) = KFirewalls K" "KFirewalls (mute_networks K) = KFirewalls K"
  "KPlacementGroups (mute_servers K) = KPlacementGroups K" "KPlacementGroups (mute_networks K) = KPlacementGroups K"
  "KPrimaryIPs (mute_servers K) = KPrimaryIPs K" "KPrimaryIPs (mute_networks K) = KPrimaryIPs K"
  "KFloatingIPs (mute_servers K) = KFloatingIPs K" "KFloatingIPs (mute_networks K) = KFloatingIPs K"
  "KCertificates (mute_servers K) = KCertificates K" "KCertificates (mute_networks K) = KCertificates K"
  "KGet (KServers (mute_servers K)) = KGet (KServers K)" "KList (KServers (mute_servers K)) = KList (KServers K)"
  "KGet (KNetworks (mute_networks K)) = KGet (KNetworks K)" "KList (KNetworks (mute_networks K)) = KList (KNetworks K)"
  "KStatusUpdate (KServers (mute_servers K)) = (\<lambda>x. failM (Errorf ''refused''))"
  "KStatusUpdate (KNetworks (mute_networks K)) = (\<lambda>x. failM (Errorf ''refused''))"
  by (simp_all add: mute_servers_def mute_networks_def refuse_def)

lemma server_muted: "HCloudServerReconciler L (mute_networks K) H = HCloudServerReconciler L K H"
  by (simp_all only: HCloudServerReconciler_def server_Reconcile_def reconcileHCloudServer_def reconcileExistingServer_def reconcileServerTypeMismatch_def resize_step_def createHCloudServer_def ensureServerNetworkAttachment_def syncPlacementGroupStatus_def resolvePlacementGroupID_def syncStatus_def updateServerStatusWithRetry_def persist_status_def mute_sels)

lemma volume_muted: "HCloudVolumeReconciler L (mute_servers K) H = HCloudVolumeReconciler L K H" "HCloudVolumeReconciler L (mute_networks K) H = HCloudVolumeReconciler L K H"
  by (simp_all only: HCloudVolumeReconciler_def volume_Reconcile_def reconcileHCloudVolume_def volume_resize_def volume_attach_def mute_sels)

lemma add_service_muted: "add_service L (mute_servers K) H = add_service L K H" "add_service L (mute_networks K) H = add_service L K H"
proof -
  have r: "resolve_certificate L (mute_servers K) H = resolve_certificate L K H" "resolve_certificate L (mute_networks K) H = resolve_certificate L K H"
    by (intro ext; simp only: resolve_certificate_def mute_sels)+
  show "add_service L (mute_servers K) H = add_service L K H" "add_service L (mute_networks K) H = add_service L K H"
    by (intro ext; simp only: add_service_def resolveCertificateIDs_def r)+
qed

lemma lb_muted: "HCloudLoadBalancerReconciler ch L (mute_servers K) H = HCloudLoadBalancerReconciler ch L K H" "HCloudLoadBalancerReconciler ch L (mute_networks K) H = HCloudLoadBalancerReconciler ch L K H"
  by (simp_all only: HCloudLoadBalancerReconciler_def lb_Reconcile_def reconcileLoadBalancer_def reconcileLoadBalancerWithServices_def loadBalancerServicesFromSpec_def getSelectedServerIDs_def sync_lb_targets_def add_service_muted mute_sels)

lemma network_muted: "HCloudNetworkReconciler L (mute_servers K) H = HCloudNetworkReconciler L K H"
  by (simp_all only: HCloudNetworkReconciler_def network_Reconcile_def reconcileHCloudNetwork_def create_network_def updateNetworkStatusWithRetry_def persist_status_def mute_sels)

lemma target_muted: "add_server_target (mute_servers K) = add_server_target K" "add_server_target (mute_networks K) = add_server_target K"
  by (intro ext; simp only: add_server_target_def mute_sels)+

lemma firewall_muted: "HCloudFirewallReconciler ch L (mute_servers K) H = HCloudFirewallReconciler ch L K H" "HCloudFirewallReconciler ch L (mute_networks K) H = HCloudFirewallReconciler ch L K H"
  by (simp_all only: HCloudFirewallReconciler_def firewall_Reconcile_def reconcileHCloudFirewall_def desiredApplyResources_def target_muted mute_sels)

lemma placement_muted: "HCloudPlacementGroupReconciler L (mute_servers K) H = HCloudPlacementGroupReconciler L K H" "HCloudPlacementGroupReconciler L (mute_networks K) H = HCloudPlacementGroupReconciler L K H"
  by (simp_all only: HCloudPlacementGroupReconciler_def placement_Reconcile_def reconcileHCloudPlacementGroup_def mute_sels)

lemma primary_ip_muted: "HCloudPrimaryIPReconciler L (mute_servers K) H = HCloudPrimaryIPReconciler L K H" "HCloudPrimaryIPReconciler L (mute_networks K) H = HCloudPrimaryIPReconciler L K H"
  by (simp_all only: HCloudPrimaryIPReconciler_def primary_ip_Reconcile_def reconcileHCloudPrimaryIP_def primary_ip_target_def mute_sels)

lemma floating_ip_muted: "HCloudFloatingIPReconciler L (mute_servers K) H = HCloudFloatingIPReconciler L K H" "HCloudFloatingIPReconciler L (mute_networks K) H = HCloudFloatingIPReconciler L K H"
  by (simp_all only: HCloudFloatingIPReconciler_def floating_ip_Reconcile_def reconcileHCloudFloatingIP_def floating_ip_target_def mute_sels)

lemma cert_muted: "HCloudCertificateReconciler L (mute_servers K) H = HCloudCertificateReconciler L K H" "HCloudCertificateReconciler L (mute_networks K) H = HCloudCertificateReconciler L K H"
  by (simp_all only: HCloudCertificateReconciler_def cert_Reconcile_def reconcileHCloudCertificate_def mute_sels)


text \<open>What the reads and the writes of the API server leave alone, a whole run leaves alone.\<close>

definition mute :: "RootKind \<Rightarrow> 'k kube_api \<Rightarrow> 'k kube_api" where
  "mute own K = (if own = HCloudServer then mute_servers K else if own = HCloudNetwork then mute_networks K else K)"

lemma mute_kept:
  assumes "only_written_by own st K"
  shows "kube_kept (mute own K) (\<lambda>k. st k = v)"
proof -
  note w = assms[unfolded only_written_by_def reads_leave_def writes_leave_def]
  consider "own = HCloudServer" | "own = HCloudNetwork" | "own \<noteq> HCloudServer" "own \<noteq> HCloudNetwork" by blast
  then show ?thesis
    by cases (use w in \<open>simp_all add: kube_kept_def mute_def mute_sels keeps_failM\<close>)
qed

context resource_contract
begin

lemma base_kube:
  assumes "retry_law L" "kube_kept A P" "\<And>x. keeps P (KGet K x)" "\<And>x. keeps P (KUpdate K x)" "\<And>x. keeps P (KStatusUpdate K x)"
  shows "keeps (\<lambda>s. P (kube s)) (base_Reconcile L K recorder R req)"
  unfolding base_Reconcile_def base_delete_def base_add_finalizer_def base_domain_def base_update_def base_event_def
    RecordReconcile_def setCondition_def updStatus_def
  by (intro inv_intros keeps_tryM keeps_bindM keeps_wrapM keeps_if reconcile_kube[OF assms(1,2)] delete_kube
        status_keeps[OF assms(1)] keeps_onKube_kube assms(3-5))
     (auto simp: keeps_def)

end


text \<open>A run that keeps the invariant of the client, a table of it and what \<open>st\<close> shows of the API server.\<close>

definition leaves :: "(FakeClient \<Rightarrow> 't) \<Rightarrow> ('k \<Rightarrow> 'v) \<Rightarrow> ((FakeClient, 'k, 'o) rst, 'a) prog \<Rightarrow> bool" where
  "leaves tbl st m \<longleftrightarrow> (\<forall>s. fake_wf (cloud s) \<longrightarrow> fake_wf (cloud (snd (m s)))
     \<and> tbl (cloud (snd (m s))) = tbl (cloud s) \<and> st (kube (snd (m s))) = st (kube s))"

lemma leavesI:
  fixes m :: "((FakeClient, 'k, 'o) rst, 'a) prog"
  assumes "keeps (\<lambda>s. fake_wf (cloud s)) m" "\<And>f. keeps (\<lambda>s. B f (cloud s)) m" "\<And>f. B f f" "\<And>f g. B f g \<Longrightarrow> tbl g = tbl f"
    and "\<And>v. keeps (\<lambda>s. st (kube s) = v) m"
  shows "leaves tbl st m"
  unfolding leaves_def
proof (intro allI impI conjI)
  fix s :: "(FakeClient, 'k, 'o) rst" assume s: "fake_wf (cloud s)"
  show "fake_wf (cloud (snd (m s)))" by (rule keepsD[OF assms(1) s])
  show "tbl (cloud (snd (m s))) = tbl (cloud s)" by (rule assms(4)[OF keepsD[OF assms(2) assms(3)]])
  show "st (kube (snd (m s))) = st (kube s)" by (rule keepsD[OF assms(5)]) (rule refl)
qed

lemma leaves_order:
  assumes "leaves tbl store m" "in_order tbl nm ident store fin (cloud s) (kube s)"
  shows "in_order tbl nm ident store fin (cloud (snd (m s))) (kube (snd (m s)))"
  using assms unfolding leaves_def in_order_def cluster_scoped_def accounted_def by metis

lemma same_but_refl:
  "same_but_server f f" "same_but_volume f f" "same_but_load_balancer f f" "same_but_network f f" "same_but_firewall f f"
  "same_but_placement_group f f" "same_but_primary_ip f f" "same_but_floating_ip f f" "same_but_certificate f f"
  by (simp_all add: same_but_server_def same_but_volume_def same_but_load_balancer_def same_but_network_def
      same_but_firewall_def same_but_placement_group_def same_but_primary_ip_def same_but_floating_ip_def same_but_certificate_def)

lemma server_leaves:
  assumes "retry_law L" "only_written_by own st K" "own \<noteq> HCloudServer" "\<And>f g. same_but_server f g \<Longrightarrow> tbl g = tbl f"
  shows "leaves tbl st (base_Reconcile L (KServers K) recorder (HCloudServerReconciler L K (fake_client ord)) req)"
proof (rule leavesI[where B = same_but_server])
  have m: "HCloudServerReconciler L (mute own K) (fake_client ord) = HCloudServerReconciler L K (fake_client ord)"
    using assms(3) by (simp add: mute_def server_muted)
  show "keeps (\<lambda>s. st (kube s) = v) (base_Reconcile L (KServers K) recorder (HCloudServerReconciler L K (fake_client ord)) req)" for v
    unfolding m[symmetric]
    by (rule server_contract.base_kube[OF assms(1) mute_kept[OF assms(2)]])
       (use assms(2,3) in \<open>auto simp: only_written_by_def reads_leave_def writes_leave_def\<close>)
qed (use assms in \<open>simp_all add: same_but_refl rst_rel_diag[symmetric] base_server_sim[OF fake_inv.client_sim_axioms lib_rel_self]
        base_server_sim[OF server_alone.client_sim_axioms lib_rel_self, unfolded server_confined]\<close>)

lemma volume_leaves:
  assumes "retry_law L" "only_written_by own st K" "own \<noteq> HCloudVolume" "\<And>f g. same_but_volume f g \<Longrightarrow> tbl g = tbl f"
  shows "leaves tbl st (base_Reconcile L (KVolumes K) recorder (HCloudVolumeReconciler L K (fake_client ord)) req)"
proof (rule leavesI[where B = same_but_volume])
  have m: "HCloudVolumeReconciler L (mute own K) (fake_client ord) = HCloudVolumeReconciler L K (fake_client ord)"
    using assms(3) by (simp add: mute_def volume_muted)
  show "keeps (\<lambda>s. st (kube s) = v) (base_Reconcile L (KVolumes K) recorder (HCloudVolumeReconciler L K (fake_client ord)) req)" for v
    unfolding m[symmetric]
    by (rule volume_contract.base_kube[OF assms(1) mute_kept[OF assms(2)]])
       (use assms(2,3) in \<open>auto simp: only_written_by_def reads_leave_def writes_leave_def\<close>)
qed (use assms in \<open>simp_all add: same_but_refl rst_rel_diag[symmetric] base_volume_sim[OF fake_inv.client_sim_axioms lib_rel_self]
        base_volume_sim[OF volume_alone.client_sim_axioms lib_rel_self, unfolded volume_confined]\<close>)

lemma lb_leaves:
  assumes "retry_law L" "only_written_by own st K" "own \<noteq> HCloudLoadBalancer" "\<And>f g. same_but_load_balancer f g \<Longrightarrow> tbl g = tbl f"
  shows "leaves tbl st (base_Reconcile L (KLoadBalancers K) recorder (HCloudLoadBalancerReconciler ch L K (fake_client ord)) req)"
proof (rule leavesI[where B = same_but_load_balancer])
  have m: "HCloudLoadBalancerReconciler ch L (mute own K) (fake_client ord) = HCloudLoadBalancerReconciler ch L K (fake_client ord)"
    using assms(3) by (simp add: mute_def lb_muted)
  show "keeps (\<lambda>s. st (kube s) = v) (base_Reconcile L (KLoadBalancers K) recorder (HCloudLoadBalancerReconciler ch L K (fake_client ord)) req)" for v
    unfolding m[symmetric]
    by (rule lb_contract.base_kube[OF assms(1) mute_kept[OF assms(2)]])
       (use assms(2,3) in \<open>auto simp: only_written_by_def reads_leave_def writes_leave_def\<close>)
qed (use assms in \<open>simp_all add: same_but_refl rst_rel_diag[symmetric] base_lb_sim[OF fake_inv.client_sim_axioms lib_rel_self]
        base_lb_sim[OF load_balancer_alone.client_sim_axioms lib_rel_self, unfolded load_balancer_confined]\<close>)

lemma network_leaves:
  assumes "retry_law L" "only_written_by own st K" "own \<noteq> HCloudNetwork" "\<And>f g. same_but_network f g \<Longrightarrow> tbl g = tbl f"
  shows "leaves tbl st (base_Reconcile L (KNetworks K) recorder (HCloudNetworkReconciler L K (fake_client ord)) req)"
proof (rule leavesI[where B = same_but_network])
  have m: "HCloudNetworkReconciler L (mute own K) (fake_client ord) = HCloudNetworkReconciler L K (fake_client ord)"
    using assms(3) by (simp add: mute_def network_muted)
  show "keeps (\<lambda>s. st (kube s) = v) (base_Reconcile L (KNetworks K) recorder (HCloudNetworkReconciler L K (fake_client ord)) req)" for v
    unfolding m[symmetric]
    by (rule network_contract.base_kube[OF assms(1) mute_kept[OF assms(2)]])
       (use assms(2,3) in \<open>auto simp: only_written_by_def reads_leave_def writes_leave_def\<close>)
qed (use assms in \<open>simp_all add: same_but_refl rst_rel_diag[symmetric] base_network_sim[OF fake_inv.client_sim_axioms lib_rel_self]
        base_network_sim[OF network_alone.client_sim_axioms lib_rel_self, unfolded network_confined]\<close>)

lemma firewall_leaves:
  assumes "retry_law L" "only_written_by own st K" "own \<noteq> HCloudFirewall" "\<And>f g. same_but_firewall f g \<Longrightarrow> tbl g = tbl f"
  shows "leaves tbl st (base_Reconcile L (KFirewalls K) recorder (HCloudFirewallReconciler ch L K (fake_client ord)) req)"
proof (rule leavesI[where B = same_but_firewall])
  have m: "HCloudFirewallReconciler ch L (mute own K) (fake_client ord) = HCloudFirewallReconciler ch L K (fake_client ord)"
    using assms(3) by (simp add: mute_def firewall_muted)
  show "keeps (\<lambda>s. st (kube s) = v) (base_Reconcile L (KFirewalls K) recorder (HCloudFirewallReconciler ch L K (fake_client ord)) req)" for v
    unfolding m[symmetric]
    by (rule firewall_contract.base_kube[OF assms(1) mute_kept[OF assms(2)]])
       (use assms(2,3) in \<open>auto simp: only_written_by_def reads_leave_def writes_leave_def\<close>)
qed (use assms in \<open>simp_all add: same_but_refl rst_rel_diag[symmetric] base_firewall_sim[OF fake_inv.client_sim_axioms lib_rel_self]
        base_firewall_sim[OF firewall_alone.client_sim_axioms lib_rel_self, unfolded firewall_confined]\<close>)

lemma placement_leaves:
  assumes "retry_law L" "only_written_by own st K" "own \<noteq> HCloudPlacementGroup" "\<And>f g. same_but_placement_group f g \<Longrightarrow> tbl g = tbl f"
  shows "leaves tbl st (base_Reconcile L (KPlacementGroups K) recorder (HCloudPlacementGroupReconciler L K (fake_client ord)) req)"
proof (rule leavesI[where B = same_but_placement_group])
  have m: "HCloudPlacementGroupReconciler L (mute own K) (fake_client ord) = HCloudPlacementGroupReconciler L K (fake_client ord)"
    using assms(3) by (simp add: mute_def placement_muted)
  show "keeps (\<lambda>s. st (kube s) = v) (base_Reconcile L (KPlacementGroups K) recorder (HCloudPlacementGroupReconciler L K (fake_client ord)) req)" for v
    unfolding m[symmetric]
    by (rule placement_contract.base_kube[OF assms(1) mute_kept[OF assms(2)]])
       (use assms(2,3) in \<open>auto simp: only_written_by_def reads_leave_def writes_leave_def\<close>)
qed (use assms in \<open>simp_all add: same_but_refl rst_rel_diag[symmetric] base_placement_sim[OF fake_inv.client_sim_axioms lib_rel_self]
        base_placement_sim[OF placement_group_alone.client_sim_axioms lib_rel_self, unfolded placement_group_confined]\<close>)

lemma primary_ip_leaves:
  assumes "retry_law L" "only_written_by own st K" "own \<noteq> HCloudPrimaryIP" "\<And>f g. same_but_primary_ip f g \<Longrightarrow> tbl g = tbl f"
  shows "leaves tbl st (base_Reconcile L (KPrimaryIPs K) recorder (HCloudPrimaryIPReconciler L K (fake_client ord)) req)"
proof (rule leavesI[where B = same_but_primary_ip])
  have m: "HCloudPrimaryIPReconciler L (mute own K) (fake_client ord) = HCloudPrimaryIPReconciler L K (fake_client ord)"
    using assms(3) by (simp add: mute_def primary_ip_muted)
  show "keeps (\<lambda>s. st (kube s) = v) (base_Reconcile L (KPrimaryIPs K) recorder (HCloudPrimaryIPReconciler L K (fake_client ord)) req)" for v
    unfolding m[symmetric]
    by (rule primary_ip_contract.base_kube[OF assms(1) mute_kept[OF assms(2)]])
       (use assms(2,3) in \<open>auto simp: only_written_by_def reads_leave_def writes_leave_def\<close>)
qed (use assms in \<open>simp_all add: same_but_refl rst_rel_diag[symmetric] base_primary_ip_sim[OF fake_inv.client_sim_axioms lib_rel_self]
        base_primary_ip_sim[OF primary_ip_alone.client_sim_axioms lib_rel_self, unfolded primary_ip_confined]\<close>)

lemma floating_ip_leaves:
  assumes "retry_law L" "only_written_by own st K" "own \<noteq> HCloudFloatingIP" "\<And>f g. same_but_floating_ip f g \<Longrightarrow> tbl g = tbl f"
  shows "leaves tbl st (base_Reconcile L (KFloatingIPs K) recorder (HCloudFloatingIPReconciler L K (fake_client ord)) req)"
proof (rule leavesI[where B = same_but_floating_ip])
  have m: "HCloudFloatingIPReconciler L (mute own K) (fake_client ord) = HCloudFloatingIPReconciler L K (fake_client ord)"
    using assms(3) by (simp add: mute_def floating_ip_muted)
  show "keeps (\<lambda>s. st (kube s) = v) (base_Reconcile L (KFloatingIPs K) recorder (HCloudFloatingIPReconciler L K (fake_client ord)) req)" for v
    unfolding m[symmetric]
    by (rule floating_ip_contract.base_kube[OF assms(1) mute_kept[OF assms(2)]])
       (use assms(2,3) in \<open>auto simp: only_written_by_def reads_leave_def writes_leave_def\<close>)
qed (use assms in \<open>simp_all add: same_but_refl rst_rel_diag[symmetric] base_floating_ip_sim[OF fake_inv.client_sim_axioms lib_rel_self]
        base_floating_ip_sim[OF floating_ip_alone.client_sim_axioms lib_rel_self, unfolded floating_ip_confined]\<close>)

lemma cert_leaves:
  assumes "retry_law L" "only_written_by own st K" "own \<noteq> HCloudCertificate" "\<And>f g. same_but_certificate f g \<Longrightarrow> tbl g = tbl f"
  shows "leaves tbl st (base_Reconcile L (KCertificates K) recorder (HCloudCertificateReconciler L K (fake_client ord)) req)"
proof (rule leavesI[where B = same_but_certificate])
  have m: "HCloudCertificateReconciler L (mute own K) (fake_client ord) = HCloudCertificateReconciler L K (fake_client ord)"
    using assms(3) by (simp add: mute_def cert_muted)
  show "keeps (\<lambda>s. st (kube s) = v) (base_Reconcile L (KCertificates K) recorder (HCloudCertificateReconciler L K (fake_client ord)) req)" for v
    unfolding m[symmetric]
    by (rule cert_contract.base_kube[OF assms(1) mute_kept[OF assms(2)]])
       (use assms(2,3) in \<open>auto simp: only_written_by_def reads_leave_def writes_leave_def\<close>)
qed (use assms in \<open>simp_all add: same_but_refl rst_rel_diag[symmetric] base_cert_sim[OF fake_inv.client_sim_axioms lib_rel_self]
        base_cert_sim[OF certificate_alone.client_sim_axioms lib_rel_self, unfolded certificate_confined]\<close>)

section \<open>The operator\<close>

text \<open>What the API server holds of the four kinds.\<close>

record 'k Stores =
  SServers :: "'k \<Rightarrow> NamespacedName \<Rightarrow> HCloudServer option"
  SNetworks :: "'k \<Rightarrow> NamespacedName \<Rightarrow> HCloudNetwork option"
  SFirewalls :: "'k \<Rightarrow> NamespacedName \<Rightarrow> HCloudFirewall option"
  SPlacementGroups :: "'k \<Rightarrow> NamespacedName \<Rightarrow> HCloudPlacementGroup option"

text \<open>The documented behaviour of the libraries and of the API server.\<close>

definition operator_laws :: "'k Stores \<Rightarrow> ('c, 'k) Libs \<Rightarrow> 'k kube_api \<Rightarrow> bool" where
  "operator_laws S Ls K \<longleftrightarrow> lib_ok (LServers Ls) \<and> lib_ok (LVolumes Ls) \<and> lib_ok (LLoadBalancers Ls)
     \<and> lib_ok (LNetworks Ls) \<and> lib_ok (LFirewalls Ls) \<and> lib_ok (LPlacementGroups Ls)
     \<and> lib_ok (LPrimaryIPs Ls) \<and> lib_ok (LFloatingIPs Ls) \<and> lib_ok (LCertificates Ls)
     \<and> api_law (IsNotFound (LServers Ls)) (IsConflict (LServers Ls)) (SServers S) (KServers K)
     \<and> api_law (IsNotFound (LNetworks Ls)) (IsConflict (LNetworks Ls)) (SNetworks S) (KNetworks K)
     \<and> api_law (IsNotFound (LFirewalls Ls)) (IsConflict (LFirewalls Ls)) (SFirewalls S) (KFirewalls K)
     \<and> api_law (IsNotFound (LPlacementGroups Ls)) (IsConflict (LPlacementGroups Ls)) (SPlacementGroups S) (KPlacementGroups K)
     \<and> only_written_by HCloudServer (SServers S) K \<and> only_written_by HCloudNetwork (SNetworks S) K
     \<and> only_written_by HCloudFirewall (SFirewalls S) K \<and> only_written_by HCloudPlacementGroup (SPlacementGroups S) K"

text \<open>The users create, change and mark objects for deletion, and leave the finalizers and the statuses
  of the operator alone.\<close>

definition considerate :: "('k \<Rightarrow> NamespacedName \<Rightarrow> ('spec, 'st) kobject option) \<Rightarrow> string \<Rightarrow> 'k \<Rightarrow> 'k \<Rightarrow> bool" where
  "considerate store fin k k' \<longleftrightarrow> cluster_scoped store k' \<and> (\<forall>r y. store k r = Some y \<longrightarrow> fin \<in> set (Finalizers y)
     \<longrightarrow> (\<exists>y'. store k' r = Some y' \<and> fin \<in> set (Finalizers y') \<and> Status y' = Status y))"

text \<open>Behind the operator's back resources change and vanish, and calls begin or cease to fail; no server,
  network, firewall or placement group appears.\<close>

definition drifts :: "FakeClient \<Rightarrow> FakeClient \<Rightarrow> bool" where
  "drifts f f' \<longleftrightarrow> fake_wf f' \<and> (\<forall>n i. (bears servers srv_Name f' n i \<longrightarrow> bears servers srv_Name f n i)
     \<and> (bears networks net_Name f' n i \<longrightarrow> bears networks net_Name f n i)
     \<and> (bears firewalls fw_Name f' n i \<longrightarrow> bears firewalls fw_Name f n i)
     \<and> (bears placementGroups pg_Name f' n i \<longrightarrow> bears placementGroups pg_Name f n i))"

text \<open>One step: a run of a controller \<open>main\<close> registers, on any request and with any order of the maps;
  an edit of the users; a change of the cloud.\<close>

inductive operator_step :: "'k Stores \<Rightarrow> (FakeClient, 'k) Libs \<Rightarrow> 'k kube_api
    \<Rightarrow> (FakeClient, 'k) world \<Rightarrow> (FakeClient, 'k) world \<Rightarrow> bool"
  for S :: "'k Stores" and Ls :: "(FakeClient, 'k) Libs" and K :: "'k kube_api" where
  work: "Added c \<in> set (registrations Ls K (fake_client ch) ord) \<Longrightarrow> operator_step S Ls K w (snd (Reconciler c req w))"
| edit: "considerate (SServers S) ''infra.hkc.io/finalizer'' (kube w) k' \<Longrightarrow>
    considerate (SNetworks S) ''infra.hkc.io/network-finalizer'' (kube w) k' \<Longrightarrow>
    considerate (SFirewalls S) ''infra.hkc.io/firewall-finalizer'' (kube w) k' \<Longrightarrow>
    considerate (SPlacementGroups S) ''infra.hkc.io/placementgroup-finalizer'' (kube w) k' \<Longrightarrow>
    operator_step S Ls K w (w\<lparr>kube := k'\<rparr>)"
| drift: "drifts (cloud w) f' \<Longrightarrow> operator_step S Ls K w (w\<lparr>cloud := f'\<rparr>)"

definition orderly :: "'k Stores \<Rightarrow> FakeClient \<Rightarrow> 'k \<Rightarrow> bool" where
  "orderly S f k \<longleftrightarrow> in_order servers srv_Name svs_ServerID (SServers S) ''infra.hkc.io/finalizer'' f k
     \<and> in_order networks net_Name nws_NetworkID (SNetworks S) ''infra.hkc.io/network-finalizer'' f k
     \<and> in_order firewalls fw_Name fws_FirewallID (SFirewalls S) ''infra.hkc.io/firewall-finalizer'' f k
     \<and> in_order placementGroups pg_Name pgs_PlacementGroupID (SPlacementGroups S) ''infra.hkc.io/placementgroup-finalizer'' f k"

lemma considerate_order:
  "considerate store fin k k' \<Longrightarrow> in_order tbl nm ident store fin f k \<Longrightarrow> in_order tbl nm ident store fin f k'"
  unfolding considerate_def in_order_def accounted_def belongs_def by metis

lemma drifts_order:
  assumes "fake_wf f'" "\<And>n i. bears tbl nm f' n i \<Longrightarrow> bears tbl nm f n i" "in_order tbl nm ident store fin f k"
  shows "in_order tbl nm ident store fin f' k"
  using assms unfolding in_order_def accounted_named by blast

text \<open>A program that keeps one kind in order, and one that keeps the four.\<close>

definition stays :: "(FakeClient \<Rightarrow> (int64, 'i) gomap) \<Rightarrow> ('i \<Rightarrow> string) \<Rightarrow> ('st \<Rightarrow> int64)
    \<Rightarrow> ('k \<Rightarrow> NamespacedName \<Rightarrow> ('spec, 'st) kobject option) \<Rightarrow> string \<Rightarrow> ((FakeClient, 'k, 'o) rst, 'a) prog \<Rightarrow> bool" where
  "stays tbl nm ident store fin m \<longleftrightarrow> (\<forall>s. in_order tbl nm ident store fin (cloud s) (kube s)
     \<longrightarrow> in_order tbl nm ident store fin (cloud (snd (m s))) (kube (snd (m s))))"

definition tidy :: "'k Stores \<Rightarrow> ((FakeClient, 'k, 'o) rst, 'a) prog \<Rightarrow> bool" where
  "tidy S m \<longleftrightarrow> (\<forall>s. orderly S (cloud s) (kube s) \<longrightarrow> orderly S (cloud (snd (m s))) (kube (snd (m s))))"

lemma tidy_kinds:
  assumes "stays servers srv_Name svs_ServerID (SServers S) ''infra.hkc.io/finalizer'' m"
    and "stays networks net_Name nws_NetworkID (SNetworks S) ''infra.hkc.io/network-finalizer'' m"
    and "stays firewalls fw_Name fws_FirewallID (SFirewalls S) ''infra.hkc.io/firewall-finalizer'' m"
    and "stays placementGroups pg_Name pgs_PlacementGroupID (SPlacementGroups S) ''infra.hkc.io/placementgroup-finalizer'' m"
  shows "tidy S m"
  using assms unfolding tidy_def stays_def orderly_def by blast

lemma leaves_stays: "leaves tbl store m \<Longrightarrow> stays tbl nm ident store fin m"
  unfolding stays_def by (blast intro: leaves_order)

context tracked_kind
begin

lemma base_stays:
  assumes "reads_only A" "lib_ok L" "api_law (IsNotFound L) (IsConflict L) store (Kc A)"
  shows "stays tbl nm ident store (FinalizerName R) (base_Reconcile L (Kc A) recorder R req)"
  unfolding stays_def by (blast intro: base_order[OF assms(2,3,1)] surjective_pairing)

end

lemma tidyI: "(\<And>s r s'. orderly S (cloud s) (kube s) \<Longrightarrow> m s = (r, s') \<Longrightarrow> orderly S (cloud s') (kube s')) \<Longrightarrow> tidy S m"
  unfolding tidy_def by (metis surjective_pairing)

lemma visit_tidy: "tidy S m \<Longrightarrow> tidy S (visit x m)"
proof (rule tidyI)
  fix w r w' assume m: "tidy S m" and w: "orderly S (cloud w) (kube w)" and run: "visit x m w = (r, w')"
  have "orderly S (cloud (with_object x w)) (kube (with_object x w))" using w by (simp add: with_object_def)
  then have "orderly S (cloud (snd (m (with_object x w)))) (kube (snd (m (with_object x w))))" using m unfolding tidy_def by blast
  then show "orderly S (cloud w') (kube w')" using run by (auto simp: visit_def without_object_def split: prod.splits)
qed


section \<open>Every controller keeps the order\<close>

text \<open>The tables a controller does not touch.\<close>

lemma same_tables:
  "same_but_server f g \<Longrightarrow> networks g = networks f \<and> firewalls g = firewalls f \<and> placementGroups g = placementGroups f"
  "same_but_volume f g \<Longrightarrow> servers g = servers f \<and> networks g = networks f \<and> firewalls g = firewalls f \<and> placementGroups g = placementGroups f"
  "same_but_load_balancer f g \<Longrightarrow> servers g = servers f \<and> networks g = networks f \<and> firewalls g = firewalls f \<and> placementGroups g = placementGroups f"
  "same_but_network f g \<Longrightarrow> servers g = servers f \<and> firewalls g = firewalls f \<and> placementGroups g = placementGroups f"
  "same_but_firewall f g \<Longrightarrow> servers g = servers f \<and> networks g = networks f \<and> placementGroups g = placementGroups f"
  "same_but_placement_group f g \<Longrightarrow> servers g = servers f \<and> networks g = networks f \<and> firewalls g = firewalls f"
  "same_but_primary_ip f g \<Longrightarrow> servers g = servers f \<and> networks g = networks f \<and> firewalls g = firewalls f \<and> placementGroups g = placementGroups f"
  "same_but_floating_ip f g \<Longrightarrow> servers g = servers f \<and> networks g = networks f \<and> firewalls g = firewalls f \<and> placementGroups g = placementGroups f"
  "same_but_certificate f g \<Longrightarrow> servers g = servers f \<and> networks g = networks f \<and> firewalls g = firewalls f \<and> placementGroups g = placementGroups f"
  by (cases f; cases g; simp add: same_but_server_def same_but_volume_def same_but_load_balancer_def same_but_network_def same_but_firewall_def same_but_placement_group_def same_but_primary_ip_def same_but_floating_ip_def same_but_certificate_def)+

text \<open>The laws of the four kinds, apart.\<close>

lemma laws_apart:
  assumes "operator_laws S Ls K"
  shows "reads_only K" "retry_law (LServers Ls)" "retry_law (LVolumes Ls)" "retry_law (LLoadBalancers Ls)"
    "retry_law (LNetworks Ls)" "retry_law (LFirewalls Ls)" "retry_law (LPlacementGroups Ls)"
    "retry_law (LPrimaryIPs Ls)" "retry_law (LFloatingIPs Ls)" "retry_law (LCertificates Ls)"
    "only_written_by HCloudServer (SServers S) K" "only_written_by HCloudNetwork (SNetworks S) K"
    "only_written_by HCloudFirewall (SFirewalls S) K" "only_written_by HCloudPlacementGroup (SPlacementGroups S) K"
    "lib_ok (LServers Ls)" "lib_ok (LNetworks Ls)" "lib_ok (LFirewalls Ls)" "lib_ok (LPlacementGroups Ls)"
    "api_law (IsNotFound (LServers Ls)) (IsConflict (LServers Ls)) (SServers S) (KServers K)"
    "api_law (IsNotFound (LNetworks Ls)) (IsConflict (LNetworks Ls)) (SNetworks S) (KNetworks K)"
    "api_law (IsNotFound (LFirewalls Ls)) (IsConflict (LFirewalls Ls)) (SFirewalls S) (KFirewalls K)"
    "api_law (IsNotFound (LPlacementGroups Ls)) (IsConflict (LPlacementGroups Ls)) (SPlacementGroups S) (KPlacementGroups K)"
  using assms unfolding operator_laws_def reads_only_def lib_ok_def by (blast intro: api_gets_only)+


lemma server_tidy:
  assumes "operator_laws S Ls K"
  shows "tidy S (base_Reconcile (LServers Ls) (KServers K) True (HCloudServerReconciler (LServers Ls) K (fake_client ch)) req)"
  by (rule tidy_kinds, ((rule servers_tracked.base_stays[simplified], rule laws_apart[OF assms], rule laws_apart[OF assms], rule laws_apart[OF assms])
      | (rule leaves_stays, rule server_leaves, rule laws_apart[OF assms], rule laws_apart[OF assms], simp, simp add: same_tables))+)

lemma volume_tidy:
  assumes "operator_laws S Ls K"
  shows "tidy S (base_Reconcile (LVolumes Ls) (KVolumes K) True (HCloudVolumeReconciler (LVolumes Ls) K (fake_client ch)) req)"
  by (rule tidy_kinds, (rule leaves_stays, rule volume_leaves, rule laws_apart[OF assms], rule laws_apart[OF assms], simp, simp add: same_tables)+)

lemma lb_tidy:
  assumes "operator_laws S Ls K"
  shows "tidy S (base_Reconcile (LLoadBalancers Ls) (KLoadBalancers K) True (HCloudLoadBalancerReconciler ord (LLoadBalancers Ls) K (fake_client ch)) req)"
  by (rule tidy_kinds, (rule leaves_stays, rule lb_leaves, rule laws_apart[OF assms], rule laws_apart[OF assms], simp, simp add: same_tables)+)

lemma network_tidy:
  assumes "operator_laws S Ls K"
  shows "tidy S (base_Reconcile (LNetworks Ls) (KNetworks K) True (HCloudNetworkReconciler (LNetworks Ls) K (fake_client ch)) req)"
  by (rule tidy_kinds, ((rule networks_tracked.base_stays[simplified], rule laws_apart[OF assms], rule laws_apart[OF assms], rule laws_apart[OF assms])
      | (rule leaves_stays, rule network_leaves, rule laws_apart[OF assms], rule laws_apart[OF assms], simp, simp add: same_tables))+)

lemma firewall_tidy:
  assumes "operator_laws S Ls K"
  shows "tidy S (base_Reconcile (LFirewalls Ls) (KFirewalls K) True (HCloudFirewallReconciler ord (LFirewalls Ls) K (fake_client ch)) req)"
  by (rule tidy_kinds, ((rule firewalls_tracked.base_stays[simplified], rule laws_apart[OF assms], rule laws_apart[OF assms], rule laws_apart[OF assms])
      | (rule leaves_stays, rule firewall_leaves, rule laws_apart[OF assms], rule laws_apart[OF assms], simp, simp add: same_tables))+)

lemma placement_tidy:
  assumes "operator_laws S Ls K"
  shows "tidy S (base_Reconcile (LPlacementGroups Ls) (KPlacementGroups K) True (HCloudPlacementGroupReconciler (LPlacementGroups Ls) K (fake_client ch)) req)"
  by (rule tidy_kinds, ((rule groups_tracked.base_stays[simplified], rule laws_apart[OF assms], rule laws_apart[OF assms], rule laws_apart[OF assms])
      | (rule leaves_stays, rule placement_leaves, rule laws_apart[OF assms], rule laws_apart[OF assms], simp, simp add: same_tables))+)

lemma primary_ip_tidy:
  assumes "operator_laws S Ls K"
  shows "tidy S (base_Reconcile (LPrimaryIPs Ls) (KPrimaryIPs K) True (HCloudPrimaryIPReconciler (LPrimaryIPs Ls) K (fake_client ch)) req)"
  by (rule tidy_kinds, (rule leaves_stays, rule primary_ip_leaves, rule laws_apart[OF assms], rule laws_apart[OF assms], simp, simp add: same_tables)+)

lemma floating_ip_tidy:
  assumes "operator_laws S Ls K"
  shows "tidy S (base_Reconcile (LFloatingIPs Ls) (KFloatingIPs K) True (HCloudFloatingIPReconciler (LFloatingIPs Ls) K (fake_client ch)) req)"
  by (rule tidy_kinds, (rule leaves_stays, rule floating_ip_leaves, rule laws_apart[OF assms], rule laws_apart[OF assms], simp, simp add: same_tables)+)

lemma cert_tidy:
  assumes "operator_laws S Ls K"
  shows "tidy S (base_Reconcile (LCertificates Ls) (KCertificates K) True (HCloudCertificateReconciler (LCertificates Ls) K (fake_client ch)) req)"
  by (rule tidy_kinds, (rule leaves_stays, rule cert_leaves, rule laws_apart[OF assms], rule laws_apart[OF assms], simp, simp add: same_tables)+)

section \<open>No resource is left behind\<close>

lemma work_orderly:
  assumes "operator_laws S Ls K" "Added c \<in> set (registrations Ls K (fake_client ch) ord)"
  shows "tidy S (Reconciler c req)"
proof -
  note t = visit_tidy[OF server_tidy[OF assms(1)]] visit_tidy[OF volume_tidy[OF assms(1)]] visit_tidy[OF lb_tidy[OF assms(1)]]
    visit_tidy[OF network_tidy[OF assms(1)]] visit_tidy[OF firewall_tidy[OF assms(1)]] visit_tidy[OF placement_tidy[OF assms(1)]]
    visit_tidy[OF primary_ip_tidy[OF assms(1)]] visit_tidy[OF floating_ip_tidy[OF assms(1)]] visit_tidy[OF cert_tidy[OF assms(1)]]
  show ?thesis
    using assms(2)
    by (auto simp: registrations_def server_controller_def volume_controller_def lb_controller_def network_controller_def
        firewall_controller_def placement_controller_def primary_ip_controller_def floating_ip_controller_def cert_controller_def
        server_base_def volume_base_def lb_base_def network_base_def firewall_base_def placement_base_def primary_ip_base_def
        floating_ip_base_def cert_base_def intro: t)
qed

lemma step_orderly:
  assumes "operator_laws S Ls K" "operator_step S Ls K w w'" "orderly S (cloud w) (kube w)"
  shows "orderly S (cloud w') (kube w')"
  using assms(2)
proof cases
  case (work c ch ord req)
  then show ?thesis using work_orderly[OF assms(1)] assms(3) unfolding tidy_def by blast
next
  case (edit k')
  then show ?thesis using assms(3) by (simp add: orderly_def considerate_order)
next
  case (drift f')
  then show ?thesis using assms(3) by (auto simp: orderly_def drifts_def intro: drifts_order)
qed

lemma steps_orderly:
  assumes "operator_laws S Ls K" "rtranclp (operator_step S Ls K) w w'" "orderly S (cloud w) (kube w)"
  shows "orderly S (cloud w') (kube w')"
  using assms(2) by (induction rule: rtranclp_induct) (use assms(3) step_orderly[OF assms(1)] in blast)+

text \<open>The cloud at the start holds nothing and the objects of the four kinds are cluster-scoped.\<close>

definition fresh :: "'k Stores \<Rightarrow> (FakeClient, 'k) world \<Rightarrow> bool" where
  "fresh S w \<longleftrightarrow> cloud w = NewFakeClient \<and> cluster_scoped (SServers S) (kube w) \<and> cluster_scoped (SNetworks S) (kube w)
     \<and> cluster_scoped (SFirewalls S) (kube w) \<and> cluster_scoped (SPlacementGroups S) (kube w)"

lemma fresh_orderly: "fresh S w \<Longrightarrow> orderly S (cloud w) (kube w)"
  by (simp add: fresh_def orderly_def in_order_def accounted_def fake_wf_New[unfolded NewFakeClient_def] NewFakeClient_def)


definition sample_libs :: "('c, 'k) Libs" where
  "sample_libs = \<lparr> LServers = sample_lib, LVolumes = sample_lib, LLoadBalancers = sample_lib, LNetworks = sample_lib,
     LFirewalls = sample_lib, LPlacementGroups = sample_lib, LPrimaryIPs = sample_lib, LFloatingIPs = sample_lib,
     LCertificates = sample_lib \<rparr>"

definition sample_stores :: "apistate Stores" where
  "sample_stores = \<lparr> SServers = (\<lambda>k. mem_find (st_Servers k)), SNetworks = (\<lambda>k. mem_find (st_Networks k)),
     SFirewalls = (\<lambda>k. mem_find (st_Firewalls k)), SPlacementGroups = (\<lambda>k. mem_find (st_PlacementGroups k)) \<rparr>"

lemma mem_update_other:
  assumes "\<And>g k. P (upd g k) = P k"
  shows "keeps P (KUpdate (mem_client tbl upd index) x)"
  by (rule keepsI) (simp add: mem_client_def Let_def assms split: option.split)

lemma sample_written:
  "only_written_by HCloudServer (\<lambda>k. mem_find (st_Servers k)) sample_api"
  "only_written_by HCloudNetwork (\<lambda>k. mem_find (st_Networks k)) sample_api"
  "only_written_by HCloudFirewall (\<lambda>k. mem_find (st_Firewalls k)) sample_api"
  "only_written_by HCloudPlacementGroup (\<lambda>k. mem_find (st_PlacementGroups k)) sample_api"
  by (simp_all add: only_written_by_def reads_leave_def writes_leave_def mem_get_same mem_list_same mem_update_other mem_status_other)

lemma sample_operator_laws: "operator_laws sample_stores sample_libs sample_api"
  by (simp only: operator_laws_def sample_stores_def sample_libs_def Libs.simps Stores.simps sample_lib_ok sample_laws_lib sample_written simp_thms)

definition stored_group :: HCloudPlacementGroup where
  "stored_group = NewHCloudPlacementGroup\<lparr>Name := ''spread'', ResourceVersion := ''7'',
     Finalizers := [''infra.hkc.io/placementgroup-finalizer'']\<rparr>"

definition sample_start :: "(FakeClient, apistate) world" where
  "sample_start = \<lparr> cloud = NewFakeClient, kube = no_objects\<lparr>st_PlacementGroups := [stored_group]\<rparr>, obj = (), events = [], metrics = [] \<rparr>"

abbreviation sample_end :: "(FakeClient, apistate) world" where
  "sample_end \<equiv> snd (placement_base sample_libs sample_api (fake_client []) \<lparr> LB_order = ([], []), FW_order = ([], []) \<rparr>
     (cluster_key ''spread'') sample_start)"

lemma sample_end_cloud: "map (\<lambda>(i, v). (i, pg_Name v)) (placementGroups (cloud sample_end)) = [(1, ''spread'')]"
  by code_simp


end
