(* ===== verification/FakeRuns.thy ===== *)
theory FakeRuns
  imports FakeLaws
begin

text \<open>
  Runs of the fake client's operations on an entry that is there: what a lookup returns and what
  a change of one entry leaves in the table. Proved once for a table and interpreted for each of
  the nine kinds.
\<close>

section \<open>Association lists\<close>

lemma update_same: "map_of m k = Some v \<Longrightarrow> AList.update k v m = m"
  by (induction m) (auto split: if_splits)

lemma update_update: "AList.update k w (AList.update k v m) = AList.update k w m"
  by (induction m) auto

section \<open>One entry\<close>

text \<open>The client injects no error and its table holds the entry.\<close>

definition has_entry :: "(FakeClient \<Rightarrow> (int64, 'i) gomap) \<Rightarrow> FakeClient \<Rightarrow> int64 \<Rightarrow> 'i \<Rightarrow> bool" where
  "has_entry tbl f i x \<longleftrightarrow> fake_ready f \<and> map_of (tbl f) i = Some x"

lemma has_entryD: "has_entry tbl f i x \<Longrightarrow> map_of (tbl f) i = Some x" "has_entry tbl f i x \<Longrightarrow> fake_ready f"
  by (simp_all add: has_entry_def)

text \<open>The client with one entry overwritten by the given value.\<close>

definition put_in :: "(((int64, 'i) gomap \<Rightarrow> (int64, 'i) gomap) \<Rightarrow> FakeClient \<Rightarrow> FakeClient)
    \<Rightarrow> ('i \<Rightarrow> int64) \<Rightarrow> 'i \<Rightarrow> FakeClient \<Rightarrow> FakeClient" where
  "put_in upd idf x f = upd (AList.update (idf x) x) f"

locale fake_writes = fake_table +
  assumes upd_same: "g (tbl f) = tbl f \<Longrightarrow> upd g f = f"
    and upd_upd: "upd g (upd h f) = upd (\<lambda>m. g (h m)) f"
begin

lemma entry_id: "has_entry tbl f i x \<Longrightarrow> idf x = i \<and> i \<noteq> 0"
  using table_ok_lookup[OF tbl_wf] by (fastforce simp: has_entry_def fake_ready_def)

lemma get_entry: "has_entry tbl f i x \<Longrightarrow> fake_get tbl copy i f = (Ok (Some (copy x)), f)"
  by (simp add: has_entry_def fake_get_def fake_ready_def)

lemma put_entry:
  assumes "has_entry tbl f i x" and "idf x' = idf x" and "nm x' = nm x"
  shows "has_entry tbl (put_in upd idf x' f) i x'"
proof -
  have i: "idf x = i" using entry_id[OF assms(1)] by blast
  have m: "map_of (tbl f) i = Some x" and r: "fake_ready f" using assms(1) by (simp_all add: has_entry_def)
  have "table_ok idf nm (AList.update i x' (tbl f)) (nextID f)"
    by (rule table_ok_update[OF tbl_wf m assms(2,3)]) (use r in \<open>simp add: fake_ready_def\<close>)
  then have "fake_wf (put_in upd idf x' f)" using r i assms(2) by (simp add: put_in_def fake_ready_def upd_wf)
  then show ?thesis
    using r i assms(2) by (simp add: has_entry_def fake_ready_def put_in_def upd_frame tbl_upd update_conv')
qed

lemma put_same: "has_entry tbl f i x \<Longrightarrow> put_in upd idf x f = f"
  using entry_id[of f i x] by (auto simp: put_in_def has_entry_def update_same intro: upd_same)

lemma put_put: "idf x = idf y \<Longrightarrow> put_in upd idf x (put_in upd idf y f) = put_in upd idf x f"
  by (simp add: put_in_def upd_upd update_update)

lemma on_entry:
  assumes "has_entry tbl f i x" and "body f x = Inr x'" and "idf x' = idf x"
  shows "fake_on tbl upd kd i body f = (Ok (), put_in upd idf x' f)"
  using assms entry_id[OF assms(1)] by (simp add: fake_on_def put_in_def has_entry_def)

end

section \<open>The nine tables\<close>

interpretation server_runs: fake_writes servers servers_update srv_ID srv_Name copyServerInfo "''server''"
  "\<lambda>_. None" sco_Name new_server fake_DeleteServer "\<lambda>_ _. True"
  by unfold_locales simp_all

interpretation volume_runs: fake_writes volumes volumes_update vol_ID vol_Name id "''volume''"
  "\<lambda>_. None" vco_Name new_volume fake_DeleteVolume volume_detached
  by unfold_locales simp_all

interpretation load_balancer_runs: fake_writes loadBalancers loadBalancers_update lb_ID lb_Name id "''load balancer''"
  "\<lambda>_. None" lco_Name new_load_balancer fake_DeleteLoadBalancer "\<lambda>_ _. True"
  by unfold_locales simp_all

interpretation network_runs: fake_writes networks networks_update net_ID net_Name copyNetworkInfo "''network''"
  network_check nco_Name new_network fake_DeleteNetwork "\<lambda>_ _. True"
  by unfold_locales simp_all

interpretation firewall_runs: fake_writes firewalls firewalls_update fw_ID fw_Name cloneFirewallInfo "''firewall''"
  "\<lambda>_. None" fco_Name new_firewall fake_DeleteFirewall "\<lambda>_ _. True"
  by unfold_locales simp_all

interpretation placement_group_runs: fake_writes placementGroups placementGroups_update pg_ID pg_Name copyPlacementGroupInfo "''placement group''"
  "\<lambda>_. None" pco_Name new_placement_group fake_DeletePlacementGroup "\<lambda>_ _. True"
  by unfold_locales simp_all

interpretation primary_ip_runs: fake_writes primaryIPs primaryIPs_update pip_ID pip_Name copyPrimaryIPInfo "''primary IP''"
  primary_ip_check ipc_Name new_primary_ip fake_DeletePrimaryIP "\<lambda>_ _. True"
  by unfold_locales simp_all

interpretation floating_ip_runs: fake_writes floatingIPs floatingIPs_update fip_ID fip_Name copyFloatingIPInfo "''floating IP''"
  "\<lambda>_. None" fic_Name new_floating_ip fake_DeleteFloatingIP "\<lambda>_ _. True"
  by unfold_locales simp_all

interpretation certificate_runs: fake_writes certificates certificates_update crt_ID crt_Name copyCertificateInfo "''certificate''"
  "\<lambda>_. None" cco_Name new_certificate fake_DeleteCertificate "\<lambda>_ _. True"
  by unfold_locales simp_all

section \<open>Names for the kinds\<close>

abbreviation has_server :: "FakeClient \<Rightarrow> int64 \<Rightarrow> ServerInfo \<Rightarrow> bool" where
  "has_server \<equiv> has_entry servers"

abbreviation put_server :: "ServerInfo \<Rightarrow> FakeClient \<Rightarrow> FakeClient" where
  "put_server \<equiv> put_in servers_update srv_ID"

abbreviation has_volume :: "FakeClient \<Rightarrow> int64 \<Rightarrow> VolumeInfo \<Rightarrow> bool" where
  "has_volume \<equiv> has_entry volumes"

abbreviation put_volume :: "VolumeInfo \<Rightarrow> FakeClient \<Rightarrow> FakeClient" where
  "put_volume \<equiv> put_in volumes_update vol_ID"

abbreviation has_load_balancer :: "FakeClient \<Rightarrow> int64 \<Rightarrow> LoadBalancerInfo \<Rightarrow> bool" where
  "has_load_balancer \<equiv> has_entry loadBalancers"

abbreviation put_load_balancer :: "LoadBalancerInfo \<Rightarrow> FakeClient \<Rightarrow> FakeClient" where
  "put_load_balancer \<equiv> put_in loadBalancers_update lb_ID"

abbreviation has_network :: "FakeClient \<Rightarrow> int64 \<Rightarrow> NetworkInfo \<Rightarrow> bool" where
  "has_network \<equiv> has_entry networks"

abbreviation put_network :: "NetworkInfo \<Rightarrow> FakeClient \<Rightarrow> FakeClient" where
  "put_network \<equiv> put_in networks_update net_ID"

abbreviation has_firewall :: "FakeClient \<Rightarrow> int64 \<Rightarrow> FirewallInfo \<Rightarrow> bool" where
  "has_firewall \<equiv> has_entry firewalls"

abbreviation put_firewall :: "FirewallInfo \<Rightarrow> FakeClient \<Rightarrow> FakeClient" where
  "put_firewall \<equiv> put_in firewalls_update fw_ID"

abbreviation has_primary_ip :: "FakeClient \<Rightarrow> int64 \<Rightarrow> PrimaryIPInfo \<Rightarrow> bool" where
  "has_primary_ip \<equiv> has_entry primaryIPs"

abbreviation put_primary_ip :: "PrimaryIPInfo \<Rightarrow> FakeClient \<Rightarrow> FakeClient" where
  "put_primary_ip \<equiv> put_in primaryIPs_update pip_ID"

abbreviation has_floating_ip :: "FakeClient \<Rightarrow> int64 \<Rightarrow> FloatingIPInfo \<Rightarrow> bool" where
  "has_floating_ip \<equiv> has_entry floatingIPs"

abbreviation put_floating_ip :: "FloatingIPInfo \<Rightarrow> FakeClient \<Rightarrow> FakeClient" where
  "put_floating_ip \<equiv> put_in floatingIPs_update fip_ID"

abbreviation has_certificate :: "FakeClient \<Rightarrow> int64 \<Rightarrow> CertificateInfo \<Rightarrow> bool" where
  "has_certificate \<equiv> has_entry certificates"

abbreviation put_certificate :: "CertificateInfo \<Rightarrow> FakeClient \<Rightarrow> FakeClient" where
  "put_certificate \<equiv> put_in certificates_update crt_ID"

end
