(* ===== verification/VolumeProps.thy ===== *)
theory VolumeProps
  imports Parametric FakeRuns
begin

text \<open>
  The volume controller on the fake client: growing, moving, refusing to shrink, deleting an
  attached volume, and two cases where what it reports or reaches is not what was asked for.
\<close>

section \<open>Steps\<close>

lemma get_volume_run: "has_volume f i v \<Longrightarrow> fake_GetVolume i f = (Ok (Some v), f)"
  using volume_runs.get_entry by (simp add: fake_GetVolume_def)

lemma volume_resize_run:
  assumes "has_volume (cloud s) i v" and "vol_Size v \<le> want"
  shows "volume_resize (fake_client c) want v s = (Ok (v\<lparr>vol_Size := want\<rparr>), s\<lparr>cloud := put_volume (v\<lparr>vol_Size := want\<rparr>) (cloud s)\<rparr>)"
proof (cases "vol_Size v = want")
  case True
  then have same: "v\<lparr>vol_Size := want\<rparr> = v" by (cases v) simp
  show ?thesis unfolding same using True volume_runs.put_same[OF assms(1)] by (simp add: volume_resize_def)
next
  case False
  let ?v = "v\<lparr>vol_Size := want\<rparr>"
  have i: "vol_ID v = i" using volume_runs.entry_id[OF assms(1)] by simp
  have "fake_ResizeVolume i want (cloud s) = (Ok (), put_volume ?v (cloud s))"
    unfolding fake_ResizeVolume_def using assms(2) by (intro volume_runs.on_entry[OF assms(1)]) auto
  moreover have "has_volume (put_volume ?v (cloud s)) i ?v"
    using volume_runs.put_entry[OF assms(1), of ?v] by simp
  ultimately show ?thesis
    using False assms(2) i get_volume_run[of "put_volume ?v (cloud s)" i ?v]
    by (simp add: volume_resize_def bindM_run wrapM_run onCloud_run)
qed

text \<open>A volume attached to a server of positive identifier, or to none.\<close>

lemma volume_attach_run:
  assumes "has_volume (cloud s) i v" and "0 \<le> vol_ServerID v"
  shows "volume_attach (fake_client c) t v s =
    (Ok (if t = 0 then v else v\<lparr>vol_ServerID := t\<rparr>), s\<lparr>cloud := put_volume (v\<lparr>vol_ServerID := t\<rparr>) (cloud s)\<rparr>)"
proof (cases "vol_ServerID v = t")
  case True
  then have same: "v\<lparr>vol_ServerID := t\<rparr> = v" by (cases v) simp
  show ?thesis unfolding same using True volume_runs.put_same[OF assms(1)] by (simp add: volume_attach_def)
next
  case False
  have i: "vol_ID v = i" using volume_runs.entry_id[OF assms(1)] by simp
  let ?u = "v\<lparr>vol_ServerID := 0\<rparr>" and ?v = "v\<lparr>vol_ServerID := t\<rparr>"
  let ?s0 = "s\<lparr>cloud := put_volume ?u (cloud s)\<rparr>"
  have h0: "has_volume (cloud ?s0) i ?u" using volume_runs.put_entry[OF assms(1), of ?u] by simp
  have det: "(if vol_ServerID v \<noteq> 0 then wrapM p (onCloud (fake_DetachVolume i)) else ret ()) s = (Ok (), ?s0)" for p
  proof (cases "vol_ServerID v = 0")
    case True
    then have same: "?u = v" by (cases v) simp
    show ?thesis unfolding same using True volume_runs.put_same[OF assms(1)] by simp
  next
    case False
    have "fake_DetachVolume i (cloud s) = (Ok (), put_volume ?u (cloud s))"
      unfolding fake_DetachVolume_def by (intro volume_runs.on_entry[OF assms(1)]) simp_all
    then show ?thesis using False by (simp add: wrapM_run onCloud_run)
  qed
  have att: "fake_AttachVolume i t (cloud ?s0) = (Ok (), put_volume ?v (cloud s))"
  proof -
    have "fake_AttachVolume i t (cloud ?s0) = (Ok (), put_volume ?v (cloud ?s0))"
      unfolding fake_AttachVolume_def by (intro volume_runs.on_entry[OF h0]) simp_all
    then show ?thesis using volume_runs.put_put[of ?v ?u] by simp
  qed
  show ?thesis
  proof (cases "t = 0")
    case True
    then show ?thesis using False det
      unfolding volume_attach_def fake_client_sel i
      by (simp add: bindM_run split del: if_split)
  next
    case t: False
    then show ?thesis using False det att
      unfolding volume_attach_def fake_client_sel i
      by (simp add: bindM_run wrapM_run onCloud_run[of "fake_AttachVolume i t"] split del: if_split)
  qed
qed

section \<open>A reconcile\<close>

text \<open>The server a volume is to be attached to: none without a reference, otherwise the identifier
  the referenced server has.\<close>

definition volume_target :: "'k kube_api \<Rightarrow> ('c, 'k, HCloudVolume) rst \<Rightarrow> int64 \<Rightarrow> bool" where
  "volume_target K s t \<longleftrightarrow> (case vm_ServerRef (Spec (obj s)) of None \<Rightarrow> t = 0
     | Some ref \<Rightarrow> t \<noteq> 0 \<and> (\<exists>x. KGet (KServers K) \<lparr> nn_Namespace = Namespace (obj s), nn_Name = ref \<rparr> (kube s) = (Ok x, kube s)
         \<and> svs_ServerID (Status x) = t))"

lemma volume_run:
  assumes "has_volume (cloud s) (vms_VolumeID (Status (obj s))) v" and "volume_target K s t"
    and "vol_Size v \<le> vm_Size (Spec (obj s))" and "0 \<le> vol_ServerID v" and "conditions_law L"
  obtains s' where "volume_Reconcile L K (fake_client c) s = (Ok (after requeueDelay), s')" and "kube s' = kube s"
    and "cloud s' = put_volume (v\<lparr>vol_Size := vm_Size (Spec (obj s)), vol_ServerID := t\<rparr>) (cloud s)"
    and "vms_VolumeID (Status (obj s')) = vms_VolumeID (Status (obj s))" and "vms_AppliedSize (Status (obj s')) = vm_Size (Spec (obj s))"
    and "vms_AttachedServerID (Status (obj s')) = (if t = 0 then vol_ServerID v else t)"
    and "\<exists>c. FindStatusCondition L (Conditions (Status (obj s'))) ''Ready'' = Some c \<and> cond_Status c = ''True''"
proof -
  let ?i = "vms_VolumeID (Status (obj s))" and ?want = "vm_Size (Spec (obj s))"
  let ?v1 = "v\<lparr>vol_Size := ?want\<rparr>" and ?v2 = "v\<lparr>vol_Size := ?want, vol_ServerID := t\<rparr>"
  let ?s1 = "s\<lparr>cloud := put_volume ?v1 (cloud s)\<rparr>" and ?s2 = "s\<lparr>cloud := put_volume ?v2 (cloud s)\<rparr>"
  have i: "vol_ID v = ?i" "?i \<noteq> 0" using volume_runs.entry_id[OF assms(1)] by simp_all
  have h1: "has_volume (cloud ?s1) ?i ?v1" using volume_runs.put_entry[OF assms(1), of ?v1] by simp
  have found: "find_or_create (\<lambda>i. onCloud (GetVolume (fake_client c) i)) (\<lambda>n. onCloud (GetVolumeByName (fake_client c) n))
       (\<lambda>opts. onCloud (CreateVolume (fake_client c) opts)) ''volume'' ''create volume'' ?i (Name (obj s)) opts s = (Ok v, s)" for opts
    using get_volume_run[OF assms(1)] i
    by (simp add: find_or_create_def find_existing_def bindM_run wrapM_run onCloud_run)
  have att: "volume_attach (fake_client c) t ?v1 ?s1 = (Ok (if t = 0 then ?v1 else ?v2), ?s2)"
    using volume_attach_run[OF h1, of c t] assms(4) volume_runs.put_put[of ?v2 ?v1] by simp
  define s3 where "s3 = ?s2\<lparr>obj := (obj s)\<lparr>Status := (Status (obj s))\<lparr>vms_VolumeID := ?i, vms_State := vol_State v,
         vms_AttachedServerID := (if t = 0 then vol_ServerID v else t), vms_AppliedSize := ?want,
         vms_LinuxDevice := (if vol_LinuxDevice v \<noteq> '''' then vol_LinuxDevice v else vms_LinuxDevice (Status (obj s)))\<rparr>\<rparr>\<rparr>"
  define s4 where "s4 = snd (setCondition L conditionTypeReady ConditionTrue ''VolumeReady'' ''Volume is provisioned and attached'' s3)"
  have run: "reconcileHCloudVolume L (fake_client c) t s = (Ok (), s4)"
    using found volume_resize_run[OF assms(1,3), of c] att i
    by (cases "t = 0") (simp_all add: reconcileHCloudVolume_def s4_def s3_def)
  have "volume_Reconcile L K (fake_client c) s = bindM (reconcileHCloudVolume L (fake_client c) t) (\<lambda>_. ret (after requeueDelay)) s"
    using assms(2) by (auto simp: volume_Reconcile_def volume_target_def Let_def tryM_run onKube_run split: option.splits)
  then have "volume_Reconcile L K (fake_client c) s = (Ok (after requeueDelay), s4)" using run by simp
  then show ?thesis
    by (rule that) (use assms(5) in \<open>simp_all add: s4_def s3_def find_set\<close>)
qed

section \<open>Properties\<close>

text \<open>C27: A reconcile grows a volume to the size of the spec and attaches it to the wanted server, from
  whatever server it was attached to before, or detaches it; the status records the identifier and the
  size, and the server when one is wanted; Ready is True.\<close>

theorem volume_converges:
  assumes "has_volume (cloud s) (vms_VolumeID (Status (obj s))) v" and "volume_target K s t"
    and "vol_Size v \<le> vm_Size (Spec (obj s))" and "0 \<le> vol_ServerID v" and "conditions_law L"
  shows "\<exists>s' cond. volume_Reconcile L K (fake_client c) s = (Ok (after requeueDelay), s') \<and> kube s' = kube s
    \<and> cloud s' = put_volume (v\<lparr>vol_Size := vm_Size (Spec (obj s)), vol_ServerID := t\<rparr>) (cloud s)
    \<and> vms_VolumeID (Status (obj s')) = vms_VolumeID (Status (obj s)) \<and> vms_AppliedSize (Status (obj s')) = vm_Size (Spec (obj s))
    \<and> (t \<noteq> 0 \<longrightarrow> vms_AttachedServerID (Status (obj s')) = t)
    \<and> FindStatusCondition L (Conditions (Status (obj s'))) ''Ready'' = Some cond \<and> cond_Status cond = ''True''"
  by (rule volume_run[OF assms, of c]) auto

text \<open>When the reference is removed the volume is detached, but the status of that reconcile still
  names the server it was attached to.\<close>

theorem detached_volume_status_stale:
  assumes "has_volume (cloud s) (vms_VolumeID (Status (obj s))) v" and "vm_ServerRef (Spec (obj s)) = None"
    and "vol_Size v \<le> vm_Size (Spec (obj s))" and "0 < vol_ServerID v" and "conditions_law L"
  shows "\<exists>s'. volume_Reconcile L K (fake_client c) s = (Ok (after requeueDelay), s')
    \<and> map_option vol_ServerID (map_of (volumes (cloud s')) (vms_VolumeID (Status (obj s)))) = Some 0
    \<and> vms_AttachedServerID (Status (obj s')) = vol_ServerID v"
proof -
  have "volume_target K s 0" and "0 \<le> vol_ServerID v" using assms(2,4) by (simp_all add: volume_target_def)
  from volume_run[OF assms(1) this(1) assms(3) this(2) assms(5), of c]
  obtain s' where s': "volume_Reconcile L K (fake_client c) s = (Ok (after requeueDelay), s')"
    "cloud s' = put_volume (v\<lparr>vol_Size := vm_Size (Spec (obj s)), vol_ServerID := 0\<rparr>) (cloud s)"
    "vms_AttachedServerID (Status (obj s')) = vol_ServerID v" by auto
  have "vol_ID v = vms_VolumeID (Status (obj s))" using volume_runs.entry_id[OF assms(1)] by simp
  then show ?thesis using s' by (simp add: put_in_def update_conv')
qed

text \<open>A volume larger than its spec is left alone: the reconcile fails without a write.\<close>

theorem shrink_refused:
  assumes "has_volume (cloud s) (vms_VolumeID (Status (obj s))) v" and "volume_target K s t"
    and "vm_Size (Spec (obj s)) < vol_Size v"
  shows "\<exists>e. volume_Reconcile L K (fake_client c) s = (Err e, s)"
proof -
  let ?i = "vms_VolumeID (Status (obj s))"
  have i: "?i \<noteq> 0" using volume_runs.entry_id[OF assms(1)] by simp
  have found: "find_or_create (\<lambda>i. onCloud (GetVolume (fake_client c) i)) (\<lambda>n. onCloud (GetVolumeByName (fake_client c) n))
       (\<lambda>opts. onCloud (CreateVolume (fake_client c) opts)) ''volume'' ''create volume'' ?i (Name (obj s)) opts s = (Ok v, s)" for opts
    using get_volume_run[OF assms(1)] i
    by (simp add: find_or_create_def find_existing_def bindM_run wrapM_run onCloud_run)
  then have "\<exists>e. reconcileHCloudVolume L (fake_client c) t s = (Err e, s)"
    using assms(3) by (simp add: reconcileHCloudVolume_def volume_resize_def)
  moreover have "volume_Reconcile L K (fake_client c) s = bindM (reconcileHCloudVolume L (fake_client c) t) (\<lambda>_. ret (after requeueDelay)) s"
    using assms(2) by (auto simp: volume_Reconcile_def volume_target_def Let_def tryM_run onKube_run split: option.splits)
  ultimately show ?thesis by auto
qed

text \<open>Deletion detaches an attached volume first and then removes it from the cloud.\<close>

theorem volume_deleted:
  assumes "has_volume (cloud s) (vms_VolumeID (Status (obj s))) v" and "0 \<le> vol_ServerID v"
  shows "\<exists>s'. volume_Delete (fake_client c) s = (Ok (), s') \<and> obj s' = obj s \<and> kube s' = kube s
    \<and> map_of (volumes (cloud s')) = (map_of (volumes (cloud s)))(vms_VolumeID (Status (obj s)) := None)"
proof -
  let ?i = "vms_VolumeID (Status (obj s))"
  have i: "vol_ID v = ?i" "?i \<noteq> 0" using volume_runs.entry_id[OF assms(1)] by simp_all
  let ?u = "v\<lparr>vol_ServerID := 0\<rparr>"
  let ?s0 = "s\<lparr>cloud := put_volume ?u (cloud s)\<rparr>"
  have h0: "has_volume (cloud ?s0) ?i ?u" using volume_runs.put_entry[OF assms(1), of ?u] by simp
  have det: "detachVolumeIfAttached (fake_client c) s = (Ok (), ?s0)"
  proof (cases "vol_ServerID v = 0 \<and> vms_AttachedServerID (Status (obj s)) = 0")
    case True
    then have same: "?u = v" by (cases v) simp
    show ?thesis unfolding same using True get_volume_run[OF assms(1)] volume_runs.put_same[OF assms(1)]
      by (simp add: detachVolumeIfAttached_def bindM_run wrapM_run onCloud_run)
  next
    case False
    have "fake_DetachVolume ?i (cloud s) = (Ok (), put_volume ?u (cloud s))"
      unfolding fake_DetachVolume_def by (intro volume_runs.on_entry[OF assms(1)]) simp_all
    then show ?thesis using False get_volume_run[OF assms(1)]
      by (auto simp: detachVolumeIfAttached_def bindM_run wrapM_run onCloud_run)
  qed
  have "volume_detached (cloud ?s0) ?i" using has_entryD(1)[OF h0] by (simp add: volume_detached_def)
  then have del: "fake_DeleteVolume ?i (cloud ?s0) = (Ok (), volumes_update (AList.delete ?i) (cloud ?s0))"
    using has_entryD(2)[OF h0] by (intro volume_store.del_ok) (simp_all add: fake_ready_def)
  then show ?thesis
    using det i(2) by (simp add: volume_Delete_def onCloud_run put_in_def i(1) delete_conv' update_conv')
qed

section \<open>Witnesses\<close>

text \<open>A volume of 10 GB under identifier 1, attached to server 7; the objects of a volume of that
  identifier and of a server with identifier 4.\<close>

definition sample_volume :: VolumeInfo where
  "sample_volume = \<lparr> vol_ID = 1, vol_Name = ''data'', vol_Size = 10, vol_State = ''available'', vol_ServerID = 7,
     vol_LinuxDevice = ''/dev/sdb'' \<rparr>"

definition volume_object :: "int \<Rightarrow> string option \<Rightarrow> HCloudVolume" where
  "volume_object gb ref = NewHCloudVolume\<lparr>Name := ''data'', Finalizers := [''infra.hkc.io/volume-finalizer''],
     Spec := (Spec NewHCloudVolume)\<lparr>vm_Size := gb, vm_ServerRef := ref\<rparr>,
     Status := (Status NewHCloudVolume)\<lparr>vms_VolumeID := 1, vms_AttachedServerID := 7\<rparr>\<rparr>"

definition volume_world :: "FakeClient \<Rightarrow> HCloudVolume \<Rightarrow> (FakeClient, apistate, HCloudVolume) rst" where
  "volume_world f x = \<lparr> cloud = f,
     kube = no_objects\<lparr>st_Servers := [sample_server\<lparr>Status := (Status sample_server)\<lparr>svs_ServerID := 4\<rparr>\<rparr>], st_Volumes := [x]\<rparr>,
     obj = x, events = [], metrics = [] \<rparr>"

definition one_volume :: FakeClient where
  "one_volume = NewFakeClient\<lparr>volumes := [(1, sample_volume)], nextID := 2\<rparr>"

lemma volume_world_sel [simp]:
  "cloud (volume_world f x) = f" "obj (volume_world f x) = x"
  "vms_VolumeID (Status (volume_object n r)) = 1" "vm_Size (Spec (volume_object n r)) = n"
  "vm_ServerRef (Spec (volume_object n r)) = r" "vol_Size sample_volume = 10" "vol_ServerID sample_volume = 7"
  "volumes one_volume = [(1, sample_volume)]"
  by (simp_all add: volume_world_def volume_object_def NewHCloudVolume_def sample_volume_def one_volume_def)

lemma one_volume_has: "has_volume one_volume 1 sample_volume"
  by (simp add: has_entry_def fake_ready_def fake_wf_def table_ok_def one_volume_def NewFakeClient_def sample_volume_def)

lemma volume_world_target: "volume_target sample_api (volume_world f (volume_object n (Some ''web''))) 4"
  by (simp add: volume_target_def mem_client_def volume_world_def volume_object_def NewHCloudVolume_def
      no_objects_def mem_find_def sample_defs)

theorem volume_converges_witness:
  "\<exists>s'. volume_Reconcile sample_lib sample_api (fake_client []) (volume_world one_volume (volume_object 20 (Some ''web'')))
       = (Ok (after requeueDelay), s')
     \<and> cloud s' = put_volume (sample_volume\<lparr>vol_Size := 20, vol_ServerID := 4\<rparr>) one_volume
     \<and> vms_AttachedServerID (Status (obj s')) = 4"
proof -
  have has: "has_volume (cloud (volume_world one_volume (volume_object 20 (Some ''web''))))
      (vms_VolumeID (Status (obj (volume_world one_volume (volume_object 20 (Some ''web'')))))) sample_volume"
    by (simp add: one_volume_has)
  show ?thesis
    using volume_converges[OF has volume_world_target _ _ sample_lib_ok(4), of "[]"] by fastforce
qed

theorem detached_volume_status_stale_witness:
  "\<exists>s'. volume_Reconcile sample_lib sample_api (fake_client []) (volume_world one_volume (volume_object 10 None))
       = (Ok (after requeueDelay), s') \<and> vms_AttachedServerID (Status (obj s')) = 7"
proof -
  have has: "has_volume (cloud (volume_world one_volume (volume_object 10 None)))
      (vms_VolumeID (Status (obj (volume_world one_volume (volume_object 10 None))))) sample_volume"
    by (simp add: one_volume_has)
  show ?thesis
    using detached_volume_status_stale[OF has _ _ _ sample_lib_ok(4), of sample_api "[]"] by fastforce
qed

theorem shrink_refused_witness:
  "\<exists>e. volume_Reconcile sample_lib sample_api (fake_client []) (volume_world one_volume (volume_object 5 (Some ''web'')))
     = (Err e, volume_world one_volume (volume_object 5 (Some ''web'')))"
proof -
  have has: "has_volume (cloud (volume_world one_volume (volume_object 5 (Some ''web''))))
      (vms_VolumeID (Status (obj (volume_world one_volume (volume_object 5 (Some ''web'')))))) sample_volume"
    by (simp add: one_volume_has)
  show ?thesis
    using shrink_refused[OF has volume_world_target, of sample_lib "[]"] by simp
qed

theorem volume_deleted_witness:
  "\<exists>s'. volume_Delete (fake_client []) (volume_world one_volume (volume_object 10 None)) = (Ok (), s')
     \<and> map_of (volumes (cloud s')) 1 = None"
proof -
  have has: "has_volume (cloud (volume_world one_volume (volume_object 10 None)))
      (vms_VolumeID (Status (obj (volume_world one_volume (volume_object 10 None))))) sample_volume"
    by (simp add: one_volume_has)
  show ?thesis
    using volume_deleted[OF has, of "[]"] by fastforce
qed

end
