(* ===== verification/ServerLifecycle.thy ===== *)
theory ServerLifecycle
  imports ServerProps
begin

text \<open>
  More of the server controller on the fake client: creation and adoption, the private network, the
  placement group, and a server that vanishes between two calls.
\<close>

section \<open>No operation on a known server adds or removes one\<close>

abbreviation server_ids :: "FakeClient \<Rightarrow> int64 set" where
  "server_ids f \<equiv> dom (map_of (servers f))"

lemma on_server_ids: "keeps (\<lambda>f. server_ids f = D) (fake_on servers servers_update kd i body)"
  by (rule keepsI) (auto simp: fake_on_def update_conv' split: option.split sum.split)

lemma server_ops_ids:
  "keeps (\<lambda>f. server_ids f = D) (fake_PowerOffServer i)" "keeps (\<lambda>f. server_ids f = D) (fake_PowerOnServer i)"
  "keeps (\<lambda>f. server_ids f = D) (fake_AttachServerToNetwork i n)" "keeps (\<lambda>f. server_ids f = D) (fake_DetachServerFromNetwork i n)"
  "keeps (\<lambda>f. server_ids f = D) (fake_GetServer i)" "keeps (\<lambda>f. server_ids f = D) (fake_GetServerByName c nm)"
  "keeps (\<lambda>f. server_ids f = D) (fake_ChangeServerType i ty d)"
  unfolding fake_PowerOffServer_def fake_PowerOnServer_def fake_AttachServerToNetwork_def fake_DetachServerFromNetwork_def
    fake_GetServer_def fake_GetServerByName_def
  by (rule on_server_ids server_store.get_keeps server_store.by_name_keeps
      | (rule keepsI, auto simp: fake_ChangeServerType_def update_conv' split: option.split))+

lemma keeps_cloud: "keeps P m \<Longrightarrow> keeps (\<lambda>s. P (cloud s)) (onCloud m)"
  by (rule keepsI) (auto simp: keeps_def onCloud_def split: prod.split)

lemma keeps_cloud_other:
  "keeps (\<lambda>s. P (cloud s)) (onKube m)" "keeps (\<lambda>s. P (cloud s)) (updStatus g)" "keeps (\<lambda>s. P (cloud s)) (setCondition L t st r msg)"
  by (rule keepsI; simp add: onKube_def split: prod.split)+

lemma keeps_persist: "retry_law L \<Longrightarrow> keeps (\<lambda>s. P (cloud s)) (persist_status L K)"
  unfolding persist_status_def retry_law_def by (simp, intro inv_intros keeps_attempts keeps_cloud_other)

lemma keeps_case_option_unit: "(x = None \<Longrightarrow> keeps P m) \<Longrightarrow> (\<And>y. x = Some y \<Longrightarrow> keeps P (f y)) \<Longrightarrow> keeps P (case x of None \<Rightarrow> m | Some y \<Rightarrow> f y)"
  by (cases x) auto

lemma keeps_case_prod: "(\<And>a b. keeps P (f a b)) \<Longrightarrow> keeps P (case p of (a, b) \<Rightarrow> f a b)"
  by (cases p) auto

lemmas server_keeps = inv_intros keeps_cloud_other keeps_cloud server_ops_ids keeps_persist keeps_case_prod

lemma existing_keeps_ids:
  assumes "retry_law L"
  shows "keeps (\<lambda>s. server_ids (cloud s) = D) (reconcileExistingServer L K (fake_client c) sv)"
  unfolding reconcileExistingServer_def reconcileServerTypeMismatch_def resize_step_def applyServerStatus_def
    ensureServerNetworkAttachment_def attach_network_def record_network_def detach_managed_def refresh_server_def syncPlacementGroupStatus_def
    resolvePlacementGroupID_def syncStatus_def updateServerStatusWithRetry_def Let_def fake_client_sel
  by (intro server_keeps assms)

section \<open>Adoption and creation\<close>

lemma snd_bindM_ret: "snd (bindM m (\<lambda>x. ret (g x)) s) = snd (m s)"
  by (simp add: bindM_def ret_def split: prod.split res.split)

lemma server_lookup_run:
  assumes "fake_ready (cloud s)"
  shows "fake_GetServer i (cloud s) = (Ok (map_of (servers (cloud s)) i), cloud s)"
  using assms by (cases "map_of (servers (cloud s)) i") (simp_all add: fake_GetServer_def fake_get_def fake_ready_def copyServerInfo_def)


lemma server_creation:
  assumes "lib_ok L" and "api_law nf (IsConflict L) store (KServers K)" and "fake_ready (cloud s)"
    and "store (kube s) (key_of (obj s)) = Some y"
    and "\<And>j sv. map_of (servers (cloud s)) j = Some sv \<Longrightarrow> srv_Name sv \<noteq> Name (obj s)"
    and "map_of (servers (cloud s)) (svs_ServerID (Status (obj s))) = None"
    and "ref_set (sv_PlacementGroupRef (Spec (obj s))) = None"
  shows "\<exists>s' u cond. server_Reconcile L K (fake_client c) s = (Ok (after requeueDelay), s')
    \<and> map_of (servers (cloud s')) = (map_of (servers (cloud s)))(nextID (cloud s) \<mapsto> new_server (server_opts (obj s) 0) (nextID (cloud s)))
    \<and> map_of (servers (cloud s)) (nextID (cloud s)) = None
    \<and> map_option Status (store (kube s') (key_of (obj s))) = Some u \<and> svs_ServerID u = nextID (cloud s)
    \<and> FindStatusCondition L (Conditions u) ''Ready'' = Some cond \<and> cond_Status cond = ''True'' \<and> cond_Reason cond = ''ServerCreated''
    \<and> svs_ServerID (Status (obj s')) = nextID (cloud s)"
proof -
  note laws = lib_okD[OF assms(1)]
  let ?x = "obj s" and ?n = "nextID (cloud s)" and ?opts = "server_opts (obj s) 0"
  have wf: "table_ok srv_ID srv_Name (servers (cloud s)) ?n" and errs: "GetErr (cloud s) = None" "CreateErr (cloud s) = None"
    using assms(3) by (simp_all add: fake_ready_def fake_wf_def)
  have fresh: "map_of (servers (cloud s)) ?n = None" using table_ok_fresh[OF wf] .
  have free: "\<not> list_ex (\<lambda>(k, v). srv_Name v = Name ?x) (servers (cloud s))"
    using wf assms(5) by (auto simp: list_ex_iff table_ok_def)
  let ?f = "servers_update (AList.update ?n (new_server ?opts ?n)) ((cloud s)\<lparr>nextID := ?n + 1\<rparr>)"
  have create: "fake_CreateServer ?opts (cloud s) = (Ok (new_server ?opts ?n), ?f)"
    using errs free by (simp add: fake_CreateServer_def fake_create_def server_opts_def copyServerInfo_def Let_def)
  obtain r where r: "fake_GetServerByName c (Name ?x) (cloud s) = (Ok r, cloud s)" "r = None"
    using server_store.by_name_finds[OF assms(3), of c "Name ?x"] assms(5)
    by (fastforce simp: fake_GetServerByName_def copyServerInfo_def split: option.splits)
  define s1 where "s1 = snd (setCondition L conditionTypeReady ConditionTrue ''ServerCreated'' ''Hetzner server created successfully''
      (snd (updStatus (\<lambda>u. u\<lparr>svs_ServerID := ?n, svs_State := ''running'', svs_PublicIPv4 := srv_PublicIPv4 (new_server ?opts ?n),
         svs_PublicIPv6 := srv_PublicIPv6 (new_server ?opts ?n), svs_AppliedPlacementGroupID := svs_AppliedPlacementGroupID u,
         svs_AppliedServerType := sv_ServerType (Spec ?x)\<rparr>) (s\<lparr>cloud := ?f\<rparr>))))"
  have key: "key_of (obj s1) = key_of ?x" by (simp add: s1_def)
  have st: "store (kube s1) (key_of (obj s1)) = Some y" using assms(4) key by (simp add: s1_def)
  obtain k' rv where w: "updateServerStatusWithRetry L K s1 = (Ok (), s1\<lparr>kube := k'\<rparr>)"
    "store k' = (store (kube s1))(key_of (obj s1) \<mapsto> y\<lparr>Status := Status (obj s1), ResourceVersion := rv\<rparr>)"
    using persist_status_ok[OF laws(3) assms(2) st] unfolding updateServerStatusWithRetry_def by metis
  have "createHCloudServer L K (fake_client c) s = (Ok 0, s1\<lparr>kube := k'\<rparr>)"
    using create w(1) assms(7)
    by (simp add: createHCloudServer_def resolvePlacementGroupID_def wrapM_run onCloud_run bindM_run s1_def
        new_server_def server_opts_def)
  moreover have "reconcileHCloudServer L K (fake_client c) s = createHCloudServer L K (fake_client c) s"
    using server_lookup_run[OF assms(3)] assms(6) r
    by (simp add: reconcileHCloudServer_def bindM_run wrapM_run onCloud_run)
  ultimately have "server_Reconcile L K (fake_client c) s = (Ok (after requeueDelay), s1\<lparr>kube := k'\<rparr>)"
    by (simp add: server_Reconcile_def)
  then show ?thesis
    using w(2) key fresh by (simp add: s1_def find_set[OF laws(1)] update_conv')
qed

text \<open>C21: If it has none, and the object refers to no placement group, a reconcile creates one server
  of the spec under a fresh identifier and stores that identifier; the object is reported Ready
  at once, before the server has been seen running by a later reconcile.\<close>

theorem server_created:
  assumes "lib_ok L" and "api_law nf (IsConflict L) store (KServers K)" and "fake_ready (cloud s)"
    and "store (kube s) (key_of (obj s)) = Some y"
    and "\<And>j sv. map_of (servers (cloud s)) j = Some sv \<Longrightarrow> srv_Name sv \<noteq> Name (obj s)"
    and "map_of (servers (cloud s)) (svs_ServerID (Status (obj s))) = None"
    and "ref_set (sv_PlacementGroupRef (Spec (obj s))) = None"
  shows "\<exists>s' u cond. server_Reconcile L K (fake_client c) s = (Ok (after requeueDelay), s')
    \<and> map_of (servers (cloud s')) = (map_of (servers (cloud s)))(nextID (cloud s) \<mapsto> new_server (server_opts (obj s) 0) (nextID (cloud s)))
    \<and> map_of (servers (cloud s)) (nextID (cloud s)) = None
    \<and> map_option Status (store (kube s') (key_of (obj s))) = Some u \<and> svs_ServerID u = nextID (cloud s)
    \<and> FindStatusCondition L (Conditions u) ''Ready'' = Some cond \<and> cond_Status cond = ''True'' \<and> cond_Reason cond = ''ServerCreated''"
  using server_creation[OF assms(1-4) _ assms(6,7), where c = c] assms(5) by blast

section \<open>A server that vanishes\<close>

text \<open>C23: A server that is gone when it is read again after a power-off makes the reconcile panic: the
  result of the second read is used without a check.\<close>

theorem vanished_server_panics:
  assumes "PowerOffServer H (srv_ID sv) (cloud s) = (Ok (), c1)" and "GetServer H (srv_ID sv) c1 = (Ok None, c2)"
    and "srv_State sv = ''running''" and "srv_ServerType sv \<notin> {'''', sv_ServerType (Spec (obj s))}"
  shows "\<exists>s'. reconcileExistingServer L K H sv s = (Panic ''nil pointer dereference'', s')"
  using assms
  by (simp add: reconcileExistingServer_def reconcileServerTypeMismatch_def resize_step_def applyServerStatus_def
      bindM_run wrapM_run onCloud_run)

section \<open>Witnesses\<close>

text \<open>A server of the object's name that the status does not know of.\<close>

lemma sample_server_sel [simp]:
  "key_of sample_server = sample_req" "Status sample_server = Status NewHCloudServer"
  "svs_ServerID (Status NewHCloudServer) = 0" "sv_PlacementGroupRef (Spec sample_server) = None"
  "Name sample_server = ''web''"
  by (simp_all add: sample_server_def NewHCloudServer_def sample_req_def cluster_key_def key_of_def)

lemma one_server_ready [simp]:
  "fake_ready (one_server (sample_info st ty))" "map_of (servers (one_server (sample_info st ty))) 1 = Some (sample_info st ty)"
  using has_serverD[OF one_server_has] by simp_all


theorem server_created_witness:
  "\<exists>s'. server_Reconcile sample_lib sample_api (fake_client [])
       ((sample_world sample_server NewFakeClient)\<lparr>obj := sample_server\<rparr>) = (Ok (after requeueDelay), s')
     \<and> map_of (servers (cloud s')) 1 = Some (new_server (server_opts sample_server 0) 1)"
proof -
  let ?s = "(sample_world sample_server NewFakeClient)\<lparr>obj := sample_server\<rparr>"
  have "fake_ready (cloud ?s)" "nextID (cloud ?s) = 1" "servers (cloud ?s) = []"
    by (simp_all add: fake_ready_def fake_wf_New) (simp_all add: NewFakeClient_def)
  moreover have "mem_find (st_Servers (kube ?s)) (key_of (obj ?s)) = Some sample_server" by simp
  moreover have "ref_set (sv_PlacementGroupRef (Spec (obj ?s))) = None" "obj ?s = sample_server" by (simp_all add: ref_set_def)
  ultimately show ?thesis
    using server_created[OF sample_lib_ok(1) sample_laws_lib(1), where s = ?s and c = "[]" and y = sample_server]
    by auto
qed

theorem vanished_server_panics_witness:
  "\<exists>s'. reconcileExistingServer sample_lib sample_api ((fake_client [])\<lparr>GetServer := \<lambda>i. ret None\<rparr>)
     (sample_info ''running'' ''cx11'')
     ((sample_world (known_server ''cx11'') (one_server (sample_info ''running'' ''cx11'')))\<lparr>obj := known_server ''cx11''\<rparr>)
   = (Panic ''nil pointer dereference'', s')"
proof -
  let ?s = "(sample_world (known_server ''cx11'') (one_server (sample_info ''running'' ''cx11'')))\<lparr>obj := known_server ''cx11''\<rparr>"
  have h: "has_server (cloud ?s) 1 (sample_info ''running'' ''cx11'')" by simp
  have "srv_ID (sample_info ''running'' ''cx11'') = 1" by (simp add: sample_info_def)
  then show ?thesis
    using power_off_run[OF h]
    by (intro vanished_server_panics) (simp_all add: fake_client_sel)
qed

section \<open>The private network\<close>

lemma detach_network_run:
  assumes "has_server f i sv"
  shows "fake_DetachServerFromNetwork i a f = (Ok (), put_server (sv\<lparr>srv_NetworkIDs := filter (\<lambda>j. j \<noteq> a) (srv_NetworkIDs sv)\<rparr>) f)"
  unfolding fake_DetachServerFromNetwork_def by (rule server_runs.on_entry[OF assms]) simp_all

lemma attach_network_run:
  assumes "has_server f i sv" and "map_of (networks f) n \<noteq> None" and "n \<notin> set (srv_NetworkIDs sv)"
  shows "fake_AttachServerToNetwork i n f = (Ok (), put_server (sv\<lparr>srv_NetworkIDs := sort (srv_NetworkIDs sv @ [n])\<rparr>) f)"
  unfolding fake_AttachServerToNetwork_def by (rule server_runs.on_entry[OF assms(1)]) (use assms in simp_all)

lemma detach_managed_run:
  fixes s :: "(FakeClient, 'k, HCloudServer) rst"
  assumes "has_server (cloud s) i sv"
  shows "\<exists>s1 sv'. detach_managed (fake_client c) what sv s = (Ok sv', s1) \<and> has_server (cloud s1) i sv'
    \<and> sv' = sv\<lparr>srv_NetworkIDs := filter (\<lambda>j. j \<noteq> svs_AppliedNetworkID (Status (obj s))) (srv_NetworkIDs sv)\<rparr>
    \<and> networks (cloud s1) = networks (cloud s) \<and> kube s1 = kube s
    \<and> obj s1 = (obj s)\<lparr>Status := (Status (obj s))\<lparr>svs_AppliedNetworkID := 0\<rparr>\<rparr>"
proof -
  let ?a = "svs_AppliedNetworkID (Status (obj s))"
  let ?sv = "sv\<lparr>srv_NetworkIDs := filter (\<lambda>j. j \<noteq> ?a) (srv_NetworkIDs sv)\<rparr>"
  have h: "has_server (put_server ?sv (cloud s)) i ?sv" by (rule has_server_put[OF assms]) simp_all
  let ?s1 = "s\<lparr>cloud := put_server ?sv (cloud s), obj := (obj s)\<lparr>Status := (Status (obj s))\<lparr>svs_AppliedNetworkID := 0\<rparr>\<rparr>\<rparr>"
  have "detach_managed (fake_client c) what sv s = (Ok ?sv, ?s1)"
    using detach_network_run[OF assms, of ?a] has_serverD(1)[OF h] has_serverD(2)[OF assms]
    by (simp add: detach_managed_def refresh_server_def bindM_run wrapM_run onCloud_run Let_def)
  moreover have "has_server (cloud ?s1) i ?sv" using h by simp
  moreover have "networks (cloud ?s1) = networks (cloud s)" by (simp add: put_in_def)
  ultimately show ?thesis by (intro exI[of _ ?s1] exI[of _ ?sv]) simp
qed

lemma attach_run:
  fixes s :: "(FakeClient, 'k, HCloudServer) rst"
  assumes "has_server (cloud s) i sv" and "map_of (networks (cloud s)) (nws_NetworkID (Status network)) \<noteq> None"
    and "nws_NetworkID (Status network) \<notin> set (srv_NetworkIDs sv)"
  shows "\<exists>s2 sv'. attach_network L (fake_client c) network migrated sv s = (Ok (True, sv'), s2)
    \<and> has_server (cloud s2) i sv' \<and> sv' = sv\<lparr>srv_NetworkIDs := sort (srv_NetworkIDs sv @ [nws_NetworkID (Status network)])\<rparr>
    \<and> kube s2 = kube s \<and> obj s2 = (obj s)\<lparr>Status := Status (obj s2)\<rparr> \<and> svs_AppliedNetworkID (Status (obj s2)) = nws_NetworkID (Status network)"
proof -
  let ?sv = "sv\<lparr>srv_NetworkIDs := sort (srv_NetworkIDs sv @ [nws_NetworkID (Status network)])\<rparr>"
  have h: "has_server (put_server ?sv (cloud s)) i ?sv" by (rule has_server_put[OF assms(1)]) simp_all
  then show ?thesis
    using attach_network_run[OF assms] has_serverD(1)[OF h] has_serverD(2)[OF assms(1)]
    by (cases migrated) (simp_all add: attach_network_def refresh_server_def bindM_run wrapM_run onCloud_run)
qed

lemma record_run:
  "\<exists>s2. record_network L network migrated s = (Ok (), s2) \<and> cloud s2 = cloud s \<and> kube s2 = kube s
    \<and> obj s2 = (obj s)\<lparr>Status := Status (obj s2)\<rparr> \<and> svs_AppliedNetworkID (Status (obj s2)) = nws_NetworkID (Status network)"
  by (simp add: record_network_def Let_def bindM_run)

lemma attachment_run:
  fixes s :: "(FakeClient, 'k, HCloudServer) rst"
  assumes "has_server (cloud s) i sv" and "ref_set (sv_NetworkRef (Spec (obj s))) = Some ref"
    and "KGet (KNetworks K) (cluster_key ref) (kube s) = (Ok network, kube s)"
    and "nws_NetworkID (Status network) = n" and "n \<noteq> 0" and "map_of (networks (cloud s)) n \<noteq> None"
    and "svs_AppliedNetworkID (Status (obj s)) = a"
  shows "\<exists>s1 sv' changed. ensureServerNetworkAttachment L K (fake_client c) sv s = (Ok (changed, sv'), s1)
    \<and> has_server (cloud s1) i sv' \<and> sv' = sv\<lparr>srv_NetworkIDs := srv_NetworkIDs sv'\<rparr>
    \<and> set (srv_NetworkIDs sv') = insert n (set (srv_NetworkIDs sv) - (if a = 0 then {} else {a}))
    \<and> kube s1 = kube s \<and> obj s1 = (obj s)\<lparr>Status := Status (obj s1)\<rparr> \<and> svs_AppliedNetworkID (Status (obj s1)) = n"
proof -
  define managed where "managed \<longleftrightarrow> a \<noteq> 0 \<and> a \<noteq> n"
  obtain s1 sv1 where 1: "(if managed then bindM (detach_managed (fake_client c) ''refresh server after network migration detach'' sv)
        (\<lambda>s. ret (True, s)) else ret (False, sv)) s = (Ok (managed, sv1), s1)"
    "has_server (cloud s1) i sv1" "sv1 = sv\<lparr>srv_NetworkIDs := srv_NetworkIDs sv1\<rparr>"
    "insert n (set (srv_NetworkIDs sv1)) = insert n (set (srv_NetworkIDs sv) - (if a = 0 then {} else {a}))"
    "networks (cloud s1) = networks (cloud s)" "kube s1 = kube s" "\<exists>u. obj s1 = (obj s)\<lparr>Status := u\<rparr>"
  proof (cases managed)
    case True
    obtain s1 sv' where d: "detach_managed (fake_client c) ''refresh server after network migration detach'' sv s = (Ok sv', s1)"
      "has_server (cloud s1) i sv'" "sv' = sv\<lparr>srv_NetworkIDs := filter (\<lambda>j. j \<noteq> a) (srv_NetworkIDs sv)\<rparr>"
      "networks (cloud s1) = networks (cloud s)" "kube s1 = kube s" "\<exists>u. obj s1 = (obj s)\<lparr>Status := u\<rparr>"
      using detach_managed_run[OF assms(1), of c "''refresh server after network migration detach''"] assms(7) by blast
    show thesis
      by (rule that[of sv' s1]) (use True d in \<open>auto simp: managed_def\<close>)
  next
    case False
    then show thesis
      using assms(1) by (intro that[of sv s]) (auto simp: managed_def intro: exI[of _ "Status (obj s)"])
  qed
  obtain u1 where u1: "obj s1 = (obj s)\<lparr>Status := u1\<rparr>" using 1(7) by blast
  have run: "ensureServerNetworkAttachment L K (fake_client c) sv s =
      (if \<not> containsInt64 (srv_NetworkIDs sv1) n then attach_network L (fake_client c) network managed sv1
       else bindM (record_network L network managed) (\<lambda>_. ret (False, sv1))) s1"
    using assms(2-7) 1(1) by (simp add: ensureServerNetworkAttachment_def bindM_run wrapM_run onKube_run Let_def managed_def)
  have contains: "containsInt64 (srv_NetworkIDs sv1) n \<longleftrightarrow> n \<in> set (srv_NetworkIDs sv1)"
    by (auto simp: containsInt64_def list_ex_iff)
  show ?thesis
  proof (cases "n \<in> set (srv_NetworkIDs sv1)")
    case True
    then have ins: "set (srv_NetworkIDs sv1) = insert n (set (srv_NetworkIDs sv) - (if a = 0 then {} else {a}))"
      using 1(4) by (simp add: insert_absorb)
    obtain s2 where s2: "record_network L network managed s1 = (Ok (), s2)" "cloud s2 = cloud s1" "kube s2 = kube s1"
      "obj s2 = (obj s1)\<lparr>Status := Status (obj s2)\<rparr>" "svs_AppliedNetworkID (Status (obj s2)) = n"
      using record_run[of L network managed s1] assms(4) by blast
    have "ensureServerNetworkAttachment L K (fake_client c) sv s = (Ok (False, sv1), s2)"
      using run True contains s2(1) by simp
    moreover have "obj s2 = (obj s)\<lparr>Status := Status (obj s2)\<rparr>" by (subst s2(4)) (simp add: u1)
    ultimately show ?thesis using 1(2,3,6) ins s2 by metis
  next
    case False
    have "map_of (networks (cloud s1)) (nws_NetworkID (Status network)) \<noteq> None"
      "nws_NetworkID (Status network) \<notin> set (srv_NetworkIDs sv1)" using assms(4,6) 1(5) False by simp_all
    from attach_run[OF 1(2) this, of L c managed] obtain s2 sv' where s2:
      "attach_network L (fake_client c) network managed sv1 s1 = (Ok (True, sv'), s2)" "has_server (cloud s2) i sv'"
      "sv' = sv1\<lparr>srv_NetworkIDs := sort (srv_NetworkIDs sv1 @ [n])\<rparr>" "kube s2 = kube s1"
      "obj s2 = (obj s1)\<lparr>Status := Status (obj s2)\<rparr>" "svs_AppliedNetworkID (Status (obj s2)) = n"
      using assms(4) by blast
    have "ensureServerNetworkAttachment L K (fake_client c) sv s = (Ok (True, sv'), s2)"
      using run False contains s2(1) by simp
    moreover have "obj s2 = (obj s)\<lparr>Status := Status (obj s2)\<rparr>" by (subst s2(5)) (simp add: u1)
    moreover have "set (srv_NetworkIDs sv') = insert n (set (srv_NetworkIDs sv) - (if a = 0 then {} else {a}))"
      using s2(3) 1(4) by simp
    moreover have "sv' = sv\<lparr>srv_NetworkIDs := srv_NetworkIDs sv'\<rparr>"
      using s2(3) by (simp, subst 1(3)) simp
    ultimately show ?thesis using 1(6) s2 by metis
  qed
qed

text \<open>What follows the attachment keeps the recorded network and the cloud.\<close>

definition status_step :: "('c, 'k, HCloudServer) rst \<Rightarrow> ('c, 'k, HCloudServer) rst \<Rightarrow> bool" where
  "status_step s s2 \<longleftrightarrow> cloud s2 = cloud s \<and> kube s2 = kube s \<and> obj s2 = (obj s)\<lparr>Status := Status (obj s2)\<rparr>
     \<and> svs_AppliedNetworkID (Status (obj s2)) = svs_AppliedNetworkID (Status (obj s))"

lemma status_steps:
  "status_step s s" "status_step s s1 \<Longrightarrow> status_step s (snd (setCondition L t st r m s1))"
  "status_step s s1 \<Longrightarrow> status_step s (snd (applyServerStatus (Some sv) s1))"
  "status_step s s1 \<Longrightarrow> status_step s (snd (updStatus (\<lambda>u. u\<lparr>svs_AppliedServerType := ty\<rparr>) s1))"
  "status_step s s1 \<Longrightarrow> status_step s (snd (updStatus (\<lambda>u. u\<lparr>svs_AppliedPlacementGroupID := g\<rparr>) s1))"
proof -
  show "status_step s s" by (simp add: status_step_def)
  assume s1: "status_step s s1"
  then have "obj s1 = (obj s)\<lparr>Status := Status (obj s1)\<rparr>" by (simp add: status_step_def)
  then have eq: "(obj s1)\<lparr>Status := u\<rparr> = (obj s)\<lparr>Status := u\<rparr>" for u by (cases "obj s1"; cases "obj s") simp
  show "status_step s (snd (setCondition L t st r m s1))"
    "status_step s (snd (applyServerStatus (Some sv) s1))"
    "status_step s (snd (updStatus (\<lambda>u. u\<lparr>svs_AppliedServerType := ty\<rparr>) s1))"
    "status_step s (snd (updStatus (\<lambda>u. u\<lparr>svs_AppliedPlacementGroupID := g\<rparr>) s1))"
    using s1 by (simp_all add: status_step_def applyServerStatus_def eq)
qed

lemma status_trans: "status_step s s1 \<Longrightarrow> status_step s1 s2 \<Longrightarrow> status_step s s2"
  unfolding status_step_def by (cases "obj s"; cases "obj s1"; cases "obj s2") auto

lemma sync_run: "\<exists>s2. syncStatus L K sv s = updateServerStatusWithRetry L K s2 \<and> status_step s s2"
proof -
  let ?W = "updateServerStatusWithRetry L K"
  define s1 where "s1 = snd (applyServerStatus (Some sv) s)"
  define s3 where "s3 = snd (updStatus (\<lambda>u. u\<lparr>svs_AppliedServerType := sv_ServerType (Spec (obj s1))\<rparr>) s1)"
  have s1: "applyServerStatus (Some sv) s = (Ok (), s1)" by (simp add: s1_def applyServerStatus_def)
  have steps: "status_step s s1" "status_step s s3"
    unfolding s1_def s3_def by (intro status_steps)+
  let ?set = "\<lambda>st r m t. snd (setCondition L conditionTypeReady st r m t)"
  have run: "syncStatus L K sv s = (let desired = sv_ServerType (Spec (obj s1)) in
      if srv_ServerType sv = desired \<and> srv_State sv = ''running'' then
        if hasNetworkLifecycleReadyReason L (obj s3) then ?W s3
        else ?W (?set ConditionTrue ''ServerRunning'' ''Hetzner server is running at desired type'' s3)
      else if srv_State sv = ''running'' \<and> srv_ServerType sv \<noteq> '''' \<and> srv_ServerType sv \<noteq> desired
      then ?W (?set ConditionFalse ''ResizePending'' ''Server is running but type does not match spec'' s1)
      else ?W (?set ConditionFalse ''ServerNotReady'' (''Hetzner server state is '' @ fmt_q (srv_State sv)) s1))"
    by (simp add: syncStatus_def bindM_run[of "applyServerStatus (Some sv)"] s1 s3_def Let_def
        del: setCondition_def)
  show ?thesis
    unfolding run Let_def using steps status_steps(2) by (metis (full_types))
qed

text \<open>Writing the status after such steps succeeds and stores the recorded network.\<close>

lemma status_written:
  assumes "retry_law L" and "api_law nf (IsConflict L) store (KServers K)"
    and "store (kube s) (key_of (obj s)) = Some y" and "status_step s s2"
  shows "\<exists>s3. updateServerStatusWithRetry L K s2 = (Ok (), s3) \<and> cloud s3 = cloud s
    \<and> (\<exists>z. store (kube s3) (key_of (obj s)) = Some z
        \<and> svs_AppliedNetworkID (Status z) = svs_AppliedNetworkID (Status (obj s)))"
proof -
  have obj: "obj s2 = (obj s)\<lparr>Status := Status (obj s2)\<rparr>" and rest: "cloud s2 = cloud s" "kube s2 = kube s"
    "svs_AppliedNetworkID (Status (obj s2)) = svs_AppliedNetworkID (Status (obj s))"
    using assms(4) by (simp_all add: status_step_def)
  have key: "key_of (obj s2) = key_of (obj s)" by (subst obj) simp
  obtain k' rv where w: "updateServerStatusWithRetry L K s2 = (Ok (), s2\<lparr>kube := k'\<rparr>)"
    "store k' = (store (kube s2))(key_of (obj s2) \<mapsto> y\<lparr>Status := Status (obj s2), ResourceVersion := rv\<rparr>)"
    using persist_status_ok[OF assms(1,2)] assms(3) rest key unfolding updateServerStatusWithRetry_def by metis
  then show ?thesis using rest key by simp
qed

text \<open>C22: A reconcile of a server at its wanted type attaches it to the referenced network, removes it
  from the network the operator attached it to before, leaves every other attachment alone, and
  stores the identifier of the network.\<close>

theorem server_network_converges:
  assumes "retry_law L" and "api_law nf (IsConflict L) store (KServers K)"
    and "store (kube s) (key_of (obj s)) = Some y"
    and "has_server (cloud s) (svs_ServerID (Status (obj s))) sv"
    and "srv_ServerType sv = sv_ServerType (Spec (obj s))" and "srv_State sv = ''running''"
    and "ref_set (sv_NetworkRef (Spec (obj s))) = Some ref" and "ref_set (sv_PlacementGroupRef (Spec (obj s))) = None"
    and "KGet (KNetworks K) (cluster_key ref) (kube s) = (Ok network, kube s)"
    and "nws_NetworkID (Status network) = n" and "n \<noteq> 0" and "map_of (networks (cloud s)) n \<noteq> None"
    and "svs_AppliedNetworkID (Status (obj s)) = a"
  shows "\<exists>r s' sv' z. server_Reconcile L K (fake_client c) s = (Ok r, s')
    \<and> map_of (servers (cloud s')) (svs_ServerID (Status (obj s))) = Some sv'
    \<and> sv' = sv\<lparr>srv_NetworkIDs := srv_NetworkIDs sv'\<rparr>
    \<and> set (srv_NetworkIDs sv') = insert n (set (srv_NetworkIDs sv) - (if a = 0 then {} else {a}))
    \<and> store (kube s') (key_of (obj s)) = Some z \<and> svs_AppliedNetworkID (Status z) = n"
proof -
  let ?i = "svs_ServerID (Status (obj s))"
  obtain s1 sv' changed where ens: "ensureServerNetworkAttachment L K (fake_client c) sv s = (Ok (changed, sv'), s1)"
    "has_server (cloud s1) ?i sv'" "sv' = sv\<lparr>srv_NetworkIDs := srv_NetworkIDs sv'\<rparr>"
    "set (srv_NetworkIDs sv') = insert n (set (srv_NetworkIDs sv) - (if a = 0 then {} else {a}))"
    "kube s1 = kube s" "obj s1 = (obj s)\<lparr>Status := Status (obj s1)\<rparr>" "svs_AppliedNetworkID (Status (obj s1)) = n"
    using attachment_run[OF assms(4,7,9-13), of L c] by blast
  have key: "key_of (obj s1) = key_of (obj s)" and spec: "Spec (obj s1) = Spec (obj s)" by (subst ens(6), simp)+
  have st: "store (kube s1) (key_of (obj s1)) = Some y" using assms(3) ens(5) key by simp
  have found: "reconcileHCloudServer L K (fake_client c) s = reconcileExistingServer L K (fake_client c) sv s"
    using server_found[OF assms(4), where x = "obj s" and u = "Status (obj s)"] by simp
  obtain s2 d where tail: "reconcileHCloudServer L K (fake_client c) s = bindM (updateServerStatusWithRetry L K) (\<lambda>_. ret d) s2"
    "status_step s1 s2"
  proof (cases changed)
    case True
    let ?s2 = "snd (applyServerStatus (Some sv') s1)"
    have "reconcileHCloudServer L K (fake_client c) s = bindM (updateServerStatusWithRetry L K) (\<lambda>_. ret resizeRequeueDelay) ?s2"
      using found ens(1) True assms(5,6)
      by (simp add: reconcileExistingServer_def bindM_run Let_def applyServerStatus_def)
    then show thesis using that status_steps by blast
  next
    case False
    let ?s2 = "snd (updStatus (\<lambda>u. u\<lparr>svs_AppliedPlacementGroupID := srv_PlacementGroupID sv'\<rparr>) s1)"
    obtain s3 where s3: "syncStatus L K sv' ?s2 = updateServerStatusWithRetry L K s3" "status_step ?s2 s3"
      using sync_run by blast
    have "reconcileHCloudServer L K (fake_client c) s = bindM (syncStatus L K sv') (\<lambda>_. ret 0) ?s2"
      using found ens(1) False assms(5,6,8) spec
      by (simp add: reconcileExistingServer_def bindM_run Let_def syncPlacementGroupStatus_def)
    moreover have "status_step s1 s3" using status_trans[OF _ s3(2)] status_steps(1,5) by blast
    ultimately show thesis using that s3(1) by (simp add: bindM_run)
  qed
  obtain s3 where w: "updateServerStatusWithRetry L K s2 = (Ok (), s3)" "cloud s3 = cloud s1"
    "\<exists>z. store (kube s3) (key_of (obj s1)) = Some z \<and> svs_AppliedNetworkID (Status z) = n"
    using status_written[OF assms(1,2) st tail(2)] ens(7) by auto
  have "\<exists>r. server_Reconcile L K (fake_client c) s = (Ok r, s3)"
    using tail(1) w(1) by (simp add: server_Reconcile_def bindM_run)
  then show ?thesis using w(2,3) key ens(3,4) has_serverD(4)[OF ens(2)] by metis
qed

text \<open>A server with a reference to a network that has identifier 1, attached to a foreign one, 5, and
  to one the operator attached it to before, 6.\<close>

definition attached_info :: ServerInfo where
  "attached_info = (sample_info ''running'' ''cx22'')\<lparr>srv_NetworkIDs := [5, 6]\<rparr>"

definition attached_object :: HCloudServer where
  "attached_object = (known_server ''cx22'')\<lparr>Spec := (Spec (known_server ''cx22''))\<lparr>sv_NetworkRef := Some ''net''\<rparr>,
     Status := (Status (known_server ''cx22''))\<lparr>svs_AppliedNetworkID := 6\<rparr>\<rparr>"

definition attached_network :: HCloudNetwork where
  "attached_network = NewHCloudNetwork\<lparr>Name := ''net'', Status := (Status NewHCloudNetwork)\<lparr>nws_NetworkID := 1\<rparr>\<rparr>"

definition attached_world :: "(FakeClient, apistate, HCloudServer) rst" where
  "attached_world = \<lparr> cloud = (one_server attached_info)\<lparr>networks := [(1, \<lparr> net_ID = 1, net_Name = ''net'', net_IPRange = ''10.0.0.0/16'', net_SubnetZones = [], net_Labels = [], net_ExposeRoutes = False \<rparr>)]\<rparr>,
     kube = no_objects\<lparr>st_Servers := [attached_object], st_Networks := [attached_network]\<rparr>,
     obj = attached_object, events = [], metrics = [] \<rparr>"

lemma attached_world_sel [simp]:
  "obj attached_world = attached_object" "svs_ServerID (Status attached_object) = 1" "key_of attached_object = sample_req"
  "svs_AppliedNetworkID (Status attached_object) = 6" "sv_ServerType (Spec attached_object) = ''cx22''"
  "ref_set (sv_NetworkRef (Spec attached_object)) = Some ''net''" "ref_set (sv_PlacementGroupRef (Spec attached_object)) = None"
  "nws_NetworkID (Status attached_network) = 1" "srv_NetworkIDs attached_info = [5, 6]"
  "srv_ServerType attached_info = ''cx22''" "srv_State attached_info = ''running''"
  by (simp_all add: attached_world_def attached_object_def attached_network_def attached_info_def ref_set_def key_of_def)
    (use known_server_sel(1) in \<open>simp add: key_of_def\<close>)

lemma attached_world_has: "has_server (cloud attached_world) 1 attached_info"
  by (simp add: has_entry_def fake_ready_def fake_wf_def one_server_def attached_info_def sample_info_def
      attached_world_def NewFakeClient_def table_ok_def)

lemma attached_world_kube:
  "mem_find (st_Servers (kube attached_world)) sample_req = Some attached_object"
  "KGet (KNetworks sample_api) (cluster_key ''net'') (kube attached_world) = (Ok attached_network, kube attached_world)"
  "map_of (networks (cloud attached_world)) 1 \<noteq> None"
  using attached_world_sel(3)
  by (simp_all add: attached_world_def mem_client_def mem_find_def key_of_def cluster_key_def attached_network_def NewHCloudNetwork_def sample_req_def)

theorem server_network_converges_witness:
  "\<exists>r s' sv'. server_Reconcile sample_lib sample_api (fake_client []) attached_world = (Ok r, s')
     \<and> map_of (servers (cloud s')) 1 = Some sv' \<and> set (srv_NetworkIDs sv') = {1, 5}"
proof -
  have "has_server (cloud attached_world) (svs_ServerID (Status (obj attached_world))) attached_info"
    using attached_world_has by simp
  then show ?thesis
    using server_network_converges[OF sample_lib_ok(2) sample_laws_lib(1), where s = attached_world and y = attached_object
        and sv = attached_info and ref = "''net''" and network = attached_network and n = 1 and a = 6 and c = "[]"]
      attached_world_kube by fastforce
qed

section \<open>The placement group\<close>

text \<open>A running server outside the placement group its object refers to is never moved, restarted
  or replaced: the cloud stays as it is, and the object is reported not Ready with the reason
  PlacementGroupMismatch.\<close>

theorem placement_mismatch_blocks:
  assumes "lib_ok L" and "api_law nf (IsConflict L) store (KServers K)"
    and "store (kube s) (key_of (obj s)) = Some y"
    and "has_server (cloud s) (svs_ServerID (Status (obj s))) sv"
    and "srv_ServerType sv = sv_ServerType (Spec (obj s))" and "srv_State sv = ''running''"
    and "ref_set (sv_NetworkRef (Spec (obj s))) = None" and "svs_AppliedNetworkID (Status (obj s)) = 0"
    and "ref_set (sv_PlacementGroupRef (Spec (obj s))) = Some ref"
    and "KGet (KPlacementGroups K) (cluster_key ref) (kube s) = (Ok pg, kube s)"
    and "pgs_PlacementGroupID (Status pg) \<notin> {0, srv_PlacementGroupID sv}"
  shows "\<exists>s' z cond. server_Reconcile L K (fake_client c) s = (Ok (after requeueDelay), s') \<and> cloud s' = cloud s
    \<and> store (kube s') (key_of (obj s)) = Some z \<and> svs_AppliedPlacementGroupID (Status z) = srv_PlacementGroupID sv
    \<and> FindStatusCondition L (Conditions (Status z)) ''Ready'' = Some cond
    \<and> cond_Status cond = ''False'' \<and> cond_Reason cond = ''PlacementGroupMismatch''"
proof -
  note laws = lib_okD[OF assms(1)]
  let ?g = "srv_PlacementGroupID sv" and ?e = "pgs_PlacementGroupID (Status pg)"
  define msg where "msg = ''server placement group ID '' @ fmt_d ?g @ '' does not match referenced HCloudPlacementGroup ''
     @ fmt_q ref @ '' (ID '' @ fmt_d ?e @ ''); placement groups are set at create time only''"
  define s2 where "s2 = snd (setCondition L conditionTypeReady ConditionFalse ''PlacementGroupMismatch'' msg
     (snd (updStatus (\<lambda>u. u\<lparr>svs_AppliedPlacementGroupID := ?g\<rparr>) s)))"
  have s2: "cloud s2 = cloud s" "kube s2 = kube s" "key_of (obj s2) = key_of (obj s)"
    "svs_AppliedPlacementGroupID (Status (obj s2)) = ?g"
    "FindStatusCondition L (Conditions (Status (obj s2))) ''Ready'' = Some \<lparr> cond_Type = ''Ready'', cond_Status = ''False'',
       cond_Reason = ''PlacementGroupMismatch'', cond_Message = msg \<rparr>"
    by (simp_all add: s2_def find_set[OF laws(1)])
  obtain k' rv where w: "updateServerStatusWithRetry L K s2 = (Ok (), s2\<lparr>kube := k'\<rparr>)"
    "store k' = (store (kube s2))(key_of (obj s2) \<mapsto> y\<lparr>Status := Status (obj s2), ResourceVersion := rv\<rparr>)"
    using persist_status_ok[OF laws(3) assms(2)] assms(3) s2 unfolding updateServerStatusWithRetry_def by metis
  have "reconcileHCloudServer L K (fake_client c) s = reconcileExistingServer L K (fake_client c) sv s"
    using server_found[OF assms(4), where x = "obj s" and u = "Status (obj s)"] by simp
  also have "\<dots> = (Ok 0, s2\<lparr>kube := k'\<rparr>)"
    using assms(5-11) w(1)
    by (simp add: reconcileExistingServer_def ensureServerNetworkAttachment_def syncPlacementGroupStatus_def
        resolvePlacementGroupID_def bindM_run wrapM_run onKube_run bindM_assoc s2_def msg_def Let_def)
  finally have "server_Reconcile L K (fake_client c) s = (Ok (after requeueDelay), s2\<lparr>kube := k'\<rparr>)"
    using w(1) by (simp add: server_Reconcile_def bindM_run)
  then show ?thesis using w(2) s2 by simp
qed

definition grouped_object :: HCloudServer where
  "grouped_object = (known_server ''cx22'')\<lparr>Spec := (Spec (known_server ''cx22''))\<lparr>sv_PlacementGroupRef := Some ''group''\<rparr>\<rparr>"

definition sample_group :: HCloudPlacementGroup where
  "sample_group = NewHCloudPlacementGroup\<lparr>Name := ''group'', Status := (Status NewHCloudPlacementGroup)\<lparr>pgs_PlacementGroupID := 9\<rparr>\<rparr>"

definition grouped_world :: "(FakeClient, apistate, HCloudServer) rst" where
  "grouped_world = \<lparr> cloud = one_server (sample_info ''running'' ''cx22''),
     kube = no_objects\<lparr>st_Servers := [grouped_object], st_PlacementGroups := [sample_group]\<rparr>,
     obj = grouped_object, events = [], metrics = [] \<rparr>"

lemma grouped_world_sel [simp]:
  "obj grouped_world = grouped_object" "svs_ServerID (Status grouped_object) = 1" "key_of grouped_object = sample_req"
  "svs_AppliedNetworkID (Status grouped_object) = 0" "sv_ServerType (Spec grouped_object) = ''cx22''"
  "ref_set (sv_NetworkRef (Spec grouped_object)) = None" "ref_set (sv_PlacementGroupRef (Spec grouped_object)) = Some ''group''"
  "pgs_PlacementGroupID (Status sample_group) = 9" "cloud grouped_world = one_server (sample_info ''running'' ''cx22'')"
  using known_server_sel(1) by (simp_all add: grouped_world_def grouped_object_def sample_group_def ref_set_def key_of_def)

lemma grouped_world_kube:
  "mem_find (st_Servers (kube grouped_world)) sample_req = Some grouped_object"
  "KGet (KPlacementGroups sample_api) (cluster_key ''group'') (kube grouped_world) = (Ok sample_group, kube grouped_world)"
  using grouped_world_sel(3)
  by (simp_all add: grouped_world_def mem_client_def mem_find_def key_of_def cluster_key_def sample_group_def NewHCloudPlacementGroup_def)

theorem placement_mismatch_blocks_witness:
  "\<exists>s' z. server_Reconcile sample_lib sample_api (fake_client []) grouped_world = (Ok (after requeueDelay), s')
     \<and> cloud s' = one_server (sample_info ''running'' ''cx22'') \<and> mem_find (st_Servers (kube s')) sample_req = Some z"
proof -
  have "has_server (cloud grouped_world) (svs_ServerID (Status (obj grouped_world))) (sample_info ''running'' ''cx22'')" by simp
  then show ?thesis
    using placement_mismatch_blocks[OF sample_lib_ok(1) sample_laws_lib(1), where s = grouped_world and y = grouped_object
        and sv = "sample_info ''running'' ''cx22''" and ref = "''group''" and pg = sample_group and c = "[]"]
      grouped_world_kube by (fastforce simp: sample_info_def)
qed

end
