(* ===== verification/Composition.thy ===== *)
theory Composition
  imports Operator VolumeProps ServerLifecycle
begin

text \<open>
  Controllers that wait for one another: a volume whose object names a server follows the server from
  its creation.
\<close>

section \<open>A new volume\<close>

lemma volume_creation:
  assumes "fake_ready (cloud s)" and "volume_target K s t" and "0 < t" and "vms_VolumeID (Status (obj s)) = 0"
    and "\<And>j v. map_of (volumes (cloud s)) j = Some v \<Longrightarrow> vol_Name v \<noteq> Name (obj s)"
  shows "\<exists>s'. volume_Reconcile L K (fake_client c) s = (Ok (after requeueDelay), s') \<and> kube s' = kube s
    \<and> map_of (volumes (cloud s')) (nextID (cloud s)) = Some (new_volume (volume_opts (obj s) t) (nextID (cloud s)))
    \<and> servers (cloud s') = servers (cloud s)
    \<and> vms_VolumeID (Status (obj s')) = nextID (cloud s) \<and> vms_AttachedServerID (Status (obj s')) = t"
proof -
  let ?x = "obj s" and ?n = "nextID (cloud s)" and ?opts = "volume_opts (obj s) t"
  let ?v = "new_volume ?opts ?n" and ?f = "volumes_update (AList.update ?n (new_volume ?opts ?n)) ((cloud s)\<lparr>nextID := ?n + 1\<rparr>)"
  have wf: "table_ok vol_ID vol_Name (volumes (cloud s)) ?n" and errs: "GetErr (cloud s) = None" "CreateErr (cloud s) = None"
    using assms(1) by (simp_all add: fake_ready_def fake_wf_def)
  have free: "\<not> list_ex (\<lambda>(k, v). vol_Name v = Name ?x) (volumes (cloud s))"
    using wf assms(5) by (auto simp: list_ex_iff table_ok_def)
  have create: "fake_CreateVolume ?opts (cloud s) = (Ok ?v, ?f)"
    using errs free by (simp add: fake_CreateVolume_def fake_create_def volume_opts_def Let_def)
  obtain r where r: "fake_GetVolumeByName c (Name ?x) (cloud s) = (Ok r, cloud s)" "r = None"
    using volume_store.by_name_finds[OF assms(1), of c "Name ?x"] assms(5)
    by (fastforce simp: fake_GetVolumeByName_def split: option.splits)
  have found: "find_or_create (\<lambda>i. onCloud (GetVolume (fake_client c) i)) (\<lambda>n. onCloud (GetVolumeByName (fake_client c) n))
       (\<lambda>opts. onCloud (CreateVolume (fake_client c) opts)) ''volume'' ''create volume'' 0 (Name ?x) ?opts s = (Ok ?v, s\<lparr>cloud := ?f\<rparr>)"
    using r create by (simp add: find_or_create_def find_existing_def bindM_run wrapM_run onCloud_run)
  have v: "vol_Size ?v = vm_Size (Spec ?x)" "vol_ServerID ?v = t" "vol_ID ?v = ?n"
    using assms(3) by (simp_all add: new_volume_def volume_opts_def)
  have "volume_Reconcile L K (fake_client c) s = bindM (reconcileHCloudVolume L (fake_client c) t) (\<lambda>_. ret (after requeueDelay)) s"
    using assms(2) by (auto simp: volume_Reconcile_def volume_target_def Let_def tryM_run onKube_run split: option.splits)
  moreover have "\<exists>s'. reconcileHCloudVolume L (fake_client c) t s = (Ok (), s') \<and> kube s' = kube s \<and> cloud s' = ?f
      \<and> vms_VolumeID (Status (obj s')) = ?n \<and> vms_AttachedServerID (Status (obj s')) = t"
    using found v assms(4) by (simp add: reconcileHCloudVolume_def volume_resize_def volume_attach_def setCondition_def)
  ultimately show ?thesis by (auto simp: update_conv')
qed

section \<open>One run of each controller\<close>

text \<open>What the two controllers rely on.\<close>

definition pair_laws :: "('k \<Rightarrow> NamespacedName \<Rightarrow> HCloudServer option) \<Rightarrow> ('k \<Rightarrow> NamespacedName \<Rightarrow> HCloudVolume option)
    \<Rightarrow> ('c, 'k) Libs \<Rightarrow> 'k kube_api \<Rightarrow> bool" where
  "pair_laws srvs vols Ls K \<longleftrightarrow> lib_ok (LServers Ls) \<and> lib_ok (LVolumes Ls)
     \<and> api_law (IsNotFound (LServers Ls)) (IsConflict (LServers Ls)) srvs (KServers K)
     \<and> api_law (IsNotFound (LVolumes Ls)) (IsConflict (LVolumes Ls)) vols (KVolumes K)
     \<and> only_written_by HCloudServer srvs K \<and> only_written_by HCloudVolume vols K"

text \<open>A live object with its finalizer.\<close>

definition live :: "string \<Rightarrow> ('spec, 'st) kobject \<Rightarrow> bool" where
  "live fin x \<longleftrightarrow> DeletionTimestamp x = None \<and> fin \<in> set (Finalizers x)"

text \<open>What a run must not touch of the in-memory client for the other controller to work.\<close>

definition rest :: "(FakeClient \<Rightarrow> 't) \<Rightarrow> FakeClient \<Rightarrow> 't \<times> goerr option \<times> goerr option \<times> goerr option" where
  "rest tbl f = (tbl f, GetErr f, CreateErr f, DeleteErr f)"

lemma leaves_rest:
  assumes "leaves (rest tbl) st m" "fake_ready (cloud s)"
  shows "fake_ready (cloud (snd (m s)))" "tbl (cloud (snd (m s))) = tbl (cloud s)" "st (kube (snd (m s))) = st (kube s)"
  using assms by (auto simp: leaves_def rest_def fake_ready_def)

lemma rest_kept:
  "same_but_server f g \<Longrightarrow> rest volumes g = rest volumes f"
  "same_but_volume f g \<Longrightarrow> rest servers g = rest servers f"
  by (cases f; cases g; simp add: same_but_server_def same_but_volume_def rest_def)+

lemma server_base_creates:
  fixes s :: "(FakeClient, 'k, HCloudServer) rst" and K :: "'k kube_api"
  assumes laws: "lib_ok L" "api_law (IsNotFound L) (IsConflict L) srvs (KServers K)" "only_written_by HCloudVolume vols K"
    and ready: "fake_ready (cloud s)" and x: "srvs (kube s) req = Some x" "live ''infra.hkc.io/finalizer'' x" "svs_ServerID (Status x) = 0"
      "ref_set (sv_PlacementGroupRef (Spec x)) = None"
    and free: "\<And>j sv. map_of (servers (cloud s)) j = Some sv \<Longrightarrow> srv_Name sv \<noteq> Name x"
  shows "\<exists>s' y. base_Reconcile L (KServers K) recorder (HCloudServerReconciler L K (fake_client c)) req s = (Ok (after requeueDelay), s')
    \<and> map_of (servers (cloud s')) (nextID (cloud s)) = Some (new_server (server_opts x 0) (nextID (cloud s)))
    \<and> srvs (kube s') req = Some y \<and> svs_ServerID (Status y) = nextID (cloud s)
    \<and> fake_ready (cloud s') \<and> volumes (cloud s') = volumes (cloud s) \<and> vols (kube s') = vols (kube s)"
proof -
  have key: "key_of x = req" by (rule api_key[OF laws(2) x(1)])
  let ?s = "s\<lparr>obj := x\<rparr>"
  have wf: "table_ok srv_ID srv_Name (servers (cloud s)) (nextID (cloud s))" using ready by (simp add: fake_ready_def fake_wf_def)
  have "map_of (servers (cloud s)) 0 = None"
    using table_ok_lookup[OF wf, of 0] by (cases "map_of (servers (cloud s)) 0") auto
  then obtain s2 u where s2: "server_Reconcile L K (fake_client c) ?s = (Ok (after requeueDelay), s2)"
      "map_of (servers (cloud s2)) = (map_of (servers (cloud s)))(nextID (cloud s) \<mapsto> new_server (server_opts x 0) (nextID (cloud s)))"
      "map_option Status (srvs (kube s2) req) = Some u" "svs_ServerID (Status (obj s2)) = nextID (cloud s)"
    using server_creation[OF laws(1,2), of ?s x c] ready x free key by auto
  then obtain cur where cur: "srvs (kube s2) req = Some cur" by blast
  have run: "Reconcile (HCloudServerReconciler L K (fake_client c)) (s\<lparr>obj := x\<rparr>) = (Ok (after requeueDelay), s2)" using s2(1) by simp
  obtain s' y where s': "base_Reconcile L (KServers K) recorder (HCloudServerReconciler L K (fake_client c)) req s = (Ok (after requeueDelay), s')"
      "cloud s' = cloud s2" "srvs (kube s') = (srvs (kube s2))(req \<mapsto> y)"
      "y = cur\<lparr>Status := (Status (obj s2))\<lparr>Conditions := Conditions (Status y)\<rparr>, ResourceVersion := ResourceVersion y\<rparr>"
    using server_contract.base_success[OF laws(1,2) x(1) _ _ run cur, of recorder] x(2) by (auto simp: live_def)
  have "svs_ServerID (Status y) = nextID (cloud s)" using s2(4) by (subst s'(4)) simp
  moreover have "leaves (rest volumes) vols (base_Reconcile L (KServers K) recorder (HCloudServerReconciler L K (fake_client c)) req)"
    by (rule server_leaves) (use laws rest_kept in \<open>auto simp: lib_ok_def\<close>)
  ultimately show ?thesis using s' s2(2) leaves_rest[of volumes vols _ s] ready by (metis fun_upd_same snd_conv)
qed

lemma server_read:
  assumes "api_law nf cf srvs (KServers K)" "srvs k \<lparr> nn_Namespace = Namespace v, nn_Name = n \<rparr> = Some x"
  shows "KGet (KServers K) \<lparr> nn_Namespace = Namespace v, nn_Name = n \<rparr> k = (Ok x, k)"
  by (rule api_get[OF assms])

lemma volume_base_waits:
  fixes s :: "(FakeClient, 'k, HCloudVolume) rst" and K :: "'k kube_api"
  assumes laws: "lib_ok L" "api_law (IsNotFound L) (IsConflict L) vols (KVolumes K)" "api_law nf cf srvs (KServers K)" "only_written_by HCloudServer srvs K"
    and ready: "fake_ready (cloud s)" and v: "vols (kube s) req = Some v" "live ''infra.hkc.io/volume-finalizer'' v" "vm_ServerRef (Spec v) = Some n"
    and x: "srvs (kube s) \<lparr> nn_Namespace = Namespace v, nn_Name = n \<rparr> = Some x" "svs_ServerID (Status x) = 0"
  shows "\<exists>s' y. base_Reconcile L (KVolumes K) recorder (HCloudVolumeReconciler L K (fake_client c)) req s = (Ok (after requeueDelay), s')
    \<and> cloud s' = cloud s \<and> srvs (kube s') = srvs (kube s)
    \<and> vols (kube s') req = Some y \<and> (\<exists>cs rv. y = v\<lparr>Status := (Status v)\<lparr>Conditions := cs\<rparr>, ResourceVersion := rv\<rparr>)"
proof -
  obtain s2 where s2: "volume_Reconcile L K (fake_client c) (s\<lparr>obj := v\<rparr>) = (Ok (after requeueDelay), s2)"
      "cloud s2 = cloud s" "kube s2 = kube s" "\<exists>cs. Status (obj s2) = (Status v)\<lparr>Conditions := cs\<rparr>"
    using server_read[OF laws(3) x(1)] v(3) x(2)
    by (simp add: volume_Reconcile_def Let_def tryM_run onKube_run setCondition_def) blast
  have run: "Reconcile (HCloudVolumeReconciler L K (fake_client c)) (s\<lparr>obj := v\<rparr>) = (Ok (after requeueDelay), s2)" using s2(1) by simp
  have cur: "vols (kube s2) req = Some v" using s2(3) v(1) by simp
  obtain s' y where s': "base_Reconcile L (KVolumes K) recorder (HCloudVolumeReconciler L K (fake_client c)) req s = (Ok (after requeueDelay), s')"
      "cloud s' = cloud s2" "vols (kube s') = (vols (kube s2))(req \<mapsto> y)"
      "y = v\<lparr>Status := (Status (obj s2))\<lparr>Conditions := Conditions (Status y)\<rparr>, ResourceVersion := ResourceVersion y\<rparr>"
    using volume_contract.base_success[OF laws(1,2) v(1) _ _ run cur, of recorder] v(2) by (auto simp: live_def)
  have "leaves (rest servers) srvs (base_Reconcile L (KVolumes K) recorder (HCloudVolumeReconciler L K (fake_client c)) req)"
    by (rule volume_leaves) (use laws rest_kept in \<open>auto simp: lib_ok_def\<close>)
  then have "srvs (kube s') = srvs (kube s)" using leaves_rest[of servers srvs _ s] ready s'(1) by (metis snd_conv)
  moreover have "\<exists>cs rv. y = v\<lparr>Status := (Status v)\<lparr>Conditions := cs\<rparr>, ResourceVersion := rv\<rparr>"
  proof -
    obtain cs where "Status (obj s2) = (Status v)\<lparr>Conditions := cs\<rparr>" using s2(4) by blast
    from s'(4)[unfolded this, simplified] show ?thesis by blast
  qed
  ultimately show ?thesis using s' s2 by auto
qed

lemma volume_base_attaches:
  fixes s :: "(FakeClient, 'k, HCloudVolume) rst" and K :: "'k kube_api"
  assumes laws: "lib_ok L" "api_law (IsNotFound L) (IsConflict L) vols (KVolumes K)" "api_law nf cf srvs (KServers K)" "only_written_by HCloudServer srvs K"
    and ready: "fake_ready (cloud s)" and v: "vols (kube s) req = Some v" "live ''infra.hkc.io/volume-finalizer'' v" "vm_ServerRef (Spec v) = Some n"
      "vms_VolumeID (Status v) = 0"
    and x: "srvs (kube s) \<lparr> nn_Namespace = Namespace v, nn_Name = n \<rparr> = Some x" "0 < svs_ServerID (Status x)"
    and free: "\<And>j u. map_of (volumes (cloud s)) j = Some u \<Longrightarrow> vol_Name u \<noteq> Name v"
  shows "\<exists>s' y. base_Reconcile L (KVolumes K) recorder (HCloudVolumeReconciler L K (fake_client c)) req s = (Ok (after requeueDelay), s')
    \<and> map_of (volumes (cloud s')) (nextID (cloud s)) = Some (new_volume (volume_opts v (svs_ServerID (Status x))) (nextID (cloud s)))
    \<and> servers (cloud s') = servers (cloud s) \<and> srvs (kube s') = srvs (kube s)
    \<and> vols (kube s') req = Some y \<and> vms_VolumeID (Status y) = nextID (cloud s) \<and> vms_AttachedServerID (Status y) = svs_ServerID (Status x)"
proof -
  have target: "volume_target K (s\<lparr>obj := v\<rparr>) (svs_ServerID (Status x))"
    using server_read[OF laws(3) x(1)] v(3) x(2) by (simp add: volume_target_def)
  obtain s2 where s2: "volume_Reconcile L K (fake_client c) (s\<lparr>obj := v\<rparr>) = (Ok (after requeueDelay), s2)" "kube s2 = kube s"
      "map_of (volumes (cloud s2)) (nextID (cloud s)) = Some (new_volume (volume_opts v (svs_ServerID (Status x))) (nextID (cloud s)))"
      "vms_VolumeID (Status (obj s2)) = nextID (cloud s)" "vms_AttachedServerID (Status (obj s2)) = svs_ServerID (Status x)"
    using volume_creation[OF _ target x(2), of L c] ready v(4) free by auto
  have run: "Reconcile (HCloudVolumeReconciler L K (fake_client c)) (s\<lparr>obj := v\<rparr>) = (Ok (after requeueDelay), s2)" using s2(1) by simp
  have cur: "vols (kube s2) req = Some v" using s2(2) v(1) by simp
  obtain s' y where s': "base_Reconcile L (KVolumes K) recorder (HCloudVolumeReconciler L K (fake_client c)) req s = (Ok (after requeueDelay), s')"
      "cloud s' = cloud s2" "vols (kube s') = (vols (kube s2))(req \<mapsto> y)"
      "y = v\<lparr>Status := (Status (obj s2))\<lparr>Conditions := Conditions (Status y)\<rparr>, ResourceVersion := ResourceVersion y\<rparr>"
    using volume_contract.base_success[OF laws(1,2) v(1) _ _ run cur, of recorder] v(2) by (auto simp: live_def)
  have "vms_VolumeID (Status y) = nextID (cloud s)" "vms_AttachedServerID (Status y) = svs_ServerID (Status x)"
    using s2(4,5) by (subst s'(4), simp)+
  moreover have "leaves (rest servers) srvs (base_Reconcile L (KVolumes K) recorder (HCloudVolumeReconciler L K (fake_client c)) req)"
    by (rule volume_leaves) (use laws rest_kept in \<open>auto simp: lib_ok_def\<close>)
  ultimately show ?thesis using s' s2(3) leaves_rest[of servers srvs _ s] ready by (metis fun_upd_same snd_conv)
qed

section \<open>The volume follows\<close>

lemma object_sels [simp]:
  "cloud (with_object x w) = cloud w" "kube (with_object x w) = kube w" "cloud (without_object s) = cloud s" "kube (without_object s) = kube s"
  by (simp_all add: with_object_def without_object_def)

text \<open>C4: A volume whose object names a server that does not exist yet is left alone, without an error, until
  the server controller has made the server; its next run creates the volume on that server. Both
  objects then carry the identifiers.\<close>

theorem volume_follows_server:
  assumes laws: "pair_laws srvs vols Ls K" and ready: "fake_ready (cloud w)"
    and x: "srvs (kube w) \<lparr> nn_Namespace = Namespace v, nn_Name = Name x \<rparr> = Some x" "live ''infra.hkc.io/finalizer'' x"
      "svs_ServerID (Status x) = 0" "ref_set (sv_PlacementGroupRef (Spec x)) = None"
    and v: "vols (kube w) req = Some v" "live ''infra.hkc.io/volume-finalizer'' v" "vm_ServerRef (Spec v) = Some (Name x)"
      "vms_VolumeID (Status v) = 0"
    and free: "\<And>j sv. map_of (servers (cloud w)) j = Some sv \<Longrightarrow> srv_Name sv \<noteq> Name x"
      "\<And>j u. map_of (volumes (cloud w)) j = Some u \<Longrightarrow> vol_Name u \<noteq> Name v"
  shows "\<exists>w0 w1 w2 i j y z. volume_base Ls K (fake_client c) ord req w = (Ok (after requeueDelay), w0) \<and> cloud w0 = cloud w
    \<and> server_base Ls K (fake_client c) ord \<lparr> nn_Namespace = Namespace v, nn_Name = Name x \<rparr> w0 = (Ok (after requeueDelay), w1)
    \<and> volumes (cloud w1) = volumes (cloud w)
    \<and> volume_base Ls K (fake_client c) ord req w1 = (Ok (after requeueDelay), w2)
    \<and> map_of (servers (cloud w2)) i = Some (new_server (server_opts x 0) i)
    \<and> map_of (volumes (cloud w2)) j = Some (new_volume (volume_opts v i) j)
    \<and> srvs (kube w2) \<lparr> nn_Namespace = Namespace v, nn_Name = Name x \<rparr> = Some y \<and> svs_ServerID (Status y) = i
    \<and> vols (kube w2) req = Some z \<and> vms_VolumeID (Status z) = j \<and> vms_AttachedServerID (Status z) = i"
proof -
  note l = laws[unfolded pair_laws_def]
  let ?sreq = "\<lparr> nn_Namespace = Namespace v, nn_Name = Name x \<rparr>" and ?i = "nextID (cloud w)"
  let ?VR = "base_Reconcile (LVolumes Ls) (KVolumes K) True (HCloudVolumeReconciler (LVolumes Ls) K (fake_client c)) req"
  let ?SR = "base_Reconcile (LServers Ls) (KServers K) True (HCloudServerReconciler (LServers Ls) K (fake_client c)) ?sreq"
  obtain s0 z0 cs rv where 0: "?VR (with_object NewHCloudVolume w) = (Ok (after requeueDelay), s0)" "cloud s0 = cloud w" "srvs (kube s0) = srvs (kube w)"
      "vols (kube s0) req = Some z0" "z0 = v\<lparr>Status := (Status v)\<lparr>Conditions := cs\<rparr>, ResourceVersion := rv\<rparr>"
    using volume_base_waits[of "LVolumes Ls" vols K "IsNotFound (LServers Ls)" "IsConflict (LServers Ls)" srvs "with_object NewHCloudVolume w" req v "Name x" x True c] l ready x v by auto
  let ?w0 = "without_object s0"
  obtain s1 y where 1: "?SR (with_object NewHCloudServer ?w0) = (Ok (after requeueDelay), s1)"
      "map_of (servers (cloud s1)) ?i = Some (new_server (server_opts x 0) ?i)" "srvs (kube s1) ?sreq = Some y" "svs_ServerID (Status y) = ?i"
      "fake_ready (cloud s1)" "volumes (cloud s1) = volumes (cloud w)" "vols (kube s1) = vols (kube s0)"
    using server_base_creates[of "LServers Ls" srvs K vols "with_object NewHCloudServer ?w0" ?sreq x True c] l ready x free(1) 0(2,3) by auto
  let ?w1 = "without_object s1"
  have pos: "0 < ?i" using ready by (simp add: fake_ready_def fake_wf_def table_ok_def)
  have z0: "live ''infra.hkc.io/volume-finalizer'' z0" "vm_ServerRef (Spec z0) = Some (Name x)" "vms_VolumeID (Status z0) = 0"
      "Namespace z0 = Namespace v" "Name z0 = Name v" "Spec z0 = Spec v"
    using v 0(5) by (simp_all add: live_def)
  obtain s2 z where 2: "?VR (with_object NewHCloudVolume ?w1) = (Ok (after requeueDelay), s2)"
      "map_of (volumes (cloud s2)) (nextID (cloud s1)) = Some (new_volume (volume_opts z0 (svs_ServerID (Status y))) (nextID (cloud s1)))"
      "servers (cloud s2) = servers (cloud s1)" "srvs (kube s2) = srvs (kube s1)"
      "vols (kube s2) req = Some z" "vms_VolumeID (Status z) = nextID (cloud s1)" "vms_AttachedServerID (Status z) = svs_ServerID (Status y)"
    using volume_base_attaches[of "LVolumes Ls" vols K "IsNotFound (LServers Ls)" "IsConflict (LServers Ls)" srvs "with_object NewHCloudVolume ?w1" req z0 "Name x" y True c]
      l 1 0(4) z0 pos free(2) by auto
  have opts: "volume_opts z0 t = volume_opts v t" for t by (simp add: volume_opts_def z0)
  have "visit NewHCloudVolume ?VR w = (Ok (after requeueDelay), ?w0)" by (simp add: visit_def 0(1))
  moreover have "visit NewHCloudServer ?SR ?w0 = (Ok (after requeueDelay), ?w1)" by (simp add: visit_def 1(1))
  moreover have "visit NewHCloudVolume ?VR ?w1 = (Ok (after requeueDelay), without_object s2)" by (simp add: visit_def 2(1))
  moreover have "map_of (volumes (cloud s2)) (nextID (cloud s1)) = Some (new_volume (volume_opts v ?i) (nextID (cloud s1)))"
    using 2(2) 1(4) by (simp add: opts)
  ultimately show ?thesis
    unfolding volume_base_def server_base_def using 0(2) 1(2-4,6) 2(3-7) by auto
qed

definition waiting_volume :: HCloudVolume where
  "waiting_volume = NewHCloudVolume\<lparr>Name := ''data'', ResourceVersion := ''3'', Finalizers := [''infra.hkc.io/volume-finalizer''],
     Spec := (Spec NewHCloudVolume)\<lparr>vm_Size := 20, vm_ServerRef := Some ''web''\<rparr>\<rparr>"

definition waiting_start :: "(FakeClient, apistate) world" where
  "waiting_start = \<lparr> cloud = NewFakeClient, kube = no_objects\<lparr>st_Servers := [sample_server], st_Volumes := [waiting_volume]\<rparr>,
     obj = (), events = [], metrics = [] \<rparr>"

lemma sample_written_volumes: "only_written_by HCloudVolume (\<lambda>k. mem_find (st_Volumes k)) sample_api"
  by (simp add: only_written_by_def reads_leave_def writes_leave_def mem_get_same mem_list_same mem_update_other mem_status_other)

theorem volume_follows_server_witness:
  "\<exists>w0 w1 w2 i j. volume_base sample_libs sample_api (fake_client []) \<lparr> LB_order = ([], []), FW_order = ([], []) \<rparr> (cluster_key ''data'') waiting_start = (Ok (after requeueDelay), w0)
    \<and> server_base sample_libs sample_api (fake_client []) \<lparr> LB_order = ([], []), FW_order = ([], []) \<rparr> sample_req w0 = (Ok (after requeueDelay), w1)
    \<and> volume_base sample_libs sample_api (fake_client []) \<lparr> LB_order = ([], []), FW_order = ([], []) \<rparr> (cluster_key ''data'') w1 = (Ok (after requeueDelay), w2)
    \<and> map_of (servers (cloud w2)) i = Some (new_server (server_opts sample_server 0) i)
    \<and> map_of (volumes (cloud w2)) j = Some (new_volume (volume_opts waiting_volume i) j)"
proof -
  have "pair_laws (\<lambda>k. mem_find (st_Servers k)) (\<lambda>k. mem_find (st_Volumes k)) sample_libs sample_api"
    by (simp only: pair_laws_def sample_libs_def Libs.simps sample_lib_ok sample_laws_lib sample_written sample_written_volumes simp_thms)
  moreover have "fake_ready (cloud waiting_start)" "servers (cloud waiting_start) = []" "volumes (cloud waiting_start) = []"
    by (simp_all add: waiting_start_def fake_ready_def fake_wf_New) (simp_all add: NewFakeClient_def)
  moreover have "mem_find (st_Servers (kube waiting_start)) \<lparr> nn_Namespace = Namespace waiting_volume, nn_Name = Name sample_server \<rparr> = Some sample_server"
      "live ''infra.hkc.io/finalizer'' sample_server" "svs_ServerID (Status sample_server) = 0" "ref_set (sv_PlacementGroupRef (Spec sample_server)) = None"
    by (simp_all add: waiting_start_def waiting_volume_def sample_defs NewHCloudVolume_def live_def ref_set_def)
  moreover have "mem_find (st_Volumes (kube waiting_start)) (cluster_key ''data'') = Some waiting_volume"
      "live ''infra.hkc.io/volume-finalizer'' waiting_volume" "vm_ServerRef (Spec waiting_volume) = Some (Name sample_server)" "vms_VolumeID (Status waiting_volume) = 0"
    by (simp_all add: waiting_start_def waiting_volume_def sample_defs NewHCloudVolume_def live_def)
  moreover have "\<lparr> nn_Namespace = Namespace waiting_volume, nn_Name = Name sample_server \<rparr> = sample_req"
    by (simp add: waiting_volume_def sample_defs NewHCloudVolume_def)
  ultimately show ?thesis
    using volume_follows_server[of "\<lambda>k. mem_find (st_Servers k)" "\<lambda>k. mem_find (st_Volumes k)" sample_libs sample_api waiting_start
        waiting_volume sample_server "cluster_key ''data''" "[]" "\<lparr> LB_order = ([], []), FW_order = ([], []) \<rparr>"] by fastforce
qed

end
