(* ===== verification/Metrics.thy ===== *)
theory Metrics
  imports Complex_Main Instrumented BaseReconciler
begin

text \<open>
  The collectors of \<open>internal/metrics/metrics.go\<close>. The Prometheus client is a parameter: a counter
  is incremented and a histogram observes a value at a list of label values, and both panic when the
  number of values is not the number of labels the collector was declared with. Seconds are exact
  rationals here.
\<close>

section \<open>Collectors\<close>

datatype collector_kind = CounterVec | HistogramVec

record Collector =
  col_Kind :: collector_kind
  col_Name :: string
  col_Help :: string
  col_Labels :: "string list"

definition reconcileTotal :: Collector where
  "reconcileTotal = \<lparr> col_Kind = CounterVec, col_Name = ''hcloud_reconcile_total'',
     col_Help = ''Total number of reconciliations by kind and result'', col_Labels = [''kind'', ''result''] \<rparr>"

definition reconcileDuration :: Collector where
  "reconcileDuration = \<lparr> col_Kind = HistogramVec, col_Name = ''hcloud_reconcile_duration_seconds'',
     col_Help = ''Reconciliation duration in seconds by kind'', col_Labels = [''kind''] \<rparr>"

definition apiRequestsTotal :: Collector where
  "apiRequestsTotal = \<lparr> col_Kind = CounterVec, col_Name = ''hcloud_api_requests_total'',
     col_Help = ''Total number of HCloud API requests by operation and result'', col_Labels = [''operation'', ''result''] \<rparr>"

definition apiRequestDuration :: Collector where
  "apiRequestDuration = \<lparr> col_Kind = HistogramVec, col_Name = ''hcloud_api_request_duration_seconds'',
     col_Help = ''HCloud API request duration in seconds by operation'', col_Labels = [''operation''] \<rparr>"

record 'p Prometheus =
  Inc :: "Collector \<Rightarrow> string list \<Rightarrow> ('p, unit) prog"
  Observe :: "Collector \<Rightarrow> string list \<Rightarrow> rat \<Rightarrow> ('p, unit) prog"

text \<open>\<open>Duration.Seconds\<close> of a duration in nanoseconds.\<close>

definition Seconds :: "int \<Rightarrow> rat" where
  "Seconds d = of_int d / 10 ^ 9"

definition metrics_RecordReconcile :: "'p Prometheus \<Rightarrow> string \<Rightarrow> string \<Rightarrow> int \<Rightarrow> ('p, unit) prog" where
  "metrics_RecordReconcile P kind result duration =
     bindM (Inc P reconcileTotal [kind, result]) (\<lambda>_. Observe P reconcileDuration [kind] (Seconds duration))"

definition metrics_RecordAPI :: "'p Prometheus \<Rightarrow> string \<Rightarrow> string \<Rightarrow> int \<Rightarrow> ('p, unit) prog" where
  "metrics_RecordAPI P operation result duration =
     bindM (Inc P apiRequestsTotal [operation, result]) (\<lambda>_. Observe P apiRequestDuration [operation] (Seconds duration))"

text \<open>The accessors of the tests.\<close>

definition APIRequestsCounter :: Collector where
  "APIRequestsCounter = apiRequestsTotal"

definition APIRequestDurationHistogram :: Collector where
  "APIRequestDurationHistogram = apiRequestDuration"

section \<open>What the collectors show\<close>

text \<open>What the Prometheus client documents: a call with as many values as labels adds one to the
  number of events (increments or observations) of exactly that collector and those values.\<close>

definition prometheus_law :: "('p \<Rightarrow> Collector \<Rightarrow> string list \<Rightarrow> nat) \<Rightarrow> 'p Prometheus \<Rightarrow> bool" where
  "prometheus_law seen P \<longleftrightarrow>
     (\<forall>c vs p. length vs = length (col_Labels c) \<longrightarrow>
        (\<exists>p'. Inc P c vs p = (Ok (), p') \<and> seen p' = (seen p)(c := (seen p c)(vs := Suc (seen p c vs)))))
   \<and> (\<forall>c vs x p. length vs = length (col_Labels c) \<longrightarrow>
        (\<exists>p'. Observe P c vs x p = (Ok (), p') \<and> seen p' = (seen p)(c := (seen p c)(vs := Suc (seen p c vs)))))"

lemma collectors_apart: "reconcileTotal \<noteq> reconcileDuration" "apiRequestsTotal \<noteq> apiRequestDuration"
  "reconcileTotal \<noteq> apiRequestsTotal" "reconcileTotal \<noteq> apiRequestDuration"
  "reconcileDuration \<noteq> apiRequestsTotal" "reconcileDuration \<noteq> apiRequestDuration"
  by (simp_all add: reconcileTotal_def reconcileDuration_def apiRequestsTotal_def apiRequestDuration_def)

lemma inc_and_observe:
  assumes "prometheus_law seen P" "length vs = length (col_Labels c)" "length ws = length (col_Labels d)" "c \<noteq> d"
  shows "\<exists>p'. bindM (Inc P c vs) (\<lambda>_. Observe P d ws x) p = (Ok (), p')
    \<and> seen p' = (seen p)(c := (seen p c)(vs := Suc (seen p c vs)), d := (seen p d)(ws := Suc (seen p d ws)))"
proof -
  obtain q where q: "Inc P c vs p = (Ok (), q)" "seen q = (seen p)(c := (seen p c)(vs := Suc (seen p c vs)))"
    using assms unfolding prometheus_law_def by meson
  obtain p' where "Observe P d ws x q = (Ok (), p')" "seen p' = (seen q)(d := (seen q d)(ws := Suc (seen q d ws)))"
    using assms unfolding prometheus_law_def by meson
  then show ?thesis using q assms(4) by (auto simp: bindM_run)
qed

text \<open>Both recordings, replayed from a list of labels and durations: no call panics, every counter grows by
  the entries with its labels, and every histogram by the entries of its kind or operation.\<close>

definition replay :: "(string \<Rightarrow> string \<Rightarrow> int \<Rightarrow> ('p, unit) prog) \<Rightarrow> (string \<times> string \<times> int) list \<Rightarrow> ('p, unit) prog" where
  "replay rec calls = forM calls (\<lambda>(a, r, d). rec a r d)"

lemma replay_counts:
  assumes law: "prometheus_law seen P" and c: "length (col_Labels c) = 2" "length (col_Labels d) = 1" "c \<noteq> d"
    and rec: "rec = (\<lambda>a r x. bindM (Inc P c [a, r]) (\<lambda>_. Observe P d [a] (Seconds x)))"
  shows "\<exists>p'. replay rec calls p = (Ok (), p')
    \<and> (\<forall>a r. seen p' c [a, r] = seen p c [a, r] + length (filter (\<lambda>(a', r', _). a' = a \<and> r' = r) calls))
    \<and> (\<forall>a. seen p' d [a] = seen p d [a] + length (filter (\<lambda>(a', _). a' = a) calls))"
proof (induction calls arbitrary: p)
  case (Cons e calls)
  obtain a r x where e: "e = (a, r, x)" by (cases e)
  obtain q where q: "rec a r x p = (Ok (), q)"
      "seen q = (seen p)(c := (seen p c)([a, r] := Suc (seen p c [a, r])), d := (seen p d)([a] := Suc (seen p d [a])))"
    using inc_and_observe[OF law, of "[a, r]" c "[a]" d "Seconds x" p] c by (auto simp: rec)
  obtain p' where "replay rec calls q = (Ok (), p')"
      "\<And>a r. seen p' c [a, r] = seen q c [a, r] + length (filter (\<lambda>(a', r', _). a' = a \<and> r' = r) calls)"
      "\<And>a. seen p' d [a] = seen q d [a] + length (filter (\<lambda>(a', _). a' = a) calls)"
    using Cons.IH[of q] by blast
  then show ?case using c(3) q by (auto simp: e replay_def)
qed (simp add: replay_def)

text \<open>So the histograms of a program that reports only the two results count what the counters count.\<close>

lemma filter_results:
  "list_all (\<lambda>(_, r, _). r = ''success'' \<or> r = ''error'') calls \<Longrightarrow>
   length (filter (\<lambda>(a', _). a' = a) calls) = length (filter (\<lambda>(a', r', _). a' = a \<and> r' = ''success'') calls)
     + length (filter (\<lambda>(a', r', _). a' = a \<and> r' = ''error'') calls)"
  by (induction calls) auto

lemma histograms_agree_with_counters:
  assumes "prometheus_law seen P" "list_all (\<lambda>(_, r, _). r = ''success'' \<or> r = ''error'') calls"
    and "\<And>vs. seen p reconcileTotal vs = 0" "\<And>vs. seen p reconcileDuration vs = 0"
  shows "\<exists>p'. replay (metrics_RecordReconcile P) calls p = (Ok (), p')
    \<and> (\<forall>kind. seen p' reconcileDuration [kind] = seen p' reconcileTotal [kind, ''success''] + seen p' reconcileTotal [kind, ''error''])
    \<and> (\<forall>kind result. seen p' reconcileTotal [kind, result] = length (filter (\<lambda>(k, r, _). k = kind \<and> r = result) calls))"
  using replay_counts[OF assms(1), of reconcileTotal reconcileDuration "metrics_RecordReconcile P" calls p] assms(3,4)
    filter_results[OF assms(2)] collectors_apart
  by (auto simp: metrics_RecordReconcile_def fun_eq_iff reconcileTotal_def reconcileDuration_def)

end
