(* ===== verification/Generator.thy ===== *)
theory Generator
  imports Prelude
begin

text \<open>
  The generator \<open>hack/generate-instrumented.go\<close>, which reads \<open>internal/hcloud/client.go\<close>
  and writes the metrics wrapper of every method of \<open>Interface\<close>. The parser
  \<open>go/parser\<close> is a parameter that returns the syntax tree; positions are byte offsets plus one,
  as in a file set with this one file. Strings are taken byte by byte.
\<close>

section \<open>The string functions\<close>

text \<open>\<open>strings.Split\<close> for a separator that is not empty: cut at every occurrence from the left.\<close>

fun split_from :: "string \<Rightarrow> string \<Rightarrow> string \<Rightarrow> string list" where
  "split_from sep acc [] = [acc]"
| "split_from sep acc (c # cs) = (if has_prefix sep (c # cs) then acc # split_from sep [] (drop (length sep - 1) cs)
     else split_from sep (acc @ [c]) cs)"

definition strings_Split :: "string \<Rightarrow> string \<Rightarrow> string list" where
  "strings_Split s sep = split_from sep [] s"

definition is_space :: "char \<Rightarrow> bool" where
  "is_space c = (let n = (of_char c :: nat) in n = 32 \<or> (9 \<le> n \<and> n \<le> 13))"

definition strings_TrimSpace :: "string \<Rightarrow> string" where
  "strings_TrimSpace s = rev (dropWhile is_space (rev (dropWhile is_space s)))"

text \<open>\<open>strings.Fields\<close>: the maximal runs of characters that are no space.\<close>

function strings_Fields :: "string \<Rightarrow> string list" where
  "strings_Fields s = (let t = dropWhile is_space s in
     if t = [] then [] else takeWhile (\<lambda>c. \<not> is_space c) t # strings_Fields (dropWhile (\<lambda>c. \<not> is_space c) t))"
  by pat_completeness auto
termination
proof (relation "measure length")
  fix s t :: string assume t: "t = dropWhile is_space s" "t \<noteq> []"
  then have "\<not> is_space (hd t)" using hd_dropWhile by metis
  then have "length (dropWhile (\<lambda>c. \<not> is_space c) t) < length t"
    using t(2) length_dropWhile_le[of "\<lambda>c. \<not> is_space c" "tl t"] by (cases t) auto
  then show "(dropWhile (\<lambda>c. \<not> is_space c) t, s) \<in> measure length"
    using t(1) length_dropWhile_le[of is_space s] by simp
qed simp

declare strings_Fields.simps [simp del]

section \<open>Syntax trees\<close>

text \<open>What the generator reads of \<open>go/ast\<close>. A field list is \<open>None\<close> when the pointer is nil.\<close>

datatype tok = IMPORT | CONST | TYPE_TOK | VAR

datatype ast_Expr = Expr (Pos: int) (End: int) (Node: ast_Node)
  and ast_Node = InterfaceType "ast_Field list" | FuncType "ast_Field list option" "ast_Field list option" | OtherExpr
  and ast_Field = Field (Names: "string list") (Type: ast_Expr)

datatype ast_Spec = TypeSpec string ast_Expr | OtherSpec

datatype ast_Decl = GenDecl tok "ast_Spec list" | OtherDecl

text \<open>The file system as the program sees it: a path is relative to the working directory \<open>dir\<close>,
  and \<open>deny\<close> gives the error with which a path cannot be opened.\<close>

record gen_world =
  dir :: string
  files :: "string \<Rightarrow> string option"
  deny :: "string \<Rightarrow> goerr option"
  stdout :: string

definition os_ReadFile :: "string \<Rightarrow> (gen_world, string) prog" where
  "os_ReadFile path = (\<lambda>w. case deny w (dir w @ path) of Some e \<Rightarrow> (Err e, w)
     | None \<Rightarrow> (case files w (dir w @ path) of Some s \<Rightarrow> (Ok s, w)
       | None \<Rightarrow> (Err (Errorf (''open '' @ path @ '': no such file or directory'')), w)))"

definition os_WriteFile :: "string \<Rightarrow> string \<Rightarrow> (gen_world, unit) prog" where
  "os_WriteFile path s = (\<lambda>w. case deny w (dir w @ path) of Some e \<Rightarrow> (Err e, w)
     | None \<Rightarrow> (Ok (), w\<lparr>files := (files w)(dir w @ path \<mapsto> s)\<rparr>))"

definition fmt_Print :: "string \<Rightarrow> (gen_world, unit) prog" where
  "fmt_Print s = modM (\<lambda>w. w\<lparr>stdout := stdout w @ s\<rparr>)"

text \<open>\<open>if err != nil { panic(err) }\<close>\<close>

definition or_panic :: "('s, 'a) prog \<Rightarrow> ('s, 'a) prog" where
  "or_panic m = tryM m (\<lambda>e. panicM (err_text e)) ret"

section \<open>The pieces of a method\<close>

text \<open>\<open>src[t.Pos()-1 : t.End()-1]\<close>: out of range it panics.\<close>

definition node_text :: "string \<Rightarrow> ast_Expr \<Rightarrow> ('s, string) prog" where
  "node_text src t = (let lo = Pos t - 1; hi = End t - 1 in
     if 0 \<le> lo \<and> lo \<le> hi \<and> hi \<le> int (length src) then ret (take (nat (hi - lo)) (drop (nat lo) src))
     else panicM ''slice bounds out of range'')"

definition fieldListString :: "string \<Rightarrow> ast_Field list option \<Rightarrow> ('s, string) prog" where
  "fieldListString src fl = (case fl of None \<Rightarrow> ret '''' | Some fs \<Rightarrow>
     bindM (foldM fs (\<lambda>parts f. bindM (node_text src (Type f)) (\<lambda>ty.
         ret (parts @ (if Names f = [] then [ty] else map (\<lambda>n. n @ '' '' @ ty) (Names f))))) [])
       (\<lambda>parts. ret (strings_Join parts '', '')))"

definition resultListString :: "string \<Rightarrow> ast_Field list option \<Rightarrow> ('s, string) prog" where
  "resultListString src fl = (case fl of None \<Rightarrow> ret '''' | Some fs \<Rightarrow>
     let go = bindM (foldM fs (\<lambda>parts f. bindM (node_text src (Type f)) (\<lambda>ty. ret (parts @ [ty]))) [])
       (\<lambda>parts. ret (case parts of [p] \<Rightarrow> p | _ \<Rightarrow> ''('' @ strings_Join parts '', '' @ '')'')) in
     case fs of [f] \<Rightarrow> if Names f = [] then bindM (node_text src (Type f)) (\<lambda>ty. if ty = ''error'' then ret ''error'' else go) else go
       | _ \<Rightarrow> go)"

definition callArgNames :: "string \<Rightarrow> string" where
  "callArgNames params = (if params = '''' then '''' else
     strings_Join (concat (map (\<lambda>p. let p = strings_TrimSpace p in if p = '''' then [] else
         let fields = strings_Fields p in if 2 \<le> length fields then [hd fields] else [])
       (strings_Split params '', ''))) '', '')"

section \<open>The generated file\<close>

record gen_method =
  m_name :: string
  m_params :: string
  m_results :: string

text \<open>The methods of every type named \<open>Interface\<close>, embedded interfaces left out.\<close>

definition spec_methods :: "string \<Rightarrow> gen_method list \<Rightarrow> ast_Spec \<Rightarrow> ('s, gen_method list) prog" where
  "spec_methods src methods spec = (case spec of
     TypeSpec name t \<Rightarrow> if name \<noteq> ''Interface'' then ret methods else
       (case Node t of InterfaceType fs \<Rightarrow>
          foldM fs (\<lambda>methods m. case Names m of [] \<Rightarrow> ret methods | n # ns \<Rightarrow>
            (case Node (Type m) of FuncType ps rs \<Rightarrow>
               bindM (fieldListString src ps) (\<lambda>params. bindM (resultListString src rs) (\<lambda>results.
                 ret (methods @ [\<lparr> m_name = n, m_params = params, m_results = results \<rparr>])))
             | _ \<Rightarrow> ret methods)) methods
        | _ \<Rightarrow> ret methods)
   | OtherSpec \<Rightarrow> ret methods)"

definition collect_methods :: "string \<Rightarrow> ast_Decl list \<Rightarrow> ('s, gen_method list) prog" where
  "collect_methods src decls = foldM decls (\<lambda>methods decl. case decl of
      GenDecl TYPE_TOK specs \<Rightarrow> foldM specs (spec_methods src) methods
    | _ \<Rightarrow> ret methods) []"

abbreviation nl :: string where "nl \<equiv> [CHR 0x0A]"
abbreviation tab :: string where "tab \<equiv> [CHR 0x09]"
abbreviation dq :: string where "dq \<equiv> [CHR 0x22]"

definition gen_imports :: string where
  "gen_imports = ''package hcloud'' @ nl @ nl @ ''import ('' @ nl @ tab @ dq @ ''time'' @ dq @ nl @ nl @ tab @ dq
     @ ''github.com/armanfeyzi/hcloud-operator/internal/metrics'' @ dq @ nl @ '')'' @ nl @ nl"

definition gen_header :: string where
  "gen_header = gen_imports @ concat (map (\<lambda>l. l @ nl) [
     ''// instrumentedClient wraps an Interface and records Prometheus metrics for each API call.'',
     ''type instrumentedClient struct {'', tab @ ''inner Interface'', ''}'', '''',
     ''// Instrument returns c wrapped with API call metrics. Passing nil returns nil.'',
     ''// Wrapping an already-instrumented client is a no-op.'',
     ''func Instrument(c Interface) Interface {'',
     tab @ ''if c == nil {'', tab @ tab @ ''return nil'', tab @ ''}'',
     tab @ ''if _, ok := c.(*instrumentedClient); ok {'', tab @ tab @ ''return c'', tab @ ''}'',
     tab @ ''return &instrumentedClient{inner: c}'', ''}'', '''',
     ''func recordAPI(op string, err error, start time.Time) {'',
     tab @ ''result := '' @ dq @ ''success'' @ dq, tab @ ''if err != nil {'',
     tab @ tab @ ''result = '' @ dq @ ''error'' @ dq, tab @ ''}'',
     tab @ ''metrics.RecordAPI(op, result, time.Since(start))'', ''}'', ''''])"

definition gen_wrapper :: "gen_method \<Rightarrow> string" where
  "gen_wrapper m = (let args = callArgNames (m_params m) in
     ''func (c *instrumentedClient) '' @ m_name m @ ''('' @ m_params m @ '') '' @ m_results m @ '' {'' @ nl
     @ tab @ ''start := time.Now()'' @ nl
     @ (if m_results m = ''error''
        then tab @ ''err := c.inner.'' @ m_name m @ ''('' @ args @ '')'' @ nl
          @ tab @ ''recordAPI('' @ fmt_q (m_name m) @ '', err, start)'' @ nl
          @ tab @ ''return err'' @ nl
        else tab @ ''v, err := c.inner.'' @ m_name m @ ''('' @ args @ '')'' @ nl
          @ tab @ ''recordAPI('' @ fmt_q (m_name m) @ '', err, start)'' @ nl
          @ tab @ ''return v, err'' @ nl)
     @ ''}'' @ nl @ nl)"

definition gen_main :: "(string \<Rightarrow> goerr + ast_Decl list) \<Rightarrow> (gen_world, unit) prog" where
  "gen_main parse =
     bindM (or_panic (os_ReadFile ''internal/hcloud/client.go'')) (\<lambda>src.
     bindM (case parse src of Inl e \<Rightarrow> panicM (err_text e) | Inr decls \<Rightarrow> ret decls) (\<lambda>decls.
     bindM (collect_methods src decls) (\<lambda>methods.
     bindM (or_panic (os_WriteFile ''internal/hcloud/instrumented.go'' (gen_header @ concat (map gen_wrapper methods)))) (\<lambda>_.
     fmt_Print (''wrote '' @ fmt_d (int (length methods)) @ '' methods to internal/hcloud/instrumented.go'' @ nl)))))"

section \<open>Splitting what was joined\<close>

lemma split_piece:
  assumes "\<not> strings_Contains p '', ''"
  shows "split_from '', '' acc (p @ '', '' @ rest) = (acc @ p) # split_from '', '' [] rest"
    and "split_from '', '' acc p = [acc @ p]"
  using assms
proof (induction p arbitrary: acc)
  case Nil
  { case 1 show ?case by simp next case 2 show ?case by simp }
next
  case (Cons c p)
  { case 1 then show ?case using Cons.IH(1)[of "acc @ [c]"] by (cases p) auto
  next case 2 then show ?case using Cons.IH(2)[of "acc @ [c]"] by auto }
qed

lemma split_join:
  "ps \<noteq> [] \<Longrightarrow> list_all (\<lambda>p. \<not> strings_Contains p '', '') ps \<Longrightarrow> strings_Split (strings_Join ps '', '') '', '' = ps"
proof (induction ps)
  case (Cons p ps)
  then show ?case using split_piece(1)[of p "[]" "strings_Join ps '', ''"]
    by (cases ps) (simp_all add: strings_Split_def split_piece(2) del: split_from.simps strings_Contains.simps)
qed simp

text \<open>A declared parameter: an identifier and the text of a type without a comma and a space in a row.\<close>

definition plain_param :: "string \<times> string \<Rightarrow> bool" where
  "plain_param p = (case p of (n, ty) \<Rightarrow> n \<noteq> [] \<and> list_all (\<lambda>c. \<not> is_space c \<and> c \<noteq> CHR '','') n
     \<and> ty \<noteq> [] \<and> \<not> is_space (hd ty) \<and> \<not> is_space (last ty) \<and> \<not> strings_Contains ty '', '')"

definition print_param :: "string \<times> string \<Rightarrow> string" where
  "print_param p = fst p @ '' '' @ snd p"

lemma contains_skip:
  "list_all (\<lambda>c. c \<noteq> CHR '','') n \<Longrightarrow> strings_Contains (n @ t) '', '' = strings_Contains t '', ''"
  by (induction n) auto

lemma plain_printed:
  assumes "plain_param p"
  shows "\<not> strings_Contains (print_param p) '', ''" "strings_TrimSpace (print_param p) = print_param p"
    "print_param p \<noteq> []" "\<exists>x xs. strings_Fields (print_param p) = fst p # x # xs"
proof -
  obtain n ty where p: "p = (n, ty)" by force
  have n: "n \<noteq> []" "list_all (\<lambda>c. \<not> is_space c) n" "list_all (\<lambda>c. c \<noteq> CHR '','') n" 
    and ty: "ty \<noteq> []" "\<not> is_space (hd ty)" "\<not> is_space (last ty)" "\<not> strings_Contains ty '', ''"
    using assms by (auto simp: plain_param_def p list_all_iff)
  have sp: "is_space CHR '' ''" by (simp add: is_space_def)
  show "\<not> strings_Contains (print_param p) '', ''"
    using ty contains_skip[OF n(3), of "CHR '' '' # ty"] by (simp add: p print_param_def)
  have h: "\<not> is_space (hd n)" using n by (cases n) auto
  have t: "dropWhile is_space (print_param p) = print_param p"
    using n h by (cases n) (auto simp: p print_param_def)
  have "\<not> is_space (hd (rev (print_param p)))" "rev (print_param p) \<noteq> []"
    using ty by (auto simp: p print_param_def hd_rev)
  then have "dropWhile is_space (rev (print_param p)) = rev (print_param p)"
    by (cases "rev (print_param p)") auto
  then show "strings_TrimSpace (print_param p) = print_param p"
    by (simp add: strings_TrimSpace_def t)
  show "print_param p \<noteq> []" by (simp add: print_param_def)
  have tw: "takeWhile (\<lambda>c. \<not> is_space c) (n @ CHR '' '' # ty) = n" "dropWhile (\<lambda>c. \<not> is_space c) (n @ CHR '' '' # ty) = CHR '' '' # ty"
    using n(2) sp by (simp_all add: list_all_iff takeWhile_append2 dropWhile_append2)
  have "dropWhile is_space (CHR '' '' # ty) = ty" using sp ty by (cases ty) auto
  then have "\<exists>x xs. strings_Fields (CHR '' '' # ty) = x # xs"
    using ty(1) by (simp add: strings_Fields.simps[of "CHR '' '' # ty"] Let_def)
  then show "\<exists>x xs. strings_Fields (print_param p) = fst p # x # xs"
    using t n(1) by (simp add: strings_Fields.simps[of "print_param p"] Let_def) (simp add: p print_param_def tw)
qed

lemma call_names:
  assumes "list_all plain_param ps"
  shows "callArgNames (strings_Join (map print_param ps) '', '') = strings_Join (map fst ps) '', ''"
proof (cases "ps = []")
  case False
  let ?f = "\<lambda>p. let p = strings_TrimSpace p in if p = '''' then [] else
         let fields = strings_Fields p in if 2 \<le> length fields then [hd fields] else []"
  have "strings_Join (map print_param ps) '', '' \<noteq> ''''"
    using False by (cases ps; cases "tl ps") (auto simp: print_param_def)
  moreover have "strings_Split (strings_Join (map print_param ps) '', '') '', '' = map print_param ps"
    using False assms by (intro split_join) (auto simp: list_all_iff plain_printed(1))
  moreover have "?f (print_param p) = [fst p]" if "p \<in> set ps" for p
  proof -
    have pl: "plain_param p" using assms that by (simp add: list_all_iff)
    obtain x xs where "strings_Fields (print_param p) = fst p # x # xs" using plain_printed(4)[OF pl] by blast
    then show ?thesis using plain_printed(2,3)[OF pl] by (simp add: Let_def)
  qed
  then have "map ?f (map print_param ps) = map (\<lambda>p. [fst p]) ps" by simp
  ultimately show ?thesis by (simp only: callArgNames_def if_False) (simp del: map_map)
qed (simp add: callArgNames_def)

section \<open>What is generated\<close>

text \<open>The reference: the methods of \<open>Interface\<close> read off the tree, each with its parameters as
  pairs of a name and the text of its type, and the wrapper that passes exactly the names on.\<close>

definition text_at :: "string \<Rightarrow> ast_Expr \<Rightarrow> string" where
  "text_at src t = take (nat (End t - Pos t)) (drop (nat (Pos t - 1)) src)"

definition in_file :: "string \<Rightarrow> ast_Expr \<Rightarrow> bool" where
  "in_file src t \<longleftrightarrow> 1 \<le> Pos t \<and> Pos t \<le> End t \<and> End t \<le> int (length src) + 1"

fun method_fields :: "ast_Field list \<Rightarrow> (string \<times> ast_Field list option \<times> ast_Field list option) list" where
  "method_fields [] = []"
| "method_fields (Field (n # ns) (Expr a b (FuncType ps rs)) # fs) = (n, ps, rs) # method_fields fs"
| "method_fields (f # fs) = method_fields fs"

fun spec_fields :: "ast_Spec \<Rightarrow> (string \<times> ast_Field list option \<times> ast_Field list option) list" where
  "spec_fields (TypeSpec n (Expr a b (InterfaceType fs))) = (if n = ''Interface'' then method_fields fs else [])"
| "spec_fields s = []"

fun decl_fields :: "ast_Decl \<Rightarrow> (string \<times> ast_Field list option \<times> ast_Field list option) list" where
  "decl_fields (GenDecl TYPE_TOK specs) = concat (map spec_fields specs)"
| "decl_fields d = []"

definition interface_methods :: "ast_Decl list \<Rightarrow> (string \<times> ast_Field list option \<times> ast_Field list option) list" where
  "interface_methods decls = concat (map decl_fields decls)"

definition declared_params :: "string \<Rightarrow> ast_Field list \<Rightarrow> (string \<times> string) list" where
  "declared_params src fs = concat (map (\<lambda>f. map (\<lambda>n. (n, text_at src (Type f))) (Names f)) fs)"

definition declared_results :: "string \<Rightarrow> ast_Field list option \<Rightarrow> string" where
  "declared_results src rs = (case rs of None \<Rightarrow> ''''
     | Some fs \<Rightarrow> (case map (\<lambda>f. text_at src (Type f)) fs of [t] \<Rightarrow> t | ts \<Rightarrow> ''('' @ strings_Join ts '', '' @ '')''))"

definition well_declared :: "string \<Rightarrow> string \<times> ast_Field list option \<times> ast_Field list option \<Rightarrow> bool" where
  "well_declared src m = (case m of (n, ps, rs) \<Rightarrow>
     (case ps of None \<Rightarrow> True | Some fs \<Rightarrow> list_all (\<lambda>f. Names f \<noteq> [] \<and> in_file src (Type f)) fs
        \<and> list_all plain_param (declared_params src fs))
     \<and> (case rs of None \<Rightarrow> True | Some fs \<Rightarrow> list_all (\<lambda>f. in_file src (Type f)) fs))"

definition forwarding :: "string \<Rightarrow> string \<times> ast_Field list option \<times> ast_Field list option \<Rightarrow> string" where
  "forwarding src m = (case m of (n, ps, rs) \<Rightarrow>
     let params = declared_params src (case ps of None \<Rightarrow> [] | Some fs \<Rightarrow> fs); results = declared_results src rs;
       value = (if results = ''error'' then '''' else ''v, '')
     in concat (map (\<lambda>l. l @ nl) [
       ''func (c *instrumentedClient) '' @ n @ ''('' @ strings_Join (map print_param params) '', '' @ '') '' @ results @ '' {'',
       tab @ ''start := time.Now()'',
       tab @ value @ ''err := c.inner.'' @ n @ ''('' @ strings_Join (map fst params) '', '' @ '')'',
       tab @ ''recordAPI('' @ fmt_q n @ '', err, start)'',
       tab @ ''return '' @ value @ ''err'', ''}'', '''']))"

lemma node_text_at: "in_file src t \<Longrightarrow> node_text src t s = (Ok (text_at src t), s)"
  by (auto simp: node_text_def text_at_def in_file_def Let_def)

lemma foldM_appends:
  "(\<And>x b. x \<in> set xs \<Longrightarrow> f b x s = (Ok (b @ h x), s)) \<Longrightarrow> foldM xs f b s = (Ok (b @ concat (map h xs)), s)"
  by (induction xs arbitrary: b) (simp_all add: bindM_run)

lemma params_printed:
  assumes "list_all (\<lambda>f. Names f \<noteq> [] \<and> in_file src (Type f)) fs"
  shows "fieldListString src (Some fs) s = (Ok (strings_Join (map print_param (declared_params src fs)) '', ''), s)"
proof -
  let ?h = "\<lambda>f. map print_param (map (\<lambda>n. (n, text_at src (Type f))) (Names f))"
  have "foldM fs (\<lambda>parts f. bindM (node_text src (Type f)) (\<lambda>ty.
         ret (parts @ (if Names f = [] then [ty] else map (\<lambda>n. n @ '' '' @ ty) (Names f))))) [] s = (Ok ([] @ concat (map ?h fs)), s)"
    by (rule foldM_appends) (use assms in \<open>auto simp: list_all_iff bindM_run node_text_at print_param_def\<close>)
  then show ?thesis
    by (simp add: fieldListString_def bindM_run declared_params_def map_concat comp_def)
qed

lemma results_printed:
  assumes "case rs of None \<Rightarrow> True | Some fs \<Rightarrow> list_all (\<lambda>f. in_file src (Type f)) fs"
  shows "resultListString src rs s = (Ok (declared_results src rs), s)"
proof (cases rs)
  case (Some fs)
  have f: "in_file src (Type f)" if "f \<in> set fs" for f using assms that by (simp add: Some list_all_iff)
  have "foldM fs (\<lambda>parts f. bindM (node_text src (Type f)) (\<lambda>ty. ret (parts @ [ty]))) [] s
      = (Ok ([] @ concat (map (\<lambda>f. [text_at src (Type f)]) fs)), s)"
    by (rule foldM_appends) (simp add: bindM_run node_text_at f)
  moreover have "concat (map (\<lambda>f. [text_at src (Type f)]) fs) = map (\<lambda>f. text_at src (Type f)) fs" by (induction fs) auto
  ultimately show ?thesis using f
    by (cases fs; cases "tl fs") (auto simp: Some resultListString_def declared_results_def Let_def bindM_run node_text_at)
qed (simp add: resultListString_def declared_results_def)

definition generated_method :: "string \<Rightarrow> string \<times> ast_Field list option \<times> ast_Field list option \<Rightarrow> gen_method" where
  "generated_method src m = (case m of (n, ps, rs) \<Rightarrow> \<lparr> m_name = n,
     m_params = strings_Join (map print_param (declared_params src (case ps of None \<Rightarrow> [] | Some fs \<Rightarrow> fs))) '', '',
     m_results = declared_results src rs \<rparr>)"

lemma method_generated:
  assumes "well_declared src (n, ps, rs)"
  shows "bindM (fieldListString src ps) (\<lambda>params. bindM (resultListString src rs) (\<lambda>results.
      ret (methods @ [\<lparr> m_name = n, m_params = params, m_results = results \<rparr>])))
    = ret (methods @ [generated_method src (n, ps, rs)])"
proof (rule ext)
  fix s
  have "fieldListString src ps s = (Ok (m_params (generated_method src (n, ps, rs))), s)"
    using assms params_printed[of src "the ps" s]
    by (cases ps) (simp_all add: well_declared_def generated_method_def fieldListString_def declared_params_def)
  moreover have "resultListString src rs s = (Ok (declared_results src rs), s)"
    using assms by (intro results_printed) (simp add: well_declared_def)
  ultimately show "bindM (fieldListString src ps) (\<lambda>params. bindM (resultListString src rs) (\<lambda>results.
      ret (methods @ [\<lparr> m_name = n, m_params = params, m_results = results \<rparr>]))) s
    = ret (methods @ [generated_method src (n, ps, rs)]) s" by (simp add: bindM_run generated_method_def)
qed

lemma spec_generated:
  assumes "list_all (well_declared src) (spec_fields spec)"
  shows "spec_methods src ms spec s = (Ok (ms @ map (generated_method src) (spec_fields spec)), s)"
proof -
  have fields: "foldM fs (\<lambda>methods m. case Names m of [] \<Rightarrow> ret methods | n # ns \<Rightarrow>
            (case Node (Type m) of FuncType ps rs \<Rightarrow>
               bindM (fieldListString src ps) (\<lambda>params. bindM (resultListString src rs) (\<lambda>results.
                 ret (methods @ [\<lparr> m_name = n, m_params = params, m_results = results \<rparr>])))
             | _ \<Rightarrow> ret methods)) ms s = (Ok (ms @ map (generated_method src) (method_fields fs)), s)"
    if "list_all (well_declared src) (method_fields fs)" for fs
    using that
    by (induction fs arbitrary: ms rule: method_fields.induct) (simp_all add: method_generated split: list.split)
  show ?thesis using assms fields
    by (cases spec rule: spec_fields.cases) (auto simp: spec_methods_def)
qed

lemma methods_collected:
  assumes "list_all (well_declared src) (interface_methods decls)"
  shows "collect_methods src decls s = (Ok (map (generated_method src) (interface_methods decls)), s)"
proof -
  have "foldM decls (\<lambda>methods decl. case decl of GenDecl TYPE_TOK specs \<Rightarrow> foldM specs (spec_methods src) methods | _ \<Rightarrow> ret methods) [] s
      = (Ok ([] @ concat (map (\<lambda>d. map (generated_method src) (decl_fields d)) decls)), s)"
  proof (rule foldM_appends)
    fix d ms assume d: "d \<in> set decls"
    then have ok: "list_all (well_declared src) (decl_fields d)"
      using assms by (auto simp: interface_methods_def list_all_iff)
    show "(case d of GenDecl TYPE_TOK specs \<Rightarrow> foldM specs (spec_methods src) ms | _ \<Rightarrow> ret ms) s
        = (Ok (ms @ map (generated_method src) (decl_fields d)), s)"
    proof (cases d rule: decl_fields.cases)
      case (1 specs)
      have "foldM specs (spec_methods src) ms s = (Ok (ms @ concat (map (\<lambda>x. map (generated_method src) (spec_fields x)) specs)), s)"
        by (rule foldM_appends) (use ok 1 in \<open>auto simp: list_all_iff intro!: spec_generated\<close>)
      then show ?thesis by (simp add: 1 map_concat comp_def)
    qed simp_all
  qed
  then show ?thesis by (simp add: collect_methods_def interface_methods_def map_concat comp_def)
qed

lemma wrapper_forwards:
  assumes "well_declared src m"
  shows "gen_wrapper (generated_method src m) = forwarding src m"
proof -
  obtain n ps rs where m: "m = (n, ps, rs)" by (cases m)
  have "list_all plain_param (declared_params src (case ps of None \<Rightarrow> [] | Some fs \<Rightarrow> fs))"
    using assms by (cases ps) (simp_all add: m well_declared_def declared_params_def)
  from call_names[OF this] show ?thesis
    by (simp add: m gen_wrapper_def generated_method_def forwarding_def Let_def)
qed

section \<open>The written file\<close>

text \<open>C17: Run where the source is, the generator writes the header and for every method of \<open>Interface\<close>, in
  the order of the declaration, a wrapper with the declared signature that passes every parameter on under
  its name, when every parameter has a name and no type has a comma followed by a space.\<close>

theorem generator_forwards_every_parameter:
  assumes "deny w (dir w @ ''internal/hcloud/client.go'') = None" "deny w (dir w @ ''internal/hcloud/instrumented.go'') = None"
    and "files w (dir w @ ''internal/hcloud/client.go'') = Some src" and "parse src = Inr decls"
    and "list_all (well_declared src) (interface_methods decls)"
  shows "gen_main parse w = (Ok (), w\<lparr>
     files := (files w)(dir w @ ''internal/hcloud/instrumented.go'' \<mapsto> gen_header @ concat (map (forwarding src) (interface_methods decls))),
     stdout := stdout w @ ''wrote '' @ fmt_d (int (length (interface_methods decls))) @ '' methods to internal/hcloud/instrumented.go'' @ nl\<rparr>)"
proof -
  let ?ms = "map (generated_method src) (interface_methods decls)"
  have w: "map gen_wrapper ?ms = map (forwarding src) (interface_methods decls)"
    using assms(5) by (simp add: list_all_iff wrapper_forwards)
  have rd: "or_panic (os_ReadFile ''internal/hcloud/client.go'') w = (Ok src, w)"
    using assms(1,3) by (simp add: or_panic_def os_ReadFile_def tryM_run)
  have wr: "or_panic (os_WriteFile ''internal/hcloud/instrumented.go'' body) w
      = (Ok (), w\<lparr>files := (files w)(dir w @ ''internal/hcloud/instrumented.go'' \<mapsto> body)\<rparr>)" for body
    using assms(2) by (simp add: or_panic_def os_WriteFile_def tryM_run)
  have "gen_main parse w = bindM (or_panic (os_WriteFile ''internal/hcloud/instrumented.go'' (gen_header @ concat (map gen_wrapper ?ms)))) (\<lambda>_.
     fmt_Print (''wrote '' @ fmt_d (int (length ?ms)) @ '' methods to internal/hcloud/instrumented.go'' @ nl)) w"
    by (simp only: gen_main_def bindM_run rd methods_collected[OF assms(5)] assms(4) sum.case bindM_ret_left res.case prod.case ret_run)
  also have "\<dots> = (Ok (), w\<lparr>
     files := (files w)(dir w @ ''internal/hcloud/instrumented.go'' \<mapsto> gen_header @ concat (map (forwarding src) (interface_methods decls))),
     stdout := stdout w @ ''wrote '' @ fmt_d (int (length (interface_methods decls))) @ '' methods to internal/hcloud/instrumented.go'' @ nl\<rparr>)"
    by (simp only: w bindM_run wr prod.case res.case fmt_Print_def modM_run length_map) simp
  finally show ?thesis .
qed

definition sample_source :: string where
  "sample_source = ''type Interface interface {'' @ nl
     @ tab @ ''GetServer(ctx context.Context, id int64) (*ServerInfo, error)'' @ nl
     @ tab @ ''ChangePrimaryIPDNSPtr(ctx context.Context, id int64, ip, dnsPtr string) error'' @ nl
     @ ''}'' @ nl"

definition client_tree :: "ast_Decl list" where
  "client_tree = [GenDecl IMPORT [OtherSpec], GenDecl TYPE_TOK [TypeSpec ''Interface'' (Expr 16 171 (InterfaceType [
       Field [''GetServer''] (Expr 38 90 (FuncType (Some [Field [''ctx''] (Expr 43 58 OtherExpr), Field [''id''] (Expr 63 68 OtherExpr)])
          (Some [Field [] (Expr 71 82 OtherExpr), Field [] (Expr 84 89 OtherExpr)]))),
       Field [''ChangePrimaryIPDNSPtr''] (Expr 113 169 (FuncType (Some [Field [''ctx''] (Expr 118 133 OtherExpr), Field [''id''] (Expr 138 143 OtherExpr), Field [''ip'', ''dnsPtr''] (Expr 156 162 OtherExpr)])
          (Some [Field [] (Expr 164 169 OtherExpr)])))]))]]"

definition sample_tree_world :: gen_world where
  "sample_tree_world = \<lparr> dir = [], files = [''internal/hcloud/client.go'' \<mapsto> sample_source], deny = (\<lambda>p. None), stdout = [] \<rparr>"

lemma sample_methods:
  "list_all (well_declared sample_source) (interface_methods client_tree)"
  by (simp add: client_tree_def interface_methods_def well_declared_def in_file_def declared_params_def text_at_def sample_source_def
      plain_param_def is_space_def)

text \<open>The text as it stands in \<open>internal/hcloud/instrumented.go\<close>.\<close>

definition sample_wrappers :: string where
  "sample_wrappers = concat (map (\<lambda>l. l @ nl) [
     ''func (c *instrumentedClient) GetServer(ctx context.Context, id int64) (*ServerInfo, error) {'',
     tab @ ''start := time.Now()'', tab @ ''v, err := c.inner.GetServer(ctx, id)'',
     tab @ ''recordAPI('' @ dq @ ''GetServer'' @ dq @ '', err, start)'', tab @ ''return v, err'', ''}'', '''',
     ''func (c *instrumentedClient) ChangePrimaryIPDNSPtr(ctx context.Context, id int64, ip string, dnsPtr string) error {'',
     tab @ ''start := time.Now()'', tab @ ''err := c.inner.ChangePrimaryIPDNSPtr(ctx, id, ip, dnsPtr)'',
     tab @ ''recordAPI('' @ dq @ ''ChangePrimaryIPDNSPtr'' @ dq @ '', err, start)'', tab @ ''return err'', ''}'', ''''])"

lemma quote_mark: "char_of (34::nat) = CHR 0x22"
  by (simp add: char_of_def bit_0)

lemma sample_forwarding: "concat (map (forwarding sample_source) (interface_methods client_tree)) = sample_wrappers"
  by (simp add: client_tree_def interface_methods_def forwarding_def declared_params_def declared_results_def text_at_def
      sample_source_def print_param_def sample_wrappers_def Let_def fmt_q_def quote_char_def quote_mark)

theorem generator_forwards_every_parameter_witness:
  "files (snd (gen_main (\<lambda>s. Inr client_tree) sample_tree_world)) ''internal/hcloud/instrumented.go''
   = Some (gen_header @ sample_wrappers)"
  by (subst generator_forwards_every_parameter[of sample_tree_world sample_source "\<lambda>s. Inr client_tree" client_tree])
    (simp_all only: sample_methods sample_forwarding, simp_all add: sample_tree_world_def)

section \<open>Where it is run\<close>

text \<open>\<open>go generate\<close> runs the command in the directory of the file with the directive, \<open>internal/hcloud\<close>,
  where the path of the source does not lead to it: the program panics and writes nothing.\<close>

lemma generate_directive_panics:
  assumes "dir w = ''internal/hcloud/''" "files w ''internal/hcloud/internal/hcloud/client.go'' = None"
  shows "\<exists>p. gen_main parse w = (Panic p, w)"
  using assms by (simp add: gen_main_def or_panic_def os_ReadFile_def bindM_run tryM_run split: option.split)

text \<open>The imports it writes lack the package of the first parameter of every method.\<close>

lemma context_not_imported: "\<not> strings_Contains gen_imports (dq @ ''context'' @ dq)"
  by (simp add: gen_imports_def)

end
