(* ===== verification/CopyLaws.thy ===== *)
theory CopyLaws
  imports GoMemory
begin

text \<open>
  Types of Go without cycles, the tree a value of a type stands for in a heap, and what it means that
  a program copies a type deeply. One lemma per statement of \<open>GoMemory\<close>.
\<close>

section \<open>Types and trees\<close>

datatype ty = Basic | StructOf "(string \<times> ty) list" | PointerTo ty | SliceOf ty | StringMap

datatype tree = Leaf val | Absent | Target tree | Elements "tree list" | Table "string \<Rightarrow> string option"
  | Fields "(string \<times> tree) list"

text \<open>The value stands for the tree, and every cell it needs has an address from \<open>lo\<close> up to \<open>hi\<close>.\<close>

inductive repr :: "heap \<Rightarrow> nat \<Rightarrow> nat \<Rightarrow> ty \<Rightarrow> val \<Rightarrow> tree \<Rightarrow> bool" for h lo hi where
  basic: "repr h lo hi Basic v (Leaf v)"
| no_fields: "repr h lo hi (StructOf []) (Struct []) (Fields [])"
| a_field: "repr h lo hi T v t \<Longrightarrow> repr h lo hi (StructOf fs) (Struct vs) (Fields ts)
    \<Longrightarrow> repr h lo hi (StructOf ((n, T) # fs)) (Struct ((n, v) # vs)) (Fields ((n, t) # ts))"
| no_pointer: "repr h lo hi (PointerTo T) NilRef Absent"
| a_pointer: "lo \<le> a \<Longrightarrow> a < hi \<Longrightarrow> cells h a = Some (Boxed v) \<Longrightarrow> repr h lo hi T v t
    \<Longrightarrow> repr h lo hi (PointerTo T) (Pointer a) (Target t)"
| no_slice: "repr h lo hi (SliceOf T) NilRef Absent"
| a_slice: "lo \<le> a \<Longrightarrow> a < hi \<Longrightarrow> cells h a = Some (Array xs) \<Longrightarrow> off + n \<le> length xs
    \<Longrightarrow> list_all2 (repr h lo hi T) (take n (drop off xs)) ts
    \<Longrightarrow> repr h lo hi (SliceOf T) (Slice a off n) (Elements ts)"
| no_map: "repr h lo hi StringMap NilRef Absent"
| a_map: "lo \<le> a \<Longrightarrow> a < hi \<Longrightarrow> cells h a = Some (Entries es) \<Longrightarrow> distinct (map fst es)
    \<Longrightarrow> repr h lo hi StringMap (MapRef a) (Table (map_of es))"

inductive_cases basicE: "repr h lo hi Basic v t"
inductive_cases no_fieldsE: "repr h lo hi (StructOf []) v t"
inductive_cases a_fieldE: "repr h lo hi (StructOf ((n, T) # fs)) v t"
inductive_cases pointerE: "repr h lo hi (PointerTo T) v t"
inductive_cases sliceE: "repr h lo hi (SliceOf T) v t"
inductive_cases stringMapE: "repr h lo hi StringMap v t"

text \<open>A heap that has the same cells in the range stands for the same.\<close>

definition same_cells :: "nat \<Rightarrow> nat \<Rightarrow> heap \<Rightarrow> heap \<Rightarrow> bool" where
  "same_cells lo hi h h' \<longleftrightarrow> (\<forall>a. lo \<le> a \<and> a < hi \<longrightarrow> cells h' a = cells h a)"

lemma same_cells_refl [simp]: "same_cells lo hi h h"
  by (simp add: same_cells_def)

lemma same_cells_trans: "same_cells lo hi h h' \<Longrightarrow> same_cells lo hi' h' h'' \<Longrightarrow> hi \<le> hi' \<Longrightarrow> same_cells lo hi h h''"
  by (auto simp: same_cells_def)

lemma repr_frame:
  assumes "repr h lo hi T v t" "same_cells lo hi h h'" "lo' \<le> lo" "hi \<le> hi'"
  shows "repr h' lo' hi' T v t"
  using assms
proof (induction rule: repr.induct)
  case (a_slice a xs off n T ts)
  then have "list_all2 (repr h' lo' hi' T) (take n (drop off xs)) ts"
    by (auto elim: list_all2_mono)
  with a_slice show ?case by (auto simp: same_cells_def intro!: repr.a_slice)
qed (auto simp: same_cells_def intro: repr.intros)

text \<open>A type without references: its values need no cells.\<close>

fun plain :: "ty \<Rightarrow> bool" where
  "plain Basic = True"
| "plain (StructOf fs) = list_all (\<lambda>(n, T). plain T) fs"
| "plain _ = False"

lemma repr_plain:
  assumes "repr h lo hi T v t" "plain T"
  shows "repr h' lo' hi' T v t"
  using assms by (induction rule: repr.induct) (auto intro: repr.intros)

section \<open>Deep copies\<close>

definition copies :: "ty \<Rightarrow> copier \<Rightarrow> bool" where
  "copies T f \<longleftrightarrow> (\<forall>h v t. repr h 0 (limit h) T v t \<longrightarrow> (\<exists>v' h'. f v h = (Ok v', h') \<and> limit h \<le> limit h'
     \<and> same_cells 0 (limit h) h h' \<and> repr h' (limit h) (limit h') T v' t))"

lemma copiesI:
  assumes "\<And>h v t. repr h 0 (limit h) T v t \<Longrightarrow> \<exists>v' h'. f v h = (Ok v', h') \<and> limit h \<le> limit h'
     \<and> same_cells 0 (limit h) h h' \<and> repr h' (limit h) (limit h') T v' t"
  shows "copies T f"
  using assms by (simp add: copies_def)

lemma copiesE:
  assumes "copies T f" "repr h 0 (limit h) T v t"
  obtains v' h' where "f v h = (Ok v', h')" "limit h \<le> limit h'" "same_cells 0 (limit h) h h'"
    "repr h' (limit h) (limit h') T v' t"
  using assms unfolding copies_def by blast

text \<open>After an allocation the old values stand for the same.\<close>

definition grown :: "heap \<Rightarrow> cell \<Rightarrow> heap" where
  "grown h c = h\<lparr>cells := (cells h)(limit h \<mapsto> c), limit := Suc (limit h)\<rparr>"

lemma alloc_run [simp]: "alloc c h = (Ok (limit h), grown h c)"
  by (simp add: alloc_def grown_def)

lemma grown_sels [simp]: "limit (grown h c) = Suc (limit h)" "cells (grown h c) (limit h) = Some c"
  "a < limit h \<Longrightarrow> cells (grown h c) a = cells h a" "same_cells 0 (limit h) h (grown h c)"
  by (auto simp: grown_def same_cells_def)

lemma repr_grown: "repr h 0 (limit h) T v t \<Longrightarrow> repr (grown h c) 0 (Suc (limit h)) T v t"
  by (rule repr_frame) auto

lemma put_run [simp]: "put a c h = (Ok (), h\<lparr>cells := (cells h)(a \<mapsto> c)\<rparr>)"
  by (simp add: put_def)

lemma plain_copies: "plain T \<Longrightarrow> copies T ret"
  by (auto simp: copies_def intro: repr_plain)

lemma copies_pointer:
  assumes "copies T f"
  shows "copies (PointerTo T) (copy_pointer f)"
proof (rule copiesI)
  fix h p t assume r: "repr h 0 (limit h) (PointerTo T) p t"
  show "\<exists>v' h'. copy_pointer f p h = (Ok v', h') \<and> limit h \<le> limit h'
     \<and> same_cells 0 (limit h) h h' \<and> repr h' (limit h) (limit h') (PointerTo T) v' t"
  using r
  proof (cases rule: pointerE[consumes 1, case_names 1 2])
    case 1
    then show ?thesis by (auto simp: copy_pointer_def intro: repr.intros)
  next
    case (2 a v t')
    let ?g = "grown h (Boxed Zeroed)"
    obtain w h' where w: "f v ?g = (Ok w, h')" "Suc (limit h) \<le> limit h'" "same_cells 0 (Suc (limit h)) ?g h'"
      "repr h' (Suc (limit h)) (limit h') T w t'"
      using copiesE[OF assms, of ?g v t'] repr_grown[OF 2(6)] by (metis grown_sels(1))
    let ?k = "h'\<lparr>cells := (cells h')(limit h \<mapsto> Boxed w)\<rparr>"
    have "repr ?k (limit h) (limit h') T w t'"
      by (rule repr_frame[OF w(4)]) (auto simp: same_cells_def)
    moreover have "copy_pointer f p h = (Ok (Pointer (limit h)), ?k)"
      using 2 w(1) by (simp add: copy_pointer_def load_def bindM_def)
    moreover have "same_cells 0 (limit h) h ?k"
      using w(3) by (auto simp: same_cells_def)
    ultimately show ?thesis using 2 w(2) by (auto intro!: exI repr.a_pointer)
  qed
qed

lemma copies_call:
  assumes "copies (PointerTo T) f"
  shows "copies (PointerTo T) (copy_call f)"
  using assms by (fastforce simp: copies_def copy_call_def intro: repr.intros elim: pointerE)

lemma copies_slice:
  assumes "plain T"
  shows "copies (SliceOf T) copy_slice"
proof (rule copiesI)
  fix h s t assume r: "repr h 0 (limit h) (SliceOf T) s t"
  show "\<exists>v' h'. copy_slice s h = (Ok v', h') \<and> limit h \<le> limit h'
     \<and> same_cells 0 (limit h) h h' \<and> repr h' (limit h) (limit h') (SliceOf T) v' t"
  using r
  proof (cases rule: sliceE[consumes 1, case_names 1 2])
    case 1
    then show ?thesis by (auto simp: copy_slice_def intro: repr.intros)
  next
    case (2 a xs off n ts)
    let ?ys = "take n (drop off xs)"
    let ?k = "grown h (Array ?ys)"
    have "list_all2 (repr ?k (limit h) (Suc (limit h)) T) ?ys ts"
      using 2(7) by (rule list_all2_mono) (auto intro: repr_plain assms)
    then have "repr ?k (limit h) (Suc (limit h)) (SliceOf T) (Slice (limit h) 0 n) t"
      using 2 by (auto intro!: repr.a_slice[where xs = ?ys])
    moreover have "copy_slice s h = (Ok (Slice (limit h) 0 n), ?k)"
      using 2 by (simp add: copy_slice_def slice_length_def elements_def bindM_def grown_def)
    ultimately show ?thesis by auto
  qed
qed

lemma set_entry_grown: "set_entry (limit h) k v (grown h (Entries es)) = (Ok (), grown h (Entries (AList.update k v es)))"
  by (simp add: set_entry_def) (simp add: grown_def)

text \<open>The loops over a slice and over a map: the cell being filled is the first of the new ones.\<close>

lemma copies_map: "copies StringMap (copy_map order)"
proof (rule copiesI)
  fix h m t assume r: "repr h 0 (limit h) StringMap m t"
  show "\<exists>v' h'. copy_map order m h = (Ok v', h') \<and> limit h \<le> limit h'
     \<and> same_cells 0 (limit h) h h' \<and> repr h' (limit h) (limit h') StringMap v' t"
    using r
  proof (cases rule: stringMapE[consumes 1, case_names 1 2])
    case 1
    then show ?thesis by (auto simp: copy_map_def intro: repr.intros)
  next
    case (2 a es)
    let ?xs = "shuffle (order (limit h)) es"
    have loop: "distinct (map fst (ys @ xs)) \<Longrightarrow> forM xs (\<lambda>(k, v). set_entry (limit h) k v) (grown h (Entries ys))
        = (Ok (), grown h (Entries (ys @ xs)))" for xs ys
    proof (induction xs arbitrary: ys)
      case (Cons x xs)
      obtain k v where x: "x = (k, v)" by force
      have "AList.update k v ys = ys @ [(k, v)]"
        using Cons.prems x by (induction ys) auto
      then show ?case using Cons.IH[of "ys @ [(k, v)]"] Cons.prems x
        by (simp add: set_entry_grown)
    qed simp
    have d: "distinct (map fst ?xs)"
      using 2(6) by (metis mset_map mset_shuffle mset_eq_imp_distinct_iff)
    have "copy_map order m h = (Ok (MapRef (limit h)), grown h (Entries ?xs))"
      using 2 loop[of "[]" ?xs] d by (simp add: copy_map_def map_entries_def bindM_def)
    moreover have eq: "map_of ?xs = map_of es"
      by (rule shuffled_map[OF 2(6)])
    have "repr (grown h (Entries ?xs)) (limit h) (Suc (limit h)) StringMap (MapRef (limit h)) (Table (map_of ?xs))"
      using d by (intro repr.a_map) auto
    ultimately show ?thesis unfolding 2(2) eq[symmetric] by auto
  qed
qed

lemma copies_each:
  assumes "copies T f"
  shows "copies (SliceOf T) (copy_each f)"
proof (rule copiesI)
  fix h s t assume r: "repr h 0 (limit h) (SliceOf T) s t"
  show "\<exists>v' h'. copy_each f s h = (Ok v', h') \<and> limit h \<le> limit h'
     \<and> same_cells 0 (limit h) h h' \<and> repr h' (limit h) (limit h') (SliceOf T) v' t"
    using r
  proof (cases rule: sliceE[consumes 1, case_names 1 2])
    case 1
    then show ?thesis by (auto simp: copy_each_def intro: repr.intros)
  next
    case (2 a xs off n ts)
    let ?xs = "take n (drop off xs)" and ?l = "limit h"
    let ?body = "\<lambda>i. bindM (element s i) (\<lambda>x. bindM (f x) (\<lambda>y. set_element ?l i y))"
    have n: "length ?xs = n" "length ts = n" "slice_length s = n"
      using 2 by (auto simp: slice_length_def dest: list_all2_lengthD)
    have loop: "i \<le> n \<Longrightarrow> \<exists>ys k. forM [0..<i] ?body (grown h (Array (replicate n Zeroed))) = (Ok (), k)
        \<and> Suc ?l \<le> limit k \<and> same_cells 0 ?l h k \<and> cells k ?l = Some (Array (ys @ replicate (n - i) Zeroed))
        \<and> list_all2 (repr k (Suc ?l) (limit k) T) ys (take i ts)" for i
    proof (induction i)
      case (Suc i)
      then obtain ys k where k: "forM [0..<i] ?body (grown h (Array (replicate n Zeroed))) = (Ok (), k)"
        "Suc ?l \<le> limit k" "same_cells 0 ?l h k" "cells k ?l = Some (Array (ys @ replicate (n - i) Zeroed))"
        "list_all2 (repr k (Suc ?l) (limit k) T) ys (take i ts)" by auto
      have i: "length ys = i" using k(5) Suc.prems n by (auto dest: list_all2_lengthD)
      have "repr h 0 ?l T (?xs ! i) (ts ! i)"
        using 2(7) Suc.prems n by (auto simp: list_all2_conv_all_nth)
      then have "repr k 0 (limit k) T (?xs ! i) (ts ! i)"
        by (rule repr_frame) (use k in auto)
      then obtain y k' where y: "f (?xs ! i) k = (Ok y, k')" "limit k \<le> limit k'" "same_cells 0 (limit k) k k'"
        "repr k' (limit k) (limit k') T y (ts ! i)"
        using copiesE[OF assms] by metis
      let ?k = "k'\<lparr>cells := (cells k')(?l \<mapsto> Array (ys @ y # replicate (n - Suc i) Zeroed))\<rparr>"
      have l: "cells k' ?l = Some (Array (ys @ replicate (n - i) Zeroed))"
        using y(3) k(2,4) by (auto simp: same_cells_def)
      have "element s i k = (Ok (?xs ! i), k)"
        using 2 k(3) Suc.prems n by (auto simp: element_def elements_def bindM_def same_cells_def)
      moreover have "set_element ?l i y k' = (Ok (), ?k)"
        using l i Suc.prems by (simp add: set_element_def list_update_append Cons_replicate_eq Suc_diff_Suc[symmetric])
      ultimately have "forM [0..<Suc i] ?body (grown h (Array (replicate n Zeroed))) = (Ok (), ?k)"
        using k(1) y(1) by (simp add: forM_append bindM_def)
      moreover have "list_all2 (repr ?k (Suc ?l) (limit ?k) T) (ys @ [y]) (take (Suc i) ts)"
      proof -
        have "list_all2 (repr ?k (Suc ?l) (limit ?k) T) ys (take i ts)"
          using k(5) by (rule list_all2_mono) (erule repr_frame, use y in \<open>auto simp: same_cells_def\<close>)
        moreover have "repr ?k (Suc ?l) (limit ?k) T y (ts ! i)"
          using y(4) by (rule repr_frame) (use k(2) in \<open>auto simp: same_cells_def\<close>)
        ultimately show ?thesis using Suc.prems n by (simp add: take_Suc_conv_app_nth list_all2_appendI)
      qed
      moreover have "same_cells 0 ?l h ?k" "Suc ?l \<le> limit ?k"
        using k(2,3) y(2,3) by (auto simp: same_cells_def)
      ultimately show ?case by (auto intro!: exI[of _ "ys @ [y]"])
    qed (auto simp: bindM_def)
    from loop[OF order_refl] n obtain ys k where k: "forM [0..<n] ?body (grown h (Array (replicate n Zeroed))) = (Ok (), k)"
        "Suc ?l \<le> limit k" "same_cells 0 ?l h k" "cells k ?l = Some (Array ys)"
        "list_all2 (repr k (Suc ?l) (limit k) T) ys ts" by auto
    have "copy_each f s h = (Ok (Slice ?l 0 n), k)"
      using 2(1) k(1) n(3) by (simp add: copy_each_def bindM_def)
    moreover have "list_all2 (repr k ?l (limit k) T) ys ts"
      using k(5) by (rule list_all2_mono) (erule repr_frame, auto)
    then have "repr k ?l (limit k) (SliceOf T) (Slice ?l 0 n) (Elements ts)"
      using k n by (auto intro!: repr.a_slice[where xs = ys] dest: list_all2_lengthD)
    ultimately show ?thesis using k 2(2) by auto
  qed
qed

section \<open>Structs\<close>

definition field_names :: "val \<Rightarrow> string list" where
  "field_names v = (case v of Struct vs \<Rightarrow> map fst vs | _ \<Rightarrow> [])"

lemma field_set_field [simp]:
  "field_names (set_field n x v) = field_names v"
  "m \<noteq> n \<Longrightarrow> field (set_field n x v) m = field v m"
  "n \<in> set (field_names v) \<Longrightarrow> field (set_field n x v) n = x"
proof -
  have upd: "map_of (map (\<lambda>(m, y). (m, if m = n then x else y)) vs) m
      = (if m = n then map_option (\<lambda>_. x) (map_of vs m) else map_of vs m)" for vs m
    by (induction vs) auto
  show "field_names (set_field n x v) = field_names v"
    by (cases v) (simp_all add: field_names_def set_field_def case_prod_unfold comp_def)
  show "m \<noteq> n \<Longrightarrow> field (set_field n x v) m = field v m"
    by (cases v) (simp_all add: field_def set_field_def upd)
  show "n \<in> set (field_names v) \<Longrightarrow> field (set_field n x v) n = x"
    by (cases v) (auto simp: field_names_def field_def set_field_def upd split: option.split dest!: weak_map_of_SomeI)
qed

text \<open>A struct is represented when each of its fields is.\<close>

lemma repr_struct:
  assumes "distinct (map fst fs)"
  shows "repr h lo hi (StructOf fs) v t \<longleftrightarrow> (\<exists>ts. t = Fields ts \<and> map fst ts = map fst fs \<and> (\<exists>vs. v = Struct vs)
     \<and> field_names v = map fst fs \<and> (\<forall>(n, T) \<in> set fs. repr h lo hi T (field v n) (the (map_of ts n))))"
  using assms
proof (induction fs arbitrary: v t)
  case Nil
  then show ?case by (auto simp: field_names_def elim: no_fieldsE intro: repr.intros split: val.splits)
next
  case (Cons f fs)
  obtain m T where f: "f = (m, T)" by force
  have m: "m \<notin> fst ` set fs" "distinct (map fst fs)" using Cons.prems f by auto
  have step: "repr h lo hi (StructOf ((m, T) # fs)) v t \<longleftrightarrow> (\<exists>x vs s ts. v = Struct ((m, x) # vs) \<and> t = Fields ((m, s) # ts)
      \<and> repr h lo hi T x s \<and> repr h lo hi (StructOf fs) (Struct vs) (Fields ts))"
    by (auto elim: a_fieldE intro: repr.intros)
  have fields: "(\<forall>(n, U) \<in> set fs. repr h lo hi U (field (Struct ((m, x) # vs)) n) (the (map_of ((m, s) # ts) n)))
      \<longleftrightarrow> (\<forall>(n, U) \<in> set fs. repr h lo hi U (field (Struct vs) n) (the (map_of ts n)))" for x vs s ts
    by (rule ball_cong) (use m in \<open>force simp: field_def\<close>)+
  have heads: "field (Struct ((m, x) # vs)) m = x" for x vs by (simp add: field_def)
  show ?case (is "?l \<longleftrightarrow> ?r")
  proof
    assume ?l
    then obtain x vs s ts where 1: "v = Struct ((m, x) # vs)" "t = Fields ((m, s) # ts)" "repr h lo hi T x s"
        "repr h lo hi (StructOf fs) (Struct vs) (Fields ts)"
      unfolding f step by blast
    have "map fst ts = map fst fs" "field_names (Struct vs) = map fst fs"
        "\<forall>(n, U) \<in> set fs. repr h lo hi U (field (Struct vs) n) (the (map_of ts n))"
      using 1(4) unfolding Cons.IH[OF m(2)] by auto
    then show ?r unfolding f 1(1,2) using 1(3) fields[of x vs s ts] by (simp add: heads field_names_def)
  next
    assume ?r
    then obtain ts vs where 1: "t = Fields ts" "map fst ts = m # map fst fs" "v = Struct vs" "map fst vs = m # map fst fs"
        "\<forall>(n, U) \<in> set (f # fs). repr h lo hi U (field v n) (the (map_of ts n))"
      by (auto simp: f field_names_def)
    then obtain s ts' x vs' where 2: "ts = (m, s) # ts'" "map fst ts' = map fst fs" "vs = (m, x) # vs'" "map fst vs' = map fst fs"
      by (auto simp: map_eq_Cons_conv)
    have "\<forall>(n, U) \<in> set fs. repr h lo hi U (field (Struct vs') n) (the (map_of ts' n))" "repr h lo hi T x s"
      using 1(5) fields[of x vs' s ts'] unfolding f 1(3) 2(1,3) by (simp_all add: heads)
    moreover have "repr h lo hi (StructOf fs) (Struct vs') (Fields ts')"
      unfolding Cons.IH[OF m(2)] using 2 calculation(1) by (auto simp: field_names_def)
    ultimately show ?l unfolding f step using 1(1,3) 2(1,3) by blast
  qed
qed

lemma copies_fields:
  assumes "distinct (map fst fs)" "distinct (map fst steps)"
    and "\<forall>(n, f) \<in> set steps. \<exists>T. (n, T) \<in> set fs \<and> copies T f"
    and "\<forall>(n, T) \<in> set fs. n \<in> fst ` set steps \<or> plain T"
  shows "copies (StructOf fs) (copy_fields steps)"
proof (rule copiesI)
  fix h v t assume r: "repr h 0 (limit h) (StructOf fs) v t"
  let ?l = "limit h" and ?body = "\<lambda>out (n, f). bindM (f (field v n)) (\<lambda>x. ret (set_field n x out))"
  obtain ts vs where t: "t = Fields ts" "map fst ts = map fst fs" "v = Struct vs" "field_names v = map fst fs"
      "\<forall>(n, T) \<in> set fs. repr h 0 ?l T (field v n) (the (map_of ts n))"
    using r unfolding repr_struct[OF assms(1)] by auto
  have loop: "\<exists>out' k'. foldM xs ?body out k = (Ok out', k') \<and> limit k \<le> limit k' \<and> same_cells 0 (limit k) k k'
      \<and> field_names out' = map fst fs \<and> (\<exists>ws. out' = Struct ws) \<and> (\<forall>n. n \<notin> fst ` set xs \<longrightarrow> field out' n = field out n)
      \<and> (\<forall>(n, f) \<in> set xs. \<forall>T. (n, T) \<in> set fs \<longrightarrow> repr k' ?l (limit k') T (field out' n) (the (map_of ts n)))"
    if "set xs \<subseteq> set steps" "distinct (map fst xs)" "field_names out = map fst fs" "\<exists>ws. out = Struct ws"
      "?l \<le> limit k" "same_cells 0 ?l h k" for xs out k
    using that
  proof (induction xs arbitrary: out k)
    case (Cons x xs)
    obtain n f where x: "x = (n, f)" by force
    obtain T where T: "(n, T) \<in> set fs" "copies T f" using Cons.prems(1) assms(3) x by auto
    have only: "(n, U) \<in> set fs \<Longrightarrow> U = T" for U
      using T(1) assms(1) by (metis eq_key_imp_eq_value)
    have "repr k 0 (limit k) T (field v n) (the (map_of ts n))"
      using t(5) T(1) Cons.prems(5,6) by (auto intro: repr_frame)
    then obtain y k1 where y: "f (field v n) k = (Ok y, k1)" "limit k \<le> limit k1" "same_cells 0 (limit k) k k1"
        "repr k1 (limit k) (limit k1) T y (the (map_of ts n))"
      using copiesE[OF T(2)] by metis
    have n: "n \<in> set (field_names out)" using T(1) Cons.prems(3) by force
    have "\<exists>ws. set_field n y out = Struct ws" using Cons.prems(4) by (auto simp: set_field_def)
    moreover have "same_cells 0 ?l h k1" "?l \<le> limit k1" using same_cells_trans[OF Cons.prems(6) y(3)] Cons.prems(5) y(2) by auto
    moreover have "set xs \<subseteq> set steps" "distinct (map fst xs)" "field_names (set_field n y out) = map fst fs"
      using Cons.prems(1,2,3) by auto
    ultimately obtain out' k' where o: "foldM xs ?body (set_field n y out) k1 = (Ok out', k')" "limit k1 \<le> limit k'"
        "same_cells 0 (limit k1) k1 k'" "field_names out' = map fst fs" "\<exists>ws. out' = Struct ws"
        "\<forall>m. m \<notin> fst ` set xs \<longrightarrow> field out' m = field (set_field n y out) m"
        "\<forall>(m, f) \<in> set xs. \<forall>T. (m, T) \<in> set fs \<longrightarrow> repr k' ?l (limit k') T (field out' m) (the (map_of ts m))"
      using Cons.IH[of "set_field n y out" k1] by blast
    have "field out' n = y" using o(6) n Cons.prems(2) x by (auto simp: image_iff)
    moreover have "repr k' ?l (limit k') T y (the (map_of ts n))"
      using y(4) by (rule repr_frame) (use o(2,3) Cons.prems(5) in \<open>auto simp: same_cells_def\<close>)
    ultimately have "\<forall>(m, f) \<in> set (x # xs). \<forall>U. (m, U) \<in> set fs \<longrightarrow> repr k' ?l (limit k') U (field out' m) (the (map_of ts m))"
      using o(7) x only by auto
    moreover have "foldM (x # xs) ?body out k = (Ok out', k')"
      using x y(1) o(1) by (simp add: bindM_def)
    moreover have "\<forall>m. m \<notin> fst ` set (x # xs) \<longrightarrow> field out' m = field out m" using o(6) x by auto
    moreover have "same_cells 0 (limit k) k k'" using same_cells_trans[OF y(3) o(3)] y(2) by simp
    moreover have "limit k \<le> limit k'" using y(2) o(2) by simp
    ultimately show ?case using o(4,5) by blast
  qed auto
  from loop[OF subset_refl assms(2) t(4), of h] t(3) obtain out k where o:
      "copy_fields steps v h = (Ok out, k)" "?l \<le> limit k" "same_cells 0 ?l h k" "field_names out = map fst fs" "\<exists>ws. out = Struct ws"
      "\<forall>n. n \<notin> fst ` set steps \<longrightarrow> field out n = field v n"
      "\<forall>(n, f) \<in> set steps. \<forall>T. (n, T) \<in> set fs \<longrightarrow> repr k ?l (limit k) T (field out n) (the (map_of ts n))"
    by (auto simp: copy_fields_def)
  have "repr k ?l (limit k) T (field out n) (the (map_of ts n))" if "(n, T) \<in> set fs" for n T
  proof (cases "n \<in> fst ` set steps")
    case False
    then have "plain T" "field out n = field v n" using assms(4) o(6) that by auto
    then show ?thesis using t(5) that by (auto intro: repr_plain)
  qed (use o(7) that in auto)
  then have "repr k ?l (limit k) (StructOf fs) out t"
    unfolding repr_struct[OF assms(1)] using o t by auto
  then show "\<exists>v' h'. copy_fields steps v h = (Ok v', h') \<and> limit h \<le> limit h'
     \<and> same_cells 0 (limit h) h h' \<and> repr h' (limit h) (limit h') (StructOf fs) v' t"
    using o by auto
qed

lemma copies_new: "copies T f \<Longrightarrow> copies (PointerTo T) (deep_copy f)"
  using copies_pointer[of T f] by (simp add: deep_copy_def[abs_def] copy_pointer_def[abs_def])

end
