(* ===== verification/DeepCopies.thy ===== *)
theory DeepCopies
  imports CopyLaws
begin

text \<open>
  The generated deep copies of the API types (\<open>api/v1alpha1/zz_generated.deepcopy.go\<close>) on the memory of
  \<open>GoMemory\<close>: for every struct type its fields as \<open>api/v1alpha1\<close> declares them, \<open>DeepCopyInto\<close> with one
  step for each statement, \<open>DeepCopy\<close>, and \<open>DeepCopyObject\<close> for the objects and lists.
\<close>

section \<open>Types of apimachinery\<close>

text \<open>
  The types of \<open>metav1\<close> that hold references, with their own copies, and the order in which Go walks
  a map, by the address of the copy.
\<close>

record Meta =
  ObjectMeta_type :: ty
  ObjectMeta_DeepCopyInto :: copier
  ListMeta_type :: ty
  ListMeta_DeepCopyInto :: copier
  Condition_type :: ty
  Condition_DeepCopyInto :: copier
  LabelSelector_type :: ty
  LabelSelector_DeepCopyInto :: copier
  Time_type :: ty
  Time_DeepCopy :: copier
  map_order :: "nat \<Rightarrow> nat list"

text \<open>What apimachinery documents of them: they are deep copies.\<close>

definition meta_law :: "Meta \<Rightarrow> bool" where
  "meta_law M \<longleftrightarrow> copies (ObjectMeta_type M) (ObjectMeta_DeepCopyInto M) \<and> copies (ListMeta_type M) (ListMeta_DeepCopyInto M)
     \<and> copies (Condition_type M) (Condition_DeepCopyInto M) \<and> copies (LabelSelector_type M) (LabelSelector_DeepCopyInto M)
     \<and> copies (PointerTo (Time_type M)) (Time_DeepCopy M)"

lemma meta_lawD [intro]:
  assumes "meta_law M"
  shows "copies (ObjectMeta_type M) (ObjectMeta_DeepCopyInto M)" "copies (ListMeta_type M) (ListMeta_DeepCopyInto M)"
    "copies (Condition_type M) (Condition_DeepCopyInto M)" "copies (LabelSelector_type M) (LabelSelector_DeepCopyInto M)"
    "copies (PointerTo (Time_type M)) (Time_DeepCopy M)"
  using assms by (auto simp: meta_law_def)

definition TypeMeta_type :: ty where
  "TypeMeta_type = StructOf [(''Kind'', Basic), (''APIVersion'', Basic)]"

definition LocalObjectReference_type :: ty where
  "LocalObjectReference_type = StructOf [(''Name'', Basic)]"

lemma plain_types [simp]: "plain TypeMeta_type" "plain LocalObjectReference_type"
  by (simp_all add: TypeMeta_type_def LocalObjectReference_type_def)

lemma copies_ret [intro]: "copies TypeMeta_type ret" "copies LocalObjectReference_type ret" "copies Basic ret"
  by (simp_all add: plain_copies)

text \<open>How a copy of a struct is checked: every step copies its field, and a field without a step is plain.\<close>

lemma struct_copies:
  assumes "T = StructOf fs" "f = copy_fields steps" "distinct (map fst fs)" "distinct (map fst steps)"
    and "list_all (\<lambda>(n, g). case map_of fs n of Some T \<Rightarrow> copies T g | None \<Rightarrow> False) steps"
    and "list_all (\<lambda>(n, T). n \<in> fst ` set steps \<or> plain T) fs"
  shows "copies T f"
proof -
  have "\<forall>(n, g) \<in> set steps. \<exists>T. (n, T) \<in> set fs \<and> copies T g"
    using assms(5) by (fastforce simp: list_all_iff split: option.splits dest: map_of_SomeD)
  moreover have "\<forall>(n, T) \<in> set fs. n \<in> fst ` set steps \<or> plain T"
    using assms(6) by (simp add: list_all_iff)
  ultimately show ?thesis unfolding assms(1,2) by (intro copies_fields assms(3,4))
qed

text \<open>A copy returned as an interface: nil exactly for nil.\<close>

definition copies_object :: "ty \<Rightarrow> (val \<Rightarrow> (heap, val option) prog) \<Rightarrow> bool" where
  "copies_object T g \<longleftrightarrow> (\<exists>f. copies (PointerTo T) f \<and> g = copy_object f)"

lemma object_copy: "copies (PointerTo T) f \<Longrightarrow> copies_object T (copy_object f)"
  by (auto simp: copies_object_def)

lemma all_of: "list_all P [] = True" "list_all P (x # xs) = (P x \<and> list_all P xs)"
  by simp_all

lemmas copy_rules = copies_pointer copies_slice copies_map copies_each copies_call copies_ret


definition HCloudCertificateSpec_type :: "Meta \<Rightarrow> ty" where
  "HCloudCertificateSpec_type M = StructOf [(''Type'', Basic), (''Certificate'', Basic), (''PrivateKey'', Basic), (''DomainNames'', SliceOf Basic),
     (''Labels'', StringMap)]"

definition HCloudCertificateSpec_DeepCopyInto :: "Meta \<Rightarrow> copier" where
  "HCloudCertificateSpec_DeepCopyInto M = copy_fields [(''DomainNames'', copy_slice), (''Labels'', copy_map (map_order M))]"

definition HCloudCertificateSpec_DeepCopy :: "Meta \<Rightarrow> copier" where
  "HCloudCertificateSpec_DeepCopy M = deep_copy (HCloudCertificateSpec_DeepCopyInto M)"

definition HCloudCertificateStatus_type :: "Meta \<Rightarrow> ty" where
  "HCloudCertificateStatus_type M = StructOf [(''CertificateID'', Basic), (''DomainNames'', SliceOf Basic), (''Fingerprint'', Basic),
     (''NotValidBefore'', PointerTo (Time_type M)), (''NotValidAfter'', PointerTo (Time_type M)),
     (''IssuanceStatus'', Basic), (''Conditions'', SliceOf (Condition_type M))]"

definition HCloudCertificateStatus_DeepCopyInto :: "Meta \<Rightarrow> copier" where
  "HCloudCertificateStatus_DeepCopyInto M = copy_fields [(''DomainNames'', copy_slice), (''NotValidBefore'', copy_call (Time_DeepCopy M)),
     (''NotValidAfter'', copy_call (Time_DeepCopy M)), (''Conditions'', copy_each (Condition_DeepCopyInto M))]"

definition HCloudCertificateStatus_DeepCopy :: "Meta \<Rightarrow> copier" where
  "HCloudCertificateStatus_DeepCopy M = deep_copy (HCloudCertificateStatus_DeepCopyInto M)"

definition HCloudCertificate_type :: "Meta \<Rightarrow> ty" where
  "HCloudCertificate_type M = StructOf [(''TypeMeta'', TypeMeta_type), (''ObjectMeta'', ObjectMeta_type M),
     (''Spec'', HCloudCertificateSpec_type M), (''Status'', HCloudCertificateStatus_type M)]"

definition HCloudCertificate_DeepCopyInto :: "Meta \<Rightarrow> copier" where
  "HCloudCertificate_DeepCopyInto M = copy_fields [(''TypeMeta'', ret), (''ObjectMeta'', ObjectMeta_DeepCopyInto M),
     (''Spec'', HCloudCertificateSpec_DeepCopyInto M), (''Status'', HCloudCertificateStatus_DeepCopyInto M)]"

definition HCloudCertificate_DeepCopy :: "Meta \<Rightarrow> copier" where
  "HCloudCertificate_DeepCopy M = deep_copy (HCloudCertificate_DeepCopyInto M)"

definition HCloudCertificate_DeepCopyObject :: "Meta \<Rightarrow> val \<Rightarrow> (heap, val option) prog" where
  "HCloudCertificate_DeepCopyObject M = copy_object (HCloudCertificate_DeepCopy M)"

definition HCloudCertificateList_type :: "Meta \<Rightarrow> ty" where
  "HCloudCertificateList_type M = StructOf [(''TypeMeta'', TypeMeta_type), (''ListMeta'', ListMeta_type M),
     (''Items'', SliceOf (HCloudCertificate_type M))]"

definition HCloudCertificateList_DeepCopyInto :: "Meta \<Rightarrow> copier" where
  "HCloudCertificateList_DeepCopyInto M = copy_fields [(''TypeMeta'', ret), (''ListMeta'', ListMeta_DeepCopyInto M),
     (''Items'', copy_each (HCloudCertificate_DeepCopyInto M))]"

definition HCloudCertificateList_DeepCopy :: "Meta \<Rightarrow> copier" where
  "HCloudCertificateList_DeepCopy M = deep_copy (HCloudCertificateList_DeepCopyInto M)"

definition HCloudCertificateList_DeepCopyObject :: "Meta \<Rightarrow> val \<Rightarrow> (heap, val option) prog" where
  "HCloudCertificateList_DeepCopyObject M = copy_object (HCloudCertificateList_DeepCopy M)"

definition HCloudFirewallRule_type :: "Meta \<Rightarrow> ty" where
  "HCloudFirewallRule_type M = StructOf [(''Direction'', Basic), (''Protocol'', Basic), (''Port'', PointerTo Basic), (''SourceIPs'', SliceOf Basic),
     (''DestinationIPs'', SliceOf Basic), (''Description'', PointerTo Basic)]"

definition HCloudFirewallRule_DeepCopyInto :: "Meta \<Rightarrow> copier" where
  "HCloudFirewallRule_DeepCopyInto M = copy_fields [(''Port'', copy_pointer ret), (''SourceIPs'', copy_slice), (''DestinationIPs'', copy_slice),
     (''Description'', copy_pointer ret)]"

definition HCloudFirewallRule_DeepCopy :: "Meta \<Rightarrow> copier" where
  "HCloudFirewallRule_DeepCopy M = deep_copy (HCloudFirewallRule_DeepCopyInto M)"

definition HCloudFirewallApplyTo_type :: "Meta \<Rightarrow> ty" where
  "HCloudFirewallApplyTo_type M = StructOf [(''ServerRefs'', SliceOf LocalObjectReference_type), (''LabelSelector'', Basic)]"

definition HCloudFirewallApplyTo_DeepCopyInto :: "Meta \<Rightarrow> copier" where
  "HCloudFirewallApplyTo_DeepCopyInto M = copy_fields [(''ServerRefs'', copy_slice)]"

definition HCloudFirewallApplyTo_DeepCopy :: "Meta \<Rightarrow> copier" where
  "HCloudFirewallApplyTo_DeepCopy M = deep_copy (HCloudFirewallApplyTo_DeepCopyInto M)"

definition HCloudFirewallSpec_type :: "Meta \<Rightarrow> ty" where
  "HCloudFirewallSpec_type M = StructOf [(''Labels'', StringMap), (''Rules'', SliceOf (HCloudFirewallRule_type M)),
     (''ApplyTo'', PointerTo (HCloudFirewallApplyTo_type M))]"

definition HCloudFirewallSpec_DeepCopyInto :: "Meta \<Rightarrow> copier" where
  "HCloudFirewallSpec_DeepCopyInto M = copy_fields [(''Labels'', copy_map (map_order M)), (''Rules'', copy_each (HCloudFirewallRule_DeepCopyInto M)),
     (''ApplyTo'', copy_pointer (HCloudFirewallApplyTo_DeepCopyInto M))]"

definition HCloudFirewallSpec_DeepCopy :: "Meta \<Rightarrow> copier" where
  "HCloudFirewallSpec_DeepCopy M = deep_copy (HCloudFirewallSpec_DeepCopyInto M)"

definition HCloudFirewallStatus_type :: "Meta \<Rightarrow> ty" where
  "HCloudFirewallStatus_type M = StructOf [(''FirewallID'', Basic), (''Conditions'', SliceOf (Condition_type M))]"

definition HCloudFirewallStatus_DeepCopyInto :: "Meta \<Rightarrow> copier" where
  "HCloudFirewallStatus_DeepCopyInto M = copy_fields [(''Conditions'', copy_each (Condition_DeepCopyInto M))]"

definition HCloudFirewallStatus_DeepCopy :: "Meta \<Rightarrow> copier" where
  "HCloudFirewallStatus_DeepCopy M = deep_copy (HCloudFirewallStatus_DeepCopyInto M)"

definition HCloudFirewall_type :: "Meta \<Rightarrow> ty" where
  "HCloudFirewall_type M = StructOf [(''TypeMeta'', TypeMeta_type), (''ObjectMeta'', ObjectMeta_type M), (''Spec'', HCloudFirewallSpec_type M),
     (''Status'', HCloudFirewallStatus_type M)]"

definition HCloudFirewall_DeepCopyInto :: "Meta \<Rightarrow> copier" where
  "HCloudFirewall_DeepCopyInto M = copy_fields [(''TypeMeta'', ret), (''ObjectMeta'', ObjectMeta_DeepCopyInto M),
     (''Spec'', HCloudFirewallSpec_DeepCopyInto M), (''Status'', HCloudFirewallStatus_DeepCopyInto M)]"

definition HCloudFirewall_DeepCopy :: "Meta \<Rightarrow> copier" where
  "HCloudFirewall_DeepCopy M = deep_copy (HCloudFirewall_DeepCopyInto M)"

definition HCloudFirewall_DeepCopyObject :: "Meta \<Rightarrow> val \<Rightarrow> (heap, val option) prog" where
  "HCloudFirewall_DeepCopyObject M = copy_object (HCloudFirewall_DeepCopy M)"

definition HCloudFirewallList_type :: "Meta \<Rightarrow> ty" where
  "HCloudFirewallList_type M = StructOf [(''TypeMeta'', TypeMeta_type), (''ListMeta'', ListMeta_type M),
     (''Items'', SliceOf (HCloudFirewall_type M))]"

definition HCloudFirewallList_DeepCopyInto :: "Meta \<Rightarrow> copier" where
  "HCloudFirewallList_DeepCopyInto M = copy_fields [(''TypeMeta'', ret), (''ListMeta'', ListMeta_DeepCopyInto M),
     (''Items'', copy_each (HCloudFirewall_DeepCopyInto M))]"

definition HCloudFirewallList_DeepCopy :: "Meta \<Rightarrow> copier" where
  "HCloudFirewallList_DeepCopy M = deep_copy (HCloudFirewallList_DeepCopyInto M)"

definition HCloudFirewallList_DeepCopyObject :: "Meta \<Rightarrow> val \<Rightarrow> (heap, val option) prog" where
  "HCloudFirewallList_DeepCopyObject M = copy_object (HCloudFirewallList_DeepCopy M)"

definition HCloudFloatingIPSpec_type :: "Meta \<Rightarrow> ty" where
  "HCloudFloatingIPSpec_type M = StructOf [(''Type'', Basic), (''Location'', Basic), (''ServerRef'', PointerTo LocalObjectReference_type),
     (''Description'', Basic), (''DNSPtr'', PointerTo Basic), (''Labels'', StringMap)]"

definition HCloudFloatingIPSpec_DeepCopyInto :: "Meta \<Rightarrow> copier" where
  "HCloudFloatingIPSpec_DeepCopyInto M = copy_fields [(''ServerRef'', copy_pointer ret), (''DNSPtr'', copy_pointer ret), (''Labels'', copy_map (map_order M))]"

definition HCloudFloatingIPSpec_DeepCopy :: "Meta \<Rightarrow> copier" where
  "HCloudFloatingIPSpec_DeepCopy M = deep_copy (HCloudFloatingIPSpec_DeepCopyInto M)"

definition HCloudFloatingIPStatus_type :: "Meta \<Rightarrow> ty" where
  "HCloudFloatingIPStatus_type M = StructOf [(''FloatingIPID'', Basic), (''IP'', Basic), (''Location'', Basic), (''AppliedServerID'', Basic),
     (''Conditions'', SliceOf (Condition_type M))]"

definition HCloudFloatingIPStatus_DeepCopyInto :: "Meta \<Rightarrow> copier" where
  "HCloudFloatingIPStatus_DeepCopyInto M = copy_fields [(''Conditions'', copy_each (Condition_DeepCopyInto M))]"

definition HCloudFloatingIPStatus_DeepCopy :: "Meta \<Rightarrow> copier" where
  "HCloudFloatingIPStatus_DeepCopy M = deep_copy (HCloudFloatingIPStatus_DeepCopyInto M)"

definition HCloudFloatingIP_type :: "Meta \<Rightarrow> ty" where
  "HCloudFloatingIP_type M = StructOf [(''TypeMeta'', TypeMeta_type), (''ObjectMeta'', ObjectMeta_type M), (''Spec'', HCloudFloatingIPSpec_type M),
     (''Status'', HCloudFloatingIPStatus_type M)]"

definition HCloudFloatingIP_DeepCopyInto :: "Meta \<Rightarrow> copier" where
  "HCloudFloatingIP_DeepCopyInto M = copy_fields [(''TypeMeta'', ret), (''ObjectMeta'', ObjectMeta_DeepCopyInto M),
     (''Spec'', HCloudFloatingIPSpec_DeepCopyInto M), (''Status'', HCloudFloatingIPStatus_DeepCopyInto M)]"

definition HCloudFloatingIP_DeepCopy :: "Meta \<Rightarrow> copier" where
  "HCloudFloatingIP_DeepCopy M = deep_copy (HCloudFloatingIP_DeepCopyInto M)"

definition HCloudFloatingIP_DeepCopyObject :: "Meta \<Rightarrow> val \<Rightarrow> (heap, val option) prog" where
  "HCloudFloatingIP_DeepCopyObject M = copy_object (HCloudFloatingIP_DeepCopy M)"

definition HCloudFloatingIPList_type :: "Meta \<Rightarrow> ty" where
  "HCloudFloatingIPList_type M = StructOf [(''TypeMeta'', TypeMeta_type), (''ListMeta'', ListMeta_type M),
     (''Items'', SliceOf (HCloudFloatingIP_type M))]"

definition HCloudFloatingIPList_DeepCopyInto :: "Meta \<Rightarrow> copier" where
  "HCloudFloatingIPList_DeepCopyInto M = copy_fields [(''TypeMeta'', ret), (''ListMeta'', ListMeta_DeepCopyInto M),
     (''Items'', copy_each (HCloudFloatingIP_DeepCopyInto M))]"

definition HCloudFloatingIPList_DeepCopy :: "Meta \<Rightarrow> copier" where
  "HCloudFloatingIPList_DeepCopy M = deep_copy (HCloudFloatingIPList_DeepCopyInto M)"

definition HCloudFloatingIPList_DeepCopyObject :: "Meta \<Rightarrow> val \<Rightarrow> (heap, val option) prog" where
  "HCloudFloatingIPList_DeepCopyObject M = copy_object (HCloudFloatingIPList_DeepCopy M)"

definition HCloudLoadBalancerHealthCheckHTTPSpec_type :: "Meta \<Rightarrow> ty" where
  "HCloudLoadBalancerHealthCheckHTTPSpec_type M = StructOf [(''Domain'', PointerTo Basic), (''Path'', PointerTo Basic), (''Response'', PointerTo Basic),
     (''StatusCodes'', SliceOf Basic), (''TLS'', PointerTo Basic)]"

definition HCloudLoadBalancerHealthCheckHTTPSpec_DeepCopyInto :: "Meta \<Rightarrow> copier" where
  "HCloudLoadBalancerHealthCheckHTTPSpec_DeepCopyInto M = copy_fields [(''Domain'', copy_pointer ret), (''Path'', copy_pointer ret), (''Response'', copy_pointer ret),
     (''StatusCodes'', copy_slice), (''TLS'', copy_pointer ret)]"

definition HCloudLoadBalancerHealthCheckHTTPSpec_DeepCopy :: "Meta \<Rightarrow> copier" where
  "HCloudLoadBalancerHealthCheckHTTPSpec_DeepCopy M = deep_copy (HCloudLoadBalancerHealthCheckHTTPSpec_DeepCopyInto M)"

definition HCloudLoadBalancerHealthCheckSpec_type :: "Meta \<Rightarrow> ty" where
  "HCloudLoadBalancerHealthCheckSpec_type M = StructOf [(''Protocol'', Basic), (''Port'', PointerTo Basic), (''IntervalSeconds'', PointerTo Basic),
     (''TimeoutSeconds'', PointerTo Basic), (''Retries'', PointerTo Basic),
     (''HTTP'', PointerTo (HCloudLoadBalancerHealthCheckHTTPSpec_type M))]"

definition HCloudLoadBalancerHealthCheckSpec_DeepCopyInto :: "Meta \<Rightarrow> copier" where
  "HCloudLoadBalancerHealthCheckSpec_DeepCopyInto M = copy_fields [(''Port'', copy_pointer ret), (''IntervalSeconds'', copy_pointer ret),
     (''TimeoutSeconds'', copy_pointer ret), (''Retries'', copy_pointer ret),
     (''HTTP'', copy_pointer (HCloudLoadBalancerHealthCheckHTTPSpec_DeepCopyInto M))]"

definition HCloudLoadBalancerHealthCheckSpec_DeepCopy :: "Meta \<Rightarrow> copier" where
  "HCloudLoadBalancerHealthCheckSpec_DeepCopy M = deep_copy (HCloudLoadBalancerHealthCheckSpec_DeepCopyInto M)"

definition HCloudLoadBalancerServiceSpec_type :: "Meta \<Rightarrow> ty" where
  "HCloudLoadBalancerServiceSpec_type M = StructOf [(''ListenPort'', Basic), (''DestinationPort'', Basic), (''Protocol'', Basic),
     (''Proxyprotocol'', PointerTo Basic),
     (''HealthCheck'', PointerTo (HCloudLoadBalancerHealthCheckSpec_type M)),
     (''CertificateRefs'', SliceOf LocalObjectReference_type)]"

definition HCloudLoadBalancerServiceSpec_DeepCopyInto :: "Meta \<Rightarrow> copier" where
  "HCloudLoadBalancerServiceSpec_DeepCopyInto M = copy_fields [(''Proxyprotocol'', copy_pointer ret),
     (''HealthCheck'', copy_pointer (HCloudLoadBalancerHealthCheckSpec_DeepCopyInto M)),
     (''CertificateRefs'', copy_slice)]"

definition HCloudLoadBalancerServiceSpec_DeepCopy :: "Meta \<Rightarrow> copier" where
  "HCloudLoadBalancerServiceSpec_DeepCopy M = deep_copy (HCloudLoadBalancerServiceSpec_DeepCopyInto M)"

definition HCloudLoadBalancerSpec_type :: "Meta \<Rightarrow> ty" where
  "HCloudLoadBalancerSpec_type M = StructOf [(''LoadBalancerType'', Basic), (''Location'', Basic), (''NetworkZone'', Basic), (''Algorithm'', Basic),
     (''ServerSelector'', PointerTo (LabelSelector_type M)), (''Labels'', StringMap),
     (''Services'', SliceOf (HCloudLoadBalancerServiceSpec_type M))]"

definition HCloudLoadBalancerSpec_DeepCopyInto :: "Meta \<Rightarrow> copier" where
  "HCloudLoadBalancerSpec_DeepCopyInto M = copy_fields [(''ServerSelector'', copy_pointer (LabelSelector_DeepCopyInto M)), (''Labels'', copy_map (map_order M)),
     (''Services'', copy_each (HCloudLoadBalancerServiceSpec_DeepCopyInto M))]"

definition HCloudLoadBalancerSpec_DeepCopy :: "Meta \<Rightarrow> copier" where
  "HCloudLoadBalancerSpec_DeepCopy M = deep_copy (HCloudLoadBalancerSpec_DeepCopyInto M)"

definition HCloudLoadBalancerStatus_type :: "Meta \<Rightarrow> ty" where
  "HCloudLoadBalancerStatus_type M = StructOf [(''LoadBalancerID'', Basic), (''PublicIPv4'', Basic), (''PublicIPv6'', Basic),
     (''AttachedServerIDs'', SliceOf Basic), (''Conditions'', SliceOf (Condition_type M))]"

definition HCloudLoadBalancerStatus_DeepCopyInto :: "Meta \<Rightarrow> copier" where
  "HCloudLoadBalancerStatus_DeepCopyInto M = copy_fields [(''AttachedServerIDs'', copy_slice), (''Conditions'', copy_each (Condition_DeepCopyInto M))]"

definition HCloudLoadBalancerStatus_DeepCopy :: "Meta \<Rightarrow> copier" where
  "HCloudLoadBalancerStatus_DeepCopy M = deep_copy (HCloudLoadBalancerStatus_DeepCopyInto M)"

definition HCloudLoadBalancer_type :: "Meta \<Rightarrow> ty" where
  "HCloudLoadBalancer_type M = StructOf [(''TypeMeta'', TypeMeta_type), (''ObjectMeta'', ObjectMeta_type M),
     (''Spec'', HCloudLoadBalancerSpec_type M), (''Status'', HCloudLoadBalancerStatus_type M)]"

definition HCloudLoadBalancer_DeepCopyInto :: "Meta \<Rightarrow> copier" where
  "HCloudLoadBalancer_DeepCopyInto M = copy_fields [(''TypeMeta'', ret), (''ObjectMeta'', ObjectMeta_DeepCopyInto M),
     (''Spec'', HCloudLoadBalancerSpec_DeepCopyInto M), (''Status'', HCloudLoadBalancerStatus_DeepCopyInto M)]"

definition HCloudLoadBalancer_DeepCopy :: "Meta \<Rightarrow> copier" where
  "HCloudLoadBalancer_DeepCopy M = deep_copy (HCloudLoadBalancer_DeepCopyInto M)"

definition HCloudLoadBalancer_DeepCopyObject :: "Meta \<Rightarrow> val \<Rightarrow> (heap, val option) prog" where
  "HCloudLoadBalancer_DeepCopyObject M = copy_object (HCloudLoadBalancer_DeepCopy M)"

definition HCloudLoadBalancerList_type :: "Meta \<Rightarrow> ty" where
  "HCloudLoadBalancerList_type M = StructOf [(''TypeMeta'', TypeMeta_type), (''ListMeta'', ListMeta_type M),
     (''Items'', SliceOf (HCloudLoadBalancer_type M))]"

definition HCloudLoadBalancerList_DeepCopyInto :: "Meta \<Rightarrow> copier" where
  "HCloudLoadBalancerList_DeepCopyInto M = copy_fields [(''TypeMeta'', ret), (''ListMeta'', ListMeta_DeepCopyInto M),
     (''Items'', copy_each (HCloudLoadBalancer_DeepCopyInto M))]"

definition HCloudLoadBalancerList_DeepCopy :: "Meta \<Rightarrow> copier" where
  "HCloudLoadBalancerList_DeepCopy M = deep_copy (HCloudLoadBalancerList_DeepCopyInto M)"

definition HCloudLoadBalancerList_DeepCopyObject :: "Meta \<Rightarrow> val \<Rightarrow> (heap, val option) prog" where
  "HCloudLoadBalancerList_DeepCopyObject M = copy_object (HCloudLoadBalancerList_DeepCopy M)"

definition HCloudNetworkSpec_type :: "Meta \<Rightarrow> ty" where
  "HCloudNetworkSpec_type M = StructOf [(''IPRange'', Basic), (''NetworkZones'', SliceOf Basic), (''ExposeRoutesToVSwitch'', Basic),
     (''Labels'', StringMap)]"

definition HCloudNetworkSpec_DeepCopyInto :: "Meta \<Rightarrow> copier" where
  "HCloudNetworkSpec_DeepCopyInto M = copy_fields [(''NetworkZones'', copy_slice), (''Labels'', copy_map (map_order M))]"

definition HCloudNetworkSpec_DeepCopy :: "Meta \<Rightarrow> copier" where
  "HCloudNetworkSpec_DeepCopy M = deep_copy (HCloudNetworkSpec_DeepCopyInto M)"

definition HCloudNetworkStatus_type :: "Meta \<Rightarrow> ty" where
  "HCloudNetworkStatus_type M = StructOf [(''NetworkID'', Basic), (''IPRange'', Basic), (''SubnetZones'', SliceOf Basic),
     (''Conditions'', SliceOf (Condition_type M))]"

definition HCloudNetworkStatus_DeepCopyInto :: "Meta \<Rightarrow> copier" where
  "HCloudNetworkStatus_DeepCopyInto M = copy_fields [(''SubnetZones'', copy_slice), (''Conditions'', copy_each (Condition_DeepCopyInto M))]"

definition HCloudNetworkStatus_DeepCopy :: "Meta \<Rightarrow> copier" where
  "HCloudNetworkStatus_DeepCopy M = deep_copy (HCloudNetworkStatus_DeepCopyInto M)"

definition HCloudNetwork_type :: "Meta \<Rightarrow> ty" where
  "HCloudNetwork_type M = StructOf [(''TypeMeta'', TypeMeta_type), (''ObjectMeta'', ObjectMeta_type M), (''Spec'', HCloudNetworkSpec_type M),
     (''Status'', HCloudNetworkStatus_type M)]"

definition HCloudNetwork_DeepCopyInto :: "Meta \<Rightarrow> copier" where
  "HCloudNetwork_DeepCopyInto M = copy_fields [(''TypeMeta'', ret), (''ObjectMeta'', ObjectMeta_DeepCopyInto M),
     (''Spec'', HCloudNetworkSpec_DeepCopyInto M), (''Status'', HCloudNetworkStatus_DeepCopyInto M)]"

definition HCloudNetwork_DeepCopy :: "Meta \<Rightarrow> copier" where
  "HCloudNetwork_DeepCopy M = deep_copy (HCloudNetwork_DeepCopyInto M)"

definition HCloudNetwork_DeepCopyObject :: "Meta \<Rightarrow> val \<Rightarrow> (heap, val option) prog" where
  "HCloudNetwork_DeepCopyObject M = copy_object (HCloudNetwork_DeepCopy M)"

definition HCloudNetworkList_type :: "Meta \<Rightarrow> ty" where
  "HCloudNetworkList_type M = StructOf [(''TypeMeta'', TypeMeta_type), (''ListMeta'', ListMeta_type M), (''Items'', SliceOf (HCloudNetwork_type M))]"

definition HCloudNetworkList_DeepCopyInto :: "Meta \<Rightarrow> copier" where
  "HCloudNetworkList_DeepCopyInto M = copy_fields [(''TypeMeta'', ret), (''ListMeta'', ListMeta_DeepCopyInto M),
     (''Items'', copy_each (HCloudNetwork_DeepCopyInto M))]"

definition HCloudNetworkList_DeepCopy :: "Meta \<Rightarrow> copier" where
  "HCloudNetworkList_DeepCopy M = deep_copy (HCloudNetworkList_DeepCopyInto M)"

definition HCloudNetworkList_DeepCopyObject :: "Meta \<Rightarrow> val \<Rightarrow> (heap, val option) prog" where
  "HCloudNetworkList_DeepCopyObject M = copy_object (HCloudNetworkList_DeepCopy M)"

definition HCloudPlacementGroupSpec_type :: "Meta \<Rightarrow> ty" where
  "HCloudPlacementGroupSpec_type M = StructOf [(''Type'', Basic), (''Labels'', StringMap)]"

definition HCloudPlacementGroupSpec_DeepCopyInto :: "Meta \<Rightarrow> copier" where
  "HCloudPlacementGroupSpec_DeepCopyInto M = copy_fields [(''Labels'', copy_map (map_order M))]"

definition HCloudPlacementGroupSpec_DeepCopy :: "Meta \<Rightarrow> copier" where
  "HCloudPlacementGroupSpec_DeepCopy M = deep_copy (HCloudPlacementGroupSpec_DeepCopyInto M)"

definition HCloudPlacementGroupStatus_type :: "Meta \<Rightarrow> ty" where
  "HCloudPlacementGroupStatus_type M = StructOf [(''PlacementGroupID'', Basic), (''Type'', Basic), (''Conditions'', SliceOf (Condition_type M))]"

definition HCloudPlacementGroupStatus_DeepCopyInto :: "Meta \<Rightarrow> copier" where
  "HCloudPlacementGroupStatus_DeepCopyInto M = copy_fields [(''Conditions'', copy_each (Condition_DeepCopyInto M))]"

definition HCloudPlacementGroupStatus_DeepCopy :: "Meta \<Rightarrow> copier" where
  "HCloudPlacementGroupStatus_DeepCopy M = deep_copy (HCloudPlacementGroupStatus_DeepCopyInto M)"

definition HCloudPlacementGroup_type :: "Meta \<Rightarrow> ty" where
  "HCloudPlacementGroup_type M = StructOf [(''TypeMeta'', TypeMeta_type), (''ObjectMeta'', ObjectMeta_type M),
     (''Spec'', HCloudPlacementGroupSpec_type M), (''Status'', HCloudPlacementGroupStatus_type M)]"

definition HCloudPlacementGroup_DeepCopyInto :: "Meta \<Rightarrow> copier" where
  "HCloudPlacementGroup_DeepCopyInto M = copy_fields [(''TypeMeta'', ret), (''ObjectMeta'', ObjectMeta_DeepCopyInto M),
     (''Spec'', HCloudPlacementGroupSpec_DeepCopyInto M),
     (''Status'', HCloudPlacementGroupStatus_DeepCopyInto M)]"

definition HCloudPlacementGroup_DeepCopy :: "Meta \<Rightarrow> copier" where
  "HCloudPlacementGroup_DeepCopy M = deep_copy (HCloudPlacementGroup_DeepCopyInto M)"

definition HCloudPlacementGroup_DeepCopyObject :: "Meta \<Rightarrow> val \<Rightarrow> (heap, val option) prog" where
  "HCloudPlacementGroup_DeepCopyObject M = copy_object (HCloudPlacementGroup_DeepCopy M)"

definition HCloudPlacementGroupList_type :: "Meta \<Rightarrow> ty" where
  "HCloudPlacementGroupList_type M = StructOf [(''TypeMeta'', TypeMeta_type), (''ListMeta'', ListMeta_type M),
     (''Items'', SliceOf (HCloudPlacementGroup_type M))]"

definition HCloudPlacementGroupList_DeepCopyInto :: "Meta \<Rightarrow> copier" where
  "HCloudPlacementGroupList_DeepCopyInto M = copy_fields [(''TypeMeta'', ret), (''ListMeta'', ListMeta_DeepCopyInto M),
     (''Items'', copy_each (HCloudPlacementGroup_DeepCopyInto M))]"

definition HCloudPlacementGroupList_DeepCopy :: "Meta \<Rightarrow> copier" where
  "HCloudPlacementGroupList_DeepCopy M = deep_copy (HCloudPlacementGroupList_DeepCopyInto M)"

definition HCloudPlacementGroupList_DeepCopyObject :: "Meta \<Rightarrow> val \<Rightarrow> (heap, val option) prog" where
  "HCloudPlacementGroupList_DeepCopyObject M = copy_object (HCloudPlacementGroupList_DeepCopy M)"

definition HCloudPrimaryIPSpec_type :: "Meta \<Rightarrow> ty" where
  "HCloudPrimaryIPSpec_type M = StructOf [(''Type'', Basic), (''Datacenter'', Basic), (''ServerRef'', PointerTo LocalObjectReference_type),
     (''AutoDelete'', PointerTo Basic), (''DNSPtr'', PointerTo Basic), (''Labels'', StringMap)]"

definition HCloudPrimaryIPSpec_DeepCopyInto :: "Meta \<Rightarrow> copier" where
  "HCloudPrimaryIPSpec_DeepCopyInto M = copy_fields [(''ServerRef'', copy_pointer ret), (''AutoDelete'', copy_pointer ret), (''DNSPtr'', copy_pointer ret),
     (''Labels'', copy_map (map_order M))]"

definition HCloudPrimaryIPSpec_DeepCopy :: "Meta \<Rightarrow> copier" where
  "HCloudPrimaryIPSpec_DeepCopy M = deep_copy (HCloudPrimaryIPSpec_DeepCopyInto M)"

definition HCloudPrimaryIPStatus_type :: "Meta \<Rightarrow> ty" where
  "HCloudPrimaryIPStatus_type M = StructOf [(''PrimaryIPID'', Basic), (''IP'', Basic), (''Datacenter'', Basic), (''AppliedAssigneeID'', Basic),
     (''Conditions'', SliceOf (Condition_type M))]"

definition HCloudPrimaryIPStatus_DeepCopyInto :: "Meta \<Rightarrow> copier" where
  "HCloudPrimaryIPStatus_DeepCopyInto M = copy_fields [(''Conditions'', copy_each (Condition_DeepCopyInto M))]"

definition HCloudPrimaryIPStatus_DeepCopy :: "Meta \<Rightarrow> copier" where
  "HCloudPrimaryIPStatus_DeepCopy M = deep_copy (HCloudPrimaryIPStatus_DeepCopyInto M)"

definition HCloudPrimaryIP_type :: "Meta \<Rightarrow> ty" where
  "HCloudPrimaryIP_type M = StructOf [(''TypeMeta'', TypeMeta_type), (''ObjectMeta'', ObjectMeta_type M), (''Spec'', HCloudPrimaryIPSpec_type M),
     (''Status'', HCloudPrimaryIPStatus_type M)]"

definition HCloudPrimaryIP_DeepCopyInto :: "Meta \<Rightarrow> copier" where
  "HCloudPrimaryIP_DeepCopyInto M = copy_fields [(''TypeMeta'', ret), (''ObjectMeta'', ObjectMeta_DeepCopyInto M),
     (''Spec'', HCloudPrimaryIPSpec_DeepCopyInto M), (''Status'', HCloudPrimaryIPStatus_DeepCopyInto M)]"

definition HCloudPrimaryIP_DeepCopy :: "Meta \<Rightarrow> copier" where
  "HCloudPrimaryIP_DeepCopy M = deep_copy (HCloudPrimaryIP_DeepCopyInto M)"

definition HCloudPrimaryIP_DeepCopyObject :: "Meta \<Rightarrow> val \<Rightarrow> (heap, val option) prog" where
  "HCloudPrimaryIP_DeepCopyObject M = copy_object (HCloudPrimaryIP_DeepCopy M)"

definition HCloudPrimaryIPList_type :: "Meta \<Rightarrow> ty" where
  "HCloudPrimaryIPList_type M = StructOf [(''TypeMeta'', TypeMeta_type), (''ListMeta'', ListMeta_type M),
     (''Items'', SliceOf (HCloudPrimaryIP_type M))]"

definition HCloudPrimaryIPList_DeepCopyInto :: "Meta \<Rightarrow> copier" where
  "HCloudPrimaryIPList_DeepCopyInto M = copy_fields [(''TypeMeta'', ret), (''ListMeta'', ListMeta_DeepCopyInto M),
     (''Items'', copy_each (HCloudPrimaryIP_DeepCopyInto M))]"

definition HCloudPrimaryIPList_DeepCopy :: "Meta \<Rightarrow> copier" where
  "HCloudPrimaryIPList_DeepCopy M = deep_copy (HCloudPrimaryIPList_DeepCopyInto M)"

definition HCloudPrimaryIPList_DeepCopyObject :: "Meta \<Rightarrow> val \<Rightarrow> (heap, val option) prog" where
  "HCloudPrimaryIPList_DeepCopyObject M = copy_object (HCloudPrimaryIPList_DeepCopy M)"

definition HCloudServerSpec_type :: "Meta \<Rightarrow> ty" where
  "HCloudServerSpec_type M = StructOf [(''ServerType'', Basic), (''Image'', Basic), (''Location'', Basic), (''Labels'', StringMap),
     (''SSHKeys'', SliceOf Basic), (''UserData'', Basic), (''NetworkRef'', PointerTo LocalObjectReference_type),
     (''PlacementGroupRef'', PointerTo LocalObjectReference_type), (''UpgradeDisk'', Basic)]"

definition HCloudServerSpec_DeepCopyInto :: "Meta \<Rightarrow> copier" where
  "HCloudServerSpec_DeepCopyInto M = copy_fields [(''Labels'', copy_map (map_order M)), (''SSHKeys'', copy_slice), (''NetworkRef'', copy_pointer ret),
     (''PlacementGroupRef'', copy_pointer ret)]"

definition HCloudServerSpec_DeepCopy :: "Meta \<Rightarrow> copier" where
  "HCloudServerSpec_DeepCopy M = deep_copy (HCloudServerSpec_DeepCopyInto M)"

definition HCloudServerStatus_type :: "Meta \<Rightarrow> ty" where
  "HCloudServerStatus_type M = StructOf [(''ServerID'', Basic), (''State'', Basic), (''AppliedServerType'', Basic), (''PublicIPv4'', Basic),
     (''PublicIPv6'', Basic), (''AppliedNetworkID'', Basic), (''AppliedPlacementGroupID'', Basic),
     (''Conditions'', SliceOf (Condition_type M))]"

definition HCloudServerStatus_DeepCopyInto :: "Meta \<Rightarrow> copier" where
  "HCloudServerStatus_DeepCopyInto M = copy_fields [(''Conditions'', copy_each (Condition_DeepCopyInto M))]"

definition HCloudServerStatus_DeepCopy :: "Meta \<Rightarrow> copier" where
  "HCloudServerStatus_DeepCopy M = deep_copy (HCloudServerStatus_DeepCopyInto M)"

definition HCloudServer_type :: "Meta \<Rightarrow> ty" where
  "HCloudServer_type M = StructOf [(''TypeMeta'', TypeMeta_type), (''ObjectMeta'', ObjectMeta_type M), (''Spec'', HCloudServerSpec_type M),
     (''Status'', HCloudServerStatus_type M)]"

definition HCloudServer_DeepCopyInto :: "Meta \<Rightarrow> copier" where
  "HCloudServer_DeepCopyInto M = copy_fields [(''TypeMeta'', ret), (''ObjectMeta'', ObjectMeta_DeepCopyInto M),
     (''Spec'', HCloudServerSpec_DeepCopyInto M), (''Status'', HCloudServerStatus_DeepCopyInto M)]"

definition HCloudServer_DeepCopy :: "Meta \<Rightarrow> copier" where
  "HCloudServer_DeepCopy M = deep_copy (HCloudServer_DeepCopyInto M)"

definition HCloudServer_DeepCopyObject :: "Meta \<Rightarrow> val \<Rightarrow> (heap, val option) prog" where
  "HCloudServer_DeepCopyObject M = copy_object (HCloudServer_DeepCopy M)"

definition HCloudServerList_type :: "Meta \<Rightarrow> ty" where
  "HCloudServerList_type M = StructOf [(''TypeMeta'', TypeMeta_type), (''ListMeta'', ListMeta_type M), (''Items'', SliceOf (HCloudServer_type M))]"

definition HCloudServerList_DeepCopyInto :: "Meta \<Rightarrow> copier" where
  "HCloudServerList_DeepCopyInto M = copy_fields [(''TypeMeta'', ret), (''ListMeta'', ListMeta_DeepCopyInto M),
     (''Items'', copy_each (HCloudServer_DeepCopyInto M))]"

definition HCloudServerList_DeepCopy :: "Meta \<Rightarrow> copier" where
  "HCloudServerList_DeepCopy M = deep_copy (HCloudServerList_DeepCopyInto M)"

definition HCloudServerList_DeepCopyObject :: "Meta \<Rightarrow> val \<Rightarrow> (heap, val option) prog" where
  "HCloudServerList_DeepCopyObject M = copy_object (HCloudServerList_DeepCopy M)"

definition HCloudVolumeSpec_type :: "Meta \<Rightarrow> ty" where
  "HCloudVolumeSpec_type M = StructOf [(''Size'', Basic), (''Location'', Basic), (''ServerRef'', PointerTo LocalObjectReference_type),
     (''Format'', Basic), (''Labels'', StringMap)]"

definition HCloudVolumeSpec_DeepCopyInto :: "Meta \<Rightarrow> copier" where
  "HCloudVolumeSpec_DeepCopyInto M = copy_fields [(''ServerRef'', copy_pointer ret), (''Labels'', copy_map (map_order M))]"

definition HCloudVolumeSpec_DeepCopy :: "Meta \<Rightarrow> copier" where
  "HCloudVolumeSpec_DeepCopy M = deep_copy (HCloudVolumeSpec_DeepCopyInto M)"

definition HCloudVolumeStatus_type :: "Meta \<Rightarrow> ty" where
  "HCloudVolumeStatus_type M = StructOf [(''VolumeID'', Basic), (''State'', Basic), (''AttachedServerID'', Basic), (''LinuxDevice'', Basic),
     (''AppliedSize'', Basic), (''Conditions'', SliceOf (Condition_type M))]"

definition HCloudVolumeStatus_DeepCopyInto :: "Meta \<Rightarrow> copier" where
  "HCloudVolumeStatus_DeepCopyInto M = copy_fields [(''Conditions'', copy_each (Condition_DeepCopyInto M))]"

definition HCloudVolumeStatus_DeepCopy :: "Meta \<Rightarrow> copier" where
  "HCloudVolumeStatus_DeepCopy M = deep_copy (HCloudVolumeStatus_DeepCopyInto M)"

definition HCloudVolume_type :: "Meta \<Rightarrow> ty" where
  "HCloudVolume_type M = StructOf [(''TypeMeta'', TypeMeta_type), (''ObjectMeta'', ObjectMeta_type M), (''Spec'', HCloudVolumeSpec_type M),
     (''Status'', HCloudVolumeStatus_type M)]"

definition HCloudVolume_DeepCopyInto :: "Meta \<Rightarrow> copier" where
  "HCloudVolume_DeepCopyInto M = copy_fields [(''TypeMeta'', ret), (''ObjectMeta'', ObjectMeta_DeepCopyInto M),
     (''Spec'', HCloudVolumeSpec_DeepCopyInto M), (''Status'', HCloudVolumeStatus_DeepCopyInto M)]"

definition HCloudVolume_DeepCopy :: "Meta \<Rightarrow> copier" where
  "HCloudVolume_DeepCopy M = deep_copy (HCloudVolume_DeepCopyInto M)"

definition HCloudVolume_DeepCopyObject :: "Meta \<Rightarrow> val \<Rightarrow> (heap, val option) prog" where
  "HCloudVolume_DeepCopyObject M = copy_object (HCloudVolume_DeepCopy M)"

definition HCloudVolumeList_type :: "Meta \<Rightarrow> ty" where
  "HCloudVolumeList_type M = StructOf [(''TypeMeta'', TypeMeta_type), (''ListMeta'', ListMeta_type M), (''Items'', SliceOf (HCloudVolume_type M))]"

definition HCloudVolumeList_DeepCopyInto :: "Meta \<Rightarrow> copier" where
  "HCloudVolumeList_DeepCopyInto M = copy_fields [(''TypeMeta'', ret), (''ListMeta'', ListMeta_DeepCopyInto M),
     (''Items'', copy_each (HCloudVolume_DeepCopyInto M))]"

definition HCloudVolumeList_DeepCopy :: "Meta \<Rightarrow> copier" where
  "HCloudVolumeList_DeepCopy M = deep_copy (HCloudVolumeList_DeepCopyInto M)"

definition HCloudVolumeList_DeepCopyObject :: "Meta \<Rightarrow> val \<Rightarrow> (heap, val option) prog" where
  "HCloudVolumeList_DeepCopyObject M = copy_object (HCloudVolumeList_DeepCopy M)"

section \<open>They are deep copies\<close>

lemma HCloudCertificateSpec_copies:
  assumes "meta_law M"
  shows "copies (HCloudCertificateSpec_type M) (HCloudCertificateSpec_DeepCopyInto M)"
  by (rule struct_copies[OF HCloudCertificateSpec_type_def HCloudCertificateSpec_DeepCopyInto_def])
    (simp_all add: copy_rules meta_lawD[OF assms])

lemma HCloudCertificateStatus_copies:
  assumes "meta_law M"
  shows "copies (HCloudCertificateStatus_type M) (HCloudCertificateStatus_DeepCopyInto M)"
  by (rule struct_copies[OF HCloudCertificateStatus_type_def HCloudCertificateStatus_DeepCopyInto_def])
    (simp_all add: copy_rules meta_lawD[OF assms])

lemma HCloudCertificate_copies:
  assumes "meta_law M"
  shows "copies (HCloudCertificate_type M) (HCloudCertificate_DeepCopyInto M)"
  by (rule struct_copies[OF HCloudCertificate_type_def HCloudCertificate_DeepCopyInto_def])
    (simp_all add: copy_rules meta_lawD[OF assms] HCloudCertificateSpec_copies[OF assms] HCloudCertificateStatus_copies[OF assms])

lemma HCloudCertificateList_copies:
  assumes "meta_law M"
  shows "copies (HCloudCertificateList_type M) (HCloudCertificateList_DeepCopyInto M)"
  by (rule struct_copies[OF HCloudCertificateList_type_def HCloudCertificateList_DeepCopyInto_def])
    (simp_all add: copy_rules meta_lawD[OF assms] HCloudCertificate_copies[OF assms])

lemma HCloudFirewallRule_copies:
  assumes "meta_law M"
  shows "copies (HCloudFirewallRule_type M) (HCloudFirewallRule_DeepCopyInto M)"
  by (rule struct_copies[OF HCloudFirewallRule_type_def HCloudFirewallRule_DeepCopyInto_def])
    (simp_all add: copy_rules meta_lawD[OF assms])

lemma HCloudFirewallApplyTo_copies:
  assumes "meta_law M"
  shows "copies (HCloudFirewallApplyTo_type M) (HCloudFirewallApplyTo_DeepCopyInto M)"
  by (rule struct_copies[OF HCloudFirewallApplyTo_type_def HCloudFirewallApplyTo_DeepCopyInto_def])
    (simp_all add: copy_rules meta_lawD[OF assms])

lemma HCloudFirewallSpec_copies:
  assumes "meta_law M"
  shows "copies (HCloudFirewallSpec_type M) (HCloudFirewallSpec_DeepCopyInto M)"
  by (rule struct_copies[OF HCloudFirewallSpec_type_def HCloudFirewallSpec_DeepCopyInto_def])
    (simp_all add: copy_rules meta_lawD[OF assms] HCloudFirewallRule_copies[OF assms] HCloudFirewallApplyTo_copies[OF assms])

lemma HCloudFirewallStatus_copies:
  assumes "meta_law M"
  shows "copies (HCloudFirewallStatus_type M) (HCloudFirewallStatus_DeepCopyInto M)"
  by (rule struct_copies[OF HCloudFirewallStatus_type_def HCloudFirewallStatus_DeepCopyInto_def])
    (simp_all add: copy_rules meta_lawD[OF assms])

lemma HCloudFirewall_copies:
  assumes "meta_law M"
  shows "copies (HCloudFirewall_type M) (HCloudFirewall_DeepCopyInto M)"
  by (rule struct_copies[OF HCloudFirewall_type_def HCloudFirewall_DeepCopyInto_def])
    (simp_all add: copy_rules meta_lawD[OF assms] HCloudFirewallSpec_copies[OF assms] HCloudFirewallStatus_copies[OF assms])

lemma HCloudFirewallList_copies:
  assumes "meta_law M"
  shows "copies (HCloudFirewallList_type M) (HCloudFirewallList_DeepCopyInto M)"
  by (rule struct_copies[OF HCloudFirewallList_type_def HCloudFirewallList_DeepCopyInto_def])
    (simp_all add: copy_rules meta_lawD[OF assms] HCloudFirewall_copies[OF assms])

lemma HCloudFloatingIPSpec_copies:
  assumes "meta_law M"
  shows "copies (HCloudFloatingIPSpec_type M) (HCloudFloatingIPSpec_DeepCopyInto M)"
  by (rule struct_copies[OF HCloudFloatingIPSpec_type_def HCloudFloatingIPSpec_DeepCopyInto_def])
    (simp_all add: copy_rules meta_lawD[OF assms])

lemma HCloudFloatingIPStatus_copies:
  assumes "meta_law M"
  shows "copies (HCloudFloatingIPStatus_type M) (HCloudFloatingIPStatus_DeepCopyInto M)"
  by (rule struct_copies[OF HCloudFloatingIPStatus_type_def HCloudFloatingIPStatus_DeepCopyInto_def])
    (simp_all add: copy_rules meta_lawD[OF assms])

lemma HCloudFloatingIP_copies:
  assumes "meta_law M"
  shows "copies (HCloudFloatingIP_type M) (HCloudFloatingIP_DeepCopyInto M)"
  by (rule struct_copies[OF HCloudFloatingIP_type_def HCloudFloatingIP_DeepCopyInto_def])
    (simp_all add: copy_rules meta_lawD[OF assms] HCloudFloatingIPSpec_copies[OF assms] HCloudFloatingIPStatus_copies[OF assms])

lemma HCloudFloatingIPList_copies:
  assumes "meta_law M"
  shows "copies (HCloudFloatingIPList_type M) (HCloudFloatingIPList_DeepCopyInto M)"
  by (rule struct_copies[OF HCloudFloatingIPList_type_def HCloudFloatingIPList_DeepCopyInto_def])
    (simp_all add: copy_rules meta_lawD[OF assms] HCloudFloatingIP_copies[OF assms])

lemma HCloudLoadBalancerHealthCheckHTTPSpec_copies:
  assumes "meta_law M"
  shows "copies (HCloudLoadBalancerHealthCheckHTTPSpec_type M) (HCloudLoadBalancerHealthCheckHTTPSpec_DeepCopyInto M)"
  by (rule struct_copies[OF HCloudLoadBalancerHealthCheckHTTPSpec_type_def HCloudLoadBalancerHealthCheckHTTPSpec_DeepCopyInto_def])
    (simp_all add: copy_rules meta_lawD[OF assms])

lemma HCloudLoadBalancerHealthCheckSpec_copies:
  assumes "meta_law M"
  shows "copies (HCloudLoadBalancerHealthCheckSpec_type M) (HCloudLoadBalancerHealthCheckSpec_DeepCopyInto M)"
  by (rule struct_copies[OF HCloudLoadBalancerHealthCheckSpec_type_def HCloudLoadBalancerHealthCheckSpec_DeepCopyInto_def])
    (simp_all add: copy_rules meta_lawD[OF assms] HCloudLoadBalancerHealthCheckHTTPSpec_copies[OF assms])

lemma HCloudLoadBalancerServiceSpec_copies:
  assumes "meta_law M"
  shows "copies (HCloudLoadBalancerServiceSpec_type M) (HCloudLoadBalancerServiceSpec_DeepCopyInto M)"
  by (rule struct_copies[OF HCloudLoadBalancerServiceSpec_type_def HCloudLoadBalancerServiceSpec_DeepCopyInto_def])
    (simp_all add: copy_rules meta_lawD[OF assms] HCloudLoadBalancerHealthCheckSpec_copies[OF assms])

lemma HCloudLoadBalancerSpec_copies:
  assumes "meta_law M"
  shows "copies (HCloudLoadBalancerSpec_type M) (HCloudLoadBalancerSpec_DeepCopyInto M)"
  by (rule struct_copies[OF HCloudLoadBalancerSpec_type_def HCloudLoadBalancerSpec_DeepCopyInto_def])
    (simp_all add: copy_rules meta_lawD[OF assms] HCloudLoadBalancerServiceSpec_copies[OF assms])

lemma HCloudLoadBalancerStatus_copies:
  assumes "meta_law M"
  shows "copies (HCloudLoadBalancerStatus_type M) (HCloudLoadBalancerStatus_DeepCopyInto M)"
  by (rule struct_copies[OF HCloudLoadBalancerStatus_type_def HCloudLoadBalancerStatus_DeepCopyInto_def])
    (simp_all add: copy_rules meta_lawD[OF assms])

lemma HCloudLoadBalancer_copies:
  assumes "meta_law M"
  shows "copies (HCloudLoadBalancer_type M) (HCloudLoadBalancer_DeepCopyInto M)"
  by (rule struct_copies[OF HCloudLoadBalancer_type_def HCloudLoadBalancer_DeepCopyInto_def])
    (simp_all add: copy_rules meta_lawD[OF assms] HCloudLoadBalancerSpec_copies[OF assms] HCloudLoadBalancerStatus_copies[OF assms])

lemma HCloudLoadBalancerList_copies:
  assumes "meta_law M"
  shows "copies (HCloudLoadBalancerList_type M) (HCloudLoadBalancerList_DeepCopyInto M)"
  by (rule struct_copies[OF HCloudLoadBalancerList_type_def HCloudLoadBalancerList_DeepCopyInto_def])
    (simp_all add: copy_rules meta_lawD[OF assms] HCloudLoadBalancer_copies[OF assms])

lemma HCloudNetworkSpec_copies:
  assumes "meta_law M"
  shows "copies (HCloudNetworkSpec_type M) (HCloudNetworkSpec_DeepCopyInto M)"
  by (rule struct_copies[OF HCloudNetworkSpec_type_def HCloudNetworkSpec_DeepCopyInto_def])
    (simp_all add: copy_rules meta_lawD[OF assms])

lemma HCloudNetworkStatus_copies:
  assumes "meta_law M"
  shows "copies (HCloudNetworkStatus_type M) (HCloudNetworkStatus_DeepCopyInto M)"
  by (rule struct_copies[OF HCloudNetworkStatus_type_def HCloudNetworkStatus_DeepCopyInto_def])
    (simp_all add: copy_rules meta_lawD[OF assms])

lemma HCloudNetwork_copies:
  assumes "meta_law M"
  shows "copies (HCloudNetwork_type M) (HCloudNetwork_DeepCopyInto M)"
  by (rule struct_copies[OF HCloudNetwork_type_def HCloudNetwork_DeepCopyInto_def])
    (simp_all add: copy_rules meta_lawD[OF assms] HCloudNetworkSpec_copies[OF assms] HCloudNetworkStatus_copies[OF assms])

lemma HCloudNetworkList_copies:
  assumes "meta_law M"
  shows "copies (HCloudNetworkList_type M) (HCloudNetworkList_DeepCopyInto M)"
  by (rule struct_copies[OF HCloudNetworkList_type_def HCloudNetworkList_DeepCopyInto_def])
    (simp_all add: copy_rules meta_lawD[OF assms] HCloudNetwork_copies[OF assms])

lemma HCloudPlacementGroupSpec_copies:
  assumes "meta_law M"
  shows "copies (HCloudPlacementGroupSpec_type M) (HCloudPlacementGroupSpec_DeepCopyInto M)"
  by (rule struct_copies[OF HCloudPlacementGroupSpec_type_def HCloudPlacementGroupSpec_DeepCopyInto_def])
    (simp_all add: copy_rules meta_lawD[OF assms])

lemma HCloudPlacementGroupStatus_copies:
  assumes "meta_law M"
  shows "copies (HCloudPlacementGroupStatus_type M) (HCloudPlacementGroupStatus_DeepCopyInto M)"
  by (rule struct_copies[OF HCloudPlacementGroupStatus_type_def HCloudPlacementGroupStatus_DeepCopyInto_def])
    (simp_all add: copy_rules meta_lawD[OF assms])

lemma HCloudPlacementGroup_copies:
  assumes "meta_law M"
  shows "copies (HCloudPlacementGroup_type M) (HCloudPlacementGroup_DeepCopyInto M)"
  by (rule struct_copies[OF HCloudPlacementGroup_type_def HCloudPlacementGroup_DeepCopyInto_def])
    (simp_all add: copy_rules meta_lawD[OF assms] HCloudPlacementGroupSpec_copies[OF assms] HCloudPlacementGroupStatus_copies[OF assms])

lemma HCloudPlacementGroupList_copies:
  assumes "meta_law M"
  shows "copies (HCloudPlacementGroupList_type M) (HCloudPlacementGroupList_DeepCopyInto M)"
  by (rule struct_copies[OF HCloudPlacementGroupList_type_def HCloudPlacementGroupList_DeepCopyInto_def])
    (simp_all add: copy_rules meta_lawD[OF assms] HCloudPlacementGroup_copies[OF assms])

lemma HCloudPrimaryIPSpec_copies:
  assumes "meta_law M"
  shows "copies (HCloudPrimaryIPSpec_type M) (HCloudPrimaryIPSpec_DeepCopyInto M)"
  by (rule struct_copies[OF HCloudPrimaryIPSpec_type_def HCloudPrimaryIPSpec_DeepCopyInto_def])
    (simp_all add: copy_rules meta_lawD[OF assms])

lemma HCloudPrimaryIPStatus_copies:
  assumes "meta_law M"
  shows "copies (HCloudPrimaryIPStatus_type M) (HCloudPrimaryIPStatus_DeepCopyInto M)"
  by (rule struct_copies[OF HCloudPrimaryIPStatus_type_def HCloudPrimaryIPStatus_DeepCopyInto_def])
    (simp_all add: copy_rules meta_lawD[OF assms])

lemma HCloudPrimaryIP_copies:
  assumes "meta_law M"
  shows "copies (HCloudPrimaryIP_type M) (HCloudPrimaryIP_DeepCopyInto M)"
  by (rule struct_copies[OF HCloudPrimaryIP_type_def HCloudPrimaryIP_DeepCopyInto_def])
    (simp_all add: copy_rules meta_lawD[OF assms] HCloudPrimaryIPSpec_copies[OF assms] HCloudPrimaryIPStatus_copies[OF assms])

lemma HCloudPrimaryIPList_copies:
  assumes "meta_law M"
  shows "copies (HCloudPrimaryIPList_type M) (HCloudPrimaryIPList_DeepCopyInto M)"
  by (rule struct_copies[OF HCloudPrimaryIPList_type_def HCloudPrimaryIPList_DeepCopyInto_def])
    (simp_all add: copy_rules meta_lawD[OF assms] HCloudPrimaryIP_copies[OF assms])

lemma HCloudServerSpec_copies:
  assumes "meta_law M"
  shows "copies (HCloudServerSpec_type M) (HCloudServerSpec_DeepCopyInto M)"
  by (rule struct_copies[OF HCloudServerSpec_type_def HCloudServerSpec_DeepCopyInto_def])
    (simp_all add: copy_rules meta_lawD[OF assms])

lemma HCloudServerStatus_copies:
  assumes "meta_law M"
  shows "copies (HCloudServerStatus_type M) (HCloudServerStatus_DeepCopyInto M)"
  by (rule struct_copies[OF HCloudServerStatus_type_def HCloudServerStatus_DeepCopyInto_def])
    (simp_all add: copy_rules meta_lawD[OF assms])

lemma HCloudServer_copies:
  assumes "meta_law M"
  shows "copies (HCloudServer_type M) (HCloudServer_DeepCopyInto M)"
  by (rule struct_copies[OF HCloudServer_type_def HCloudServer_DeepCopyInto_def])
    (simp_all add: copy_rules meta_lawD[OF assms] HCloudServerSpec_copies[OF assms] HCloudServerStatus_copies[OF assms])

lemma HCloudServerList_copies:
  assumes "meta_law M"
  shows "copies (HCloudServerList_type M) (HCloudServerList_DeepCopyInto M)"
  by (rule struct_copies[OF HCloudServerList_type_def HCloudServerList_DeepCopyInto_def])
    (simp_all add: copy_rules meta_lawD[OF assms] HCloudServer_copies[OF assms])

lemma HCloudVolumeSpec_copies:
  assumes "meta_law M"
  shows "copies (HCloudVolumeSpec_type M) (HCloudVolumeSpec_DeepCopyInto M)"
  by (rule struct_copies[OF HCloudVolumeSpec_type_def HCloudVolumeSpec_DeepCopyInto_def])
    (simp_all add: copy_rules meta_lawD[OF assms])

lemma HCloudVolumeStatus_copies:
  assumes "meta_law M"
  shows "copies (HCloudVolumeStatus_type M) (HCloudVolumeStatus_DeepCopyInto M)"
  by (rule struct_copies[OF HCloudVolumeStatus_type_def HCloudVolumeStatus_DeepCopyInto_def])
    (simp_all add: copy_rules meta_lawD[OF assms])

lemma HCloudVolume_copies:
  assumes "meta_law M"
  shows "copies (HCloudVolume_type M) (HCloudVolume_DeepCopyInto M)"
  by (rule struct_copies[OF HCloudVolume_type_def HCloudVolume_DeepCopyInto_def])
    (simp_all add: copy_rules meta_lawD[OF assms] HCloudVolumeSpec_copies[OF assms] HCloudVolumeStatus_copies[OF assms])

lemma HCloudVolumeList_copies:
  assumes "meta_law M"
  shows "copies (HCloudVolumeList_type M) (HCloudVolumeList_DeepCopyInto M)"
  by (rule struct_copies[OF HCloudVolumeList_type_def HCloudVolumeList_DeepCopyInto_def])
    (simp_all add: copy_rules meta_lawD[OF assms] HCloudVolume_copies[OF assms])

text \<open>All of them, by type: the copies of pointers to structs, and those that return a \<open>runtime.Object\<close>.\<close>

definition deep_copies :: "Meta \<Rightarrow> (ty \<times> copier) list" where
  "deep_copies M = [(HCloudCertificateSpec_type M, HCloudCertificateSpec_DeepCopy M),
     (HCloudCertificateStatus_type M, HCloudCertificateStatus_DeepCopy M),
     (HCloudCertificate_type M, HCloudCertificate_DeepCopy M),
     (HCloudCertificateList_type M, HCloudCertificateList_DeepCopy M),
     (HCloudFirewallRule_type M, HCloudFirewallRule_DeepCopy M),
     (HCloudFirewallApplyTo_type M, HCloudFirewallApplyTo_DeepCopy M),
     (HCloudFirewallSpec_type M, HCloudFirewallSpec_DeepCopy M),
     (HCloudFirewallStatus_type M, HCloudFirewallStatus_DeepCopy M),
     (HCloudFirewall_type M, HCloudFirewall_DeepCopy M),
     (HCloudFirewallList_type M, HCloudFirewallList_DeepCopy M),
     (HCloudFloatingIPSpec_type M, HCloudFloatingIPSpec_DeepCopy M),
     (HCloudFloatingIPStatus_type M, HCloudFloatingIPStatus_DeepCopy M),
     (HCloudFloatingIP_type M, HCloudFloatingIP_DeepCopy M),
     (HCloudFloatingIPList_type M, HCloudFloatingIPList_DeepCopy M),
     (HCloudLoadBalancerHealthCheckHTTPSpec_type M, HCloudLoadBalancerHealthCheckHTTPSpec_DeepCopy M),
     (HCloudLoadBalancerHealthCheckSpec_type M, HCloudLoadBalancerHealthCheckSpec_DeepCopy M),
     (HCloudLoadBalancerServiceSpec_type M, HCloudLoadBalancerServiceSpec_DeepCopy M),
     (HCloudLoadBalancerSpec_type M, HCloudLoadBalancerSpec_DeepCopy M),
     (HCloudLoadBalancerStatus_type M, HCloudLoadBalancerStatus_DeepCopy M),
     (HCloudLoadBalancer_type M, HCloudLoadBalancer_DeepCopy M),
     (HCloudLoadBalancerList_type M, HCloudLoadBalancerList_DeepCopy M),
     (HCloudNetworkSpec_type M, HCloudNetworkSpec_DeepCopy M),
     (HCloudNetworkStatus_type M, HCloudNetworkStatus_DeepCopy M),
     (HCloudNetwork_type M, HCloudNetwork_DeepCopy M), (HCloudNetworkList_type M, HCloudNetworkList_DeepCopy M),
     (HCloudPlacementGroupSpec_type M, HCloudPlacementGroupSpec_DeepCopy M),
     (HCloudPlacementGroupStatus_type M, HCloudPlacementGroupStatus_DeepCopy M),
     (HCloudPlacementGroup_type M, HCloudPlacementGroup_DeepCopy M),
     (HCloudPlacementGroupList_type M, HCloudPlacementGroupList_DeepCopy M),
     (HCloudPrimaryIPSpec_type M, HCloudPrimaryIPSpec_DeepCopy M),
     (HCloudPrimaryIPStatus_type M, HCloudPrimaryIPStatus_DeepCopy M),
     (HCloudPrimaryIP_type M, HCloudPrimaryIP_DeepCopy M),
     (HCloudPrimaryIPList_type M, HCloudPrimaryIPList_DeepCopy M),
     (HCloudServerSpec_type M, HCloudServerSpec_DeepCopy M),
     (HCloudServerStatus_type M, HCloudServerStatus_DeepCopy M), (HCloudServer_type M, HCloudServer_DeepCopy M),
     (HCloudServerList_type M, HCloudServerList_DeepCopy M),
     (HCloudVolumeSpec_type M, HCloudVolumeSpec_DeepCopy M),
     (HCloudVolumeStatus_type M, HCloudVolumeStatus_DeepCopy M), (HCloudVolume_type M, HCloudVolume_DeepCopy M),
     (HCloudVolumeList_type M, HCloudVolumeList_DeepCopy M)]"

definition object_copies :: "Meta \<Rightarrow> (ty \<times> (val \<Rightarrow> (heap, val option) prog)) list" where
  "object_copies M = [(HCloudCertificate_type M, HCloudCertificate_DeepCopyObject M),
     (HCloudCertificateList_type M, HCloudCertificateList_DeepCopyObject M),
     (HCloudFirewall_type M, HCloudFirewall_DeepCopyObject M),
     (HCloudFirewallList_type M, HCloudFirewallList_DeepCopyObject M),
     (HCloudFloatingIP_type M, HCloudFloatingIP_DeepCopyObject M),
     (HCloudFloatingIPList_type M, HCloudFloatingIPList_DeepCopyObject M),
     (HCloudLoadBalancer_type M, HCloudLoadBalancer_DeepCopyObject M),
     (HCloudLoadBalancerList_type M, HCloudLoadBalancerList_DeepCopyObject M),
     (HCloudNetwork_type M, HCloudNetwork_DeepCopyObject M),
     (HCloudNetworkList_type M, HCloudNetworkList_DeepCopyObject M),
     (HCloudPlacementGroup_type M, HCloudPlacementGroup_DeepCopyObject M),
     (HCloudPlacementGroupList_type M, HCloudPlacementGroupList_DeepCopyObject M),
     (HCloudPrimaryIP_type M, HCloudPrimaryIP_DeepCopyObject M),
     (HCloudPrimaryIPList_type M, HCloudPrimaryIPList_DeepCopyObject M),
     (HCloudServer_type M, HCloudServer_DeepCopyObject M),
     (HCloudServerList_type M, HCloudServerList_DeepCopyObject M),
     (HCloudVolume_type M, HCloudVolume_DeepCopyObject M),
     (HCloudVolumeList_type M, HCloudVolumeList_DeepCopyObject M)]"

lemma deep_copies_copy:
  assumes "meta_law M"
  shows "list_all (\<lambda>(T, f). copies (PointerTo T) f) (deep_copies M)"
  unfolding deep_copies_def all_of prod.case HCloudCertificateSpec_DeepCopy_def HCloudCertificateStatus_DeepCopy_def HCloudCertificate_DeepCopy_def
    HCloudCertificateList_DeepCopy_def HCloudFirewallRule_DeepCopy_def HCloudFirewallApplyTo_DeepCopy_def
    HCloudFirewallSpec_DeepCopy_def HCloudFirewallStatus_DeepCopy_def HCloudFirewall_DeepCopy_def
    HCloudFirewallList_DeepCopy_def HCloudFloatingIPSpec_DeepCopy_def HCloudFloatingIPStatus_DeepCopy_def
    HCloudFloatingIP_DeepCopy_def HCloudFloatingIPList_DeepCopy_def
    HCloudLoadBalancerHealthCheckHTTPSpec_DeepCopy_def HCloudLoadBalancerHealthCheckSpec_DeepCopy_def
    HCloudLoadBalancerServiceSpec_DeepCopy_def HCloudLoadBalancerSpec_DeepCopy_def
    HCloudLoadBalancerStatus_DeepCopy_def HCloudLoadBalancer_DeepCopy_def HCloudLoadBalancerList_DeepCopy_def
    HCloudNetworkSpec_DeepCopy_def HCloudNetworkStatus_DeepCopy_def HCloudNetwork_DeepCopy_def
    HCloudNetworkList_DeepCopy_def HCloudPlacementGroupSpec_DeepCopy_def HCloudPlacementGroupStatus_DeepCopy_def
    HCloudPlacementGroup_DeepCopy_def HCloudPlacementGroupList_DeepCopy_def HCloudPrimaryIPSpec_DeepCopy_def
    HCloudPrimaryIPStatus_DeepCopy_def HCloudPrimaryIP_DeepCopy_def HCloudPrimaryIPList_DeepCopy_def
    HCloudServerSpec_DeepCopy_def HCloudServerStatus_DeepCopy_def HCloudServer_DeepCopy_def
    HCloudServerList_DeepCopy_def HCloudVolumeSpec_DeepCopy_def HCloudVolumeStatus_DeepCopy_def
    HCloudVolume_DeepCopy_def HCloudVolumeList_DeepCopy_def
  by (intro conjI TrueI copies_new assms
    HCloudCertificateSpec_copies HCloudCertificateStatus_copies HCloudCertificate_copies
    HCloudCertificateList_copies HCloudFirewallRule_copies HCloudFirewallApplyTo_copies
    HCloudFirewallSpec_copies HCloudFirewallStatus_copies HCloudFirewall_copies HCloudFirewallList_copies
    HCloudFloatingIPSpec_copies HCloudFloatingIPStatus_copies HCloudFloatingIP_copies
    HCloudFloatingIPList_copies HCloudLoadBalancerHealthCheckHTTPSpec_copies
    HCloudLoadBalancerHealthCheckSpec_copies HCloudLoadBalancerServiceSpec_copies HCloudLoadBalancerSpec_copies
    HCloudLoadBalancerStatus_copies HCloudLoadBalancer_copies HCloudLoadBalancerList_copies
    HCloudNetworkSpec_copies HCloudNetworkStatus_copies HCloudNetwork_copies HCloudNetworkList_copies
    HCloudPlacementGroupSpec_copies HCloudPlacementGroupStatus_copies HCloudPlacementGroup_copies
    HCloudPlacementGroupList_copies HCloudPrimaryIPSpec_copies HCloudPrimaryIPStatus_copies
    HCloudPrimaryIP_copies HCloudPrimaryIPList_copies HCloudServerSpec_copies HCloudServerStatus_copies
    HCloudServer_copies HCloudServerList_copies HCloudVolumeSpec_copies HCloudVolumeStatus_copies
    HCloudVolume_copies HCloudVolumeList_copies)

lemma object_copies_copy:
  assumes "meta_law M"
  shows "list_all (\<lambda>(T, g). copies_object T g) (object_copies M)"
  unfolding object_copies_def all_of prod.case HCloudCertificate_DeepCopyObject_def HCloudCertificateList_DeepCopyObject_def
    HCloudFirewall_DeepCopyObject_def HCloudFirewallList_DeepCopyObject_def HCloudFloatingIP_DeepCopyObject_def
    HCloudFloatingIPList_DeepCopyObject_def HCloudLoadBalancer_DeepCopyObject_def
    HCloudLoadBalancerList_DeepCopyObject_def HCloudNetwork_DeepCopyObject_def
    HCloudNetworkList_DeepCopyObject_def HCloudPlacementGroup_DeepCopyObject_def
    HCloudPlacementGroupList_DeepCopyObject_def HCloudPrimaryIP_DeepCopyObject_def
    HCloudPrimaryIPList_DeepCopyObject_def HCloudServer_DeepCopyObject_def HCloudServerList_DeepCopyObject_def
    HCloudVolume_DeepCopyObject_def HCloudVolumeList_DeepCopyObject_def
    HCloudCertificate_DeepCopy_def HCloudCertificateList_DeepCopy_def HCloudFirewall_DeepCopy_def
    HCloudFirewallList_DeepCopy_def HCloudFloatingIP_DeepCopy_def HCloudFloatingIPList_DeepCopy_def
    HCloudLoadBalancer_DeepCopy_def HCloudLoadBalancerList_DeepCopy_def HCloudNetwork_DeepCopy_def
    HCloudNetworkList_DeepCopy_def HCloudPlacementGroup_DeepCopy_def HCloudPlacementGroupList_DeepCopy_def
    HCloudPrimaryIP_DeepCopy_def HCloudPrimaryIPList_DeepCopy_def HCloudServer_DeepCopy_def
    HCloudServerList_DeepCopy_def HCloudVolume_DeepCopy_def HCloudVolumeList_DeepCopy_def
  by (intro conjI TrueI object_copy copies_new assms
    HCloudCertificate_copies HCloudCertificateList_copies HCloudFirewall_copies HCloudFirewallList_copies
    HCloudFloatingIP_copies HCloudFloatingIPList_copies HCloudLoadBalancer_copies HCloudLoadBalancerList_copies
    HCloudNetwork_copies HCloudNetworkList_copies HCloudPlacementGroup_copies HCloudPlacementGroupList_copies
    HCloudPrimaryIP_copies HCloudPrimaryIPList_copies HCloudServer_copies HCloudServerList_copies
    HCloudVolume_copies HCloudVolumeList_copies)

end
