(* ===== verification/DeepCopyProps.thy ===== *)
theory DeepCopyProps
  imports DeepCopies
begin

text \<open>
  Every generated deep copy returns an equal value that shares no cell with the original, so that the
  reconcilers may change what they read from the cache of the manager.
\<close>

text \<open>
  The copy \<open>q\<close> made between two states of memory stands for the same tree in cells that are all new, and
  whatever is written later outside the cells of the one value leaves that value as it was.
\<close>

definition shares_nothing :: "heap \<Rightarrow> heap \<Rightarrow> ty \<Rightarrow> val \<Rightarrow> val \<Rightarrow> tree \<Rightarrow> bool" where
  "shares_nothing h h' T p q t \<longleftrightarrow> repr h' (limit h) (limit h') T q t
     \<and> (\<forall>later. same_cells 0 (limit h) h' later \<longrightarrow> repr later 0 (limit h) T p t)
     \<and> (\<forall>later. same_cells (limit h) (limit h') h' later \<longrightarrow> repr later (limit h) (limit h') T q t)"

lemma copies_share_nothing:
  assumes "copies (PointerTo T) f" "repr h 0 (limit h) (PointerTo T) p t"
  shows "\<exists>q h'. f p h = (Ok q, h') \<and> (p = NilRef \<longleftrightarrow> q = NilRef) \<and> shares_nothing h h' (PointerTo T) p q t"
proof -
  obtain q h' where q: "f p h = (Ok q, h')" "limit h \<le> limit h'" "same_cells 0 (limit h) h h'"
      "repr h' (limit h) (limit h') (PointerTo T) q t"
    using copiesE assms by metis
  have "p = NilRef \<longleftrightarrow> t = Absent" "q = NilRef \<longleftrightarrow> t = Absent"
    using assms(2) q(4) by (auto elim: pointerE)
  moreover have "repr later 0 (limit h) (PointerTo T) p t" if "same_cells 0 (limit h) h' later" for later
    using assms(2) same_cells_trans[OF q(3) that order_refl] by (rule repr_frame) auto
  moreover have "repr later (limit h) (limit h') (PointerTo T) q t" if "same_cells (limit h) (limit h') h' later" for later
    using q(4) that by (rule repr_frame) auto
  ultimately show ?thesis using q unfolding shares_nothing_def by blast
qed

text \<open>C15: \<open>DeepCopy\<close> of every API type, called on a pointer to any value of the type, returns a pointer to
  an equal value all of whose cells are new, so that neither can be changed through the other; and
  \<open>DeepCopyObject\<close> returns such a copy as an interface, the nil interface for a nil pointer.\<close>

theorem deep_copies_share_nothing:
  assumes "meta_law M" and "repr h 0 (limit h) (PointerTo T) p t"
  shows "((T, f) \<in> set (deep_copies M) \<longrightarrow> (\<exists>q h'. f p h = (Ok q, h') \<and> shares_nothing h h' (PointerTo T) p q t))
    \<and> ((T, g) \<in> set (object_copies M) \<longrightarrow> (\<exists>q h'. g p h = (Ok (if p = NilRef then None else Some q), h')
          \<and> shares_nothing h h' (PointerTo T) p q t))"
proof (intro conjI impI)
  assume "(T, f) \<in> set (deep_copies M)"
  then have "copies (PointerTo T) f" using deep_copies_copy[OF assms(1)] by (auto simp: list_all_iff)
  then show "\<exists>q h'. f p h = (Ok q, h') \<and> shares_nothing h h' (PointerTo T) p q t"
    using copies_share_nothing[OF _ assms(2)] by blast
next
  assume "(T, g) \<in> set (object_copies M)"
  then have "copies_object T g" using object_copies_copy[OF assms(1)] by (auto simp: list_all_iff)
  then obtain f' where f': "copies (PointerTo T) f'" "g = copy_object f'" by (auto simp: copies_object_def)
  obtain q h' where "f' p h = (Ok q, h')" "p = NilRef \<longleftrightarrow> q = NilRef" "shares_nothing h h' (PointerTo T) p q t"
    using copies_share_nothing[OF f'(1) assms(2)] by blast
  then show "\<exists>q h'. g p h = (Ok (if p = NilRef then None else Some q), h') \<and> shares_nothing h h' (PointerTo T) p q t"
    unfolding f'(2) copy_object_def bindM_def by auto
qed

definition sample_meta :: Meta where
  "sample_meta = \<lparr> ObjectMeta_type = StructOf [(''Name'', Basic), (''Labels'', StringMap)],
     ObjectMeta_DeepCopyInto = copy_fields [(''Labels'', copy_map (\<lambda>_. []))],
     ListMeta_type = Basic, ListMeta_DeepCopyInto = ret, Condition_type = Basic, Condition_DeepCopyInto = ret,
     LabelSelector_type = StringMap, LabelSelector_DeepCopyInto = copy_map (\<lambda>_. []),
     Time_type = Basic, Time_DeepCopy = copy_pointer ret, map_order = (\<lambda>_. []) \<rparr>"

lemma sample_meta_law: "meta_law sample_meta"
  unfolding meta_law_def sample_meta_def
  by (auto intro!: copies_map copies_pointer plain_copies struct_copies[OF refl refl])

text \<open>A firewall target with a slice that shows one element of an array of two.\<close>

definition sample_heap :: heap where
  "sample_heap = \<lparr> cells = [0 \<mapsto> Boxed (Struct [(''ServerRefs'', Slice 1 1 1), (''LabelSelector'', StrVal ''app=shop'')]),
     1 \<mapsto> Array [Struct [(''Name'', StrVal ''db'')], Struct [(''Name'', StrVal ''web'')]]], limit = 2 \<rparr>"

definition sample_tree :: tree where
  "sample_tree = Target (Fields [(''ServerRefs'', Elements [Fields [(''Name'', Leaf (StrVal ''web''))]]),
     (''LabelSelector'', Leaf (StrVal ''app=shop''))])"

lemma sample_repr: "repr sample_heap 0 (limit sample_heap) (PointerTo (HCloudFirewallApplyTo_type sample_meta)) (Pointer 0) sample_tree"
  unfolding HCloudFirewallApplyTo_type_def LocalObjectReference_type_def sample_tree_def
  by (auto simp: sample_heap_def intro!: repr.intros)

theorem deep_copies_share_nothing_witness:
  "\<exists>q h'. HCloudFirewallApplyTo_DeepCopy sample_meta (Pointer 0) sample_heap = (Ok q, h')
     \<and> shares_nothing sample_heap h' (PointerTo (HCloudFirewallApplyTo_type sample_meta)) (Pointer 0) q sample_tree"
  by (rule deep_copies_share_nothing[OF sample_meta_law sample_repr, THEN conjunct1, rule_format])
    (simp add: deep_copies_def)

end
