(* ===== verification/Abandoned.thy ===== *)
theory Abandoned
  imports Outcomes
begin

text \<open>
  Five controllers write the identifier of the cloud resource into the status only at the end of a
  reconcile. A reconcile that creates the resource and then fails leaves no trace of it in the API
  server, and when the object is deleted in that state the resource stays in the cloud.
\<close>

section \<open>A reconciler that records its resource last\<close>

text \<open>What keeps the identifier in the object in memory.\<close>

lemma same_ident [inv_intros]:
  "keeps (\<lambda>s. ident (Status (obj s)) = i) (onCloud m)" "keeps (\<lambda>s. ident (Status (obj s)) = i) (onKube n)"
  by (auto simp: keeps_def onCloud_def onKube_def split: prod.split)

lemma upd_ident: "(\<And>u. ident (g u) = ident u) \<Longrightarrow> keeps (\<lambda>s. ident (Status (obj s)) = i) (updStatus g)"
  by (auto simp: keeps_def updStatus_def)

lemma condition_ident:
  "(\<And>u cs. ident (u\<lparr>Conditions := cs\<rparr>) = ident u) \<Longrightarrow> keeps (\<lambda>s. ident (Status (obj s)) = i) (setCondition L t st r msg)"
  unfolding setCondition_def by (rule upd_ident) simp

text \<open>The stored object, if there is one, names no resource.\<close>

definition unknown :: "('x status_base_scheme \<Rightarrow> int64) \<Rightarrow> ('k \<Rightarrow> NamespacedName \<Rightarrow> ('spec, 'x status_base_scheme) kobject option)
    \<Rightarrow> NamespacedName \<Rightarrow> 'k \<Rightarrow> bool" where
  "unknown ident store req k \<longleftrightarrow> (\<forall>x. store k req = Some x \<longrightarrow> ident (Status x) = 0)"

locale late_identifier = resource_contract L A R
  for L :: "(('c, 'k, ('spec, 'x status_base_scheme) kobject) rst) lib" and A :: "'k kube_api"
    and R :: "(('c, 'k, ('spec, 'x status_base_scheme) kobject) rst, ('spec, 'x status_base_scheme) kobject) Resource" +
  fixes ident :: "'x status_base_scheme \<Rightarrow> int64"
  assumes late: "fails_with (\<lambda>s. ident (Status (obj s)) = i) (Reconcile R)"
    and idle: "ident (Status (obj s)) = 0 \<Longrightarrow> Delete R s = (Ok (), s)"
    and conditions_apart: "ident (u\<lparr>Conditions := cs\<rparr>) = ident u"

begin

lemma attempt_unknown:
  assumes "api_law nf (IsConflict L) store K"
  shows "keeps (\<lambda>s. ident (Status (obj s)) = 0 \<and> unknown ident store req (kube s)) (status_attempt L K key)"
proof (rule keepsI)
  fix s :: "('c, 'k, ('spec, 'x status_base_scheme) kobject) rst" assume s: "ident (Status (obj s)) = 0 \<and> unknown ident store req (kube s)"
  show "ident (Status (obj (snd (status_attempt L K key s)))) = 0 \<and> unknown ident store req (kube (snd (status_attempt L K key s)))"
    by (rule attempt_cases[OF assms, of key s]) (use s in \<open>auto simp: unknown_def stored_status_def\<close>)
qed

lemma attempt_fails:
  assumes "api_law nf (IsConflict L) store K"
  shows "fails_with (\<lambda>s. unknown ident store req (kube s)) (status_attempt L K key)"
proof (rule fails_withI)
  fix s r and s' :: "('c, 'k, ('spec, 'x status_base_scheme) kobject) rst"
  assume s: "unknown ident store req (kube s)" and run: "status_attempt L K key s = (r, s')" "\<forall>x. r \<noteq> Ok x"
  show "unknown ident store req (kube s')"
    by (rule attempt_cases[OF assms, of key s]) (use s run in auto)
qed

lemma status_unknown:
  assumes "retry_law L" "api_law nf (IsConflict L) store K"
  shows "keeps (\<lambda>s. ident (Status (obj s)) = 0 \<and> unknown ident store req (kube s)) (updateStatusWithRetry L K)"
    and "fails_with (\<lambda>s. unknown ident store req (kube s)) (updateStatusWithRetry L K)"
  unfolding updateStatusWithRetry_def assms(1)[unfolded retry_law_def, rule_format]
  by (intro keeps_bindM keeps_getM keeps_attempts attempt_unknown[OF assms(2)],
      intro fails_bindM keeps_getM fails_attempts attempt_fails[OF assms(2)])

text \<open>A run on an object without an identifier that does not succeed leaves it without one.\<close>

lemma failed_run:
  assumes "lib_ok L" and "api_law (IsNotFound L) (IsConflict L) store K" and "kube_kept A (unknown ident store req)"
    and x: "store (kube s) req = Some x" "DeletionTimestamp x = None" "ident (Status x) = 0"
    and run: "base_Reconcile L K recorder R req s = (r, s1)" "\<forall>v. r \<noteq> Ok v"
  shows "unknown ident store req (kube s1)"
proof -
  note laws = lib_okD[OF assms(1)]
  let ?s = "s\<lparr>obj := x\<rparr>"
  have s: "ident (Status (obj ?s)) = 0 \<and> unknown ident store req (kube ?s)" using x by (simp add: unknown_def)
  have f: "FinalizerName R \<in> set (Finalizers x)"
  proof (rule ccontr)
    assume "FinalizerName R \<notin> set (Finalizers x)"
    then have "\<exists>s'. base_Reconcile L K recorder R req s = (Ok \<lparr> Requeue = True, RequeueAfter = 0 \<rparr>, s')"
      using base_first_touch[OF laws(2) assms(2) x(1,2)] by blast
    then show False using run by auto
  qed
  then have d: "base_domain L K recorder R ?s = (r, s1)"
    using run(1) x(2) laws(2) by (simp add: base_fetch[OF assms(2) x(1)] finalizers_law_def)
  obtain q s2 where q: "Reconcile R ?s = (q, s2)" by force
  have s2: "unknown ident store req (kube s2)"
    using keepsD[OF reconcile_kube[OF laws(3) assms(3)], of ?s] s q by simp
  show ?thesis
  proof (cases q)
    case (Ok res)
    let ?m = "bindM (setCondition L ConditionSynced ConditionTrue reasonReconcileSuccess
            ''Reconcile loop completed without error'') (\<lambda>_.
          bindM (RecordReconcile (Kind R) ''success'') (\<lambda>_.
          bindM (wrapM (''persist '' @ Kind R @ '' status'') (updateStatusWithRetry L K)) (\<lambda>_. ret res)))"
    have m: "fails_with (\<lambda>s. unknown ident store req (kube s)) ?m"
    proof (rule fails_bindM)
      show "keeps (\<lambda>s. unknown ident store req (kube s)) (setCondition L ConditionSynced ConditionTrue reasonReconcileSuccess
            ''Reconcile loop completed without error'')"
        unfolding setCondition_def by (rule keeps_updStatus_kube)
      show "fails_with (\<lambda>s. unknown ident store req (kube s)) (bindM (RecordReconcile (Kind R) ''success'') (\<lambda>_.
          bindM (wrapM (''persist '' @ Kind R @ '' status'') (updateStatusWithRetry L K)) (\<lambda>_. ret res)))"
        by (rule fails_bindM, simp add: RecordReconcile_def keeps_def,
            rule fails_then[OF fails_wrapM[OF status_unknown(2)[OF laws(3) assms(2)]]], rule returns_basic)
    qed
    have "?m s2 = (r, s1)" using d Ok q by (simp add: base_domain_def tryM_run)
    then show ?thesis by (rule fails_withD[OF m s2 _ run(2)])
  next
    case (Err e)
    let ?P = "\<lambda>s. ident (Status (obj s)) = 0 \<and> unknown ident store req (kube s)"
    have P2: "?P s2" using fails_withD[OF late[of 0] _ q] s s2 Err by simp
    have "keeps ?P (setCondition L t st rs msg)" "keeps ?P (base_event recorder a b c)" "keeps ?P (RecordReconcile kd res)"
      for t st rs msg a b c kd res
      by (auto simp: keeps_def base_event_def RecordReconcile_def setCondition_def updStatus_def conditions_apart)
    then have k: "keeps ?P (bindM (setCondition L ConditionSynced ConditionFalse reasonReconcileError (err_text e)) (\<lambda>_.
          bindM (setCondition L ConditionReady ConditionFalse reasonReconcileError (err_text e)) (\<lambda>_.
          bindM (base_event recorder ''Warning'' reasonReconcileError (err_text e)) (\<lambda>_.
          bindM (RecordReconcile (Kind R) ''error'') (\<lambda>_.
          tryM (updateStatusWithRetry L K) (\<lambda>_. failM e) (\<lambda>_. failM e :: (_, Result) prog))))))" (is "keeps _ ?m")
      by (intro inv_intros status_unknown(1)[OF laws(3) assms(2)])
    define m where "m = ?m"
    have "m s2 = (r, s1)" using d Err q unfolding m_def by (simp add: base_domain_def tryM_run)
    then show ?thesis using keepsD[OF k[folded m_def] P2] by simp
  next
    case (Panic p)
    then show ?thesis using d q s2 by (simp add: base_domain_def tryM_run)
  qed
qed

end

text \<open>
  What is left behind: after a run that does not succeed on an object without an identifier, a deletion
  of that object completes and leaves the cloud as the failed run left it.
\<close>

definition abandons :: "(('c, 'k, ('spec, 'x status_base_scheme) kobject) rst) lib \<Rightarrow> ('k \<Rightarrow> NamespacedName \<Rightarrow> ('spec, 'x status_base_scheme) kobject option)
    \<Rightarrow> ('k, ('spec, 'x status_base_scheme) kobject) kclient \<Rightarrow> (('c, 'k, ('spec, 'x status_base_scheme) kobject) rst, ('spec, 'x status_base_scheme) kobject) Resource
    \<Rightarrow> ('x status_base_scheme \<Rightarrow> int64) \<Rightarrow> NamespacedName \<Rightarrow> bool" where
  "abandons L store K R ident req \<longleftrightarrow> (\<forall>recorder s x r s1 y d v (s2 :: ('c, 'k, ('spec, 'x status_base_scheme) kobject) rst).
     store (kube s) req = Some x \<and> DeletionTimestamp x = None \<and> ident (Status x) = 0
     \<and> base_Reconcile L K recorder R req s = (r, s1) \<and> (\<forall>res. r \<noteq> Ok res)
     \<and> store (kube s1) req = Some y \<and> Finalizers y = [FinalizerName R]
     \<and> store (kube s2) req = Some (y\<lparr>DeletionTimestamp := Some d, ResourceVersion := v\<rparr>) \<and> cloud s2 = cloud s1
     \<longrightarrow> (\<exists>s3. base_Reconcile L K recorder R req s2 = (Ok emptyResult, s3) \<and> cloud s3 = cloud s1 \<and> store (kube s3) req = None))"

lemma abandonsD:
  assumes "abandons L store K R ident req" "store (kube s) req = Some x" "DeletionTimestamp x = None" "ident (Status x) = 0"
    "base_Reconcile L K recorder R req s = (r, s1)" "\<forall>res. r \<noteq> Ok res"
    "store (kube s1) req = Some y" "Finalizers y = [FinalizerName R]"
    "store (kube s2) req = Some (y\<lparr>DeletionTimestamp := Some d, ResourceVersion := v\<rparr>)" "cloud s2 = cloud s1"
  shows "\<exists>s3. base_Reconcile L K recorder R req s2 = (Ok emptyResult, s3) \<and> cloud s3 = cloud s1 \<and> store (kube s3) req = None"
  using assms unfolding abandons_def by blast

context late_identifier
begin

lemma abandoned:
  assumes "lib_ok L" and "api_law (IsNotFound L) (IsConflict L) store K" and "kube_kept A (unknown ident store req)"
  shows "abandons L store K R ident req"
  unfolding abandons_def
proof (intro allI impI; elim conjE)
  fix recorder s x r s1 y d v and s2 :: "('c, 'k, ('spec, 'x status_base_scheme) kobject) rst"
  assume x: "store (kube s) req = Some x" "DeletionTimestamp x = None" "ident (Status x) = 0"
    and run: "base_Reconcile L K recorder R req s = (r, s1)" "\<forall>res. r \<noteq> Ok res"
    and y: "store (kube s1) req = Some y" "Finalizers y = [FinalizerName R]"
    and z: "store (kube s2) req = Some (y\<lparr>DeletionTimestamp := Some d, ResourceVersion := v\<rparr>)" "cloud s2 = cloud s1"
  let ?z = "y\<lparr>DeletionTimestamp := Some d, ResourceVersion := v\<rparr>"
  have "ident (Status ?z) = 0"
    using failed_run[OF assms x run] y(1) by (simp add: unknown_def)
  then have "Delete R (s2\<lparr>obj := ?z\<rparr>) = (Ok (), s2\<lparr>obj := ?z\<rparr>)" by (intro idle) simp
  then obtain s3 where "base_Reconcile L K recorder R req s2 = (Ok emptyResult, s3)" "cloud s3 = cloud s2"
      "case store (kube s3) req of None \<Rightarrow> set (Finalizers ?z) = {FinalizerName R}
        | Some w \<Rightarrow> set (Finalizers w) = set (Finalizers ?z) - {FinalizerName R} \<and> Finalizers w \<noteq> [] \<and> Status w = Status ?z"
    using base_deleted[OF lib_okD(2)[OF assms(1)] assms(2) z(1), of "s2\<lparr>obj := ?z\<rparr>" recorder] y(2) by auto
  then show "\<exists>s3. base_Reconcile L K recorder R req s2 = (Ok emptyResult, s3) \<and> cloud s3 = cloud s1 \<and> store (kube s3) req = None"
    using y(2) z(2) by (auto split: option.splits)
qed

end

section \<open>The five controllers\<close>

text \<open>The last step of each: the status is written and nothing after it can fail.\<close>

lemma fails_last [fails_intros]:
  "fails_with P (bindM (updStatus g) (\<lambda>_. setCondition L t st reason msg))"
  "fails_with P (setCondition L t st reason msg)" "fails_with P (ret x)" "fails_with P (failM e)"
  "fails_with P (bindM (setCondition L t st reason msg) (\<lambda>_. ret y))"
  by (rule fails_returns; simp)+ (simp add: fails_with_def)+

lemmas ident_keeps = keeps_ret keeps_failM keeps_getM keeps_wrapM same_ident keeps_if keeps_option keeps_pair keeps_sum
  keeps_tryM keeps_forM keeps_foldM keeps_bindM
lemmas late_steps = fails_last fails_cases fails_bindM

lemma find_or_create_ident:
  "keeps (\<lambda>s. ident (Status (obj s)) = i) (find_or_create (\<lambda>j. onCloud (g j)) (\<lambda>n. onCloud (b n)) (\<lambda>opts. onCloud (c opts)) w v k n opts)"
  unfolding find_or_create_def find_existing_def by (rule ident_keeps)+

lemma lb_late: "fails_with (\<lambda>s. lbs_LoadBalancerID (Status (obj s)) = i) (lb_Reconcile ch L K H)"
proof -
  have "keeps (\<lambda>s. lbs_LoadBalancerID (Status (obj s)) = i) (getSelectedServerIDs L K sel)" for sel
    unfolding getSelectedServerIDs_def by (rule ident_keeps)+
  moreover have "fails_with (\<lambda>s. lbs_LoadBalancerID (Status (obj s)) = i) (reconcileLoadBalancer ch L K H ids)" for ids
    unfolding reconcileLoadBalancer_def reconcileLoadBalancerWithServices_def loadBalancerServicesFromSpec_def add_service_def
      resolveCertificateIDs_def resolve_certificate_def sync_lb_targets_def Let_def
    by (rule late_steps find_or_create_ident | rule ident_keeps)+
  ultimately show ?thesis unfolding lb_Reconcile_def
    by (intro fails_bindM[OF keeps_getM] fails_bindM[of _ "getSelectedServerIDs L K _"] fails_then[of _ "reconcileLoadBalancer ch L K H _"]) simp_all
qed

interpretation lb_late: late_identifier L K "HCloudLoadBalancerReconciler ch L K H" lbs_LoadBalancerID for ch L K H
  by unfold_locales (simp_all add: lb_late lb_Delete_def)

lemma volume_late: "fails_with (\<lambda>s. vms_VolumeID (Status (obj s)) = i) (volume_Reconcile L K H)"
proof -
  have "fails_with (\<lambda>s. vms_VolumeID (Status (obj s)) = i) (reconcileHCloudVolume L H t)" for t
    unfolding reconcileHCloudVolume_def volume_resize_def volume_attach_def
    by (rule late_steps find_or_create_ident | rule ident_keeps)+
  then show ?thesis unfolding volume_Reconcile_def Let_def
    by (intro fails_bindM[OF keeps_getM] fails_cases fails_tryM same_ident fails_last fails_then[of _ "reconcileHCloudVolume L H _"]) simp_all
qed

interpretation volume_late: late_identifier L K "HCloudVolumeReconciler L K H" vms_VolumeID for L K H
  by unfold_locales (simp_all add: volume_late volume_Delete_def)

lemma primary_ip_steps_ident:
  "keeps (\<lambda>s. pis_PrimaryIPID (Status (obj s)) = i) (ensurePrimaryIPMetadata H p)"
  "keeps (\<lambda>s. pis_PrimaryIPID (Status (obj s)) = i) (refresh_primary_ip H w v j)"
  "keeps (\<lambda>s. pis_PrimaryIPID (Status (obj s)) = i) (ensurePrimaryIPAssignment L H t p)"
  "keeps (\<lambda>s. pis_PrimaryIPID (Status (obj s)) = i) (ensurePrimaryIPDNSPtr H p)"
  "keeps (\<lambda>s. pis_PrimaryIPID (Status (obj s)) = i) (primary_ip_target L K)"
  unfolding ensurePrimaryIPMetadata_def refresh_primary_ip_def ensurePrimaryIPAssignment_def ensurePrimaryIPDNSPtr_def
    primary_ip_target_def setCondition_def Let_def
  by ((rule ident_keeps | (rule upd_ident; simp))+)

lemma primary_ip_late: "fails_with (\<lambda>s. pis_PrimaryIPID (Status (obj s)) = i) (primary_ip_Reconcile L K H)"
proof -
  have "fails_with (\<lambda>s. pis_PrimaryIPID (Status (obj s)) = i) (reconcileHCloudPrimaryIP L H t)" for t
    unfolding reconcileHCloudPrimaryIP_def syncPrimaryIPStatus_def
    by (rule fails_last fails_bindM[OF keeps_getM] fails_bindM[OF find_or_create_ident]
        fails_bindM[OF primary_ip_steps_ident(1)] fails_bindM[OF primary_ip_steps_ident(2)]
        fails_bindM[OF primary_ip_steps_ident(3)] fails_bindM[OF primary_ip_steps_ident(4)])+
  then show ?thesis unfolding primary_ip_Reconcile_def
    by (intro fails_bindM[OF primary_ip_steps_ident(5)] fails_cases fails_last fails_then[of _ "reconcileHCloudPrimaryIP L H _"]) simp_all
qed

interpretation primary_ip_late: late_identifier L K "HCloudPrimaryIPReconciler L K H" pis_PrimaryIPID for L K H
  by unfold_locales (simp_all add: primary_ip_late primary_ip_Delete_def)

lemma floating_ip_steps_ident:
  "keeps (\<lambda>s. fis_FloatingIPID (Status (obj s)) = i) (ensureFloatingIPMetadata H p)"
  "keeps (\<lambda>s. fis_FloatingIPID (Status (obj s)) = i) (refresh_floating_ip H w v j)"
  "keeps (\<lambda>s. fis_FloatingIPID (Status (obj s)) = i) (ensureFloatingIPAssignment L H t p)"
  "keeps (\<lambda>s. fis_FloatingIPID (Status (obj s)) = i) (ensureFloatingIPDNSPtr H p)"
  "keeps (\<lambda>s. fis_FloatingIPID (Status (obj s)) = i) (floating_ip_target L K)"
  unfolding ensureFloatingIPMetadata_def refresh_floating_ip_def ensureFloatingIPAssignment_def ensureFloatingIPDNSPtr_def
    floating_ip_target_def setCondition_def Let_def
  by ((rule ident_keeps | (rule upd_ident; simp))+)

lemma floating_ip_late: "fails_with (\<lambda>s. fis_FloatingIPID (Status (obj s)) = i) (floating_ip_Reconcile L K H)"
proof -
  have "fails_with (\<lambda>s. fis_FloatingIPID (Status (obj s)) = i) (reconcileHCloudFloatingIP L H t)" for t
    unfolding reconcileHCloudFloatingIP_def syncFloatingIPStatus_def
    by (rule fails_last fails_bindM[OF keeps_getM] fails_bindM[OF find_or_create_ident]
        fails_bindM[OF floating_ip_steps_ident(1)] fails_bindM[OF floating_ip_steps_ident(2)]
        fails_bindM[OF floating_ip_steps_ident(3)] fails_bindM[OF floating_ip_steps_ident(4)])+
  then show ?thesis unfolding floating_ip_Reconcile_def
    by (intro fails_bindM[OF floating_ip_steps_ident(5)] fails_cases fails_last fails_then[of _ "reconcileHCloudFloatingIP L H _"]) simp_all
qed

interpretation floating_ip_late: late_identifier L K "HCloudFloatingIPReconciler L K H" fis_FloatingIPID for L K H
  by unfold_locales (simp_all add: floating_ip_late floating_ip_Delete_def)

lemma cert_late: "fails_with (\<lambda>s. ces_CertificateID (Status (obj s)) = i) (cert_Reconcile L H)"
proof -
  have written: "fails_with (\<lambda>s. ces_CertificateID (Status (obj s)) = i) (bindM (syncCertificateStatus c) (\<lambda>_.
      if b then ret True else bindM (setCondition L t st r msg) (\<lambda>_. ret False)))" for c b t st r msg
    unfolding syncCertificateStatus_def by (rule fails_returns) simp
  have "fails_with (\<lambda>s. ces_CertificateID (Status (obj s)) = i) (reconcileHCloudCertificate L H)"
    unfolding reconcileHCloudCertificate_def ensureCertificateMetadata_def
    by (rule written fails_last fails_cases(2) fails_bindM find_or_create_ident | rule ident_keeps)+
  then show ?thesis unfolding cert_Reconcile_def by (rule fails_then) simp
qed

interpretation cert_late: late_identifier L K "HCloudCertificateReconciler L K H" ces_CertificateID for L K H
  by unfold_locales (simp_all add: cert_late cert_Delete_def)

section \<open>The property\<close>

text \<open>C10: a run that does not succeed on an object of one of five kinds that names no resource yet
  stores no identifier, whatever it created; when the object is then deleted, the deletion completes
  without a call to the cloud and the resource stays there with nothing that refers to it.\<close>

theorem failed_creation_is_abandoned:
  assumes "lib_ok L1" and "api_law (IsNotFound L1) (IsConflict L1) lbs (KLoadBalancers K)" and "kube_kept K (unknown lbs_LoadBalancerID lbs req)"
    and "lib_ok L2" and "api_law (IsNotFound L2) (IsConflict L2) vols (KVolumes K)" and "kube_kept K (unknown vms_VolumeID vols req)"
    and "lib_ok L3" and "api_law (IsNotFound L3) (IsConflict L3) pips (KPrimaryIPs K)" and "kube_kept K (unknown pis_PrimaryIPID pips req)"
    and "lib_ok L4" and "api_law (IsNotFound L4) (IsConflict L4) fips (KFloatingIPs K)" and "kube_kept K (unknown fis_FloatingIPID fips req)"
    and "lib_ok L5" and "api_law (IsNotFound L5) (IsConflict L5) certs (KCertificates K)" and "kube_kept K (unknown ces_CertificateID certs req)"
  shows "abandons L1 lbs (KLoadBalancers K) (HCloudLoadBalancerReconciler ch L1 K H) lbs_LoadBalancerID req
    \<and> abandons L2 vols (KVolumes K) (HCloudVolumeReconciler L2 K H) vms_VolumeID req
    \<and> abandons L3 pips (KPrimaryIPs K) (HCloudPrimaryIPReconciler L3 K H) pis_PrimaryIPID req
    \<and> abandons L4 fips (KFloatingIPs K) (HCloudFloatingIPReconciler L4 K H) fis_FloatingIPID req
    \<and> abandons L5 certs (KCertificates K) (HCloudCertificateReconciler L5 K H) ces_CertificateID req"
  by (intro conjI lb_late.abandoned volume_late.abandoned primary_ip_late.abandoned floating_ip_late.abandoned
      cert_late.abandoned assms)

text \<open>A cloud whose calls on the services of load balancers fail, after it has made the load balancer.\<close>

definition no_services :: "FakeClient Interface" where
  "no_services = (fake_client [])\<lparr>SyncLoadBalancerServices := (\<lambda>_ _. failM (Errorf ''unavailable''))\<rparr>"

definition fresh_lb :: HCloudLoadBalancer where
  "fresh_lb = NewHCloudLoadBalancer\<lparr>Name := ''front'', Finalizers := [''infra.hkc.io/loadbalancer-finalizer'']\<rparr>"

definition lb_start :: "HCloudLoadBalancer \<Rightarrow> FakeClient \<Rightarrow> (FakeClient, apistate, HCloudLoadBalancer) rst" where
  "lb_start x f = \<lparr> cloud = f, kube = no_objects\<lparr>st_LoadBalancers := [x]\<rparr>, obj = NewHCloudLoadBalancer, events = [], metrics = [] \<rparr>"

lemma sample_unknown:
  "kube_kept sample_api (unknown lbs_LoadBalancerID (\<lambda>k. mem_find (st_LoadBalancers k)) req)"
  "kube_kept sample_api (unknown vms_VolumeID (\<lambda>k. mem_find (st_Volumes k)) req)"
  "kube_kept sample_api (unknown pis_PrimaryIPID (\<lambda>k. mem_find (st_PrimaryIPs k)) req)"
  "kube_kept sample_api (unknown fis_FloatingIPID (\<lambda>k. mem_find (st_FloatingIPs k)) req)"
  "kube_kept sample_api (unknown ces_CertificateID (\<lambda>k. mem_find (st_Certificates k)) req)"
  by (rule sample_kept; unfold sample_api_sel; rule mem_status_other; simp add: unknown_def)+

lemma no_services_sels [simp]:
  "GetLoadBalancerByName no_services = fake_GetLoadBalancerByName []"
  "CreateLoadBalancer no_services = fake_CreateLoadBalancer"
  "SyncLoadBalancerServices no_services = (\<lambda>_ _. failM (Errorf ''unavailable''))"
  by (simp_all add: no_services_def)

lemma fresh_lb_sels [simp]:
  "Name fresh_lb = ''front''" "lbs_LoadBalancerID (Status fresh_lb) = 0" "lbp_Services (Spec fresh_lb) = []"
  "lbp_ServerSelector (Spec fresh_lb) = None" "DeletionTimestamp fresh_lb = None" "key_of fresh_lb = cluster_key ''front''"
  "Finalizers fresh_lb = [''infra.hkc.io/loadbalancer-finalizer'']"
  by (simp_all add: fresh_lb_def NewHCloudLoadBalancer_def key_of_def cluster_key_def)

lemma fresh_calls:
  "fake_GetLoadBalancerByName [] ''front'' NewFakeClient = (Ok None, NewFakeClient)"
  "fake_CreateLoadBalancer (lb_opts fresh_lb) NewFakeClient = (Ok (new_load_balancer (lb_opts fresh_lb) 1),
     NewFakeClient\<lparr>loadBalancers := [(1, new_load_balancer (lb_opts fresh_lb) 1)], nextID := 2\<rparr>)"
  by (simp_all add: fake_GetLoadBalancerByName_def fake_get_by_name_def fake_CreateLoadBalancer_def fake_create_def NewFakeClient_def
      lb_opts_def Let_def)

lemma first_run:
  "\<exists>s2 e. lb_Reconcile ([], []) sample_lib sample_api no_services ((lb_start fresh_lb NewFakeClient)\<lparr>obj := fresh_lb\<rparr>) = (Err e, s2)
     \<and> kube s2 = kube (lb_start fresh_lb NewFakeClient) \<and> map fst (loadBalancers (cloud s2)) = [1]"
  by (simp add: lb_Reconcile_def getSelectedServerIDs_def wrapM_run onKube_run onCloud_run bindM_run no_objects_def mem_client_def lb_start_def
    reconcileLoadBalancer_def loadBalancerServicesFromSpec_def reconcileLoadBalancerWithServices_def find_or_create_def find_existing_def
    sync_lb_targets_def new_load_balancer_def fresh_calls)

theorem failed_creation_is_abandoned_witness:
  "\<exists>s1 e y s3. base_Reconcile sample_lib (KLoadBalancers sample_api) True (HCloudLoadBalancerReconciler ([], []) sample_lib sample_api no_services)
       (cluster_key ''front'') (lb_start fresh_lb NewFakeClient) = (Err e, s1)
     \<and> mem_find (st_LoadBalancers (kube s1)) (cluster_key ''front'') = Some y
     \<and> base_Reconcile sample_lib (KLoadBalancers sample_api) True (HCloudLoadBalancerReconciler ([], []) sample_lib sample_api no_services)
       (cluster_key ''front'') (lb_start (y\<lparr>DeletionTimestamp := Some 7\<rparr>) (cloud s1)) = (Ok emptyResult, s3)
     \<and> mem_find (st_LoadBalancers (kube s3)) (cluster_key ''front'') = None \<and> map fst (loadBalancers (cloud s3)) = [1]"
proof -
  let ?K = "KLoadBalancers sample_api" and ?R = "HCloudLoadBalancerReconciler ([], []) sample_lib sample_api no_services"
  let ?s = "lb_start fresh_lb NewFakeClient" and ?req = "cluster_key ''front''"
  have stored: "mem_find (st_LoadBalancers (kube ?s)) ?req = Some fresh_lb"
    by (simp add: lb_start_def no_objects_def mem_find_def)
  obtain s2 e where r: "Reconcile ?R (?s\<lparr>obj := fresh_lb\<rparr>) = (Err e, s2)" "kube s2 = kube ?s" "map fst (loadBalancers (cloud s2)) = [1]"
    using first_run by auto
  have "\<exists>s1 y. base_Reconcile sample_lib ?K True ?R ?req ?s = (Err e, s1) \<and> cloud s1 = cloud s2
      \<and> mem_find (st_LoadBalancers (kube s1)) ?req = Some y \<and> Finalizers y = [''infra.hkc.io/loadbalancer-finalizer'']
      \<and> DeletionTimestamp y = None"
  proof -
    obtain s1 y where 1: "base_Reconcile sample_lib ?K True ?R ?req ?s = (Err e, s1)" "cloud s1 = cloud s2"
        "mem_find (st_LoadBalancers (kube s1)) = (mem_find (st_LoadBalancers (kube s2)))(?req \<mapsto> y)"
        "y = fresh_lb\<lparr>Status := (Status (obj s2))\<lparr>Conditions := Conditions (Status y)\<rparr>, ResourceVersion := ResourceVersion y\<rparr>"
      using lb_contract.base_error[OF sample_lib_ok(1) sample_laws_lib(3) stored _ _ r(1), where cur = fresh_lb and recorder = True]
        r(2) stored by auto
    have "Finalizers y = [''infra.hkc.io/loadbalancer-finalizer'']" "DeletionTimestamp y = None"
      using arg_cong[OF 1(4), of Finalizers] arg_cong[OF 1(4), of DeletionTimestamp] by simp_all
    moreover have "mem_find (st_LoadBalancers (kube s1)) ?req = Some y" using 1(3) by simp
    ultimately show ?thesis using 1(1,2) by blast
  qed
  then obtain s1 y where 1: "base_Reconcile sample_lib ?K True ?R ?req ?s = (Err e, s1)" "cloud s1 = cloud s2"
      "mem_find (st_LoadBalancers (kube s1)) ?req = Some y" "Finalizers y = [''infra.hkc.io/loadbalancer-finalizer'']"
    by blast
  let ?z = "y\<lparr>DeletionTimestamp := Some 7, ResourceVersion := ResourceVersion y\<rparr>"
  have z: "mem_find (st_LoadBalancers (kube (lb_start ?z (cloud s1)))) ?req = Some ?z"
    using mem_find_key[OF 1(3)] by (simp add: lb_start_def no_objects_def mem_find_def key_of_def)
  have ab: "abandons sample_lib (\<lambda>k. mem_find (st_LoadBalancers k)) ?K ?R lbs_LoadBalancerID ?req"
    using failed_creation_is_abandoned[OF sample_lib_ok(1) sample_laws_lib(3) sample_unknown(1) sample_lib_ok(1) sample_laws_lib(2) sample_unknown(2)
        sample_lib_ok(1) sample_laws_lib(7) sample_unknown(3) sample_lib_ok(1) sample_laws_lib(8) sample_unknown(4)
        sample_lib_ok(1) sample_laws_lib(9) sample_unknown(5)] by blast
  then obtain s3 where 3: "base_Reconcile sample_lib ?K True ?R ?req (lb_start ?z (cloud s1)) = (Ok emptyResult, s3)" "cloud s3 = cloud s1"
      "mem_find (st_LoadBalancers (kube s3)) ?req = None"
    using abandonsD[OF ab, where s = ?s and x = fresh_lb and y = y and ?s1.0 = s1 and ?s2.0 = "lb_start ?z (cloud s1)" and d = 7
        and v = "ResourceVersion y" and recorder = True, OF stored _ _ 1(1) _ 1(3) _ z] 1(4) by (auto simp: lb_start_def)
  have "?z = y\<lparr>DeletionTimestamp := Some 7\<rparr>" by simp
  moreover have "map fst (loadBalancers (cloud s3)) = [1]" using 3(2) 1(2) r(3) by simp
  ultimately show ?thesis using 1(1,3) 3(1,3) by metis
qed

end
