(* ===== verification/Contention.thy ===== *)
theory Contention
  imports BaseProps
begin

text \<open>
  The status write of the base reconciler against an API server on which other writers change the
  same object: how many of them it gets past, what the stored object is then, and when it gives
  up.
\<close>

section \<open>A contended API server\<close>

text \<open>
  \<open>pending k\<close> writes of others are still to come, each just before a status update of the
  reconciler, which it makes a conflict; the write numbered \<open>n\<close>, counted down, turns the stored
  object \<open>x\<close> into \<open>rival n x\<close>. With none left the server behaves as it does alone.
\<close>

definition contended_law :: "(goerr \<Rightarrow> bool) \<Rightarrow> ('k \<Rightarrow> nat) \<Rightarrow> (nat \<Rightarrow> ('spec, 'st) kobject \<Rightarrow> ('spec, 'st) kobject)
    \<Rightarrow> ('k \<Rightarrow> NamespacedName \<Rightarrow> ('spec, 'st) kobject option) \<Rightarrow> ('k, ('spec, 'st) kobject) kclient \<Rightarrow> bool" where
  "contended_law conflict pending rival store K \<longleftrightarrow>
     (\<forall>k nn x. store k nn = Some x \<longrightarrow> KGet K nn k = (Ok x, k) \<and> key_of x = nn) \<and>
     (\<forall>k x cur n. store k (key_of x) = Some cur \<longrightarrow> pending k = Suc n \<longrightarrow>
        (\<exists>e k'. KStatusUpdate K x k = (Err e, k') \<and> conflict e \<and> pending k' = n
           \<and> store k' = (store k)(key_of x \<mapsto> rival (Suc n) cur))) \<and>
     (\<forall>k x cur. store k (key_of x) = Some cur \<longrightarrow> pending k = 0 \<longrightarrow>
        (if ResourceVersion x = ResourceVersion cur
         then \<exists>k' rv. KStatusUpdate K x k = (Ok (stored_status cur x rv), k') \<and> pending k' = 0
           \<and> store k' = (store k)(key_of x \<mapsto> stored_status cur x rv)
         else \<exists>e. KStatusUpdate K x k = (Err e, k) \<and> conflict e))"

text \<open>The object after \<open>m\<close> of \<open>n\<close> writes.\<close>

fun landed :: "(nat \<Rightarrow> 'o \<Rightarrow> 'o) \<Rightarrow> nat \<Rightarrow> nat \<Rightarrow> 'o \<Rightarrow> 'o" where
  "landed rival 0 n x = x"
| "landed rival (Suc m) n x = landed rival m (n - 1) (rival n x)"

lemma contended_get:
  "contended_law cf p rival store K \<Longrightarrow> store k nn = Some x \<Longrightarrow> KGet K nn k = (Ok x, k)"
  "contended_law cf p rival store K \<Longrightarrow> store k nn = Some x \<Longrightarrow> key_of x = nn"
  by (simp_all add: contended_law_def)

section \<open>One attempt\<close>

text \<open>A write that comes first costs one attempt, and so does a stale resource version.\<close>

definition hurdles :: "('k \<Rightarrow> nat) \<Rightarrow> ('spec, 'st) kobject \<Rightarrow> 'k \<Rightarrow> ('spec, 'st) kobject \<Rightarrow> nat" where
  "hurdles pending cur k x = (if pending k = 0 \<and> ResourceVersion x \<noteq> ResourceVersion cur then 1 else pending k)"

lemma attempt_clear:
  assumes "contended_law (IsConflict L) pending rival store K"
    and "store (kube s) (key_of (obj s)) = Some cur" and "hurdles pending cur (kube s) (obj s) = 0"
  obtains k' rv where "status_attempt L K key s = (Ok (), s\<lparr>kube := k', obj := stored_status cur (obj s) rv\<rparr>)"
    and "store k' = (store (kube s))(key_of (obj s) \<mapsto> stored_status cur (obj s) rv)" and "pending k' = 0"
proof -
  have no: "pending (kube s) = 0" "ResourceVersion (obj s) = ResourceVersion cur"
    using assms(3) by (auto simp: hurdles_def split: if_splits)
  obtain k' rv where "KStatusUpdate K (obj s) (kube s) = (Ok (stored_status cur (obj s) rv), k')" "pending k' = 0"
      "store k' = (store (kube s))(key_of (obj s) \<mapsto> stored_status cur (obj s) rv)"
    using assms(1,2) no unfolding contended_law_def by meson
  then show ?thesis by (intro that) (simp_all add: status_attempt_def tryM_run)
qed

lemma attempt_late:
  assumes "contended_law (IsConflict L) pending rival store K"
    and "store (kube s) (key_of (obj s)) = Some cur" and "pending (kube s) = Suc n"
  obtains e k' where "status_attempt L K (key_of (obj s)) s = (Err e, s\<lparr>kube := k',
        obj := (obj s)\<lparr>ResourceVersion := ResourceVersion (rival (Suc n) cur)\<rparr>\<rparr>)"
    and "IsConflict L e" and "store k' = (store (kube s))(key_of (obj s) \<mapsto> rival (Suc n) cur)"
    and "pending k' = n"
proof -
  obtain e k' where e: "KStatusUpdate K (obj s) (kube s) = (Err e, k')" "IsConflict L e" "pending k' = n"
      "store k' = (store (kube s))(key_of (obj s) \<mapsto> rival (Suc n) cur)"
    using assms unfolding contended_law_def by meson
  then have "KGet K (key_of (obj s)) k' = (Ok (rival (Suc n) cur), k')"
    by (intro contended_get(1)[OF assms(1)]) simp
  then show ?thesis using e that[of e k'] by (simp add: status_attempt_def tryM_run)
qed

lemma attempt_behind:
  assumes "contended_law (IsConflict L) pending rival store K"
    and "store (kube s) (key_of (obj s)) = Some cur" and "pending (kube s) = 0"
    and "ResourceVersion (obj s) \<noteq> ResourceVersion cur"
  obtains e where "status_attempt L K (key_of (obj s)) s =
      (Err e, s\<lparr>obj := (obj s)\<lparr>ResourceVersion := ResourceVersion cur\<rparr>\<rparr>)" and "IsConflict L e"
proof -
  obtain e where "KStatusUpdate K (obj s) (kube s) = (Err e, kube s)" "IsConflict L e"
    using assms unfolding contended_law_def by meson
  then show ?thesis using that[of e] contended_get(1)[OF assms(1,2)]
    by (simp add: status_attempt_def tryM_run)
qed

section \<open>All attempts\<close>

lemma conflict_again:
  "status_attempt L K key s = (Err e, s') \<Longrightarrow> IsConflict L e \<Longrightarrow>
   attempts (IsConflict L) (Suc (Suc n)) (status_attempt L K key) s
   = attempts (IsConflict L) (Suc n) (status_attempt L K key) s'"
  by (rule attempts_again)

text \<open>With more attempts than hurdles the status is written over what the others wrote.\<close>

lemma attempts_succeed:
  assumes law: "contended_law (IsConflict L) pending rival store K"
    and "store (kube s) (key_of (obj s)) = Some cur" and "hurdles pending cur (kube s) (obj s) < m"
  shows "\<exists>k' y rv. attempts (IsConflict L) m (status_attempt L K (key_of (obj s))) s = (Ok (), s\<lparr>kube := k', obj := y\<rparr>)
    \<and> store k' = (store (kube s))(key_of (obj s) \<mapsto> y) \<and> pending k' = 0
    \<and> y = stored_status (landed rival (pending (kube s)) (pending (kube s)) cur) (obj s) rv"
  using assms(2,3)
proof (induction m arbitrary: s cur)
  case 0
  then show ?case by simp
next
  case (Suc m)
  consider "hurdles pending cur (kube s) (obj s) = 0" | n where "pending (kube s) = Suc n"
    | "pending (kube s) = 0" "ResourceVersion (obj s) \<noteq> ResourceVersion cur"
    by (cases "pending (kube s)"; cases "ResourceVersion (obj s) = ResourceVersion cur") (auto simp: hurdles_def)
  then show ?case
  proof cases
    case 1
    obtain k' rv where a: "status_attempt L K (key_of (obj s)) s
        = (Ok (), s\<lparr>kube := k', obj := stored_status cur (obj s) rv\<rparr>)"
      "store k' = (store (kube s))(key_of (obj s) \<mapsto> stored_status cur (obj s) rv)" "pending k' = 0"
      using attempt_clear[OF law Suc.prems(1) 1] by metis
    have "pending (kube s) = 0" using 1 by (simp add: hurdles_def split: if_splits)
    then show ?thesis
      using attempts_once[of "status_attempt L K (key_of (obj s))" s "Ok ()" _ "IsConflict L" m, OF a(1)] a(2,3)
      by (intro exI[of _ k'] exI[of _ "stored_status cur (obj s) rv"] exI[of _ rv]) simp
  next
    case (2 n)
    then obtain m' where m: "m = Suc m'" using Suc.prems(2) by (cases m) (simp_all add: hurdles_def)
    obtain e k' where a: "status_attempt L K (key_of (obj s)) s = (Err e, s\<lparr>kube := k',
        obj := (obj s)\<lparr>ResourceVersion := ResourceVersion (rival (Suc n) cur)\<rparr>\<rparr>)" "IsConflict L e"
      "store k' = (store (kube s))(key_of (obj s) \<mapsto> rival (Suc n) cur)" "pending k' = n"
      using attempt_late[OF law Suc.prems(1) 2] by metis
    define s1 where "s1 = s\<lparr>kube := k', obj := (obj s)\<lparr>ResourceVersion := ResourceVersion (rival (Suc n) cur)\<rparr>\<rparr>"
    have "store (kube s1) (key_of (obj s1)) = Some (rival (Suc n) cur)"
      "hurdles pending (rival (Suc n) cur) (kube s1) (obj s1) < m"
      using a(3,4) 2 Suc.prems(2) m by (auto simp: s1_def hurdles_def)
    note ih = Suc.IH[OF this]
    have "key_of (obj s1) = key_of (obj s)" "pending (kube s1) = n" using a(4) by (simp_all add: s1_def)
    then obtain k2 y rv where
      "attempts (IsConflict L) m (status_attempt L K (key_of (obj s))) s1 = (Ok (), s1\<lparr>kube := k2, obj := y\<rparr>)"
      "store k2 = (store (kube s1))(key_of (obj s) \<mapsto> y)" "pending k2 = 0"
      "y = stored_status (landed rival n n (rival (Suc n) cur)) (obj s1) rv"
      using ih by metis
    then show ?thesis
      using conflict_again[OF a(1,2), of m'] a(3) 2
      by (intro exI[of _ k2] exI[of _ y] exI[of _ rv]) (simp add: m s1_def stored_status_def del: attempts.simps)
  next
    case 3
    then obtain m' where m: "m = Suc m'" using Suc.prems(2) by (cases m) (simp_all add: hurdles_def)
    obtain e where a: "status_attempt L K (key_of (obj s)) s =
        (Err e, s\<lparr>obj := (obj s)\<lparr>ResourceVersion := ResourceVersion cur\<rparr>\<rparr>)" "IsConflict L e"
      using attempt_behind[OF law Suc.prems(1) 3] by metis
    define s1 where "s1 = s\<lparr>obj := (obj s)\<lparr>ResourceVersion := ResourceVersion cur\<rparr>\<rparr>"
    have "store (kube s1) (key_of (obj s1)) = Some cur" "hurdles pending cur (kube s1) (obj s1) < m"
      using Suc.prems 3 m by (auto simp: s1_def hurdles_def)
    note ih = Suc.IH[OF this]
    have "key_of (obj s1) = key_of (obj s)" "pending (kube s1) = 0" using 3(1) by (simp_all add: s1_def)
    then obtain k2 y rv where
      "attempts (IsConflict L) m (status_attempt L K (key_of (obj s))) s1 = (Ok (), s1\<lparr>kube := k2, obj := y\<rparr>)"
      "store k2 = (store (kube s1))(key_of (obj s) \<mapsto> y)" "pending k2 = 0"
      "y = stored_status cur (obj s1) rv"
      using ih by (metis landed.simps(1))
    then show ?thesis
      using conflict_again[OF a(1,2), of m'] 3
      by (intro exI[of _ k2] exI[of _ y] exI[of _ rv]) (simp add: m s1_def stored_status_def del: attempts.simps)
  qed
qed

text \<open>With no more attempts than writes to come, each meets one and the last conflict is the result.\<close>

lemma attempts_exhausted:
  assumes law: "contended_law (IsConflict L) pending rival store K"
    and "store (kube s) (key_of (obj s)) = Some cur" and "Suc m \<le> pending (kube s)"
  shows "\<exists>e k' rv. attempts (IsConflict L) (Suc m) (status_attempt L K (key_of (obj s))) s
      = (Err e, s\<lparr>kube := k', obj := (obj s)\<lparr>ResourceVersion := rv\<rparr>\<rparr>) \<and> IsConflict L e
    \<and> pending k' = pending (kube s) - Suc m
    \<and> store k' = (store (kube s))(key_of (obj s) \<mapsto> landed rival (Suc m) (pending (kube s)) cur)"
  using assms(2,3)
proof (induction m arbitrary: s cur)
  case 0
  then obtain n where n: "pending (kube s) = Suc n" by (cases "pending (kube s)") auto
  obtain e k' where "status_attempt L K (key_of (obj s)) s = (Err e, s\<lparr>kube := k',
      obj := (obj s)\<lparr>ResourceVersion := ResourceVersion (rival (Suc n) cur)\<rparr>\<rparr>)" "IsConflict L e"
    "store k' = (store (kube s))(key_of (obj s) \<mapsto> rival (Suc n) cur)" "pending k' = n"
    using attempt_late[OF law 0(1) n] by metis
  then show ?case
    using n by (intro exI[of _ e] exI[of _ k'] exI[of _ "ResourceVersion (rival (Suc n) cur)"]) simp
next
  case (Suc m)
  then obtain n where n: "pending (kube s) = Suc n" by (cases "pending (kube s)") auto
  obtain e k' where a: "status_attempt L K (key_of (obj s)) s = (Err e, s\<lparr>kube := k',
      obj := (obj s)\<lparr>ResourceVersion := ResourceVersion (rival (Suc n) cur)\<rparr>\<rparr>)" "IsConflict L e"
    "store k' = (store (kube s))(key_of (obj s) \<mapsto> rival (Suc n) cur)" "pending k' = n"
    using attempt_late[OF law Suc.prems(1) n] by metis
  define s1 where "s1 = s\<lparr>kube := k', obj := (obj s)\<lparr>ResourceVersion := ResourceVersion (rival (Suc n) cur)\<rparr>\<rparr>"
  have "store (kube s1) (key_of (obj s1)) = Some (rival (Suc n) cur)" "Suc m \<le> pending (kube s1)"
    using a(3,4) n Suc.prems(2) by (simp_all add: s1_def)
  note ih = Suc.IH[OF this]
  have "key_of (obj s1) = key_of (obj s)" "pending (kube s1) = n" using a(4) by (simp_all add: s1_def)
  then obtain e2 k2 rv where
    "attempts (IsConflict L) (Suc m) (status_attempt L K (key_of (obj s))) s1
      = (Err e2, s1\<lparr>kube := k2, obj := (obj s1)\<lparr>ResourceVersion := rv\<rparr>\<rparr>)" "IsConflict L e2"
    "pending k2 = n - Suc m"
    "store k2 = (store (kube s1))(key_of (obj s) \<mapsto> landed rival (Suc m) n (rival (Suc n) cur))"
    using ih by metis
  then show ?case
    using conflict_again[OF a(1,2), of m] a(3) n
    by (intro exI[of _ e2] exI[of _ k2] exI[of _ rv]) (simp add: s1_def del: attempts.simps)
qed

section \<open>The whole run\<close>

lemma retry_succeeds:
  assumes "retry_law L" and "contended_law (IsConflict L) pending rival store K"
    and "store (kube s) (key_of (obj s)) = Some cur" and "pending (kube s) < 5"
  obtains k' y rv where "updateStatusWithRetry L K s = (Ok (), s\<lparr>kube := k', obj := y\<rparr>)"
    and "store k' = (store (kube s))(key_of (obj s) \<mapsto> y)" and "pending k' = 0"
    and "y = stored_status (landed rival (pending (kube s)) (pending (kube s)) cur) (obj s) rv"
proof -
  have "hurdles pending cur (kube s) (obj s) < 5" using assms(4) by (simp add: hurdles_def)
  from attempts_succeed[OF assms(2,3) this] that show ?thesis
    by (auto simp: updateStatusWithRetry_def assms(1)[unfolded retry_law_def])
qed

lemma retry_exhausted:
  assumes "retry_law L" and "contended_law (IsConflict L) pending rival store K"
    and "store (kube s) (key_of (obj s)) = Some cur" and "5 \<le> pending (kube s)"
  obtains e k' rv where "updateStatusWithRetry L K s = (Err e, s\<lparr>kube := k', obj := (obj s)\<lparr>ResourceVersion := rv\<rparr>\<rparr>)"
    and "IsConflict L e" and "pending k' = pending (kube s) - 5"
    and "store k' = (store (kube s))(key_of (obj s) \<mapsto> landed rival 5 (pending (kube s)) cur)"
proof -
  have five: "(5::nat) = Suc 4" by simp
  have "Suc 4 \<le> pending (kube s)" using assms(4) by simp
  from attempts_exhausted[OF assms(2,3) this] that show ?thesis
    unfolding updateStatusWithRetry_def assms(1)[unfolded retry_law_def, rule_format] five by auto
qed

abbreviation synced_condition :: Condition where
  "synced_condition \<equiv> \<lparr> cond_Type = ''Synced'', cond_Status = ''True'', cond_Reason = ''ReconcileSuccess'',
     cond_Message = ''Reconcile loop completed without error'' \<rparr>"

context resource_contract
begin

lemma contended_run:
  assumes lib: "lib_ok L" and law: "contended_law (IsConflict L) pending rival store K"
    and x: "store (kube s) req = Some x" "DeletionTimestamp x = None" "FinalizerName R \<in> set (Finalizers x)"
    and run: "Reconcile R (s\<lparr>obj := x\<rparr>) = (Ok res, s2)" and cur: "store (kube s2) req = Some cur"
  obtains s3 where "base_Reconcile L K recorder R req s =
      bindM (wrapM (''persist '' @ Kind R @ '' status'') (updateStatusWithRetry L K)) (\<lambda>_. ret res) s3"
    and "cloud s3 = cloud s2" and "kube s3 = kube s2" and "metrics s3 = metrics s @ [(Kind R, ''success'')]"
    and "obj s3 = (obj s2)\<lparr>Status := (Status (obj s2))\<lparr>Conditions := SetStatusCondition L
        (Conditions (Status (obj s2))) synced_condition\<rparr>\<rparr>"
    and "store (kube s3) (key_of (obj s3)) = Some cur" and "key_of (obj s3) = req"
proof -
  note laws = lib_okD[OF lib]
  have has: "ContainsFinalizer L (Finalizers x) (FinalizerName R)"
    using laws(2) x(3) by (simp add: finalizers_law_def)
  have same: "key_of (obj s2) = req" "metrics s2 = metrics s"
    using reconcile_key[OF laws(3) run] contended_get(2)[OF law x(1)] by simp_all
  define s3 where "s3 = s2\<lparr>obj := (obj s2)\<lparr>Status := (Status (obj s2))\<lparr>Conditions := SetStatusCondition L
        (Conditions (Status (obj s2))) synced_condition\<rparr>\<rparr>, metrics := metrics s2 @ [(Kind R, ''success'')]\<rparr>"
  have "base_Reconcile L K recorder R req s =
      bindM (wrapM (''persist '' @ Kind R @ '' status'') (updateStatusWithRetry L K)) (\<lambda>_. ret res) s3"
    using contended_get(1)[OF law x(1)] x(2) has run
    by (simp add: base_Reconcile_def base_domain_def tryM_run RecordReconcile_def s3_def)
  then show ?thesis using same cur by (intro that[of s3]) (simp_all add: s3_def)
qed

end

section \<open>The property\<close>

text \<open>C9: the status write gets past up to four writes of others to the same object, whatever they
  change, and gives up at the fifth. In the first case the stored object is what the others made
  of it with its status, and only that, replaced by the computed one. In the second the run
  returns the conflict after exactly five attempts, the stored object is what the others made of
  it and the computed status is lost, although the cloud is changed and a success is counted.\<close>

theorem status_write_gives_up_at_five:
  assumes "resource_contract L A R" and "lib_ok L" and "contended_law (IsConflict L) pending rival store K"
    and "store (kube s) req = Some x" and "DeletionTimestamp x = None"
    and "FinalizerName R \<in> set (Finalizers x)"
    and "Reconcile R (s\<lparr>obj := x\<rparr>) = (Ok res, s2)" and "store (kube s2) req = Some cur"
    and "pending (kube s2) = n"
  shows "\<exists>r s'. base_Reconcile L K recorder R req s = (r, s')
    \<and> cloud s' = cloud s2 \<and> metrics s' = metrics s @ [(Kind R, ''success'')]
    \<and> (if n < 5
       then r = Ok res \<and> pending (kube s') = 0
         \<and> (\<exists>cs rv. store (kube s') = (store (kube s2))(req \<mapsto> (landed rival n n cur)
               \<lparr>Status := (Status (obj s2))\<lparr>Conditions := cs\<rparr>, ResourceVersion := rv\<rparr>)
            \<and> FindStatusCondition L cs = (FindStatusCondition L (Conditions (Status (obj s2))))
               (''Synced'' \<mapsto> synced_condition))
       else (\<exists>e. r = Err (Wrapf (''persist '' @ Kind R @ '' status'') e) \<and> IsConflict L e)
         \<and> pending (kube s') = n - 5
         \<and> store (kube s') = (store (kube s2))(req \<mapsto> landed rival 5 n cur))"
proof -
  obtain s3 where run: "base_Reconcile L K recorder R req s =
      bindM (wrapM (''persist '' @ Kind R @ '' status'') (updateStatusWithRetry L K)) (\<lambda>_. ret res) s3"
    and s3: "cloud s3 = cloud s2" "kube s3 = kube s2" "metrics s3 = metrics s @ [(Kind R, ''success'')]"
      "obj s3 = (obj s2)\<lparr>Status := (Status (obj s2))\<lparr>Conditions := SetStatusCondition L
        (Conditions (Status (obj s2))) synced_condition\<rparr>\<rparr>" "key_of (obj s3) = req"
    and cur: "store (kube s3) (key_of (obj s3)) = Some cur"
    using resource_contract.contended_run[OF assms(1-8)] by metis
  note retry = lib_okD(3)[OF assms(2)]
  have find: "FindStatusCondition L (SetStatusCondition L cs c) = (FindStatusCondition L cs)(cond_Type c \<mapsto> c)" for cs c
    by (rule ext) (simp add: find_set[OF lib_okD(1)[OF assms(2)]])
  show ?thesis
  proof (cases "n < 5")
    case True
    then obtain k' y rv where w: "updateStatusWithRetry L K s3 = (Ok (), s3\<lparr>kube := k', obj := y\<rparr>)"
      "store k' = (store (kube s3))(key_of (obj s3) \<mapsto> y)" "pending k' = 0"
      "y = stored_status (landed rival n n cur) (obj s3) rv"
      using retry_succeeds[OF retry assms(3) cur] assms(9) s3(2) by metis
    then show ?thesis
      using True s3 by (auto simp: run bindM_run wrapM_run stored_status_def find)
  next
    case False
    then obtain e k' rv where w: "updateStatusWithRetry L K s3 = (Err e, s3\<lparr>kube := k', obj := (obj s3)\<lparr>ResourceVersion := rv\<rparr>\<rparr>)"
      "IsConflict L e" "pending k' = n - 5"
      "store k' = (store (kube s3))(key_of (obj s3) \<mapsto> landed rival 5 n cur)"
      using retry_exhausted[OF retry assms(3) cur] assms(9) s3(2) by (metis not_less)
    then show ?thesis
      using False s3 by (simp add: run bindM_run wrapM_run)
  qed
qed

section \<open>A concrete contended server\<close>

text \<open>The in-memory API server with a number of label edits by others still to come.\<close>

definition rival_edit :: "nat \<Rightarrow> ('spec, 'st) kobject \<Rightarrow> ('spec, 'st) kobject" where
  "rival_edit n x = x\<lparr>ObjectLabels := [(''edit'', fmt_d (int n))], ResourceVersion := next_version (ResourceVersion x)\<rparr>"

definition beside :: "('k, 'o) kclient \<Rightarrow> (nat \<times> 'k, 'o) kclient" where
  "beside C = \<lparr> KGet = (\<lambda>nn (n, k). map_prod id (Pair n) (KGet C nn k)),
     KUpdate = (\<lambda>x (n, k). map_prod id (Pair n) (KUpdate C x k)),
     KStatusUpdate = (\<lambda>x (n, k). map_prod id (Pair n) (KStatusUpdate C x k)),
     KList = (\<lambda>opts (n, k). map_prod id (Pair n) (KList C opts k)) \<rparr>"

definition contended :: "('k \<Rightarrow> ('spec, 'st) kobject list)
    \<Rightarrow> ((('spec, 'st) kobject list \<Rightarrow> ('spec, 'st) kobject list) \<Rightarrow> 'k \<Rightarrow> 'k)
    \<Rightarrow> ('k, ('spec, 'st) kobject) kclient \<Rightarrow> (nat \<times> 'k, ('spec, 'st) kobject) kclient" where
  "contended tbl upd C = (beside C)\<lparr>KStatusUpdate := (\<lambda>x (n, k).
     case (n, mem_find (tbl k) (key_of x)) of
       (Suc m, Some cur) \<Rightarrow> (Err (KubeError ''Conflict'' (Name x @ '' has been modified'')),
         (m, upd (mem_put (rival_edit n cur)) k))
     | _ \<Rightarrow> map_prod id (Pair n) (KStatusUpdate C x k))\<rparr>"

definition busy_api :: "(nat \<times> apistate) kube_api" where
  "busy_api = \<lparr>
     KServers = beside (KServers sample_api), KVolumes = beside (KVolumes sample_api),
     KLoadBalancers = beside (KLoadBalancers sample_api), KNetworks = beside (KNetworks sample_api),
     KFirewalls = beside (KFirewalls sample_api),
     KPlacementGroups = contended st_PlacementGroups st_PlacementGroups_update (KPlacementGroups sample_api),
     KPrimaryIPs = beside (KPrimaryIPs sample_api), KFloatingIPs = beside (KFloatingIPs sample_api),
     KCertificates = beside (KCertificates sample_api) \<rparr>"

lemma rival_edit_key [simp]: "key_of (rival_edit n x) = key_of x"
  by (simp add: rival_edit_def key_of_def)

lemma contended_mem_law:
  assumes "\<And>g k. tbl (upd g k) = g (tbl k)"
  shows "contended_law sample_conflict fst rival_edit (\<lambda>k. mem_find (tbl (snd k)))
    (contended tbl upd (mem_client tbl upd index))"
  unfolding contended_law_def
  by (auto simp: contended_def beside_def mem_client_def Let_def assms mem_find_put sample_conflict_def
      stored_status_def mem_find_key intro!: exI[of _ "next_version _"])

definition spread_group :: HCloudPlacementGroup where
  "spread_group = NewHCloudPlacementGroup\<lparr>Name := ''spread'',
     Finalizers := [''infra.hkc.io/placementgroup-finalizer'']\<rparr>"

definition busy_world :: "nat \<Rightarrow> (FakeClient, nat \<times> apistate, HCloudPlacementGroup) rst" where
  "busy_world n = \<lparr> cloud = NewFakeClient, kube = (n, no_objects\<lparr>st_PlacementGroups := [spread_group]\<rparr>),
     obj = NewHCloudPlacementGroup, events = [], metrics = [] \<rparr>"

abbreviation busy_run :: "nat \<Rightarrow> Result res \<times> (FakeClient, nat \<times> apistate, HCloudPlacementGroup) rst" where
  "busy_run n \<equiv> base_Reconcile sample_lib (KPlacementGroups busy_api) True
     (HCloudPlacementGroupReconciler sample_lib busy_api (fake_client [])) \<lparr> nn_Namespace = '''', nn_Name = ''spread'' \<rparr>
     (busy_world n)"

lemma busy_reconcile:
  obtains s2 where "placement_Reconcile sample_lib (fake_client []) ((busy_world n)\<lparr>obj := spread_group\<rparr>)
      = (Ok (after requeueDelay), s2)" and "kube s2 = kube (busy_world n)"
  by (simp add: busy_world_def spread_group_def NewHCloudPlacementGroup_def placement_Reconcile_def
      reconcileHCloudPlacementGroup_def find_existing_def NewFakeClient_def fake_GetPlacementGroupByName_def
      fake_get_by_name_def fake_CreatePlacementGroup_def fake_create_def new_placement_group_def placement_opts_def
      copyPlacementGroupInfo_def setCondition_def tryM_run bindM_run wrapM_run Let_def)

lemma busy_law:
  "contended_law (IsConflict sample_lib) fst rival_edit (\<lambda>k. mem_find (st_PlacementGroups (snd k))) (KPlacementGroups busy_api)"
  unfolding busy_api_def sample_api_sel kube_api.simps sample_lib_sel by (rule contended_mem_law) simp

lemma busy_stored: "mem_find (st_PlacementGroups (snd (kube (busy_world n)))) \<lparr> nn_Namespace = '''', nn_Name = ''spread'' \<rparr>
    = Some spread_group"
  by (simp add: busy_world_def mem_find_def key_of_def spread_group_def NewHCloudPlacementGroup_def)

theorem status_write_gives_up_at_five_witness:
  "fst (busy_run 4) = Ok (after requeueDelay) \<and> fst (kube (snd (busy_run 4))) = 0
   \<and> (\<exists>e. fst (busy_run 7) = Err (Wrapf ''persist HCloudPlacementGroup status'' e)) \<and> fst (kube (snd (busy_run 7))) = 2"
proof -
  have held: "DeletionTimestamp spread_group = None"
    "FinalizerName (HCloudPlacementGroupReconciler sample_lib busy_api (fake_client [])) \<in> set (Finalizers spread_group)"
    by (simp_all add: spread_group_def NewHCloudPlacementGroup_def)
  obtain s4 where s4: "Reconcile (HCloudPlacementGroupReconciler sample_lib busy_api (fake_client []))
      ((busy_world 4)\<lparr>obj := spread_group\<rparr>) = (Ok (after requeueDelay), s4)" "kube s4 = kube (busy_world 4)"
    using busy_reconcile[of 4] by (metis placement_reconciler_sels(4))
  obtain s7 where s7: "Reconcile (HCloudPlacementGroupReconciler sample_lib busy_api (fake_client []))
      ((busy_world 7)\<lparr>obj := spread_group\<rparr>) = (Ok (after requeueDelay), s7)" "kube s7 = kube (busy_world 7)"
    using busy_reconcile[of 7] by (metis placement_reconciler_sels(4))
  have n: "fst (kube s4) = 4" "fst (kube s7) = 7" using s4(2) s7(2) by (simp_all add: busy_world_def)
  note at = status_write_gives_up_at_five[OF placement_contract.resource_contract_axioms sample_lib_ok(1)
      busy_law busy_stored held]
  show ?thesis
    using at[OF s4(1) _ n(1), of spread_group True] at[OF s7(1) _ n(2), of spread_group True]
    by (auto simp: busy_stored s4(2) s7(2))
qed

end
