(* ===== verification/FirewallProps.thy ===== *)
theory FirewallProps
  imports Parametric FakeRuns
begin

text \<open>
  The firewall controller on the fake client: when two rule lists count as equal, which targets
  are added and removed, and that a reconcile converges and then stays put.
\<close>

section \<open>Counting rules\<close>

abbreviation canonical_count :: "FirewallRuleInfo list \<Rightarrow> string \<Rightarrow> int" where
  "canonical_count rs k \<equiv> int (count (mset (map canonicalFirewallRule rs)) k)"

lemma count_of_add [simp]: "count_of (count_add d m k) k' = (if k' = k then count_of m k + d else count_of m k')"
  by (simp add: count_of_def count_add_def update_conv')

lemma count_of_Nil [simp]: "count_of [] k = 0"
  by (simp add: count_of_def)

lemma count_add_distinct: "distinct (map fst m) \<Longrightarrow> distinct (map fst (count_add d m k))"
  by (simp add: count_add_def distinct_update)

lemma count_desired:
  "distinct (map fst m) \<Longrightarrow> distinct (map fst (foldl (\<lambda>m r. count_add 1 m (canonicalFirewallRule r)) m rs))"
  "count_of (foldl (\<lambda>m r. count_add 1 m (canonicalFirewallRule r)) m rs) k = count_of m k + canonical_count rs k"
  by (induction rs arbitrary: m) (simp_all add: count_add_distinct)

lemma count_observed_Some:
  "count_observed m rs = Some m' \<Longrightarrow> count_of m' k = count_of m k - canonical_count rs k"
  "count_observed m rs = Some m' \<Longrightarrow> distinct (map fst m) \<Longrightarrow> distinct (map fst m')"
  by (induction rs arbitrary: m) (auto simp: Let_def count_add_distinct split: if_splits)

lemma count_observed_total:
  "(\<And>k. canonical_count rs k \<le> count_of m k) \<Longrightarrow> count_observed m rs \<noteq> None"
proof (induction rs arbitrary: m)
  case Nil
  then show ?case by simp
next
  case (Cons r rs)
  let ?k = "canonicalFirewallRule r" and ?m = "count_add (- 1) m (canonicalFirewallRule r)"
  have le: "canonical_count rs k \<le> count_of ?m k" for k using Cons.prems[of k] by (simp split: if_splits)
  then have "0 \<le> count_of ?m ?k" using le[of ?k] by linarith
  then show ?case using Cons.IH[OF le] by (simp add: Let_def)
qed

lemma all_zero:
  assumes "distinct (map fst m)"
  shows "list_all (\<lambda>(k, v). v = 0) m \<longleftrightarrow> (\<forall>k. count_of m k = 0)"
proof
  show "\<forall>k. count_of m k = 0" if "list_all (\<lambda>(k, v). v = 0) m"
    using that by (auto simp: count_of_def list_all_iff dest!: map_of_SomeD split: option.split)
  show "list_all (\<lambda>(k, v). v = 0) m" if "\<forall>k. count_of m k = 0"
  proof (unfold list_all_iff, clarify)
    fix k v assume "(k, v) \<in> set m"
    then have "map_of m k = Some v" using assms by simp
    then show "v = 0" using that[rule_format, of k] by (simp add: count_of_def)
  qed
qed

lemma rules_match_mset:
  "firewallRulesMatch desired observed \<longleftrightarrow>
     mset (map canonicalFirewallRule desired) = mset (map canonicalFirewallRule observed)"
proof -
  define m where "m = foldl (\<lambda>m r. count_add 1 m (canonicalFirewallRule r)) [] desired"
  have m: "distinct (map fst m)" "count_of m k = canonical_count desired k" for k
    by (simp_all add: m_def count_desired)
  have eq: "mset (map canonicalFirewallRule desired) = mset (map canonicalFirewallRule observed) \<longleftrightarrow>
      (\<forall>k. canonical_count desired k = canonical_count observed k)"
    by (auto simp: multiset_eq_iff)
  show ?thesis
  proof (cases "count_observed m observed")
    case None
    then have "\<not> (\<forall>k. canonical_count observed k \<le> canonical_count desired k)"
      using count_observed_total[of observed m] m(2) by metis
    then show ?thesis using None eq by (auto simp: firewallRulesMatch_def m_def[symmetric])
  next
    case (Some m')
    have "list_all (\<lambda>(k, v). v = 0) m' \<longleftrightarrow> (\<forall>k. canonical_count desired k = canonical_count observed k)"
      using all_zero[OF count_observed_Some(2)[OF Some m(1)]] count_observed_Some(1)[OF Some] m(2) by simp
    moreover have "length desired = length observed"
      if "mset (map canonicalFirewallRule desired) = mset (map canonicalFirewallRule observed)"
      using arg_cong[OF that, of size] by simp
    ultimately show ?thesis using Some eq by (auto simp: firewallRulesMatch_def m_def[symmetric])
  qed
qed

section \<open>What the canonical form tells apart\<close>

lemma split_at_sep:
  "c \<notin> set x \<Longrightarrow> c \<notin> set y \<Longrightarrow> x @ c # u = y @ c # v \<Longrightarrow> x = y \<and> u = v"
proof (induction x arbitrary: y)
  case Nil
  then show ?case by (cases y) auto
next
  case (Cons a x)
  then show ?case by (cases y) auto
qed

lemma join_Cons: "xs \<noteq> [] \<Longrightarrow> strings_Join (x # xs) sep = x @ sep @ strings_Join xs sep"
  by (cases xs) auto

lemma join_inject:
  "xs \<noteq> [] \<Longrightarrow> ys \<noteq> [] \<Longrightarrow> \<forall>x \<in> set xs. c \<notin> set x \<Longrightarrow> \<forall>y \<in> set ys. c \<notin> set y \<Longrightarrow>
   strings_Join xs [c] = strings_Join ys [c] \<Longrightarrow> xs = ys"
proof (induction xs arbitrary: ys)
  case Nil
  then show ?case by simp
next
  case (Cons x xs)
  obtain y ys' where ys: "ys = y # ys'" using Cons.prems(2) by (cases ys) auto
  have c: "c \<notin> set x" "c \<notin> set y" using Cons.prems(3,4) ys by auto
  consider "xs = []" "ys' = []" | "xs = []" "ys' \<noteq> []" | "xs \<noteq> []" "ys' = []" | "xs \<noteq> []" "ys' \<noteq> []" by blast
  then show ?case
  proof cases
    case 1
    then show ?thesis using Cons.prems(5) ys by simp
  next
    case 2
    then have "x = y @ c # strings_Join ys' [c]" using Cons.prems(5) ys by (simp add: join_Cons)
    then have "c \<in> set x" by (metis in_set_conv_decomp)
    then show ?thesis using c(1) by simp
  next
    case 3
    then have "y = x @ c # strings_Join xs [c]" using Cons.prems(5) ys by (simp add: join_Cons)
    then have "c \<in> set y" by (metis in_set_conv_decomp)
    then show ?thesis using c(2) by simp
  next
    case 4
    then have "x @ c # strings_Join xs [c] = y @ c # strings_Join ys' [c]"
      using Cons.prems(5) ys by (simp add: join_Cons)
    then have "x = y" "strings_Join xs [c] = strings_Join ys' [c]" using split_at_sep[OF c] by blast+
    then show ?thesis using Cons.IH[OF 4] Cons.prems(3,4) ys by simp
  qed
qed

lemma join_empty: "\<forall>x \<in> set xs. x \<noteq> [] \<Longrightarrow> strings_Join xs sep = [] \<longleftrightarrow> xs = []"
  by (cases "(xs, sep)" rule: strings_Join.cases) auto

text \<open>Addresses of a rule as the API server admits them: not empty, no comma, no NUL.\<close>

definition plain_ip :: "string \<Rightarrow> bool" where
  "plain_ip s \<longleftrightarrow> s \<noteq> [] \<and> CHR '','' \<notin> set s \<and> char_of (0::nat) \<notin> set s"

definition plain_rule :: "FirewallRuleInfo \<Rightarrow> bool" where
  "plain_rule r \<longleftrightarrow> list_all plain_ip (fwr_SourceIPs r) \<and> list_all plain_ip (fwr_DestinationIPs r)
     \<and> (\<forall>s \<in> {fwr_Direction r, fwr_Protocol r, deref_or_empty (fwr_Port r), deref_or_empty (fwr_Description r)}.
         char_of (0::nat) \<notin> set s)"

definition rule_meaning :: "FirewallRuleInfo \<Rightarrow> string \<times> string \<times> string \<times> string \<times> string multiset \<times> string multiset" where
  "rule_meaning r = (fwr_Direction r, fwr_Protocol r, deref_or_empty (fwr_Port r), deref_or_empty (fwr_Description r),
     mset (fwr_SourceIPs r), mset (fwr_DestinationIPs r))"

lemma join_ips:
  assumes "list_all plain_ip xs" and "list_all plain_ip ys"
  shows "strings_Join (sort xs) '','' = strings_Join (sort ys) '','' \<longleftrightarrow> mset xs = mset ys"
proof
  assume eq: "strings_Join (sort xs) '','' = strings_Join (sort ys) '',''"
  have ne: "\<forall>x \<in> set (sort xs). x \<noteq> []" "\<forall>x \<in> set (sort ys). x \<noteq> []"
    "\<forall>x \<in> set (sort xs). CHR '','' \<notin> set x" "\<forall>x \<in> set (sort ys). CHR '','' \<notin> set x"
    using assms by (auto simp: list_all_iff plain_ip_def)
  have "sort xs = sort ys"
  proof (cases "sort xs = [] \<or> sort ys = []")
    case True
    then show ?thesis using join_empty[OF ne(1)] join_empty[OF ne(2)] eq by metis
  next
    case False
    then show ?thesis using join_inject[OF _ _ ne(3,4) eq] by blast
  qed
  then show "mset xs = mset ys" by (metis mset_sort)
next
  assume "mset xs = mset ys"
  then have "sort xs = sort ys" by (metis mset_sort properties_for_sort sorted_sort)
  then show "strings_Join (sort xs) '','' = strings_Join (sort ys) '',''" by simp
qed

lemma join_chars: "c \<in> set (strings_Join xs sep) \<Longrightarrow> c \<in> set sep \<or> (\<exists>x \<in> set xs. c \<in> set x)"
  by (induction xs sep rule: strings_Join.induct) auto

lemma canonical_meaning:
  assumes "plain_rule r" and "plain_rule s"
  shows "canonicalFirewallRule r = canonicalFirewallRule s \<longleftrightarrow> rule_meaning r = rule_meaning s"
proof -
  let ?f = "\<lambda>r. [fwr_Direction r, fwr_Protocol r, deref_or_empty (fwr_Port r), deref_or_empty (fwr_Description r),
     strings_Join (sort (fwr_SourceIPs r)) '','', strings_Join (sort (fwr_DestinationIPs r)) '','']"
  have comma: "char_of (0::nat) \<noteq> CHR '',''" by (simp add: char_of_def)
  have nul: "\<forall>x \<in> set (?f t). char_of (0::nat) \<notin> set x" if "plain_rule t" for t
    using that comma by (auto simp: plain_rule_def list_all_iff plain_ip_def dest!: join_chars)
  have "canonicalFirewallRule r = canonicalFirewallRule s \<longleftrightarrow> ?f r = ?f s"
    using join_inject[OF _ _ nul[OF assms(1)] nul[OF assms(2)]]
    unfolding canonicalFirewallRule_def NUL_def by (metis list.distinct(1))
  then show ?thesis
    using join_ips assms by (simp add: rule_meaning_def plain_rule_def)
qed

lemma mset_image_factors:
  assumes "\<And>x y. x \<in> set (xs @ ys) \<Longrightarrow> y \<in> set (xs @ ys) \<Longrightarrow> f x = f y \<Longrightarrow> g x = g y"
    and "mset (map f xs) = mset (map f ys)"
  shows "mset (map g xs) = mset (map g ys)"
proof -
  define h where "h k = g (SOME x. x \<in> set (xs @ ys) \<and> f x = k)" for k
  have h: "h (f x) = g x" if x: "x \<in> set (xs @ ys)" for x
  proof -
    have "\<exists>y. y \<in> set (xs @ ys) \<and> f y = f x" using x by blast
    from someI_ex[OF this] show ?thesis unfolding h_def using assms(1) x by blast
  qed
  then have "map g xs = map h (map f xs)" "map g ys = map h (map f ys)" by simp_all
  then show ?thesis using arg_cong[OF assms(2), of "image_mset h"] by (metis mset_map)
qed

lemma mset_same_kernel:
  assumes "\<And>x y. x \<in> set (xs @ ys) \<Longrightarrow> y \<in> set (xs @ ys) \<Longrightarrow> f x = f y \<longleftrightarrow> g x = g y"
  shows "mset (map f xs) = mset (map f ys) \<longleftrightarrow> mset (map g xs) = mset (map g ys)"
  using mset_image_factors[of xs ys f g] mset_image_factors[of xs ys g f] assms by blast

lemma rules_match_meaning:
  assumes "list_all plain_rule desired" and "list_all plain_rule observed"
  shows "firewallRulesMatch desired observed \<longleftrightarrow> mset (map rule_meaning desired) = mset (map rule_meaning observed)"
  unfolding rules_match_mset using assms
  by (intro mset_same_kernel canonical_meaning) (auto simp: list_all_iff)

text \<open>The rule comparison is exactly equality of the two lists as multisets of rules, where the
  order of rules and of the addresses in a rule does not matter and a missing port or
  description counts as an empty one.\<close>

theorem rules_match_iff:
  assumes "list_all plain_rule desired" and "list_all plain_rule observed"
  shows "firewallRulesMatch desired observed \<longleftrightarrow> mset (map rule_meaning desired) = mset (map rule_meaning observed)"
  using assms by (rule rules_match_meaning)

section \<open>Targets\<close>

lemma by_key_snoc: "by_key (rs @ [r]) = AList.update (Key r) r (by_key rs)"
  by (simp add: by_key_def)

lemma update_sub: "set (AList.update k v m) \<subseteq> insert (k, v) (set m)"
  by (induction m) auto

lemma by_key_facts:
  shows "distinct (map fst (by_key rs))" "(k, r) \<in> set (by_key rs) \<Longrightarrow> k = Key r \<and> r \<in> set rs"
    "fst ` set (by_key rs) = Key ` set rs"
proof (induction rs arbitrary: k r rule: rev_induct)
  case Nil
  { case 1 show ?case by (simp add: by_key_def) }
  { case 2 then show ?case by (simp add: by_key_def) }
  { case 3 show ?case by (simp add: by_key_def) }
next
  case (snoc x xs)
  { case 1 show ?case using snoc(1) by (simp add: by_key_snoc distinct_update) }
  { case 2 then show ?case using snoc(2) update_sub[of "Key x" x "by_key xs"] by (auto simp: by_key_snoc) }
  { case 3 show ?case using snoc(3) dom_update[of "Key x" x "by_key xs"]
      by (simp add: by_key_snoc dom_map_of_conv_image_fst) }
qed

lemma by_key_free: "map_of (by_key rs) k = None \<longleftrightarrow> k \<notin> Key ` set rs"
  by (simp add: map_of_eq_None_iff by_key_facts(3))

definition kept_by_key :: "nat list \<Rightarrow> FirewallApplyResource list \<Rightarrow> FirewallApplyResource list \<Rightarrow> FirewallApplyResource list" where
  "kept_by_key c rs others = map snd (filter (\<lambda>(k, r). map_of (by_key others) k = None) (shuffle c (by_key rs)))"

lemma partition_kept: "partitionApplyTargets ch current desired =
    (kept_by_key (fst ch) current desired, kept_by_key (snd ch) desired current)"
  by (simp add: partitionApplyTargets_def kept_by_key_def Let_def)

lemma kept_by_key_facts:
  "Key ` set (kept_by_key c rs others) = Key ` set rs - Key ` set others"
  "set (kept_by_key c rs others) \<subseteq> set rs" "distinct (map Key (kept_by_key c rs others))"
proof -
  have mem: "r \<in> set (kept_by_key c rs others) \<longleftrightarrow> (Key r, r) \<in> set (by_key rs) \<and> Key r \<notin> Key ` set others" for r
    proof
    show "(Key r, r) \<in> set (by_key rs) \<and> Key r \<notin> Key ` set others" if r: "r \<in> set (kept_by_key c rs others)"
    proof -
      obtain k where "(k, r) \<in> set (by_key rs)" "k \<notin> Key ` set others"
        using r by (auto simp: kept_by_key_def by_key_free)
      then show ?thesis using by_key_facts(2) by metis
    qed
    show "r \<in> set (kept_by_key c rs others)" if "(Key r, r) \<in> set (by_key rs) \<and> Key r \<notin> Key ` set others"
      using that unfolding kept_by_key_def by (auto simp: by_key_free intro!: image_eqI[of _ _ "(Key r, r)"])
  qed
  show "set (kept_by_key c rs others) \<subseteq> set rs"
  proof
    fix r assume "r \<in> set (kept_by_key c rs others)"
    then have "(Key r, r) \<in> set (by_key rs)" by (simp add: mem)
    then show "r \<in> set rs" using by_key_facts(2) by blast
  qed
  show "Key ` set (kept_by_key c rs others) = Key ` set rs - Key ` set others"
  proof (intro equalityI subsetI)
    fix k assume "k \<in> Key ` set (kept_by_key c rs others)"
    then obtain r where r: "k = Key r" "r \<in> set (kept_by_key c rs others)" by (rule imageE)
    then have "r \<in> set rs" "Key r \<notin> Key ` set others" using r(2) mem[of r] by_key_facts(2)[of "Key r" r rs] by simp_all
    then show "k \<in> Key ` set rs - Key ` set others" using r(1) by simp
  next
    fix k assume k: "k \<in> Key ` set rs - Key ` set others"
    then have "k \<in> fst ` set (by_key rs)" by (simp add: by_key_facts(3))
    then obtain r where r: "(k, r) \<in> set (by_key rs)" by (metis imageE prod.collapse)
    then have "k = Key r" using by_key_facts(2) by blast
    then have "r \<in> set (kept_by_key c rs others)" using r k mem[of r] by (metis DiffD2)
    then show "k \<in> Key ` set (kept_by_key c rs others)" using \<open>k = Key r\<close> by (metis imageI)
  qed
  have "map Key (kept_by_key c rs others) = map fst (filter (\<lambda>(k, r). map_of (by_key others) k = None) (shuffle c (by_key rs)))"
    unfolding kept_by_key_def by (auto dest: by_key_facts(2))
  moreover have "distinct (map fst (shuffle c (by_key rs)))"
    using by_key_facts(1)[of rs] by (metis mset_eq_imp_distinct_iff mset_map mset_shuffle)
  ultimately show "distinct (map Key (kept_by_key c rs others))" by (simp add: distinct_map_filter)
qed

text \<open>Whatever order the two maps are walked in, the targets removed are exactly those applied but
  not wanted and the targets added exactly those wanted but not applied, compared by their key,
  each once, and each one of the given values.\<close>

theorem partition_targets:
  "let (remove, add) = partitionApplyTargets ch current desired in
     Key ` set remove = Key ` set current - Key ` set desired \<and> set remove \<subseteq> set current \<and> distinct (map Key remove)
   \<and> Key ` set add = Key ` set desired - Key ` set current \<and> set add \<subseteq> set desired \<and> distinct (map Key add)"
  by (simp add: partition_kept kept_by_key_facts)

section \<open>A run on the fake client\<close>

lemma has_firewallD:
  assumes "has_firewall f i w"
  shows "fake_GetFirewall i f = (Ok (Some (cloneFirewallInfo w)), f)" "fw_ID w = i" "i \<noteq> 0"
    "map_of (firewalls f) i = Some w" "fake_ready f"
  using firewall_runs.get_entry[OF assms] firewall_runs.entry_id[OF assms] has_entryD[OF assms]
  by (simp_all add: fake_GetFirewall_def)

lemmas has_firewall_put = firewall_runs.put_entry

lemma put_firewall_same [simp]: "has_firewall f i w \<Longrightarrow> put_firewall w f = f"
  by (rule firewall_runs.put_same)

lemma put_firewall_put [simp]: "fw_ID v = fw_ID w \<Longrightarrow> put_firewall w (put_firewall v f) = put_firewall w f"
  by (rule firewall_runs.put_put) simp

lemma clone_sel [simp]:
  "fw_ID (cloneFirewallInfo w) = fw_ID w" "fw_Name (cloneFirewallInfo w) = fw_Name w"
  "fw_Labels (cloneFirewallInfo w) = fw_Labels w" "fw_AppliedTo (cloneFirewallInfo w) = fw_AppliedTo w"
  "fw_Rules (cloneFirewallInfo w) = cloneFirewallRules (fw_Rules w)"
  by (simp_all add: cloneFirewallInfo_def cloneStringMap_def cloneFirewallApply_def)

lemma canonical_copy [simp]: "canonicalFirewallRule (firewallRuleDeepCopy r) = canonicalFirewallRule r"
  by (simp add: canonicalFirewallRule_def firewallRuleDeepCopy_def sorted_sort_id)

lemma rules_match_copy [simp]:
  "firewallRulesMatch ds (cloneFirewallRules rs) = firewallRulesMatch ds rs"
  "firewallRulesMatch ds ds"
  by (simp_all add: rules_match_mset cloneFirewallRules_def image_mset.compositionality o_def)

text \<open>The three synchronisation steps, as functions on the stored firewall.\<close>

definition with_labels :: "labels \<Rightarrow> FirewallInfo \<Rightarrow> FirewallInfo" where
  "with_labels l w = w\<lparr>fw_Labels := (if labelsMatch l (fw_Labels w) then fw_Labels w else l)\<rparr>"

definition with_rules :: "FirewallRuleInfo list \<Rightarrow> FirewallInfo \<Rightarrow> FirewallInfo" where
  "with_rules rs w = w\<lparr>fw_Rules := (if firewallRulesMatch rs (fw_Rules w) then fw_Rules w else cloneFirewallRules rs)\<rparr>"

definition with_targets :: "nat list \<times> nat list \<Rightarrow> FirewallApplyResource list \<Rightarrow> FirewallInfo \<Rightarrow> FirewallInfo" where
  "with_targets ch want w = w\<lparr>fw_AppliedTo :=
     (let kept = filter (\<lambda>a. Key a \<notin> Key ` set (kept_by_key (fst ch) (fw_AppliedTo w) want)) (fw_AppliedTo w)
      in apply_resources (map Key kept) kept (kept_by_key (snd ch) want (fw_AppliedTo w)))\<rparr>"

lemma firewall_with_sel [simp]:
  "fw_ID (with_labels l w) = fw_ID w" "fw_Name (with_labels l w) = fw_Name w"
  "fw_ID (with_rules rs w) = fw_ID w" "fw_Name (with_rules rs w) = fw_Name w"
  "fw_ID (with_targets ch want w) = fw_ID w" "fw_Name (with_targets ch want w) = fw_Name w"
  "fw_AppliedTo (with_labels l w) = fw_AppliedTo w" "fw_AppliedTo (with_rules rs w) = fw_AppliedTo w"
  "fw_Rules (with_labels l w) = fw_Rules w" "fw_Rules (with_targets ch want w) = fw_Rules w"
  "fw_Labels (with_rules rs w) = fw_Labels w" "fw_Labels (with_targets ch want w) = fw_Labels w"
  by (simp_all add: with_labels_def with_rules_def with_targets_def)

lemma set_fw_same: "w\<lparr>fw_Labels := fw_Labels w\<rparr> = w" "w\<lparr>fw_Rules := fw_Rules w\<rparr> = w" "w\<lparr>fw_AppliedTo := fw_AppliedTo w\<rparr> = w"
  by (cases w; simp)+

lemma with_same [simp]:
  "labelsMatch l (fw_Labels w) \<Longrightarrow> with_labels l w = w"
  "firewallRulesMatch rs (fw_Rules w) \<Longrightarrow> with_rules rs w = w"
  by (simp_all add: with_labels_def with_rules_def set_fw_same)

lemma refresh_firewall_run:
  assumes "has_firewall (cloud s) i w" and "fw_ID v = i"
  shows "refresh_firewall (fake_client c) what v s = (Ok (cloneFirewallInfo w), s)"
  using has_firewallD[OF assms(1)] assms(2) by (simp add: refresh_firewall_def bindM_run wrapM_run onCloud_run)

lemma sync_labels_run:
  assumes "has_firewall (cloud s) i w"
  shows "sync_labels (fake_client c) l (cloneFirewallInfo w) s =
    (Ok (cloneFirewallInfo (with_labels l w)), s\<lparr>cloud := put_firewall (with_labels l w) (cloud s)\<rparr>)"
proof (cases "labelsMatch l (fw_Labels w)")
  case True
  then show ?thesis using assms by (simp add: sync_labels_def)
next
  case False
  let ?w = "with_labels l w"
  have "fake_UpdateFirewallLabels i l (cloud s) = (Ok (), put_firewall ?w (cloud s))"
    using has_firewallD[OF assms] False
    by (simp add: fake_UpdateFirewallLabels_def fake_on_def put_in_def with_labels_def cloneStringMap_def)
  moreover have "has_firewall (cloud (s\<lparr>cloud := put_firewall ?w (cloud s)\<rparr>)) i ?w"
    using has_firewall_put[OF assms, of ?w] by simp
  ultimately show ?thesis
    using False has_firewallD[OF assms] refresh_firewall_run[of "s\<lparr>cloud := put_firewall ?w (cloud s)\<rparr>" i ?w "cloneFirewallInfo w"]
    by (simp add: sync_labels_def normalizeLabelsMap_def)
qed

lemma sync_rules_run:
  assumes "has_firewall (cloud s) i w"
  shows "sync_rules (fake_client c) rs (cloneFirewallInfo w) s =
    (Ok (cloneFirewallInfo (with_rules rs w)), s\<lparr>cloud := put_firewall (with_rules rs w) (cloud s)\<rparr>)"
proof (cases "firewallRulesMatch rs (fw_Rules w)")
  case True
  then show ?thesis using assms by (simp add: sync_rules_def)
next
  case False
  let ?w = "with_rules rs w"
  have "fake_SetFirewallRules i rs (cloud s) = (Ok (), put_firewall ?w (cloud s))"
    using has_firewallD[OF assms] False
    by (simp add: fake_SetFirewallRules_def fake_on_def put_in_def with_rules_def)
  moreover have "has_firewall (cloud (s\<lparr>cloud := put_firewall ?w (cloud s)\<rparr>)) i ?w"
    using has_firewall_put[OF assms, of ?w] by simp
  ultimately show ?thesis
    using False has_firewallD[OF assms] refresh_firewall_run[of "s\<lparr>cloud := put_firewall ?w (cloud s)\<rparr>" i ?w "cloneFirewallInfo w"]
    by (simp add: sync_rules_def)
qed

lemma apply_keys: "set keys = Key ` set acc \<Longrightarrow>
    Key ` set (apply_resources keys acc rs) = Key ` set acc \<union> Key ` set rs"
  by (induction keys acc rs rule: apply_resources.induct) auto

lemma apply_Nil [simp]: "apply_resources keys acc [] = acc"
  by simp

lemma with_targets_keys: "Key ` set (fw_AppliedTo (with_targets ch want w)) = Key ` set want"
proof -
  let ?gone = "kept_by_key (fst ch) (fw_AppliedTo w) want"
  let ?kept = "filter (\<lambda>a. Key a \<notin> Key ` set ?gone) (fw_AppliedTo w)"
  have "Key ` set ?kept = Key ` set (fw_AppliedTo w) \<inter> Key ` set want"
    by (auto simp: kept_by_key_facts(1))
  then show ?thesis
    using apply_keys[of "map Key ?kept" ?kept] by (auto simp: with_targets_def Let_def kept_by_key_facts(1))
qed

lemma kept_none: "Key ` set rs \<subseteq> Key ` set others \<Longrightarrow> kept_by_key c rs others = []"
  using kept_by_key_facts(1)[of c rs others] by (metis Diff_eq_empty_iff image_is_empty set_empty)

lemma with_targets_same: "Key ` set (fw_AppliedTo w) = Key ` set want \<Longrightarrow> with_targets ch want w = w"
  by (simp add: with_targets_def kept_none set_fw_same)

lemma sync_targets_run:
  fixes s :: "(FakeClient, 'k, HCloudFirewall) rst"
  assumes "has_firewall (cloud s) i w"
  shows "sync_targets ch (fake_client c) want (cloneFirewallInfo w) s =
    (Ok (), s\<lparr>cloud := put_firewall (with_targets ch want w) (cloud s)\<rparr>)"
proof -
  let ?gone = "kept_by_key (fst ch) (fw_AppliedTo w) want" and ?new = "kept_by_key (snd ch) want (fw_AppliedTo w)"
  let ?w1 = "w\<lparr>fw_AppliedTo := filter (\<lambda>a. Key a \<notin> Key ` set ?gone) (fw_AppliedTo w)\<rparr>"
  let ?w2 = "?w1\<lparr>fw_AppliedTo := apply_resources (map Key (fw_AppliedTo ?w1)) (fw_AppliedTo ?w1) ?new\<rparr>"
  have has1: "has_firewall (put_firewall ?w1 (cloud s)) i ?w1" by (rule has_firewall_put[OF assms]) simp_all
  have rem: "wrapM p (onCloud (fake_RemoveFirewallResources i ?gone)) s = (Ok (), s\<lparr>cloud := put_firewall ?w1 (cloud s)\<rparr>)" for p
    using has_firewallD[OF assms]
    by (simp add: fake_RemoveFirewallResources_def fake_on_def put_in_def wrapM_run onCloud_run)
  have add: "wrapM p (onCloud (fake_ApplyFirewallResources i ?new)) t = (Ok (), t\<lparr>cloud := put_firewall ?w2 (cloud t)\<rparr>)"
      if "has_firewall (cloud t) i ?w1" for p and t :: "(FakeClient, 'k, HCloudFirewall) rst"
    using has_firewallD[OF that]
    by (simp add: fake_ApplyFirewallResources_def fake_on_def put_in_def wrapM_run onCloud_run)
  have w2: "with_targets ch want w = ?w2" by (simp add: with_targets_def Let_def)
  have gone: "?gone = [] \<Longrightarrow> ?w1 = w" and new: "?new = [] \<Longrightarrow> ?w2 = ?w1"
    by (simp_all add: set_fw_same)
  let ?s1 = "s\<lparr>cloud := put_firewall ?w1 (cloud s)\<rparr>"
  have r: "(if 0 < length ?gone then wrapM ''remove firewall resources'' (onCloud (RemoveFirewallResources (fake_client c) i ?gone))
      else ret ()) s = (Ok (), ?s1)"
    using rem gone assms by (cases "?gone = []") (simp_all del: list.map filter.simps)
  have a: "(if 0 < length ?new then wrapM ''apply firewall resources'' (onCloud (ApplyFirewallResources (fake_client c) i ?new))
      else ret ()) ?s1 = (Ok (), ?s1\<lparr>cloud := put_firewall ?w2 (cloud ?s1)\<rparr>)"
    using add[of ?s1] new has1 by (cases "?new = []") simp_all
  show ?thesis
    unfolding sync_targets_def partition_kept clone_sel has_firewallD(2)[OF assms] w2 using r a
    by (simp del: length_greater_0_conv fake_client_sel split del: if_split)
qed

definition synced_firewall :: "nat list \<times> nat list \<Rightarrow> HCloudFirewall \<Rightarrow> FirewallApplyResource list \<Rightarrow> FirewallInfo \<Rightarrow> FirewallInfo" where
  "synced_firewall ch x want w = with_targets ch want (with_rules (firewallRulesFromSpec (fwp_Rules (Spec x)))
     (with_labels (fwp_Labels (Spec x)) w))"

lemma firewall_run:
  assumes "has_firewall (cloud s) (fws_FirewallID (Status (obj s))) w"
    and "desiredApplyResources K s = (Ok want, s)"
  obtains s' where "firewall_Reconcile ch L K (fake_client c) s = (Ok (after requeueDelay), s')"
    and "cloud s' = put_firewall (synced_firewall ch (obj s) want w) (cloud s)" and "kube s' = kube s"
    and "has_firewall (cloud s') (fws_FirewallID (Status (obj s))) (synced_firewall ch (obj s) want w)"
    and "Spec (obj s') = Spec (obj s)" and "fws_FirewallID (Status (obj s')) = fws_FirewallID (Status (obj s))"
proof -
  let ?i = "fws_FirewallID (Status (obj s))" and ?x = "obj s"
  let ?rs = "firewallRulesFromSpec (fwp_Rules (Spec ?x))" and ?l = "fwp_Labels (Spec ?x)"
  let ?w1 = "with_labels ?l w" and ?w2 = "with_rules ?rs (with_labels ?l w)"
  let ?w3 = "with_targets ch want ?w2"
  define s1 where "s1 = s\<lparr>cloud := put_firewall ?w1 (cloud s)\<rparr>"
  define s2 where "s2 = s1\<lparr>cloud := put_firewall ?w2 (cloud s1)\<rparr>"
  define s3 where "s3 = s2\<lparr>cloud := put_firewall ?w3 (cloud s2)\<rparr>"
  define s4 where "s4 = snd (setCondition L conditionTypeReady ConditionTrue ''FirewallReady''
      ''Firewall rules and attachments are in sync'' s3)"
  note h0 = assms(1)
  have h1: "has_firewall (cloud s1) ?i ?w1" using has_firewall_put[OF h0, of ?w1] by (simp add: s1_def)
  have h2: "has_firewall (cloud s2) ?i ?w2" using has_firewall_put[OF h1, of ?w2] by (simp add: s2_def)
  have h3: "has_firewall (cloud s3) ?i ?w3" using has_firewall_put[OF h2, of ?w3] by (simp add: s3_def)
  note steps = sync_labels_run[OF h0, of c ?l, folded s1_def] sync_rules_run[OF h1, of c ?rs, folded s2_def]
    sync_targets_run[OF h2, of ch c want, folded s3_def]
  have found: "find_existing (\<lambda>i. onCloud (GetFirewall (fake_client c) i)) (\<lambda>n. onCloud (GetFirewallByName (fake_client c) n))
      ''firewall'' ?i (Name ?x) s = (Ok (Some (cloneFirewallInfo w)), s)"
    using has_firewallD[OF assms(1)] by (simp add: find_existing_def bindM_run wrapM_run onCloud_run)
  have "reconcileHCloudFirewall ch L K (fake_client c) s = (Ok (), s4)"
    using has_firewallD(2)[OF assms(1)] assms(2) found steps
    by (simp add: reconcileHCloudFirewall_def Let_def s4_def del: fake_client_sel)
  then have "firewall_Reconcile ch L K (fake_client c) s = (Ok (after requeueDelay), s4)"
    by (simp add: firewall_Reconcile_def)
  then show ?thesis
    by (rule that) (use h3 in \<open>simp_all add: s4_def s3_def s2_def s1_def synced_firewall_def\<close>)
qed

section \<open>Properties of a run\<close>

text \<open>C24: A reconcile of a provisioned firewall leaves it with the labels of the spec, rules that match
  those of the spec and exactly the wanted targets, whatever it held before and whatever
  order the maps are walked in.\<close>

theorem firewall_converges:
  assumes "has_firewall (cloud s) (fws_FirewallID (Status (obj s))) w"
    and "desiredApplyResources K s = (Ok want, s)"
    and "distinct (map fst (fwp_Labels (Spec (obj s))))" and "distinct (map fst (fw_Labels w))"
  shows "\<exists>s' w'. firewall_Reconcile ch L K (fake_client c) s = (Ok (after requeueDelay), s') \<and> kube s' = kube s
    \<and> has_firewall (cloud s') (fws_FirewallID (Status (obj s))) w' \<and> cloud s' = put_firewall w' (cloud s)
    \<and> map_of (fw_Labels w') = map_of (fwp_Labels (Spec (obj s)))
    \<and> firewallRulesMatch (firewallRulesFromSpec (fwp_Rules (Spec (obj s)))) (fw_Rules w')
    \<and> Key ` set (fw_AppliedTo w') = Key ` set want"
proof -
  let ?w' = "synced_firewall ch (obj s) want w"
  obtain s' where s': "firewall_Reconcile ch L K (fake_client c) s = (Ok (after requeueDelay), s')"
    "cloud s' = put_firewall ?w' (cloud s)" "kube s' = kube s"
    "has_firewall (cloud s') (fws_FirewallID (Status (obj s))) ?w'"
    using firewall_run[OF assms(1,2)] by metis
  have "map_of (fw_Labels (with_labels l w)) = map_of l" if "distinct (map fst l)" for l
    using maps_Equal_iff[OF that assms(4)] by (auto simp: with_labels_def labelsMatch_def normalizeLabelsMap_def)
  then have "map_of (fw_Labels ?w') = map_of (fwp_Labels (Spec (obj s)))"
    using assms(3) by (simp add: synced_firewall_def)
  moreover have "firewallRulesMatch rs (fw_Rules (with_rules rs v))" for rs v
    by (simp add: with_rules_def)
  then have "firewallRulesMatch (firewallRulesFromSpec (fwp_Rules (Spec (obj s)))) (fw_Rules ?w')"
    by (simp add: synced_firewall_def)
  moreover have "Key ` set (fw_AppliedTo ?w') = Key ` set want"
    by (simp add: synced_firewall_def with_targets_keys)
  ultimately show ?thesis using s' by blast
qed

text \<open>A reconcile of a firewall that is in sync changes nothing in the cloud.\<close>

theorem firewall_settles:
  assumes "has_firewall (cloud s) (fws_FirewallID (Status (obj s))) w"
    and "desiredApplyResources K s = (Ok want, s)"
    and "distinct (map fst (fwp_Labels (Spec (obj s))))" and "distinct (map fst (fw_Labels w))"
    and "map_of (fw_Labels w) = map_of (fwp_Labels (Spec (obj s)))"
    and "firewallRulesMatch (firewallRulesFromSpec (fwp_Rules (Spec (obj s)))) (fw_Rules w)"
    and "Key ` set (fw_AppliedTo w) = Key ` set want"
  shows "\<exists>s'. firewall_Reconcile ch L K (fake_client c) s = (Ok (after requeueDelay), s') \<and> cloud s' = cloud s"
proof -
  have "labelsMatch (fwp_Labels (Spec (obj s))) (fw_Labels w)"
    using maps_Equal_iff[OF assms(3,4)] assms(5) by (simp add: labelsMatch_def normalizeLabelsMap_def)
  then have "synced_firewall ch (obj s) want w = w"
    using assms(6,7) by (simp add: synced_firewall_def with_targets_same)
  then show ?thesis
    using firewall_run[OF assms(1,2), of ch L c] assms(1) by (metis put_firewall_same)
qed

section \<open>Resolving the targets\<close>

definition server_target :: "int64 \<Rightarrow> FirewallApplyResource" where
  "server_target i = \<lparr> far_Type = ''server'', far_ServerID = i, far_Selector = '''' \<rparr>"

definition selector_target :: "string \<Rightarrow> FirewallApplyResource" where
  "selector_target sel = \<lparr> far_Type = ''label_selector'', far_ServerID = 0, far_Selector = sel \<rparr>"

lemma add_targets_run:
  assumes "api_law nf cf store (KServers K)"
    and "\<And>r. r \<in> set refs \<Longrightarrow> r \<noteq> '''' \<Longrightarrow> store (kube s) (cluster_key r) = Some (srv r)"
    and "distinct out" and "\<And>i. server_target i \<in> set out \<longleftrightarrow> i \<in> set seen"
  shows "\<exists>out' seen'. foldM refs (add_server_target K) (out, seen) s = (Ok (out', seen'), s) \<and> distinct out'
    \<and> set out' = set out \<union> server_target ` ((\<lambda>r. svs_ServerID (Status (srv r))) ` {r \<in> set refs. r \<noteq> ''''} - {0})"
  using assms(2-4)
proof (induction refs arbitrary: out seen)
  case Nil
  then show ?case by simp
next
  case (Cons r refs)
  let ?i = "svs_ServerID (Status (srv r))"
  show ?case
  proof (cases "r = '''' \<or> ?i = 0 \<or> ?i \<in> set seen")
    case True
    have "add_server_target K (out, seen) r s = (Ok (out, seen), s)"
    proof (cases "r = ''''")
      case False
      then show ?thesis
        using True api_get[OF assms(1) Cons.prems(1)[of r]]
        by (auto simp: add_server_target_def bindM_run wrapM_run onKube_run Let_def)
    qed (simp add: add_server_target_def)
    moreover obtain out' seen' where "foldM refs (add_server_target K) (out, seen) s = (Ok (out', seen'), s)" "distinct out'"
      "set out' = set out \<union> server_target ` ((\<lambda>r. svs_ServerID (Status (srv r))) ` {r \<in> set refs. r \<noteq> ''''} - {0})"
      using Cons.IH[OF Cons.prems(1) Cons.prems(2,3)] by auto
    moreover have "server_target ?i \<in> set out" if "r \<noteq> ''''" "?i \<noteq> 0" using True that Cons.prems(3) by blast
    ultimately show ?thesis by (intro exI[of _ out'] exI[of _ seen']) auto
  next
    case False
    have step: "add_server_target K (out, seen) r s = (Ok (out @ [server_target ?i], ?i # seen), s)"
      using False api_get[OF assms(1) Cons.prems(1)[of r]]
      by (simp add: add_server_target_def bindM_run wrapM_run onKube_run Let_def server_target_def)
    have "distinct (out @ [server_target ?i])" using False Cons.prems(2,3) by simp
    moreover have "server_target i \<in> set (out @ [server_target ?i]) \<longleftrightarrow> i \<in> set (?i # seen)" for i
      using Cons.prems(3) by (auto simp: server_target_def)
    ultimately obtain out' seen' where "foldM refs (add_server_target K) (out @ [server_target ?i], ?i # seen) s = (Ok (out', seen'), s)" "distinct out'"
      "set out' = set (out @ [server_target ?i]) \<union> server_target ` ((\<lambda>r. svs_ServerID (Status (srv r))) ` {r \<in> set refs. r \<noteq> ''''} - {0})"
      using Cons.IH[OF Cons.prems(1), of "out @ [server_target ?i]" "?i # seen"] by auto
    then show ?thesis using step False by (intro exI[of _ out'] exI[of _ seen']) auto
  qed
qed

text \<open>The wanted targets of a firewall are its label selector and the servers it names that are
  provisioned, each once; a named server without an identifier is left out until it has one.\<close>

theorem desired_targets:
  assumes "api_law nf cf store (KServers K)" and "fwp_ApplyTo (Spec (obj s)) = Some t"
    and "\<And>r. r \<in> set (fat_ServerRefs t) \<Longrightarrow> r \<noteq> '''' \<Longrightarrow> store (kube s) (cluster_key r) = Some (srv r)"
  shows "\<exists>want. desiredApplyResources K s = (Ok want, s) \<and> distinct want
    \<and> set want = (if fat_LabelSelector t = '''' then {} else {selector_target (fat_LabelSelector t)})
        \<union> server_target ` ((\<lambda>r. svs_ServerID (Status (srv r))) ` {r \<in> set (fat_ServerRefs t). r \<noteq> ''''} - {0})"
proof -
  let ?out = "if fat_LabelSelector t \<noteq> '''' then [selector_target (fat_LabelSelector t)] else []"
  have "distinct ?out" and "\<And>i. server_target i \<in> set ?out \<longleftrightarrow> i \<in> set []"
    by (auto simp: server_target_def selector_target_def)
  from add_targets_run[OF assms(1,3) this]
  obtain out' seen' where r: "foldM (fat_ServerRefs t) (add_server_target K) (?out, []) s = (Ok (out', seen'), s)" "distinct out'"
    "set out' = set ?out \<union> server_target ` ((\<lambda>r. svs_ServerID (Status (srv r))) ` {r \<in> set (fat_ServerRefs t). r \<noteq> ''''} - {0})"
    by blast
  have "desiredApplyResources K s = (Ok out', s)"
    using assms(2) r(1)
    by (cases "fat_LabelSelector t = ''''") (simp_all add: desiredApplyResources_def selector_target_def)
  then show ?thesis using r(2,3) by auto
qed

lemma foldM_append: "foldM (xs @ ys) f = (\<lambda>b. bindM (foldM xs f b) (foldM ys f))"
proof (induction xs)
  case (Cons x xs)
  show ?case by (rule ext) (simp add: Cons.IH bindM_assoc)
qed (rule ext, simp)

text \<open>A firewall that names a server the API server does not hold fails before anything is written to
  the cloud; the error names the reference.\<close>

theorem missing_target_blocks:
  assumes "api_law nf cf store (KServers K)" and "fwp_ApplyTo (Spec (obj s)) = Some t"
    and "fat_ServerRefs t = refs @ r # rest" and "r \<noteq> ''''" and "store (kube s) (cluster_key r) = None"
    and "\<And>r. r \<in> set refs \<Longrightarrow> r \<noteq> '''' \<Longrightarrow> store (kube s) (cluster_key r) = Some (srv r)"
  shows "\<exists>e. firewall_Reconcile ch L K H s = (Err (Wrapf (''resolve server ref '' @ fmt_q r) e), s)"
proof -
  let ?out = "if fat_LabelSelector t \<noteq> '''' then [selector_target (fat_LabelSelector t)] else []"
  have "distinct ?out" and "\<And>i. server_target i \<in> set ?out \<longleftrightarrow> i \<in> set []"
    by (auto simp: server_target_def selector_target_def)
  from add_targets_run[OF assms(1,6) this]
  obtain out' seen' where run: "foldM refs (add_server_target K) (?out, []) s = (Ok (out', seen'), s)" by blast
  obtain e where "KGet (KServers K) (cluster_key r) (kube s) = (Err e, kube s)"
    using assms(1,5) unfolding api_law_def by meson
  then have "add_server_target K (out', seen') r s = (Err (Wrapf (''resolve server ref '' @ fmt_q r) e), s)"
    using assms(4) by (simp add: add_server_target_def bindM_run wrapM_run onKube_run)
  then have "foldM (refs @ r # rest) (add_server_target K) (?out, []) s = (Err (Wrapf (''resolve server ref '' @ fmt_q r) e), s)"
    unfolding foldM_append using run by simp
  then have "desiredApplyResources K s = (Err (Wrapf (''resolve server ref '' @ fmt_q r) e), s)"
    using assms(2,3)
    by (cases "fat_LabelSelector t = ''''") (simp_all add: desiredApplyResources_def selector_target_def)
  then show ?thesis by (simp add: firewall_Reconcile_def reconcileHCloudFirewall_def Let_def)
qed

section \<open>Witnesses\<close>

definition rule_ssh :: FirewallRuleInfo where
  "rule_ssh = \<lparr> fwr_Direction = ''in'', fwr_Protocol = ''tcp'', fwr_Port = Some ''22'',
     fwr_SourceIPs = [''10.0.0.0/8'', ''0.0.0.0/0''], fwr_DestinationIPs = [], fwr_Description = None \<rparr>"

definition rule_ping :: FirewallRuleInfo where
  "rule_ping = \<lparr> fwr_Direction = ''in'', fwr_Protocol = ''icmp'', fwr_Port = None,
     fwr_SourceIPs = [''0.0.0.0/0''], fwr_DestinationIPs = [], fwr_Description = Some '''' \<rparr>"

theorem rules_match_iff_witness:
  "firewallRulesMatch [rule_ssh, rule_ping] [rule_ping, firewallRuleDeepCopy rule_ssh]
   \<and> \<not> firewallRulesMatch [rule_ssh, rule_ssh] [rule_ping, rule_ssh]"
proof -
  have "list_all plain_rule [rule_ssh, rule_ssh]" "list_all plain_rule [rule_ssh, rule_ping]" "list_all plain_rule [rule_ping, rule_ssh]"
    "list_all plain_rule [rule_ping, firewallRuleDeepCopy rule_ssh]"
    by (simp_all add: rule_ssh_def rule_ping_def plain_rule_def plain_ip_def deref_or_empty_def firewallRuleDeepCopy_def char_of_def)
  then show ?thesis
    using rules_match_iff[of "[rule_ssh, rule_ping]" "[rule_ping, firewallRuleDeepCopy rule_ssh]"]
      rules_match_iff[of "[rule_ssh, rule_ssh]" "[rule_ping, rule_ssh]"]
    by (simp add: rule_meaning_def rule_ssh_def rule_ping_def firewallRuleDeepCopy_def deref_or_empty_def add_eq_conv_ex)
qed

text \<open>A provisioned firewall under identifier 1, for one server that has identifier 4.\<close>

definition sample_firewall :: FirewallInfo where
  "sample_firewall = \<lparr> fw_ID = 1, fw_Name = ''edge'', fw_Labels = [(''a'', ''1'')], fw_Rules = [rule_ping],
     fw_AppliedTo = [server_target 9] \<rparr>"

definition one_firewall :: "FirewallInfo \<Rightarrow> FakeClient" where
  "one_firewall w = NewFakeClient\<lparr>firewalls := [(1, w)], nextID := 2\<rparr>"

definition firewall_object :: HCloudFirewall where
  "firewall_object = NewHCloudFirewall\<lparr>Name := ''edge'',
     Spec := \<lparr> fwp_Labels = [(''b'', ''2'')], fwp_Rules = [], fwp_ApplyTo = Some \<lparr> fat_ServerRefs = [''web'', '''', ''web''], fat_LabelSelector = ''env=prod'' \<rparr> \<rparr>,
     Status := \<lparr> Conditions = [], fws_FirewallID = 1 \<rparr>\<rparr>"

definition provisioned_server :: HCloudServer where
  "provisioned_server = sample_server\<lparr>Status := (Status sample_server)\<lparr>svs_ServerID := 4\<rparr>\<rparr>"

definition firewall_world :: "HCloudServer list \<Rightarrow> FirewallInfo \<Rightarrow> (FakeClient, apistate, HCloudFirewall) rst" where
  "firewall_world xs w = \<lparr> cloud = one_firewall w, kube = no_objects\<lparr>st_Servers := xs\<rparr>,
     obj = firewall_object, events = [], metrics = [] \<rparr>"

lemma firewall_world_sel [simp]:
  "cloud (firewall_world xs w) = one_firewall w" "obj (firewall_world xs w) = firewall_object"
  "mem_find (st_Servers (kube (firewall_world xs w))) = mem_find xs"
  "fws_FirewallID (Status firewall_object) = 1" "fwp_Labels (Spec firewall_object) = [(''b'', ''2'')]"
  "fwp_Rules (Spec firewall_object) = []"
  "fwp_ApplyTo (Spec firewall_object) = Some \<lparr> fat_ServerRefs = [''web'', '''', ''web''], fat_LabelSelector = ''env=prod'' \<rparr>"
  by (simp_all add: firewall_world_def firewall_object_def no_objects_def)

lemma provisioned_found [simp]: "mem_find [provisioned_server] (cluster_key ''web'') = Some provisioned_server"
  "svs_ServerID (Status provisioned_server) = 4"
  by (simp_all add: provisioned_server_def mem_find_def flip: sample_req_def)

lemma one_firewall_has: "fw_ID w = 1 \<Longrightarrow> has_firewall (one_firewall w) 1 w"
  by (simp add: has_entry_def fake_ready_def fake_wf_def one_firewall_def NewFakeClient_def table_ok_def)

theorem desired_targets_witness:
  "\<exists>want. desiredApplyResources sample_api (firewall_world [provisioned_server] sample_firewall)
       = (Ok want, firewall_world [provisioned_server] sample_firewall)
     \<and> set want = {selector_target ''env=prod'', server_target 4}"
proof -
  have refs: "mem_find (st_Servers (kube (firewall_world [provisioned_server] sample_firewall))) (cluster_key r) = Some provisioned_server"
    if "r \<in> set [''web'', '''', ''web'']" "r \<noteq> ''''" for r
    using that by auto
  show ?thesis
    using desired_targets[OF sample_laws(1) firewall_world_sel(7)[folded firewall_world_sel(2)[of "[provisioned_server]" sample_firewall]],
        of "\<lambda>_. provisioned_server"] refs by fastforce
qed

theorem missing_target_blocks_witness:
  "\<exists>e. firewall_Reconcile ([], []) sample_lib sample_api (fake_client []) (firewall_world [] sample_firewall)
     = (Err (Wrapf (''resolve server ref '' @ fmt_q ''web'') e), firewall_world [] sample_firewall)"
proof -
  have none: "mem_find (st_Servers (kube (firewall_world [] sample_firewall))) (cluster_key ''web'') = None"
    by (simp add: mem_find_def)
  show ?thesis
    using missing_target_blocks[OF sample_laws(1) firewall_world_sel(7)[folded firewall_world_sel(2)[of "[]" sample_firewall]],
        of "[]" "''web''" "['''', ''web'']" _ "([], [])" sample_lib "fake_client []"] none by simp
qed

lemma fmt_d_4: "fmt_d 4 = ''4''"
  by (simp add: fmt_d_def digits.simps char_of_def bit_0)

lemma sample_want: "\<exists>want. desiredApplyResources sample_api (firewall_world [provisioned_server] w)
    = (Ok want, firewall_world [provisioned_server] w) \<and> Key ` set want = {''label_selector:env=prod'', ''server:4''}"
  by (simp add: desiredApplyResources_def add_server_target_def bindM_run wrapM_run onKube_run firewall_world_def
      firewall_object_def no_objects_def mem_client_def fmt_d_4)

theorem firewall_converges_witness:
  "\<exists>s' w'. firewall_Reconcile ([], []) sample_lib sample_api (fake_client []) (firewall_world [provisioned_server] sample_firewall)
       = (Ok (after requeueDelay), s')
     \<and> has_firewall (cloud s') 1 w' \<and> map_of (fw_Labels w') = [''b'' \<mapsto> ''2'']
     \<and> Key ` set (fw_AppliedTo w') = {''label_selector:env=prod'', ''server:4''}"
proof -
  obtain want where want: "desiredApplyResources sample_api (firewall_world [provisioned_server] sample_firewall)
    = (Ok want, firewall_world [provisioned_server] sample_firewall)" "Key ` set want = {''label_selector:env=prod'', ''server:4''}"
    using sample_want by blast
  have has: "has_firewall (cloud (firewall_world [provisioned_server] sample_firewall))
      (fws_FirewallID (Status (obj (firewall_world [provisioned_server] sample_firewall)))) sample_firewall"
    by (simp add: one_firewall_has sample_firewall_def)
  show ?thesis
    using firewall_converges[OF has want(1), of "([], [])" sample_lib "[]"] want(2)
    by (fastforce simp: sample_firewall_def)
qed

definition settled_firewall :: FirewallInfo where
  "settled_firewall = sample_firewall\<lparr>fw_Labels := [(''b'', ''2'')], fw_Rules := [],
     fw_AppliedTo := [server_target 4, selector_target ''env=prod'']\<rparr>"

theorem firewall_settles_witness:
  "\<exists>s'. firewall_Reconcile ([], []) sample_lib sample_api (fake_client []) (firewall_world [provisioned_server] settled_firewall)
       = (Ok (after requeueDelay), s') \<and> cloud s' = one_firewall settled_firewall"
proof -
  obtain want where want: "desiredApplyResources sample_api (firewall_world [provisioned_server] settled_firewall)
    = (Ok want, firewall_world [provisioned_server] settled_firewall)" "Key ` set want = {''label_selector:env=prod'', ''server:4''}"
    using sample_want by blast
  have has: "has_firewall (cloud (firewall_world [provisioned_server] settled_firewall))
      (fws_FirewallID (Status (obj (firewall_world [provisioned_server] settled_firewall)))) settled_firewall"
    by (simp add: one_firewall_has settled_firewall_def sample_firewall_def)
  have keys: "Key ` set (fw_AppliedTo settled_firewall) = Key ` set want"
    by (auto simp: want(2) settled_firewall_def server_target_def selector_target_def fmt_d_4)
  have fields: "fw_Labels settled_firewall = [(''b'', ''2'')]" "fw_Rules settled_firewall = []"
    by (simp_all add: settled_firewall_def)
  show ?thesis
    using firewall_settles[OF has want(1) _ _ _ _ keys, of "([], [])" sample_lib "[]"] fields
    by (simp add: firewallRulesFromSpec_def)
qed

end
