(* ===== verification/LoadBalancerProps.thy ===== *)
theory LoadBalancerProps
  imports Parametric FakeRuns
begin

text \<open>
  The load balancer controller on the fake client: how certificate references are resolved, that
  the targets converge to the selected servers and the services to those of the spec.
\<close>

section \<open>Targets\<close>

definition with_lb_targets :: "int64 list \<Rightarrow> LoadBalancerInfo \<Rightarrow> LoadBalancerInfo" where
  "with_lb_targets ts b = b\<lparr>lb_Targets := ts\<rparr>"

lemma with_lb_targets_sel [simp]:
  "lb_ID (with_lb_targets ts b) = lb_ID b" "lb_Name (with_lb_targets ts b) = lb_Name b"
  "lb_Targets (with_lb_targets ts b) = ts" "lb_Services (with_lb_targets ts b) = lb_Services b"
  "with_lb_targets ts (with_lb_targets us b) = with_lb_targets ts b" "with_lb_targets (lb_Targets b) b = b"
  by (simp_all add: with_lb_targets_def)

lemma put_lb_servers [simp]: "servers (put_load_balancer b f) = servers f"
  by (simp add: put_in_def)

lemma lb_attach_run:
  assumes "has_load_balancer f i b" and "map_of (servers f) j \<noteq> None"
  shows "fake_AttachServerToLoadBalancer i j f =
    (Ok (), put_load_balancer (with_lb_targets (if j \<in> set (lb_Targets b) then lb_Targets b else lb_Targets b @ [j]) b) f)"
  using assms(2) unfolding fake_AttachServerToLoadBalancer_def
  by (intro load_balancer_runs.on_entry[OF assms(1)]) (auto simp: with_lb_targets_def)

lemma lb_detach_run:
  assumes "has_load_balancer f i b"
  shows "fake_DetachServerFromLoadBalancer i j f =
    (Ok (), put_load_balancer (with_lb_targets (filter (\<lambda>k. k \<noteq> j) (lb_Targets b)) b) f)"
  unfolding fake_DetachServerFromLoadBalancer_def
  by (intro load_balancer_runs.on_entry[OF assms]) (auto simp: with_lb_targets_def)

lemma lb_attach_loop:
  assumes "has_load_balancer (cloud s) i b" and "\<And>j. j \<in> set js \<Longrightarrow> map_of (servers (cloud s)) j \<noteq> None"
  shows "\<exists>ts. forM js (\<lambda>j. if j \<in> C then ret () else wrapM (p j) (onCloud (fake_AttachServerToLoadBalancer i j))) s
      = (Ok (), s\<lparr>cloud := put_load_balancer (with_lb_targets ts b) (cloud s)\<rparr>)
    \<and> set ts = set (lb_Targets b) \<union> (set js - C) \<and> (distinct (lb_Targets b) \<longrightarrow> distinct ts)"
  using assms
proof (induction js arbitrary: s b)
  case Nil
  then show ?case
    by (intro exI[of _ "lb_Targets b"]) (simp add: load_balancer_runs.put_same[OF Nil(1)])
next
  case (Cons j js)
  show ?case
  proof (cases "j \<in> C")
    case True
    have "\<exists>ts. forM js (\<lambda>j. if j \<in> C then ret () else wrapM (p j) (onCloud (fake_AttachServerToLoadBalancer i j))) s
      = (Ok (), s\<lparr>cloud := put_load_balancer (with_lb_targets ts b) (cloud s)\<rparr>)
      \<and> set ts = set (lb_Targets b) \<union> (set js - C) \<and> (distinct (lb_Targets b) \<longrightarrow> distinct ts)"
      by (rule Cons.IH[OF Cons.prems(1)]) (use Cons.prems(2) in simp)
    then show ?thesis using True by simp
  next
    case False
    let ?ts = "if j \<in> set (lb_Targets b) then lb_Targets b else lb_Targets b @ [j]"
    let ?b = "with_lb_targets ?ts b"
    let ?s = "s\<lparr>cloud := put_load_balancer ?b (cloud s)\<rparr>"
    have step: "wrapM (p j) (onCloud (fake_AttachServerToLoadBalancer i j)) s = (Ok (), ?s)"
      using lb_attach_run[OF Cons.prems(1), of j] Cons.prems(2)[of j] by (simp add: wrapM_run onCloud_run)
    have has: "has_load_balancer (cloud ?s) i ?b"
      using load_balancer_runs.put_entry[OF Cons.prems(1), of ?b] by simp
    obtain ts where ts: "forM js (\<lambda>j. if j \<in> C then ret () else wrapM (p j) (onCloud (fake_AttachServerToLoadBalancer i j))) ?s
        = (Ok (), ?s\<lparr>cloud := put_load_balancer (with_lb_targets ts ?b) (cloud ?s)\<rparr>)"
      "set ts = set (lb_Targets ?b) \<union> (set js - C)" "distinct (lb_Targets ?b) \<longrightarrow> distinct ts"
      using Cons.IH[OF has] Cons.prems(2) by auto
    have "forM (j # js) (\<lambda>j. if j \<in> C then ret () else wrapM (p j) (onCloud (fake_AttachServerToLoadBalancer i j))) s
        = (Ok (), s\<lparr>cloud := put_load_balancer (with_lb_targets ts b) (cloud s)\<rparr>)"
      using False step ts(1) load_balancer_runs.put_put[of "with_lb_targets ts b" ?b] by simp
    moreover have "set ts = set (lb_Targets b) \<union> (set (j # js) - C)" using ts(2) False by auto
    moreover have "distinct (lb_Targets b) \<longrightarrow> distinct ts" using ts(3) by auto
    ultimately show ?thesis by blast
  qed
qed

lemma lb_detach_loop:
  assumes "has_load_balancer (cloud s) i b"
  shows "forM js (\<lambda>j. if j \<in> S then ret () else wrapM (p j) (onCloud (fake_DetachServerFromLoadBalancer i j))) s
      = (Ok (), s\<lparr>cloud := put_load_balancer (with_lb_targets (filter (\<lambda>k. k \<notin> set js - S) (lb_Targets b)) b) (cloud s)\<rparr>)"
  using assms
proof (induction js arbitrary: s b)
  case Nil
  then show ?case by (simp add: load_balancer_runs.put_same[OF Nil(1)])
next
  case (Cons j js)
  show ?case
  proof (cases "j \<in> S")
    case True
    then show ?thesis using Cons by (simp cong: filter_cong)
  next
    case False
    let ?b = "with_lb_targets (filter (\<lambda>k. k \<noteq> j) (lb_Targets b)) b"
    let ?s = "s\<lparr>cloud := put_load_balancer ?b (cloud s)\<rparr>"
    have step: "wrapM (p j) (onCloud (fake_DetachServerFromLoadBalancer i j)) s = (Ok (), ?s)"
      using lb_detach_run[OF Cons.prems, of j] by (simp add: wrapM_run onCloud_run)
    have has: "has_load_balancer (cloud ?s) i ?b"
      using load_balancer_runs.put_entry[OF Cons.prems, of ?b] by simp
    have "filter (\<lambda>k. k \<notin> set js - S) (lb_Targets ?b) = filter (\<lambda>k. k \<notin> set (j # js) - S) (lb_Targets b)"
      using False by (auto intro!: filter_cong)
    then show ?thesis
      using False step Cons.IH[OF has] load_balancer_runs.put_put[of "with_lb_targets ts b" ?b for ts] by simp
  qed
qed

lemma sync_lb_targets_run:
  assumes "has_load_balancer (cloud s) i b" and "\<And>j. j \<in> set ids \<Longrightarrow> map_of (servers (cloud s)) j \<noteq> None"
  obtains ts where "sync_lb_targets ch (fake_client c) b ids s
      = (Ok (), s\<lparr>cloud := put_load_balancer (with_lb_targets ts b) (cloud s)\<rparr>)"
    and "set ts = set ids" and "distinct (lb_Targets b) \<Longrightarrow> distinct ts"
proof -
  have i: "lb_ID b = i" using load_balancer_runs.entry_id[OF assms(1)] by simp
  let ?p = "\<lambda>j. ''attach server '' @ fmt_d j @ '' to load balancer '' @ fmt_d i"
  obtain ts where ts: "forM (shuffle (fst ch) (remdups ids)) (\<lambda>j. if j \<in> set (remdups (lb_Targets b)) then ret ()
        else wrapM (?p j) (onCloud (fake_AttachServerToLoadBalancer i j))) s
      = (Ok (), s\<lparr>cloud := put_load_balancer (with_lb_targets ts b) (cloud s)\<rparr>)"
    "set ts = set (lb_Targets b) \<union> (set ids - set (lb_Targets b))" "distinct (lb_Targets b) \<longrightarrow> distinct ts"
    using lb_attach_loop[OF assms(1), of "shuffle (fst ch) (remdups ids)" "set (remdups (lb_Targets b))" ?p] assms(2) by auto
  let ?s = "s\<lparr>cloud := put_load_balancer (with_lb_targets ts b) (cloud s)\<rparr>"
  let ?us = "filter (\<lambda>k. k \<notin> set (lb_Targets b) - set ids) ts"
  have has: "has_load_balancer (cloud ?s) i (with_lb_targets ts b)"
    using load_balancer_runs.put_entry[OF assms(1), of "with_lb_targets ts b"] by simp
  note detach = lb_detach_loop[OF has, of "shuffle (snd ch) (remdups (lb_Targets b))" "set (remdups ids)"
      "\<lambda>j. ''detach server '' @ fmt_d j @ '' from load balancer '' @ fmt_d i"]
  have "sync_lb_targets ch (fake_client c) b ids s
      = (Ok (), s\<lparr>cloud := put_load_balancer (with_lb_targets ?us b) (cloud s)\<rparr>)"
    using ts(1) detach load_balancer_runs.put_put[of "with_lb_targets us b" "with_lb_targets ts b" for us]
    unfolding sync_lb_targets_def Let_def i fake_client_sel by simp
  moreover have "set ?us = set ids" using ts(2) by auto
  ultimately show ?thesis using that[of ?us] ts(3) by simp
qed

section \<open>A reconcile\<close>

definition synced_lb :: "int64 list \<Rightarrow> LoadBalancerServiceInfo list \<Rightarrow> LoadBalancerInfo \<Rightarrow> LoadBalancerInfo" where
  "synced_lb ts svcs b = (with_lb_targets ts b)\<lparr>lb_Services := svcs\<rparr>"

lemma synced_lb_sel [simp]:
  "lb_ID (synced_lb ts svcs b) = lb_ID b" "lb_Name (synced_lb ts svcs b) = lb_Name b"
  "lb_Targets (synced_lb ts svcs b) = ts" "lb_Services (synced_lb ts svcs b) = svcs"
  by (simp_all add: synced_lb_def)

lemma lb_services_run:
  assumes "has_load_balancer (cloud s) (lbs_LoadBalancerID (Status (obj s))) b" and "conditions_law L"
    and "\<And>j. j \<in> set ids \<Longrightarrow> map_of (servers (cloud s)) j \<noteq> None"
  obtains s' ts where "reconcileLoadBalancerWithServices ch L (fake_client c) ids svcs s = (Ok (), s')"
    and "kube s' = kube s" and "cloud s' = put_load_balancer (synced_lb ts svcs b) (cloud s)"
    and "set ts = set ids" and "distinct (lb_Targets b) \<Longrightarrow> distinct ts"
    and "Spec (obj s') = Spec (obj s)" and "lbs_LoadBalancerID (Status (obj s')) = lbs_LoadBalancerID (Status (obj s))"
    and "lbs_AttachedServerIDs (Status (obj s')) = sort ts"
    and "\<exists>c. FindStatusCondition L (Conditions (Status (obj s'))) ''Ready'' = Some c \<and> cond_Status c = ''True''"
proof -
  let ?i = "lbs_LoadBalancerID (Status (obj s))"
  have i: "lb_ID b = ?i" "?i \<noteq> 0" using load_balancer_runs.entry_id[OF assms(1)] by simp_all
  obtain ts where ts: "sync_lb_targets ch (fake_client c) b ids s
      = (Ok (), s\<lparr>cloud := put_load_balancer (with_lb_targets ts b) (cloud s)\<rparr>)"
    "set ts = set ids" "distinct (lb_Targets b) \<Longrightarrow> distinct ts"
    using sync_lb_targets_run[OF assms(1,3)] by metis
  let ?s1 = "s\<lparr>cloud := put_load_balancer (with_lb_targets ts b) (cloud s)\<rparr>"
  let ?b = "synced_lb ts svcs b"
  let ?s2 = "s\<lparr>cloud := put_load_balancer ?b (cloud s)\<rparr>"
  have h1: "has_load_balancer (cloud ?s1) ?i (with_lb_targets ts b)"
    using load_balancer_runs.put_entry[OF assms(1), of "with_lb_targets ts b"] by simp
  have h2: "has_load_balancer (cloud ?s2) ?i ?b"
    using load_balancer_runs.put_entry[OF assms(1), of ?b] by simp
  have sync: "fake_SyncLoadBalancerServices ?i svcs (cloud ?s1) = (Ok (), cloud ?s2)"
  proof -
    have "fake_SyncLoadBalancerServices ?i svcs (cloud ?s1) = (Ok (), put_load_balancer ?b (cloud ?s1))"
      unfolding fake_SyncLoadBalancerServices_def
      by (intro load_balancer_runs.on_entry[OF h1]) (simp_all add: synced_lb_def cloneLoadBalancerServices_def)
    then show ?thesis using load_balancer_runs.put_put[of ?b "with_lb_targets ts b"] by simp
  qed
  have found: "find_or_create (\<lambda>i. onCloud (GetLoadBalancer (fake_client c) i)) (\<lambda>n. onCloud (GetLoadBalancerByName (fake_client c) n))
       (\<lambda>opts. onCloud (CreateLoadBalancer (fake_client c) opts)) ''load balancer'' ''create load balancer'' ?i (Name (obj s)) opts s
     = (Ok b, s)" for opts
    using load_balancer_runs.get_entry[OF assms(1)] i
    by (simp add: find_or_create_def find_existing_def bindM_run wrapM_run onCloud_run fake_GetLoadBalancer_def copy_lb_id)
  have got: "fake_GetLoadBalancer ?i (cloud ?s2) = (Ok (Some ?b), cloud ?s2)"
    using load_balancer_runs.get_entry[OF h2] by (simp add: fake_GetLoadBalancer_def copy_lb_id)
  define s3 where "s3 = ?s2\<lparr>obj := (obj s)\<lparr>Status := (Status (obj s))\<lparr>lbs_LoadBalancerID := ?i, lbs_PublicIPv4 := lb_PublicIPv4 ?b,
           lbs_PublicIPv6 := lb_PublicIPv6 ?b, lbs_AttachedServerIDs := sort ts\<rparr>\<rparr>\<rparr>"
  have run: "reconcileLoadBalancerWithServices ch L (fake_client c) ids svcs s =
      setCondition L conditionTypeReady ConditionTrue ''LoadBalancerReady''
           ''Load balancer is provisioned and targets are in sync'' s3"
    using found ts(1) sync got i
    by (simp add: reconcileLoadBalancerWithServices_def s3_def)
  show ?thesis
    by (rule that[of "snd (setCondition L conditionTypeReady ConditionTrue ''LoadBalancerReady''
           ''Load balancer is provisioned and targets are in sync'' s3)" ts])
      (use run ts assms(2) in \<open>simp_all add: s3_def find_set\<close>)
qed

section \<open>Certificates\<close>

text \<open>The cloud identifier a certificate reference stands for, once the referenced certificate is
  recorded in the API server, present in the cloud and ready.\<close>

definition cert_id :: "('k \<Rightarrow> NamespacedName \<Rightarrow> HCloudCertificate option) \<Rightarrow> 'k \<Rightarrow> FakeClient \<Rightarrow> string \<Rightarrow> int64 option" where
  "cert_id store k f ref = (case store k (cluster_key ref) of None \<Rightarrow> None
     | Some c \<Rightarrow> (let i = ces_CertificateID (Status c) in
         if i \<noteq> 0 \<and> CertificateReady (map_of (certificates f) i) then Some i else None))"

abbreviation cert_refs :: "HCloudLoadBalancerServiceSpec \<Rightarrow> string list" where
  "cert_refs sp \<equiv> filter (\<lambda>r. r \<noteq> '''') (lss_CertificateRefs sp)"

lemma fake_GetCertificate_run: "fake_ready f \<Longrightarrow> fake_GetCertificate i f = (Ok (map_of (certificates f) i), f)"
  by (cases "map_of (certificates f) i") (simp_all add: fake_GetCertificate_def fake_get_def fake_ready_def copyCertificateInfo_def)

lemma resolve_run:
  assumes "fake_ready (cloud s)" and "api_law (IsNotFound L) cf store (KCertificates K)"
  shows "resolve_certificate L K (fake_client c) (ids, p) ref s =
    (Ok (if ref = '''' then (ids, p) else case cert_id store (kube s) (cloud s) ref of None \<Rightarrow> (ids, True) | Some i \<Rightarrow> (ids @ [i], p)), s)"
proof (cases "store (kube s) (cluster_key ref)")
  case None
  then obtain e where "KGet (KCertificates K) (cluster_key ref) (kube s) = (Err e, kube s)" "IsNotFound L e"
    using assms(2) unfolding api_law_def by meson
  then show ?thesis using None by (simp add: resolve_certificate_def tryM_run onKube_run cert_id_def)
next
  case (Some x)
  then have "KGet (KCertificates K) (cluster_key ref) (kube s) = (Ok x, kube s)" using api_get[OF assms(2)] by blast
  then show ?thesis
    using Some fake_GetCertificate_run[OF assms(1)]
    by (simp add: resolve_certificate_def tryM_run onKube_run cert_id_def bindM_run wrapM_run onCloud_run Let_def)
qed

lemma resolve_all_run:
  assumes "fake_ready (cloud s)" and "api_law (IsNotFound L) cf store (KCertificates K)"
  shows "foldM refs (resolve_certificate L K (fake_client c)) (ids, p) s =
    (Ok (ids @ List.map_filter (cert_id store (kube s) (cloud s)) (filter (\<lambda>r. r \<noteq> '''') refs),
         p \<or> (\<exists>r \<in> set refs. r \<noteq> '''' \<and> cert_id store (kube s) (cloud s) r = None)), s)"
proof (induction refs arbitrary: ids p)
  case Nil
  then show ?case by (simp add: map_filter_simps)
next
  case (Cons r refs)
  show ?case
    using resolve_run[OF assms, of c ids p r]
    by (cases "cert_id store (kube s) (cloud s) r") (auto simp: Cons.IH map_filter_simps)
qed

lemma services_run:
  assumes "fake_ready (cloud s)" and "api_law (IsNotFound L) cf store (KCertificates K)"
  shows "foldM specs (add_service L K (fake_client c)) (out, p) s =
    (Ok (out @ map (\<lambda>sp. service_from_spec sp (List.map_filter (cert_id store (kube s) (cloud s)) (cert_refs sp))) specs,
         p \<or> (\<exists>sp \<in> set specs. \<exists>r \<in> set (cert_refs sp). cert_id store (kube s) (cloud s) r = None)), s)"
proof (induction specs arbitrary: out p)
  case Nil
  then show ?case by simp
next
  case (Cons sp specs)
  have "(if 0 < length (lss_CertificateRefs sp) then resolveCertificateIDs L K (fake_client c) (lss_CertificateRefs sp)
       else ret ([], False)) s = (Ok (List.map_filter (cert_id store (kube s) (cloud s)) (cert_refs sp),
         \<exists>r \<in> set (cert_refs sp). cert_id store (kube s) (cloud s) r = None), s)"
    using resolve_all_run[OF assms, of "lss_CertificateRefs sp" c "[]" False]
    by (cases "lss_CertificateRefs sp") (auto simp: resolveCertificateIDs_def map_filter_simps)
  then have "add_service L K (fake_client c) (out, p) sp s = (Ok (out @ [service_from_spec sp
      (List.map_filter (cert_id store (kube s) (cloud s)) (cert_refs sp))],
      p \<or> (\<exists>r \<in> set (cert_refs sp). cert_id store (kube s) (cloud s) r = None)), s)"
    by (simp add: add_service_def bindM_run del: set_filter split del: if_split)
  then show ?case by (auto simp: Cons.IH)
qed

section \<open>Properties\<close>

text \<open>The services of the spec become services of the client in their order, each with the
  identifiers of its ready certificates in the order of the references; services count as pending
  exactly when some reference has no ready certificate (no object, no identifier yet, gone from
  the cloud, or not issued).\<close>

theorem services_resolved:
  assumes "fake_ready (cloud s)" and "api_law (IsNotFound L) cf store (KCertificates K)"
  shows "loadBalancerServicesFromSpec L K (fake_client c) specs s =
    (Ok (map (\<lambda>sp. service_from_spec sp (List.map_filter (cert_id store (kube s) (cloud s)) (cert_refs sp))) specs,
         \<exists>sp \<in> set specs. \<exists>r \<in> set (cert_refs sp). cert_id store (kube s) (cloud s) r = None), s)"
  using services_run[OF assms, of specs c "[]" False] by (cases specs) (simp_all add: loadBalancerServicesFromSpec_def)

text \<open>While a referenced certificate is not ready, a reconcile leaves the cloud alone and reports
  Ready False with reason CertificatePending.\<close>

theorem pending_certificate_blocks:
  assumes "fake_ready (cloud s)" and "api_law (IsNotFound L) cf store (KCertificates K)" and "conditions_law L"
    and "getSelectedServerIDs L K (lbp_ServerSelector (Spec (obj s))) s = (Ok ids, s)"
    and "sp \<in> set (lbp_Services (Spec (obj s)))" and "r \<in> set (cert_refs sp)"
    and "cert_id store (kube s) (cloud s) r = None"
  shows "\<exists>s' cond. lb_Reconcile ch L K (fake_client c) s = (Ok (after requeueDelay), s') \<and> cloud s' = cloud s \<and> kube s' = kube s
    \<and> FindStatusCondition L (Conditions (Status (obj s'))) ''Ready'' = Some cond
    \<and> cond_Status cond = ''False'' \<and> cond_Reason cond = ''CertificatePending''"
proof -
  have pend: "\<exists>sp \<in> set (lbp_Services (Spec (obj s))). \<exists>r \<in> set (cert_refs sp). cert_id store (kube s) (cloud s) r = None"
    using assms(5-7) by blast
  obtain svcs where "loadBalancerServicesFromSpec L K (fake_client c) (lbp_Services (Spec (obj s))) s = (Ok (svcs, True), s)"
    using services_run[OF assms(1,2), of "lbp_Services (Spec (obj s))" c "[]" False] pend
    by (cases "lbp_Services (Spec (obj s))") (simp_all add: loadBalancerServicesFromSpec_def)
  then show ?thesis
    using assms(3,4) by (simp add: lb_Reconcile_def reconcileLoadBalancer_def find_set)
qed

text \<open>C25: A reconcile of a provisioned load balancer leaves it with exactly the selected servers as
  targets, in whatever order the target maps are walked, and with exactly the services of the
  spec; the status lists the targets and Ready is True.\<close>

theorem load_balancer_converges:
  assumes "has_load_balancer (cloud s) (lbs_LoadBalancerID (Status (obj s))) b" and "conditions_law L"
    and "getSelectedServerIDs L K (lbp_ServerSelector (Spec (obj s))) s = (Ok ids, s)"
    and "loadBalancerServicesFromSpec L K (fake_client c) (lbp_Services (Spec (obj s))) s = (Ok (svcs, False), s)"
    and "\<And>j. j \<in> set ids \<Longrightarrow> map_of (servers (cloud s)) j \<noteq> None"
  shows "\<exists>s' b' cond. lb_Reconcile ch L K (fake_client c) s = (Ok (after requeueDelay), s') \<and> kube s' = kube s
    \<and> cloud s' = put_load_balancer b' (cloud s) \<and> lb_ID b' = lb_ID b
    \<and> set (lb_Targets b') = set ids \<and> (distinct (lb_Targets b) \<longrightarrow> distinct (lb_Targets b')) \<and> lb_Services b' = svcs
    \<and> lbs_AttachedServerIDs (Status (obj s')) = sort (lb_Targets b')
    \<and> FindStatusCondition L (Conditions (Status (obj s'))) ''Ready'' = Some cond \<and> cond_Status cond = ''True''"
proof -
  obtain s' ts where r: "reconcileLoadBalancerWithServices ch L (fake_client c) ids svcs s = (Ok (), s')"
    "kube s' = kube s" "cloud s' = put_load_balancer (synced_lb ts svcs b) (cloud s)" "set ts = set ids"
    "distinct (lb_Targets b) \<Longrightarrow> distinct ts" "lbs_AttachedServerIDs (Status (obj s')) = sort ts"
    "\<exists>c. FindStatusCondition L (Conditions (Status (obj s'))) ''Ready'' = Some c \<and> cond_Status c = ''True''"
    using lb_services_run[OF assms(1,2,5), where ch = ch and c = c and svcs = svcs and ids = ids] by metis
  have "lb_Reconcile ch L K (fake_client c) s = (Ok (after requeueDelay), s')"
    using r(1) assms(3,4) by (simp add: lb_Reconcile_def reconcileLoadBalancer_def)
  then show ?thesis using r(2-7)
    by (metis synced_lb_sel)
qed

text \<open>The servers a load balancer selects are those with an identifier whose labels match, in
  ascending order of their identifiers, each as often as it is listed.\<close>

theorem selected_servers:
  assumes "LabelSelectorAsSelector L sel = Inr p"
    and "KList (KServers K) [MatchingLabelsSelector p] (kube s) = (Ok items, kube s)"
  shows "\<exists>ids. getSelectedServerIDs L K (Some sel) s = (Ok ids, s) \<and> sorted ids
    \<and> mset ids = {# i \<in># image_mset (\<lambda>x. svs_ServerID (Status x)) {# x \<in># mset items. p (ObjectLabels x) #}. i \<noteq> 0 #}"
proof -
  let ?ids = "sort (map (\<lambda>x. svs_ServerID (Status x)) (filter (\<lambda>x. svs_ServerID (Status x) \<noteq> 0 \<and> p (ObjectLabels x)) items))"
  have "getSelectedServerIDs L K (Some sel) s = (Ok ?ids, s)"
    using assms by (simp add: getSelectedServerIDs_def bindM_run wrapM_run onKube_run)
  moreover have "mset ?ids = {# i \<in># image_mset (\<lambda>x. svs_ServerID (Status x)) {# x \<in># mset items. p (ObjectLabels x) #}. i \<noteq> 0 #}"
    by (induction items) auto
  ultimately show ?thesis by (intro exI[of _ ?ids]) simp
qed

text \<open>C26: Seconds given as a 32-bit integer become a duration without overflow.\<close>

theorem seconds_exact: "sint (seconds n) = sint n * 1000000000"
proof -
  have "- (2 ^ 31) \<le> sint n" "sint n < 2 ^ 31"
    using sint_greater_eq[of n] sint_less[of n] by simp_all
  then have b: "- (2 ^ 63) \<le> sint n * 1000000000" "sint n * 1000000000 < 2 ^ 63" by simp_all
  have "seconds n = word_of_int (sint n * 1000000000)"
    by (simp only: seconds_def time_Second_def scast_eq of_int_mult of_int_numeral)
  then show ?thesis using b signed_take_bit_int_eq_self[of 63 "sint n * 1000000000"]
    by (simp only: sint_sbintrunc') simp
qed

text \<open>A changed certificate enqueues exactly the load balancers one of whose services names it.\<close>

theorem certificate_watch_exact:
  assumes "fst (KList (KLoadBalancers K) [] k) = Ok xs"
  shows "set (mapCertificateToLoadBalancers K cert k) =
    (\<lambda>b. cluster_key (Name b)) ` {b \<in> set xs. \<exists>svc \<in> set (lbp_Services (Spec b)). Name cert \<in> set (lss_CertificateRefs svc)}"
  using assms by (auto simp: mapCertificateToLoadBalancers_def requests_of_def list_ex_iff split: if_splits)

section \<open>Witnesses\<close>

definition sample_lb :: LoadBalancerInfo where
  "sample_lb = \<lparr> lb_ID = 3, lb_Name = ''front'', lb_PublicIPv4 = ''5.6.7.3'', lb_PublicIPv6 = ''2001:db8:1::3'',
     lb_Targets = [9], lb_Services = [] \<rparr>"

definition https_service :: HCloudLoadBalancerServiceSpec where
  "https_service = \<lparr> lss_ListenPort = 443, lss_DestinationPort = 8443, lss_Protocol = ''https'', lss_Proxyprotocol = None,
     lss_HealthCheck = None, lss_CertificateRefs = [''tls''] \<rparr>"

definition lb_object :: HCloudLoadBalancer where
  "lb_object = NewHCloudLoadBalancer\<lparr>Name := ''front'',
     Spec := (Spec NewHCloudLoadBalancer)\<lparr>lbp_Services := [https_service], lbp_ServerSelector := Some \<lparr> MatchLabels = [], MatchExpressions = [] \<rparr>\<rparr>,
     Status := (Status NewHCloudLoadBalancer)\<lparr>lbs_LoadBalancerID := 3\<rparr>\<rparr>"

definition tls_certificate :: HCloudCertificate where
  "tls_certificate = NewHCloudCertificate\<lparr>Name := ''tls'',
     Status := (Status NewHCloudCertificate)\<lparr>ces_CertificateID := 2\<rparr>\<rparr>"

definition tls_info :: "string \<Rightarrow> CertificateInfo" where
  "tls_info issuance = \<lparr> crt_ID = 2, crt_Name = ''tls'', crt_Type = ''managed'', crt_Labels = [], crt_DomainNames = [],
     crt_Fingerprint = '''', crt_NotValidBefore = None, crt_NotValidAfter = None, crt_IssuanceStatus = issuance \<rparr>"

text \<open>One server (1), one certificate (2), one load balancer (3) and one server object.\<close>

definition lb_cloud :: "string \<Rightarrow> FakeClient" where
  "lb_cloud issuance = NewFakeClient\<lparr>servers := [(1, new_server (server_opts sample_server 0) 1)],
     certificates := [(2, tls_info issuance)], loadBalancers := [(3, sample_lb)], nextID := 4\<rparr>"

definition lb_world :: "string \<Rightarrow> (FakeClient, apistate, HCloudLoadBalancer) rst" where
  "lb_world issuance = \<lparr> cloud = lb_cloud issuance,
     kube = no_objects\<lparr>st_Servers := [sample_server\<lparr>Status := (Status sample_server)\<lparr>svs_ServerID := 1\<rparr>\<rparr>],
       st_Certificates := [tls_certificate], st_LoadBalancers := [lb_object]\<rparr>,
     obj = lb_object, events = [], metrics = [] \<rparr>"

lemma lb_world_sel [simp]:
  "cloud (lb_world st) = lb_cloud st" "obj (lb_world st) = lb_object"
  "mem_find (st_Certificates (kube (lb_world st))) = mem_find [tls_certificate]"
  "lbs_LoadBalancerID (Status lb_object) = 3" "lbp_Services (Spec lb_object) = [https_service]"
  "certificates (lb_cloud st) = [(2, tls_info st)]"
  "servers (lb_cloud st) = [(1, new_server (server_opts sample_server 0) 1)]"
  by (simp_all add: lb_world_def lb_object_def lb_cloud_def no_objects_def NewFakeClient_def)

lemma lb_cloud_ready: "fake_ready (lb_cloud st)" "has_load_balancer (lb_cloud st) 3 sample_lb"
  by (simp_all add: has_entry_def fake_ready_def fake_wf_def table_ok_def lb_cloud_def NewFakeClient_def
      sample_lb_def tls_info_def new_server_def server_opts_def)

lemma tls_found [simp]: "mem_find [tls_certificate] (cluster_key ''tls'') = Some tls_certificate"
  "ces_CertificateID (Status tls_certificate) = 2" "cert_refs https_service = [''tls'']"
  by (simp_all add: mem_find_def tls_certificate_def NewHCloudCertificate_def key_of_def cluster_key_def https_service_def)

lemma lb_selected: "getSelectedServerIDs sample_lib sample_api (lbp_ServerSelector (Spec (obj (lb_world st)))) (lb_world st)
    = (Ok [1], lb_world st)"
  by (simp add: getSelectedServerIDs_def lb_object_def NewHCloudLoadBalancer_def bindM_run wrapM_run onKube_run
      mem_client_def lb_world_def no_objects_def)

theorem services_resolved_witness:
  "loadBalancerServicesFromSpec sample_lib sample_api (fake_client []) [https_service] (lb_world ''completed'')
     = (Ok ([service_from_spec https_service [2]], False), lb_world ''completed'')"
  using services_resolved[of "lb_world ''completed''", OF _ sample_laws_lib(9), where c = "[]" and specs = "[https_service]"]
    lb_cloud_ready(1)[of "''completed''"]
  by (simp add: cert_id_def Let_def CertificateReady_def certificateReady_def tls_info_def map_filter_simps)

theorem pending_certificate_blocks_witness:
  "\<exists>s'. lb_Reconcile ([], []) sample_lib sample_api (fake_client []) (lb_world ''pending'') = (Ok (after requeueDelay), s')
     \<and> cloud s' = lb_cloud ''pending''"
proof -
  have none: "cert_id (\<lambda>k. mem_find (st_Certificates k)) (kube (lb_world ''pending'')) (cloud (lb_world ''pending'')) ''tls'' = None"
    by (simp add: cert_id_def Let_def CertificateReady_def certificateReady_def tls_info_def)
  have ready: "fake_ready (cloud (lb_world ''pending''))" by (simp add: lb_cloud_ready)
  show ?thesis
    using pending_certificate_blocks[OF ready sample_laws_lib(9) sample_lib_ok(4) lb_selected _ _ none,
        of https_service "([], [])" "[]"] by fastforce
qed

theorem load_balancer_converges_witness:
  "\<exists>s' b'. lb_Reconcile ([2], [1]) sample_lib sample_api (fake_client []) (lb_world ''completed'') = (Ok (after requeueDelay), s')
     \<and> cloud s' = put_load_balancer b' (lb_cloud ''completed'') \<and> set (lb_Targets b') = {1}
     \<and> lb_Services b' = [service_from_spec https_service [2]]"
proof -
  have svcs: "loadBalancerServicesFromSpec sample_lib sample_api (fake_client []) (lbp_Services (Spec (obj (lb_world ''completed''))))
      (lb_world ''completed'') = (Ok ([service_from_spec https_service [2]], False), lb_world ''completed'')"
    using services_run[of "lb_world ''completed''", OF _ sample_laws_lib(9), of "[https_service]" "[]" "[]" False] lb_cloud_ready(1)[of "''completed''"]
    by (simp add: loadBalancerServicesFromSpec_def cert_id_def Let_def CertificateReady_def certificateReady_def
        tls_info_def map_filter_simps)
  have has: "has_load_balancer (cloud (lb_world ''completed'')) (lbs_LoadBalancerID (Status (obj (lb_world ''completed'')))) sample_lb"
    by (simp add: lb_cloud_ready)
  show ?thesis
    using load_balancer_converges[OF has sample_lib_ok(4) lb_selected svcs, of "([2], [1])"] by fastforce
qed

theorem selected_servers_witness:
  "\<exists>ids. getSelectedServerIDs sample_lib sample_api (Some \<lparr> MatchLabels = [], MatchExpressions = [] \<rparr>) (lb_world ''completed'')
     = (Ok ids, lb_world ''completed'') \<and> mset ids = {#1#}"
proof -
  let ?p = "\<lambda>l. list_all (\<lambda>(k, v). map_of l k = Some v) []" and ?x = "sample_server\<lparr>Status := (Status sample_server)\<lparr>svs_ServerID := 1\<rparr>\<rparr>"
  have sel: "LabelSelectorAsSelector sample_lib \<lparr> MatchLabels = [], MatchExpressions = [] \<rparr> = Inr ?p" by simp
  have lst: "KList (KServers sample_api) [MatchingLabelsSelector ?p] (kube (lb_world ''completed'')) = (Ok [?x], kube (lb_world ''completed''))"
    by (simp add: mem_client_def lb_world_def no_objects_def)
  show ?thesis using selected_servers[OF sel lst] by simp
qed

theorem certificate_watch_exact_witness:
  "set (mapCertificateToLoadBalancers sample_api tls_certificate (kube (lb_world ''completed''))) = {cluster_key ''front''}"
proof -
  have "fst (KList (KLoadBalancers sample_api) [] (kube (lb_world ''completed''))) = Ok [lb_object]"
    by (simp add: mem_client_def lb_world_def no_objects_def)
  then have "set (mapCertificateToLoadBalancers sample_api tls_certificate (kube (lb_world ''completed''))) =
      (\<lambda>b. cluster_key (Name b)) ` {b \<in> set [lb_object]. \<exists>svc \<in> set (lbp_Services (Spec b)). Name tls_certificate \<in> set (lss_CertificateRefs svc)}"
    by (rule certificate_watch_exact)
  moreover have "Name lb_object = ''front''" "Name tls_certificate = ''tls''" "''tls'' \<in> set (lss_CertificateRefs https_service)"
    by (simp_all add: lb_object_def tls_certificate_def https_service_def)
  ultimately show ?thesis by auto
qed

end
