(* ===== verification/DeletionProps.thy ===== *)
theory DeletionProps
  imports VolumeProps
begin

text \<open>
  Deletion on the fake client: what the cleanup of each kind leaves in the cloud, and the cleanups
  that can never succeed because the resource is gone already.
\<close>

section \<open>Cleanups that fail\<close>

text \<open>A cleanup that fails without a write leaves the object as it was, so every later run meets the
  same failure.\<close>

lemma deletion_repeats:
  assumes "finalizers_law L" and "api_law nf cf store K" and "store (kube s) req = Some x"
    and "DeletionTimestamp x \<noteq> None" and "FinalizerName R \<in> set (Finalizers x)"
    and "\<And>t. cloud t = cloud s \<Longrightarrow> kube t = kube s \<Longrightarrow> obj t = x \<Longrightarrow> \<exists>e. Delete R t = (Err e, t)"
  shows "kube (((\<lambda>t. snd (base_Reconcile L K recorder R req t)) ^^ n) s) = kube s
    \<and> cloud (((\<lambda>t. snd (base_Reconcile L K recorder R req t)) ^^ n) s) = cloud s"
proof (induction n)
  case 0
  then show ?case by simp
next
  case (Suc n)
  define t where "t = ((\<lambda>t. snd (base_Reconcile L K recorder R req t)) ^^ n) s"
  have t: "kube t = kube s" "cloud t = cloud s" using Suc by (simp_all add: t_def)
  obtain e where e: "Delete R (t\<lparr>obj := x\<rparr>) = (Err e, t\<lparr>obj := x\<rparr>)" using assms(6)[of "t\<lparr>obj := x\<rparr>"] t by auto
  have "KGet K req (kube t) = (Ok x, kube t)" using api_get[OF assms(2)] assms(3) t(1) by simp
  then have "snd (base_Reconcile L K recorder R req t) = snd (base_delete L K recorder R (t\<lparr>obj := x\<rparr>))"
    using assms(4) by (simp add: base_Reconcile_def tryM_run)
  also have "\<dots> = snd (base_event recorder ''Warning'' ''DeleteFailed'' (err_text e) (t\<lparr>obj := x\<rparr>))"
    using e assms(1,5) by (simp add: base_delete_def finalizers_law_def tryM_run base_event_def)
  finally have "kube (snd (base_Reconcile L K recorder R req t)) = kube s \<and> cloud (snd (base_Reconcile L K recorder R req t)) = cloud s"
    using t by (simp add: base_event_def)
  then show ?case by (simp add: t_def)
qed

text \<open>A volume that is gone from the cloud while the status still names a server cannot be deleted:
  the cleanup detaches it first and fails on the missing volume, however often it is run, so the
  object and its finalizer stay.\<close>

theorem lost_volume_blocks_deletion:
  assumes "finalizers_law L" and "api_law nf cf store (KVolumes K)" and "store (kube s) req = Some x"
    and "DeletionTimestamp x \<noteq> None" and "''infra.hkc.io/volume-finalizer'' \<in> set (Finalizers x)"
    and "fake_ready (cloud s)" and "map_of (volumes (cloud s)) (vms_VolumeID (Status x)) = None"
    and "vms_VolumeID (Status x) \<noteq> 0" and "vms_AttachedServerID (Status x) \<noteq> 0"
  shows "kube (((\<lambda>t. snd (base_Reconcile L (KVolumes K) recorder (HCloudVolumeReconciler L K (fake_client c)) req t)) ^^ n) s) = kube s
    \<and> cloud (((\<lambda>t. snd (base_Reconcile L (KVolumes K) recorder (HCloudVolumeReconciler L K (fake_client c)) req t)) ^^ n) s) = cloud s"
proof (rule deletion_repeats[OF assms(1-4)])
  show "FinalizerName (HCloudVolumeReconciler L K (fake_client c)) \<in> set (Finalizers x)" using assms(5) by simp
  show "\<exists>e. Delete (HCloudVolumeReconciler L K (fake_client c)) t = (Err e, t)" if "cloud t = cloud s" "kube t = kube s" "obj t = x" for t
    using assms(6-9) that
    by (simp add: volume_Delete_def detachVolumeIfAttached_def fake_GetVolume_def fake_get_def fake_ready_def
        fake_DetachVolume_def fake_on_def bindM_run wrapM_run onCloud_run)
qed

text \<open>A primary IP that is gone from the cloud cannot be deleted either: the cleanup unassigns it
  before anything else and fails on the missing address, however often it is run.\<close>

theorem lost_primary_ip_blocks_deletion:
  assumes "finalizers_law L" and "api_law nf cf store (KPrimaryIPs K)" and "store (kube s) req = Some x"
    and "DeletionTimestamp x \<noteq> None" and "''infra.hkc.io/primaryip-finalizer'' \<in> set (Finalizers x)"
    and "map_of (primaryIPs (cloud s)) (pis_PrimaryIPID (Status x)) = None" and "pis_PrimaryIPID (Status x) \<noteq> 0"
  shows "kube (((\<lambda>t. snd (base_Reconcile L (KPrimaryIPs K) recorder (HCloudPrimaryIPReconciler L K (fake_client c)) req t)) ^^ n) s) = kube s
    \<and> cloud (((\<lambda>t. snd (base_Reconcile L (KPrimaryIPs K) recorder (HCloudPrimaryIPReconciler L K (fake_client c)) req t)) ^^ n) s) = cloud s"
proof (rule deletion_repeats[OF assms(1-4)])
  show "FinalizerName (HCloudPrimaryIPReconciler L K (fake_client c)) \<in> set (Finalizers x)" using assms(5) by simp
  show "\<exists>e. Delete (HCloudPrimaryIPReconciler L K (fake_client c)) t = (Err e, t)" if "cloud t = cloud s" "kube t = kube s" "obj t = x" for t
    using assms(6,7) that
    by (simp add: primary_ip_Delete_def fake_UnassignPrimaryIP_def fake_on_def bindM_run wrapM_run onCloud_run)
qed

text \<open>The same holds of a floating IP.\<close>

theorem lost_floating_ip_blocks_deletion:
  assumes "finalizers_law L" and "api_law nf cf store (KFloatingIPs K)" and "store (kube s) req = Some x"
    and "DeletionTimestamp x \<noteq> None" and "''infra.hkc.io/floatingip-finalizer'' \<in> set (Finalizers x)"
    and "map_of (floatingIPs (cloud s)) (fis_FloatingIPID (Status x)) = None" and "fis_FloatingIPID (Status x) \<noteq> 0"
  shows "kube (((\<lambda>t. snd (base_Reconcile L (KFloatingIPs K) recorder (HCloudFloatingIPReconciler L K (fake_client c)) req t)) ^^ n) s) = kube s
    \<and> cloud (((\<lambda>t. snd (base_Reconcile L (KFloatingIPs K) recorder (HCloudFloatingIPReconciler L K (fake_client c)) req t)) ^^ n) s) = cloud s"
proof (rule deletion_repeats[OF assms(1-4)])
  show "FinalizerName (HCloudFloatingIPReconciler L K (fake_client c)) \<in> set (Finalizers x)" using assms(5) by simp
  show "\<exists>e. Delete (HCloudFloatingIPReconciler L K (fake_client c)) t = (Err e, t)" if "cloud t = cloud s" "kube t = kube s" "obj t = x" for t
    using assms(6,7) that
    by (simp add: floating_ip_Delete_def fake_UnassignFloatingIP_def fake_on_def bindM_run wrapM_run onCloud_run)
qed

section \<open>Cleanups that succeed\<close>

text \<open>A cleanup that removed entry i of a table and nothing else.\<close>

definition cleaned :: "(FakeClient \<Rightarrow> (int64, 'i) gomap) \<Rightarrow> int64 \<Rightarrow> (FakeClient, 'k, 'o) rst
    \<Rightarrow> unit res \<times> (FakeClient, 'k, 'o) rst \<Rightarrow> bool" where
  "cleaned tbl i s out \<longleftrightarrow> fst out = Ok () \<and> map_of (tbl (cloud (snd out))) = (map_of (tbl (cloud s)))(i := None)
     \<and> kube (snd out) = kube s \<and> obj (snd out) = obj s"


text \<open>The cleanup of an address unassigns it and removes it.\<close>

theorem addresses_deleted:
  assumes "has_primary_ip (cloud s1) (pis_PrimaryIPID (Status (obj s1))) p"
    and "has_floating_ip (cloud s2) (fis_FloatingIPID (Status (obj s2))) q"
  shows "cleaned primaryIPs (pis_PrimaryIPID (Status (obj s1))) s1 (primary_ip_Delete (fake_client c) s1)
    \<and> cleaned floatingIPs (fis_FloatingIPID (Status (obj s2))) s2 (floating_ip_Delete (fake_client c) s2)"
  using has_entryD[OF assms(1)] has_entryD[OF assms(2)] primary_ip_runs.entry_id[OF assms(1)] floating_ip_runs.entry_id[OF assms(2)]
  by (simp add: cleaned_def delete_conv' update_conv' primary_ip_Delete_def floating_ip_Delete_def bindM_run wrapM_run onCloud_run
      fake_UnassignPrimaryIP_def fake_UnassignFloatingIP_def fake_on_def fake_DeletePrimaryIP_def fake_DeleteFloatingIP_def
      fake_delete_def fake_ready_def)

section \<open>Witnesses\<close>

definition doomed_volume :: HCloudVolume where
  "doomed_volume = (volume_object 10 None)\<lparr>DeletionTimestamp := Some 5\<rparr>"

lemma doomed_volume_sel [simp]:
  "DeletionTimestamp doomed_volume = Some 5" "Finalizers doomed_volume = [''infra.hkc.io/volume-finalizer'']"
  "vms_VolumeID (Status doomed_volume) = 1" "vms_AttachedServerID (Status doomed_volume) = 7"
  "key_of doomed_volume = cluster_key ''data''"
  by (simp_all add: doomed_volume_def volume_object_def NewHCloudVolume_def key_of_def cluster_key_def)

lemma doomed_volume_stored:
  "mem_find (st_Volumes (kube (volume_world NewFakeClient doomed_volume))) (cluster_key ''data'') = Some doomed_volume"
  by (simp add: volume_world_def no_objects_def mem_find_def)

lemma new_ready [simp]: "fake_ready NewFakeClient" "volumes NewFakeClient = []" "primaryIPs NewFakeClient = []"
  "floatingIPs NewFakeClient = []" "DeleteErr NewFakeClient = None"
  by (simp_all add: fake_ready_def fake_wf_def NewFakeClient_def)

theorem lost_volume_blocks_deletion_witness:
  "mem_find (st_Volumes (kube (((\<lambda>t. snd (base_Reconcile sample_lib (KVolumes sample_api) True
       (HCloudVolumeReconciler sample_lib sample_api (fake_client [])) (cluster_key ''data'') t)) ^^ 4)
       (volume_world NewFakeClient doomed_volume)))) (cluster_key ''data'') = Some doomed_volume"
proof -
  have "kube (((\<lambda>t. snd (base_Reconcile sample_lib (KVolumes sample_api) True
       (HCloudVolumeReconciler sample_lib sample_api (fake_client [])) (cluster_key ''data'') t)) ^^ 4)
       (volume_world NewFakeClient doomed_volume)) = kube (volume_world NewFakeClient doomed_volume)"
    using lost_volume_blocks_deletion[OF sample_lib_ok(3) sample_laws(2) doomed_volume_stored,
        where recorder = True and c = "[]" and n = 4] by (simp del: funpow.simps)
  then show ?thesis using doomed_volume_stored by simp
qed

definition doomed_primary_ip :: HCloudPrimaryIP where
  "doomed_primary_ip = NewHCloudPrimaryIP\<lparr>Name := ''ip'', DeletionTimestamp := Some 5,
     Finalizers := [''infra.hkc.io/primaryip-finalizer''], Status := (Status NewHCloudPrimaryIP)\<lparr>pis_PrimaryIPID := 1\<rparr>\<rparr>"

definition doomed_floating_ip :: HCloudFloatingIP where
  "doomed_floating_ip = NewHCloudFloatingIP\<lparr>Name := ''ip'', DeletionTimestamp := Some 5,
     Finalizers := [''infra.hkc.io/floatingip-finalizer''], Status := (Status NewHCloudFloatingIP)\<lparr>fis_FloatingIPID := 1\<rparr>\<rparr>"

definition primary_ip_world :: "FakeClient \<Rightarrow> HCloudPrimaryIP \<Rightarrow> (FakeClient, apistate, HCloudPrimaryIP) rst" where
  "primary_ip_world f x = \<lparr> cloud = f,
     kube = no_objects\<lparr>st_Servers := [sample_server\<lparr>Status := (Status sample_server)\<lparr>svs_ServerID := 4\<rparr>\<rparr>], st_PrimaryIPs := [x]\<rparr>,
     obj = x, events = [], metrics = [] \<rparr>"

definition floating_ip_world :: "FakeClient \<Rightarrow> HCloudFloatingIP \<Rightarrow> (FakeClient, apistate, HCloudFloatingIP) rst" where
  "floating_ip_world f x = \<lparr> cloud = f,
     kube = no_objects\<lparr>st_Servers := [sample_server\<lparr>Status := (Status sample_server)\<lparr>svs_ServerID := 4\<rparr>\<rparr>], st_FloatingIPs := [x]\<rparr>,
     obj = x, events = [], metrics = [] \<rparr>"

lemma ip_world_sel [simp]:
  "cloud (primary_ip_world f x) = f" "obj (primary_ip_world f x) = x"
  "cloud (floating_ip_world f y) = f" "obj (floating_ip_world f y) = y"
  by (simp_all add: primary_ip_world_def floating_ip_world_def)

lemma doomed_ip_stored:
  "mem_find (st_PrimaryIPs (kube (primary_ip_world f doomed_primary_ip))) (cluster_key ''ip'') = Some doomed_primary_ip"
  "mem_find (st_FloatingIPs (kube (floating_ip_world f doomed_floating_ip))) (cluster_key ''ip'') = Some doomed_floating_ip"
  by (simp_all add: primary_ip_world_def floating_ip_world_def no_objects_def mem_find_def doomed_primary_ip_def
      doomed_floating_ip_def NewHCloudPrimaryIP_def NewHCloudFloatingIP_def key_of_def cluster_key_def)

theorem lost_primary_ip_blocks_deletion_witness:
  "mem_find (st_PrimaryIPs (kube (((\<lambda>t. snd (base_Reconcile sample_lib (KPrimaryIPs sample_api) True
       (HCloudPrimaryIPReconciler sample_lib sample_api (fake_client [])) (cluster_key ''ip'') t)) ^^ 4)
       (primary_ip_world NewFakeClient doomed_primary_ip)))) (cluster_key ''ip'') = Some doomed_primary_ip"
proof -
  have "kube (((\<lambda>t. snd (base_Reconcile sample_lib (KPrimaryIPs sample_api) True
       (HCloudPrimaryIPReconciler sample_lib sample_api (fake_client [])) (cluster_key ''ip'') t)) ^^ 4)
       (primary_ip_world NewFakeClient doomed_primary_ip)) = kube (primary_ip_world NewFakeClient doomed_primary_ip)"
    using lost_primary_ip_blocks_deletion[OF sample_lib_ok(3) sample_laws(7) doomed_ip_stored(1)[of NewFakeClient],
        where recorder = True and c = "[]" and n = 4]
    by (simp add: doomed_primary_ip_def del: funpow.simps)
  then show ?thesis using doomed_ip_stored(1) by simp
qed

theorem lost_floating_ip_blocks_deletion_witness:
  "mem_find (st_FloatingIPs (kube (((\<lambda>t. snd (base_Reconcile sample_lib (KFloatingIPs sample_api) True
       (HCloudFloatingIPReconciler sample_lib sample_api (fake_client [])) (cluster_key ''ip'') t)) ^^ 4)
       (floating_ip_world NewFakeClient doomed_floating_ip)))) (cluster_key ''ip'') = Some doomed_floating_ip"
proof -
  have "kube (((\<lambda>t. snd (base_Reconcile sample_lib (KFloatingIPs sample_api) True
       (HCloudFloatingIPReconciler sample_lib sample_api (fake_client [])) (cluster_key ''ip'') t)) ^^ 4)
       (floating_ip_world NewFakeClient doomed_floating_ip)) = kube (floating_ip_world NewFakeClient doomed_floating_ip)"
    using lost_floating_ip_blocks_deletion[OF sample_lib_ok(3) sample_laws(8) doomed_ip_stored(2)[of NewFakeClient],
        where recorder = True and c = "[]" and n = 4]
    by (simp add: doomed_floating_ip_def del: funpow.simps)
  then show ?thesis using doomed_ip_stored(2) by simp
qed

definition world_of :: "'o \<Rightarrow> (FakeClient, apistate, 'o) rst" where
  "world_of x = \<lparr> cloud = NewFakeClient, kube = no_objects, obj = x, events = [], metrics = [] \<rparr>"


definition sample_primary_ip :: PrimaryIPInfo where
  "sample_primary_ip = \<lparr> pip_ID = 1, pip_Name = ''ip'', pip_Type = ''ipv4'', pip_IP = ''1.2.3.1'', pip_Datacenter = ''fsn1-dc14'',
     pip_Labels = [(''a'', ''1'')], pip_AssigneeID = 7, pip_AssigneeType = ''server'', pip_AutoDelete = False, pip_DNSPtr = [] \<rparr>"

definition sample_floating_ip :: FloatingIPInfo where
  "sample_floating_ip = \<lparr> fip_ID = 1, fip_Name = ''ip'', fip_Type = ''ipv4'', fip_IP = ''203.0.113.1'', fip_Location = ''fsn1'',
     fip_Description = ''vip'', fip_Labels = [(''a'', ''1'')], fip_ServerID = 7, fip_DNSPtr = [] \<rparr>"

definition one_primary_ip :: FakeClient where
  "one_primary_ip = NewFakeClient\<lparr>primaryIPs := [(1, sample_primary_ip)], nextID := 2\<rparr>"

definition one_floating_ip :: FakeClient where
  "one_floating_ip = NewFakeClient\<lparr>floatingIPs := [(1, sample_floating_ip)], nextID := 2\<rparr>"

lemma one_ip_has: "has_primary_ip one_primary_ip 1 sample_primary_ip" "has_floating_ip one_floating_ip 1 sample_floating_ip"
  by (simp_all add: has_entry_def fake_ready_def fake_wf_def table_ok_def one_primary_ip_def one_floating_ip_def
      NewFakeClient_def sample_primary_ip_def sample_floating_ip_def)

theorem addresses_deleted_witness:
  "map_of (primaryIPs (cloud (snd (primary_ip_Delete (fake_client []) (primary_ip_world one_primary_ip doomed_primary_ip))))) 1 = None"
proof -
  have "has_primary_ip (cloud (primary_ip_world one_primary_ip doomed_primary_ip))
      (pis_PrimaryIPID (Status (obj (primary_ip_world one_primary_ip doomed_primary_ip)))) sample_primary_ip"
    "has_floating_ip (cloud (floating_ip_world one_floating_ip doomed_floating_ip))
      (fis_FloatingIPID (Status (obj (floating_ip_world one_floating_ip doomed_floating_ip)))) sample_floating_ip"
    by (simp_all add: doomed_primary_ip_def doomed_floating_ip_def one_ip_has)
  from addresses_deleted[OF this, of "[]"] show ?thesis
    by (simp add: cleaned_def doomed_primary_ip_def)
qed

end
