(* ===== verification/PrimaryIPProps.thy ===== *)
theory PrimaryIPProps
  imports DeletionProps
begin

text \<open>
  The primary IP controller on the fake client: metadata, assignment and reverse DNS converge to
  the spec, and what becomes of an assignment somebody else made.
\<close>

section \<open>Steps\<close>

lemma get_primary_ip_run: "has_primary_ip f i p \<Longrightarrow> fake_GetPrimaryIP i f = (Ok (Some p), f)"
  using primary_ip_runs.get_entry by (simp add: fake_GetPrimaryIP_def copyPrimaryIPInfo_def)

text \<open>The three changes a reconcile makes to the address, as functions.\<close>

definition primary_metadata :: "HCloudPrimaryIPSpec \<Rightarrow> PrimaryIPInfo \<Rightarrow> PrimaryIPInfo" where
  "primary_metadata sp p = p\<lparr>pip_Labels := (if mapsEqual (pip_Labels p) (pi_Labels sp) then pip_Labels p else pi_Labels sp),
     pip_AutoDelete := (case pi_AutoDelete sp of None \<Rightarrow> pip_AutoDelete p | Some a \<Rightarrow> a)\<rparr>"

definition primary_assignee :: "int64 \<Rightarrow> int64 \<Rightarrow> PrimaryIPInfo \<Rightarrow> PrimaryIPInfo" where
  "primary_assignee t applied p =
     (if t = 0 then if applied \<noteq> 0 \<and> pip_AssigneeID p = applied then p\<lparr>pip_AssigneeID := 0\<rparr> else p
      else if pip_AssigneeID p = t then p else p\<lparr>pip_AssigneeID := t, pip_AssigneeType := ''server''\<rparr>)"

definition ptr_of :: "(string, string) gomap \<Rightarrow> string \<Rightarrow> string" where
  "ptr_of m ip = (case map_of m ip of None \<Rightarrow> '''' | Some v \<Rightarrow> v)"

definition primary_ptr :: "HCloudPrimaryIPSpec \<Rightarrow> PrimaryIPInfo \<Rightarrow> PrimaryIPInfo" where
  "primary_ptr sp p = (case pi_DNSPtr sp of None \<Rightarrow> p
     | Some ptr \<Rightarrow> if pip_IP p = '''' \<or> ptr_of (pip_DNSPtr p) (pip_IP p) = ptr then p
         else p\<lparr>pip_DNSPtr := AList.update (pip_IP p) ptr (pip_DNSPtr p)\<rparr>)"

lemma primary_ip_with_sel [simp]:
  "pip_ID (primary_metadata sp p) = pip_ID p" "pip_Name (primary_metadata sp p) = pip_Name p"
  "pip_IP (primary_metadata sp p) = pip_IP p" "pip_AssigneeID (primary_metadata sp p) = pip_AssigneeID p"
  "pip_ID (primary_assignee t a p) = pip_ID p" "pip_Name (primary_assignee t a p) = pip_Name p"
  "pip_IP (primary_assignee t a p) = pip_IP p" "pip_Labels (primary_assignee t a p) = pip_Labels p"
  "pip_AutoDelete (primary_assignee t a p) = pip_AutoDelete p"
  "pip_ID (primary_ptr sp p) = pip_ID p" "pip_Name (primary_ptr sp p) = pip_Name p" "pip_IP (primary_ptr sp p) = pip_IP p"
  "pip_AssigneeID (primary_ptr sp p) = pip_AssigneeID p" "pip_Labels (primary_ptr sp p) = pip_Labels p"
  "pip_AutoDelete (primary_ptr sp p) = pip_AutoDelete p"
  by (simp_all add: primary_metadata_def primary_assignee_def primary_ptr_def split: option.split)

lemma primary_metadata_run:
  assumes "has_primary_ip (cloud s) i p"
  shows "ensurePrimaryIPMetadata (fake_client c) p s =
    (Ok (), s\<lparr>cloud := put_primary_ip (primary_metadata (Spec (obj s)) p) (cloud s)\<rparr>)"
proof -
  let ?sp = "Spec (obj s)"
  have i: "pip_ID p = i" using primary_ip_runs.entry_id[OF assms] by simp
  show ?thesis
  proof (cases "mapsEqual (pip_Labels p) (pi_Labels ?sp) \<and> (case pi_AutoDelete ?sp of None \<Rightarrow> True | Some a \<Rightarrow> pip_AutoDelete p = a)")
    case True
    then have same: "primary_metadata ?sp p = p" by (cases p) (auto simp: primary_metadata_def split: option.splits)
    show ?thesis unfolding same using True primary_ip_runs.put_same[OF assms]
      by (auto simp: ensurePrimaryIPMetadata_def Let_def split: option.splits)
  next
    case False
    have "fake_UpdatePrimaryIP i \<lparr> ipu_Labels = (if mapsEqual (pip_Labels p) (pi_Labels ?sp) then None else Some (pi_Labels ?sp)),
        ipu_AutoDelete = (case pi_AutoDelete ?sp of None \<Rightarrow> None | Some a \<Rightarrow> if pip_AutoDelete p \<noteq> a then Some a else None) \<rparr> (cloud s)
        = (Ok (), put_primary_ip (primary_metadata ?sp p) (cloud s))"
      unfolding fake_UpdatePrimaryIP_def
      by (intro primary_ip_runs.on_entry[OF assms])
        (auto simp: primary_metadata_def Let_def cloneStringMap_def split: option.split)
    then show ?thesis using False i
      by (auto simp: ensurePrimaryIPMetadata_def Let_def cloneStringMapController_def wrapM_run onCloud_run split: option.splits if_splits)
  qed
qed

lemma primary_unassign_run:
  assumes "has_primary_ip (cloud s) i p"
  shows "fake_UnassignPrimaryIP i (cloud s) = (Ok (), put_primary_ip (p\<lparr>pip_AssigneeID := 0\<rparr>) (cloud s))"
  unfolding fake_UnassignPrimaryIP_def
  by (intro primary_ip_runs.on_entry[OF assms]) (cases p, auto)

text \<open>The assignment recorded in the status after the step.\<close>

definition primary_applied :: "int64 \<Rightarrow> int64 \<Rightarrow> PrimaryIPInfo \<Rightarrow> int64" where
  "primary_applied t applied p = (if t = 0 then if applied \<noteq> 0 \<and> pip_AssigneeID p = applied then 0 else applied else t)"

lemma primary_assignment_run:
  assumes "has_primary_ip (cloud s) i p" and "obj s = x\<lparr>Status := u\<rparr>"
  obtains u' where "ensurePrimaryIPAssignment L (fake_client c) t p s =
      (Ok (), s\<lparr>cloud := put_primary_ip (primary_assignee t (pis_AppliedAssigneeID u) p) (cloud s), obj := x\<lparr>Status := u'\<rparr>\<rparr>)"
    and "pis_AppliedAssigneeID u' = primary_applied t (pis_AppliedAssigneeID u) p" and "pis_PrimaryIPID u' = pis_PrimaryIPID u"
proof -
  let ?a = "pis_AppliedAssigneeID u"
  have i: "pip_ID p = i" using primary_ip_runs.entry_id[OF assms(1)] by simp
  have obj: "s = s\<lparr>obj := x\<lparr>Status := u\<rparr>\<rparr>" using assms(2) by (cases s) simp
  note ap = assms(2) ensurePrimaryIPAssignment_def primary_assignee_def primary_applied_def
  consider (keep) "t = 0" "\<not> (?a \<noteq> 0 \<and> pip_AssigneeID p = ?a)" | (drop) "t = 0" "?a \<noteq> 0" "pip_AssigneeID p = ?a"
    | (same) "t \<noteq> 0" "pip_AssigneeID p = t" | (move) "t \<noteq> 0" "pip_AssigneeID p \<noteq> t" by blast
  then show ?thesis
  proof cases
    case keep
    have p: "primary_assignee t ?a p = p" using keep by (auto simp: primary_assignee_def)
    have "ensurePrimaryIPAssignment L (fake_client c) t p s = (Ok (), s)" using keep by (auto simp: ap)
    then have "ensurePrimaryIPAssignment L (fake_client c) t p s =
        (Ok (), s\<lparr>cloud := put_primary_ip (primary_assignee t ?a p) (cloud s), obj := x\<lparr>Status := u\<rparr>\<rparr>)"
      unfolding p using primary_ip_runs.put_same[OF assms(1)] obj by simp
    then show ?thesis by (rule that[of u]) (use keep in \<open>auto simp: primary_applied_def\<close>)
  next
    case drop
    have "primary_assignee t ?a p = p\<lparr>pip_AssigneeID := 0\<rparr>" using drop by (simp add: primary_assignee_def)
    then show ?thesis
      using drop primary_unassign_run[OF assms(1)] i
      by (intro that[of "Status (obj (snd (ensurePrimaryIPAssignment L (fake_client c) t p s)))"])
        (simp_all add: ap wrapM_run onCloud_run bindM_run)
  next
    case same
    have "primary_assignee t ?a p = p" using same by (simp add: primary_assignee_def)
    then show ?thesis
      using same primary_ip_runs.put_same[OF assms(1)]
      by (intro that[of "u\<lparr>pis_AppliedAssigneeID := t\<rparr>"]) (simp_all add: ap)
  next
    case move
    let ?q = "p\<lparr>pip_AssigneeID := 0\<rparr>" and ?r = "p\<lparr>pip_AssigneeID := t, pip_AssigneeType := ''server''\<rparr>"
    let ?s = "s\<lparr>cloud := put_primary_ip ?q (cloud s)\<rparr>"
    have r: "primary_assignee t ?a p = ?r" using move by (simp add: primary_assignee_def)
    have hq: "has_primary_ip (cloud ?s) i ?q" using primary_ip_runs.put_entry[OF assms(1), of ?q] by simp
    have un: "(if pip_AssigneeID p \<noteq> 0 \<and> pip_AssigneeID p \<noteq> t then wrapM w (onCloud (fake_UnassignPrimaryIP i)) else ret ()) s
        = (Ok (), ?s)" for w
    proof (cases "pip_AssigneeID p = 0")
      case True
      then have same: "?q = p" by (cases p) simp
      show ?thesis unfolding same using True primary_ip_runs.put_same[OF assms(1)] by simp
    next
      case False
      then show ?thesis using move primary_unassign_run[OF assms(1)] by (simp add: wrapM_run onCloud_run)
    qed
    have asg: "fake_AssignPrimaryIP i t ''server'' (cloud ?s) = (Ok (), put_primary_ip ?r (cloud s))"
    proof -
      have "fake_AssignPrimaryIP i t ''server'' (cloud ?s) = (Ok (), put_primary_ip ?r (cloud ?s))"
        unfolding fake_AssignPrimaryIP_def
        by (intro primary_ip_runs.on_entry[OF hq]) (simp_all add: primaryIPAssigneeType_def)
      then show ?thesis using primary_ip_runs.put_put[of ?r ?q] by simp
    qed
    define s1 where "s1 = s\<lparr>cloud := put_primary_ip ?r (cloud s)\<rparr>"
    have run: "ensurePrimaryIPAssignment L (fake_client c) t p s =
        bindM (updStatus (\<lambda>u. u\<lparr>pis_AppliedAssigneeID := t\<rparr>)) (\<lambda>_.
          setCondition L conditionTypeReady ConditionTrue ''PrimaryIPAssigned'' (''Primary IP assigned to server ID '' @ fmt_d t)) s1"
      using move un asg unfolding ensurePrimaryIPAssignment_def fake_client_sel i
      by (simp add: bindM_run wrapM_run onCloud_run[of "fake_AssignPrimaryIP i t ''server''"] s1_def split del: if_split)
    show ?thesis
      using move run r assms(2)
      by (intro that[of "Status (obj (snd (ensurePrimaryIPAssignment L (fake_client c) t p s)))"])
        (simp_all add: s1_def primary_applied_def)
  qed
qed

lemma primary_ptr_run:
  assumes "has_primary_ip (cloud s) i p"
  shows "ensurePrimaryIPDNSPtr (fake_client c) p s = (Ok (), s\<lparr>cloud := put_primary_ip (primary_ptr (Spec (obj s)) p) (cloud s)\<rparr>)"
proof (cases "\<exists>ptr. pi_DNSPtr (Spec (obj s)) = Some ptr \<and> pip_IP p \<noteq> '''' \<and> ptr_of (pip_DNSPtr p) (pip_IP p) \<noteq> ptr")
  case True
  have i: "pip_ID p = i" using primary_ip_runs.entry_id[OF assms] by simp
  obtain ptr where ptr: "pi_DNSPtr (Spec (obj s)) = Some ptr" "pip_IP p \<noteq> ''''" "ptr_of (pip_DNSPtr p) (pip_IP p) \<noteq> ptr"
    using True by blast
  have "fake_ChangePrimaryIPDNSPtr i (pip_IP p) ptr (cloud s) = (Ok (), put_primary_ip (primary_ptr (Spec (obj s)) p) (cloud s))"
    unfolding fake_ChangePrimaryIPDNSPtr_def using ptr by (intro primary_ip_runs.on_entry[OF assms]) (simp_all add: primary_ptr_def)
  then show ?thesis using ptr i by (simp add: ensurePrimaryIPDNSPtr_def ptr_of_def wrapM_run onCloud_run)
next
  case False
  then have "primary_ptr (Spec (obj s)) p = p" by (auto simp: primary_ptr_def split: option.split)
  then show ?thesis
    using False primary_ip_runs.put_same[OF assms] by (auto simp: ensurePrimaryIPDNSPtr_def ptr_of_def split: option.splits)
qed

section \<open>A reconcile\<close>

definition synced_primary_ip :: "HCloudPrimaryIPSpec \<Rightarrow> int64 \<Rightarrow> int64 \<Rightarrow> PrimaryIPInfo \<Rightarrow> PrimaryIPInfo" where
  "synced_primary_ip sp t applied p = primary_ptr sp (primary_assignee t applied (primary_metadata sp p))"

lemma refresh_primary_ip_run:
  assumes "has_primary_ip (cloud s) i p"
  shows "refresh_primary_ip (fake_client c) w v i s = (Ok p, s)"
  using get_primary_ip_run[OF assms] by (simp add: refresh_primary_ip_def bindM_run wrapM_run onCloud_run)

lemma primary_ip_run:
  assumes "has_primary_ip (cloud s) (pis_PrimaryIPID (Status (obj s))) p"
    and "primary_ip_target L K s = (Ok (t, False), s)" and "conditions_law L"
  obtains s' where "primary_ip_Reconcile L K (fake_client c) s = (Ok (after requeueDelay), s')" and "kube s' = kube s"
    and "cloud s' = put_primary_ip (synced_primary_ip (Spec (obj s)) t (pis_AppliedAssigneeID (Status (obj s))) p) (cloud s)"
    and "has_primary_ip (cloud s') (pis_PrimaryIPID (Status (obj s))) (synced_primary_ip (Spec (obj s)) t (pis_AppliedAssigneeID (Status (obj s))) p)"
    and "Spec (obj s') = Spec (obj s)" and "pis_PrimaryIPID (Status (obj s')) = pis_PrimaryIPID (Status (obj s))"
    and "pis_AppliedAssigneeID (Status (obj s')) =
        (let a = pip_AssigneeID (synced_primary_ip (Spec (obj s)) t (pis_AppliedAssigneeID (Status (obj s))) p) in
         if a \<noteq> 0 then a else primary_applied t (pis_AppliedAssigneeID (Status (obj s))) p)"
    and "\<exists>c. FindStatusCondition L (Conditions (Status (obj s'))) ''Ready'' = Some c \<and> cond_Status c = ''True''"
proof -
  let ?u = "Status (obj s)" and ?sp = "Spec (obj s)"
  let ?i = "pis_PrimaryIPID ?u" and ?a = "pis_AppliedAssigneeID ?u"
  let ?p1 = "primary_metadata ?sp p" and ?p2 = "primary_assignee t ?a (primary_metadata ?sp p)" and ?p3 = "synced_primary_ip ?sp t ?a p"
  have i: "pip_ID p = ?i" "?i \<noteq> 0" using primary_ip_runs.entry_id[OF assms(1)] by simp_all
  define s1 where "s1 = s\<lparr>cloud := put_primary_ip ?p1 (cloud s)\<rparr>"
  have h1: "has_primary_ip (cloud s1) ?i ?p1" using primary_ip_runs.put_entry[OF assms(1), of ?p1] by (simp add: s1_def)
  have meta: "ensurePrimaryIPMetadata (fake_client c) p s = (Ok (), s1)" using primary_metadata_run[OF assms(1)] by (simp add: s1_def)
  have o1: "obj s1 = (obj s)\<lparr>Status := ?u\<rparr>" by (simp add: s1_def)
  obtain u2 where a: "ensurePrimaryIPAssignment L (fake_client c) t ?p1 s1 =
      (Ok (), s1\<lparr>cloud := put_primary_ip ?p2 (cloud s1), obj := (obj s)\<lparr>Status := u2\<rparr>\<rparr>)"
    "pis_AppliedAssigneeID u2 = primary_applied t ?a ?p1" "pis_PrimaryIPID u2 = ?i"
    using primary_assignment_run[OF h1 o1] by metis
  define s2 where "s2 = s1\<lparr>cloud := put_primary_ip ?p2 (cloud s1), obj := (obj s)\<lparr>Status := u2\<rparr>\<rparr>"
  have h2: "has_primary_ip (cloud s2) ?i ?p2" using primary_ip_runs.put_entry[OF h1, of ?p2] by (simp add: s2_def)
  define s3 where "s3 = s2\<lparr>cloud := put_primary_ip ?p3 (cloud s2)\<rparr>"
  have h3: "has_primary_ip (cloud s3) ?i ?p3" using primary_ip_runs.put_entry[OF h2, of ?p3] by (simp add: s3_def synced_primary_ip_def)
  have dns: "ensurePrimaryIPDNSPtr (fake_client c) ?p2 s2 = (Ok (), s3)"
    using primary_ptr_run[OF h2, of c] by (simp add: s3_def s2_def synced_primary_ip_def)
  define s4 where "s4 = snd (syncPrimaryIPStatus ?p3 s3)"
  define s5 where "s5 = snd (setCondition L conditionTypeReady ConditionTrue ''PrimaryIPReady'' ''Primary IP is provisioned'' s4)"
  have found: "find_or_create (\<lambda>i. onCloud (GetPrimaryIP (fake_client c) i)) (\<lambda>n. onCloud (GetPrimaryIPByName (fake_client c) n))
       (\<lambda>opts. onCloud (CreatePrimaryIP (fake_client c) opts)) ''primary IP'' ''create Hetzner primary IP'' ?i (Name (obj s)) opts s
     = (Ok p, s)" for opts
    using get_primary_ip_run[OF assms(1)] i
    by (simp add: find_or_create_def find_existing_def bindM_run wrapM_run onCloud_run)
  have p3: "pip_ID ?p3 = ?i" using i by (simp add: synced_primary_ip_def)
  have run: "reconcileHCloudPrimaryIP L (fake_client c) t s = (Ok (), s5)"
    using found meta a(1) dns refresh_primary_ip_run[OF h1, of c] refresh_primary_ip_run[OF h2, of c] refresh_primary_ip_run[OF h3, of c] i p3
    by (simp add: reconcileHCloudPrimaryIP_def syncPrimaryIPStatus_def s5_def s4_def del: fake_client_sel flip: s2_def)
  have "primary_ip_Reconcile L K (fake_client c) s = (Ok (after requeueDelay), s5)"
    using assms(2) run by (simp add: primary_ip_Reconcile_def)
  moreover have "cloud s5 = put_primary_ip ?p3 (cloud s)"
    using primary_ip_runs.put_put[of ?p2 ?p1] primary_ip_runs.put_put[of ?p3 ?p2] primary_ip_runs.put_put[of ?p3 ?p1]
    by (simp add: s5_def s4_def syncPrimaryIPStatus_def s3_def s2_def s1_def synced_primary_ip_def)
  moreover have "cloud s5 = cloud s3" by (simp add: s5_def s4_def syncPrimaryIPStatus_def)
  moreover have "primary_applied t ?a ?p1 = primary_applied t ?a p" by (simp add: primary_applied_def)
  ultimately show ?thesis
    using h3 assms(3) p3 a(2,3)
    by (intro that[of s5]) (simp_all add: s5_def s4_def syncPrimaryIPStatus_def s3_def s2_def s1_def find_set Let_def)
qed

section \<open>Properties\<close>


text \<open>C31: An address without a server reference that somebody else has assigned is taken away from its
  server in two reconciles: the first leaves the assignment but records it as the operator's
  own, so the second undoes it.\<close>

theorem foreign_assignment_lost:
  assumes "has_primary_ip (cloud s) (pis_PrimaryIPID (Status (obj s))) p" and "conditions_law L"
    and "ref_set (pi_ServerRef (Spec (obj s))) = None" and "pis_AppliedAssigneeID (Status (obj s)) = 0"
    and "pip_AssigneeID p \<noteq> 0"
  shows "let run = (\<lambda>t. snd (primary_ip_Reconcile L K (fake_client c) t));
      assignee = (\<lambda>t. map_option pip_AssigneeID (map_of (primaryIPs (cloud t)) (pis_PrimaryIPID (Status (obj s)))))
    in assignee (run s) = Some (pip_AssigneeID p) \<and> assignee (run (run s)) = Some 0"
proof -
  let ?i = "pis_PrimaryIPID (Status (obj s))" and ?run = "\<lambda>t. snd (primary_ip_Reconcile L K (fake_client c) t)"
  have tgt: "primary_ip_target L K t = (Ok (0, False), t)" if "Spec (obj t) = Spec (obj s)" for t :: "(FakeClient, 'a, HCloudPrimaryIP) rst"
    using that assms(3) by (simp add: primary_ip_target_def)
  let ?p1 = "synced_primary_ip (Spec (obj s)) 0 0 p"
  have a1: "pip_AssigneeID ?p1 = pip_AssigneeID p" by (simp add: synced_primary_ip_def primary_assignee_def)
  obtain s1 where s1: "?run s = s1" "has_primary_ip (cloud s1) ?i ?p1" "Spec (obj s1) = Spec (obj s)"
    "pis_PrimaryIPID (Status (obj s1)) = ?i" "pis_AppliedAssigneeID (Status (obj s1)) = pip_AssigneeID p"
    by (rule primary_ip_run[OF assms(1) tgt[OF refl] assms(2), of c]) (use assms(4,5) a1 in auto)
  have h1: "has_primary_ip (cloud s1) (pis_PrimaryIPID (Status (obj s1))) ?p1" using s1(2,4) by simp
  let ?p2 = "synced_primary_ip (Spec (obj s)) 0 (pip_AssigneeID p) ?p1"
  have a2: "pip_AssigneeID ?p2 = 0" using a1 assms(5) by (simp add: synced_primary_ip_def[of _ _ _ ?p1] primary_assignee_def)
  obtain s2 where s2: "?run s1 = s2" "has_primary_ip (cloud s2) ?i ?p2"
    by (rule primary_ip_run[OF h1 tgt[OF s1(3)] assms(2), of c]) (use s1 in auto)
  show ?thesis
    using s1(1) s2(1) has_entryD(1)[OF s1(2)] has_entryD(1)[OF s2(2)] a1 a2 by (simp add: Let_def)
qed

section \<open>Witnesses\<close>

definition primary_ip_object :: "string option \<Rightarrow> HCloudPrimaryIP" where
  "primary_ip_object ref = NewHCloudPrimaryIP\<lparr>Name := ''ip'',
     Spec := (Spec NewHCloudPrimaryIP)\<lparr>pi_ServerRef := ref, pi_Labels := [(''b'', ''2'')], pi_DNSPtr := Some ''web.example.com''\<rparr>,
     Status := (Status NewHCloudPrimaryIP)\<lparr>pis_PrimaryIPID := 1\<rparr>\<rparr>"

lemma primary_ip_object_sel [simp]:
  "pis_PrimaryIPID (Status (primary_ip_object r)) = 1" "pis_AppliedAssigneeID (Status (primary_ip_object r)) = 0"
  "pi_ServerRef (Spec (primary_ip_object r)) = r" "pi_Labels (Spec (primary_ip_object r)) = [(''b'', ''2'')]"
  "pi_AutoDelete (Spec (primary_ip_object r)) = None" "pi_DNSPtr (Spec (primary_ip_object r)) = Some ''web.example.com''"
  "pip_Labels sample_primary_ip = [(''a'', ''1'')]" "pip_AssigneeID sample_primary_ip = 7" "pip_IP sample_primary_ip = ''1.2.3.1''"
  "primaryIPs one_primary_ip = [(1, sample_primary_ip)]"
  by (simp_all add: primary_ip_object_def NewHCloudPrimaryIP_def sample_primary_ip_def one_primary_ip_def)

lemma primary_ip_world_target:
  "primary_ip_target sample_lib sample_api (primary_ip_world f (primary_ip_object (Some ''web''))) = (Ok (4, False), primary_ip_world f (primary_ip_object (Some ''web'')))"
  by (simp add: primary_ip_target_def ref_set_def tryM_run onKube_run mem_client_def primary_ip_world_def
      no_objects_def mem_find_def sample_defs)


theorem foreign_assignment_lost_witness:
  "map_option pip_AssigneeID (map_of (primaryIPs (cloud (snd (primary_ip_Reconcile sample_lib sample_api (fake_client [])
     (snd (primary_ip_Reconcile sample_lib sample_api (fake_client []) (primary_ip_world one_primary_ip (primary_ip_object None)))))))) 1) = Some 0"
proof -
  have has: "has_primary_ip (cloud (primary_ip_world one_primary_ip (primary_ip_object None)))
      (pis_PrimaryIPID (Status (obj (primary_ip_world one_primary_ip (primary_ip_object None))))) sample_primary_ip"
    by (simp add: one_ip_has)
  show ?thesis
    using foreign_assignment_lost[OF has sample_lib_ok(4), of sample_api "[]"] by (simp add: ref_set_def Let_def)
qed

end
