(* ===== verification/FloatingIPProps.thy ===== *)
theory FloatingIPProps
  imports PrimaryIPProps
begin

text \<open>
  The floating IP controller on the fake client: metadata, assignment and reverse DNS converge to
  the spec, and what a change of labels does to the description.
\<close>

section \<open>Steps\<close>

lemma get_floating_ip_run: "has_floating_ip f i p \<Longrightarrow> fake_GetFloatingIP i f = (Ok (Some p), f)"
  using floating_ip_runs.get_entry by (simp add: fake_GetFloatingIP_def copyFloatingIPInfo_def)

text \<open>The three changes a reconcile makes to the address, as functions.\<close>

definition floating_metadata :: "HCloudFloatingIPSpec \<Rightarrow> FloatingIPInfo \<Rightarrow> FloatingIPInfo" where
  "floating_metadata sp p =
     (if mapsEqual (fip_Labels p) (fi_Labels sp) \<and> fip_Description p = fi_Description sp then p
      else p\<lparr>fip_Labels := (if mapsEqual (fip_Labels p) (fi_Labels sp) then fip_Labels p else fi_Labels sp),
        fip_Description := (if fip_Description p \<noteq> fi_Description sp then fi_Description sp else '''')\<rparr>)"

definition floating_assignee :: "int64 \<Rightarrow> int64 \<Rightarrow> FloatingIPInfo \<Rightarrow> FloatingIPInfo" where
  "floating_assignee t applied p =
     (if t = 0 then if applied \<noteq> 0 \<and> fip_ServerID p = applied then p\<lparr>fip_ServerID := 0\<rparr> else p
      else if fip_ServerID p = t then p else p\<lparr>fip_ServerID := t\<rparr>)"

definition floating_ptr :: "HCloudFloatingIPSpec \<Rightarrow> FloatingIPInfo \<Rightarrow> FloatingIPInfo" where
  "floating_ptr sp p = (case fi_DNSPtr sp of None \<Rightarrow> p
     | Some ptr \<Rightarrow> if fip_IP p = '''' \<or> ptr_of (fip_DNSPtr p) (fip_IP p) = ptr then p
         else p\<lparr>fip_DNSPtr := AList.update (fip_IP p) ptr (fip_DNSPtr p)\<rparr>)"

lemma floating_ip_with_sel [simp]:
  "fip_ID (floating_metadata sp p) = fip_ID p" "fip_Name (floating_metadata sp p) = fip_Name p"
  "fip_IP (floating_metadata sp p) = fip_IP p" "fip_ServerID (floating_metadata sp p) = fip_ServerID p"
  "fip_ID (floating_assignee t a p) = fip_ID p" "fip_Name (floating_assignee t a p) = fip_Name p"
  "fip_IP (floating_assignee t a p) = fip_IP p" "fip_Labels (floating_assignee t a p) = fip_Labels p"
  "fip_Description (floating_assignee t a p) = fip_Description p"
  "fip_ID (floating_ptr sp p) = fip_ID p" "fip_Name (floating_ptr sp p) = fip_Name p" "fip_IP (floating_ptr sp p) = fip_IP p"
  "fip_ServerID (floating_ptr sp p) = fip_ServerID p" "fip_Labels (floating_ptr sp p) = fip_Labels p"
  "fip_Description (floating_ptr sp p) = fip_Description p"
  by (simp_all add: floating_metadata_def floating_assignee_def floating_ptr_def split: option.split)

lemma floating_metadata_run:
  assumes "has_floating_ip (cloud s) i p"
  shows "ensureFloatingIPMetadata (fake_client c) p s =
    (Ok (), s\<lparr>cloud := put_floating_ip (floating_metadata (Spec (obj s)) p) (cloud s)\<rparr>)"
proof -
  let ?sp = "Spec (obj s)"
  have i: "fip_ID p = i" using floating_ip_runs.entry_id[OF assms] by simp
  show ?thesis
  proof (cases "mapsEqual (fip_Labels p) (fi_Labels ?sp) \<and> fip_Description p = fi_Description ?sp")
    case True
    then have same: "floating_metadata ?sp p = p" by (simp add: floating_metadata_def)
    show ?thesis unfolding same using True floating_ip_runs.put_same[OF assms]
      by (simp add: ensureFloatingIPMetadata_def)
  next
    case False
    have "fake_UpdateFloatingIP i \<lparr> fiu_Labels = (if mapsEqual (fip_Labels p) (fi_Labels ?sp) then None else Some (fi_Labels ?sp)),
        fiu_Description = (if fip_Description p \<noteq> fi_Description ?sp then fi_Description ?sp else '''') \<rparr> (cloud s)
        = (Ok (), put_floating_ip (floating_metadata ?sp p) (cloud s))"
      unfolding fake_UpdateFloatingIP_def using False
      by (intro floating_ip_runs.on_entry[OF assms])
        (auto simp: floating_metadata_def cloneStringMap_def)
    then show ?thesis using False i
      by (auto simp: ensureFloatingIPMetadata_def Let_def cloneStringMapController_def wrapM_run onCloud_run split: if_splits)
  qed
qed

lemma floating_unassign_run:
  assumes "has_floating_ip (cloud s) i p"
  shows "fake_UnassignFloatingIP i (cloud s) = (Ok (), put_floating_ip (p\<lparr>fip_ServerID := 0\<rparr>) (cloud s))"
  unfolding fake_UnassignFloatingIP_def
  by (intro floating_ip_runs.on_entry[OF assms]) (cases p, auto)

text \<open>The assignment recorded in the status after the step.\<close>

definition floating_applied :: "int64 \<Rightarrow> int64 \<Rightarrow> FloatingIPInfo \<Rightarrow> int64" where
  "floating_applied t applied p = (if t = 0 then if applied \<noteq> 0 \<and> fip_ServerID p = applied then 0 else applied else t)"

lemma floating_assignment_run:
  assumes "has_floating_ip (cloud s) i p" and "obj s = x\<lparr>Status := u\<rparr>"
  obtains u' where "ensureFloatingIPAssignment L (fake_client c) t p s =
      (Ok (), s\<lparr>cloud := put_floating_ip (floating_assignee t (fis_AppliedServerID u) p) (cloud s), obj := x\<lparr>Status := u'\<rparr>\<rparr>)"
    and "fis_AppliedServerID u' = floating_applied t (fis_AppliedServerID u) p" and "fis_FloatingIPID u' = fis_FloatingIPID u"
proof -
  let ?a = "fis_AppliedServerID u"
  have i: "fip_ID p = i" using floating_ip_runs.entry_id[OF assms(1)] by simp
  have obj: "s = s\<lparr>obj := x\<lparr>Status := u\<rparr>\<rparr>" using assms(2) by (cases s) simp
  note ap = assms(2) ensureFloatingIPAssignment_def floating_assignee_def floating_applied_def
  consider (keep) "t = 0" "\<not> (?a \<noteq> 0 \<and> fip_ServerID p = ?a)" | (drop) "t = 0" "?a \<noteq> 0" "fip_ServerID p = ?a"
    | (same) "t \<noteq> 0" "fip_ServerID p = t" | (move) "t \<noteq> 0" "fip_ServerID p \<noteq> t" by blast
  then show ?thesis
  proof cases
    case keep
    have p: "floating_assignee t ?a p = p" using keep by (auto simp: floating_assignee_def)
    have "ensureFloatingIPAssignment L (fake_client c) t p s = (Ok (), s)" using keep by (auto simp: ap)
    then have "ensureFloatingIPAssignment L (fake_client c) t p s =
        (Ok (), s\<lparr>cloud := put_floating_ip (floating_assignee t ?a p) (cloud s), obj := x\<lparr>Status := u\<rparr>\<rparr>)"
      unfolding p using floating_ip_runs.put_same[OF assms(1)] obj by simp
    then show ?thesis by (rule that[of u]) (use keep in \<open>auto simp: floating_applied_def\<close>)
  next
    case drop
    have "floating_assignee t ?a p = p\<lparr>fip_ServerID := 0\<rparr>" using drop by (simp add: floating_assignee_def)
    then show ?thesis
      using drop floating_unassign_run[OF assms(1)] i
      by (intro that[of "Status (obj (snd (ensureFloatingIPAssignment L (fake_client c) t p s)))"])
        (simp_all add: ap wrapM_run onCloud_run bindM_run)
  next
    case same
    have "floating_assignee t ?a p = p" using same by (simp add: floating_assignee_def)
    then show ?thesis
      using same floating_ip_runs.put_same[OF assms(1)]
      by (intro that[of "u\<lparr>fis_AppliedServerID := t\<rparr>"]) (simp_all add: ap)
  next
    case move
    let ?q = "p\<lparr>fip_ServerID := 0\<rparr>" and ?r = "p\<lparr>fip_ServerID := t\<rparr>"
    let ?s = "s\<lparr>cloud := put_floating_ip ?q (cloud s)\<rparr>"
    have r: "floating_assignee t ?a p = ?r" using move by (simp add: floating_assignee_def)
    have hq: "has_floating_ip (cloud ?s) i ?q" using floating_ip_runs.put_entry[OF assms(1), of ?q] by simp
    have un: "(if fip_ServerID p \<noteq> 0 \<and> fip_ServerID p \<noteq> t then wrapM w (onCloud (fake_UnassignFloatingIP i)) else ret ()) s
        = (Ok (), ?s)" for w
    proof (cases "fip_ServerID p = 0")
      case True
      then have same: "?q = p" by (cases p) simp
      show ?thesis unfolding same using True floating_ip_runs.put_same[OF assms(1)] by simp
    next
      case False
      then show ?thesis using move floating_unassign_run[OF assms(1)] by (simp add: wrapM_run onCloud_run)
    qed
    have asg: "fake_AssignFloatingIP i t  (cloud ?s) = (Ok (), put_floating_ip ?r (cloud s))"
    proof -
      have "fake_AssignFloatingIP i t  (cloud ?s) = (Ok (), put_floating_ip ?r (cloud ?s))"
        unfolding fake_AssignFloatingIP_def
        by (intro floating_ip_runs.on_entry[OF hq]) (simp_all add: primaryIPAssigneeType_def)
      then show ?thesis using floating_ip_runs.put_put[of ?r ?q] by simp
    qed
    define s1 where "s1 = s\<lparr>cloud := put_floating_ip ?r (cloud s)\<rparr>"
    have run: "ensureFloatingIPAssignment L (fake_client c) t p s =
        bindM (updStatus (\<lambda>u. u\<lparr>fis_AppliedServerID := t\<rparr>)) (\<lambda>_.
          setCondition L conditionTypeReady ConditionTrue ''FloatingIPAssigned'' (''Floating IP assigned to server ID '' @ fmt_d t)) s1"
      using move un asg unfolding ensureFloatingIPAssignment_def fake_client_sel i
      by (simp add: bindM_run wrapM_run onCloud_run[of "fake_AssignFloatingIP i t"] s1_def split del: if_split)
    show ?thesis
      using move run r assms(2)
      by (intro that[of "Status (obj (snd (ensureFloatingIPAssignment L (fake_client c) t p s)))"])
        (simp_all add: s1_def floating_applied_def)
  qed
qed

lemma floating_ptr_run:
  assumes "has_floating_ip (cloud s) i p"
  shows "ensureFloatingIPDNSPtr (fake_client c) p s = (Ok (), s\<lparr>cloud := put_floating_ip (floating_ptr (Spec (obj s)) p) (cloud s)\<rparr>)"
proof (cases "\<exists>ptr. fi_DNSPtr (Spec (obj s)) = Some ptr \<and> fip_IP p \<noteq> '''' \<and> ptr_of (fip_DNSPtr p) (fip_IP p) \<noteq> ptr")
  case True
  have i: "fip_ID p = i" using floating_ip_runs.entry_id[OF assms] by simp
  obtain ptr where ptr: "fi_DNSPtr (Spec (obj s)) = Some ptr" "fip_IP p \<noteq> ''''" "ptr_of (fip_DNSPtr p) (fip_IP p) \<noteq> ptr"
    using True by blast
  have "fake_ChangeFloatingIPDNSPtr i (fip_IP p) ptr (cloud s) = (Ok (), put_floating_ip (floating_ptr (Spec (obj s)) p) (cloud s))"
    unfolding fake_ChangeFloatingIPDNSPtr_def using ptr by (intro floating_ip_runs.on_entry[OF assms]) (simp_all add: floating_ptr_def)
  then show ?thesis using ptr i by (simp add: ensureFloatingIPDNSPtr_def ptr_of_def wrapM_run onCloud_run)
next
  case False
  then have "floating_ptr (Spec (obj s)) p = p" by (auto simp: floating_ptr_def split: option.split)
  then show ?thesis
    using False floating_ip_runs.put_same[OF assms] by (auto simp: ensureFloatingIPDNSPtr_def ptr_of_def split: option.splits)
qed

section \<open>A reconcile\<close>

definition synced_floating_ip :: "HCloudFloatingIPSpec \<Rightarrow> int64 \<Rightarrow> int64 \<Rightarrow> FloatingIPInfo \<Rightarrow> FloatingIPInfo" where
  "synced_floating_ip sp t applied p = floating_ptr sp (floating_assignee t applied (floating_metadata sp p))"

lemma refresh_floating_ip_run:
  assumes "has_floating_ip (cloud s) i p"
  shows "refresh_floating_ip (fake_client c) w v i s = (Ok p, s)"
  using get_floating_ip_run[OF assms] by (simp add: refresh_floating_ip_def bindM_run wrapM_run onCloud_run)

lemma floating_ip_run:
  assumes "has_floating_ip (cloud s) (fis_FloatingIPID (Status (obj s))) p"
    and "floating_ip_target L K s = (Ok (t, False), s)" and "conditions_law L"
  obtains s' where "floating_ip_Reconcile L K (fake_client c) s = (Ok (after requeueDelay), s')" and "kube s' = kube s"
    and "cloud s' = put_floating_ip (synced_floating_ip (Spec (obj s)) t (fis_AppliedServerID (Status (obj s))) p) (cloud s)"
    and "has_floating_ip (cloud s') (fis_FloatingIPID (Status (obj s))) (synced_floating_ip (Spec (obj s)) t (fis_AppliedServerID (Status (obj s))) p)"
    and "Spec (obj s') = Spec (obj s)" and "fis_FloatingIPID (Status (obj s')) = fis_FloatingIPID (Status (obj s))"
    and "fis_AppliedServerID (Status (obj s')) =
        (let a = fip_ServerID (synced_floating_ip (Spec (obj s)) t (fis_AppliedServerID (Status (obj s))) p) in
         if a \<noteq> 0 then a else floating_applied t (fis_AppliedServerID (Status (obj s))) p)"
    and "\<exists>c. FindStatusCondition L (Conditions (Status (obj s'))) ''Ready'' = Some c \<and> cond_Status c = ''True''"
proof -
  let ?u = "Status (obj s)" and ?sp = "Spec (obj s)"
  let ?i = "fis_FloatingIPID ?u" and ?a = "fis_AppliedServerID ?u"
  let ?p1 = "floating_metadata ?sp p" and ?p2 = "floating_assignee t ?a (floating_metadata ?sp p)" and ?p3 = "synced_floating_ip ?sp t ?a p"
  have i: "fip_ID p = ?i" "?i \<noteq> 0" using floating_ip_runs.entry_id[OF assms(1)] by simp_all
  define s1 where "s1 = s\<lparr>cloud := put_floating_ip ?p1 (cloud s)\<rparr>"
  have h1: "has_floating_ip (cloud s1) ?i ?p1" using floating_ip_runs.put_entry[OF assms(1), of ?p1] by (simp add: s1_def)
  have meta: "ensureFloatingIPMetadata (fake_client c) p s = (Ok (), s1)" using floating_metadata_run[OF assms(1)] by (simp add: s1_def)
  have o1: "obj s1 = (obj s)\<lparr>Status := ?u\<rparr>" by (simp add: s1_def)
  obtain u2 where a: "ensureFloatingIPAssignment L (fake_client c) t ?p1 s1 =
      (Ok (), s1\<lparr>cloud := put_floating_ip ?p2 (cloud s1), obj := (obj s)\<lparr>Status := u2\<rparr>\<rparr>)"
    "fis_AppliedServerID u2 = floating_applied t ?a ?p1" "fis_FloatingIPID u2 = ?i"
    using floating_assignment_run[OF h1 o1] by metis
  define s2 where "s2 = s1\<lparr>cloud := put_floating_ip ?p2 (cloud s1), obj := (obj s)\<lparr>Status := u2\<rparr>\<rparr>"
  have h2: "has_floating_ip (cloud s2) ?i ?p2" using floating_ip_runs.put_entry[OF h1, of ?p2] by (simp add: s2_def)
  define s3 where "s3 = s2\<lparr>cloud := put_floating_ip ?p3 (cloud s2)\<rparr>"
  have h3: "has_floating_ip (cloud s3) ?i ?p3" using floating_ip_runs.put_entry[OF h2, of ?p3] by (simp add: s3_def synced_floating_ip_def)
  have dns: "ensureFloatingIPDNSPtr (fake_client c) ?p2 s2 = (Ok (), s3)"
    using floating_ptr_run[OF h2, of c] by (simp add: s3_def s2_def synced_floating_ip_def)
  define s4 where "s4 = snd (syncFloatingIPStatus ?p3 s3)"
  define s5 where "s5 = snd (setCondition L conditionTypeReady ConditionTrue ''FloatingIPReady'' ''Floating IP is provisioned'' s4)"
  have found: "find_or_create (\<lambda>i. onCloud (GetFloatingIP (fake_client c) i)) (\<lambda>n. onCloud (GetFloatingIPByName (fake_client c) n))
       (\<lambda>opts. onCloud (CreateFloatingIP (fake_client c) opts)) ''floating IP'' ''create Hetzner floating IP'' ?i (Name (obj s)) opts s
     = (Ok p, s)" for opts
    using get_floating_ip_run[OF assms(1)] i
    by (simp add: find_or_create_def find_existing_def bindM_run wrapM_run onCloud_run)
  have p3: "fip_ID ?p3 = ?i" using i by (simp add: synced_floating_ip_def)
  have run: "reconcileHCloudFloatingIP L (fake_client c) t s = (Ok (), s5)"
    using found meta a(1) dns refresh_floating_ip_run[OF h1, of c] refresh_floating_ip_run[OF h2, of c] refresh_floating_ip_run[OF h3, of c] i p3
    by (simp add: reconcileHCloudFloatingIP_def syncFloatingIPStatus_def s5_def s4_def del: fake_client_sel flip: s2_def)
  have "floating_ip_Reconcile L K (fake_client c) s = (Ok (after requeueDelay), s5)"
    using assms(2) run by (simp add: floating_ip_Reconcile_def)
  moreover have "cloud s5 = put_floating_ip ?p3 (cloud s)"
    using floating_ip_runs.put_put[of ?p2 ?p1] floating_ip_runs.put_put[of ?p3 ?p2] floating_ip_runs.put_put[of ?p3 ?p1]
    by (simp add: s5_def s4_def syncFloatingIPStatus_def s3_def s2_def s1_def synced_floating_ip_def)
  moreover have "cloud s5 = cloud s3" by (simp add: s5_def s4_def syncFloatingIPStatus_def)
  moreover have "floating_applied t ?a ?p1 = floating_applied t ?a p" by (simp add: floating_applied_def)
  ultimately show ?thesis
    using h3 assms(3) p3 a(2,3)
    by (intro that[of s5]) (simp_all add: s5_def s4_def syncFloatingIPStatus_def s3_def s2_def s1_def find_set Let_def)
qed

section \<open>Properties\<close>


text \<open>A reconcile that only has labels to change clears the description in the in-memory client (the
  update leaves the field at its zero value, which that client stores); the next reconcile writes it again.\<close>

theorem labels_update_clears_description:
  assumes "has_floating_ip (cloud s) (fis_FloatingIPID (Status (obj s))) p" and "conditions_law L"
    and "ref_set (fi_ServerRef (Spec (obj s))) = None"
    and "\<not> mapsEqual (fip_Labels p) (fi_Labels (Spec (obj s)))" and "distinct (map fst (fi_Labels (Spec (obj s))))"
    and "fip_Description p = fi_Description (Spec (obj s))" and "fi_Description (Spec (obj s)) \<noteq> ''''"
  shows "let run = (\<lambda>t. snd (floating_ip_Reconcile L K (fake_client c) t));
      description = (\<lambda>t. map_option fip_Description (map_of (floatingIPs (cloud t)) (fis_FloatingIPID (Status (obj s)))))
    in description (run s) = Some '''' \<and> description (run (run s)) = Some (fi_Description (Spec (obj s)))"
proof -
  let ?i = "fis_FloatingIPID (Status (obj s))" and ?run = "\<lambda>t. snd (floating_ip_Reconcile L K (fake_client c) t)"
  have tgt: "floating_ip_target L K t = (Ok (0, False), t)" if "Spec (obj t) = Spec (obj s)" for t :: "(FakeClient, 'a, HCloudFloatingIP) rst"
    using that assms(3) by (simp add: floating_ip_target_def)
  let ?p1 = "synced_floating_ip (Spec (obj s)) 0 (fis_AppliedServerID (Status (obj s))) p"
  have d1: "fip_Description ?p1 = ''''" "fip_Labels ?p1 = fi_Labels (Spec (obj s))"
    using assms(4,6) by (simp_all add: synced_floating_ip_def floating_metadata_def)
  obtain s1 where s1: "?run s = s1" "has_floating_ip (cloud s1) ?i ?p1" "Spec (obj s1) = Spec (obj s)"
    "fis_FloatingIPID (Status (obj s1)) = ?i"
    by (rule floating_ip_run[OF assms(1) tgt[OF refl] assms(2), of c]) auto
  have h1: "has_floating_ip (cloud s1) (fis_FloatingIPID (Status (obj s1))) ?p1" using s1(2,4) by simp
  let ?p2 = "synced_floating_ip (Spec (obj s)) 0 (fis_AppliedServerID (Status (obj s1))) ?p1"
  have d2: "fip_Description ?p2 = fi_Description (Spec (obj s))"
    using d1 assms(5,7) by (simp add: synced_floating_ip_def[of _ _ _ ?p1] floating_metadata_def mapsEqual_def)
  obtain s2 where s2: "?run s1 = s2" "has_floating_ip (cloud s2) ?i ?p2"
    by (rule floating_ip_run[OF h1 tgt[OF s1(3)] assms(2), of c]) (use s1 in auto)
  show ?thesis
    using s1(1) s2(1) has_entryD(1)[OF s1(2)] has_entryD(1)[OF s2(2)] d1 d2 by (simp add: Let_def)
qed

section \<open>Witnesses\<close>

definition floating_ip_object :: "string option \<Rightarrow> HCloudFloatingIP" where
  "floating_ip_object ref = NewHCloudFloatingIP\<lparr>Name := ''ip'',
     Spec := (Spec NewHCloudFloatingIP)\<lparr>fi_ServerRef := ref, fi_Labels := [(''b'', ''2'')], fi_DNSPtr := Some ''web.example.com'', fi_Description := ''vip''\<rparr>,
     Status := (Status NewHCloudFloatingIP)\<lparr>fis_FloatingIPID := 1\<rparr>\<rparr>"

lemma floating_ip_object_sel [simp]:
  "fis_FloatingIPID (Status (floating_ip_object r)) = 1" "fis_AppliedServerID (Status (floating_ip_object r)) = 0"
  "fi_ServerRef (Spec (floating_ip_object r)) = r" "fi_Labels (Spec (floating_ip_object r)) = [(''b'', ''2'')]"
  "fi_Description (Spec (floating_ip_object r)) = ''vip''" "fip_Description sample_floating_ip = ''vip''" "fi_DNSPtr (Spec (floating_ip_object r)) = Some ''web.example.com''"
  "fip_Labels sample_floating_ip = [(''a'', ''1'')]" "fip_ServerID sample_floating_ip = 7" "fip_IP sample_floating_ip = ''203.0.113.1''"
  "floatingIPs one_floating_ip = [(1, sample_floating_ip)]"
  by (simp_all add: floating_ip_object_def NewHCloudFloatingIP_def sample_floating_ip_def one_floating_ip_def)

lemma floating_ip_world_target:
  "floating_ip_target sample_lib sample_api (floating_ip_world f (floating_ip_object (Some ''web''))) = (Ok (4, False), floating_ip_world f (floating_ip_object (Some ''web'')))"
  by (simp add: floating_ip_target_def ref_set_def tryM_run onKube_run mem_client_def floating_ip_world_def
      no_objects_def mem_find_def sample_defs)


theorem labels_update_clears_description_witness:
  "map_option fip_Description (map_of (floatingIPs (cloud (snd (floating_ip_Reconcile sample_lib sample_api (fake_client [])
     (floating_ip_world one_floating_ip (floating_ip_object None)))))) 1) = Some ''''"
proof -
  have has: "has_floating_ip (cloud (floating_ip_world one_floating_ip (floating_ip_object None)))
      (fis_FloatingIPID (Status (obj (floating_ip_world one_floating_ip (floating_ip_object None))))) sample_floating_ip"
    by (simp add: one_ip_has)
  show ?thesis
    using labels_update_clears_description[OF has sample_lib_ok(4), of sample_api "[]"]
    by (simp add: ref_set_def Let_def mapsEqual_def maps_Equal_def)
qed

end
