(* ===== verification/NetworkProps.thy ===== *)
theory NetworkProps
  imports Parametric FakeRuns
begin

text \<open>The network controller and the certificate controller on the fake client.\<close>

section \<open>Networks\<close>

text \<open>The loop over the wanted zones, as a function of the zones there are.\<close>

definition with_zones :: "string list \<Rightarrow> NetworkInfo \<Rightarrow> NetworkInfo" where
  "with_zones zs n = n\<lparr>net_SubnetZones := foldl (\<lambda>old z. if z \<in> set old then old else sort (old @ [z])) (net_SubnetZones n) zs\<rparr>"

lemma with_zones_set: "set (net_SubnetZones (with_zones zs n)) = set (net_SubnetZones n) \<union> set zs"
proof -
  have "set (foldl (\<lambda>old z. if z \<in> set old then old else sort (old @ [z])) old zs) = set old \<union> set zs" for old
    by (induction zs arbitrary: old) auto
  then show ?thesis by (simp add: with_zones_def)
qed

lemma with_zones_same: "set zs \<subseteq> set (net_SubnetZones n) \<Longrightarrow> with_zones zs n = n"
proof -
  assume "set zs \<subseteq> set (net_SubnetZones n)"
  then have "foldl (\<lambda>old z. if z \<in> set old then old else sort (old @ [z])) (net_SubnetZones n) zs = net_SubnetZones n"
    by (induction zs) auto
  then show ?thesis by (simp add: with_zones_def)
qed

lemma with_zones_sel [simp]:
  "net_ID (with_zones zs n) = net_ID n" "net_Name (with_zones zs n) = net_Name n" "net_IPRange (with_zones zs n) = net_IPRange n"
  by (simp_all add: with_zones_def)

lemma with_zones_Cons: "with_zones (z # zs) n = with_zones zs (with_zones [z] n)"
  by (simp add: with_zones_def)

lemma get_network_run: "has_network f i n \<Longrightarrow> fake_GetNetwork i f = (Ok (Some n), f)"
  using network_runs.get_entry by (simp add: fake_GetNetwork_def copyNetworkInfo_def)

lemma ensure_zone_run:
  assumes "has_network (cloud s) i n"
  shows "ensure_zone (fake_client c) n z s = (Ok (with_zones [z] n), s\<lparr>cloud := put_network (with_zones [z] n) (cloud s)\<rparr>)"
proof (cases "z \<in> set (net_SubnetZones n)")
  case True
  then have "with_zones [z] n = n" by (simp add: with_zones_same)
  then show ?thesis using True network_runs.put_same[OF assms]
    by (simp add: ensure_zone_def subnetZonePresent_def list_ex_iff)
next
  case False
  have i: "net_ID n = i" using network_runs.entry_id[OF assms] by simp
  let ?n = "with_zones [z] n"
  have "fake_AddNetworkCloudSubnet i z (cloud s) = (Ok (), put_network ?n (cloud s))"
    unfolding fake_AddNetworkCloudSubnet_def using False by (intro network_runs.on_entry[OF assms]) (simp_all add: with_zones_def)
  moreover have "has_network (put_network ?n (cloud s)) i ?n" using network_runs.put_entry[OF assms, of ?n] by simp
  ultimately show ?thesis using False i get_network_run[of "put_network ?n (cloud s)" i ?n]
    by (simp add: ensure_zone_def subnetZonePresent_def list_ex_iff bindM_run wrapM_run onCloud_run)
qed

lemma ensure_zones_run:
  assumes "has_network (cloud s) i n"
  shows "foldM zs (ensure_zone (fake_client c)) n s = (Ok (with_zones zs n), s\<lparr>cloud := put_network (with_zones zs n) (cloud s)\<rparr>)"
  using assms
proof (induction zs arbitrary: n s)
  case Nil
  then show ?case using network_runs.put_same[OF Nil] by (simp add: with_zones_def)
next
  case (Cons z zs)
  let ?n = "with_zones [z] n" and ?t = "s\<lparr>cloud := put_network (with_zones [z] n) (cloud s)\<rparr>"
  have "has_network (cloud ?t) i ?n" using network_runs.put_entry[OF Cons.prems, of ?n] by simp
  from Cons.IH[OF this] show ?case
    using ensure_zone_run[OF Cons.prems, of c z] network_runs.put_put[of "with_zones zs ?n" ?n]
    by (simp add: with_zones_Cons[of z zs])
qed

text \<open>C28: A reconcile of a network that exists adds the zones of the spec that it lacks and removes none,
  changes nothing else of it, and records the identifier, the range and the zones in order; a network
  that has all its zones is left alone.\<close>

theorem network_converges:
  assumes "has_network (cloud s) (nws_NetworkID (Status (obj s))) n" and "conditions_law L"
  shows "\<exists>s' n' cond. network_Reconcile L K (fake_client c) s = (Ok (after requeueDelay), s')
    \<and> cloud s' = put_network n' (cloud s) \<and> kube s' = kube s
    \<and> n' = n\<lparr>net_SubnetZones := net_SubnetZones n'\<rparr>
    \<and> set (net_SubnetZones n') = set (net_SubnetZones n) \<union> set (nw_NetworkZones (Spec (obj s)))
    \<and> (set (nw_NetworkZones (Spec (obj s))) \<subseteq> set (net_SubnetZones n) \<longrightarrow> cloud s' = cloud s)
    \<and> nws_NetworkID (Status (obj s')) = net_ID n \<and> nws_IPRange (Status (obj s')) = net_IPRange n
    \<and> nws_SubnetZones (Status (obj s')) = sort (net_SubnetZones n')
    \<and> FindStatusCondition L (Conditions (Status (obj s'))) ''Ready'' = Some cond \<and> cond_Status cond = ''True''"
proof -
  let ?zs = "nw_NetworkZones (Spec (obj s))" and ?i = "nws_NetworkID (Status (obj s))"
  let ?n = "with_zones ?zs n" and ?t = "s\<lparr>cloud := put_network (with_zones (nw_NetworkZones (Spec (obj s))) n) (cloud s)\<rparr>"
  have i: "?i \<noteq> 0" using network_runs.entry_id[OF assms(1)] by simp
  have found: "find_existing (\<lambda>i. onCloud (fake_GetNetwork i)) (\<lambda>n. onCloud (fake_GetNetworkByName c n)) ''network'' ?i (Name (obj s)) s
      = (Ok (Some n), s)"
    using get_network_run[OF assms(1)] i by (simp add: find_existing_def bindM_run wrapM_run onCloud_run)
  define s1 where "s1 = ?t\<lparr>obj := (obj s)\<lparr>Status := (Status (obj s))\<lparr>nws_NetworkID := net_ID ?n, nws_IPRange := net_IPRange ?n,
      nws_SubnetZones := sort (net_SubnetZones ?n)\<rparr>\<rparr>\<rparr>"
  have run: "network_Reconcile L K (fake_client c) s = (Ok (after requeueDelay),
      snd (setCondition L conditionTypeReady ConditionTrue ''NetworkReady'' ''Private network is provisioned'' s1))"
    using found ensure_zones_run[OF assms(1), of ?zs c]
    by (simp add: network_Reconcile_def reconcileHCloudNetwork_def s1_def)
  show ?thesis
    unfolding run using assms(2) with_zones_set[of ?zs n] with_zones_same[of ?zs n] network_runs.put_same[OF assms(1)]
    by (intro exI[of _ "snd (setCondition L conditionTypeReady ConditionTrue ''NetworkReady'' ''Private network is provisioned'' s1)"] exI[of _ ?n])
      (auto simp: s1_def find_set with_zones_def)
qed

section \<open>Certificates\<close>

text \<open>The certificate with the labels of the spec, unless it has them already.\<close>

definition with_cert_labels :: "labels \<Rightarrow> CertificateInfo \<Rightarrow> CertificateInfo" where
  "with_cert_labels l c = (if mapsEqual (crt_Labels c) l then c else c\<lparr>crt_Labels := l\<rparr>)"

lemma with_cert_labels_sel [simp]:
  "crt_ID (with_cert_labels l c) = crt_ID c" "crt_Name (with_cert_labels l c) = crt_Name c" "crt_Type (with_cert_labels l c) = crt_Type c"
  "crt_DomainNames (with_cert_labels l c) = crt_DomainNames c" "crt_Fingerprint (with_cert_labels l c) = crt_Fingerprint c"
  "crt_IssuanceStatus (with_cert_labels l c) = crt_IssuanceStatus c"
  by (simp_all add: with_cert_labels_def)

lemma with_cert_labels_equal:
  "distinct (map fst (crt_Labels c)) \<Longrightarrow> distinct (map fst l) \<Longrightarrow> map_of (crt_Labels (with_cert_labels l c)) = map_of l"
  by (auto simp: with_cert_labels_def mapsEqual_def maps_Equal_iff)

lemma get_certificate_run: "has_certificate f i x \<Longrightarrow> fake_GetCertificate i f = (Ok (Some x), f)"
  using certificate_runs.get_entry by (simp add: fake_GetCertificate_def copyCertificateInfo_def)

lemma cert_metadata_run:
  assumes "has_certificate (cloud s) i x"
  shows "ensureCertificateMetadata (fake_client c) x s =
    (Ok (), s\<lparr>cloud := put_certificate (with_cert_labels (ce_Labels (Spec (obj s))) x) (cloud s)\<rparr>)"
proof (cases "mapsEqual (crt_Labels x) (ce_Labels (Spec (obj s)))")
  case True
  then show ?thesis using certificate_runs.put_same[OF assms] by (simp add: ensureCertificateMetadata_def with_cert_labels_def)
next
  case False
  have i: "crt_ID x = i" using certificate_runs.entry_id[OF assms] by simp
  have "fake_UpdateCertificate i \<lparr> ccu_Labels = Some (ce_Labels (Spec (obj s))) \<rparr> (cloud s)
      = (Ok (), put_certificate (with_cert_labels (ce_Labels (Spec (obj s))) x) (cloud s))"
    unfolding fake_UpdateCertificate_def using False
    by (intro certificate_runs.on_entry[OF assms]) (simp_all add: with_cert_labels_def cloneStringMap_def)
  then show ?thesis using False i
    by (simp add: ensureCertificateMetadata_def cloneStringMapController_def wrapM_run onCloud_run)
qed

text \<open>A reconcile of a certificate that exists gives it the labels of the spec, changing nothing else of
  it, and copies what the cloud reports into the status; Ready is True exactly when the certificate
  can be attached to a load balancer, that is when it was uploaded or its issuance is completed.\<close>

theorem certificate_converges:
  assumes "has_certificate (cloud s) (ces_CertificateID (Status (obj s))) x" and "conditions_law L"
    and "distinct (map fst (crt_Labels x))" and "distinct (map fst (ce_Labels (Spec (obj s))))"
  shows "\<exists>s' x' cond. cert_Reconcile L (fake_client c) s = (Ok (after requeueDelay), s')
    \<and> cloud s' = put_certificate x' (cloud s) \<and> kube s' = kube s
    \<and> x' = x\<lparr>crt_Labels := crt_Labels x'\<rparr> \<and> map_of (crt_Labels x') = map_of (ce_Labels (Spec (obj s)))
    \<and> ces_CertificateID (Status (obj s')) = crt_ID x \<and> ces_Fingerprint (Status (obj s')) = crt_Fingerprint x
    \<and> ces_DomainNames (Status (obj s')) = crt_DomainNames x \<and> ces_IssuanceStatus (Status (obj s')) = crt_IssuanceStatus x
    \<and> FindStatusCondition L (Conditions (Status (obj s'))) ''Ready'' = Some cond
    \<and> cond_Status cond = (if crt_Type x = ''uploaded'' \<or> crt_IssuanceStatus x = ''completed'' then ''True'' else ''False'')"
proof -
  let ?l = "ce_Labels (Spec (obj s))" and ?i = "ces_CertificateID (Status (obj s))"
  let ?x = "with_cert_labels ?l x" and ?t = "s\<lparr>cloud := put_certificate (with_cert_labels (ce_Labels (Spec (obj s))) x) (cloud s)\<rparr>"
  have i: "crt_ID x = ?i" "?i \<noteq> 0" using certificate_runs.entry_id[OF assms(1)] by simp_all
  have has: "has_certificate (cloud ?t) ?i ?x" using certificate_runs.put_entry[OF assms(1), of ?x] by simp
  have found: "find_or_create (\<lambda>i. onCloud (fake_GetCertificate i)) (\<lambda>n. onCloud (fake_GetCertificateByName c n))
      (\<lambda>opts. onCloud (fake_CreateCertificate opts)) ''certificate'' ''create Hetzner certificate'' ?i (Name (obj s)) opts s = (Ok x, s)" for opts
    using get_certificate_run[OF assms(1)] i by (simp add: find_or_create_def find_existing_def bindM_run wrapM_run onCloud_run)
  have same: "?x = x\<lparr>crt_Labels := crt_Labels ?x\<rparr>" by (simp add: with_cert_labels_def)
  define s1 where "s1 = snd (syncCertificateStatus ?x ?t)"
  define s2 where "s2 = (if CertificateReady (Some ?x)
    then snd (setCondition L conditionTypeReady ConditionTrue ''CertificateReady'' ''Certificate is provisioned'' s1)
    else snd (setCondition L conditionTypeReady ConditionFalse ''CertificatePending'' ''Waiting for managed certificate issuance'' s1))"
  have sync: "syncCertificateStatus ?x ?t = (Ok (), s1)" by (simp add: s1_def syncCertificateStatus_def)
  have "reconcileHCloudCertificate L (fake_client c) s = (if CertificateReady (Some ?x) then (Ok False, s2) else (Ok True, s1))"
    using found cert_metadata_run[OF assms(1), of c] get_certificate_run[OF has] i sync
    by (simp add: reconcileHCloudCertificate_def s2_def bindM_run wrapM_run onCloud_run)
  then have run: "cert_Reconcile L (fake_client c) s = (Ok (after requeueDelay), s2)"
    by (simp add: cert_Reconcile_def bindM_run s2_def)
  show ?thesis
    unfolding run using assms(2) with_cert_labels_equal[OF assms(3,4)] same i
    by (intro exI[of _ s2] exI[of _ ?x])
      (auto simp: s2_def s1_def syncCertificateStatus_def find_set CertificateReady_def certificateReady_def)
qed

section \<open>Witnesses\<close>

definition one_network :: FakeClient where
  "one_network = NewFakeClient\<lparr>networks := [(1, \<lparr> net_ID = 1, net_Name = ''lan'', net_IPRange = ''10.0.0.0/16'', net_SubnetZones = [''us-east''],
     net_Labels = [], net_ExposeRoutes = False \<rparr>)], nextID := 2\<rparr>"

definition network_object :: HCloudNetwork where
  "network_object = NewHCloudNetwork\<lparr>Name := ''lan'', Spec := (Spec NewHCloudNetwork)\<lparr>nw_NetworkZones := [''us-east'', ''eu-central'']\<rparr>,
     Status := (Status NewHCloudNetwork)\<lparr>nws_NetworkID := 1\<rparr>\<rparr>"

definition one_certificate :: FakeClient where
  "one_certificate = NewFakeClient\<lparr>certificates := [(1, \<lparr> crt_ID = 1, crt_Name = ''tls'', crt_Type = ''managed'', crt_Labels = [(''a'', ''1'')],
     crt_DomainNames = [''example.com''], crt_Fingerprint = '''', crt_NotValidBefore = None, crt_NotValidAfter = None,
     crt_IssuanceStatus = ''pending'' \<rparr>)], nextID := 2\<rparr>"

definition certificate_object :: HCloudCertificate where
  "certificate_object = NewHCloudCertificate\<lparr>Name := ''tls'', Spec := (Spec NewHCloudCertificate)\<lparr>ce_Labels := [(''a'', ''2'')]\<rparr>,
     Status := (Status NewHCloudCertificate)\<lparr>ces_CertificateID := 1\<rparr>\<rparr>"

definition simple_world :: "FakeClient \<Rightarrow> 'o \<Rightarrow> (FakeClient, apistate, 'o) rst" where
  "simple_world f x = \<lparr> cloud = f, kube = no_objects, obj = x, events = [], metrics = [] \<rparr>"

lemma simple_world_sel [simp]: "cloud (simple_world f x) = f" "obj (simple_world f x) = x"
  by (simp_all add: simple_world_def)

theorem network_converges_witness:
  "\<exists>s'. network_Reconcile sample_lib sample_api (fake_client []) (simple_world one_network network_object) = (Ok (after requeueDelay), s')
    \<and> set (nws_SubnetZones (Status (obj s'))) = {''us-east'', ''eu-central''}"
proof -
  let ?n = "\<lparr> net_ID = 1, net_Name = ''lan'', net_IPRange = ''10.0.0.0/16'', net_SubnetZones = [''us-east''],
     net_Labels = [], net_ExposeRoutes = False \<rparr>"
  have "has_network (cloud (simple_world one_network network_object))
      (nws_NetworkID (Status (obj (simple_world one_network network_object)))) ?n"
    by (simp add: has_entry_def fake_ready_def fake_wf_def table_ok_def one_network_def network_object_def NewFakeClient_def)
  then obtain s' and n' :: NetworkInfo where "network_Reconcile sample_lib sample_api (fake_client []) (simple_world one_network network_object)
      = (Ok (after requeueDelay), s')" "nws_SubnetZones (Status (obj s')) = sort (net_SubnetZones n')"
    "set (net_SubnetZones n') = set (net_SubnetZones ?n) \<union> set (nw_NetworkZones (Spec (obj (simple_world one_network network_object))))"
    using network_converges[OF _ sample_lib_ok(4), of "simple_world one_network network_object" ?n sample_api "[]"] by blast
  then show ?thesis by (auto simp: network_object_def)
qed

theorem certificate_converges_witness:
  "\<exists>s' cond. cert_Reconcile sample_lib (fake_client []) (simple_world one_certificate certificate_object) = (Ok (after requeueDelay), s')
    \<and> FindStatusCondition (sample_lib :: (FakeClient, apistate, HCloudCertificate) rst lib) (Conditions (Status (obj s'))) ''Ready'' = Some cond \<and> cond_Status cond = ''False''"
proof -
  let ?c = "\<lparr> crt_ID = 1, crt_Name = ''tls'', crt_Type = ''managed'', crt_Labels = [(''a'', ''1'')],
     crt_DomainNames = [''example.com''], crt_Fingerprint = '''', crt_NotValidBefore = None, crt_NotValidAfter = None,
     crt_IssuanceStatus = ''pending'' \<rparr>"
  have has: "has_certificate (cloud (simple_world one_certificate certificate_object))
      (ces_CertificateID (Status (obj (simple_world one_certificate certificate_object)))) ?c"
    by (simp add: has_entry_def fake_ready_def fake_wf_def table_ok_def one_certificate_def certificate_object_def NewFakeClient_def)
  have labels: "distinct (map fst (crt_Labels ?c))"
      "distinct (map fst (ce_Labels (Spec (obj (simple_world one_certificate certificate_object)))))"
    by (simp_all add: certificate_object_def)
  obtain s' cond where "cert_Reconcile sample_lib (fake_client []) (simple_world one_certificate certificate_object) = (Ok (after requeueDelay), s')"
      "FindStatusCondition (sample_lib :: (FakeClient, apistate, HCloudCertificate) rst lib) (Conditions (Status (obj s'))) ''Ready'' = Some cond"
      "cond_Status cond = (if crt_Type ?c = ''uploaded'' \<or> crt_IssuanceStatus ?c = ''completed'' then ''True'' else ''False'')"
    using certificate_converges[OF has sample_lib_ok(4) labels, of "[]"] by (elim exE conjE) (rule that)
  then show ?thesis by auto
qed

end
