(* ===== verification/ServiceProps.thy ===== *)
theory ServiceProps
  imports SampleSdk LoadBalancerCtl
begin

text \<open>
  The services of a load balancer in the production client: what the comparison compares, what a
  synchronisation does to the services on the server, when it does nothing, and which wanted
  services make it write every time.
\<close>

section \<open>Comparison\<close>

lemma slices_equal [simp]: "int64SlicesEqual a b \<longleftrightarrow> a = b"
  by (induction a b rule: int64SlicesEqual.induct) auto

lemma pointers_equal [simp]: "intPtrEqual a b \<longleftrightarrow> a = b" "durationPtrEqual c d \<longleftrightarrow> c = d"
  "stringPtrEqual e f \<longleftrightarrow> e = f" "boolPtrEqual g h \<longleftrightarrow> g = h"
  by (auto simp: intPtrEqual_def durationPtrEqual_def stringPtrEqual_def boolPtrEqual_def split: option.split)

lemma http_equal [simp]: "healthCheckHTTPEqual a b \<longleftrightarrow> a = b"
  by (auto simp: healthCheckHTTPEqual_def list_all2_eq[symmetric] split: option.split
      intro: LoadBalancerHealthCheckHTTPInfo.equality)

lemma health_equal [simp]: "healthChecksEqual a b \<longleftrightarrow> a = b"
  by (auto simp: healthChecksEqual_def split: option.split intro: LoadBalancerHealthCheckInfo.equality)

text \<open>The comparison of services is equality, except that a wanted service without a health check
  accepts any: removing the health check from the spec does not remove it from the load balancer.\<close>

theorem services_equal_iff:
  "servicesEqual a b \<longleftrightarrow> a\<lparr>svc_HealthCheck := None\<rparr> = b\<lparr>svc_HealthCheck := None\<rparr>
     \<and> (case svc_HealthCheck b of None \<Rightarrow> True | Some h \<Rightarrow> svc_HealthCheck a = Some h)"
  by (cases a; cases b) (auto simp: servicesEqual_def split: option.split)

section \<open>Maps by port\<close>

lemma by_port_snoc: "by_port (xs @ [x]) = AList.update (svc_ListenPort x) x (by_port xs)"
  by (simp add: by_port_def)

lemma by_port_map: "map_of (by_port svcs) p = find (\<lambda>s. svc_ListenPort s = p) (rev svcs)"
  by (induction svcs rule: rev_induct) (auto simp: by_port_snoc update_conv', simp add: by_port_def)

lemma by_port_distinct: "distinct (map fst (by_port svcs))"
  by (induction svcs rule: rev_induct) (auto simp: by_port_snoc distinct_update, simp add: by_port_def)

lemma update_subset: "set (AList.update k v m) \<subseteq> insert (k, v) (set m)"
  by (induction m) auto

lemma by_port_entry: "(p, s) \<in> set (by_port svcs) \<Longrightarrow> svc_ListenPort s = p \<and> s \<in> set svcs"
proof (induction svcs rule: rev_induct)
  case Nil
  then show ?case by (simp add: by_port_def)
next
  case (snoc x xs)
  then have "(p, s) = (svc_ListenPort x, x) \<or> (p, s) \<in> set (by_port xs)"
    using update_subset unfolding by_port_snoc by fastforce
  then show ?case using snoc.IH by auto
qed

lemma by_port_keys: "fst ` set (by_port svcs) = svc_ListenPort ` set svcs"
proof
  show "fst ` set (by_port svcs) \<subseteq> svc_ListenPort ` set svcs" using by_port_entry by force
  have "map_of (by_port svcs) (svc_ListenPort s) \<noteq> None" if "s \<in> set svcs" for s
    using that by (auto simp: by_port_map find_None_iff)
  then show "svc_ListenPort ` set svcs \<subseteq> fst ` set (by_port svcs)"
    by (auto simp: map_of_eq_None_iff)
qed

section \<open>Synchronisation\<close>

text \<open>What the calls of the SDK do to the services of one load balancer, whatever the service makes
  of the options: \<open>made\<close> is the service that comes of adding, \<open>changed\<close> of updating.\<close>

definition services_law :: "'w Sdk \<Rightarrow> SdkLoadBalancer \<Rightarrow> ('w \<Rightarrow> int \<Rightarrow> SdkService option) \<Rightarrow> (SdkAddServiceOpts \<Rightarrow> SdkService)
    \<Rightarrow> (SdkService \<Rightarrow> SdkUpdateServiceOpts \<Rightarrow> SdkService) \<Rightarrow> bool" where
  "services_law S lb svcs made changed \<longleftrightarrow>
     (\<forall>w p. \<exists>w'. LoadBalancer_DeleteService S lb p w = (Ok (), w') \<and> svcs w' = (svcs w)(p := None))
   \<and> (\<forall>w p o'. sdas_ListenPort o' = Some p \<longrightarrow>
        (\<exists>w'. LoadBalancer_AddService S lb o' w = (Ok (), w') \<and> svcs w' = (svcs w)(p \<mapsto> made o')))
   \<and> (\<forall>w p o' v. svcs w p = Some v \<longrightarrow>
        (\<exists>w'. LoadBalancer_UpdateService S lb p o' w = (Ok (), w') \<and> svcs w' = (svcs w)(p \<mapsto> changed v o')))"

lemma services_lawD:
  assumes "services_law S lb svcs made changed"
  shows "\<exists>w'. LoadBalancer_DeleteService S lb p w = (Ok (), w') \<and> svcs w' = (svcs w)(p := None)"
    and "sdas_ListenPort o' = Some p \<Longrightarrow> \<exists>w'. LoadBalancer_AddService S lb o' w = (Ok (), w') \<and> svcs w' = (svcs w)(p \<mapsto> made o')"
    and "svcs w p = Some v \<Longrightarrow> \<exists>w'. LoadBalancer_UpdateService S lb p u w = (Ok (), w') \<and> svcs w' = (svcs w)(p \<mapsto> changed v u)"
  using assms by (simp_all add: services_law_def)

text \<open>The service wanted at a port, after the synchronisation, given the one before.\<close>

definition synced :: "(SdkAddServiceOpts \<Rightarrow> SdkService) \<Rightarrow> (SdkService \<Rightarrow> SdkUpdateServiceOpts \<Rightarrow> SdkService)
    \<Rightarrow> LoadBalancerServiceInfo \<Rightarrow> SdkService option \<Rightarrow> SdkService" where
  "synced made changed want old = (case old of None \<Rightarrow> made (addServiceOptsFromInfo want)
     | Some v \<Rightarrow> if servicesEqual (serviceInfoFromSDK v) want then v else changed v (updateServiceOptsFromInfo want))"

lemma drop_loop:
  assumes "services_law S lb svcs made changed"
  shows "\<exists>w'. forM ps (drop_service S i lb D) w = (Ok (), w')
    \<and> svcs w' = (\<lambda>p. if p \<in> set ps \<and> map_of D p = None then None else svcs w p)"
proof (induction ps arbitrary: w)
  case Nil
  then show ?case by simp
next
  case (Cons p ps)
  obtain w1 where w1: "drop_service S i lb D p w = (Ok (), w1)"
    "svcs w1 = (\<lambda>q. if q = p \<and> map_of D q = None then None else svcs w q)"
  proof (cases "map_of D p")
    case None
    then have "(svcs w)(p := None) = (\<lambda>q. if q = p \<and> map_of D q = None then None else svcs w q)" by auto
    then show thesis using services_lawD(1)[OF assms, of p w] that None by (auto simp: drop_service_def)
  next
    case (Some d)
    then show thesis by (intro that[of w]) (auto simp: drop_service_def intro!: ext)
  qed
  from Cons.IH[of w1] obtain w2 where w2: "forM ps (drop_service S i lb D) w1 = (Ok (), w2)"
    "svcs w2 = (\<lambda>q. if q \<in> set ps \<and> map_of D q = None then None else svcs w1 q)" by blast
  then show ?case using w1 by (auto intro!: ext)
qed

lemma ensure_loop:
  assumes "services_law S lb svcs made changed" and "distinct (map fst wants)"
    and "\<And>p want. (p, want) \<in> set wants \<Longrightarrow> svc_ListenPort want = p"
    and "\<And>p want. (p, want) \<in> set wants \<Longrightarrow> map_of C p = map_option serviceInfoFromSDK (svcs w p)"
  shows "\<exists>w'. forM wants (ensure_service S i lb C) w = (Ok (), w')
    \<and> svcs w' = (\<lambda>p. case map_of wants p of None \<Rightarrow> svcs w p | Some want \<Rightarrow> Some (synced made changed want (svcs w p)))"
  using assms(2-)
proof (induction wants arbitrary: w)
  case Nil
  then show ?case by simp
next
  case (Cons pw wants)
  obtain p want where pw: "pw = (p, want)" by (cases pw)
  have port: "svc_ListenPort want = p" and cur: "map_of C p = map_option serviceInfoFromSDK (svcs w p)"
    and fresh: "map_of wants p = None"
    using Cons.prems pw by (auto simp: map_of_eq_None_iff)
  obtain w1 where w1: "ensure_service S i lb C pw w = (Ok (), w1)" "svcs w1 = (svcs w)(p \<mapsto> synced made changed want (svcs w p))"
  proof (cases "svcs w p")
    case None
    have "sdas_ListenPort (addServiceOptsFromInfo want) = Some p" using port by (simp add: addServiceOptsFromInfo_def)
    from services_lawD(2)[OF assms(1) this, of w] show thesis
      using that None cur pw by (auto simp: ensure_service_def synced_def)
  next
    case (Some v)
    show thesis
    proof (cases "servicesEqual (serviceInfoFromSDK v) want")
      case True
      then show thesis using that[of w] Some cur pw by (simp add: ensure_service_def synced_def fun_upd_idem)
    next
      case False
      then show thesis using services_lawD(3)[OF assms(1) Some, of "updateServiceOptsFromInfo want"] that Some cur pw
        by (auto simp: ensure_service_def synced_def)
    qed
  qed
  have "\<exists>w'. forM wants (ensure_service S i lb C) w1 = (Ok (), w')
    \<and> svcs w' = (\<lambda>p. case map_of wants p of None \<Rightarrow> svcs w1 p | Some want \<Rightarrow> Some (synced made changed want (svcs w1 p)))"
  proof (rule Cons.IH)
    show "distinct (map fst wants)" using Cons.prems(1) by simp
    show "svc_ListenPort v = q" if "(q, v) \<in> set wants" for q v using that Cons.prems(2) by auto
    show "map_of C q = map_option serviceInfoFromSDK (svcs w1 q)" if "(q, v) \<in> set wants" for q v
      using that Cons.prems(1,3) pw w1(2) by (force simp: image_iff)
  qed
  then show ?case using w1 fresh pw by (auto split: option.split intro!: ext)
qed

lemma by_port_plain:
  "distinct (map svc_ListenPort xs) \<Longrightarrow> map_of (by_port xs) = map_of (map (\<lambda>s. (svc_ListenPort s, s)) xs)"
proof (induction xs rule: rev_induct)
  case Nil
  then show ?case by (simp add: by_port_def)
next
  case (snoc x xs)
  then have "map_of (map (\<lambda>s. (svc_ListenPort s, s)) xs) (svc_ListenPort x) = None"
    by (auto simp: map_of_eq_None_iff)
  then show ?case using snoc by (auto simp: by_port_snoc update_conv' map_add_def fun_upd_def split: option.split intro!: ext)
qed

lemma current_services:
  assumes "distinct (map sdsv_ListenPort vs)"
  shows "map_of (by_port (map serviceInfoFromSDK vs)) p = map_option serviceInfoFromSDK (map_of (map (\<lambda>v. (sdsv_ListenPort v, v)) vs) p)"
proof -
  have port: "svc_ListenPort (serviceInfoFromSDK v) = sdsv_ListenPort v" for v by (simp add: serviceInfoFromSDK_def)
  have "map_of (by_port (map serviceInfoFromSDK vs)) p = map_of (map (\<lambda>v. (sdsv_ListenPort v, serviceInfoFromSDK v)) vs) p"
    using assms by (subst by_port_plain) (simp_all add: comp_def port)
  also have "\<dots> = map_option serviceInfoFromSDK (map_of (map (\<lambda>v. (sdsv_ListenPort v, v)) vs) p)"
    by (induction vs) auto
  finally show ?thesis .
qed


text \<open>A synchronisation whose wanted services are all there and equal makes no call but the lookup.\<close>

theorem services_settle:
  assumes "LoadBalancer_GetByID S i w = (Ok (Some lb), w)" and "distinct (map sdsv_ListenPort (sdlb_Services lb))"
    and "svc_ListenPort ` set desired = sdsv_ListenPort ` set (sdlb_Services lb)"
    and "\<And>v want. v \<in> set (sdlb_Services lb) \<Longrightarrow> want \<in> set desired \<Longrightarrow> svc_ListenPort want = sdsv_ListenPort v
      \<Longrightarrow> servicesEqual (serviceInfoFromSDK v) want"
  shows "SyncLoadBalancerServices (real_client ch S) i desired w = (Ok (), w)"
proof -
  let ?D = "by_port desired" and ?C = "by_port (map serviceInfoFromSDK (sdlb_Services lb))"
  have cur: "map_of ?C p = map_option serviceInfoFromSDK (map_of (map (\<lambda>v. (sdsv_ListenPort v, v)) (sdlb_Services lb)) p)" for p
    using current_services[OF assms(2)] .
  have skip: "forM xs f w = (Ok (), w)" if "\<And>x. x \<in> set xs \<Longrightarrow> f x w = (Ok (), w)" for xs :: "'b list" and f
    using that by (induction xs) simp_all
  have "svc_ListenPort (serviceInfoFromSDK v) = sdsv_ListenPort v" for v by (simp add: serviceInfoFromSDK_def)
  then have keys: "fst ` set ?C = fst ` set ?D"
    using assms(3) by (simp add: by_port_keys image_image)
  have 1: "forM (shuffle (fst ch) (map fst ?C)) (drop_service S i lb ?D) w = (Ok (), w)"
    using keys by (intro skip) (auto simp: drop_service_def map_of_eq_None_iff)
  have 2: "forM (shuffle (snd ch) ?D) (ensure_service S i lb ?C) w = (Ok (), w)"
  proof (rule skip)
    fix x assume "x \<in> set (shuffle (snd ch) ?D)"
    then have "x \<in> set ?D" by simp
    moreover obtain p want where "x = (p, want)" by (cases x)
    ultimately have x: "x = (p, want)" "(p, want) \<in> set ?D" by blast+
    then have want: "svc_ListenPort want = p" "want \<in> set desired" using by_port_entry by blast+
    have "p \<in> fst ` set ?C" using x(2) keys by force
    then obtain v where v: "map_of (map (\<lambda>v. (sdsv_ListenPort v, v)) (sdlb_Services lb)) p = Some v"
      using cur[of p] map_of_eq_None_iff[of ?C p] by fastforce
    then have "v \<in> set (sdlb_Services lb)" "sdsv_ListenPort v = p" by (auto dest!: map_of_SomeD)
    then have "servicesEqual (serviceInfoFromSDK v) want" using assms(4) want by auto
    then show "ensure_service S i lb ?C x w = (Ok (), w)" using v cur x(1) by (simp add: ensure_service_def)
  qed
  show ?thesis
    using assms(1) 1 2 by (simp add: real_client_def client_SyncLoadBalancerServices_def sync_services_def Let_def)
qed

text \<open>C34: A health check of the spec that leaves open what the server has a value for (the port, the
  interval, the timeout, the retries), or that says no to TLS, never compares equal to what is read
  back: every synchronisation updates the service again.\<close>

theorem open_health_check_rewritten:
  assumes "lss_HealthCheck spec = Some h"
    and "map_of current port = Some (serviceInfoFromSDK v)" and "sdsv_HealthCheck v = hc"
    and "hcs_Port h = None \<and> 0 < sdhc_Port hc \<or> hcs_IntervalSeconds h = None \<and> 0 < sint (sdhc_Interval hc)
       \<or> hcs_TimeoutSeconds h = None \<and> 0 < sint (sdhc_Timeout hc) \<or> hcs_Retries h = None \<and> 0 < sdhc_Retries hc
       \<or> (\<exists>t. hcs_HTTP h = Some t \<and> hhs_TLS t = Some False)"
  shows "ensure_service S i lb current (port, service_from_spec spec ids)
    = wrapM (''hcloud: UpdateService('' @ fmt_d i @ '', '' @ fmt_d port @ '')'')
        (LoadBalancer_UpdateService S lb port (updateServiceOptsFromInfo (service_from_spec spec ids)))"
proof -
  have "healthCheckInfoFromSDK hc \<noteq> health_check_from_spec h"
    using assms(4)
    by (auto simp: healthCheckInfoFromSDK_def health_check_from_spec_def positive_def positive_duration_def
        http_info_from_sdk_def split: option.splits if_splits)
  then have "\<not> servicesEqual (serviceInfoFromSDK v) (service_from_spec spec ids)"
    using assms(1,3) by (auto simp: services_equal_iff service_from_spec_def serviceInfoFromSDK_def)
  then show ?thesis using assms(2) by (simp add: ensure_service_def)
qed

section \<open>Witnesses\<close>

text \<open>A server whose only resource is a load balancer: its state is the services by port. It keeps an
  updated service as it is and makes a TCP service of whatever is added.\<close>

definition sample_check :: SdkHealthCheck where
  "sample_check = \<lparr> sdhc_Protocol = ''tcp'', sdhc_Port = 80, sdhc_Interval = 15000000000, sdhc_Timeout = 10000000000,
     sdhc_Retries = 3, sdhc_HTTP = None \<rparr>"

definition sample_service :: "int \<Rightarrow> SdkService" where
  "sample_service p = \<lparr> sdsv_Protocol = ''tcp'', sdsv_ListenPort = p, sdsv_DestinationPort = p, sdsv_Proxyprotocol = False,
     sdsv_Certificates = [], sdsv_HealthCheck = sample_check \<rparr>"

definition sample_lb :: "int list \<Rightarrow> SdkLoadBalancer" where
  "sample_lb ps = \<lparr> sdlb_ID = 1, sdlb_Name = ''lb'', sdlb_IPv4 = None, sdlb_IPv6 = None, sdlb_Targets = [],
     sdlb_Services = map sample_service ps \<rparr>"

definition lb_sdk :: "int list \<Rightarrow> (int \<Rightarrow> SdkService option) Sdk" where
  "lb_sdk ps = failing_sdk\<lparr>LoadBalancer_GetByID := \<lambda>i. ret (Some (sample_lb ps)),
     LoadBalancer_AddService := \<lambda>lb o'. modM (\<lambda>w. w(the (sdas_ListenPort o') \<mapsto> sample_service (the (sdas_ListenPort o')))),
     LoadBalancer_UpdateService := \<lambda>lb p u. ret (),
     LoadBalancer_DeleteService := \<lambda>lb p. modM (\<lambda>w. w(p := None))\<rparr>"

definition sample_want :: "int \<Rightarrow> LoadBalancerServiceInfo" where
  "sample_want p = \<lparr> svc_Protocol = ''tcp'', svc_ListenPort = p, svc_DestinationPort = p, svc_Proxyprotocol = False,
     svc_CertificateIDs = [], svc_HealthCheck = None \<rparr>"

lemma lb_sdk_law: "services_law (lb_sdk ps) (sample_lb ps) (\<lambda>w. w) (\<lambda>o'. sample_service (the (sdas_ListenPort o'))) (\<lambda>v u. v)"
  by (auto simp: services_law_def lb_sdk_def fun_upd_idem)


theorem services_settle_witness:
  "SyncLoadBalancerServices (real_client ([], []) (lb_sdk [80, 443])) 1 [sample_want 443, sample_want 80] Map.empty = (Ok (), Map.empty)"
  by (rule services_settle[where lb = "sample_lb [80, 443]"])
     (auto simp: lb_sdk_def sample_lb_def sample_service_def sample_want_def services_equal_iff serviceInfoFromSDK_def)

definition open_spec :: HCloudLoadBalancerServiceSpec where
  "open_spec = \<lparr> lss_ListenPort = 80, lss_DestinationPort = 80, lss_Protocol = ''tcp'', lss_Proxyprotocol = None,
     lss_HealthCheck = Some \<lparr> hcs_Protocol = ''tcp'', hcs_Port = Some 80, hcs_IntervalSeconds = None,
       hcs_TimeoutSeconds = Some 10, hcs_Retries = Some 3, hcs_HTTP = None \<rparr>, lss_CertificateRefs = [] \<rparr>"

theorem open_health_check_rewritten_witness:
  "ensure_service failing_sdk 1 (sample_lb [80]) [(80, serviceInfoFromSDK (sample_service 80))] (80, service_from_spec open_spec [])
   = wrapM (''hcloud: UpdateService('' @ fmt_d 1 @ '', '' @ fmt_d 80 @ '')'')
       (LoadBalancer_UpdateService failing_sdk (sample_lb [80]) 80 (updateServiceOptsFromInfo (service_from_spec open_spec [])))"
proof -
  have "lss_HealthCheck open_spec = Some \<lparr> hcs_Protocol = ''tcp'', hcs_Port = Some 80, hcs_IntervalSeconds = None,
       hcs_TimeoutSeconds = Some 10, hcs_Retries = Some 3, hcs_HTTP = None \<rparr>" by (simp add: open_spec_def)
  moreover have "map_of [(80::int, serviceInfoFromSDK (sample_service 80))] 80 = Some (serviceInfoFromSDK (sample_service 80))" by simp
  moreover have "sdsv_HealthCheck (sample_service 80) = sample_check" by (simp add: sample_service_def)
  ultimately show ?thesis by (rule open_health_check_rewritten) (simp add: sample_check_def)
qed

end
