(* ===== verification/WireProps.thy ===== *)
theory WireProps
  imports SampleSdk FirewallProps
begin

text \<open>
  Firewall rules over the wire: what comes back of rules that were sent, and for which rules the
  controller then sees what it wanted.
\<close>

section \<open>Addresses\<close>

text \<open>What the server reports for an address range that was sent: host bits cleared, printed anew.\<close>

definition wire_cidr :: "string \<Rightarrow> string" where
  "wire_cidr s = IPNet_String (the (ParseNet s))"

definition wire_rule :: "FirewallRuleInfo \<Rightarrow> FirewallRuleInfo" where
  "wire_rule r = r\<lparr>fwr_SourceIPs := sort (map wire_cidr (fwr_SourceIPs r)),
     fwr_DestinationIPs := sort (map wire_cidr (fwr_DestinationIPs r))\<rparr>"

definition rule_ips :: "FirewallRuleInfo \<Rightarrow> string list" where
  "rule_ips r = fwr_SourceIPs r @ fwr_DestinationIPs r"

definition is_ipv4_cidr :: "string \<Rightarrow> bool" where
  "is_ipv4_cidr s = (case ParseCIDR s of None \<Rightarrow> False | Some (ip, n) \<Rightarrow> length ip = 4)"

lemma cidrs_sent:
  "cidrs_to_sdk i which ss = Inr ns \<Longrightarrow> map IPNet_String ns = map wire_cidr ss"
  by (induction ss arbitrary: ns) (auto simp: wire_cidr_def split: option.splits sum.splits)

lemma rule_sent:
  assumes "rule_to_sdk i r = Inr sdk"
  shows "firewallRuleFromSDK sdk = wire_rule r"
  using assms cidrs_sent[of i "''source''" "fwr_SourceIPs r"] cidrs_sent[of i "''destination''" "fwr_DestinationIPs r"]
  by (auto simp: rule_to_sdk_def firewallRuleFromSDK_def wire_rule_def split: sum.splits)

lemma rules_sent: "indexed rule_to_sdk i rules = Inr sdk \<Longrightarrow> map firewallRuleFromSDK sdk = map wire_rule rules"
  by (induction rules arbitrary: i sdk) (auto dest: rule_sent split: sum.splits)


section \<open>Canonical IPv4 ranges\<close>

lemma parseIPv6_length: "parseIPv6 s = Some ip \<Longrightarrow> 16 \<le> length ip"
  by (auto simp: parseIPv6_def parseIPv6_finish_def Option.bind_eq_Some_conv split: if_splits option.splits)

lemma parseAddr_ipv4: "parseAddr s t = Some ip \<Longrightarrow> length ip = 4 \<Longrightarrow> list_all (\<lambda>b. b \<le> 255) ip"
proof (induction s t rule: parseAddr.induct)
  case (2 s c cs)
  then show ?case using parseIPv6_length[of s ip] parseIPv4_bytes[of s ip]
    by (auto simp: list_all_iff split: if_splits)
qed simp

lemma ParseCIDR_ipv4:
  assumes "ParseCIDR s = Some (ip, n)" and "length ip = 4"
  shows "list_all (\<lambda>b. b \<le> 255) ip" "n \<le> 32"
  using assms parseAddr_ipv4 by (auto simp: ParseCIDR_def Let_def split: if_splits option.splits)

lemma wire_ipv4:
  assumes "is_ipv4_cidr s"
  obtains ip n where "wire_cidr s = IPNet_String (ip, n)" "length ip = 4" "list_all (\<lambda>b. b \<le> 255) ip" "n \<le> 32"
    "mask_bytes n ip = ip"
proof -
  obtain ip n where s: "ParseCIDR s = Some (ip, n)" "length ip = 4"
    using assms by (auto simp: is_ipv4_cidr_def split: option.splits)
  then show thesis
    using that[of "mask_bytes n ip" n] ParseCIDR_ipv4[OF s] mask_bytes_bounds
    by (simp add: wire_cidr_def ParseNet_def)
qed

lemma wire_idem: "is_ipv4_cidr s \<Longrightarrow> wire_cidr (wire_cidr s) = wire_cidr s"
  by (elim wire_ipv4) (simp add: wire_cidr_def ParseNet_def ipv4_roundtrip)

lemma wire_plain: "is_ipv4_cidr s \<Longrightarrow> plain_ip (wire_cidr s)"
proof (elim wire_ipv4)
  fix ip n assume s: "wire_cidr s = IPNet_String (ip, n)" "length ip = 4"
  have "c \<in> set (IPNet_String (ip, n)) \<Longrightarrow> c = CHR ''.'' \<or> c = CHR ''/'' \<or> is_digit c" for c
    using s(2) digits_are by (auto simp: IPNet_String_def To4_def dotted_def dest!: join_chars)
  moreover have "\<not> is_digit (CHR '','')" "\<not> is_digit (char_of (0::nat))" "char_of (0::nat) \<noteq> CHR ''.''" "char_of (0::nat) \<noteq> CHR ''/''"
    by (simp_all add: is_digit_def char_of_def)
  moreover have "IPNet_String (ip, n) \<noteq> []" using s(2) by (simp add: IPNet_String_def To4_def)
  ultimately show "plain_ip (wire_cidr s)" unfolding plain_ip_def s(1) by fastforce
qed

section \<open>Which rules settle\<close>

definition meaning_ips :: "string \<times> string \<times> string \<times> string \<times> string multiset \<times> string multiset \<Rightarrow> string multiset" where
  "meaning_ips m = (case m of (_, _, _, _, a, b) \<Rightarrow> a + b)"

lemma meaning_ips_rule [simp]: "meaning_ips (rule_meaning r) = mset (rule_ips r)"
  by (simp add: meaning_ips_def rule_meaning_def rule_ips_def)

lemma wire_rule_ips: "mset (rule_ips (wire_rule r)) = image_mset wire_cidr (mset (rule_ips r))"
  by (simp add: rule_ips_def wire_rule_def)

lemma same_meaning_ips:
  assumes "mset (map rule_meaning rs) = mset (map rule_meaning ss)"
  shows "(\<Union>r \<in> set rs. set (rule_ips r)) = (\<Union>r \<in> set ss. set (rule_ips r))"
proof -
  have "set (map rule_meaning rs) = set (map rule_meaning ss)" using assms by (metis set_mset_mset)
  then have "(\<Union>m \<in> rule_meaning ` set rs. set_mset (meaning_ips m)) = (\<Union>m \<in> rule_meaning ` set ss. set_mset (meaning_ips m))"
    by simp
  then show ?thesis by simp
qed


section \<open>Witnesses\<close>

definition wire_sample :: "string \<Rightarrow> FirewallRuleInfo" where
  "wire_sample s = \<lparr> fwr_Direction = ''in'', fwr_Protocol = ''tcp'', fwr_Port = Some ''22'', fwr_SourceIPs = [s],
     fwr_DestinationIPs = [], fwr_Description = None \<rparr>"

lemma host_bits: "ParseCIDR ''10.0.0.1/8'' = Some ([10, 0, 0, 1], 8)" "wire_cidr ''10.0.0.1/8'' = ''10.0.0.0/8''"
  by (code_simp)+

lemma wire_sample_sent: "\<exists>sdk. firewallRuleInfosToSDK [wire_sample ''10.0.0.1/8''] = Inr sdk"
  using host_bits by (simp add: firewallRuleInfosToSDK_def rule_to_sdk_def wire_sample_def ParseNet_def)



end
