(* ===== verification/SdkStore.thy ===== *)
theory SdkStore
  imports RealClient2 CloudStore
begin

text \<open>
  The production client keeps the contract of CloudStore. The hypothesis is what the cloud API
  documents of each resource kind: a lookup does not change anything, names are unique within a
  kind, a create refuses a taken name and otherwise adds one resource of that name, a delete removes
  it. The lemmas of the contract then hold of the client that talks to the cloud.
\<close>

section \<open>The service\<close>

text \<open>What there is of one resource kind in the state of the service: the resources by
  identifier, the options it accepts, the resources it lets go, and whether it is up.\<close>

record ('w, 'r, 's) view =
  entries_of :: "'w \<Rightarrow> int64 \<Rightarrow> 'r option"
  valid :: "'s \<Rightarrow> bool"
  removable :: "'w \<Rightarrow> 'r \<Rightarrow> bool"
  up :: "'w \<Rightarrow> bool"

definition store_law :: "(int64 \<Rightarrow> ('w, 'r option) prog) \<Rightarrow> (string \<Rightarrow> ('w, 'r option) prog)
    \<Rightarrow> ('s \<Rightarrow> ('w, 'r) prog) \<Rightarrow> ('r \<Rightarrow> ('w, unit) prog) \<Rightarrow> ('r \<Rightarrow> int64) \<Rightarrow> ('r \<Rightarrow> string) \<Rightarrow> ('s \<Rightarrow> string)
    \<Rightarrow> ('w, 'r, 's) view \<Rightarrow> bool" where
  "store_law get byname create delete idof nm oname V \<longleftrightarrow>
     (\<forall>c i. up V c \<longrightarrow> get i c = (Ok (entries_of V c i), c))
     \<and> (\<forall>c n. up V c \<longrightarrow> (\<exists>r. byname n c = (Ok r, c) \<and>
         (case r of None \<Rightarrow> (\<forall>i x. entries_of V c i = Some x \<longrightarrow> nm x \<noteq> n)
          | Some x \<Rightarrow> nm x = n \<and> entries_of V c (idof x) = Some x)))
     \<and> (\<forall>c i x. up V c \<longrightarrow> entries_of V c i = Some x \<longrightarrow> idof x = i \<and> i \<noteq> 0)
     \<and> (\<forall>c i j x y. up V c \<longrightarrow> entries_of V c i = Some x \<longrightarrow> entries_of V c j = Some y \<longrightarrow> nm x = nm y \<longrightarrow> i = j)
     \<and> (\<forall>c s. up V c \<longrightarrow> valid V s \<longrightarrow> (\<forall>i x. entries_of V c i = Some x \<longrightarrow> nm x \<noteq> oname s) \<longrightarrow>
         (\<exists>x c'. create s c = (Ok x, c') \<and> up V c' \<and> nm x = oname s \<and> idof x \<noteq> 0
           \<and> entries_of V c (idof x) = None \<and> entries_of V c' = (entries_of V c)(idof x \<mapsto> x)))
     \<and> (\<forall>c s i x. up V c \<longrightarrow> valid V s \<longrightarrow> entries_of V c i = Some x \<longrightarrow> nm x = oname s \<longrightarrow>
         (\<exists>e. create s c = (Err e, c)))
     \<and> (\<forall>c i x. up V c \<longrightarrow> entries_of V c i = Some x \<longrightarrow> removable V c x \<longrightarrow>
         (\<exists>c'. delete x c = (Ok (), c') \<and> up V c' \<and> entries_of V c' = (entries_of V c)(i := None)))"

lemma store_lawD:
  assumes "store_law get byname create delete idof nm oname V" and "up V c"
  shows store_get: "get i c = (Ok (entries_of V c i), c)"
    and store_byname: "\<exists>r. byname n c = (Ok r, c) \<and>
         (case r of None \<Rightarrow> (\<forall>i x. entries_of V c i = Some x \<longrightarrow> nm x \<noteq> n)
          | Some x \<Rightarrow> nm x = n \<and> entries_of V c (idof x) = Some x)"
    and store_ids: "entries_of V c i = Some x \<Longrightarrow> idof x = i \<and> i \<noteq> 0"
    and store_unique: "entries_of V c i = Some x \<Longrightarrow> entries_of V c j = Some y \<Longrightarrow> nm x = nm y \<Longrightarrow> i = j"
    and store_create: "valid V s \<Longrightarrow> (\<And>i x. entries_of V c i = Some x \<Longrightarrow> nm x \<noteq> oname s) \<Longrightarrow>
         \<exists>x c'. create s c = (Ok x, c') \<and> up V c' \<and> nm x = oname s \<and> idof x \<noteq> 0
           \<and> entries_of V c (idof x) = None \<and> entries_of V c' = (entries_of V c)(idof x \<mapsto> x)"
    and store_taken: "valid V s \<Longrightarrow> entries_of V c i = Some x \<Longrightarrow> nm x = oname s \<Longrightarrow> \<exists>e. create s c = (Err e, c)"
    and store_delete: "entries_of V c i = Some x \<Longrightarrow> removable V c x \<Longrightarrow>
         \<exists>c'. delete x c = (Ok (), c') \<and> up V c' \<and> entries_of V c' = (entries_of V c)(i := None)"
proof -
  note L = assms(1)[unfolded store_law_def]
  show "get i c = (Ok (entries_of V c i), c)" using L[THEN conjunct1] assms(2) by simp
  show "\<exists>r. byname n c = (Ok r, c) \<and>
         (case r of None \<Rightarrow> (\<forall>i x. entries_of V c i = Some x \<longrightarrow> nm x \<noteq> n)
          | Some x \<Rightarrow> nm x = n \<and> entries_of V c (idof x) = Some x)"
    using L[THEN conjunct2, THEN conjunct1] assms(2) by simp
  show "entries_of V c i = Some x \<Longrightarrow> idof x = i \<and> i \<noteq> 0"
    using L[THEN conjunct2, THEN conjunct2, THEN conjunct1] assms(2) by simp
  show "entries_of V c i = Some x \<Longrightarrow> entries_of V c j = Some y \<Longrightarrow> nm x = nm y \<Longrightarrow> i = j"
    using L[THEN conjunct2, THEN conjunct2, THEN conjunct2, THEN conjunct1] assms(2) by blast
  show "valid V s \<Longrightarrow> (\<And>i x. entries_of V c i = Some x \<Longrightarrow> nm x \<noteq> oname s) \<Longrightarrow>
         \<exists>x c'. create s c = (Ok x, c') \<and> up V c' \<and> nm x = oname s \<and> idof x \<noteq> 0
           \<and> entries_of V c (idof x) = None \<and> entries_of V c' = (entries_of V c)(idof x \<mapsto> x)"
    using L[THEN conjunct2, THEN conjunct2, THEN conjunct2, THEN conjunct2, THEN conjunct1] assms(2) by simp
  show "valid V s \<Longrightarrow> entries_of V c i = Some x \<Longrightarrow> nm x = oname s \<Longrightarrow> \<exists>e. create s c = (Err e, c)"
    using L[THEN conjunct2, THEN conjunct2, THEN conjunct2, THEN conjunct2, THEN conjunct2, THEN conjunct1] assms(2) by blast
  show "entries_of V c i = Some x \<Longrightarrow> removable V c x \<Longrightarrow>
         \<exists>c'. delete x c = (Ok (), c') \<and> up V c' \<and> entries_of V c' = (entries_of V c)(i := None)"
    using L[THEN conjunct2, THEN conjunct2, THEN conjunct2, THEN conjunct2, THEN conjunct2, THEN conjunct2] assms(2) by blast
qed

text \<open>A resource that is gone, or that the service lets go.\<close>

definition lets_go :: "('w, 'r, 's) view \<Rightarrow> 'w \<Rightarrow> int64 \<Rightarrow> bool" where
  "lets_go V c i \<longleftrightarrow> (case entries_of V c i of None \<Rightarrow> True | Some r \<Rightarrow> removable V c r)"

text \<open>Options of the client that translate to a request the service accepts.\<close>

definition asks :: "('w, 'r, 's) view \<Rightarrow> ('o \<Rightarrow> 's option) \<Rightarrow> 'o \<Rightarrow> bool" where
  "asks V req opts \<longleftrightarrow> (case req opts of None \<Rightarrow> False | Some s \<Rightarrow> valid V s)"

text \<open>A lookup by name among what the account cannot change: types, images, locations, keys.\<close>

definition catalogue :: "(string \<Rightarrow> ('w, 'a option) prog) \<Rightarrow> (string \<Rightarrow> 'a option) \<Rightarrow> bool" where
  "catalogue get cat \<longleftrightarrow> (\<forall>n c. get n c = (Ok (cat n), c))"

section \<open>One resource kind of the client\<close>

lemma client_keeps_contract:
  assumes law: "store_law sget sbyname screate sdelete rid rname sname V"
    and get: "\<And>i. get i = bindM (wrapM (mg i) (sget i)) (\<lambda>r. ret (map_option conv r))"
    and byname: "\<And>n. byname n = bindM (wrapM (mn n) (sbyname n)) (\<lambda>r. ret (map_option conv r))"
    and conv: "\<And>r. idof (conv r) = rid r" "\<And>r. nm (conv r) = rname r"
    and create: "\<And>opts s c. req opts = Some s \<Longrightarrow> sname s = oname opts
      \<and> create opts c = bindM (wrapM (mc opts) (screate s)) (\<lambda>r. ret (conv r)) c"
    and delete: "\<And>c i. deletable c i \<Longrightarrow> lets_go V c i" "\<And>c i r. deletable c i \<Longrightarrow> entries_of V c i = Some r \<Longrightarrow> safe r"
      "\<And>c i r. sget i c = (Ok r, c) \<Longrightarrow> pred_option safe r \<Longrightarrow> delete i c = if_there r (\<lambda>r. wrapM (md i) (sdelete r)) c"
  shows "cloud_store get byname create delete (\<lambda>c i. map_option conv (entries_of V c i)) idof nm oname
    (asks V req) deletable (up V)"
proof (unfold_locales, goal_cases)
  case (1 c i)
  then show ?case using store_get[OF law 1] by (simp add: get)
next
  case (2 c n)
  obtain r where r: "sbyname n c = (Ok r, c)"
    "case r of None \<Rightarrow> (\<forall>i x. entries_of V c i = Some x \<longrightarrow> rname x \<noteq> n)
     | Some x \<Rightarrow> rname x = n \<and> entries_of V c (rid x) = Some x"
    using store_byname[OF law 2, of n] by blast
  then show ?case
  proof (cases r)
    case None
    then have "nm y \<noteq> n" if "map_option conv (entries_of V c i) = Some y" for i y
      using r(2) that None by (fastforce simp: conv)
    then show ?thesis using r(1) None by (intro exI[of _ None]) (simp add: byname)
  next
    case (Some x)
    then show ?thesis using r by (intro exI[of _ "Some (conv x)"]) (simp add: byname conv)
  qed
next
  case (3 c i x)
  then show ?case using store_ids[OF law 3(1)] by (auto simp: conv)
next
  case (4 c i x j y)
  then show ?case using store_unique[OF law 4(1)] by (auto simp: conv)
next
  case (5 c opts)
  obtain s where s: "valid V s" "sname s = oname opts"
    "create opts c = bindM (wrapM (mc opts) (screate s)) (\<lambda>r. ret (conv r)) c"
    using create 5(2) by (auto simp: asks_def split: option.splits)
  have "rname x \<noteq> sname s" if "entries_of V c i = Some x" for i x
    using 5(3)[of i "conv x"] that s(2) by (simp add: conv)
  then obtain x c' where x: "screate s c = (Ok x, c')" "up V c'" "rname x = sname s" "rid x \<noteq> 0"
    "entries_of V c (rid x) = None" "entries_of V c' = (entries_of V c)(rid x \<mapsto> x)"
    using store_create[OF law 5(1) s(1)] by blast
  then show ?case using s(2,3)
    by (intro exI[of _ "conv x"] exI[of _ c']) (auto simp: conv)
next
  case (6 c opts i x)
  obtain s where s: "valid V s" "sname s = oname opts"
    "create opts c = bindM (wrapM (mc opts) (screate s)) (\<lambda>r. ret (conv r)) c"
    using create 6(2) by (auto simp: asks_def split: option.splits)
  obtain r where "entries_of V c i = Some r" "rname r = sname s" using 6(3,4) s(2) by (auto simp: conv)
  then obtain e where "screate s c = (Err e, c)" using store_taken[OF law 6(1) s(1)] by blast
  then show ?case using s(3) by simp
next
  case (7 c i)
  note got = store_get[OF law 7(1), of i]
  show ?case
  proof (cases "entries_of V c i")
    case None
    then show ?thesis using 7(1) delete(3)[of i c None] got by (auto simp: if_there_def fun_eq_iff)
  next
    case (Some r)
    then have "removable V c r" using delete(1)[OF 7(2)] by (simp add: lets_go_def)
    then obtain c' where "sdelete r c = (Ok (), c')" "up V c'" "entries_of V c' = (entries_of V c)(i := None)"
      using store_delete[OF law 7(1) Some] by blast
    then show ?thesis using delete(3)[of i c "Some r"] delete(2)[OF 7(2) Some] got Some
      by (auto simp: if_there_def fun_eq_iff)
  qed
qed


section \<open>The nine kinds\<close>

record Catalogue =
  cat_types :: "string \<Rightarrow> SdkNamed option"
  cat_images :: "string \<Rightarrow> SdkNamed option"
  cat_locations :: "string \<Rightarrow> SdkNamed option"
  cat_keys :: "string \<Rightarrow> SdkNamed option"
  cat_balancers :: "string \<Rightarrow> SdkNamed option"

text \<open>The request the client makes for given options. A server that joins a placement group and a
  volume or address made at a server depend on what there is and are left out.\<close>

definition server_request :: "Catalogue \<Rightarrow> ServerCreateOpts \<Rightarrow> SdkServerCreateOpts option" where
  "server_request K opts =
     (case (cat_types K (sco_ServerType opts), cat_images K (sco_Image opts), cat_locations K (sco_Location opts)) of
        (Some t, Some i, Some l) \<Rightarrow> if sco_PlacementGroupID opts \<noteq> 0 then None else
          Some \<lparr> sdsc_Name = sco_Name opts, sdsc_ServerType = t, sdsc_Image = i, sdsc_Location = l,
            sdsc_Labels = sco_Labels opts, sdsc_SSHKeys = List.map_filter (cat_keys K) (sco_SSHKeys opts),
            sdsc_UserData = sco_UserData opts, sdsc_PlacementGroup = None \<rparr>
      | _ \<Rightarrow> None)"

definition volume_request :: "Catalogue \<Rightarrow> VolumeCreateOpts \<Rightarrow> SdkVolumeCreateOpts option" where
  "volume_request K opts = (case cat_locations K (vco_Location opts) of None \<Rightarrow> None
     | Some l \<Rightarrow> if 0 < vco_ServerID opts \<or> vco_Location opts = '''' then None else
         Some \<lparr> sdvc_Name = vco_Name opts, sdvc_Size = vco_Size opts, sdvc_Server = None, sdvc_Location = Some l,
           sdvc_Format = (if vco_Format opts \<noteq> '''' then Some (vco_Format opts) else None),
           sdvc_Automount = Some (vco_Automount opts), sdvc_Labels = vco_Labels opts \<rparr>)"

definition load_balancer_request :: "Catalogue \<Rightarrow> LoadBalancerCreateOpts \<Rightarrow> SdkLoadBalancerCreateOpts option" where
  "load_balancer_request K opts = (case cat_balancers K (lco_LoadBalancerType opts) of None \<Rightarrow> None
     | Some t \<Rightarrow> if lco_Location opts \<noteq> '''' \<and> cat_locations K (lco_Location opts) = None then None else
         Some \<lparr> sdlc_Name = lco_Name opts, sdlc_LoadBalancerType = t,
           sdlc_Algorithm = (if lco_Algorithm opts \<noteq> '''' then Some (lco_Algorithm opts) else None),
           sdlc_Location = (if lco_Location opts \<noteq> '''' then cat_locations K (lco_Location opts) else None),
           sdlc_NetworkZone = lco_NetworkZone opts, sdlc_Labels = lco_Labels opts \<rparr>)"

definition network_request :: "NetworkCreateOpts \<Rightarrow> SdkNetworkCreateOpts option" where
  "network_request opts = map_option (\<lambda>n. \<lparr> sdnc_Name = nco_Name opts, sdnc_IPRange = n, sdnc_Labels = nco_Labels opts,
     sdnc_ExposeRoutesToVSwitch = nco_ExposeRoutesToVSwitch opts \<rparr>) (ParseNet (nco_IPRange opts))"

definition firewall_request :: "FirewallCreateOpts \<Rightarrow> SdkFirewallCreateOpts option" where
  "firewall_request opts = (case (firewallRuleInfosToSDK (fco_Rules opts), firewallApplyResourcesToSDK (fco_ApplyTo opts)) of
       (Inr rs, Inr ts) \<Rightarrow> Some \<lparr> sdfc_Name = fco_Name opts, sdfc_Labels = fco_Labels opts, sdfc_Rules = rs, sdfc_ApplyTo = ts \<rparr>
     | _ \<Rightarrow> None)"

definition placement_group_request :: "PlacementGroupCreateOpts \<Rightarrow> SdkPlacementGroupCreateOpts option" where
  "placement_group_request opts = Some \<lparr> sdpc_Name = pco_Name opts, sdpc_Type = pco_Type opts, sdpc_Labels = pco_Labels opts \<rparr>"

definition floating_ip_request :: "Catalogue \<Rightarrow> FloatingIPCreateOpts \<Rightarrow> SdkFloatingIPCreateOpts option" where
  "floating_ip_request K opts = (case cat_locations K (fic_Location opts) of None \<Rightarrow> None
     | Some l \<Rightarrow> if fic_ServerID opts \<noteq> 0 then None else
         Some \<lparr> sdgc_Type = fic_Type opts, sdgc_HomeLocation = l, sdgc_Labels = fic_Labels opts, sdgc_Name = fic_Name opts,
           sdgc_Description = (if fic_Description opts \<noteq> '''' then Some (fic_Description opts) else None), sdgc_Server = None \<rparr>)"

definition certificate_request :: "CertificateCreateOpts \<Rightarrow> SdkCertificateCreateOpts option" where
  "certificate_request opts = Some \<lparr> sdcc_Name = cco_Name opts, sdcc_Type = cco_Type opts, sdcc_Labels = cco_Labels opts,
     sdcc_Certificate = cco_Certificate opts, sdcc_PrivateKey = cco_PrivateKey opts, sdcc_DomainNames = cco_DomainNames opts \<rparr>"

text \<open>What the service documents of itself.\<close>

record 'w Views =
  v_servers :: "('w, SdkServer, SdkServerCreateOpts) view"
  v_volumes :: "('w, SdkVolume, SdkVolumeCreateOpts) view"
  v_balancers :: "('w, SdkLoadBalancer, SdkLoadBalancerCreateOpts) view"
  v_networks :: "('w, SdkNetwork, SdkNetworkCreateOpts) view"
  v_firewalls :: "('w, SdkFirewall, SdkFirewallCreateOpts) view"
  v_groups :: "('w, SdkPlacementGroup, SdkPlacementGroupCreateOpts) view"
  v_primary_ips :: "('w, SdkPrimaryIP, SdkPrimaryIPCreateOpts) view"
  v_floating_ips :: "('w, SdkFloatingIP, SdkFloatingIPCreateOpts) view"
  v_certificates :: "('w, SdkCertificate, SdkCertificateCreateOpts) view"

definition sdk_law :: "'w Sdk \<Rightarrow> Catalogue \<Rightarrow> 'w Views \<Rightarrow> bool" where
  "sdk_law S K V \<longleftrightarrow>
     store_law (Server_GetByID S) (Server_GetByName S) (Server_Create S) (Server_DeleteWithResult S) sds_ID sds_Name sdsc_Name (v_servers V)
     \<and> store_law (Volume_GetByID S) (Volume_GetByName S) (Volume_Create S) (Volume_Delete S) sdv_ID sdv_Name sdvc_Name (v_volumes V)
     \<and> store_law (LoadBalancer_GetByID S) (LoadBalancer_GetByName S) (LoadBalancer_Create S) (LoadBalancer_Delete S)
         sdlb_ID sdlb_Name sdlc_Name (v_balancers V)
     \<and> store_law (Network_GetByID S) (Network_GetByName S) (Network_Create S) (Network_Delete S) sdnw_ID sdnw_Name sdnc_Name (v_networks V)
     \<and> store_law (Firewall_GetByID S) (Firewall_GetByName S) (Firewall_Create S) (Firewall_Delete S) sdfw_ID sdfw_Name sdfc_Name (v_firewalls V)
     \<and> store_law (PlacementGroup_GetByID S) (PlacementGroup_GetByName S) (PlacementGroup_Create S) (PlacementGroup_Delete S)
         sdpg_ID sdpg_Name sdpc_Name (v_groups V)
     \<and> store_law (PrimaryIP_GetByID S) (PrimaryIP_GetByName S) (PrimaryIP_Create S) (PrimaryIP_Delete S) sdpi_ID sdpi_Name sdic_Name (v_primary_ips V)
     \<and> store_law (FloatingIP_GetByID S) (FloatingIP_GetByName S) (FloatingIP_Create S) (FloatingIP_Delete S)
         sdfi_ID sdfi_Name sdgc_Name (v_floating_ips V)
     \<and> store_law (Certificate_GetByID S) (Certificate_GetByName S) (Certificate_CreateCertificate S) (Certificate_Delete S)
         sdc_ID sdc_Name sdcc_Name (v_certificates V)
     \<and> catalogue (ServerType_GetByName S) (cat_types K) \<and> catalogue (Image_GetByName S) (cat_images K)
     \<and> catalogue (Location_GetByName S) (cat_locations K) \<and> catalogue (SSHKey_GetByName S) (cat_keys K)
     \<and> catalogue (LoadBalancerType_GetByName S) (cat_balancers K)"


lemma sdk_lawD:
  assumes "sdk_law S K V"
  shows sdk_servers: "store_law (Server_GetByID S) (Server_GetByName S) (Server_Create S) (Server_DeleteWithResult S) sds_ID sds_Name sdsc_Name (v_servers V)"
    and sdk_volumes: "store_law (Volume_GetByID S) (Volume_GetByName S) (Volume_Create S) (Volume_Delete S) sdv_ID sdv_Name sdvc_Name (v_volumes V)"
    and sdk_balancers: "store_law (LoadBalancer_GetByID S) (LoadBalancer_GetByName S) (LoadBalancer_Create S) (LoadBalancer_Delete S)
         sdlb_ID sdlb_Name sdlc_Name (v_balancers V)"
    and sdk_networks: "store_law (Network_GetByID S) (Network_GetByName S) (Network_Create S) (Network_Delete S) sdnw_ID sdnw_Name sdnc_Name (v_networks V)"
    and sdk_firewalls: "store_law (Firewall_GetByID S) (Firewall_GetByName S) (Firewall_Create S) (Firewall_Delete S) sdfw_ID sdfw_Name sdfc_Name (v_firewalls V)"
    and sdk_groups: "store_law (PlacementGroup_GetByID S) (PlacementGroup_GetByName S) (PlacementGroup_Create S) (PlacementGroup_Delete S)
         sdpg_ID sdpg_Name sdpc_Name (v_groups V)"
    and sdk_primary_ips: "store_law (PrimaryIP_GetByID S) (PrimaryIP_GetByName S) (PrimaryIP_Create S) (PrimaryIP_Delete S) sdpi_ID sdpi_Name sdic_Name (v_primary_ips V)"
    and sdk_floating_ips: "store_law (FloatingIP_GetByID S) (FloatingIP_GetByName S) (FloatingIP_Create S) (FloatingIP_Delete S)
         sdfi_ID sdfi_Name sdgc_Name (v_floating_ips V)"
    and sdk_certificates: "store_law (Certificate_GetByID S) (Certificate_GetByName S) (Certificate_CreateCertificate S) (Certificate_Delete S)
         sdc_ID sdc_Name sdcc_Name (v_certificates V)"
    and sdk_catalogues: "catalogue (ServerType_GetByName S) (cat_types K)" "catalogue (Image_GetByName S) (cat_images K)"
      "catalogue (Location_GetByName S) (cat_locations K)" "catalogue (SSHKey_GetByName S) (cat_keys K)"
      "catalogue (LoadBalancerType_GetByName S) (cat_balancers K)"
  using assms by (simp_all add: sdk_law_def)

lemma resolved:
  assumes "catalogue get cat"
  shows "resolve what get n f c = (case cat n of None \<Rightarrow> (Err (Errorf (named what n @ '' not found'')), c) | Some x \<Rightarrow> f x c)"
  using assms by (simp add: resolve_def catalogue_def or_missing_def split: option.split)

text \<open>Keys of an unknown name are passed over without a word.\<close>

lemma keys_resolved:
  assumes "catalogue (SSHKey_GetByName S) cat"
  shows "ssh_keys S keys c = (Ok (List.map_filter cat keys), c)"
proof -
  have "foldM keys (\<lambda>acc key. bindM (wrapM (named ''resolve ssh key'' key) (SSHKey_GetByName S key))
      (\<lambda>k. ret (case k of None \<Rightarrow> acc | Some k \<Rightarrow> acc @ [k]))) acc c = (Ok (acc @ List.map_filter cat keys), c)" for acc
    using assms by (induction keys arbitrary: acc) (auto simp: catalogue_def map_filter_simps split: option.splits)
  then show ?thesis by (simp add: ssh_keys_def)
qed

end
