(* ===== verification/TableSdk.thy ===== *)
theory TableSdk
  imports SdkStore SampleSdk FakeStore
begin

text \<open>
  A service that does what the SDK documents, for the witnesses: one table per resource kind, and a
  catalogue that knows every name but the empty one.
\<close>

section \<open>A service made of tables\<close>

record tables =
  ts_next :: int64
  ts_servers :: "(int64, SdkServer) gomap"
  ts_volumes :: "(int64, SdkVolume) gomap"
  ts_balancers :: "(int64, SdkLoadBalancer) gomap"
  ts_networks :: "(int64, SdkNetwork) gomap"
  ts_firewalls :: "(int64, SdkFirewall) gomap"
  ts_groups :: "(int64, SdkPlacementGroup) gomap"
  ts_primary_ips :: "(int64, SdkPrimaryIP) gomap"
  ts_floating_ips :: "(int64, SdkFloatingIP) gomap"
  ts_certificates :: "(int64, SdkCertificate) gomap"

definition tab_get :: "(tables \<Rightarrow> (int64, 'r) gomap) \<Rightarrow> int64 \<Rightarrow> (tables, 'r option) prog" where
  "tab_get sel i c = (Ok (map_of (sel c) i), c)"

definition tab_byname :: "(tables \<Rightarrow> (int64, 'r) gomap) \<Rightarrow> ('r \<Rightarrow> string) \<Rightarrow> string \<Rightarrow> (tables, 'r option) prog" where
  "tab_byname sel nm n c = (Ok (find (\<lambda>r. nm r = n) (map snd (sel c))), c)"

definition tab_create :: "(tables \<Rightarrow> (int64, 'r) gomap) \<Rightarrow> (((int64, 'r) gomap \<Rightarrow> (int64, 'r) gomap) \<Rightarrow> tables \<Rightarrow> tables)
    \<Rightarrow> ('s \<Rightarrow> int64 \<Rightarrow> 'r) \<Rightarrow> ('r \<Rightarrow> string) \<Rightarrow> ('s \<Rightarrow> string) \<Rightarrow> 's \<Rightarrow> (tables, 'r) prog" where
  "tab_create sel upd build nm oname s c =
     (if list_ex (\<lambda>r. nm r = oname s) (map snd (sel c)) then (Err (APIError ''uniqueness_error'' ''name is already used'' ''name is already used''), c)
      else let r = build s (ts_next c) in (Ok r, ts_next_update (\<lambda>n. n + 1) (upd (AList.update (ts_next c) r) c)))"

definition tab_delete :: "(((int64, 'r) gomap \<Rightarrow> (int64, 'r) gomap) \<Rightarrow> tables \<Rightarrow> tables) \<Rightarrow> ('r \<Rightarrow> int64)
    \<Rightarrow> 'r \<Rightarrow> (tables, unit) prog" where
  "tab_delete upd idof r c = (Ok (), upd (AList.delete (idof r)) c)"

definition tab_view :: "(tables \<Rightarrow> (int64, 'r) gomap) \<Rightarrow> ('r \<Rightarrow> int64) \<Rightarrow> ('r \<Rightarrow> string) \<Rightarrow> (tables, 'r, 's) view" where
  "tab_view sel idof nm = \<lparr> entries_of = \<lambda>c. map_of (sel c), valid = \<lambda>_. True, removable = \<lambda>_ _. True,
     up = \<lambda>c. 1 \<le> ts_next c \<and> table_ok idof nm (sel c) (ts_next c) \<rparr>"

lemma tab_view_sel [simp]:
  "entries_of (tab_view sel idof nm) c = map_of (sel c)" "valid (tab_view sel idof nm) s"
  "removable (tab_view sel idof nm) c r" "up (tab_view sel idof nm) c \<longleftrightarrow> 1 \<le> ts_next c \<and> table_ok idof nm (sel c) (ts_next c)"
  by (simp_all add: tab_view_def)

lemma table_names:
  assumes "table_ok idof nm m n"
  shows "list_ex P (map snd m) \<longleftrightarrow> (\<exists>i x. map_of m i = Some x \<and> P x)"
proof -
  have "(i, x) \<in> set m \<longleftrightarrow> map_of m i = Some x" for i x using assms by (simp add: table_ok_def)
  then show ?thesis by (force simp: list_ex_iff)
qed

lemma find_named:
  assumes "table_ok idof nm m n"
  shows "case find (\<lambda>r. nm r = k) (map snd m) of None \<Rightarrow> (\<forall>i x. map_of m i = Some x \<longrightarrow> nm x \<noteq> k)
    | Some x \<Rightarrow> nm x = k \<and> map_of m (idof x) = Some x"
proof (cases "find (\<lambda>r. nm r = k) (map snd m)")
  case None
  then have "nm x \<noteq> k" if "map_of m i = Some x" for i x
    using map_of_SomeD[OF that] by (force simp: find_None_iff)
  then show ?thesis using None by simp
next
  case (Some x)
  then have "nm x = k" "x \<in> set (map snd m)" by (auto simp: find_Some_iff intro: nth_mem)
  then obtain i where "(i, x) \<in> set m" by auto
  then have "map_of m i = Some x" using assms by (simp add: table_ok_def)
  then show ?thesis using table_ok_lookup[OF assms] Some \<open>nm x = k\<close> by simp
qed

lemma table_law:
  assumes "\<And>f c. sel (upd f c) = f (sel c)" "\<And>f c. ts_next (upd f c) = ts_next c" "\<And>f c. sel (ts_next_update f c) = sel c"
    and "\<And>s i. idof (build s i) = i" "\<And>s i. nm (build s i) = oname s"
  shows "store_law (tab_get sel) (tab_byname sel nm) (tab_create sel upd build nm oname) (tab_delete upd idof)
    idof nm oname (tab_view sel idof nm)"
proof -
  have fresh: "\<exists>x c'. tab_create sel upd build nm oname s c = (Ok x, c') \<and> (1 \<le> ts_next c' \<and> table_ok idof nm (sel c') (ts_next c'))
      \<and> nm x = oname s \<and> idof x \<noteq> 0 \<and> map_of (sel c) (idof x) = None \<and> map_of (sel c') = (map_of (sel c))(idof x \<mapsto> x)"
    if "1 \<le> ts_next c" "table_ok idof nm (sel c) (ts_next c)" "\<forall>i x. map_of (sel c) i = Some x \<longrightarrow> nm x \<noteq> oname s" for c s
  proof -
    have mem: "(k, x) \<in> set (sel c) \<longleftrightarrow> map_of (sel c) k = Some x" for k x using that(2) by (simp add: table_ok_def)
    have "table_ok idof nm (AList.update (ts_next c) (build s (ts_next c)) (sel c)) (ts_next c + 1)"
      using that by (intro table_ok_insert) (auto simp: assms mem)
    then show ?thesis using that table_names[OF that(2), of "\<lambda>r. nm r = oname s"] table_ok_fresh[OF that(2)]
      by (auto simp: tab_create_def Let_def assms update_conv')
  qed
  show ?thesis unfolding store_law_def tab_view_sel
  proof (intro conjI allI impI, goal_cases)
    case (2 c n)
    then show ?case using find_named by (auto simp: tab_byname_def)
  next
    case (3 c i x)
    then show ?case using table_ok_lookup by fastforce
  next
    case (4 c i x)
    then show ?case using table_ok_lookup by fastforce
  next
    case (5 c i j x y)
    then show ?case using table_ok_names[of idof nm "sel c" "ts_next c" i x j y] by simp
  next
    case (6 c s)
    then show ?case using fresh by simp
  next
    case (7 c s i x)
    then have "list_ex (\<lambda>r. nm r = oname s) (map snd (sel c))" using table_names by fast
    then show ?case by (simp add: tab_create_def)
  next
    case (8 c i x)
    then have "idof x = i" using table_ok_lookup by fast
    then show ?case using 8 by (simp add: tab_delete_def assms delete_conv' table_ok_delete)
  qed (simp add: tab_get_def)
qed


text \<open>A resource as the service makes it of a request; what it chooses itself is left empty.\<close>

definition build_server :: "SdkServerCreateOpts \<Rightarrow> int64 \<Rightarrow> SdkServer" where
  "build_server s i = \<lparr> sds_ID = i, sds_Name = sdsc_Name s, sds_Status = ''running'', sds_ServerType = Some (sdsc_ServerType s),
     sds_IPv4 = None, sds_IPv6 = None, sds_PrivateNet = [], sds_PlacementGroup = sdsc_PlacementGroup s \<rparr>"

definition build_volume :: "SdkVolumeCreateOpts \<Rightarrow> int64 \<Rightarrow> SdkVolume" where
  "build_volume s i = \<lparr> sdv_ID = i, sdv_Name = sdvc_Name s, sdv_Size = sdvc_Size s, sdv_Status = ''available'',
     sdv_LinuxDevice = '''', sdv_Server = sdvc_Server s \<rparr>"

definition build_balancer :: "SdkLoadBalancerCreateOpts \<Rightarrow> int64 \<Rightarrow> SdkLoadBalancer" where
  "build_balancer s i = \<lparr> sdlb_ID = i, sdlb_Name = sdlc_Name s, sdlb_IPv4 = None, sdlb_IPv6 = None, sdlb_Targets = [], sdlb_Services = [] \<rparr>"

definition build_network :: "SdkNetworkCreateOpts \<Rightarrow> int64 \<Rightarrow> SdkNetwork" where
  "build_network s i = \<lparr> sdnw_ID = i, sdnw_Name = sdnc_Name s, sdnw_IPRange = Some (sdnc_IPRange s), sdnw_Subnets = [],
     sdnw_Labels = sdnc_Labels s, sdnw_ExposeRoutesToVSwitch = sdnc_ExposeRoutesToVSwitch s \<rparr>"

definition build_firewall :: "SdkFirewallCreateOpts \<Rightarrow> int64 \<Rightarrow> SdkFirewall" where
  "build_firewall s i = \<lparr> sdfw_ID = i, sdfw_Name = sdfc_Name s, sdfw_Labels = sdfc_Labels s, sdfw_Rules = sdfc_Rules s,
     sdfw_AppliedTo = sdfc_ApplyTo s \<rparr>"

definition build_group :: "SdkPlacementGroupCreateOpts \<Rightarrow> int64 \<Rightarrow> SdkPlacementGroup" where
  "build_group s i = \<lparr> sdpg_ID = i, sdpg_Name = sdpc_Name s, sdpg_Type = sdpc_Type s, sdpg_Labels = sdpc_Labels s \<rparr>"

definition build_primary_ip :: "SdkPrimaryIPCreateOpts \<Rightarrow> int64 \<Rightarrow> SdkPrimaryIP" where
  "build_primary_ip s i = \<lparr> sdpi_ID = i, sdpi_Name = sdic_Name s, sdpi_Type = sdic_Type s, sdpi_IP = None, sdpi_Network = None,
     sdpi_Datacenter = None, sdpi_Labels = sdic_Labels s, sdpi_AssigneeID = case_option 0 id (sdic_AssigneeID s),
     sdpi_AssigneeType = sdic_AssigneeType s, sdpi_AutoDelete = (sdic_AutoDelete s = Some True), sdpi_DNSPtr = [] \<rparr>"

definition build_floating_ip :: "SdkFloatingIPCreateOpts \<Rightarrow> int64 \<Rightarrow> SdkFloatingIP" where
  "build_floating_ip s i = \<lparr> sdfi_ID = i, sdfi_Name = sdgc_Name s, sdfi_Type = sdgc_Type s,
     sdfi_Description = case_option '''' id (sdgc_Description s), sdfi_IP = None, sdfi_Network = None,
     sdfi_HomeLocation = Some (sdgc_HomeLocation s), sdfi_Server = sdgc_Server s, sdfi_Labels = sdgc_Labels s, sdfi_DNSPtr = [] \<rparr>"

definition build_certificate :: "SdkCertificateCreateOpts \<Rightarrow> int64 \<Rightarrow> SdkCertificate" where
  "build_certificate s i = \<lparr> sdc_ID = i, sdc_Name = sdcc_Name s, sdc_Type = sdcc_Type s, sdc_Labels = sdcc_Labels s,
     sdc_DomainNames = sdcc_DomainNames s, sdc_Fingerprint = '''', sdc_NotValidBefore = None, sdc_NotValidAfter = None,
     sdc_Issuance = None \<rparr>"

definition any_named :: "string \<Rightarrow> SdkNamed option" where
  "any_named n = (if n = '''' then None else Some \<lparr> sdn_ID = 1, sdn_Name = n \<rparr>)"

definition any_catalogue :: Catalogue where
  "any_catalogue = \<lparr> cat_types = any_named, cat_images = any_named, cat_locations = any_named, cat_keys = any_named,
     cat_balancers = any_named \<rparr>"

definition table_sdk :: "tables Sdk" where
  "table_sdk = failing_sdk
     \<lparr> Server_GetByID := tab_get ts_servers, Server_GetByName := tab_byname ts_servers sds_Name,
       Server_Create := tab_create ts_servers ts_servers_update build_server sds_Name sdsc_Name,
       Server_DeleteWithResult := tab_delete ts_servers_update sds_ID,
       Volume_GetByID := tab_get ts_volumes, Volume_GetByName := tab_byname ts_volumes sdv_Name,
       Volume_Create := tab_create ts_volumes ts_volumes_update build_volume sdv_Name sdvc_Name,
       Volume_Delete := tab_delete ts_volumes_update sdv_ID,
       LoadBalancer_GetByID := tab_get ts_balancers, LoadBalancer_GetByName := tab_byname ts_balancers sdlb_Name,
       LoadBalancer_Create := tab_create ts_balancers ts_balancers_update build_balancer sdlb_Name sdlc_Name,
       LoadBalancer_Delete := tab_delete ts_balancers_update sdlb_ID,
       Network_GetByID := tab_get ts_networks, Network_GetByName := tab_byname ts_networks sdnw_Name,
       Network_Create := tab_create ts_networks ts_networks_update build_network sdnw_Name sdnc_Name,
       Network_Delete := tab_delete ts_networks_update sdnw_ID,
       Firewall_GetByID := tab_get ts_firewalls, Firewall_GetByName := tab_byname ts_firewalls sdfw_Name,
       Firewall_Create := tab_create ts_firewalls ts_firewalls_update build_firewall sdfw_Name sdfc_Name,
       Firewall_Delete := tab_delete ts_firewalls_update sdfw_ID,
       PlacementGroup_GetByID := tab_get ts_groups, PlacementGroup_GetByName := tab_byname ts_groups sdpg_Name,
       PlacementGroup_Create := tab_create ts_groups ts_groups_update build_group sdpg_Name sdpc_Name,
       PlacementGroup_Delete := tab_delete ts_groups_update sdpg_ID,
       PrimaryIP_GetByID := tab_get ts_primary_ips, PrimaryIP_GetByName := tab_byname ts_primary_ips sdpi_Name,
       PrimaryIP_Create := tab_create ts_primary_ips ts_primary_ips_update build_primary_ip sdpi_Name sdic_Name,
       PrimaryIP_Delete := tab_delete ts_primary_ips_update sdpi_ID,
       FloatingIP_GetByID := tab_get ts_floating_ips, FloatingIP_GetByName := tab_byname ts_floating_ips sdfi_Name,
       FloatingIP_Create := tab_create ts_floating_ips ts_floating_ips_update build_floating_ip sdfi_Name sdgc_Name,
       FloatingIP_Delete := tab_delete ts_floating_ips_update sdfi_ID,
       Certificate_GetByID := tab_get ts_certificates, Certificate_GetByName := tab_byname ts_certificates sdc_Name,
       Certificate_CreateCertificate := tab_create ts_certificates ts_certificates_update build_certificate sdc_Name sdcc_Name,
       Certificate_Delete := tab_delete ts_certificates_update sdc_ID,
       ServerType_GetByName := \<lambda>n. ret (any_named n), Image_GetByName := \<lambda>n. ret (any_named n),
       Location_GetByName := \<lambda>n. ret (any_named n), SSHKey_GetByName := \<lambda>n. ret (any_named n),
       LoadBalancerType_GetByName := \<lambda>n. ret (any_named n) \<rparr>"

definition table_views :: "tables Views" where
  "table_views = \<lparr> v_servers = tab_view ts_servers sds_ID sds_Name, v_volumes = tab_view ts_volumes sdv_ID sdv_Name,
     v_balancers = tab_view ts_balancers sdlb_ID sdlb_Name, v_networks = tab_view ts_networks sdnw_ID sdnw_Name,
     v_firewalls = tab_view ts_firewalls sdfw_ID sdfw_Name, v_groups = tab_view ts_groups sdpg_ID sdpg_Name,
     v_primary_ips = tab_view ts_primary_ips sdpi_ID sdpi_Name, v_floating_ips = tab_view ts_floating_ips sdfi_ID sdfi_Name,
     v_certificates = tab_view ts_certificates sdc_ID sdc_Name \<rparr>"

definition no_tables :: tables where
  "no_tables = \<lparr> ts_next = 1, ts_servers = [], ts_volumes = [], ts_balancers = [], ts_networks = [], ts_firewalls = [],
     ts_groups = [], ts_primary_ips = [], ts_floating_ips = [], ts_certificates = [] \<rparr>"

lemma table_sdk_law: "sdk_law table_sdk any_catalogue table_views"
  unfolding sdk_law_def table_sdk_def table_views_def any_catalogue_def failing_sdk_def Sdk.simps Views.simps Catalogue.simps
  by (intro conjI table_law) (simp_all add: catalogue_def build_server_def build_volume_def build_balancer_def build_network_def
      build_firewall_def build_group_def build_primary_ip_def build_floating_ip_def build_certificate_def)

end
