(* ===== verification/ClientStore.thy ===== *)
theory ClientStore
  imports TableSdk
begin

text \<open>
  The production client keeps the contract of the cloud store on each of its nine kinds, over any
  service that keeps the law of SdkStore.
\<close>

lemma server_store:
  assumes "sdk_law S K V"
  shows "cloud_store (client_GetServer S) (client_GetServerByName S) (client_CreateServer S) (client_DeleteServer S)
    (\<lambda>c i. map_option toServerInfo (entries_of (v_servers V) c i)) srv_ID srv_Name sco_Name
    (asks (v_servers V) (server_request K)) (lets_go (v_servers V)) (up (v_servers V))"
proof (rule client_keeps_contract[OF sdk_servers[OF assms], where safe = "\<lambda>_. True" and mc = "\<lambda>opts. named ''CreateServer'' (sco_Name opts)"])
  show "sdsc_Name s = sco_Name opts \<and> client_CreateServer S opts c =
      bindM (wrapM (named ''CreateServer'' (sco_Name opts)) (Server_Create S s)) (\<lambda>r. ret (toServerInfo r)) c"
    if "server_request K opts = Some s" for opts s c
    using that by (auto simp: server_request_def client_CreateServer_def placement_group_of_def
        resolved[OF sdk_catalogues(1)[OF assms]] resolved[OF sdk_catalogues(2)[OF assms]]
        resolved[OF sdk_catalogues(3)[OF assms]] keys_resolved[OF sdk_catalogues(4)[OF assms]]
        split: option.splits if_splits)
qed (auto simp: client_GetServer_def client_GetServerByName_def client_DeleteServer_def toServerInfo_def)

lemma volume_store:
  assumes "sdk_law S K V"
  shows "cloud_store (client_GetVolume S) (client_GetVolumeByName S) (client_CreateVolume S) (client_DeleteVolume S)
    (\<lambda>c i. map_option toVolumeInfo (entries_of (v_volumes V) c i)) vol_ID vol_Name vco_Name
    (asks (v_volumes V) (volume_request K)) (lets_go (v_volumes V)) (up (v_volumes V))"
proof (rule client_keeps_contract[OF sdk_volumes[OF assms], where safe = "\<lambda>_. True" and mc = "\<lambda>opts. named ''CreateVolume'' (vco_Name opts)"])
  show "sdvc_Name s = vco_Name opts \<and> client_CreateVolume S opts c =
      bindM (wrapM (named ''CreateVolume'' (vco_Name opts)) (Volume_Create S s)) (\<lambda>r. ret (toVolumeInfo r)) c"
    if "volume_request K opts = Some s" for opts s c
    using that by (auto simp: volume_request_def client_CreateVolume_def volume_place_def
        resolved[OF sdk_catalogues(3)[OF assms]] split: option.splits if_splits)
qed (auto simp: client_GetVolume_def client_GetVolumeByName_def client_DeleteVolume_def toVolumeInfo_def)

lemma load_balancer_store:
  assumes "sdk_law S K V"
  shows "cloud_store (client_GetLoadBalancer S) (client_GetLoadBalancerByName S) (client_CreateLoadBalancer S) (client_DeleteLoadBalancer S)
    (\<lambda>c i. map_option toLoadBalancerInfo (entries_of (v_balancers V) c i)) lb_ID lb_Name lco_Name
    (asks (v_balancers V) (load_balancer_request K)) (lets_go (v_balancers V)) (up (v_balancers V))"
proof (rule client_keeps_contract[OF sdk_balancers[OF assms], where safe = "\<lambda>_. True" and mc = "\<lambda>opts. named ''CreateLoadBalancer'' (lco_Name opts)"])
  show "sdlc_Name s = lco_Name opts \<and> client_CreateLoadBalancer S opts c =
      bindM (wrapM (named ''CreateLoadBalancer'' (lco_Name opts)) (LoadBalancer_Create S s)) (\<lambda>r. ret (toLoadBalancerInfo r)) c"
    if "load_balancer_request K opts = Some s" for opts s c
    using that by (auto simp: load_balancer_request_def client_CreateLoadBalancer_def Let_def
        resolved[OF sdk_catalogues(3)[OF assms]] resolved[OF sdk_catalogues(5)[OF assms]] split: option.splits if_splits)
qed (auto simp: client_GetLoadBalancer_def client_GetLoadBalancerByName_def client_DeleteLoadBalancer_def toLoadBalancerInfo_def)

lemma network_store:
  assumes "sdk_law S K V"
  shows "cloud_store (client_GetNetwork S) (client_GetNetworkByName S) (client_CreateNetwork S) (client_DeleteNetwork S)
    (\<lambda>c i. map_option toNetworkInfo (entries_of (v_networks V) c i)) net_ID net_Name nco_Name
    (asks (v_networks V) network_request) (lets_go (v_networks V)) (up (v_networks V))"
proof (rule client_keeps_contract[OF sdk_networks[OF assms], where safe = "\<lambda>_. True" and mc = "\<lambda>opts. named ''CreateNetwork'' (nco_Name opts)"])
  show "sdnc_Name s = nco_Name opts \<and> client_CreateNetwork S opts c =
      bindM (wrapM (named ''CreateNetwork'' (nco_Name opts)) (Network_Create S s)) (\<lambda>r. ret (toNetworkInfo r)) c"
    if "network_request opts = Some s" for opts s c
    using that by (auto simp: network_request_def client_CreateNetwork_def split: option.splits)
qed (auto simp: client_GetNetwork_def client_GetNetworkByName_def client_DeleteNetwork_def toNetworkInfo_def)

text \<open>Deleting a firewall that is applied somewhere takes two calls and is left out here.\<close>

definition applied_nowhere :: "SdkFirewall \<Rightarrow> bool" where
  "applied_nowhere f \<longleftrightarrow> fw_AppliedTo (firewallInfoFromSDK f) = []"

lemma firewall_store:
  assumes "sdk_law S K V"
  shows "cloud_store (client_GetFirewall S) (client_GetFirewallByName S) (client_CreateFirewall S) (client_DeleteFirewall S)
    (\<lambda>c i. map_option firewallInfoFromSDK (entries_of (v_firewalls V) c i)) fw_ID fw_Name fco_Name
    (asks (v_firewalls V) firewall_request)
    (\<lambda>c i. lets_go (v_firewalls V) c i \<and> pred_option applied_nowhere (entries_of (v_firewalls V) c i)) (up (v_firewalls V))"
proof (rule client_keeps_contract[OF sdk_firewalls[OF assms], where safe = applied_nowhere and mc = "\<lambda>opts. named ''CreateFirewall'' (fco_Name opts)"])
  show "sdfc_Name s = fco_Name opts \<and> client_CreateFirewall S opts c =
      bindM (wrapM (named ''CreateFirewall'' (fco_Name opts)) (Firewall_Create S s)) (\<lambda>r. ret (firewallInfoFromSDK r)) c"
    if "firewall_request opts = Some s" for opts s c
    using that by (auto simp: firewall_request_def client_CreateFirewall_def converted_def split: sum.splits)
  show "client_DeleteFirewall S i c = if_there r (\<lambda>r. wrapM (call1 ''DeleteFirewall'' i) (Firewall_Delete S r)) c"
    if "Firewall_GetByID S i c = (Ok r, c)" "pred_option applied_nowhere r" for i c r
    using that by (cases r) (auto simp: client_DeleteFirewall_def if_there_def applied_nowhere_def Let_def)
qed (auto simp: client_GetFirewall_def client_GetFirewallByName_def firewallInfoFromSDK_def)

lemma placement_group_sdk_store:
  assumes "sdk_law S K V"
  shows "cloud_store (client_GetPlacementGroup S) (client_GetPlacementGroupByName S) (client_CreatePlacementGroup S) (client_DeletePlacementGroup S)
    (\<lambda>c i. map_option toPlacementGroupInfo (entries_of (v_groups V) c i)) pg_ID pg_Name pco_Name
    (asks (v_groups V) placement_group_request) (lets_go (v_groups V)) (up (v_groups V))"
proof (rule client_keeps_contract[OF sdk_groups[OF assms], where safe = "\<lambda>_. True" and mc = "\<lambda>opts. named ''CreatePlacementGroup'' (pco_Name opts)"])
  show "sdpc_Name s = pco_Name opts \<and> client_CreatePlacementGroup S opts c =
      bindM (wrapM (named ''CreatePlacementGroup'' (pco_Name opts)) (PlacementGroup_Create S s)) (\<lambda>r. ret (toPlacementGroupInfo r)) c"
    if "placement_group_request opts = Some s" for opts s c
    using that by (auto simp: placement_group_request_def client_CreatePlacementGroup_def)
qed (auto simp: client_GetPlacementGroup_def client_GetPlacementGroupByName_def client_DeletePlacementGroup_def toPlacementGroupInfo_def)

lemma primary_ip_sdk_store:
  assumes "sdk_law S K V"
  shows "cloud_store (client_GetPrimaryIP S) (client_GetPrimaryIPByName S) (client_CreatePrimaryIP S) (client_DeletePrimaryIP S)
    (\<lambda>c i. map_option toPrimaryIPInfo (entries_of (v_primary_ips V) c i)) pip_ID pip_Name ipc_Name
    (asks (v_primary_ips V) (Some \<circ> primary_ip_create_opts)) (lets_go (v_primary_ips V)) (up (v_primary_ips V))"
proof (rule client_keeps_contract[OF sdk_primary_ips[OF assms], where safe = "\<lambda>_. True" and mc = "\<lambda>opts. named ''CreatePrimaryIP'' (ipc_Name opts)"])
  show "sdic_Name s = ipc_Name opts \<and> client_CreatePrimaryIP S opts c =
      bindM (wrapM (named ''CreatePrimaryIP'' (ipc_Name opts)) (PrimaryIP_Create S s)) (\<lambda>r. ret (toPrimaryIPInfo r)) c"
    if "(Some \<circ> primary_ip_create_opts) opts = Some s" for opts s c
    using that by (auto simp: primary_ip_create_opts_def client_CreatePrimaryIP_def)
qed (auto simp: client_GetPrimaryIP_def client_GetPrimaryIPByName_def client_DeletePrimaryIP_def toPrimaryIPInfo_def)

lemma floating_ip_sdk_store:
  assumes "sdk_law S K V"
  shows "cloud_store (client_GetFloatingIP S) (client_GetFloatingIPByName S) (client_CreateFloatingIP S) (client_DeleteFloatingIP S)
    (\<lambda>c i. map_option toFloatingIPInfo (entries_of (v_floating_ips V) c i)) fip_ID fip_Name fic_Name
    (asks (v_floating_ips V) (floating_ip_request K)) (lets_go (v_floating_ips V)) (up (v_floating_ips V))"
proof (rule client_keeps_contract[OF sdk_floating_ips[OF assms], where safe = "\<lambda>_. True" and mc = "\<lambda>opts. named ''CreateFloatingIP'' (fic_Name opts)"])
  show "sdgc_Name s = fic_Name opts \<and> client_CreateFloatingIP S opts c =
      bindM (wrapM (named ''CreateFloatingIP'' (fic_Name opts)) (FloatingIP_Create S s)) (\<lambda>r. ret (toFloatingIPInfo r)) c"
    if "floating_ip_request K opts = Some s" for opts s c
    using that by (auto simp: floating_ip_request_def client_CreateFloatingIP_def
        resolved[OF sdk_catalogues(3)[OF assms]] split: option.splits if_splits)
qed (auto simp: client_GetFloatingIP_def client_GetFloatingIPByName_def client_DeleteFloatingIP_def toFloatingIPInfo_def)

lemma certificate_sdk_store:
  assumes "sdk_law S K V"
  shows "cloud_store (client_GetCertificate S) (client_GetCertificateByName S) (client_CreateCertificate S) (client_DeleteCertificate S)
    (\<lambda>c i. map_option toCertificateInfo (entries_of (v_certificates V) c i)) crt_ID crt_Name cco_Name
    (asks (v_certificates V) certificate_request) (lets_go (v_certificates V)) (up (v_certificates V))"
proof (rule client_keeps_contract[OF sdk_certificates[OF assms], where safe = "\<lambda>_. True" and mc = "\<lambda>opts. named ''CreateCertificate'' (cco_Name opts)"])
  show "sdcc_Name s = cco_Name opts \<and> client_CreateCertificate S opts c =
      bindM (wrapM (named ''CreateCertificate'' (cco_Name opts)) (Certificate_CreateCertificate S s)) (\<lambda>r. ret (toCertificateInfo r)) c"
    if "certificate_request opts = Some s" for opts s c
    using that by (auto simp: certificate_request_def client_CreateCertificate_def)
qed (auto simp: client_GetCertificate_def client_GetCertificateByName_def client_DeleteCertificate_def toCertificateInfo_def)


text \<open>C37: The production client keeps the contract of the cloud store on each of the nine resource kinds,
  whenever the service behind the SDK does what its documentation says of that kind: lookups that
  find exactly what there is and change nothing, a create that adds one resource under a fresh
  identifier or refuses a taken name, an idempotent delete. The resources are those of the
  service as the conversions of the client show them.\<close>

theorem production_client_keeps_contract:
  assumes "sdk_law S K V"
  shows "cloud_store (GetServer (real_client ch S)) (GetServerByName (real_client ch S)) (CreateServer (real_client ch S))
      (DeleteServer (real_client ch S)) (\<lambda>c i. map_option toServerInfo (entries_of (v_servers V) c i)) srv_ID srv_Name sco_Name
      (asks (v_servers V) (server_request K)) (lets_go (v_servers V)) (up (v_servers V))
    \<and> cloud_store (GetVolume (real_client ch S)) (GetVolumeByName (real_client ch S)) (CreateVolume (real_client ch S))
      (DeleteVolume (real_client ch S)) (\<lambda>c i. map_option toVolumeInfo (entries_of (v_volumes V) c i)) vol_ID vol_Name vco_Name
      (asks (v_volumes V) (volume_request K)) (lets_go (v_volumes V)) (up (v_volumes V))
    \<and> cloud_store (GetLoadBalancer (real_client ch S)) (GetLoadBalancerByName (real_client ch S)) (CreateLoadBalancer (real_client ch S))
      (DeleteLoadBalancer (real_client ch S)) (\<lambda>c i. map_option toLoadBalancerInfo (entries_of (v_balancers V) c i)) lb_ID lb_Name lco_Name
      (asks (v_balancers V) (load_balancer_request K)) (lets_go (v_balancers V)) (up (v_balancers V))
    \<and> cloud_store (GetNetwork (real_client ch S)) (GetNetworkByName (real_client ch S)) (CreateNetwork (real_client ch S))
      (DeleteNetwork (real_client ch S)) (\<lambda>c i. map_option toNetworkInfo (entries_of (v_networks V) c i)) net_ID net_Name nco_Name
      (asks (v_networks V) network_request) (lets_go (v_networks V)) (up (v_networks V))
    \<and> cloud_store (GetFirewall (real_client ch S)) (GetFirewallByName (real_client ch S)) (CreateFirewall (real_client ch S))
      (DeleteFirewall (real_client ch S)) (\<lambda>c i. map_option firewallInfoFromSDK (entries_of (v_firewalls V) c i)) fw_ID fw_Name fco_Name
      (asks (v_firewalls V) firewall_request)
      (\<lambda>c i. lets_go (v_firewalls V) c i \<and> pred_option applied_nowhere (entries_of (v_firewalls V) c i)) (up (v_firewalls V))
    \<and> cloud_store (GetPlacementGroup (real_client ch S)) (GetPlacementGroupByName (real_client ch S)) (CreatePlacementGroup (real_client ch S))
      (DeletePlacementGroup (real_client ch S)) (\<lambda>c i. map_option toPlacementGroupInfo (entries_of (v_groups V) c i)) pg_ID pg_Name pco_Name
      (asks (v_groups V) placement_group_request) (lets_go (v_groups V)) (up (v_groups V))
    \<and> cloud_store (GetPrimaryIP (real_client ch S)) (GetPrimaryIPByName (real_client ch S)) (CreatePrimaryIP (real_client ch S))
      (DeletePrimaryIP (real_client ch S)) (\<lambda>c i. map_option toPrimaryIPInfo (entries_of (v_primary_ips V) c i)) pip_ID pip_Name ipc_Name
      (asks (v_primary_ips V) (Some \<circ> primary_ip_create_opts)) (lets_go (v_primary_ips V)) (up (v_primary_ips V))
    \<and> cloud_store (GetFloatingIP (real_client ch S)) (GetFloatingIPByName (real_client ch S)) (CreateFloatingIP (real_client ch S))
      (DeleteFloatingIP (real_client ch S)) (\<lambda>c i. map_option toFloatingIPInfo (entries_of (v_floating_ips V) c i)) fip_ID fip_Name fic_Name
      (asks (v_floating_ips V) (floating_ip_request K)) (lets_go (v_floating_ips V)) (up (v_floating_ips V))
    \<and> cloud_store (GetCertificate (real_client ch S)) (GetCertificateByName (real_client ch S)) (CreateCertificate (real_client ch S))
      (DeleteCertificate (real_client ch S)) (\<lambda>c i. map_option toCertificateInfo (entries_of (v_certificates V) c i)) crt_ID crt_Name cco_Name
      (asks (v_certificates V) certificate_request) (lets_go (v_certificates V)) (up (v_certificates V))"
  unfolding real_client_def Interface.simps
  using server_store[OF assms] volume_store[OF assms] load_balancer_store[OF assms] network_store[OF assms] firewall_store[OF assms]
    placement_group_sdk_store[OF assms] primary_ip_sdk_store[OF assms] floating_ip_sdk_store[OF assms] certificate_sdk_store[OF assms]
  by (intro conjI)

theorem production_client_keeps_contract_witness:
  "cloud_store (GetServer (real_client ([], []) table_sdk)) (GetServerByName (real_client ([], []) table_sdk))
     (CreateServer (real_client ([], []) table_sdk)) (DeleteServer (real_client ([], []) table_sdk))
     (\<lambda>c i. map_option toServerInfo (map_of (ts_servers c) i)) srv_ID srv_Name sco_Name
     (asks (v_servers table_views) (server_request any_catalogue)) (lets_go (v_servers table_views)) (up (v_servers table_views))
   \<and> up (v_servers table_views) no_tables"
  using production_client_keeps_contract[OF table_sdk_law, of "([], [])"]
  by (simp add: table_views_def no_tables_def)

end
