(* ===== verification/ClientProps.thy ===== *)
theory ClientProps
  imports ClientStore DeletionProps
begin

text \<open>
  What the controllers and the production client do together over a service: a create that is
  repeated after a lost status adopts the resource, cleanups that can never succeed, the
  order of the lookups of a server's create, the detach before a firewall is deleted.
\<close>

section \<open>Creating once\<close>

context cloud_store begin

text \<open>Find-or-create with the same identifier and name finds what the first call returned.\<close>

lemma find_or_create_again:
  assumes "ready c" and "acceptable opts" and "oname opts = name"
    and first: "find_or_create get byname create what cw sid name opts c = (Ok x, c')"
  shows "find_or_create get byname create what cw sid name opts c' = (Ok x, c')"
proof -
  have x: "ready c'" "entries c' (idof x) = Some x" "entries c' = entries c \<or> (entries c (idof x) = None \<and> nm x = name
      \<and> entries c' = (entries c)(idof x \<mapsto> x) \<and> (\<forall>i y. entries c i = Some y \<longrightarrow> nm y \<noteq> name))"
    using find_or_create_ok[OF assms(1-3), of what cw sid] first by auto
  show ?thesis
  proof (cases "sid \<noteq> 0 \<and> entries c sid \<noteq> None")
    case True
    then obtain y where "entries c sid = Some y" by blast
    then show ?thesis using first find_by_id[OF assms(1) _ \<open>entries c sid = Some y\<close>, of what name] True
      by (simp add: find_or_create_def)
  next
    case False
    then have lookup: "find_existing get byname what sid name c = byname name c" using find_by_name[OF assms(1)] by blast
    obtain r where r: "byname name c = (Ok r, c)" using byname_ok[OF assms(1)] by blast
    show ?thesis
    proof (cases r)
      case (Some y)
      then show ?thesis using first lookup r by (simp add: find_or_create_def)
    next
      case None
      then have "\<forall>i y. entries c i = Some y \<longrightarrow> nm y \<noteq> name" using byname_ok[OF assms(1), of name] r by auto
      then obtain y d where y: "create opts c = (Ok y, d)" "nm y = name" "entries d = (entries c)(idof y \<mapsto> y)"
        using create_new[OF assms(1,2)] assms(3) by metis
      then have xy: "y = x" "d = c'" using first lookup r None by (simp_all add: find_or_create_def)
      show ?thesis
      proof (cases "sid = idof x \<and> sid \<noteq> 0")
        case True
        then show ?thesis using find_by_id[OF x(1) _ x(2), of what name] by (simp add: find_or_create_def)
      next
        case 2: False
        then have "sid = 0 \<or> entries c' sid = None" using False y(3) xy by auto
        then have "find_existing get byname what sid name c' = byname name c'" by (rule find_by_name[OF x(1)])
        moreover have "find_or_create get byname create what cw 0 name opts c' = (Ok x, c')"
          using find_or_create_adopts[OF x(1,2)] y(2) xy by blast
        ultimately show ?thesis using find_by_name[OF x(1), of 0 what name] by (simp add: find_or_create_def bindM_run)
      qed
    qed
  qed
qed

end

text \<open>The placement group controller is find-or-create, and a status that takes the identifier.\<close>

lemma placement_run:
  assumes "find_or_create (GetPlacementGroup H) (GetPlacementGroupByName H) (CreatePlacementGroup H) ''placement group''
      ''create Hetzner placement group'' (pgs_PlacementGroupID (Status (obj s))) (Name (obj s)) (placement_opts (obj s)) (cloud s)
    = (Ok g, c')"
  obtains s1 where "placement_Reconcile L H s = (Ok (after requeueDelay), s1)" and "cloud s1 = c'" and "kube s1 = kube s"
    and "pgs_PlacementGroupID (Status (obj s1)) = pg_ID g"
  using assms
  by (auto simp: placement_Reconcile_def reconcileHCloudPlacementGroup_def find_or_create_def onCloud_find bindM_run wrapM_run
      onCloud_run split: prod.splits res.splits option.splits)

text \<open>The groups of the service as the client shows them.\<close>

definition groups_of :: "'w Views \<Rightarrow> 'w \<Rightarrow> int64 \<Rightarrow> PlacementGroupInfo option" where
  "groups_of V c i = map_option toPlacementGroupInfo (entries_of (v_groups V) c i)"

text \<open>C38: The placement group controller on the production client makes at most one group: a reconcile
  ends with a group whose identifier the status takes, a new one only if no group had the object's
  name; and if the status is lost, for instance because the operator crashed before it was
  written, the next reconcile of the same object finds the same group and writes nothing to the
  cloud.\<close>

theorem placement_group_created_once:
  assumes "sdk_law S K V" and "up (v_groups V) (cloud s)"
    and "asks (v_groups V) placement_group_request (placement_opts (obj s))"
  shows "\<exists>s1 g. placement_Reconcile L (real_client ch S) s = (Ok (after requeueDelay), s1)
    \<and> groups_of V (cloud s1) (pg_ID g) = Some g \<and> pgs_PlacementGroupID (Status (obj s1)) = pg_ID g
    \<and> (groups_of V (cloud s1) = groups_of V (cloud s)
      \<or> (\<forall>i h. groups_of V (cloud s) i = Some h \<longrightarrow> pg_Name h \<noteq> Name (obj s)) \<and> pg_Name g = Name (obj s)
        \<and> groups_of V (cloud s1) = (groups_of V (cloud s))(pg_ID g \<mapsto> g))
    \<and> (\<forall>t. cloud t = cloud s1 \<and> obj t = obj s \<longrightarrow>
      (\<exists>t1. placement_Reconcile L (real_client ch S) t = (Ok (after requeueDelay), t1) \<and> cloud t1 = cloud t
        \<and> pgs_PlacementGroupID (Status (obj t1)) = pg_ID g))"
proof -
  let ?H = "real_client ch S" and ?o = "placement_opts (obj s)"
  let ?run = "find_or_create (GetPlacementGroup ?H) (GetPlacementGroupByName ?H) (CreatePlacementGroup ?H) ''placement group''
      ''create Hetzner placement group'' (pgs_PlacementGroupID (Status (obj s))) (Name (obj s)) ?o"
  have store: "cloud_store (GetPlacementGroup ?H) (GetPlacementGroupByName ?H) (CreatePlacementGroup ?H) (DeletePlacementGroup ?H)
      (groups_of V) pg_ID pg_Name pco_Name (asks (v_groups V) placement_group_request) (lets_go (v_groups V)) (up (v_groups V))"
    using placement_group_sdk_store[OF assms(1)] by (simp add: real_client_def groups_of_def [abs_def])
  have name: "pco_Name ?o = Name (obj s)" by (simp add: placement_opts_def)
  obtain g c' where g: "?run (cloud s) = (Ok g, c')" "up (v_groups V) c'" "groups_of V c' (pg_ID g) = Some g"
    and new: "groups_of V c' = groups_of V (cloud s)
      \<or> groups_of V (cloud s) (pg_ID g) = None \<and> pg_Name g = Name (obj s) \<and> groups_of V c' = (groups_of V (cloud s))(pg_ID g \<mapsto> g)
        \<and> (\<forall>i y. groups_of V (cloud s) i = Some y \<longrightarrow> pg_Name y \<noteq> Name (obj s))"
    by (rule cloud_store.find_or_create_ok[OF store assms(2,3) name])
  have again: "?run c' = (Ok g, c')" using cloud_store.find_or_create_again[OF store assms(2,3) name g(1)] .
  obtain s1 where s1: "placement_Reconcile L ?H s = (Ok (after requeueDelay), s1)" "cloud s1 = c'"
      "pgs_PlacementGroupID (Status (obj s1)) = pg_ID g"
    using placement_run[OF g(1)] by metis
  have lost: "\<exists>t1. placement_Reconcile L ?H t = (Ok (after requeueDelay), t1) \<and> cloud t1 = cloud t
      \<and> pgs_PlacementGroupID (Status (obj t1)) = pg_ID g" if "cloud t = cloud s1 \<and> obj t = obj s" for t
    using placement_run[of ?H t g c'] again that s1(2) by metis
  show ?thesis using s1 g(3) new lost by blast
qed


section \<open>Cleanups that never succeed\<close>


text \<open>Nor does deletion of an address that is gone: the cleanups of primary and of floating IPs
  unassign first, whatever the status says, and fail on the missing address.\<close>

theorem lost_addresses_stay:
  assumes "finalizers_law L" and "api_law nf cf store (KPrimaryIPs K)" and "store (kube s) req = Some x"
    and "DeletionTimestamp x \<noteq> None" and "''infra.hkc.io/primaryip-finalizer'' \<in> set (Finalizers x)"
    and "PrimaryIP_GetByID S (pis_PrimaryIPID (Status x)) (cloud s) = (Ok None, cloud s)" and "pis_PrimaryIPID (Status x) \<noteq> 0"
    and "finalizers_law M" and "api_law nf' cf' store' (KFloatingIPs K)" and "store' (kube t) req' = Some y"
    and "DeletionTimestamp y \<noteq> None" and "''infra.hkc.io/floatingip-finalizer'' \<in> set (Finalizers y)"
    and "FloatingIP_GetByID S (fis_FloatingIPID (Status y)) (cloud t) = (Ok None, cloud t)" and "fis_FloatingIPID (Status y) \<noteq> 0"
  shows "kube (((\<lambda>t. snd (base_Reconcile L (KPrimaryIPs K) recorder (HCloudPrimaryIPReconciler L K (real_client ch S)) req t)) ^^ n) s) = kube s
    \<and> kube (((\<lambda>t. snd (base_Reconcile M (KFloatingIPs K) recorder (HCloudFloatingIPReconciler M K (real_client ch S)) req' t)) ^^ n) t) = kube t"
proof -
  have "\<exists>e. Delete (HCloudPrimaryIPReconciler L K (real_client ch S)) u = (Err e, u)"
    if "cloud u = cloud s" "kube u = kube s" "obj u = x" for u
    using assms(6,7) that
    by (simp add: primary_ip_Delete_def real_client_def client_UnassignPrimaryIP_def or_missing_def bindM_run wrapM_run onCloud_run)
  moreover have "\<exists>e. Delete (HCloudFloatingIPReconciler M K (real_client ch S)) u = (Err e, u)"
    if "cloud u = cloud t" "kube u = kube t" "obj u = y" for u
    using assms(13,14) that
    by (simp add: floating_ip_Delete_def real_client_def client_UnassignFloatingIP_def or_missing_def bindM_run wrapM_run onCloud_run)
  ultimately show ?thesis
    using deletion_repeats[OF assms(1-4), where R = "HCloudPrimaryIPReconciler L K (real_client ch S)"]
      deletion_repeats[OF assms(8-11), where R = "HCloudFloatingIPReconciler M K (real_client ch S)"] assms(5,12)
    by simp
qed

section \<open>Creating a server\<close>

text \<open>Creating a server looks up its type, image and location in this order and stops at the first
  that is unknown, then the placement group, and only then asks the service for the server, once,
  with the SSH keys it knows: a key of an unknown name is left out without an error.\<close>

theorem server_creation_branches:
  assumes "catalogue (ServerType_GetByName S) (cat_types K)" and "catalogue (Image_GetByName S) (cat_images K)"
    and "catalogue (Location_GetByName S) (cat_locations K)" and "catalogue (SSHKey_GetByName S) (cat_keys K)"
    and "PlacementGroup_GetByID S (sco_PlacementGroupID opts) w = (Ok pg, w)"
  shows "CreateServer (real_client ch S) opts w =
    (case cat_types K (sco_ServerType opts) of
       None \<Rightarrow> (Err (Errorf (''hcloud: server type '' @ fmt_q (sco_ServerType opts) @ '' not found'')), w)
     | Some ty \<Rightarrow> case cat_images K (sco_Image opts) of
       None \<Rightarrow> (Err (Errorf (''hcloud: image '' @ fmt_q (sco_Image opts) @ '' not found'')), w)
     | Some im \<Rightarrow> case cat_locations K (sco_Location opts) of
       None \<Rightarrow> (Err (Errorf (''hcloud: location '' @ fmt_q (sco_Location opts) @ '' not found'')), w)
     | Some lo \<Rightarrow> if sco_PlacementGroupID opts \<noteq> 0 \<and> pg = None
       then (Err (Errorf (''hcloud: placement group '' @ fmt_d (sco_PlacementGroupID opts) @ '' not found'')), w)
       else bindM (wrapM (''hcloud: CreateServer '' @ fmt_q (sco_Name opts)) (Server_Create S
         \<lparr> sdsc_Name = sco_Name opts, sdsc_ServerType = ty, sdsc_Image = im, sdsc_Location = lo,
           sdsc_Labels = sco_Labels opts, sdsc_SSHKeys = List.map_filter (cat_keys K) (sco_SSHKeys opts),
           sdsc_UserData = sco_UserData opts,
           sdsc_PlacementGroup = (if sco_PlacementGroupID opts = 0 then None else pg) \<rparr>)) (\<lambda>s. ret (toServerInfo s)) w)"
  using assms(5)
  by (cases "sco_PlacementGroupID opts = 0"; cases pg)
    (simp_all add: real_client_def client_CreateServer_def resolved[OF assms(1)] resolved[OF assms(2)] resolved[OF assms(3)]
      keys_resolved[OF assms(4)] placement_group_of_def or_missing_def named_def numbered_def split: option.split)

section \<open>Deleting a firewall\<close>

lemma removed_iff: "IsFirewallAlreadyRemoved e \<longleftrightarrow> map_option fst (AsAPIError e) = Some ''firewall_already_removed''"
  by (auto simp: IsFirewallAlreadyRemoved_def split: option.split)

text \<open>C40: A firewall that is applied somewhere is first removed from there; it is deleted only if that
  succeeds or fails with the code for ``already removed'', and any other error of the removal is
  returned with the firewall still there.\<close>

theorem firewall_detached_first:
  assumes "Firewall_GetByID S i w = (Ok (Some f), w)" and "fw_AppliedTo (firewallInfoFromSDK f) \<noteq> []"
    and "firewallApplyResourcesToSDK (fw_AppliedTo (firewallInfoFromSDK f)) = Inr ts"
  shows "DeleteFirewall (real_client ch S) i w = (case Firewall_RemoveResources S f ts w of
      (Ok _, w1) \<Rightarrow> wrapM (''hcloud: DeleteFirewall('' @ fmt_d i @ '')'') (Firewall_Delete S f) w1
    | (Err e, w1) \<Rightarrow> if map_option fst (AsAPIError e) = Some ''firewall_already_removed''
        then wrapM (''hcloud: DeleteFirewall('' @ fmt_d i @ '')'') (Firewall_Delete S f) w1
        else (Err (Wrapf (''hcloud: detach firewall '' @ fmt_d i @ '' before delete'')
          (Wrapf (''hcloud: RemoveFirewallResources('' @ fmt_d i @ '')'') e)), w1)
    | (Panic p, w1) \<Rightarrow> (Panic p, w1))"
proof -
  obtain r w1 where r: "Firewall_RemoveResources S f ts w = (r, w1)" by force
  then have "DeleteFirewall (real_client ch S) i w = (case r of Ok _ \<Rightarrow> wrapM (call1 ''DeleteFirewall'' i) (Firewall_Delete S f) w1
    | Err e \<Rightarrow> if IsFirewallAlreadyRemoved e then wrapM (call1 ''DeleteFirewall'' i) (Firewall_Delete S f) w1
        else (Err (Wrapf (numbered ''detach firewall'' i @ '' before delete'') (Wrapf (call1 ''RemoveFirewallResources'' i) e)), w1)
    | Panic p \<Rightarrow> (Panic p, w1))"
    using assms
    by (cases r) (simp_all add: real_client_def client_DeleteFirewall_def client_RemoveFirewallResources_def if_there_def
      or_missing_def converted_def bindM_run tryM_run wrapM_run Let_def)
  then show ?thesis using r by (simp add: call1_def numbered_def removed_iff split: res.split)
qed


section \<open>Witnesses\<close>

definition group_object :: HCloudPlacementGroup where
  "group_object = NewHCloudPlacementGroup\<lparr>Name := ''spread''\<rparr>"

definition tables_world :: "'o \<Rightarrow> (tables, apistate, 'o) rst" where
  "tables_world x = \<lparr> cloud = no_tables, kube = no_objects, obj = x, events = [], metrics = [] \<rparr>"

lemma tables_world_sel [simp]: "cloud (tables_world x) = no_tables" "obj (tables_world x) = x"
  by (simp_all add: tables_world_def)

theorem placement_group_created_once_witness:
  "\<exists>s1. placement_Reconcile sample_lib (real_client ([], []) table_sdk) (tables_world group_object) = (Ok (after requeueDelay), s1)
    \<and> groups_of table_views (cloud s1) (pgs_PlacementGroupID (Status (obj s1))) \<noteq> None"
proof -
  have "up (v_groups table_views) (cloud (tables_world group_object))"
    "asks (v_groups table_views) placement_group_request (placement_opts (obj (tables_world group_object)))"
    by (simp_all add: table_views_def no_tables_def asks_def placement_group_request_def)
  from placement_group_created_once[OF table_sdk_law this, of sample_lib "([], [])"] show ?thesis by auto
qed

text \<open>An SDK for which nothing exists.\<close>

definition empty_sdk :: "FakeClient Sdk" where
  "empty_sdk = failing_sdk\<lparr>Volume_GetByID := \<lambda>_. ret None, PrimaryIP_GetByID := \<lambda>_. ret None, FloatingIP_GetByID := \<lambda>_. ret None\<rparr>"


theorem lost_addresses_stay_witness:
  "mem_find (st_PrimaryIPs (kube (((\<lambda>t. snd (base_Reconcile sample_lib (KPrimaryIPs sample_api) True
       (HCloudPrimaryIPReconciler sample_lib sample_api (real_client ([], []) empty_sdk)) (cluster_key ''ip'') t)) ^^ 4)
       (primary_ip_world NewFakeClient doomed_primary_ip)))) (cluster_key ''ip'') = Some doomed_primary_ip"
proof -
  have "kube (((\<lambda>t. snd (base_Reconcile sample_lib (KPrimaryIPs sample_api) True
       (HCloudPrimaryIPReconciler sample_lib sample_api (real_client ([], []) empty_sdk)) (cluster_key ''ip'') t)) ^^ 4)
       (primary_ip_world NewFakeClient doomed_primary_ip)) = kube (primary_ip_world NewFakeClient doomed_primary_ip)"
    using lost_addresses_stay[OF sample_lib_ok(3) sample_laws(7) doomed_ip_stored(1)[of NewFakeClient] _ _ _ _
        sample_lib_ok(3) sample_laws(8) doomed_ip_stored(2)[of NewFakeClient],
        where recorder = True and ch = "([], [])" and n = 4 and S = empty_sdk]
    by (simp add: empty_sdk_def doomed_primary_ip_def doomed_floating_ip_def del: funpow.simps)
  then show ?thesis using doomed_ip_stored(1) by simp
qed

definition key_catalogue :: Catalogue where
  "key_catalogue = any_catalogue\<lparr>cat_keys := \<lambda>n. if n = ''ops'' then Some \<lparr> sdn_ID = 5, sdn_Name = n \<rparr> else None\<rparr>"

definition key_sdk :: "tables Sdk" where
  "key_sdk = table_sdk\<lparr>SSHKey_GetByName := \<lambda>n. ret (cat_keys key_catalogue n)\<rparr>"

definition server_wish :: ServerCreateOpts where
  "server_wish = \<lparr> sco_Name = ''web'', sco_ServerType = ''cx22'', sco_Image = ''debian-12'', sco_Location = ''fsn1'',
     sco_Labels = [], sco_SSHKeys = [''oops'', ''ops''], sco_UserData = '''', sco_PlacementGroupID = 0 \<rparr>"

text \<open>The misspelt key is dropped and the server made with the other one only.\<close>

theorem server_creation_branches_witness:
  "fst (CreateServer (real_client ([], []) key_sdk) server_wish no_tables) = Ok (toServerInfo (build_server
     \<lparr> sdsc_Name = ''web'', sdsc_ServerType = \<lparr> sdn_ID = 1, sdn_Name = ''cx22'' \<rparr>, sdsc_Image = \<lparr> sdn_ID = 1, sdn_Name = ''debian-12'' \<rparr>,
       sdsc_Location = \<lparr> sdn_ID = 1, sdn_Name = ''fsn1'' \<rparr>, sdsc_Labels = [], sdsc_SSHKeys = [\<lparr> sdn_ID = 5, sdn_Name = ''ops'' \<rparr>],
       sdsc_UserData = '''', sdsc_PlacementGroup = None \<rparr> 1))"
proof -
  have "catalogue (ServerType_GetByName key_sdk) (cat_types key_catalogue)" "catalogue (Image_GetByName key_sdk) (cat_images key_catalogue)"
    "catalogue (Location_GetByName key_sdk) (cat_locations key_catalogue)" "catalogue (SSHKey_GetByName key_sdk) (cat_keys key_catalogue)"
    "PlacementGroup_GetByID key_sdk (sco_PlacementGroupID server_wish) no_tables = (Ok None, no_tables)"
    by (simp_all add: catalogue_def key_sdk_def key_catalogue_def table_sdk_def any_catalogue_def tab_get_def no_tables_def)
  from server_creation_branches[OF this, of "([], [])"] show ?thesis
    by (simp add: key_catalogue_def any_catalogue_def any_named_def server_wish_def map_filter_simps key_sdk_def table_sdk_def
        tab_create_def no_tables_def Let_def)
qed

definition applied_sdk_firewall :: SdkFirewall where
  "applied_sdk_firewall = \<lparr> sdfw_ID = 3, sdfw_Name = ''web'', sdfw_Labels = [], sdfw_Rules = [],
     sdfw_AppliedTo = [\<lparr> sdfa_Type = ''server'', sdfa_Server = Some 7, sdfa_LabelSelector = None \<rparr>] \<rparr>"

definition firewall_sdk :: "bool Sdk" where
  "firewall_sdk = failing_sdk\<lparr>Firewall_GetByID := \<lambda>_. ret (Some applied_sdk_firewall),
     Firewall_RemoveResources := \<lambda>_ _. failM (APIError ''firewall_already_removed'' ''gone'' ''gone''),
     Firewall_Delete := \<lambda>_. modM (\<lambda>_. True)\<rparr>"

theorem firewall_detached_first_witness:
  "DeleteFirewall (real_client ([], []) firewall_sdk) 3 False = (Ok (), True)"
  using firewall_detached_first[of firewall_sdk 3 False applied_sdk_firewall "sdfw_AppliedTo applied_sdk_firewall" "([], [])"]
  by (simp add: firewall_sdk_def applied_sdk_firewall_def firewallInfoFromSDK_def applied_from_sdk_def map_filter_simps
      firewallApplyResourcesToSDK_def apply_to_sdk_def)

end
