(* ===== verification/Spec2Isabelle.thy ===== *)
theory Spec2Isabelle
  imports Composition WiringProps Metrics Generator DeepCopyProps Abandoned Contention ServerLifecycle FirewallProps LoadBalancerProps FloatingIPProps NetworkProps ServiceProps WireProps ClientProps
begin

text \<open>
  \<^bold>\<open>hcloud-operator.\<close> A Kubernetes operator that keeps resources of the Hetzner Cloud as nine kinds
  of custom resources say. A base reconciler (\<open>internal/reconcile/base.go\<close>) reads an object, adds
  its finalizer, calls the reconciler of its kind (\<open>internal/controller\<close>) and writes the status;
  on deletion it calls the cleanup of the kind and removes the finalizer. The reconcilers call the
  cloud through \<open>hcloud.Interface\<close>, which has three implementations in \<open>internal/hcloud\<close>: the
  production client over the SDK, the in-memory client of the tests, and a wrapper that counts calls.

  \<^bold>\<open>How the code is modelled.\<close> A Go call is a program \<open>('s, 'a) prog\<close> (Prelude): a function of the
  state to a result and a state, the result being a value, an error or a panic. A reconcile runs on
  the record \<open>rst\<close> (KubeTypes): the state of the cloud, of the API server, the object in memory, the
  events and the metrics. Structs are records, pointers options, Go maps association lists; a loop
  over a map takes the order of its entries from a list of choices, so a theorem holds for every
  order. Identifiers are integers, durations 64-bit words. An error keeps its wrapped texts.

  \<^bold>\<open>Theories.\<close>
  \<^item> Prelude: results, sequencing, maps, iteration order, number and string formatting. GoNet, NetText:
    \<open>net.ParseCIDR\<close>, \<open>IP.String\<close> and \<open>IPNet.String\<close> of the Go library.
  \<^item> CloudTypes: the types and the interface of \<open>client.go\<close>. CloudStore: the contract of one resource
    kind, with the find-or-create step; FakeClient, FakeStore, FakeLaws, FakeRuns: the in-memory client of
    \<open>fake_client.go\<close>, its invariant, and its nine tables as interpretations of that contract.
  \<^item> KubeTypes: the API types and the parts of controller-runtime that the code relies on, as parameters
    with named laws (\<open>api_law\<close>, \<open>lib_ok\<close>); SampleApi instantiates them for the witnesses.
  \<^item> BaseReconciler, BaseLaws, BaseProps, Contention: \<open>base.go\<close>, the status write under conflicts, the
    contract of a reconciler. DomainSim, ReconcileLaws, ClientLaws, ControllerLib: parametricity of the programs in
    the client they call, from which invariants and equivalences of all controllers follow at once.
  \<^item> ServerCtl, VolumeCtl, LoadBalancerCtl, NetworkCtl, FirewallCtl, PlacementGroupCtl, PrimaryIPCtl,
    FloatingIPCtl, CertificateCtl: the nine files of \<open>internal/controller\<close>, each an interpretation of
    the contract of a reconciler.
  \<^item> Instrumented, Parametric: \<open>instrumented.go\<close>; what holds of every controller over every client.
  \<^item> Isolation: each controller over a client that has only the methods of its kind. Outcomes, Abandoned:
    programs that write nothing before they can no longer fail, and what is left behind when they fail.
  \<^item> Tracking, TrackedKinds: the locale of a kind whose resources are accounted for, with its instances for
    servers, networks, firewalls and placement groups. Operator: the steps of the whole operator, which are
    the runs of the nine controllers that \<open>main\<close> registers, the edits of users and the changes of the cloud.
    Composition: the volume controller waiting for the server controller.
  \<^item> Metrics: the collectors of \<open>internal/metrics/metrics.go\<close>. Generator: \<open>hack/generate-instrumented.go\<close>, the
    program that writes \<open>instrumented.go\<close> from the syntax tree of \<open>client.go\<close>.
  \<^item> Wiring, WiringProps: the types the scheme knows, \<open>SetupWithManager\<close> of the nine controllers with their
    indexes and watches, \<open>metrics.Register\<close> and \<open>main\<close> (\<open>cmd/main.go\<close>), over a manager that is a parameter.
  \<^item> GoMemory, CopyLaws, DeepCopies, DeepCopyProps: memory with pointers, slices and maps, and on it the
    hundred functions of \<open>zz_generated.deepcopy.go\<close>, one definition each.
  \<^item> Sdk: the SDK as a parameter. SdkConvert, LBService, ApiErrors, RealClient, RealClient2: the
    production client, \<open>client.go\<close>, \<open>firewall.go\<close>, \<open>loadbalancer_service.go\<close>, \<open>apierrors.go\<close>.
  \<^item> SdkStore, ClientStore: what the cloud documents of a resource kind (\<open>sdk_law\<close>), and the production
    client as a refinement of the store contract under it. SampleSdk, TableSdk: services for witnesses.

  \<^bold>\<open>What is proved.\<close>
  \<^item> Base reconciler: the finalizer goes only after a cleanup that succeeded and comes before the cloud
    is touched; results and errors reach the stored status despite a stale resource version (BaseProps)
    and up to four writes of others, and are lost at the fifth (Contention).
  \<^item> All controllers: they keep to the contract the base reconciler relies on, keep the invariant of
    the in-memory client, and do the same through the instrumented client (BaseProps, Parametric); each
    calls only the methods of its own kind and changes only the table of its own kind (Isolation).
  \<^item> The operator as a whole: in every state it can reach from an empty cloud, every server, network,
    firewall and placement group is that of a stored object of its name, which carries the finalizer and
    the identifier of the resource (Operator). Runs follow one another; a process that is killed inside a
    run, between a creation and the write of the identifier, is not a step. A volume waits for the server
    it names and is created on it as soon as that server has been made (Composition).
  \<^item> Start: \<open>main\<close> registers everything, in order, before it starts the manager; a changed server or
    certificate wakes exactly the objects that name it (WiringProps). Deep copies share nothing with
    their originals (DeepCopyProps).
  \<^item> Servers: no second server of a name, exactly one server made, the resize state machine to its
    end, networks, placement groups (ServerProps, ServerLifecycle). Firewalls, load balancers, volumes,
    addresses, networks, certificates: one reconcile brings the cloud to what the spec says, and one in
    sync is left alone (FirewallProps, LoadBalancerProps, VolumeProps, PrimaryIPProps, FloatingIPProps,
    NetworkProps); the cleanups remove what they should (DeletionProps).
  \<^item> Production client: service synchronisation ends with the wanted services and settles (ServiceProps),
    rules survive the way to the SDK and back (WireProps), the refinement of the store contract,
    creation at most once, the branches of a server's creation, detaching before deletion
    (ClientStore, ClientProps).
  \<^item> Build and metrics: the generator writes for every method a wrapper that passes every parameter on
    (Generator); the histograms count what the counters count (Metrics).
  \<^item> Defects the model shows: a reverted resize stays off, a vanished server panics, deletion of a lost
    volume or address never finishes, a resource whose first reconcile fails can be left in the cloud by
    the deletion of its object (Abandoned), a foreign assignment is undone, rules with host bits and health
    checks with open fields are written on every reconcile, the generated file lacks an import and the
    \<open>go:generate\<close> directive runs the generator where it finds no source.

  \<^bold>\<open>Bounds.\<close> The status write is tried at most five times, the steps of \<open>retry.DefaultRetry\<close>, which the
  code passes, and Contention shows that the fifth conflict ends it. Nothing else needs fuel: every loop
  of the code walks a list or a map. Repeated runs of a reconciler are
  iterations of any length.

  \<^bold>\<open>Not modelled.\<close> Logging, contexts and cancellation, the measured durations, the Prometheus client with
  the buckets and floating-point seconds of its histograms; timestamps of conditions; reads from a stale
  cache and the concurrency of workers (a run is one sequence of calls; other writers appear as conflicts
  of the status write); waiting for actions of the cloud, which the code does not do either; the manager,
  the scheme and the flag package, the Go parser and the file system of the generator, which are
  parameters; charts and end-to-end tests. Of the controllers that wait for one another only volumes and
  servers are composed; convergence over the production client is not stated for the kinds whose updates
  \<open>sdk_law\<close> does not describe.
\<close>

end
